(* ===== verification/Prelude.thy ===== *)
theory Prelude
  imports Complex_Main
begin

text \<open>
  Shared vocabulary of the development: relational tables as lists of rows with the
  SQL statements the repositories issue (select one, select many, conditional update,
  insert), pagination as the list endpoints do it, and the Python string operations
  the schemas use.  The laws of a primary-key lookup against a row update are stated
  once, in the locale \<open>keyed_update\<close>, and every table operation of the model
  interprets it.
\<close>

named_theorems row_simps  \<comment> \<open>field equations of the row updates\<close>
named_theorems keeps_intros  \<comment> \<open>one preservation rule per program construct\<close>
named_theorems prog_simps  \<comment> \<open>symbolic execution of programs\<close>

section \<open>Tables\<close>

text \<open>
  A table is the list of its rows in insertion order.  \<open>select_one\<close> is
  \<open>scalar_one_or_none\<close> for a predicate that a key constraint makes unique, and
  \<open>update_where\<close> an \<open>UPDATE ... WHERE\<close>.
\<close>

type_synonym 'r table = "'r list"

definition select_one :: "('r \<Rightarrow> bool) \<Rightarrow> 'r table \<Rightarrow> 'r option" where
  "select_one P t = List.find P t"

definition select_all :: "('r \<Rightarrow> bool) \<Rightarrow> 'r table \<Rightarrow> 'r list" where
  "select_all P t = filter P t"

definition update_where :: "('r \<Rightarrow> bool) \<Rightarrow> ('r \<Rightarrow> 'r) \<Rightarrow> 'r table \<Rightarrow> 'r table" where
  "update_where P f t = map (\<lambda>r. if P r then f r else r) t"

lemma select_one_Nil [simp]: "select_one P [] = None"
  by (simp add: select_one_def)

lemma select_one_Cons [simp]:
  "select_one P (r # t) = (if P r then Some r else select_one P t)"
  by (simp add: select_one_def)

lemma select_one_SomeD: "select_one P t = Some r \<Longrightarrow> r \<in> set t \<and> P r"
  by (induction t) (auto split: if_splits)

lemma select_one_None_iff: "select_one P t = None \<longleftrightarrow> (\<forall>r\<in>set t. \<not> P r)"
  by (induction t) auto

lemma select_one_append:
  "select_one P (t @ u) = (case select_one P t of Some r \<Rightarrow> Some r | None \<Rightarrow> select_one P u)"
  by (induction t) auto

lemma select_one_snoc_old [simp]:
  "select_one P t = Some r \<Longrightarrow> select_one P (t @ u) = Some r"
  by (simp add: select_one_append)

lemma select_one_cong:
  "(\<And>r. r \<in> set t \<Longrightarrow> P r = Q r) \<Longrightarrow> select_one P t = select_one Q t"
  by (induction t) auto

lemma update_where_Nil [simp]: "update_where P f [] = []"
  by (simp add: update_where_def)

lemma update_where_Cons [simp]:
  "update_where P f (r # t) = (if P r then f r else r) # update_where P f t"
  by (simp add: update_where_def)

lemma update_where_append [simp]:
  "update_where P f (t @ u) = update_where P f t @ update_where P f u"
  by (simp add: update_where_def)

lemma length_update_where [simp]: "length (update_where P f t) = length t"
  by (simp add: update_where_def)

lemma update_where_none: "(\<And>r. r \<in> set t \<Longrightarrow> \<not> P r) \<Longrightarrow> update_where P f t = t"
  by (induction t) auto

lemma filter_update_where_other:
  "(\<And>r. P r \<Longrightarrow> \<not> Q r) \<Longrightarrow> (\<And>r. P r \<Longrightarrow> \<not> Q (f r)) \<Longrightarrow>
    filter Q (update_where P f t) = filter Q t"
  by (induction t) auto

lemma map_update_where_same:
  "(\<And>r. P r \<Longrightarrow> g (f r) = g r) \<Longrightarrow> map g (update_where P f t) = map g t"
  by (induction t) auto

lemma list_all2_update_where:
  "(\<And>r. P r \<Longrightarrow> Q r (f r)) \<Longrightarrow> (\<And>r. Q r r) \<Longrightarrow> list_all2 Q t (update_where P f t)"
  by (induction t) auto

text \<open>
  The interface between a keyed table and an update of it: the update keeps the key.
  Lookups of the updated key then see the updated row, all other keys are unaffected,
  and no key appears or disappears.
\<close>

locale keyed_update =
  fixes key :: "'r \<Rightarrow> 'k"
    and f :: "'r \<Rightarrow> 'r"
  assumes key_update: "key (f r) = key r"
begin

lemma select_updated:
  "select_one (\<lambda>r. key r = k) (update_where (\<lambda>r. key r = k \<and> P r) f t) =
    map_option (\<lambda>r. if P r then f r else r) (select_one (\<lambda>r. key r = k) t)"
  by (induction t) (auto simp: key_update)

lemma select_other:
  "k' \<noteq> k \<Longrightarrow>
    select_one (\<lambda>r. key r = k') (update_where (\<lambda>r. key r = k \<and> P r) f t) =
    select_one (\<lambda>r. key r = k') t"
  by (induction t) (auto simp: key_update)

lemma keys_updated: "map key (update_where P f t) = map key t"
  by (induction t) (auto simp: key_update)

lemma distinct_updated: "distinct (map key (update_where P f t)) = distinct (map key t)"
  by (simp add: keys_updated)

end

section \<open>Pagination\<close>

text \<open>\<open>Page\<close> of \<open>repositories/base.py\<close> and \<open>PaginationParams\<close> of \<open>schemas/common.py\<close>.\<close>

record 'a page =
  pg_items :: "'a list"
  pg_total :: nat
  pg_limit :: int
  pg_offset :: int

record pagination =
  pa_limit :: int
  pa_offset :: int

definition slice :: "pagination \<Rightarrow> 'a list \<Rightarrow> 'a list" where
  "slice p xs = take (nat (pa_limit p)) (drop (nat (pa_offset p)) xs)"

definition paginate :: "pagination \<Rightarrow> 'a list \<Rightarrow> 'a page" where
  "paginate p xs =
    \<lparr>pg_items = slice p xs, pg_total = length xs, pg_limit = pa_limit p, pg_offset = pa_offset p\<rparr>"

text \<open>\<open>ORDER BY created_at [DESC]\<close>; rows with equal timestamps keep insertion order.\<close>

definition order_by :: "('r \<Rightarrow> int) \<Rightarrow> 'r list \<Rightarrow> 'r list" where
  "order_by ts xs = sort_key ts xs"

definition order_by_desc :: "('r \<Rightarrow> int) \<Rightarrow> 'r list \<Rightarrow> 'r list" where
  "order_by_desc ts xs = sort_key (\<lambda>r. - ts r) xs"

lemma set_slice_subset: "set (slice p xs) \<subseteq> set xs"
  by (auto simp: slice_def dest: in_set_takeD in_set_dropD)

lemma set_order_by [simp]: "set (order_by ts xs) = set xs"
  by (simp add: order_by_def)

lemma set_order_by_desc [simp]: "set (order_by_desc ts xs) = set xs"
  by (simp add: order_by_desc_def)

section \<open>Python strings\<close>

text \<open>
  Strings are lists of code points below 256 (Latin-1), on which the functions below
  agree with Python's \<open>str\<close> methods.  \<open>or_default\<close> is Python's \<open>x or y\<close> on
  an optional string: both \<open>None\<close> and the empty string are falsy.
\<close>

definition or_default :: "string option \<Rightarrow> string \<Rightarrow> string" where
  "or_default x y = (case x of None \<Rightarrow> y | Some s \<Rightarrow> if s = [] then y else s)"

definition truthy :: "string option \<Rightarrow> bool" where
  "truthy x = (case x of None \<Rightarrow> False | Some s \<Rightarrow> s \<noteq> [])"

definition is_space :: "char \<Rightarrow> bool" where
  "is_space c = (let n = of_char c :: nat in
     (9 \<le> n \<and> n \<le> 13) \<or> (28 \<le> n \<and> n \<le> 32) \<or> n = 133 \<or> n = 160)"

definition strip :: "string \<Rightarrow> string" where
  "strip s = rev (dropWhile is_space (rev (dropWhile is_space s)))"

definition lower_char :: "char \<Rightarrow> char" where
  "lower_char c = (let n = of_char c :: nat in
     if (65 \<le> n \<and> n \<le> 90) \<or> (192 \<le> n \<and> n \<le> 222 \<and> n \<noteq> 215) then char_of (n + 32) else c)"

definition lower :: "string \<Rightarrow> string" where
  "lower s = map lower_char s"

lemma lower_char_idem [simp]: "lower_char (lower_char c) = lower_char c"
proof -
  have "(of_char c :: nat) < 256" by (metis nat_of_char_less_256)
  then show ?thesis by (auto simp: lower_char_def Let_def of_char_of)
qed

lemma is_space_lower_char [simp]: "is_space (lower_char c) = is_space c"
proof -
  have "(of_char c :: nat) < 256" by (metis nat_of_char_less_256)
  then show ?thesis by (auto simp: lower_char_def is_space_def Let_def of_char_of)
qed

lemma lower_idem [simp]: "lower (lower s) = lower s"
  by (simp add: lower_def)

lemma dropWhile_lower: "dropWhile is_space (lower s) = lower (dropWhile is_space s)"
  by (induction s) (auto simp: lower_def)

lemma strip_lower: "strip (lower s) = lower (strip s)"
  by (simp add: strip_def dropWhile_lower lower_def rev_map dropWhile_map comp_def)

lemma strip_ends:
  "strip s \<noteq> [] \<Longrightarrow> \<not> is_space (hd (strip s)) \<and> \<not> is_space (last (strip s))"
proof -
  define u where "u = dropWhile is_space s"
  assume a: "strip s \<noteq> []"
  then have ne: "dropWhile is_space (rev u) \<noteq> []" by (simp add: strip_def u_def)
  then have l: "\<not> is_space (last (strip s))"
    by (simp add: strip_def u_def last_rev hd_dropWhile)
  obtain ys where ys: "rev u = ys @ dropWhile is_space (rev u)"
    by (metis takeWhile_dropWhile_id)
  then have "u = strip s @ rev ys"
    by (metis rev_append rev_rev_ident strip_def u_def)
  then have "hd (strip s) = hd u" and "u \<noteq> []" using a by auto
  then have "\<not> is_space (hd (strip s))" by (metis hd_dropWhile u_def)
  with l show ?thesis by simp
qed

lemma strip_id:
  "s \<noteq> [] \<Longrightarrow> \<not> is_space (hd s) \<Longrightarrow> \<not> is_space (last s) \<Longrightarrow> strip s = s"
proof -
  assume a: "s \<noteq> []" "\<not> is_space (hd s)" "\<not> is_space (last s)"
  then have "dropWhile is_space s = s" by (cases s) auto
  moreover have "dropWhile is_space (rev s) = rev s"
    using a by (cases s rule: rev_cases) auto
  ultimately show ?thesis by (simp add: strip_def)
qed

lemma strip_idem [simp]: "strip (strip s) = strip s"
proof (cases "strip s = []")
  case True
  show ?thesis unfolding True by (simp add: strip_def)
next
  case False
  then show ?thesis using strip_id strip_ends by blast
qed

end
