(* ===== verification/Enums.thy ===== *)
theory Enums
  imports Prelude
begin

text \<open>
  The enumerations of \<open>models/enums.py\<close>.  Each is a \<open>StrEnum\<close>: its constructors carry
  a string value, and \<open>Enum(value)\<close> finds the constructor back or raises
  \<open>ValueError\<close>.  That contract is the locale \<open>str_enum\<close>; every enumeration
  interprets it, so the round trip between a member and its stored string holds for all.
\<close>

section \<open>The contract of a string enumeration\<close>

definition enum_of :: "'a list \<Rightarrow> ('a \<Rightarrow> string) \<Rightarrow> string \<Rightarrow> 'a option" where
  "enum_of members val s = List.find (\<lambda>m. val m = s) members"

locale str_enum =
  fixes members :: "'a list"
    and val :: "'a \<Rightarrow> string"
  assumes complete: "x \<in> set members"
    and val_inject: "val x = val y \<Longrightarrow> x = y"
begin

lemma enum_of_val: "enum_of members val (val x) = Some x"
proof (cases "enum_of members val (val x)")
  case None
  then show ?thesis using complete by (auto simp: enum_of_def find_None_iff)
next
  case (Some y)
  then have "val y = val x" by (auto simp: enum_of_def find_Some_iff)
  then show ?thesis using Some val_inject by blast
qed

lemma enum_of_SomeD: "enum_of members val s = Some x \<Longrightarrow> val x = s"
  by (auto simp: enum_of_def find_Some_iff)

lemma enum_of_None_iff: "enum_of members val s = None \<longleftrightarrow> (\<forall>x. val x \<noteq> s)"
  using complete by (auto simp: enum_of_def find_None_iff)

end

section \<open>The enumerations\<close>

datatype tenant_status =
    TenantActive
  | TenantSuspended
  | TenantArchived

fun tenant_status_value :: "tenant_status \<Rightarrow> string" where
  "tenant_status_value TenantActive = ''active''"
| "tenant_status_value TenantSuspended = ''suspended''"
| "tenant_status_value TenantArchived = ''archived''"

definition tenant_status_members :: "tenant_status list" where
  "tenant_status_members = [TenantActive, TenantSuspended, TenantArchived]"

interpretation tenant_status: str_enum tenant_status_members tenant_status_value
proof
  fix x y :: tenant_status
  show "x \<in> set tenant_status_members" by (cases x) (simp_all add: tenant_status_members_def)
  show "tenant_status_value x = tenant_status_value y \<Longrightarrow> x = y" by (cases x; cases y) simp_all
qed

datatype user_status =
    UserActive
  | UserSuspended
  | UserDeactivated

fun user_status_value :: "user_status \<Rightarrow> string" where
  "user_status_value UserActive = ''active''"
| "user_status_value UserSuspended = ''suspended''"
| "user_status_value UserDeactivated = ''deactivated''"

definition user_status_members :: "user_status list" where
  "user_status_members = [UserActive, UserSuspended, UserDeactivated]"

interpretation user_status: str_enum user_status_members user_status_value
proof
  fix x y :: user_status
  show "x \<in> set user_status_members" by (cases x) (simp_all add: user_status_members_def)
  show "user_status_value x = user_status_value y \<Longrightarrow> x = y" by (cases x; cases y) simp_all
qed

datatype membership_role =
    OWNER
  | ADMINISTRATOR
  | SECURITY_ANALYST
  | DEVELOPER
  | VIEWER

fun membership_role_value :: "membership_role \<Rightarrow> string" where
  "membership_role_value OWNER = ''owner''"
| "membership_role_value ADMINISTRATOR = ''administrator''"
| "membership_role_value SECURITY_ANALYST = ''security_analyst''"
| "membership_role_value DEVELOPER = ''developer''"
| "membership_role_value VIEWER = ''viewer''"

definition membership_role_members :: "membership_role list" where
  "membership_role_members = [OWNER, ADMINISTRATOR, SECURITY_ANALYST, DEVELOPER, VIEWER]"

interpretation membership_role: str_enum membership_role_members membership_role_value
proof
  fix x y :: membership_role
  show "x \<in> set membership_role_members" by (cases x) (simp_all add: membership_role_members_def)
  show "membership_role_value x = membership_role_value y \<Longrightarrow> x = y" by (cases x; cases y) simp_all
qed

datatype membership_status =
    MemberActive
  | MemberInvited
  | MemberSuspended
  | MemberRemoved

fun membership_status_value :: "membership_status \<Rightarrow> string" where
  "membership_status_value MemberActive = ''active''"
| "membership_status_value MemberInvited = ''invited''"
| "membership_status_value MemberSuspended = ''suspended''"
| "membership_status_value MemberRemoved = ''removed''"

definition membership_status_members :: "membership_status list" where
  "membership_status_members = [MemberActive, MemberInvited, MemberSuspended, MemberRemoved]"

interpretation membership_status: str_enum membership_status_members membership_status_value
proof
  fix x y :: membership_status
  show "x \<in> set membership_status_members" by (cases x) (simp_all add: membership_status_members_def)
  show "membership_status_value x = membership_status_value y \<Longrightarrow> x = y" by (cases x; cases y) simp_all
qed

datatype project_status =
    ProjectActive
  | ProjectArchived

fun project_status_value :: "project_status \<Rightarrow> string" where
  "project_status_value ProjectActive = ''active''"
| "project_status_value ProjectArchived = ''archived''"

definition project_status_members :: "project_status list" where
  "project_status_members = [ProjectActive, ProjectArchived]"

interpretation project_status: str_enum project_status_members project_status_value
proof
  fix x y :: project_status
  show "x \<in> set project_status_members" by (cases x) (simp_all add: project_status_members_def)
  show "project_status_value x = project_status_value y \<Longrightarrow> x = y" by (cases x; cases y) simp_all
qed

datatype asset_type =
    WEBSITE
  | API
  | REPOSITORY
  | CONTAINER_IMAGE
  | INFRASTRUCTURE
  | DOMAIN
  | IP_RANGE

fun asset_type_value :: "asset_type \<Rightarrow> string" where
  "asset_type_value WEBSITE = ''website''"
| "asset_type_value API = ''api''"
| "asset_type_value REPOSITORY = ''repository''"
| "asset_type_value CONTAINER_IMAGE = ''container_image''"
| "asset_type_value INFRASTRUCTURE = ''infrastructure''"
| "asset_type_value DOMAIN = ''domain''"
| "asset_type_value IP_RANGE = ''ip_range''"

definition asset_type_members :: "asset_type list" where
  "asset_type_members = [WEBSITE, API, REPOSITORY, CONTAINER_IMAGE, INFRASTRUCTURE, DOMAIN, IP_RANGE]"

interpretation asset_type: str_enum asset_type_members asset_type_value
proof
  fix x y :: asset_type
  show "x \<in> set asset_type_members" by (cases x) (simp_all add: asset_type_members_def)
  show "asset_type_value x = asset_type_value y \<Longrightarrow> x = y" by (cases x; cases y) simp_all
qed

datatype asset_environment =
    EnvProduction
  | EnvStaging
  | EnvDevelopment
  | EnvTest
  | EnvUnknown

fun asset_environment_value :: "asset_environment \<Rightarrow> string" where
  "asset_environment_value EnvProduction = ''production''"
| "asset_environment_value EnvStaging = ''staging''"
| "asset_environment_value EnvDevelopment = ''development''"
| "asset_environment_value EnvTest = ''test''"
| "asset_environment_value EnvUnknown = ''unknown''"

definition asset_environment_members :: "asset_environment list" where
  "asset_environment_members = [EnvProduction, EnvStaging, EnvDevelopment, EnvTest, EnvUnknown]"

interpretation asset_environment: str_enum asset_environment_members asset_environment_value
proof
  fix x y :: asset_environment
  show "x \<in> set asset_environment_members" by (cases x) (simp_all add: asset_environment_members_def)
  show "asset_environment_value x = asset_environment_value y \<Longrightarrow> x = y" by (cases x; cases y) simp_all
qed

datatype asset_status =
    AssetActive
  | AssetInactive
  | AssetDecommissioned

fun asset_status_value :: "asset_status \<Rightarrow> string" where
  "asset_status_value AssetActive = ''active''"
| "asset_status_value AssetInactive = ''inactive''"
| "asset_status_value AssetDecommissioned = ''decommissioned''"

definition asset_status_members :: "asset_status list" where
  "asset_status_members = [AssetActive, AssetInactive, AssetDecommissioned]"

interpretation asset_status: str_enum asset_status_members asset_status_value
proof
  fix x y :: asset_status
  show "x \<in> set asset_status_members" by (cases x) (simp_all add: asset_status_members_def)
  show "asset_status_value x = asset_status_value y \<Longrightarrow> x = y" by (cases x; cases y) simp_all
qed

datatype authorization_status =
    Unauthorized
  | AuthPending
  | Authorized
  | AuthExpired
  | AuthRevoked

fun authorization_status_value :: "authorization_status \<Rightarrow> string" where
  "authorization_status_value Unauthorized = ''unauthorized''"
| "authorization_status_value AuthPending = ''pending''"
| "authorization_status_value Authorized = ''authorized''"
| "authorization_status_value AuthExpired = ''expired''"
| "authorization_status_value AuthRevoked = ''revoked''"

definition authorization_status_members :: "authorization_status list" where
  "authorization_status_members = [Unauthorized, AuthPending, Authorized, AuthExpired, AuthRevoked]"

interpretation authorization_status: str_enum authorization_status_members authorization_status_value
proof
  fix x y :: authorization_status
  show "x \<in> set authorization_status_members" by (cases x) (simp_all add: authorization_status_members_def)
  show "authorization_status_value x = authorization_status_value y \<Longrightarrow> x = y" by (cases x; cases y) simp_all
qed

datatype scan_status =
    PENDING
  | QUEUED
  | PREPARING
  | RUNNING
  | COLLECTING
  | PROCESSING
  | SUCCEEDED
  | FAILED
  | CANCELLED
  | TIMED_OUT

fun scan_status_value :: "scan_status \<Rightarrow> string" where
  "scan_status_value PENDING = ''pending''"
| "scan_status_value QUEUED = ''queued''"
| "scan_status_value PREPARING = ''preparing''"
| "scan_status_value RUNNING = ''running''"
| "scan_status_value COLLECTING = ''collecting''"
| "scan_status_value PROCESSING = ''processing''"
| "scan_status_value SUCCEEDED = ''succeeded''"
| "scan_status_value FAILED = ''failed''"
| "scan_status_value CANCELLED = ''cancelled''"
| "scan_status_value TIMED_OUT = ''timed_out''"

definition scan_status_members :: "scan_status list" where
  "scan_status_members = [PENDING, QUEUED, PREPARING, RUNNING, COLLECTING, PROCESSING, SUCCEEDED, FAILED, CANCELLED, TIMED_OUT]"

interpretation scan_status: str_enum scan_status_members scan_status_value
proof
  fix x y :: scan_status
  show "x \<in> set scan_status_members" by (cases x) (simp_all add: scan_status_members_def)
  show "scan_status_value x = scan_status_value y \<Longrightarrow> x = y" by (cases x; cases y) simp_all
qed

datatype finding_severity =
    SevInformational
  | SevLow
  | SevMedium
  | SevHigh
  | SevCritical

fun finding_severity_value :: "finding_severity \<Rightarrow> string" where
  "finding_severity_value SevInformational = ''informational''"
| "finding_severity_value SevLow = ''low''"
| "finding_severity_value SevMedium = ''medium''"
| "finding_severity_value SevHigh = ''high''"
| "finding_severity_value SevCritical = ''critical''"

definition finding_severity_members :: "finding_severity list" where
  "finding_severity_members = [SevInformational, SevLow, SevMedium, SevHigh, SevCritical]"

interpretation finding_severity: str_enum finding_severity_members finding_severity_value
proof
  fix x y :: finding_severity
  show "x \<in> set finding_severity_members" by (cases x) (simp_all add: finding_severity_members_def)
  show "finding_severity_value x = finding_severity_value y \<Longrightarrow> x = y" by (cases x; cases y) simp_all
qed

datatype finding_status =
    FindingOpen
  | FindingAcknowledged
  | FindingInProgress
  | FindingResolved
  | FindingAcceptedRisk
  | FindingFalsePositive

fun finding_status_value :: "finding_status \<Rightarrow> string" where
  "finding_status_value FindingOpen = ''open''"
| "finding_status_value FindingAcknowledged = ''acknowledged''"
| "finding_status_value FindingInProgress = ''in_progress''"
| "finding_status_value FindingResolved = ''resolved''"
| "finding_status_value FindingAcceptedRisk = ''accepted_risk''"
| "finding_status_value FindingFalsePositive = ''false_positive''"

definition finding_status_members :: "finding_status list" where
  "finding_status_members = [FindingOpen, FindingAcknowledged, FindingInProgress, FindingResolved, FindingAcceptedRisk, FindingFalsePositive]"

interpretation finding_status: str_enum finding_status_members finding_status_value
proof
  fix x y :: finding_status
  show "x \<in> set finding_status_members" by (cases x) (simp_all add: finding_status_members_def)
  show "finding_status_value x = finding_status_value y \<Longrightarrow> x = y" by (cases x; cases y) simp_all
qed

datatype finding_confidence =
    ConfLow
  | ConfMedium
  | ConfHigh
  | ConfConfirmed

fun finding_confidence_value :: "finding_confidence \<Rightarrow> string" where
  "finding_confidence_value ConfLow = ''low''"
| "finding_confidence_value ConfMedium = ''medium''"
| "finding_confidence_value ConfHigh = ''high''"
| "finding_confidence_value ConfConfirmed = ''confirmed''"

definition finding_confidence_members :: "finding_confidence list" where
  "finding_confidence_members = [ConfLow, ConfMedium, ConfHigh, ConfConfirmed]"

interpretation finding_confidence: str_enum finding_confidence_members finding_confidence_value
proof
  fix x y :: finding_confidence
  show "x \<in> set finding_confidence_members" by (cases x) (simp_all add: finding_confidence_members_def)
  show "finding_confidence_value x = finding_confidence_value y \<Longrightarrow> x = y" by (cases x; cases y) simp_all
qed

datatype finding_reference_type =
    RefCve
  | RefCwe
  | RefOwasp
  | RefAdvisoryUrl
  | RefVendorId

fun finding_reference_type_value :: "finding_reference_type \<Rightarrow> string" where
  "finding_reference_type_value RefCve = ''cve''"
| "finding_reference_type_value RefCwe = ''cwe''"
| "finding_reference_type_value RefOwasp = ''owasp''"
| "finding_reference_type_value RefAdvisoryUrl = ''advisory_url''"
| "finding_reference_type_value RefVendorId = ''vendor_id''"

definition finding_reference_type_members :: "finding_reference_type list" where
  "finding_reference_type_members = [RefCve, RefCwe, RefOwasp, RefAdvisoryUrl, RefVendorId]"

interpretation finding_reference_type: str_enum finding_reference_type_members finding_reference_type_value
proof
  fix x y :: finding_reference_type
  show "x \<in> set finding_reference_type_members" by (cases x) (simp_all add: finding_reference_type_members_def)
  show "finding_reference_type_value x = finding_reference_type_value y \<Longrightarrow> x = y" by (cases x; cases y) simp_all
qed

datatype audit_outcome =
    AuditSuccess
  | AuditFailure
  | AuditDenied

fun audit_outcome_value :: "audit_outcome \<Rightarrow> string" where
  "audit_outcome_value AuditSuccess = ''success''"
| "audit_outcome_value AuditFailure = ''failure''"
| "audit_outcome_value AuditDenied = ''denied''"

definition audit_outcome_members :: "audit_outcome list" where
  "audit_outcome_members = [AuditSuccess, AuditFailure, AuditDenied]"

interpretation audit_outcome: str_enum audit_outcome_members audit_outcome_value
proof
  fix x y :: audit_outcome
  show "x \<in> set audit_outcome_members" by (cases x) (simp_all add: audit_outcome_members_def)
  show "audit_outcome_value x = audit_outcome_value y \<Longrightarrow> x = y" by (cases x; cases y) simp_all
qed

datatype api_key_status =
    KeyActive
  | KeyRevoked
  | KeyExpired

fun api_key_status_value :: "api_key_status \<Rightarrow> string" where
  "api_key_status_value KeyActive = ''active''"
| "api_key_status_value KeyRevoked = ''revoked''"
| "api_key_status_value KeyExpired = ''expired''"

definition api_key_status_members :: "api_key_status list" where
  "api_key_status_members = [KeyActive, KeyRevoked, KeyExpired]"

interpretation api_key_status: str_enum api_key_status_members api_key_status_value
proof
  fix x y :: api_key_status
  show "x \<in> set api_key_status_members" by (cases x) (simp_all add: api_key_status_members_def)
  show "api_key_status_value x = api_key_status_value y \<Longrightarrow> x = y" by (cases x; cases y) simp_all
qed

datatype refresh_token_status =
    TokenActive
  | TokenRotated
  | TokenRevoked

fun refresh_token_status_value :: "refresh_token_status \<Rightarrow> string" where
  "refresh_token_status_value TokenActive = ''active''"
| "refresh_token_status_value TokenRotated = ''rotated''"
| "refresh_token_status_value TokenRevoked = ''revoked''"

definition refresh_token_status_members :: "refresh_token_status list" where
  "refresh_token_status_members = [TokenActive, TokenRotated, TokenRevoked]"

interpretation refresh_token_status: str_enum refresh_token_status_members refresh_token_status_value
proof
  fix x y :: refresh_token_status
  show "x \<in> set refresh_token_status_members" by (cases x) (simp_all add: refresh_token_status_members_def)
  show "refresh_token_status_value x = refresh_token_status_value y \<Longrightarrow> x = y" by (cases x; cases y) simp_all
qed

datatype verification_token_purpose =
    EmailVerification
  | PasswordReset

fun verification_token_purpose_value :: "verification_token_purpose \<Rightarrow> string" where
  "verification_token_purpose_value EmailVerification = ''email_verification''"
| "verification_token_purpose_value PasswordReset = ''password_reset''"

definition verification_token_purpose_members :: "verification_token_purpose list" where
  "verification_token_purpose_members = [EmailVerification, PasswordReset]"

interpretation verification_token_purpose: str_enum verification_token_purpose_members verification_token_purpose_value
proof
  fix x y :: verification_token_purpose
  show "x \<in> set verification_token_purpose_members" by (cases x) (simp_all add: verification_token_purpose_members_def)
  show "verification_token_purpose_value x = verification_token_purpose_value y \<Longrightarrow> x = y" by (cases x; cases y) simp_all
qed

section \<open>Quantifying over scan states\<close>

instantiation scan_status :: enum
begin

definition "enum_scan_status = scan_status_members"

definition "enum_all_scan_status P \<longleftrightarrow> list_all P scan_status_members"

definition "enum_ex_scan_status P \<longleftrightarrow> list_ex P scan_status_members"

instance
proof
  show univ: "(UNIV :: scan_status set) = set Enum.enum"
    using scan_status.complete by (auto simp: enum_scan_status_def)
  show "distinct (Enum.enum :: scan_status list)"
    by (simp add: enum_scan_status_def scan_status_members_def)
  show "enum_class.enum_all P = Ball (UNIV :: scan_status set) P" for P
    by (simp add: univ enum_all_scan_status_def enum_scan_status_def list_all_iff)
  show "enum_class.enum_ex P = Bex (UNIV :: scan_status set) P" for P
    by (simp add: univ enum_ex_scan_status_def enum_scan_status_def list_ex_iff)
qed

end

end
