(* ===== verification/Uuid.thy ===== *)
theory Uuid
  imports Prelude "HOL-Library.Word"
begin

text \<open>
  \<open>uuid.UUID\<close> of the Python library as far as the source uses it: 128-bit values, the
  canonical text form that \<open>str()\<close> writes (32 lower-case hexadecimal digits in groups
  of 8-4-4-4-12) and the constructor that reads it back.  The constructor also accepts
  \<open>urn:uuid:\<close> prefixes and braces; the source never writes those, and they are left out.
\<close>

type_synonym uuid = "128 word"

definition hex_char :: "nat \<Rightarrow> char" where
  "hex_char n = (if n < 10 then char_of (48 + n) else char_of (87 + n))"

definition hex_val :: "char \<Rightarrow> nat option" where
  "hex_val c = (let n = of_char c :: nat in
     if 48 \<le> n \<and> n \<le> 57 then Some (n - 48)
     else if 97 \<le> n \<and> n \<le> 102 then Some (n - 87)
     else if 65 \<le> n \<and> n \<le> 70 then Some (n - 55)
     else None)"

fun hex_digits :: "nat \<Rightarrow> nat \<Rightarrow> string" where
  "hex_digits 0 n = []"
| "hex_digits (Suc k) n = hex_digits k (n div 16) @ [hex_char (n mod 16)]"

fun hex_num :: "nat \<Rightarrow> string \<Rightarrow> nat option" where
  "hex_num acc [] = Some acc"
| "hex_num acc (c # cs) =
     (case hex_val c of None \<Rightarrow> None | Some v \<Rightarrow> hex_num (16 * acc + v) cs)"

definition uuid_str :: "uuid \<Rightarrow> string" where
  "uuid_str u = (let h = hex_digits 32 (unat u) in
     take 8 h @ ''-'' @ take 4 (drop 8 h) @ ''-'' @ take 4 (drop 12 h) @ ''-'' @
     take 4 (drop 16 h) @ ''-'' @ drop 20 h)"

definition uuid_parse :: "string \<Rightarrow> uuid option" where
  "uuid_parse s = (let h = filter (\<lambda>c. c \<noteq> CHR ''-'') s in
     if length h = 32 then map_option of_nat (hex_num 0 h) else None)"

lemma hex_val_char [simp]: "n < 16 \<Longrightarrow> hex_val (hex_char n) = Some n"
  by (auto simp: hex_val_def hex_char_def Let_def of_char_of)

lemma hex_char_not_dash: "n < 16 \<Longrightarrow> CHR ''-'' \<noteq> hex_char n"
proof
  assume "n < 16" "CHR ''-'' = hex_char n"
  then have "hex_val (CHR ''-'') = Some n" by simp
  then show False by (simp add: hex_val_def)
qed

lemma length_hex_digits [simp]: "length (hex_digits k n) = k"
  by (induction k arbitrary: n) auto

lemma hex_digits_no_dash: "c \<in> set (hex_digits k n) \<Longrightarrow> c \<noteq> CHR ''-''"
  by (induction k arbitrary: n) (auto dest: hex_char_not_dash [rotated] simp: hex_char_not_dash)

lemma hex_num_append:
  "hex_num a (xs @ ys) = (case hex_num a xs of None \<Rightarrow> None | Some b \<Rightarrow> hex_num b ys)"
  by (induction xs arbitrary: a) (auto split: option.splits)

lemma hex_num_digits: "hex_num a (hex_digits k n) = Some (a * 16 ^ k + n mod 16 ^ k)"
proof (induction k arbitrary: n)
  case 0
  then show ?case by simp
next
  case (Suc k)
  have "16 * (n div 16 mod 16 ^ k) + n mod 16 = n mod (16 * 16 ^ k)"
    by (simp add: mod_mult2_eq)
  then show ?case
    by (simp add: Suc hex_num_append algebra_simps)
qed

lemma uuid_groups:
  "take 8 h @ take 4 (drop 8 h) @ take 4 (drop 12 h) @ take 4 (drop 16 h) @ drop 20 h = h"
proof -
  have "take 4 (drop 16 h) @ drop 20 h = drop 16 h"
    using append_take_drop_id [of 4 "drop 16 h"] by (simp add: drop_drop)
  moreover have "take 4 (drop 12 h) @ drop 16 h = drop 12 h"
    using append_take_drop_id [of 4 "drop 12 h"] by (simp add: drop_drop)
  moreover have "take 4 (drop 8 h) @ drop 12 h = drop 8 h"
    using append_take_drop_id [of 4 "drop 8 h"] by (simp add: drop_drop)
  ultimately show ?thesis by simp
qed

lemma filter_no_dash:
  "(\<And>c. c \<in> set h \<Longrightarrow> c \<noteq> CHR ''-'') \<Longrightarrow>
    filter (\<lambda>c. c \<noteq> CHR ''-'') (take 8 h @ ''-'' @ take 4 (drop 8 h) @ ''-'' @
      take 4 (drop 12 h) @ ''-'' @ take 4 (drop 16 h) @ ''-'' @ drop 20 h) = h"
proof -
  assume nd: "\<And>c. c \<in> set h \<Longrightarrow> c \<noteq> CHR ''-''"
  have sub: "filter (\<lambda>c. c \<noteq> CHR ''-'') xs = xs" if "set xs \<subseteq> set h" for xs
  proof (rule filter_True, rule ballI)
    fix c assume "c \<in> set xs"
    with that have "c \<in> set h" by (rule subsetD)
    then show "c \<noteq> CHR ''-''" by (rule nd)
  qed
  have *: "filter (\<lambda>c. c \<noteq> CHR ''-'') (take n (drop m h)) = take n (drop m h)" for n m
    by (rule sub, rule subset_trans [OF set_take_subset set_drop_subset])
  have first: "filter (\<lambda>c. c \<noteq> CHR ''-'') (take 8 h) = take 8 h"
    by (rule sub, rule set_take_subset)
  have last: "filter (\<lambda>c. c \<noteq> CHR ''-'') (drop 20 h) = drop 20 h"
    by (rule sub, rule set_drop_subset)
  have dash: "filter (\<lambda>c. c \<noteq> CHR ''-'') ''-'' = []" by simp
  show ?thesis
    unfolding filter_append * first last dash append_Nil by (rule uuid_groups)
qed

lemma filter_dash_uuid_str:
  "filter (\<lambda>c. c \<noteq> CHR ''-'') (uuid_str u) = hex_digits 32 (unat u)"
  unfolding uuid_str_def Let_def by (rule filter_no_dash) (rule hex_digits_no_dash)

text \<open>
  Reading back what \<open>str()\<close> wrote gives the identifier: the basis of every round trip
  of an identifier through a job payload or a token claim.
\<close>

lemma uuid_parse_str [simp]: "uuid_parse (uuid_str u) = Some u"
proof -
  have "unat u < 16 ^ 32"
    using unsigned_less [of u, where 'a = nat] by simp
  then have "hex_num 0 (hex_digits 32 (unat u)) = Some (unat u)"
    by (simp add: hex_num_digits)
  then show ?thesis
    by (simp add: uuid_parse_def filter_dash_uuid_str)
qed

lemma uuid_str_inject [simp]: "uuid_str u = uuid_str v \<longleftrightarrow> u = v"
  by (metis option.inject uuid_parse_str)

end
