(* ===== verification/Models.thy ===== *)
theory Models
  imports Enums Uuid
begin

text \<open>
  The persistence model (\<open>models/*.py\<close>): one record per mapped class with its columns,
  the CHECK and length constraints of the scan-engine tables as executable predicates,
  and the database as the record of all tables.  Timestamps are integers (microseconds),
  identifiers are 128-bit words, JSON columns are values of \<open>json\<close>.
\<close>

section \<open>JSON values\<close>

datatype json =
    JNull
  | JBool bool
  | JInt int
  | JStr string
  | JList "json list"
  | JObj "(string \<times> json) list"

fun dec_digits :: "nat \<Rightarrow> string" where
  "dec_digits n = (if n < 10 then [char_of (48 + n)]
     else dec_digits (n div 10) @ [char_of (48 + n mod 10)])"

declare dec_digits.simps [simp del]

definition int_str :: "int \<Rightarrow> string" where
  "int_str i = (if i < 0 then CHR ''-'' # dec_digits (nat (- i)) else dec_digits (nat i))"

text \<open>\<open>json.dumps\<close> with its default arguments: ASCII output, \<open>", "\<close> and \<open>": "\<close> as separators.\<close>

abbreviation chr :: "nat \<Rightarrow> char" where
  "chr n \<equiv> char_of n"

definition json_char :: "char \<Rightarrow> string" where
  "json_char c = (let n = of_char c :: nat in
     if n = 34 then [chr 92, chr 34]
     else if n = 92 then [chr 92, chr 92]
     else if n = 10 then [chr 92, CHR ''n'']
     else if n = 13 then [chr 92, CHR ''r'']
     else if n = 9 then [chr 92, CHR ''t'']
     else if n = 12 then [chr 92, CHR ''f'']
     else if n = 8 then [chr 92, CHR ''b'']
     else if 32 \<le> n \<and> n \<le> 126 then [c]
     else [chr 92, CHR ''u''] @ hex_digits 4 n)"

definition json_string :: "string \<Rightarrow> string" where
  "json_string s = [chr 34] @ concat (map json_char s) @ [chr 34]"

text \<open>\<open>repr\<close> of a string: single quotes unless that would need more escapes.\<close>

definition repr_char :: "char \<Rightarrow> char \<Rightarrow> string" where
  "repr_char q c = (let n = of_char c :: nat in
     if c = q \<or> n = 92 then [chr 92, c]
     else if n = 10 then [chr 92, CHR ''n'']
     else if n = 13 then [chr 92, CHR ''r'']
     else if n = 9 then [chr 92, CHR ''t'']
     else if n < 32 \<or> (127 \<le> n \<and> n \<le> 160) \<or> n = 173 then [chr 92, CHR ''x''] @ hex_digits 2 n
     else [c])"

definition py_repr :: "string \<Rightarrow> string" where
  "py_repr s =
    (let q = (if chr 39 \<in> set s \<and> chr 34 \<notin> set s then chr 34 else chr 39)
     in [q] @ concat (map (repr_char q) s) @ [q])"

fun join :: "string \<Rightarrow> string list \<Rightarrow> string" where
  "join sep [] = []"
| "join sep [x] = x"
| "join sep (x # y # xs) = x @ sep @ join sep (y # xs)"

fun dumps :: "json \<Rightarrow> string" where
  "dumps JNull = ''null''"
| "dumps (JBool b) = (if b then ''true'' else ''false'')"
| "dumps (JInt i) = int_str i"
| "dumps (JStr s) = json_string s"
| "dumps (JList xs) = ''['' @ join '', '' (map dumps xs) @ '']''"
| "dumps (JObj kvs) =
     ''{'' @ join '', '' (map (\<lambda>(k, v). json_string k @ '': '' @ dumps v) kvs) @ ''}''"

type_synonym json_object = "(string \<times> json) list"

section \<open>Tenancy and identity\<close>

record tenant =
  te_id :: uuid
  te_name :: string
  te_slug :: string
  te_status :: tenant_status
  te_deleted_at :: "int option"
  te_created_at :: int
  te_updated_at :: int

record user =
  us_id :: uuid
  us_email :: string
  us_display_name :: string
  us_status :: user_status
  us_hashed_password :: "string option"
  us_token_version :: int
  us_email_verified_at :: "int option"
  us_created_at :: int
  us_updated_at :: int

record membership =
  me_id :: uuid
  me_tenant_id :: uuid
  me_user_id :: uuid
  me_role :: membership_role
  me_status :: membership_status
  me_created_at :: int
  me_updated_at :: int

record refresh_token =
  rt_id :: uuid
  rt_tenant_id :: uuid
  rt_user_id :: uuid
  rt_family_id :: uuid
  rt_hashed_token :: string
  rt_status :: refresh_token_status
  rt_expires_at :: int
  rt_revoked_at :: "int option"
  rt_replaced_by_id :: "uuid option"
  rt_created_by_ip :: "string option"
  rt_user_agent :: "string option"
  rt_created_at :: int
  rt_updated_at :: int

record verification_token =
  vt_id :: uuid
  vt_user_id :: uuid
  vt_purpose :: verification_token_purpose
  vt_hashed_token :: string
  vt_expires_at :: int
  vt_consumed_at :: "int option"
  vt_created_at :: int
  vt_updated_at :: int

record api_key =
  ak_id :: uuid
  ak_tenant_id :: uuid
  ak_user_id :: "uuid option"
  ak_name :: string
  ak_prefix :: string
  ak_hashed_secret :: string
  ak_scopes :: "string list"
  ak_status :: api_key_status
  ak_expires_at :: "int option"
  ak_last_used_at :: "int option"
  ak_revoked_at :: "int option"
  ak_created_at :: int
  ak_updated_at :: int

record audit_event =
  au_id :: uuid
  au_tenant_id :: "uuid option"
  au_actor_user_id :: "uuid option"
  au_action :: string
  au_resource_type :: string
  au_resource_id :: "string option"
  au_outcome :: audit_outcome
  au_correlation_id :: "string option"
  au_source_ip :: "string option"
  au_user_agent :: "string option"
  au_metadata :: "json_object option"
  au_created_at :: int

section \<open>Projects, assets, scans and findings\<close>

record project =
  pr_id :: uuid
  pr_tenant_id :: uuid
  pr_name :: string
  pr_slug :: string
  pr_description :: "string option"
  pr_status :: project_status
  pr_archived_at :: "int option"
  pr_created_at :: int
  pr_updated_at :: int

record asset =
  as_id :: uuid
  as_tenant_id :: uuid
  as_project_id :: uuid
  as_asset_type :: asset_type
  as_name :: string
  as_locator :: string
  as_environment :: asset_environment
  as_status :: asset_status
  as_authorization_status :: authorization_status
  as_created_at :: int
  as_updated_at :: int

record scan =
  sc_id :: uuid
  sc_tenant_id :: uuid
  sc_project_id :: uuid
  sc_asset_id :: uuid
  sc_scanner_type :: string
  sc_status :: scan_status
  sc_requested_by_user_id :: "uuid option"
  sc_queued_at :: "int option"
  sc_started_at :: "int option"
  sc_completed_at :: "int option"
  sc_failed_at :: "int option"
  sc_cancelled_at :: "int option"
  sc_timed_out_at :: "int option"
  sc_error_code :: "string option"
  sc_error_summary :: "string option"
  sc_attempt :: int
  sc_max_attempts :: int
  sc_worker_id :: "string option"
  sc_job_id :: "string option"
  sc_timeout_seconds :: int
  sc_retry_of_scan_id :: "uuid option"
  sc_config :: "json_object option"
  sc_correlation_id :: "string option"
  sc_created_at :: int
  sc_updated_at :: int

text \<open>
  The CHECK constraints of the \<open>scans\<close> table, the lengths of its string columns and
  the 32-bit range of its \<open>Integer\<close> columns:
  an \<open>INSERT\<close> or \<open>UPDATE\<close> that leaves a row outside this predicate is refused by the
  database.  The byte limit on \<open>config\<close> is enforced by the schema layer and left out here.
\<close>

definition opt_ge :: "int option \<Rightarrow> int option \<Rightarrow> bool" where
  "opt_ge x y = (case x of None \<Rightarrow> True | Some a \<Rightarrow> (case y of None \<Rightarrow> True | Some b \<Rightarrow> b \<le> a))"

definition max_len :: "nat \<Rightarrow> string option \<Rightarrow> bool" where
  "max_len n x = (case x of None \<Rightarrow> True | Some s \<Rightarrow> length s \<le> n)"

definition count_set :: "int option list \<Rightarrow> nat" where
  "count_set xs = length (filter (\<lambda>x. x \<noteq> None) xs)"

definition scan_checks :: "scan \<Rightarrow> bool" where
  "scan_checks s \<longleftrightarrow>
     opt_ge (sc_started_at s) (sc_queued_at s) \<and>
     opt_ge (sc_completed_at s) (sc_started_at s) \<and>
     opt_ge (sc_failed_at s) (sc_started_at s) \<and>
     opt_ge (sc_timed_out_at s) (sc_started_at s) \<and>
     count_set [sc_completed_at s, sc_failed_at s, sc_cancelled_at s, sc_timed_out_at s] \<le> 1 \<and>
     0 \<le> sc_attempt s \<and> sc_attempt s < 2 ^ 31 \<and>
     1 \<le> sc_max_attempts s \<and> sc_max_attempts s < 2 ^ 31 \<and>
     0 < sc_timeout_seconds s \<and> sc_timeout_seconds s < 2 ^ 31 \<and>
     length (sc_scanner_type s) \<le> 100 \<and>
     max_len 100 (sc_error_code s) \<and> max_len 2000 (sc_error_summary s) \<and>
     max_len 200 (sc_worker_id s) \<and> max_len 200 (sc_job_id s) \<and>
     max_len 100 (sc_correlation_id s)"

text \<open>The append-only log of a scan, and the checks of its table.\<close>

record scan_event =
  ev_id :: uuid
  ev_tenant_id :: uuid
  ev_scan_id :: uuid
  ev_event_type :: string
  ev_stage :: "string option"
  ev_progress_percent :: "int option"
  ev_worker_id :: "string option"
  ev_correlation_id :: "string option"
  ev_message :: "string option"
  ev_metadata :: "json_object option"
  ev_created_at :: int

definition scan_event_checks :: "scan_event \<Rightarrow> bool" where
  "scan_event_checks e \<longleftrightarrow>
     (case ev_progress_percent e of None \<Rightarrow> True | Some p \<Rightarrow> 0 \<le> p \<and> p \<le> 100) \<and>
     length (ev_event_type e) \<le> 100 \<and> max_len 50 (ev_stage e) \<and>
     max_len 200 (ev_worker_id e) \<and> max_len 100 (ev_correlation_id e) \<and>
     max_len 2000 (ev_message e)"

text \<open>The transactional outbox; \<open>(tenant_id, scan_id, scan_attempt)\<close> is unique.\<close>

record scan_job_outbox =
  ob_id :: uuid
  ob_tenant_id :: uuid
  ob_scan_id :: uuid
  ob_scan_attempt :: int
  ob_event_type :: string
  ob_payload :: json_object
  ob_countdown_seconds :: rat
  ob_created_at :: int
  ob_published_at :: "int option"
  ob_attempt_count :: int
  ob_last_attempt_at :: "int option"
  ob_last_error :: "string option"

definition outbox_checks :: "scan_job_outbox \<Rightarrow> bool" where
  "outbox_checks b \<longleftrightarrow>
     0 \<le> ob_attempt_count b \<and> 0 \<le> ob_scan_attempt b \<and> 0 \<le> ob_countdown_seconds b \<and>
     length (ob_event_type b) \<le> 50 \<and> max_len 500 (ob_last_error b)"

definition outbox_key :: "scan_job_outbox \<Rightarrow> uuid \<times> uuid \<times> int" where
  "outbox_key b = (ob_tenant_id b, ob_scan_id b, ob_scan_attempt b)"

text \<open>Findings; \<open>(tenant_id, asset_id, fingerprint)\<close> is unique.\<close>

record finding =
  fi_id :: uuid
  fi_tenant_id :: uuid
  fi_project_id :: uuid
  fi_asset_id :: uuid
  fi_scan_id :: uuid
  fi_title :: string
  fi_description :: "string option"
  fi_severity :: finding_severity
  fi_status :: finding_status
  fi_confidence :: finding_confidence
  fi_source_tool :: string
  fi_external_reference :: "string option"
  fi_fingerprint :: string
  fi_remediation :: "string option"
  fi_first_seen_at :: int
  fi_last_seen_at :: int
  fi_resolved_at :: "int option"
  fi_created_at :: int
  fi_updated_at :: int

definition finding_checks :: "finding \<Rightarrow> bool" where
  "finding_checks f \<longleftrightarrow>
     fi_first_seen_at f \<le> fi_last_seen_at f \<and>
     opt_ge (fi_resolved_at f) (Some (fi_first_seen_at f)) \<and>
     length (fi_title f) \<le> 300 \<and> length (fi_source_tool f) \<le> 100 \<and>
     max_len 2048 (fi_external_reference f) \<and> length (fi_fingerprint f) \<le> 128"

definition finding_key :: "finding \<Rightarrow> uuid \<times> uuid \<times> string" where
  "finding_key f = (fi_tenant_id f, fi_asset_id f, fi_fingerprint f)"

record finding_reference =
  fr_id :: uuid
  fr_tenant_id :: uuid
  fr_finding_id :: uuid
  fr_reference_type :: finding_reference_type
  fr_value :: string
  fr_created_at :: int
  fr_updated_at :: int

definition finding_reference_key :: "finding_reference \<Rightarrow> uuid \<times> finding_reference_type \<times> string" where
  "finding_reference_key r = (fr_finding_id r, fr_reference_type r, fr_value r)"

section \<open>The database\<close>

record db =
  tenants :: "tenant table"
  users :: "user table"
  memberships :: "membership table"
  projects :: "project table"
  assets :: "asset table"
  scans :: "scan table"
  scan_events :: "scan_event table"
  outbox :: "scan_job_outbox table"
  findings :: "finding table"
  finding_references :: "finding_reference table"
  audit_events :: "audit_event table"
  api_keys :: "api_key table"
  refresh_tokens :: "refresh_token table"
  verification_tokens :: "verification_token table"

definition empty_db :: db where
  "empty_db = \<lparr>tenants = [], users = [], memberships = [], projects = [], assets = [],
     scans = [], scan_events = [], outbox = [], findings = [], finding_references = [],
     audit_events = [], api_keys = [], refresh_tokens = [], verification_tokens = []\<rparr>"

lemma empty_db_tables [simp]:
  "tenants empty_db = []" "users empty_db = []" "memberships empty_db = []"
  "projects empty_db = []" "assets empty_db = []" "scans empty_db = []"
  "scan_events empty_db = []" "outbox empty_db = []" "findings empty_db = []"
  "finding_references empty_db = []" "audit_events empty_db = []" "api_keys empty_db = []"
  "refresh_tokens empty_db = []" "verification_tokens empty_db = []"
  by (simp_all add: empty_db_def)

lemma max_len_None [simp]: "max_len n None"
  by (simp add: max_len_def)

lemma opt_ge_None [simp]: "opt_ge None y" "opt_ge x None"
  by (simp_all add: opt_ge_def split: option.split)

end
