(* ===== verification/Exceptions.thy ===== *)
theory Exceptions
  imports Prelude
begin

text \<open>
  Python exceptions as values.  \<open>ex_class\<close> is the nearest class of the hierarchies the
  source declares or catches (\<open>scan_engine/exceptions.py\<close>, \<open>services/scan_service.py\<close>,
  \<open>services/auth_service.py\<close>, the built-in classes it names), \<open>ex_name\<close> is
  \<open>type(exc).__name__\<close>, which differs from the class for a subclass a plugin defines,
  and \<open>ex_message\<close> is \<open>str(exc)\<close>.
\<close>

datatype py_class =
    BaseOnly  \<comment> \<open>a \<open>BaseException\<close> that is not an \<open>Exception\<close>: CancelledError, SystemExit\<close>
  | PlainException
  | BuiltinTimeoutError
  | ValueError
  | KeyError
  | OSError
  | FileNotFoundError
  | IsADirectoryError
  | OverflowError
  | DatabaseError
  | ScanEngineError
  | ScannerNotRegisteredError
  | ScanConfigError
  | InvalidScanTransitionError
  | StaleScanStateError
  | ScanCancelledError
  | ScanTimeoutError
  | TransientScanError
  | PermanentScanError
  | ArtifactPathError
  | ScanNotFoundError
  | ProjectNotFoundError
  | AssetNotFoundError
  | AssetProjectMismatchError
  | ScanNotCancellableError
  | ScanNotRetryableError
  | FindingNotFoundError
  | InvalidCredentialsError
  | AccountInactiveError
  | EmailAlreadyRegisteredError
  | TenantAccessDeniedError
  | InvalidRefreshTokenError
  | RefreshTokenReuseDetectedError
  | InvalidVerificationTokenError
  | PasswordPolicyError "string list"
  | HTTPException nat

record pyexc =
  ex_class :: py_class
  ex_name :: string
  ex_message :: string

fun class_name :: "py_class \<Rightarrow> string" where
  "class_name BaseOnly = ''BaseException''"
| "class_name PlainException = ''Exception''"
| "class_name BuiltinTimeoutError = ''TimeoutError''"
| "class_name ValueError = ''ValueError''"
| "class_name KeyError = ''KeyError''"
| "class_name OSError = ''OSError''"
| "class_name FileNotFoundError = ''FileNotFoundError''"
| "class_name IsADirectoryError = ''IsADirectoryError''"
| "class_name OverflowError = ''OverflowError''"
| "class_name DatabaseError = ''IntegrityError''"
| "class_name ScanEngineError = ''ScanEngineError''"
| "class_name ScannerNotRegisteredError = ''ScannerNotRegisteredError''"
| "class_name ScanConfigError = ''ScanConfigError''"
| "class_name InvalidScanTransitionError = ''InvalidScanTransitionError''"
| "class_name StaleScanStateError = ''StaleScanStateError''"
| "class_name ScanCancelledError = ''ScanCancelledError''"
| "class_name ScanTimeoutError = ''ScanTimeoutError''"
| "class_name TransientScanError = ''TransientScanError''"
| "class_name PermanentScanError = ''PermanentScanError''"
| "class_name ArtifactPathError = ''ArtifactPathError''"
| "class_name ScanNotFoundError = ''ScanNotFoundError''"
| "class_name ProjectNotFoundError = ''ProjectNotFoundError''"
| "class_name AssetNotFoundError = ''AssetNotFoundError''"
| "class_name AssetProjectMismatchError = ''AssetProjectMismatchError''"
| "class_name ScanNotCancellableError = ''ScanNotCancellableError''"
| "class_name ScanNotRetryableError = ''ScanNotRetryableError''"
| "class_name FindingNotFoundError = ''FindingNotFoundError''"
| "class_name InvalidCredentialsError = ''InvalidCredentialsError''"
| "class_name AccountInactiveError = ''AccountInactiveError''"
| "class_name EmailAlreadyRegisteredError = ''EmailAlreadyRegisteredError''"
| "class_name TenantAccessDeniedError = ''TenantAccessDeniedError''"
| "class_name InvalidRefreshTokenError = ''InvalidRefreshTokenError''"
| "class_name RefreshTokenReuseDetectedError = ''RefreshTokenReuseDetectedError''"
| "class_name InvalidVerificationTokenError = ''InvalidVerificationTokenError''"
| "class_name (PasswordPolicyError vs) = ''PasswordPolicyError''"
| "class_name (HTTPException n) = ''HTTPException''"

definition exc :: "py_class \<Rightarrow> string \<Rightarrow> pyexc" where
  "exc c msg = \<lparr>ex_class = c, ex_name = class_name c, ex_message = msg\<rparr>"

text \<open>\<open>except Exception\<close> catches everything but a bare \<open>BaseException\<close>.\<close>

definition is_exception :: "pyexc \<Rightarrow> bool" where
  "is_exception e \<longleftrightarrow> ex_class e \<noteq> BaseOnly"

lemma exc_sel [simp]:
  "ex_class (exc c m) = c" "ex_name (exc c m) = class_name c" "ex_message (exc c m) = m"
  by (simp_all add: exc_def)

end
