(* ===== verification/Job_Queue.thy ===== *)
theory Job_Queue
  imports Models Exceptions
begin

text \<open>
  \<open>scan_engine/job_queue.py\<close>: the payload of a scan job and its wire shape, the
  dictionary stored in \<open>ScanJobOutbox.payload\<close> and read back by the dispatcher; and
  the \<open>JobQueue\<close> protocol, whose implementation (Celery, \<open>workers/job_queue_celery.py\<close>)
  talks to a broker and is a parameter of the model: each operation returns or raises.
\<close>

record scan_job_payload =
  jp_scan_id :: uuid
  jp_tenant_id :: uuid
  jp_correlation_id :: string

definition scan_job_payload_to_dict :: "scan_job_payload \<Rightarrow> json_object" where
  "scan_job_payload_to_dict p =
    [(''scan_id'', JStr (uuid_str (jp_scan_id p))),
     (''tenant_id'', JStr (uuid_str (jp_tenant_id p))),
     (''correlation_id'', JStr (jp_correlation_id p))]"

text \<open>\<open>str(data[key])\<close> on a JSON value; only the string case is ever stored.\<close>

definition json_str :: "json \<Rightarrow> string" where
  "json_str j = (case j of JStr s \<Rightarrow> s | _ \<Rightarrow> dumps j)"

definition dict_get :: "json_object \<Rightarrow> string \<Rightarrow> pyexc + json" where
  "dict_get d k = (case map_of d k of None \<Rightarrow> Inl (exc KeyError k) | Some v \<Rightarrow> Inr v)"

definition uuid_of :: "string \<Rightarrow> pyexc + uuid" where
  "uuid_of s = (case uuid_parse s of
     None \<Rightarrow> Inl (exc ValueError ''badly formed hexadecimal UUID string'') | Some u \<Rightarrow> Inr u)"

definition scan_job_payload_from_dict :: "json_object \<Rightarrow> pyexc + scan_job_payload" where
  "scan_job_payload_from_dict d =
    (case dict_get d ''scan_id'' of Inl e \<Rightarrow> Inl e | Inr s \<Rightarrow>
     (case uuid_of (json_str s) of Inl e \<Rightarrow> Inl e | Inr sid \<Rightarrow>
     (case dict_get d ''tenant_id'' of Inl e \<Rightarrow> Inl e | Inr t \<Rightarrow>
     (case uuid_of (json_str t) of Inl e \<Rightarrow> Inl e | Inr tid \<Rightarrow>
     (case dict_get d ''correlation_id'' of Inl e \<Rightarrow> Inl e | Inr c \<Rightarrow>
        Inr \<lparr>jp_scan_id = sid, jp_tenant_id = tid, jp_correlation_id = json_str c\<rparr>)))))"

lemma payload_from_to_dict [simp]:
  "scan_job_payload_from_dict (scan_job_payload_to_dict p) = Inr p"
  by (simp add: scan_job_payload_from_dict_def scan_job_payload_to_dict_def dict_get_def
      uuid_of_def json_str_def)

text \<open>The queue behind the protocol: what each call does is the broker's choice.\<close>

datatype 'a outcome = Returns 'a | Raises pyexc

record job_queue =
  jq_enqueue_scan :: "scan_job_payload \<Rightarrow> rat \<Rightarrow> string outcome"
  jq_cancel :: "string \<Rightarrow> unit outcome"
  jq_dead_letter_scan :: "scan_job_payload \<Rightarrow> string \<Rightarrow> unit outcome"

end
