(* ===== verification/Session.thy ===== *)
theory Session
  imports Job_Queue
begin

text \<open>
  A database session and the programs that run on it.

  The code is asynchronous: between two statements of a coroutine, other sessions (API
  requests, other workers, the dispatcher) may commit, time passes, and inside an
  \<open>asyncio.timeout\<close> block the deadline may strike.  The world of a program therefore
  holds the committed database, the writes this session has flushed but not committed,
  the ORM objects it has loaded, the shared Redis store, the clock, and a script of what its environment does
  at each of its await points.  A program takes a world and returns a value or raises,
  with the world it leaves.

  Sessions run at READ COMMITTED: a statement sees the database as last committed by
  anyone, with this session's own pending writes on top.  A pending write is a function
  on databases, applied to whatever is committed when the session commits; row locks
  keep other sessions away from the rows it changes in between.
\<close>

section \<open>The world\<close>

datatype plugin_method = ValidateConfig | Prepare | Execute | CollectResults | NormalizeFindings | Cleanup

text \<open>Effects outside the database, in the order they happen.\<close>

datatype effect =
    Log string
  | Metric string
  | PluginCall plugin_method uuid
  | SentJob scan_job_payload rat
  | DeadLettered scan_job_payload string
  | CancelledJob string
  | SentEmail string string string  \<comment> \<open>recipient, subject, body\<close>

text \<open>The shared Redis store: a counter per key, and when the key expires.\<close>

type_synonym redis = "string \<Rightarrow> (int \<times> int option) option"

text \<open>What the environment does at one await point.\<close>

record ext =
  ext_db :: "db \<Rightarrow> db"
  ext_redis :: "redis \<Rightarrow> redis"
  ext_time :: nat
  ext_timeout :: bool
  ext_broken :: bool

record world =
  w_db :: db
  w_pend :: "db \<Rightarrow> db"
  w_failed :: bool
  w_objs :: "uuid \<Rightarrow> scan option"
  w_clock :: int
  w_deadline :: bool
  w_expired :: bool
  w_script :: "ext list"
  w_uuids :: "nat \<Rightarrow> uuid"
  w_drawn :: nat
  w_trace :: "effect list"
  w_redis :: redis

type_synonym 'a prog = "world \<Rightarrow> (pyexc + 'a) \<times> world"

definition view :: "world \<Rightarrow> db" where
  "view w = w_pend w (w_db w)"

definition start_world :: "db \<Rightarrow> int \<Rightarrow> ext list \<Rightarrow> (nat \<Rightarrow> uuid) \<Rightarrow> world" where
  "start_world d t script ids =
    \<lparr>w_db = d, w_pend = (\<lambda>x. x), w_failed = False, w_objs = (\<lambda>_. None), w_clock = t,
     w_deadline = False, w_expired = False, w_script = script, w_uuids = ids, w_drawn = 0, w_trace = [], w_redis = (\<lambda>_. None)\<rparr>"

section \<open>Programs\<close>

definition retE :: "'a \<Rightarrow> 'a prog" where
  "retE x w = (Inr x, w)"

definition raiseE :: "pyexc \<Rightarrow> 'a prog" where
  "raiseE e w = (Inl e, w)"

definition bindE :: "'a prog \<Rightarrow> ('a \<Rightarrow> 'b prog) \<Rightarrow> 'b prog" where
  "bindE m f w = (case m w of (Inl e, w') \<Rightarrow> (Inl e, w') | (Inr x, w') \<Rightarrow> f x w')"

definition thenE :: "'a prog \<Rightarrow> 'b prog \<Rightarrow> 'b prog" where
  "thenE m k = bindE m (\<lambda>_. k)"

definition whenE :: "bool \<Rightarrow> unit prog \<Rightarrow> unit prog" where
  "whenE b m = (if b then m else retE ())"

text \<open>\<open>try: m / except ... as e: h\<close>; the handler re-raises what it does not catch.\<close>

definition tryE :: "'a prog \<Rightarrow> (pyexc \<Rightarrow> 'a prog) \<Rightarrow> 'a prog" where
  "tryE m h w = (case m w of (Inl e, w') \<Rightarrow> h e w' | (Inr x, w') \<Rightarrow> (Inr x, w'))"

definition finallyE :: "'a prog \<Rightarrow> unit prog \<Rightarrow> 'a prog" where
  "finallyE m f w = (case m w of (r, w') \<Rightarrow>
     (case f w' of (Inl e, w'') \<Rightarrow> (Inl e, w'') | (Inr _, w'') \<Rightarrow> (r, w'')))"

definition emit :: "effect \<Rightarrow> unit prog" where
  "emit a w = (Inr (), w\<lparr>w_trace := w_trace w @ [a]\<rparr>)"

definition now :: "int prog" where
  "now w = (Inr (w_clock w), w)"

definition draw_uuid :: "uuid prog" where
  "draw_uuid w = (Inr (w_uuids w (w_drawn w)), w\<lparr>w_drawn := w_drawn w + 1\<rparr>)"

definition liftE :: "pyexc + 'a \<Rightarrow> 'a prog" where
  "liftE r = (case r of Inl e \<Rightarrow> raiseE e | Inr x \<Rightarrow> retE x)"

definition of_outcome :: "'a outcome \<Rightarrow> 'a prog" where
  "of_outcome r = (case r of Raises e \<Rightarrow> raiseE e | Returns x \<Rightarrow> retE x)"

fun mapE :: "('a \<Rightarrow> 'b prog) \<Rightarrow> 'a list \<Rightarrow> 'b list prog" where
  "mapE f [] = retE []"
| "mapE f (x # xs) = bindE (f x) (\<lambda>y. bindE (mapE f xs) (\<lambda>ys. retE (y # ys)))"

text \<open>
  An await point: the environment moves, and inside an \<open>asyncio.timeout\<close> block the
  deadline may strike, once: the task is cancelled, which raises \<open>CancelledError\<close> (a
  \<open>BaseException\<close>) where it waits.  The block turns that error, if it reaches its end,
  into \<open>TimeoutError\<close>.
\<close>

definition cancelled_error :: pyexc where
  "cancelled_error = \<lparr>ex_class = BaseOnly, ex_name = ''CancelledError'', ex_message = []\<rparr>"

definition timeout_error :: pyexc where
  "timeout_error = exc BuiltinTimeoutError []"

definition strikes :: "ext \<Rightarrow> world \<Rightarrow> bool" where
  "strikes e w \<longleftrightarrow> ext_timeout e \<and> w_deadline w \<and> \<not> w_expired w"

definition pause :: "unit prog" where
  "pause w = (case w_script w of
     [] \<Rightarrow> (Inr (), w)
   | e # es \<Rightarrow>
      let w' = w\<lparr>w_db := ext_db e (w_db w), w_redis := ext_redis e (w_redis w), w_clock := w_clock w + int (ext_time e), w_script := es\<rparr>
      in if strikes e w then (Inl cancelled_error, w'\<lparr>w_expired := True\<rparr>) else (Inr (), w'))"

definition with_timeout :: "'a prog \<Rightarrow> 'a prog" where
  "with_timeout m w =
    (case m (w\<lparr>w_deadline := True, w_expired := False\<rparr>) of (r, w') \<Rightarrow>
      ((case r of
          Inl e \<Rightarrow> if w_expired w' \<and> ex_name e = ''CancelledError'' then Inl timeout_error else Inl e
        | Inr x \<Rightarrow> Inr x),
       w'\<lparr>w_deadline := w_deadline w, w_expired := w_expired w\<rparr>))"

section \<open>Statements\<close>

text \<open>
  After a failed statement the transaction is unusable until it is rolled back, as the
  database and the ORM document; every statement raises until then.  A statement
  interrupted by the deadline may leave its connection unusable in the same way
  (\<open>ext_broken\<close>), or not.
\<close>

definition db_error :: pyexc where
  "db_error = exc DatabaseError []"

definition pause_stmt :: "unit prog" where
  "pause_stmt w = (case w_script w of
     [] \<Rightarrow> (Inr (), w)
   | e # es \<Rightarrow>
      (case pause w of (r, w') \<Rightarrow>
        (r, if strikes e w \<and> ext_broken e then w'\<lparr>w_failed := True\<rparr> else w')))"

definition query :: "(db \<Rightarrow> 'a) \<Rightarrow> 'a prog" where
  "query q = thenE pause_stmt
     (\<lambda>w. if w_failed w then (Inl db_error, w) else (Inr (q (view w)), w))"

text \<open>
  A write: \<open>ok\<close> is the constraint check on the database the session sees, \<open>f\<close> the change.
\<close>

definition stmt :: "(db \<Rightarrow> bool) \<Rightarrow> (db \<Rightarrow> db) \<Rightarrow> unit prog" where
  "stmt ok f = thenE pause_stmt (\<lambda>w.
     if w_failed w then (Inl db_error, w)
     else if ok (view w) then (Inr (), w\<lparr>w_pend := (\<lambda>d. f (w_pend w d))\<rparr>)
     else (Inl db_error, w\<lparr>w_failed := True\<rparr>))"

definition commit :: "unit prog" where
  "commit w = (if w_failed w then (Inl db_error, w)
     else (Inr (), w\<lparr>w_db := view w, w_pend := (\<lambda>x. x)\<rparr>))"

definition rollback :: "unit prog" where
  "rollback w = (Inr (), w\<lparr>w_pend := (\<lambda>x. x), w_failed := False, w_objs := (\<lambda>_. None)\<rparr>)"

text \<open>
  The transaction policy of a request (\<open>db/session.py\<close>, \<open>get_db\<close>): commit when the handler
  returns, roll back and re-raise when it, or the commit, raises an exception.
\<close>

definition request :: "'a prog \<Rightarrow> 'a prog" where
  "request m = tryE (bindE m (\<lambda>x. thenE commit (retE x)))
     (\<lambda>e. if is_exception e then thenE rollback (raiseE e) else raiseE e)"

text \<open>The identity map: what the session remembers of the \<open>Scan\<close> object with an identifier.\<close>

definition remember :: "scan \<Rightarrow> unit prog" where
  "remember s w = (Inr (), w\<lparr>w_objs := (w_objs w)(sc_id s := Some s)\<rparr>)"

definition detached_error :: pyexc where
  "detached_error = exc PlainException ''DetachedInstanceError''"

definition obj :: "uuid \<Rightarrow> scan prog" where
  "obj i w = (case w_objs w i of None \<Rightarrow> (Inl detached_error, w) | Some s \<Rightarrow> (Inr s, w))"

section \<open>Symbolic execution\<close>

lemma run_simps [prog_simps]:
  "retE x w = (Inr x, w)"
  "raiseE e w = (Inl e, w)"
  "bindE m f w = (case m w of (Inl e, w') \<Rightarrow> (Inl e, w') | (Inr x, w') \<Rightarrow> f x w')"
  "thenE m k w = (case m w of (Inl e, w') \<Rightarrow> (Inl e, w') | (Inr x, w') \<Rightarrow> k w')"
  "tryE m h w = (case m w of (Inl e, w') \<Rightarrow> h e w' | (Inr x, w') \<Rightarrow> (Inr x, w'))"
  "finallyE m g w = (case m w of (r, w') \<Rightarrow>
     (case g w' of (Inl e, w'') \<Rightarrow> (Inl e, w'') | (Inr _, w'') \<Rightarrow> (r, w'')))"
  "emit a w = (Inr (), w\<lparr>w_trace := w_trace w @ [a]\<rparr>)"
  "now w = (Inr (w_clock w), w)"
  "draw_uuid w = (Inr (w_uuids w (w_drawn w)), w\<lparr>w_drawn := w_drawn w + 1\<rparr>)"
  "remember s w = (Inr (), w\<lparr>w_objs := (w_objs w)(sc_id s := Some s)\<rparr>)"
  by (simp_all add: retE_def raiseE_def bindE_def thenE_def tryE_def finallyE_def emit_def
      now_def draw_uuid_def remember_def)

lemma raise_then [simp]: "thenE (raiseE e) k = raiseE e" "bindE (raiseE e) f = raiseE e"
  by (auto simp: thenE_def bindE_def raiseE_def fun_eq_iff)

lemma whenE_simps [prog_simps]: "whenE True m = m" "whenE False m = retE ()"
  by (simp_all add: whenE_def)

lemma liftE_simps [prog_simps]: "liftE (Inl e) = raiseE e" "liftE (Inr x) = retE x"
  by (simp_all add: liftE_def)

lemma of_outcome_simps [prog_simps]:
  "of_outcome (Raises e) = raiseE e" "of_outcome (Returns x) = retE x"
  by (simp_all add: of_outcome_def)

lemma pause_quiet [prog_simps]: "w_script w = [] \<Longrightarrow> pause w = (Inr (), w)"
  by (simp add: pause_def)

lemma pause_stmt_quiet [prog_simps]: "w_script w = [] \<Longrightarrow> pause_stmt w = (Inr (), w)"
  by (simp add: pause_stmt_def)

lemma with_timeout_run [prog_simps]:
  "with_timeout m w =
    (case m (w\<lparr>w_deadline := True, w_expired := False\<rparr>) of (r, w') \<Rightarrow>
      ((case r of
          Inl e \<Rightarrow> if w_expired w' \<and> ex_name e = ''CancelledError'' then Inl timeout_error else Inl e
        | Inr x \<Rightarrow> Inr x),
       w'\<lparr>w_deadline := w_deadline w, w_expired := w_expired w\<rparr>))"
  by (simp add: with_timeout_def)

lemma query_quiet [prog_simps]:
  "w_script w = [] \<Longrightarrow> \<not> w_failed w \<Longrightarrow> query q w = (Inr (q (view w)), w)"
  by (simp add: query_def thenE_def bindE_def pause_stmt_quiet)

lemma stmt_quiet [prog_simps]:
  "w_script w = [] \<Longrightarrow> \<not> w_failed w \<Longrightarrow> stmt ok f w =
    (if ok (view w) then (Inr (), w\<lparr>w_pend := (\<lambda>d. f (w_pend w d))\<rparr>)
     else (Inl db_error, w\<lparr>w_failed := True\<rparr>))"
  by (simp add: stmt_def thenE_def bindE_def pause_stmt_quiet)

lemma commit_ok [prog_simps]:
  "\<not> w_failed w \<Longrightarrow> commit w = (Inr (), w\<lparr>w_db := view w, w_pend := (\<lambda>x. x)\<rparr>)"
  by (simp add: commit_def)

lemma obj_known [prog_simps]: "w_objs w i = Some s \<Longrightarrow> obj i w = (Inr s, w)"
  by (simp add: obj_def)

lemma view_update [simp]:
  "view (w\<lparr>w_objs := a\<rparr>) = view w" "view (w\<lparr>w_clock := b\<rparr>) = view w"
  "view (w\<lparr>w_deadline := c\<rparr>) = view w" "view (w\<lparr>w_expired := g\<rparr>) = view w" "view (w\<lparr>w_drawn := e\<rparr>) = view w"
  "view (w\<lparr>w_trace := h\<rparr>) = view w" "view (w\<lparr>w_redis := n\<rparr>) = view w" "view (w\<lparr>w_failed := k\<rparr>) = view w"
  "view (w\<lparr>w_pend := p\<rparr>) = p (w_db w)"
  by (simp_all add: view_def)

lemma mapE_Inr_length: "mapE f xs w = (Inr ys, w') \<Longrightarrow> length ys = length xs"
  by (induction xs arbitrary: w ys w')
    (auto simp: prog_simps split: prod.splits sum.splits)

section \<open>Relations that programs keep\<close>

text \<open>
  What a program does to the committed database, beside what its environment does: the
  moves of the environment it has met, in their order, and between them steps of its own,
  each of which relates the database before and after by \<open>R\<close>.
\<close>

fun interleaved :: "(db \<Rightarrow> db \<Rightarrow> bool) \<Rightarrow> ext list \<Rightarrow> db \<Rightarrow> db \<Rightarrow> bool" where
  "interleaved R [] d d' = R d d'"
| "interleaved R (e # es) d d' = (\<exists>d1. R d d1 \<and> interleaved R es (ext_db e d1) d')"

text \<open>
  A program keeps \<open>R\<close> if, whatever the environment does, its own steps are such steps and it
  leaves only such writes pending.  The objects the session has loaded belong to tenants
  that satisfy \<open>own\<close>.
\<close>

definition pending_ok :: "(db \<Rightarrow> db \<Rightarrow> bool) \<Rightarrow> world \<Rightarrow> bool" where
  "pending_ok R w \<longleftrightarrow> (\<forall>d. R d (w_pend w d))"

definition objs_ok :: "(uuid \<Rightarrow> bool) \<Rightarrow> world \<Rightarrow> bool" where
  "objs_ok own w \<longleftrightarrow> (\<forall>i s. w_objs w i = Some s \<longrightarrow> sc_id s = i \<and> own (sc_tenant_id s))"

definition able :: "(db \<Rightarrow> db \<Rightarrow> bool) \<Rightarrow> (uuid \<Rightarrow> bool) \<Rightarrow> world \<Rightarrow> bool" where
  "able R own w \<longleftrightarrow> pending_ok R w \<and> objs_ok own w"

definition moves :: "(db \<Rightarrow> db \<Rightarrow> bool) \<Rightarrow> (uuid \<Rightarrow> bool) \<Rightarrow> world \<Rightarrow> world \<Rightarrow> bool" where
  "moves R own w w' \<longleftrightarrow>
     (\<exists>es. w_script w = es @ w_script w' \<and> interleaved R es (w_db w) (w_db w')) \<and> able R own w'"

definition keeps :: "(db \<Rightarrow> db \<Rightarrow> bool) \<Rightarrow> (uuid \<Rightarrow> bool) \<Rightarrow> 'a prog \<Rightarrow> bool" where
  "keeps R own m \<longleftrightarrow> (\<forall>w. able R own w \<longrightarrow> moves R own w (snd (m w)))"

text \<open>Rely and guarantee in one: an environment whose moves are related by \<open>R\<close> as well.\<close>

definition rely :: "(db \<Rightarrow> db \<Rightarrow> bool) \<Rightarrow> world \<Rightarrow> bool" where
  "rely R w \<longleftrightarrow> (\<forall>e\<in>set (w_script w). \<forall>d. R d (ext_db e d))"

definition safe :: "(db \<Rightarrow> db \<Rightarrow> bool) \<Rightarrow> (uuid \<Rightarrow> bool) \<Rightarrow> world \<Rightarrow> bool" where
  "safe R own w \<longleftrightarrow> rely R w \<and> able R own w"

lemma able_start: "(\<And>d. R d d) \<Longrightarrow> able R own (start_world d t script ids)"
  by (simp add: able_def pending_ok_def objs_ok_def start_world_def)

lemma safe_start:
  "(\<And>d. R d d) \<Longrightarrow> (\<And>e d. e \<in> set script \<Longrightarrow> R d (ext_db e d)) \<Longrightarrow>
    safe R own (start_world d t script ids)"
  by (simp add: safe_def rely_def able_start) (simp add: start_world_def)

lemma keeps_interleaved:
  "keeps R own m \<Longrightarrow> able R own w \<Longrightarrow>
    \<exists>es. w_script w = es @ w_script (snd (m w)) \<and> interleaved R es (w_db w) (w_db (snd (m w)))"
  by (simp add: keeps_def moves_def)

locale db_relation =
  fixes R :: "db \<Rightarrow> db \<Rightarrow> bool" and own :: "uuid \<Rightarrow> bool"
  assumes R_refl: "R d d"
    and R_trans: "R d d' \<Longrightarrow> R d' d'' \<Longrightarrow> R d d''"
begin

lemma interleaved_before: "R d d' \<Longrightarrow> interleaved R es d' d'' \<Longrightarrow> interleaved R es d d''"
  by (cases es) (auto intro: R_trans)

lemma interleaved_trans:
  "interleaved R es d d' \<Longrightarrow> interleaved R es' d' d'' \<Longrightarrow> interleaved R (es @ es') d d''"
  by (induction es arbitrary: d) (auto intro: interleaved_before)

lemma interleaved_rely:
  "interleaved R es d d' \<Longrightarrow> (\<And>e d. e \<in> set es \<Longrightarrow> R d (ext_db e d)) \<Longrightarrow> R d d'"
proof (induction es arbitrary: d)
  case (Cons e es)
  then obtain d1 where "R d d1" "interleaved R es (ext_db e d1) d'" by auto
  moreover from this have "R (ext_db e d1) d'" using Cons by simp
  ultimately show ?case using R_trans Cons.prems(2) by (meson list.set_intros(1))
qed simp

lemma keeps_safe:
  assumes "keeps R own m" "safe R own w"
  shows "R (w_db w) (w_db (snd (m w)))" "safe R own (snd (m w))"
proof -
  obtain es where es: "w_script w = es @ w_script (snd (m w))" "interleaved R es (w_db w) (w_db (snd (m w)))"
    using keeps_interleaved [OF assms(1)] assms(2) by (auto simp: safe_def)
  have r: "rely R w" using assms(2) by (simp add: safe_def)
  show "R (w_db w) (w_db (snd (m w)))"
    using r es(1) by (intro interleaved_rely [OF es(2)]) (simp add: rely_def)
  show "safe R own (snd (m w))"
    using assms r es(1) by (simp add: safe_def keeps_def moves_def rely_def)
qed

lemmas keepsD = keeps_safe(1)

lemma moves_trans: "moves R own w w' \<Longrightarrow> moves R own w' w'' \<Longrightarrow> moves R own w w''"
  unfolding moves_def by (metis append_assoc interleaved_trans)

lemma moves_same:
  "able R own w \<Longrightarrow> w_db w' = w_db w \<Longrightarrow> w_pend w' = w_pend w \<Longrightarrow>
    w_script w' = w_script w \<Longrightarrow> w_objs w' = w_objs w \<Longrightarrow> moves R own w w'"
  by (simp add: moves_def able_def pending_ok_def objs_ok_def R_refl)

lemma moves_own:
  "R (w_db w) (w_db w') \<Longrightarrow> w_script w' = w_script w \<Longrightarrow> able R own w' \<Longrightarrow> moves R own w w'"
  by (simp add: moves_def)

lemma moves_env:
  assumes "w_script w = e # w_script w'" "w_db w' = ext_db e (w_db w)" "able R own w'"
  shows "moves R own w w'"
proof -
  have "interleaved R [e] (w_db w) (w_db w')" using assms(2) R_refl by auto
  then show ?thesis using assms(1,3) unfolding moves_def by (metis append_Cons append_Nil)
qed

lemma keepsI_same:
  "(\<And>w. w_db (snd (m w)) = w_db w) \<Longrightarrow> (\<And>w. w_pend (snd (m w)) = w_pend w) \<Longrightarrow>
    (\<And>w. w_script (snd (m w)) = w_script w) \<Longrightarrow> (\<And>w. w_objs (snd (m w)) = w_objs w) \<Longrightarrow>
    keeps R own m"
  by (simp add: keeps_def moves_same)

lemma keeps_retE [keeps_intros]: "keeps R own (retE x)"
  by (rule keepsI_same) (simp_all add: retE_def)

lemma keeps_raiseE [keeps_intros]: "keeps R own (raiseE e)"
  by (rule keepsI_same) (simp_all add: raiseE_def)

lemma keeps_emit [keeps_intros]: "keeps R own (emit a)"
  by (rule keepsI_same) (simp_all add: emit_def)

lemma keeps_now [keeps_intros]: "keeps R own now"
  by (rule keepsI_same) (simp_all add: now_def)

lemma keeps_draw_uuid [keeps_intros]: "keeps R own draw_uuid"
  by (rule keepsI_same) (simp_all add: draw_uuid_def)

lemma keeps_remember [keeps_intros]: "own (sc_tenant_id s) \<Longrightarrow> keeps R own (remember s)"
  by (auto simp: keeps_def remember_def moves_def able_def pending_ok_def objs_ok_def R_refl)

lemma keeps_obj [keeps_intros]: "keeps R own (obj i)"
  by (rule keepsI_same) (simp_all add: obj_def split: option.split)

lemma keeps_liftE [keeps_intros]: "keeps R own (liftE r)"
  by (cases r) (simp_all add: liftE_def keeps_retE keeps_raiseE)

lemma keeps_of_outcome [keeps_intros]: "keeps R own (of_outcome r)"
  by (cases r) (simp_all add: of_outcome_def keeps_retE keeps_raiseE)

text \<open>Sequencing, where the continuation may use what the first program returned.\<close>

lemma keeps_bind_post:
  assumes m: "keeps R own m"
    and f: "\<And>x w w'. able R own w \<Longrightarrow> m w = (Inr x, w') \<Longrightarrow> keeps R own (f x)"
  shows "keeps R own (bindE m f)"
  unfolding keeps_def
proof (intro allI impI)
  fix w assume w: "able R own w"
  obtain r w1 where mw: "m w = (r, w1)" by (cases "m w")
  have 1: "moves R own w w1" using m w mw unfolding keeps_def by (metis snd_conv)
  show "moves R own w (snd (bindE m f w))"
  proof (cases r)
    case (Inl e)
    with mw 1 show ?thesis by (simp add: bindE_def)
  next
    case (Inr x)
    from f [OF w] mw Inr have "keeps R own (f x)" by simp
    moreover from 1 have "able R own w1" by (simp add: moves_def)
    ultimately have "moves R own w1 (snd (f x w1))" by (simp add: keeps_def)
    with 1 have "moves R own w (snd (f x w1))" by (rule moves_trans)
    with mw Inr show ?thesis by (simp add: bindE_def)
  qed
qed

lemma keeps_bindE [keeps_intros]:
  "keeps R own m \<Longrightarrow> (\<And>x. keeps R own (f x)) \<Longrightarrow> keeps R own (bindE m f)"
  by (rule keeps_bind_post)

lemma keeps_thenE [keeps_intros]: "keeps R own m \<Longrightarrow> keeps R own k \<Longrightarrow> keeps R own (thenE m k)"
  by (simp add: thenE_def keeps_bindE)

lemma keeps_with_obj:
  "(\<And>s. own (sc_tenant_id s) \<Longrightarrow> sc_id s = i \<Longrightarrow> keeps R own (f s)) \<Longrightarrow> keeps R own (bindE (obj i) f)"
  by (rule keeps_bind_post [OF keeps_obj])
    (auto simp: obj_def able_def objs_ok_def split: option.splits)

lemma keeps_whenE [keeps_intros]: "keeps R own m \<Longrightarrow> keeps R own (whenE b m)"
  by (simp add: whenE_def keeps_retE)

lemma keeps_tryE [keeps_intros]:
  assumes m: "keeps R own m" and h: "\<And>e. keeps R own (h e)"
  shows "keeps R own (tryE m h)"
  unfolding keeps_def
proof (intro allI impI)
  fix w assume w: "able R own w"
  obtain r w1 where mw: "m w = (r, w1)" by (cases "m w")
  have 1: "moves R own w w1" using m w mw unfolding keeps_def by (metis snd_conv)
  show "moves R own w (snd (tryE m h w))"
  proof (cases r)
    case (Inl e)
    from 1 have "able R own w1" by (simp add: moves_def)
    with h have "moves R own w1 (snd (h e w1))" by (simp add: keeps_def)
    with 1 have "moves R own w (snd (h e w1))" by (rule moves_trans)
    with mw Inl show ?thesis by (simp add: tryE_def)
  next
    case (Inr x)
    with mw 1 show ?thesis by (simp add: tryE_def)
  qed
qed

lemma keeps_finallyE [keeps_intros]:
  assumes m: "keeps R own m" and f: "keeps R own f"
  shows "keeps R own (finallyE m f)"
  unfolding keeps_def
proof (intro allI impI)
  fix w assume w: "able R own w"
  obtain r w1 where mw: "m w = (r, w1)" by (cases "m w")
  obtain r' w2 where fw: "f w1 = (r', w2)" by (cases "f w1")
  have 1: "moves R own w w1" using m w mw unfolding keeps_def by (metis snd_conv)
  then have "able R own w1" by (simp add: moves_def)
  then have "moves R own w1 w2" using f fw unfolding keeps_def by (metis snd_conv)
  with 1 have "moves R own w w2" by (rule moves_trans)
  then show "moves R own w (snd (finallyE m f w))"
    using mw fw by (simp add: finallyE_def split: sum.split)
qed

lemma keeps_mapE [keeps_intros]: "(\<And>x. keeps R own (f x)) \<Longrightarrow> keeps R own (mapE f xs)"
  by (induction xs) (auto intro!: keeps_retE keeps_bindE)

lemma keeps_pause [keeps_intros]: "keeps R own pause"
  unfolding keeps_def
proof (intro allI impI)
  fix w assume w: "able R own w"
  show "moves R own w (snd (pause w))"
  proof (cases "w_script w")
    case Nil
    with w show ?thesis by (simp add: pause_def moves_same)
  next
    case (Cons e es)
    with w show ?thesis
      by (intro moves_env [of w e]) (simp_all add: pause_def Let_def able_def pending_ok_def objs_ok_def)
  qed
qed

lemma keeps_pause_stmt [keeps_intros]: "keeps R own pause_stmt"
  unfolding keeps_def
proof (intro allI impI)
  fix w assume w: "able R own w"
  then have m: "moves R own w (snd (pause w))" using keeps_pause by (simp add: keeps_def)
  then have "moves R own w ((snd (pause w))\<lparr>w_failed := x\<rparr>)" for x
    by (simp add: moves_def able_def pending_ok_def objs_ok_def)
  with m show "moves R own w (snd (pause_stmt w))"
    using w by (cases "pause w") (simp add: pause_stmt_def moves_same split: list.split)
qed

lemma keeps_with_timeout [keeps_intros]: "keeps R own m \<Longrightarrow> keeps R own (with_timeout m)"
  unfolding keeps_def
proof (intro allI impI)
  fix w assume m: "\<forall>w. able R own w \<longrightarrow> moves R own w (snd (m w))" and w: "able R own w"
  let ?w = "w\<lparr>w_deadline := True, w_expired := False\<rparr>"
  have "able R own ?w" using w by (simp add: able_def pending_ok_def objs_ok_def)
  with m have "moves R own ?w (snd (m ?w))" by blast
  then show "moves R own w (snd (with_timeout m w))"
    by (cases "m ?w")
      (simp add: with_timeout_def moves_def able_def pending_ok_def objs_ok_def)
qed

text \<open>A program that runs after an await point, and leaves database and script alone.\<close>

lemma keeps_after_pause:
  "(\<And>w. w_db (snd (k w)) = w_db w) \<Longrightarrow> (\<And>w. w_script (snd (k w)) = w_script w) \<Longrightarrow>
    (\<And>w. able R own w \<Longrightarrow> pending_ok R (snd (k w)) \<and> objs_ok own (snd (k w))) \<Longrightarrow>
    keeps R own (thenE pause_stmt k)"
  by (rule keeps_thenE [OF keeps_pause_stmt])
    (simp add: keeps_def moves_own R_refl able_def)

lemma keeps_query [keeps_intros]: "keeps R own (query q)"
  unfolding query_def by (rule keeps_after_pause) (simp_all add: able_def)

lemma keeps_stmt [keeps_intros]: "(\<And>d. R d (f d)) \<Longrightarrow> keeps R own (stmt ok f)"
  unfolding stmt_def
  by (rule keeps_after_pause) (auto simp: able_def pending_ok_def objs_ok_def intro: R_trans)

lemma keeps_commit [keeps_intros]: "keeps R own commit"
  by (auto simp: keeps_def commit_def moves_def able_def pending_ok_def objs_ok_def
      view_def R_refl)

lemma keeps_rollback [keeps_intros]: "keeps R own rollback"
  by (auto simp: keeps_def rollback_def moves_def able_def pending_ok_def objs_ok_def R_refl)

lemma keeps_request [keeps_intros]: "keeps R own m \<Longrightarrow> keeps R own (request m)"
  unfolding request_def
  by (intro keeps_tryE keeps_bindE) (auto intro: keeps_thenE keeps_commit keeps_retE keeps_rollback keeps_raiseE)

end

end
