(* ===== verification/Scan_Repositories.thy ===== *)
theory Scan_Repositories
  imports Session
begin

text \<open>
  The repositories of the scan engine (\<open>repositories/scan_repository.py\<close>,
  \<open>scan_outbox_repository.py\<close>, \<open>scan_event_repository.py\<close>) with the schemas that
  carry their arguments (\<open>schemas/scan.py\<close>, \<open>scan_outbox.py\<close>, \<open>scan_event.py\<close>).
  The pure part of every statement, its effect on the tables, is a definition of its own
  (\<open>insert_scan\<close>, \<open>update_scans\<close>, \<open>insert_outbox\<close>, ...); the repository method is the
  program that runs it on the session.
\<close>

section \<open>Rows and the statements on them\<close>

record scan_create =
  cr_tenant_id :: uuid
  cr_project_id :: uuid
  cr_asset_id :: uuid
  cr_scanner_type :: string
  cr_requested_by_user_id :: "uuid option"
  cr_config :: "json_object option"
  cr_timeout_seconds :: "int option"
  cr_max_attempts :: "int option"
  cr_retry_of_scan_id :: "uuid option"
  cr_correlation_id :: "string option"

text \<open>A field that is \<open>None\<close> here is unset, and left out of the \<open>UPDATE\<close>.\<close>

record scan_update =
  up_status :: "scan_status option"
  up_queued_at :: "int option"
  up_started_at :: "int option"
  up_completed_at :: "int option"
  up_failed_at :: "int option"
  up_cancelled_at :: "int option"
  up_timed_out_at :: "int option"
  up_error_code :: "string option"
  up_error_summary :: "string option"
  up_attempt :: "int option"
  up_worker_id :: "string option"
  up_job_id :: "string option"

definition no_update :: scan_update where
  "no_update = \<lparr>up_status = None, up_queued_at = None, up_started_at = None,
     up_completed_at = None, up_failed_at = None, up_cancelled_at = None,
     up_timed_out_at = None, up_error_code = None, up_error_summary = None,
     up_attempt = None, up_worker_id = None, up_job_id = None\<rparr>"

definition set_or :: "'a option \<Rightarrow> 'a option \<Rightarrow> 'a option" where
  "set_or new old = (case new of None \<Rightarrow> old | Some _ \<Rightarrow> new)"

definition val_or :: "'a option \<Rightarrow> 'a \<Rightarrow> 'a" where
  "val_or new old = (case new of None \<Rightarrow> old | Some x \<Rightarrow> x)"

lemma set_or_simps [simp]: "set_or None y = y" "set_or (Some x) y = Some x"
  by (simp_all add: set_or_def)

lemma val_or_simps [simp]: "val_or None y = y" "val_or (Some x) y = x"
  by (simp_all add: val_or_def)

text \<open>The row after \<open>UPDATE ... SET\<close> the given fields; \<open>onupdate\<close> stamps \<open>updated_at\<close>.\<close>

definition apply_scan_update :: "scan_update \<Rightarrow> int \<Rightarrow> scan \<Rightarrow> scan" where
  "apply_scan_update u t s = s\<lparr>
     sc_status := val_or (up_status u) (sc_status s),
     sc_queued_at := set_or (up_queued_at u) (sc_queued_at s),
     sc_started_at := set_or (up_started_at u) (sc_started_at s),
     sc_completed_at := set_or (up_completed_at u) (sc_completed_at s),
     sc_failed_at := set_or (up_failed_at u) (sc_failed_at s),
     sc_cancelled_at := set_or (up_cancelled_at u) (sc_cancelled_at s),
     sc_timed_out_at := set_or (up_timed_out_at u) (sc_timed_out_at s),
     sc_error_code := set_or (up_error_code u) (sc_error_code s),
     sc_error_summary := set_or (up_error_summary u) (sc_error_summary s),
     sc_attempt := val_or (up_attempt u) (sc_attempt s),
     sc_worker_id := set_or (up_worker_id u) (sc_worker_id s),
     sc_job_id := set_or (up_job_id u) (sc_job_id s),
     sc_updated_at := t\<rparr>"

lemma apply_scan_update_fields [simp]:
  "sc_id (apply_scan_update u t s) = sc_id s"
  "sc_tenant_id (apply_scan_update u t s) = sc_tenant_id s"
  "sc_project_id (apply_scan_update u t s) = sc_project_id s"
  "sc_asset_id (apply_scan_update u t s) = sc_asset_id s"
  "sc_scanner_type (apply_scan_update u t s) = sc_scanner_type s"
  "sc_requested_by_user_id (apply_scan_update u t s) = sc_requested_by_user_id s"
  "sc_max_attempts (apply_scan_update u t s) = sc_max_attempts s"
  "sc_timeout_seconds (apply_scan_update u t s) = sc_timeout_seconds s"
  "sc_retry_of_scan_id (apply_scan_update u t s) = sc_retry_of_scan_id s"
  "sc_config (apply_scan_update u t s) = sc_config s"
  "sc_correlation_id (apply_scan_update u t s) = sc_correlation_id s"
  "sc_created_at (apply_scan_update u t s) = sc_created_at s"
  "sc_status (apply_scan_update u t s) = val_or (up_status u) (sc_status s)"
  "sc_attempt (apply_scan_update u t s) = val_or (up_attempt u) (sc_attempt s)"
  by (simp_all add: apply_scan_update_def)

interpretation scan_row: keyed_update sc_id "apply_scan_update u t"
  by unfold_locales simp

text \<open>The \<open>UPDATE scans SET ... WHERE tenant_id = .. AND id = .. AND guard\<close> of the repository.\<close>

definition scan_at :: "uuid \<Rightarrow> uuid \<Rightarrow> scan \<Rightarrow> bool" where
  "scan_at tn i s \<longleftrightarrow> sc_id s = i \<and> sc_tenant_id s = tn"

definition update_scans :: "(scan \<Rightarrow> bool) \<Rightarrow> scan_update \<Rightarrow> int \<Rightarrow> db \<Rightarrow> db" where
  "update_scans P u t d = d\<lparr>scans := update_where P (apply_scan_update u t) (scans d)\<rparr>"

definition find_scan :: "uuid \<Rightarrow> uuid \<Rightarrow> db \<Rightarrow> scan option" where
  "find_scan tn i d = select_one (scan_at tn i) (scans d)"

definition insert_scan :: "scan \<Rightarrow> db \<Rightarrow> db" where
  "insert_scan s d = d\<lparr>scans := scans d @ [s]\<rparr>"

definition insert_outbox :: "scan_job_outbox \<Rightarrow> db \<Rightarrow> db" where
  "insert_outbox b d = d\<lparr>outbox := outbox d @ [b]\<rparr>"

definition insert_event :: "scan_event \<Rightarrow> db \<Rightarrow> db" where
  "insert_event e d = d\<lparr>scan_events := scan_events d @ [e]\<rparr>"

lemma find_scan_SomeD:
  "find_scan tn i d = Some s \<Longrightarrow> s \<in> set (scans d) \<and> sc_id s = i \<and> sc_tenant_id s = tn"
  by (auto simp: find_scan_def scan_at_def dest: select_one_SomeD)

lemma find_scan_update [row_simps]:
  "find_scan tn i (update_scans (\<lambda>s. scan_at tn i s \<and> P s) u t d) =
    map_option (\<lambda>s. if P s then apply_scan_update u t s else s) (find_scan tn i d)"
proof -
  have "select_one (scan_at tn i) (update_where (\<lambda>s. scan_at tn i s \<and> P s) f xs) =
      map_option (\<lambda>s. if P s then f s else s) (select_one (scan_at tn i) xs)"
    if "f = apply_scan_update u t" for f xs
    unfolding that by (induction xs) (auto simp: scan_at_def)
  then show ?thesis by (simp add: find_scan_def update_scans_def)
qed

lemma find_scan_insert [row_simps]:
  "find_scan tn i (insert_outbox b d) = find_scan tn i d"
  "find_scan tn i (insert_event e d) = find_scan tn i d"
  "find_scan tn i d = Some s \<Longrightarrow> find_scan tn i (insert_scan r d) = Some s"
  by (simp_all add: find_scan_def insert_outbox_def insert_event_def insert_scan_def)

section \<open>The scan repository\<close>

text \<open>
  \<open>create\<close>: the model defaults (\<open>models/scan.py\<close>) apply where the caller gave nothing,
  and a missing or empty correlation id is replaced by a fresh UUID.
\<close>

definition new_scan :: "scan_create \<Rightarrow> string \<Rightarrow> uuid \<Rightarrow> int \<Rightarrow> scan" where
  "new_scan c corr i t = \<lparr>sc_id = i, sc_tenant_id = cr_tenant_id c,
     sc_project_id = cr_project_id c, sc_asset_id = cr_asset_id c,
     sc_scanner_type = cr_scanner_type c, sc_status = PENDING,
     sc_requested_by_user_id = cr_requested_by_user_id c,
     sc_queued_at = None, sc_started_at = None, sc_completed_at = None, sc_failed_at = None,
     sc_cancelled_at = None, sc_timed_out_at = None, sc_error_code = None,
     sc_error_summary = None, sc_attempt = 0,
     sc_max_attempts = val_or (cr_max_attempts c) 3, sc_worker_id = None, sc_job_id = None,
     sc_timeout_seconds = val_or (cr_timeout_seconds c) 1800,
     sc_retry_of_scan_id = cr_retry_of_scan_id c, sc_config = cr_config c,
     sc_correlation_id = Some corr, sc_created_at = t, sc_updated_at = t\<rparr>"

definition scan_insert_ok :: "scan \<Rightarrow> db \<Rightarrow> bool" where
  "scan_insert_ok s d \<longleftrightarrow> scan_checks s \<and> (\<forall>r\<in>set (scans d). sc_id r \<noteq> sc_id s)"

definition scan_repo_create :: "scan_create \<Rightarrow> scan prog" where
  "scan_repo_create c =
    bindE (if truthy (cr_correlation_id c) then retE (or_default (cr_correlation_id c) [])
           else bindE draw_uuid (\<lambda>u. retE (uuid_str u))) (\<lambda>corr.
    bindE draw_uuid (\<lambda>i.
    bindE now (\<lambda>t.
    let s = new_scan c corr i t in
    thenE (stmt (scan_insert_ok s) (insert_scan s))
      (thenE (remember s) (retE s)))))"

definition scan_repo_get_by_id :: "uuid \<Rightarrow> uuid \<Rightarrow> scan option prog" where
  "scan_repo_get_by_id tn i =
    bindE (query (find_scan tn i)) (\<lambda>r.
      case r of None \<Rightarrow> retE None | Some s \<Rightarrow> thenE (remember s) (retE (Some s)))"

definition scan_repo_list_by_asset :: "uuid \<Rightarrow> uuid \<Rightarrow> pagination \<Rightarrow> scan page prog" where
  "scan_repo_list_by_asset tn a p =
    query (\<lambda>d. paginate p (order_by_desc sc_created_at
      (select_all (\<lambda>s. sc_tenant_id s = tn \<and> sc_asset_id s = a) (scans d))))"

definition matches :: "'a option \<Rightarrow> 'a \<Rightarrow> bool" where
  "matches f x = (case f of None \<Rightarrow> True | Some y \<Rightarrow> x = y)"

definition scan_repo_list_by_tenant ::
    "uuid \<Rightarrow> pagination \<Rightarrow> uuid option \<Rightarrow> uuid option \<Rightarrow> scan_status option \<Rightarrow> scan page prog" where
  "scan_repo_list_by_tenant tn p a pr st =
    query (\<lambda>d. paginate p (order_by_desc sc_created_at
      (select_all (\<lambda>s. sc_tenant_id s = tn \<and> matches a (sc_asset_id s) \<and>
         matches pr (sc_project_id s) \<and> matches st (sc_status s)) (scans d))))"

text \<open>
  \<open>UPDATE ... WHERE guard RETURNING *\<close> with \<open>populate_existing\<close>: the identity-mapped
  object is refreshed from the returned row.  When no row matches the object is not
  refreshed; whether the ORM has already copied the new values into it (it synchronises
  objects that satisfied the \<open>WHERE\<close> clause in memory) is its own choice, the parameter
  \<open>sync\<close>, so no theorem may depend on it.
\<close>

definition guarded_update ::
    "bool \<Rightarrow> uuid \<Rightarrow> uuid \<Rightarrow> (scan \<Rightarrow> bool) \<Rightarrow> scan_update \<Rightarrow> scan option prog" where
  "guarded_update sync tn i P u = thenE pause_stmt (\<lambda>w.
    if w_failed w then (Inl db_error, w)
    else let t = w_clock w; G = (\<lambda>s. scan_at tn i s \<and> P s) in
      case select_one G (scans (view w)) of
        None \<Rightarrow> (Inr None, w\<lparr>w_objs := (\<lambda>k. case w_objs w k of None \<Rightarrow> None | Some s \<Rightarrow>
                    Some (if sync \<and> G s then apply_scan_update u t s else s))\<rparr>)
      | Some r \<Rightarrow> let r' = apply_scan_update u t r in
          if scan_checks r'
          then (Inr (Some r'), w\<lparr>w_pend := (\<lambda>d. update_scans G u t (w_pend w d)),
                  w_objs := (w_objs w)(i := Some r')\<rparr>)
          else (Inl db_error, w\<lparr>w_failed := True\<rparr>))"

definition scan_repo_conditional_update ::
    "bool \<Rightarrow> uuid \<Rightarrow> uuid \<Rightarrow> scan_status \<Rightarrow> scan_update \<Rightarrow> scan option prog" where
  "scan_repo_conditional_update sync tn i expected u =
    guarded_update sync tn i (\<lambda>s. sc_status s = expected) u"

definition claim_update :: "int \<Rightarrow> string \<Rightarrow> scan_update" where
  "claim_update attempt worker =
    no_update\<lparr>up_status := Some PREPARING, up_attempt := Some (attempt + 1), up_worker_id := Some worker\<rparr>"

definition scan_repo_claim_for_execution ::
    "bool \<Rightarrow> uuid \<Rightarrow> uuid \<Rightarrow> int \<Rightarrow> string \<Rightarrow> scan option prog" where
  "scan_repo_claim_for_execution sync tn i attempt worker =
    guarded_update sync tn i (\<lambda>s. sc_status s = QUEUED \<and> sc_attempt s = attempt)
      (claim_update attempt worker)"

text \<open>\<open>update\<close>: attributes of a loaded object, flushed as an \<open>UPDATE\<close> by primary key.\<close>

definition scan_update_ok :: "uuid \<Rightarrow> scan_update \<Rightarrow> int \<Rightarrow> db \<Rightarrow> bool" where
  "scan_update_ok i u t d \<longleftrightarrow>
    (case select_one (\<lambda>s. sc_id s = i) (scans d) of None \<Rightarrow> False
     | Some r \<Rightarrow> scan_checks (apply_scan_update u t r))"

definition scan_repo_update :: "scan \<Rightarrow> scan_update \<Rightarrow> scan prog" where
  "scan_repo_update s u =
    bindE now (\<lambda>t.
    thenE (stmt (scan_update_ok (sc_id s) u t) (update_scans (\<lambda>r. sc_id r = sc_id s) u t))
      (let s' = apply_scan_update u t s in thenE (remember s') (retE s')))"

section \<open>The outbox repository\<close>

record outbox_create =
  oc_tenant_id :: uuid
  oc_scan_id :: uuid
  oc_scan_attempt :: int
  oc_event_type :: string
  oc_payload :: json_object
  oc_countdown_seconds :: rat

definition new_outbox :: "outbox_create \<Rightarrow> uuid \<Rightarrow> int \<Rightarrow> scan_job_outbox" where
  "new_outbox c i t = \<lparr>ob_id = i, ob_tenant_id = oc_tenant_id c, ob_scan_id = oc_scan_id c,
     ob_scan_attempt = oc_scan_attempt c, ob_event_type = oc_event_type c,
     ob_payload = oc_payload c, ob_countdown_seconds = oc_countdown_seconds c,
     ob_created_at = t, ob_published_at = None, ob_attempt_count = 0,
     ob_last_attempt_at = None, ob_last_error = None\<rparr>"

definition outbox_insert_ok :: "scan_job_outbox \<Rightarrow> db \<Rightarrow> bool" where
  "outbox_insert_ok b d \<longleftrightarrow> outbox_checks b \<and>
    (\<forall>r\<in>set (outbox d). ob_id r \<noteq> ob_id b \<and> outbox_key r \<noteq> outbox_key b)"

definition outbox_repo_create :: "outbox_create \<Rightarrow> scan_job_outbox prog" where
  "outbox_repo_create c =
    bindE draw_uuid (\<lambda>i. bindE now (\<lambda>t.
    let b = new_outbox c i t in
    thenE (stmt (outbox_insert_ok b) (insert_outbox b)) (retE b)))"

text \<open>
  \<open>claim_next_pending\<close>: the oldest unpublished row that no other dispatcher has locked.
  The rows locked by others at this moment are the parameter \<open>locked\<close>.
\<close>

definition next_pending :: "uuid set \<Rightarrow> db \<Rightarrow> scan_job_outbox option" where
  "next_pending locked d =
    (case order_by ob_created_at
       (select_all (\<lambda>b. ob_published_at b = None \<and> ob_id b \<notin> locked) (outbox d)) of
       [] \<Rightarrow> None | b # _ \<Rightarrow> Some b)"

definition outbox_repo_claim_next_pending :: "uuid set \<Rightarrow> scan_job_outbox option prog" where
  "outbox_repo_claim_next_pending locked = query (next_pending locked)"

definition published_row :: "int \<Rightarrow> int \<Rightarrow> scan_job_outbox \<Rightarrow> scan_job_outbox" where
  "published_row t n b = b\<lparr>ob_published_at := Some t, ob_attempt_count := n, ob_last_attempt_at := Some t\<rparr>"

definition failed_attempt_row :: "int \<Rightarrow> int \<Rightarrow> string \<Rightarrow> scan_job_outbox \<Rightarrow> scan_job_outbox" where
  "failed_attempt_row n t err b =
    b\<lparr>ob_attempt_count := n, ob_last_attempt_at := Some t, ob_last_error := Some err\<rparr>"

interpretation published_update: keyed_update ob_id "published_row t n"
  by unfold_locales (simp add: published_row_def)

interpretation failed_attempt_update: keyed_update ob_id "failed_attempt_row n t err"
  by unfold_locales (simp add: failed_attempt_row_def)

definition update_outbox :: "uuid \<Rightarrow> (scan_job_outbox \<Rightarrow> scan_job_outbox) \<Rightarrow> db \<Rightarrow> db" where
  "update_outbox i f d = d\<lparr>outbox := update_where (\<lambda>b. ob_id b = i) f (outbox d)\<rparr>"

definition outbox_repo_mark_published :: "scan_job_outbox \<Rightarrow> int \<Rightarrow> int \<Rightarrow> unit prog" where
  "outbox_repo_mark_published b t n =
    stmt (\<lambda>_. outbox_checks (published_row t n b)) (update_outbox (ob_id b) (published_row t n))"

definition outbox_repo_mark_failed_attempt ::
    "scan_job_outbox \<Rightarrow> int \<Rightarrow> int \<Rightarrow> string \<Rightarrow> unit prog" where
  "outbox_repo_mark_failed_attempt b n t err =
    stmt (\<lambda>_. outbox_checks (failed_attempt_row n t err b))
      (update_outbox (ob_id b) (failed_attempt_row n t err))"

definition outbox_repo_list_by_scan :: "uuid \<Rightarrow> uuid \<Rightarrow> scan_job_outbox list prog" where
  "outbox_repo_list_by_scan tn i =
    query (\<lambda>d. order_by ob_created_at
      (select_all (\<lambda>b. ob_tenant_id b = tn \<and> ob_scan_id b = i) (outbox d)))"

section \<open>The event repository\<close>

record scan_event_create =
  ec_tenant_id :: uuid
  ec_scan_id :: uuid
  ec_event_type :: string
  ec_stage :: "string option"
  ec_progress_percent :: "int option"
  ec_worker_id :: "string option"
  ec_correlation_id :: "string option"
  ec_message :: "string option"
  ec_event_metadata :: "json_object option"

text \<open>The validators of \<open>ScanEventCreate\<close>; JSON text is ASCII, so bytes are characters.\<close>

definition scan_event_metadata_max_bytes :: nat where
  "scan_event_metadata_max_bytes = 8192"

definition check_scan_event_create :: "scan_event_create \<Rightarrow> pyexc + scan_event_create" where
  "check_scan_event_create c =
    (if (case ec_progress_percent c of None \<Rightarrow> False | Some p \<Rightarrow> \<not> (0 \<le> p \<and> p \<le> 100))
     then Inl (exc ValueError ''progress_percent must be between 0 and 100'')
     else if (case ec_event_metadata c of None \<Rightarrow> False
              | Some m \<Rightarrow> length (dumps (JObj m)) > scan_event_metadata_max_bytes)
     then Inl (exc ValueError ''event_metadata must not exceed 8192 bytes'')
     else Inr c)"

definition new_scan_event :: "scan_event_create \<Rightarrow> uuid \<Rightarrow> int \<Rightarrow> scan_event" where
  "new_scan_event c i t = \<lparr>ev_id = i, ev_tenant_id = ec_tenant_id c, ev_scan_id = ec_scan_id c,
     ev_event_type = ec_event_type c, ev_stage = ec_stage c,
     ev_progress_percent = ec_progress_percent c, ev_worker_id = ec_worker_id c,
     ev_correlation_id = ec_correlation_id c, ev_message = ec_message c,
     ev_metadata = ec_event_metadata c, ev_created_at = t\<rparr>"

definition scan_event_repo_create :: "scan_event_create \<Rightarrow> scan_event prog" where
  "scan_event_repo_create c =
    bindE draw_uuid (\<lambda>i. bindE now (\<lambda>t.
    let e = new_scan_event c i t in
    thenE (stmt (\<lambda>d. scan_event_checks e \<and> (\<forall>r\<in>set (scan_events d). ev_id r \<noteq> i)) (insert_event e))
      (retE e)))"

definition scan_event_repo_list_by_scan :: "uuid \<Rightarrow> uuid \<Rightarrow> pagination \<Rightarrow> scan_event page prog" where
  "scan_event_repo_list_by_scan tn i p =
    query (\<lambda>d. paginate p (order_by_desc ev_created_at
      (select_all (\<lambda>e. ev_tenant_id e = tn \<and> ev_scan_id e = i) (scan_events d))))"

definition latest_progress :: "uuid \<Rightarrow> uuid \<Rightarrow> db \<Rightarrow> scan_event option" where
  "latest_progress tn i d =
    (case order_by_desc ev_created_at (select_all (\<lambda>e. ev_tenant_id e = tn \<and> ev_scan_id e = i \<and>
        ev_event_type e = ''scan.progress'') (scan_events d)) of
       [] \<Rightarrow> None | e # _ \<Rightarrow> Some e)"

definition scan_event_repo_get_latest_progress :: "uuid \<Rightarrow> uuid \<Rightarrow> scan_event option prog" where
  "scan_event_repo_get_latest_progress tn i = query (latest_progress tn i)"

end
