(* ===== verification/State_Machine.thy ===== *)
theory State_Machine
  imports Scan_Repositories
begin

text \<open>
  \<open>scan_engine/state_machine.py\<close>: the transition table of \<open>Scan.status\<close>, reachability
  in it, and \<open>ScanStateMachine.transition\<close>, the guarded update that every status
  change goes through.
\<close>

section \<open>The table\<close>

fun valid_transitions :: "scan_status \<Rightarrow> scan_status list" where
  "valid_transitions PENDING = [QUEUED, CANCELLED]"
| "valid_transitions QUEUED = [PREPARING, CANCELLED, FAILED]"
| "valid_transitions PREPARING = [RUNNING, QUEUED, CANCELLED, FAILED, TIMED_OUT]"
| "valid_transitions RUNNING = [COLLECTING, QUEUED, CANCELLED, FAILED, TIMED_OUT]"
| "valid_transitions COLLECTING = [PROCESSING, QUEUED, CANCELLED, FAILED, TIMED_OUT]"
| "valid_transitions PROCESSING = [SUCCEEDED, FAILED, CANCELLED]"
| "valid_transitions SUCCEEDED = []"
| "valid_transitions FAILED = []"
| "valid_transitions CANCELLED = []"
| "valid_transitions TIMED_OUT = []"

definition terminal :: "scan_status \<Rightarrow> bool" where
  "terminal s \<longleftrightarrow> s \<in> {SUCCEEDED, FAILED, CANCELLED, TIMED_OUT}"

text \<open>One step of the table, as a relation, and the statuses a scan can pass through.\<close>

inductive status_step :: "scan_status \<Rightarrow> scan_status \<Rightarrow> bool" where
  "t \<in> set (valid_transitions s) \<Longrightarrow> status_step s t"

inductive status_path :: "scan_status \<Rightarrow> scan_status \<Rightarrow> bool" where
  path_refl: "status_path s s"
| path_step: "status_path s t \<Longrightarrow> status_step t u \<Longrightarrow> status_path s u"

inductive_simps status_step_simps: "status_step s t"
inductive_cases status_pathE: "status_path s t"

lemma status_step_iff [simp]: "status_step s t \<longleftrightarrow> t \<in> set (valid_transitions s)"
  by (simp add: status_step_simps)

lemma status_path_trans: "status_path t u \<Longrightarrow> status_path s t \<Longrightarrow> status_path s u"
  by (induction rule: status_path.induct) (auto intro: path_step)

lemma status_path_edge: "t \<in> set (valid_transitions s) \<Longrightarrow> status_path s t"
  using path_refl path_step status_step_iff by blast

lemma terminal_no_transitions: "terminal s \<longleftrightarrow> valid_transitions s = []"
  by (cases s) (simp_all add: terminal_def)

lemma terminal_absorbing: "status_path s t \<Longrightarrow> terminal s \<Longrightarrow> t = s"
  by (induction rule: status_path.induct) (auto simp: terminal_no_transitions)

text \<open>How far a scan has come in its current attempt; only a retry goes back.\<close>

fun stage_rank :: "scan_status \<Rightarrow> nat" where
  "stage_rank PENDING = 0"
| "stage_rank QUEUED = 1"
| "stage_rank PREPARING = 2"
| "stage_rank RUNNING = 3"
| "stage_rank COLLECTING = 4"
| "stage_rank PROCESSING = 5"
| "stage_rank _ = 6"

lemma step_advances:
  "t \<in> set (valid_transitions s) \<Longrightarrow> stage_rank s < stage_rank t \<or> (t = QUEUED \<and> s \<in> {PREPARING, RUNNING, COLLECTING})"
  by (cases s) auto

lemma no_path_to_pending: "status_path s t \<Longrightarrow> t = PENDING \<Longrightarrow> s = PENDING"
proof (induction rule: status_path.induct)
  case (path_step s t u)
  then show ?case by (cases t) auto
qed

section \<open>The state machine\<close>

definition or_now :: "int option \<Rightarrow> int \<Rightarrow> int option" where
  "or_now x t = (case x of None \<Rightarrow> Some t | Some y \<Rightarrow> Some y)"

fun terminal_timestamp_field :: "scan_status \<Rightarrow> int \<Rightarrow> scan_update \<Rightarrow> scan_update" where
  "terminal_timestamp_field SUCCEEDED t u = u\<lparr>up_completed_at := or_now (up_completed_at u) t\<rparr>"
| "terminal_timestamp_field FAILED t u = u\<lparr>up_failed_at := or_now (up_failed_at u) t\<rparr>"
| "terminal_timestamp_field CANCELLED t u = u\<lparr>up_cancelled_at := or_now (up_cancelled_at u) t\<rparr>"
| "terminal_timestamp_field TIMED_OUT t u = u\<lparr>up_timed_out_at := or_now (up_timed_out_at u) t\<rparr>"
| "terminal_timestamp_field _ t u = u"

text \<open>\<open>repr\<close> of a member, as the error messages interpolate it.\<close>

fun scan_status_name :: "scan_status \<Rightarrow> string" where
  "scan_status_name PENDING = ''PENDING''"
| "scan_status_name QUEUED = ''QUEUED''"
| "scan_status_name PREPARING = ''PREPARING''"
| "scan_status_name RUNNING = ''RUNNING''"
| "scan_status_name COLLECTING = ''COLLECTING''"
| "scan_status_name PROCESSING = ''PROCESSING''"
| "scan_status_name SUCCEEDED = ''SUCCEEDED''"
| "scan_status_name FAILED = ''FAILED''"
| "scan_status_name CANCELLED = ''CANCELLED''"
| "scan_status_name TIMED_OUT = ''TIMED_OUT''"

definition status_repr :: "scan_status \<Rightarrow> string" where
  "status_repr s = ''<ScanStatus.'' @ scan_status_name s @ '': '' @ [chr 39] @ scan_status_value s @ [chr 39] @ ''>''"

definition invalid_transition_message :: "scan_status \<Rightarrow> scan_status \<Rightarrow> string" where
  "invalid_transition_message s t =
    ''Cannot transition scan from '' @ status_repr s @ '' to '' @ status_repr t"

definition stale_message :: "uuid \<Rightarrow> scan_status \<Rightarrow> scan_status \<Rightarrow> string" where
  "stale_message i s t = ''Scan '' @ uuid_str i @ '' was no longer '' @ status_repr s @
     '' when transitioning to '' @ status_repr t"

definition assert_valid :: "scan_status \<Rightarrow> scan_status \<Rightarrow> unit prog" where
  "assert_valid s t =
    (if t \<in> set (valid_transitions s) then retE ()
     else raiseE (exc InvalidScanTransitionError (invalid_transition_message s t)))"

text \<open>The fields of the update: status, what the caller gave, and the timestamps due.\<close>

definition transition_fields :: "scan \<Rightarrow> scan_status \<Rightarrow> scan_update \<Rightarrow> int \<Rightarrow> scan_update" where
  "transition_fields s target upd t =
    (let u = terminal_timestamp_field target t (upd\<lparr>up_status := Some target\<rparr>);
         u = (if target = QUEUED \<and> sc_queued_at s = None
              then u\<lparr>up_queued_at := or_now (up_queued_at u) t\<rparr> else u);
         u = (if target = RUNNING \<and> sc_started_at s = None
              then u\<lparr>up_started_at := or_now (up_started_at u) t\<rparr> else u)
     in u)"

text \<open>
  \<open>transition\<close> reads the identity-mapped object of the scan, so it takes the identifier.
\<close>

definition transition :: "bool \<Rightarrow> uuid \<Rightarrow> scan_status \<Rightarrow> scan_update \<Rightarrow> scan prog" where
  "transition sync i target upd =
    bindE (obj i) (\<lambda>s.
    thenE (assert_valid (sc_status s) target)
    (bindE now (\<lambda>t.
    bindE (scan_repo_conditional_update sync (sc_tenant_id s) i (sc_status s)
             (transition_fields s target upd t)) (\<lambda>updated.
    case updated of
      None \<Rightarrow> bindE (obj i) (\<lambda>s. raiseE (exc StaleScanStateError (stale_message i (sc_status s) target)))
    | Some s' \<Rightarrow> thenE commit (retE s')))))"

lemma transition_fields_status [simp]:
  "up_status (transition_fields s target upd t) = Some target"
  by (cases target) (simp_all add: transition_fields_def Let_def)

lemma transition_fields_attempt [simp]:
  "up_attempt (transition_fields s target upd t) = up_attempt upd"
  by (cases target) (simp_all add: transition_fields_def Let_def)

end
