(* ===== verification/Scanner_Plugins.thy ===== *)
theory Scanner_Plugins
  imports Job_Queue "HOL-Library.AList"
begin

text \<open>
  The scanner plugin contract and the registry (\<open>scan_engine/interfaces.py\<close>,
  \<open>context.py\<close>, \<open>pipeline/stages.py\<close>, \<open>registry.py\<close>).  No plugin ships with the
  source, so a plugin is a parameter: what each of its methods returns or raises, which
  may depend on the context and on the moment of the call.
\<close>

record scanner_capabilities =
  cap_scanner_type :: string
  cap_display_name :: string
  cap_supported_asset_types :: "asset_type list"
  cap_default_timeout_seconds :: int
  cap_supports_safe_mode :: bool

record artifact_ref =
  ar_key :: string
  ar_size_bytes :: int
  ar_content_type :: "string option"

record raw_finding =
  rf_rule_id :: string
  rf_title :: string
  rf_detail :: string
  rf_locator :: string
  rf_severity_raw :: string
  rf_confidence_raw :: "string option"
  rf_remediation :: "string option"
  rf_external_reference :: "string option"

record normalized_finding =
  nf_title :: string
  nf_description :: "string option"
  nf_severity :: finding_severity
  nf_confidence :: finding_confidence
  nf_source_tool :: string
  nf_external_reference :: "string option"
  nf_remediation :: "string option"
  nf_rule_id :: string
  nf_locator :: string

record raw_scan_output =
  ro_artifacts :: "artifact_ref list"
  ro_exit_code :: "int option"
  ro_findings :: "raw_finding list option"

text \<open>\<open>ScanContext\<close> without its handles on storage, metrics and logging.\<close>

record scan_context =
  cx_tenant_id :: uuid
  cx_scan_id :: uuid
  cx_project_id :: uuid
  cx_asset_id :: uuid
  cx_scanner_type :: string
  cx_requested_by_user_id :: "uuid option"
  cx_correlation_id :: string
  cx_config :: json_object
  cx_timeout_seconds :: int

record scanner_plugin =
  pl_validate_config :: "scan_context \<Rightarrow> int \<Rightarrow> unit outcome"
  pl_prepare :: "scan_context \<Rightarrow> int \<Rightarrow> unit outcome"
  pl_execute :: "scan_context \<Rightarrow> int \<Rightarrow> raw_scan_output outcome"
  pl_collect_results :: "scan_context \<Rightarrow> raw_scan_output \<Rightarrow> int \<Rightarrow> raw_finding list outcome"
  pl_normalize_findings :: "scan_context \<Rightarrow> raw_finding list \<Rightarrow> int \<Rightarrow> normalized_finding list outcome"
  pl_cleanup :: "scan_context \<Rightarrow> int \<Rightarrow> unit outcome"

section \<open>The registry\<close>

text \<open>
  Two dictionaries in insertion order.  A factory returns an object or raises; the object
  is a plugin or (\<open>None\<close>) fails the \<open>isinstance\<close> test.
\<close>

type_synonym plugin_factory = "scanner_plugin option outcome"

record scanner_registry =
  rg_factories :: "(string \<times> plugin_factory) list"
  rg_capabilities :: "(string \<times> scanner_capabilities) list"

definition empty_registry :: scanner_registry where
  "empty_registry = \<lparr>rg_factories = [], rg_capabilities = []\<rparr>"

definition registry_register ::
    "scanner_registry \<Rightarrow> scanner_capabilities \<Rightarrow> plugin_factory \<Rightarrow> scanner_registry" where
  "registry_register r c f = r\<lparr>
     rg_capabilities := AList.update (cap_scanner_type c) c (rg_capabilities r),
     rg_factories := AList.update (cap_scanner_type c) f (rg_factories r)\<rparr>"

definition registry_get :: "scanner_registry \<Rightarrow> string \<Rightarrow> pyexc + scanner_plugin" where
  "registry_get r ty =
    (case map_of (rg_factories r) ty of
       None \<Rightarrow> Inl (exc ScannerNotRegisteredError
         (''No scanner plugin registered for '' @ py_repr ty))
     | Some (Raises e) \<Rightarrow> Inl e
     | Some (Returns None) \<Rightarrow> Inl (exc ScannerNotRegisteredError
         (''Factory for '' @ py_repr ty @ '' did not produce a ScannerPlugin''))
     | Some (Returns (Some p)) \<Rightarrow> Inr p)"

definition registry_is_registered :: "scanner_registry \<Rightarrow> string \<Rightarrow> bool" where
  "registry_is_registered r ty \<longleftrightarrow> map_of (rg_factories r) ty \<noteq> None"

definition registry_list_capabilities :: "scanner_registry \<Rightarrow> scanner_capabilities list" where
  "registry_list_capabilities r = map snd (rg_capabilities r)"

definition registry_consistent :: "scanner_registry \<Rightarrow> bool" where
  "registry_consistent r \<longleftrightarrow> map fst (rg_factories r) = map fst (rg_capabilities r) \<and>
     distinct (map fst (rg_factories r)) \<and>
     (\<forall>(ty, c) \<in> set (rg_capabilities r). cap_scanner_type c = ty)"

lemma registry_get_registered [simp]:
  "registry_get (registry_register r c (Returns (Some p))) (cap_scanner_type c) = Inr p"
  by (simp add: registry_get_def registry_register_def update_conv)

lemma registry_get_other:
  "ty \<noteq> cap_scanner_type c \<Longrightarrow> registry_get (registry_register r c f) ty = registry_get r ty"
  by (simp add: registry_get_def registry_register_def update_conv)

lemma registry_is_registered_register:
  "registry_is_registered (registry_register r c f) ty \<longleftrightarrow>
    ty = cap_scanner_type c \<or> registry_is_registered r ty"
  by (simp add: registry_is_registered_def registry_register_def update_conv)

lemma update_keys_eq:
  "map fst xs = map fst ys \<Longrightarrow> map fst (AList.update k v xs) = map fst (AList.update k w ys)"
  by (simp add: update_keys)

lemma update_entry: "(k, v) \<in> set (AList.update a b xs) \<Longrightarrow> (k = a \<and> v = b) \<or> (k, v) \<in> set xs"
  by (induction xs) (auto split: if_splits)

lemma registry_register_consistent:
  assumes r: "registry_consistent r"
  shows "registry_consistent (registry_register r c f)"
proof -
  have "map fst (AList.update (cap_scanner_type c) f (rg_factories r)) =
      map fst (AList.update (cap_scanner_type c) c (rg_capabilities r))"
    using r by (intro update_keys_eq) (simp add: registry_consistent_def)
  moreover have "distinct (map fst (AList.update (cap_scanner_type c) f (rg_factories r)))"
    using r by (intro distinct_update) (metis registry_consistent_def)
  moreover have "cap_scanner_type x = ty"
    if "(ty, x) \<in> set (AList.update (cap_scanner_type c) c (rg_capabilities r))" for ty x
    using update_entry [OF that] r by (auto simp: registry_consistent_def)
  ultimately show ?thesis by (auto simp: registry_consistent_def registry_register_def)
qed

lemma empty_registry_consistent: "registry_consistent empty_registry"
  by (simp add: registry_consistent_def empty_registry_def)

lemma registry_get_not_registered:
  "\<not> registry_is_registered r ty \<Longrightarrow> \<exists>e. registry_get r ty = Inl e \<and> ex_class e = ScannerNotRegisteredError"
  by (simp add: registry_is_registered_def registry_get_def)

end
