(* ===== verification/Finding_Repositories.thy ===== *)
theory Finding_Repositories
  imports Session
begin

text \<open>
  The audit log (\<open>repositories/audit_event_repository.py\<close>, append-only) and the findings
  with their references (\<open>finding_repository.py\<close>, \<open>finding_reference_repository.py\<close>).
  \<open>record_detection\<close> is the deduplication policy: one row per tenant, asset and
  fingerprint, touched again on every later detection.
\<close>

section \<open>Audit events\<close>

record audit_create =
  ac_tenant_id :: "uuid option"
  ac_actor_user_id :: "uuid option"
  ac_action :: string
  ac_resource_type :: string
  ac_resource_id :: "string option"
  ac_outcome :: audit_outcome
  ac_correlation_id :: "string option"
  ac_source_ip :: "string option"
  ac_user_agent :: "string option"
  ac_event_metadata :: "json_object option"

definition audit_metadata_max_bytes :: nat where
  "audit_metadata_max_bytes = 8192"

definition check_audit_create :: "audit_create \<Rightarrow> pyexc + audit_create" where
  "check_audit_create c =
    (if (case ac_event_metadata c of None \<Rightarrow> False
         | Some m \<Rightarrow> length (dumps (JObj m)) > audit_metadata_max_bytes)
     then Inl (exc ValueError ''event_metadata must not exceed 8192 bytes'') else Inr c)"

definition audit_checks :: "audit_event \<Rightarrow> bool" where
  "audit_checks a \<longleftrightarrow>
     length (au_action a) \<le> 150 \<and> length (au_resource_type a) \<le> 100 \<and>
     max_len 200 (au_resource_id a) \<and> max_len 100 (au_correlation_id a) \<and>
     max_len 64 (au_source_ip a) \<and> max_len 500 (au_user_agent a)"

definition new_audit_event :: "audit_create \<Rightarrow> uuid \<Rightarrow> int \<Rightarrow> audit_event" where
  "new_audit_event c i t = \<lparr>au_id = i, au_tenant_id = ac_tenant_id c,
     au_actor_user_id = ac_actor_user_id c, au_action = ac_action c,
     au_resource_type = ac_resource_type c, au_resource_id = ac_resource_id c,
     au_outcome = ac_outcome c, au_correlation_id = ac_correlation_id c,
     au_source_ip = ac_source_ip c, au_user_agent = ac_user_agent c,
     au_metadata = ac_event_metadata c, au_created_at = t\<rparr>"

definition insert_audit :: "audit_event \<Rightarrow> db \<Rightarrow> db" where
  "insert_audit a d = d\<lparr>audit_events := audit_events d @ [a]\<rparr>"

definition audit_repo_create :: "audit_create \<Rightarrow> audit_event prog" where
  "audit_repo_create c =
    bindE draw_uuid (\<lambda>i. bindE now (\<lambda>t.
    let a = new_audit_event c i t in
    thenE (stmt (\<lambda>d. audit_checks a \<and> (\<forall>r\<in>set (audit_events d). au_id r \<noteq> i)) (insert_audit a))
      (retE a)))"

definition audit_repo_list_by_tenant :: "uuid \<Rightarrow> pagination \<Rightarrow> audit_event page prog" where
  "audit_repo_list_by_tenant tn p =
    query (\<lambda>d. paginate p (order_by_desc au_created_at
      (select_all (\<lambda>a. au_tenant_id a = Some tn) (audit_events d))))"

section \<open>Findings\<close>

record finding_create =
  fc_tenant_id :: uuid
  fc_project_id :: uuid
  fc_asset_id :: uuid
  fc_scan_id :: uuid
  fc_title :: string
  fc_description :: "string option"
  fc_severity :: finding_severity
  fc_confidence :: finding_confidence
  fc_source_tool :: string
  fc_external_reference :: "string option"
  fc_fingerprint :: string
  fc_remediation :: "string option"

definition new_finding :: "finding_create \<Rightarrow> uuid \<Rightarrow> int \<Rightarrow> finding" where
  "new_finding c i t = \<lparr>fi_id = i, fi_tenant_id = fc_tenant_id c, fi_project_id = fc_project_id c,
     fi_asset_id = fc_asset_id c, fi_scan_id = fc_scan_id c, fi_title = fc_title c,
     fi_description = fc_description c, fi_severity = fc_severity c, fi_status = FindingOpen,
     fi_confidence = fc_confidence c, fi_source_tool = fc_source_tool c,
     fi_external_reference = fc_external_reference c, fi_fingerprint = fc_fingerprint c,
     fi_remediation = fc_remediation c, fi_first_seen_at = t, fi_last_seen_at = t,
     fi_resolved_at = None, fi_created_at = t, fi_updated_at = t\<rparr>"

definition redetected_row :: "uuid \<Rightarrow> int \<Rightarrow> finding \<Rightarrow> finding" where
  "redetected_row sid t f = f\<lparr>fi_scan_id := sid, fi_last_seen_at := t, fi_updated_at := t\<rparr>"

interpretation redetected: keyed_update fi_id "redetected_row sid t"
  by unfold_locales (simp add: redetected_row_def)

interpretation redetected_key: keyed_update finding_key "redetected_row sid t"
  by unfold_locales (simp add: redetected_row_def finding_key_def)

definition find_fingerprint :: "uuid \<Rightarrow> uuid \<Rightarrow> string \<Rightarrow> db \<Rightarrow> finding option" where
  "find_fingerprint tn a fp d = select_one (\<lambda>f. finding_key f = (tn, a, fp)) (findings d)"

definition insert_finding :: "finding \<Rightarrow> db \<Rightarrow> db" where
  "insert_finding f d = d\<lparr>findings := findings d @ [f]\<rparr>"

text \<open>
  A flushed change of a loaded object is an \<open>UPDATE\<close> by primary key.  The model names the
  tenant of the loaded row as well, which selects the same row, since keys are unique and
  a row never changes its tenant.
\<close>

definition same_finding :: "finding \<Rightarrow> finding \<Rightarrow> bool" where
  "same_finding f r \<longleftrightarrow> fi_id r = fi_id f \<and> fi_tenant_id r = fi_tenant_id f"

definition update_finding :: "finding \<Rightarrow> (finding \<Rightarrow> finding) \<Rightarrow> db \<Rightarrow> db" where
  "update_finding f g d = d\<lparr>findings := update_where (same_finding f) g (findings d)\<rparr>"

definition finding_insert_ok :: "finding \<Rightarrow> db \<Rightarrow> bool" where
  "finding_insert_ok f d \<longleftrightarrow> finding_checks f \<and>
    (\<forall>r\<in>set (findings d). fi_id r \<noteq> fi_id f \<and> finding_key r \<noteq> finding_key f)"

definition finding_repo_get_by_id :: "uuid \<Rightarrow> uuid \<Rightarrow> finding option prog" where
  "finding_repo_get_by_id tn i =
    query (\<lambda>d. select_one (\<lambda>f. fi_id f = i \<and> fi_tenant_id f = tn) (findings d))"

definition finding_repo_get_by_fingerprint :: "uuid \<Rightarrow> uuid \<Rightarrow> string \<Rightarrow> finding option prog" where
  "finding_repo_get_by_fingerprint tn a fp = query (find_fingerprint tn a fp)"

definition finding_repo_record_detection :: "finding_create \<Rightarrow> finding prog" where
  "finding_repo_record_detection c =
    bindE (finding_repo_get_by_fingerprint (fc_tenant_id c) (fc_asset_id c) (fc_fingerprint c))
      (\<lambda>existing.
      bindE now (\<lambda>t.
      case existing of
        Some f \<Rightarrow>
          let f' = redetected_row (fc_scan_id c) t f in
          thenE (stmt (\<lambda>_. finding_checks f') (update_finding f (redetected_row (fc_scan_id c) t)))
            (retE f')
      | None \<Rightarrow>
          bindE draw_uuid (\<lambda>i.
          let f = new_finding c i t in
          thenE (stmt (finding_insert_ok f) (insert_finding f)) (retE f))))"

definition finding_repo_list_by_asset :: "uuid \<Rightarrow> uuid \<Rightarrow> pagination \<Rightarrow> finding page prog" where
  "finding_repo_list_by_asset tn a p =
    query (\<lambda>d. paginate p (order_by_desc fi_first_seen_at
      (select_all (\<lambda>f. fi_tenant_id f = tn \<and> fi_asset_id f = a) (findings d))))"

text \<open>\<open>update\<close> takes the fields that are set; \<open>resolved_at\<close> may be set to null.\<close>

record finding_update =
  fu_status :: "finding_status option"
  fu_severity :: "finding_severity option"
  fu_confidence :: "finding_confidence option"
  fu_remediation :: "string option option"
  fu_resolved_at :: "int option option"

definition apply_finding_update :: "finding_update \<Rightarrow> int \<Rightarrow> finding \<Rightarrow> finding" where
  "apply_finding_update u t f =
    (let g = (case fu_status u of None \<Rightarrow> f | Some x \<Rightarrow> f\<lparr>fi_status := x\<rparr>);
         g = (case fu_severity u of None \<Rightarrow> g | Some x \<Rightarrow> g\<lparr>fi_severity := x\<rparr>);
         g = (case fu_confidence u of None \<Rightarrow> g | Some x \<Rightarrow> g\<lparr>fi_confidence := x\<rparr>);
         g = (case fu_remediation u of None \<Rightarrow> g | Some x \<Rightarrow> g\<lparr>fi_remediation := x\<rparr>);
         g = (case fu_resolved_at u of None \<Rightarrow> g | Some x \<Rightarrow> g\<lparr>fi_resolved_at := x\<rparr>)
     in g\<lparr>fi_updated_at := t\<rparr>)"

definition finding_repo_update :: "finding \<Rightarrow> finding_update \<Rightarrow> finding prog" where
  "finding_repo_update f u =
    bindE now (\<lambda>t.
    let f' = apply_finding_update u t f in
    thenE (stmt (\<lambda>_. finding_checks f') (update_finding f (apply_finding_update u t)))
      (retE f'))"

lemma apply_finding_update_key [simp]:
  "finding_key (apply_finding_update u t f) = finding_key f"
  "fi_id (apply_finding_update u t f) = fi_id f"
  by (simp_all add: apply_finding_update_def finding_key_def Let_def split: option.split)

lemma redetected_row_key [simp]:
  "finding_key (redetected_row sid t f) = finding_key f" "fi_id (redetected_row sid t f) = fi_id f"
  "fi_tenant_id (redetected_row sid t f) = fi_tenant_id f"
  by (simp_all add: redetected_row_def finding_key_def)

text \<open>The unique constraints of the table, which every statement of the repository keeps.\<close>

definition findings_unique :: "db \<Rightarrow> bool" where
  "findings_unique d \<longleftrightarrow> distinct (map fi_id (findings d)) \<and> distinct (map finding_key (findings d))"

lemma insert_finding_unique:
  "findings_unique d \<Longrightarrow> finding_insert_ok f d \<Longrightarrow> findings_unique (insert_finding f d)"
  by (auto simp: findings_unique_def insert_finding_def finding_insert_ok_def)

lemma update_finding_unique:
  "(\<And>f. finding_key (g f) = finding_key f) \<Longrightarrow> (\<And>f. fi_id (g f) = fi_id f) \<Longrightarrow>
    findings_unique (update_finding r g d) = findings_unique d"
  by (simp add: findings_unique_def update_finding_def map_update_where_same)

section \<open>Finding references\<close>

record finding_reference_create =
  rc_finding_id :: uuid
  rc_reference_type :: finding_reference_type
  rc_value :: string

definition new_finding_reference ::
    "uuid \<Rightarrow> finding_reference_create \<Rightarrow> uuid \<Rightarrow> int \<Rightarrow> finding_reference" where
  "new_finding_reference tn c i t = \<lparr>fr_id = i, fr_tenant_id = tn, fr_finding_id = rc_finding_id c,
     fr_reference_type = rc_reference_type c, fr_value = rc_value c,
     fr_created_at = t, fr_updated_at = t\<rparr>"

definition insert_finding_reference :: "finding_reference \<Rightarrow> db \<Rightarrow> db" where
  "insert_finding_reference r d = d\<lparr>finding_references := finding_references d @ [r]\<rparr>"

definition finding_reference_repo_create ::
    "uuid \<Rightarrow> finding_reference_create \<Rightarrow> finding_reference prog" where
  "finding_reference_repo_create tn c =
    bindE (query (\<lambda>d. select_one (\<lambda>f. fi_id f = rc_finding_id c \<and> fi_tenant_id f = tn) (findings d)))
      (\<lambda>owner. case owner of
        None \<Rightarrow> raiseE (exc FindingNotFoundError
          (''finding '' @ uuid_str (rc_finding_id c) @ '' not found for tenant '' @ uuid_str tn))
      | Some _ \<Rightarrow>
          bindE draw_uuid (\<lambda>i. bindE now (\<lambda>t.
          let r = new_finding_reference tn c i t in
          thenE (stmt (\<lambda>d. length (fr_value r) \<le> 500 \<and>
              (\<forall>x\<in>set (finding_references d). fr_id x \<noteq> i \<and>
                 finding_reference_key x \<noteq> finding_reference_key r)) (insert_finding_reference r))
            (retE r))))"

definition finding_reference_repo_list_by_finding ::
    "uuid \<Rightarrow> uuid \<Rightarrow> pagination \<Rightarrow> finding_reference page prog" where
  "finding_reference_repo_list_by_finding tn i p =
    query (\<lambda>d. paginate p (order_by fr_created_at
      (select_all (\<lambda>r. fr_tenant_id r = tn \<and> fr_finding_id r = i) (finding_references d))))"

end
