(* ===== verification/Event_Bus.thy ===== *)
theory Event_Bus
  imports Scan_Repositories
begin

text \<open>
  \<open>scan_engine/events.py\<close> and the subscribers of \<open>scan_engine/bootstrap.py\<close>: the domain
  events, the in-memory bus that delivers them, and the three built-in handlers
  (persist and commit, count, log).  An event's \<open>occurred_at\<close> is never read and is left
  out.
\<close>

section \<open>Events\<close>

datatype event_body =
    ScanQueued
  | ScanStarted (started_worker: string)
  | ScanProgress (progress_stage: scan_status) (progress_percent: int) (progress_message: "string option")
  | ScanCompleted
  | ScanFailed (failed_code: string) (failed_summary: string) (failed_dead_letter: bool)
  | ScanCancelled
  | ScanTimedOut
  | FindingCreated (created_id: uuid) (created_fingerprint: string)
  | FindingUpdated (updated_id: uuid) (updated_fingerprint: string)

record domain_event =
  de_scan_id :: uuid
  de_tenant_id :: uuid
  de_correlation_id :: string
  de_body :: event_body

text \<open>The classes of events, the keys of the bus, with the type string each is stored under.\<close>

datatype event_class =
    ScanQueuedC | ScanStartedC | ScanProgressC | ScanCompletedC | ScanFailedC
  | ScanCancelledC | ScanTimedOutC | FindingCreatedC | FindingUpdatedC

fun class_of :: "event_body \<Rightarrow> event_class" where
  "class_of ScanQueued = ScanQueuedC"
| "class_of (ScanStarted w) = ScanStartedC"
| "class_of (ScanProgress s p m) = ScanProgressC"
| "class_of ScanCompleted = ScanCompletedC"
| "class_of (ScanFailed c s d) = ScanFailedC"
| "class_of ScanCancelled = ScanCancelledC"
| "class_of ScanTimedOut = ScanTimedOutC"
| "class_of (FindingCreated i f) = FindingCreatedC"
| "class_of (FindingUpdated i f) = FindingUpdatedC"

definition event_type_by_class :: "(event_class \<times> string) list" where
  "event_type_by_class =
    [(ScanQueuedC, ''scan.queued''), (ScanStartedC, ''scan.started''),
     (ScanProgressC, ''scan.progress''), (ScanCompletedC, ''scan.completed''),
     (ScanFailedC, ''scan.failed''), (ScanCancelledC, ''scan.cancelled''),
     (ScanTimedOutC, ''scan.timed_out''), (FindingCreatedC, ''finding.created''),
     (FindingUpdatedC, ''finding.updated'')]"

section \<open>The bus\<close>

type_synonym event_handler = "domain_event \<Rightarrow> unit prog"

type_synonym event_bus = "event_class \<Rightarrow> event_handler list"

definition new_bus :: event_bus where
  "new_bus = (\<lambda>_. [])"

definition subscribe :: "event_bus \<Rightarrow> event_class \<Rightarrow> event_handler \<Rightarrow> event_bus" where
  "subscribe bus c h = bus(c := bus c @ [h])"

text \<open>A handler that raises is logged; the next one still runs.\<close>

fun deliver :: "event_handler list \<Rightarrow> domain_event \<Rightarrow> unit prog" where
  "deliver [] e = retE ()"
| "deliver (h # hs) e = thenE
     (tryE (h e) (\<lambda>x. if is_exception x then emit (Log ''scan_engine.event_handler_failed'') else raiseE x))
     (deliver hs e)"

definition publish_on :: "event_bus \<Rightarrow> domain_event \<Rightarrow> unit prog" where
  "publish_on bus e = deliver (bus (class_of (de_body e))) e"

section \<open>The built-in subscribers\<close>

definition to_scan_event_create :: "domain_event \<Rightarrow> string \<Rightarrow> pyexc + scan_event_create" where
  "to_scan_event_create e event_type =
    (let (stage, percent, message, worker, metadata) =
       (case de_body e of
          ScanProgress st p m \<Rightarrow> (Some (scan_status_value st), Some p, m, None, None)
        | ScanStarted w \<Rightarrow> (None, None, None, Some w, None)
        | ScanFailed c s dl \<Rightarrow>
            (None, None, Some s, None, Some [(''error_code'', JStr c), (''dead_letter'', JBool dl)])
        | FindingCreated i f \<Rightarrow>
            (None, None, None, None, Some [(''finding_id'', JStr (uuid_str i)), (''fingerprint'', JStr f)])
        | FindingUpdated i f \<Rightarrow>
            (None, None, None, None, Some [(''finding_id'', JStr (uuid_str i)), (''fingerprint'', JStr f)])
        | _ \<Rightarrow> (None, None, None, None, None))
     in check_scan_event_create
       \<lparr>ec_tenant_id = de_tenant_id e, ec_scan_id = de_scan_id e, ec_event_type = event_type,
        ec_stage = stage, ec_progress_percent = percent, ec_worker_id = worker,
        ec_correlation_id = Some (de_correlation_id e), ec_message = message,
        ec_event_metadata = metadata\<rparr>)"

text \<open>\<open>_persist\<close> commits whatever the session has pending, not its own row alone.\<close>

definition persist_event :: "string \<Rightarrow> event_handler" where
  "persist_event event_type e =
    bindE (liftE (to_scan_event_create e event_type)) (\<lambda>c.
    thenE (scan_event_repo_create c) commit)"

definition observe_event :: "string \<Rightarrow> event_handler" where
  "observe_event event_type e = emit (Metric (''scan_engine.event.'' @ event_type))"

definition log_event :: "string \<Rightarrow> event_handler" where
  "log_event event_type e = emit (Log ''scan_engine.event'')"

definition wire_subscribers :: "event_bus \<Rightarrow> event_bus" where
  "wire_subscribers bus =
    foldl (\<lambda>b (c, ty).
      subscribe (subscribe (subscribe b c (persist_event ty)) c (observe_event ty)) c (log_event ty))
      bus event_type_by_class"

definition build_event_bus :: event_bus where
  "build_event_bus = wire_subscribers new_bus"

definition publish :: "domain_event \<Rightarrow> unit prog" where
  "publish e = publish_on build_event_bus e"

definition event_type_of :: "event_body \<Rightarrow> string" where
  "event_type_of b = (case map_of event_type_by_class (class_of b) of None \<Rightarrow> [] | Some t \<Rightarrow> t)"

text \<open>The wiring gives every event exactly the three handlers, in this order.\<close>

lemma wire_all:
  "distinct (map fst xs) \<Longrightarrow>
    foldl (\<lambda>b (c, ty).
      subscribe (subscribe (subscribe b c (persist_event ty)) c (observe_event ty)) c (log_event ty)) bus xs c =
    bus c @ (case map_of xs c of None \<Rightarrow> [] | Some ty \<Rightarrow> [persist_event ty, observe_event ty, log_event ty])"
proof (induction xs arbitrary: bus)
  case (Cons x xs)
  have "fst x = c \<Longrightarrow> map_of xs c = None" using Cons.prems by (auto simp: map_of_eq_None_iff)
  then show ?case using Cons by (cases x) (auto simp: subscribe_def)
qed simp

lemma build_event_bus_handlers:
  "build_event_bus (class_of b) =
    [persist_event (event_type_of b), observe_event (event_type_of b), log_event (event_type_of b)]"
proof -
  have "distinct (map fst event_type_by_class)" by (simp add: event_type_by_class_def)
  moreover have "map_of event_type_by_class (class_of b) \<noteq> None"
    by (cases b) (simp_all add: event_type_by_class_def)
  ultimately show ?thesis
    by (auto simp: build_event_bus_def wire_subscribers_def wire_all event_type_of_def new_bus_def)
qed

lemma publish_unfold:
  "publish e =
    deliver [persist_event (event_type_of (de_body e)), observe_event (event_type_of (de_body e)),
      log_event (event_type_of (de_body e))] e"
  by (simp add: publish_def publish_on_def build_event_bus_handlers)

text \<open>The row an event is stored as.\<close>

lemma to_scan_event_create_keys:
  "to_scan_event_create e ty = Inr c \<Longrightarrow>
    ec_tenant_id c = de_tenant_id e \<and> ec_scan_id c = de_scan_id e \<and> ec_event_type c = ty"
  by (cases "de_body e")
    (auto simp: to_scan_event_create_def check_scan_event_create_def Let_def split: if_splits)

text \<open>A failed delivery never stops the producer, short of a cancellation of the task.\<close>

lemma deliver_raises: "deliver hs e w = (Inl x, w') \<Longrightarrow> \<not> is_exception x"
proof (induction hs arbitrary: w)
  case Nil
  then show ?case by (simp add: prog_simps)
next
  case (Cons h hs)
  then show ?case
    by (auto simp: prog_simps split: prod.splits sum.splits if_splits)
qed

lemma pause_stmt_no_raise: "\<not> w_deadline w \<Longrightarrow> fst (pause_stmt w) = Inr ()"
  by (auto simp: pause_stmt_def pause_def strikes_def Let_def split: list.split prod.split)

end
