(* ===== verification/Finding_Pipeline.thy ===== *)
theory Finding_Pipeline
  imports Scanner_Plugins Finding_Repositories Event_Bus
begin

text \<open>
  \<open>scan_engine/pipeline/\<close>: fingerprints (\<open>fingerprint.py\<close>), the reference parser and
  normaliser (\<open>identity.py\<close>), and \<open>FindingPipeline.process\<close> (\<open>pipeline.py\<close>), which stores
  each normalised finding once per fingerprint, audits it and announces it.  SHA-256 is
  the parameter \<open>sha\<close>.
\<close>

section \<open>Fingerprints\<close>

definition fp_separator :: char where
  "fp_separator = chr 31"

definition fingerprint_payload :: "string \<Rightarrow> string \<Rightarrow> string \<Rightarrow> string \<Rightarrow> string" where
  "fingerprint_payload scanner_type rule_id locator detail =
    join [fp_separator] [scanner_type, rule_id, locator, detail]"

definition compute_fingerprint ::
    "(string \<Rightarrow> string) \<Rightarrow> string \<Rightarrow> string \<Rightarrow> string \<Rightarrow> string \<Rightarrow> string" where
  "compute_fingerprint sha scanner_type rule_id locator detail =
    sha (fingerprint_payload scanner_type rule_id locator detail)"

lemma split_at_separator:
  "sep \<notin> set a \<Longrightarrow> sep \<notin> set a' \<Longrightarrow> a @ sep # b = a' @ sep # b' \<longleftrightarrow> a = a' \<and> b = b'"
proof (induction a arbitrary: a')
  case Nil
  then show ?case by (cases a') auto
next
  case (Cons x a)
  then show ?case by (cases a') auto
qed

text \<open>
  The payload is injective when no component but the last contains the separator, the
  condition under which the code's claim of no collisions holds.
\<close>

lemma fingerprint_payload_inject:
  assumes "fp_separator \<notin> set s" "fp_separator \<notin> set r" "fp_separator \<notin> set l"
    and "fp_separator \<notin> set s'" "fp_separator \<notin> set r'" "fp_separator \<notin> set l'"
  shows "fingerprint_payload s r l d = fingerprint_payload s' r' l' d' \<longleftrightarrow>
    s = s' \<and> r = r' \<and> l = l' \<and> d = d'"
  using assms by (simp add: fingerprint_payload_def split_at_separator)

section \<open>The reference parser and normaliser\<close>

definition passthrough_parse :: "raw_scan_output \<Rightarrow> raw_finding list" where
  "passthrough_parse r = (case ro_findings r of None \<Rightarrow> [] | Some fs \<Rightarrow> fs)"

definition coerce_severity :: "string \<Rightarrow> finding_severity" where
  "coerce_severity raw =
    (case enum_of finding_severity_members finding_severity_value (lower (strip raw)) of
       Some s \<Rightarrow> s | None \<Rightarrow> SevInformational)"

definition coerce_confidence :: "string option \<Rightarrow> finding_confidence" where
  "coerce_confidence raw =
    (case raw of None \<Rightarrow> ConfLow
     | Some v \<Rightarrow> (case enum_of finding_confidence_members finding_confidence_value (lower (strip v)) of
         Some c \<Rightarrow> c | None \<Rightarrow> ConfLow))"

definition identity_normalize :: "string \<Rightarrow> raw_finding \<Rightarrow> normalized_finding" where
  "identity_normalize source_tool r = \<lparr>nf_title = rf_title r, nf_description = Some (rf_detail r),
     nf_severity = coerce_severity (rf_severity_raw r),
     nf_confidence = coerce_confidence (rf_confidence_raw r), nf_source_tool = source_tool,
     nf_external_reference = rf_external_reference r, nf_remediation = rf_remediation r,
     nf_rule_id = rf_rule_id r, nf_locator = rf_locator r\<rparr>"

section \<open>The pipeline\<close>

definition finding_of :: "(string \<Rightarrow> string) \<Rightarrow> scan_context \<Rightarrow> normalized_finding \<Rightarrow> finding_create" where
  "finding_of sha cx n = \<lparr>fc_tenant_id = cx_tenant_id cx, fc_project_id = cx_project_id cx,
     fc_asset_id = cx_asset_id cx, fc_scan_id = cx_scan_id cx, fc_title = nf_title n,
     fc_description = nf_description n, fc_severity = nf_severity n,
     fc_confidence = nf_confidence n, fc_source_tool = nf_source_tool n,
     fc_external_reference = nf_external_reference n,
     fc_fingerprint = compute_fingerprint sha (cx_scanner_type cx) (nf_rule_id n) (nf_locator n)
       (or_default (nf_description n) []),
     fc_remediation = nf_remediation n\<rparr>"

definition detection_audit :: "scan_context \<Rightarrow> bool \<Rightarrow> finding \<Rightarrow> audit_create" where
  "detection_audit cx again f = \<lparr>ac_tenant_id = Some (cx_tenant_id cx),
     ac_actor_user_id = cx_requested_by_user_id cx,
     ac_action = (if again then ''finding.redetected'' else ''finding.detected''),
     ac_resource_type = ''finding'', ac_resource_id = Some (uuid_str (fi_id f)),
     ac_outcome = AuditSuccess, ac_correlation_id = Some (cx_correlation_id cx),
     ac_source_ip = None, ac_user_agent = None, ac_event_metadata = None\<rparr>"

definition detection_event :: "scan_context \<Rightarrow> bool \<Rightarrow> finding \<Rightarrow> string \<Rightarrow> domain_event" where
  "detection_event cx again f fp = \<lparr>de_scan_id = cx_scan_id cx, de_tenant_id = cx_tenant_id cx,
     de_correlation_id = cx_correlation_id cx,
     de_body = (if again then FindingUpdated (fi_id f) fp else FindingCreated (fi_id f) fp)\<rparr>"

definition process_one ::
    "(string \<Rightarrow> string) \<Rightarrow> scan_context \<Rightarrow> normalized_finding \<Rightarrow> finding prog" where
  "process_one sha cx n =
    (let c = finding_of sha cx n; fp = fc_fingerprint c in
     bindE (finding_repo_get_by_fingerprint (cx_tenant_id cx) (cx_asset_id cx) fp) (\<lambda>existing.
     let again = existing \<noteq> None in
     bindE (finding_repo_record_detection c) (\<lambda>f.
     bindE (liftE (check_audit_create (detection_audit cx again f))) (\<lambda>a.
     thenE (audit_repo_create a)
     (thenE (publish (detection_event cx again f fp)) (retE f))))))"

definition process :: "(string \<Rightarrow> string) \<Rightarrow> scan_context \<Rightarrow> normalized_finding list \<Rightarrow> finding list prog" where
  "process sha cx ns = mapE (process_one sha cx) ns"

lemma detection_audit_ok [simp]:
  "check_audit_create (detection_audit cx again f) = Inr (detection_audit cx again f)"
  by (simp add: check_audit_create_def detection_audit_def)

end
