(* ===== verification/Scan_Relations.thy ===== *)
theory Scan_Relations
  imports State_Machine Finding_Pipeline
begin

text \<open>
  What the writes of the scan engine have in common.  The locale \<open>request_db_relation\<close> is
  the interface between the programs that requests run and a relation on databases: it
  lists their primitive writes (a status change along a valid edge to one of the statuses
  \<open>target_ok\<close>, the inserts), and assumes that the relation allows each.  The locale
  \<open>scan_db_relation\<close> adds those of a worker: every status, the claim, findings and audit.
  Every repository operation, the state machine, the event bus and the finding pipeline
  then keep the relation, under any interference that keeps it.  Two relations interpret
  it here: \<open>evolves\<close>, what may happen to scan data at all, and \<open>tenant_only\<close>, that no other
  tenant's rows change.
\<close>

locale request_db_relation = db_relation R own for R own +
  fixes target_ok :: "scan_status \<Rightarrow> bool"
  assumes R_status: "own tn \<Longrightarrow> target_ok target \<Longrightarrow> target \<in> set (valid_transitions st) \<Longrightarrow>
      up_status u = Some target \<Longrightarrow> up_attempt u = None \<Longrightarrow>
      R d (update_scans (\<lambda>s. scan_at tn i s \<and> sc_status s = st) u t d)"
    and R_insert_scan: "own (sc_tenant_id s) \<Longrightarrow> sc_status s = PENDING \<Longrightarrow> sc_attempt s = 0 \<Longrightarrow>
      R d (insert_scan s d)"
    and R_insert_outbox: "own (ob_tenant_id b) \<Longrightarrow> R d (insert_outbox b d)"
    and R_insert_event: "own (ev_tenant_id e) \<Longrightarrow> R d (insert_event e d)"
begin

lemma keeps_guarded_update:
  assumes o: "own tn"
    and R: "\<And>d t. R d (update_scans (\<lambda>s. scan_at tn i s \<and> P s) u t d)"
  shows "keeps R own (guarded_update sync tn i P u)"
  unfolding guarded_update_def
proof (rule keeps_after_pause, goal_cases)
  case (3 w)
  let ?G = "\<lambda>s. scan_at tn i s \<and> P s"
  have found: "sc_id r = i \<and> sc_tenant_id r = tn" if "select_one ?G xs = Some r" for xs r
    using select_one_SomeD [OF that] by (simp add: scan_at_def)
  have "R d (update_scans ?G u t (w_pend w d))" for d t
    using 3 R_trans [OF _ R] by (simp add: able_def pending_ok_def)
  then show ?case
    using 3 o found by (auto simp: Let_def able_def pending_ok_def objs_ok_def split: option.splits)
qed (auto simp: Let_def split: option.split)

lemma query_result: "query q w = (Inr r, w') \<Longrightarrow> \<exists>d. r = q d"
  by (auto simp: query_def thenE_def bindE_def split: prod.splits sum.splits if_splits)

lemma keeps_get_by_id: "own tn \<Longrightarrow> keeps R own (scan_repo_get_by_id tn i)"
  unfolding scan_repo_get_by_id_def
proof (rule keeps_bind_post [OF keeps_query])
  fix r w w'
  assume o: "own tn" and q: "query (find_scan tn i) w = (Inr r, w')"
  from query_result [OF q] have "\<exists>d. r = find_scan tn i d" .
  then have "sc_tenant_id s = tn" if "r = Some s" for s
    using that find_scan_SomeD by metis
  then show "keeps R own (case r of None \<Rightarrow> retE None | Some s \<Rightarrow> thenE (remember s) (retE (Some s)))"
    using o by (cases r) (simp_all add: keeps_retE keeps_thenE keeps_remember)
qed

lemma keeps_scan_create: "own (cr_tenant_id c) \<Longrightarrow> keeps R own (scan_repo_create c)"
  unfolding scan_repo_create_def Let_def
  by (intro keeps_bindE keeps_thenE keeps_stmt keeps_remember keeps_retE keeps_draw_uuid keeps_now)
    (auto intro!: keeps_intros R_insert_scan keeps_retE keeps_bindE keeps_draw_uuid simp: new_scan_def)

lemma keeps_outbox_create: "own (oc_tenant_id c) \<Longrightarrow> keeps R own (outbox_repo_create c)"
  unfolding outbox_repo_create_def Let_def
  by (intro keeps_bindE keeps_thenE keeps_stmt keeps_retE keeps_draw_uuid keeps_now)
    (simp add: new_outbox_def R_insert_outbox)

lemma keeps_event_create: "own (ec_tenant_id c) \<Longrightarrow> keeps R own (scan_event_repo_create c)"
  unfolding scan_event_repo_create_def Let_def
  by (intro keeps_bindE keeps_thenE keeps_stmt keeps_retE keeps_draw_uuid keeps_now)
    (simp add: new_scan_event_def R_insert_event)

lemma keeps_assert_valid: "keeps R own (assert_valid s t)"
  by (simp add: assert_valid_def keeps_retE keeps_raiseE)

lemma keeps_transition_to:
  "target_ok target \<Longrightarrow> up_attempt upd = None \<Longrightarrow> keeps R own (transition sync i target upd)"
  unfolding transition_def
proof (rule keeps_with_obj, goal_cases)
  case (1 s)
  show ?case
  proof (cases "target \<in> set (valid_transitions (sc_status s))")
    case True
    have "keeps R own (scan_repo_conditional_update sync (sc_tenant_id s) i (sc_status s)
        (transition_fields s target upd t))" for t
      unfolding scan_repo_conditional_update_def
      using 1 True by (intro keeps_guarded_update R_status) simp_all
    then show ?thesis
      by (intro keeps_thenE keeps_bindE keeps_assert_valid keeps_now)
        (auto intro!: keeps_retE keeps_thenE keeps_commit keeps_bindE keeps_obj keeps_raiseE
          split: option.split)
  next
    case False
    then show ?thesis by (simp add: assert_valid_def keeps_raiseE)
  qed
qed

lemma keeps_deliver: "(\<And>h. h \<in> set hs \<Longrightarrow> keeps R own (h e)) \<Longrightarrow> keeps R own (deliver hs e)"
  by (induction hs) (auto intro!: keeps_retE keeps_thenE keeps_tryE keeps_emit keeps_raiseE)

lemma keeps_persist: "own (de_tenant_id e) \<Longrightarrow> keeps R own (persist_event ty e)"
  unfolding persist_event_def
  by (rule keeps_bind_post [OF keeps_liftE])
    (auto simp: liftE_def prog_simps dest: to_scan_event_create_keys split: sum.splits
      intro!: keeps_thenE keeps_event_create keeps_commit)

lemma keeps_publish: "own (de_tenant_id e) \<Longrightarrow> keeps R own (publish e)"
  unfolding publish_unfold
  by (rule keeps_deliver)
    (auto simp: observe_event_def log_event_def intro: keeps_persist keeps_emit)

end

locale scan_db_relation = request_db_relation R own "\<lambda>_. True" for R own +
  assumes R_claim: "own tn \<Longrightarrow>
      R d (update_scans (\<lambda>s. scan_at tn i s \<and> sc_status s = QUEUED \<and> sc_attempt s = a)
        (claim_update a worker) t d)"
    and R_insert_audit: "au_tenant_id v = Some tn \<Longrightarrow> own tn \<Longrightarrow> R d (insert_audit v d)"
    and R_insert_finding: "own (fi_tenant_id f) \<Longrightarrow> R d (insert_finding f d)"
    and R_redetect: "own (fi_tenant_id f) \<Longrightarrow> R d (update_finding f (redetected_row sid t) d)"
begin

lemma keeps_transition:
  "up_attempt upd = None \<Longrightarrow> keeps R own (transition sync i target upd)"
  by (rule keeps_transition_to) simp_all

lemma keeps_claim: "own tn \<Longrightarrow> keeps R own (scan_repo_claim_for_execution sync tn i a worker)"
  unfolding scan_repo_claim_for_execution_def
  by (rule keeps_guarded_update) (simp_all add: R_claim)

lemma keeps_audit_create:
  "ac_tenant_id c = Some tn \<Longrightarrow> own tn \<Longrightarrow> keeps R own (audit_repo_create c)"
  unfolding audit_repo_create_def Let_def
  by (intro keeps_bindE keeps_thenE keeps_stmt keeps_retE keeps_draw_uuid keeps_now)
    (simp add: new_audit_event_def R_insert_audit)

lemma keeps_record_detection:
  assumes o: "own (fc_tenant_id c)"
  shows "keeps R own (finding_repo_record_detection c)"
  unfolding finding_repo_record_detection_def finding_repo_get_by_fingerprint_def Let_def
proof (rule keeps_bind_post [OF keeps_query], rule keeps_bindE [OF keeps_now], goal_cases)
  case (1 existing w w' t)
  from query_result [OF this(2)] have "fi_tenant_id f = fc_tenant_id c" if "existing = Some f" for f
    using that by (metis (mono_tags, lifting) find_fingerprint_def finding_key_def fst_conv select_one_SomeD)
  then show ?case
    using o by (auto split: option.split simp: new_finding_def
        intro!: keeps_thenE keeps_stmt keeps_retE keeps_bindE keeps_draw_uuid R_redetect R_insert_finding)
qed

lemma keeps_process_one: "own (cx_tenant_id cx) \<Longrightarrow> keeps R own (process_one sha cx n)"
  unfolding process_one_def Let_def finding_repo_get_by_fingerprint_def detection_audit_ok liftE_simps
  by (intro keeps_bindE keeps_query keeps_record_detection keeps_bind_post [OF keeps_retE])
    (auto simp: finding_of_def retE_def detection_audit_def detection_event_def
      intro!: keeps_thenE keeps_audit_create keeps_publish keeps_retE)

lemma keeps_process: "own (cx_tenant_id cx) \<Longrightarrow> keeps R own (process sha cx ns)"
  unfolding process_def by (intro keeps_mapE keeps_process_one)

end

section \<open>What may happen to scan data\<close>

text \<open>
  A table grows: its old rows stay in place, changed at most by \<open>Q\<close>, and new rows come
  behind them.
\<close>

definition grows :: "('r \<Rightarrow> 'r \<Rightarrow> bool) \<Rightarrow> 'r table \<Rightarrow> 'r table \<Rightarrow> bool" where
  "grows Q xs ys \<longleftrightarrow> length xs \<le> length ys \<and> list_all2 Q xs (take (length xs) ys)"

lemma grows_refl: "(\<And>r. Q r r) \<Longrightarrow> grows Q xs xs"
  by (simp add: grows_def list.rel_refl)

lemma grows_trans:
  assumes Q: "\<And>a b c. Q a b \<Longrightarrow> Q b c \<Longrightarrow> Q a c" and "grows Q xs ys" "grows Q ys zs"
  shows "grows Q xs zs"
  using assms(2,3) by (auto simp: grows_def list_all2_conv_all_nth intro: Q)

lemma grows_append: "(\<And>r. Q r r) \<Longrightarrow> grows Q xs (xs @ ys)"
  by (simp add: grows_def list.rel_refl)

lemma grows_update:
  "(\<And>r. P r \<Longrightarrow> Q r (f r)) \<Longrightarrow> (\<And>r. Q r r) \<Longrightarrow> grows Q xs (update_where P f xs)"
  by (simp add: grows_def list_all2_update_where)

lemma grows_memD:
  "grows Q xs ys \<Longrightarrow> r \<in> set xs \<Longrightarrow> \<exists>r'\<in>set ys. Q r r'"
  by (auto simp: grows_def list_all2_conv_all_nth in_set_conv_nth) (metis nth_mem order.strict_trans2)

text \<open>
  A scan keeps its identity and its request; its status follows the table, its attempt
  counter only rises, and once it is terminal everything but the queue's job id (and the
  row's timestamp) is frozen.
\<close>

definition scan_identity :: "scan \<Rightarrow> uuid \<times> uuid \<times> uuid \<times> uuid \<times> string \<times> uuid option \<times> int \<times> int \<times> uuid option \<times> json_object option \<times> string option \<times> int" where
  "scan_identity s = (sc_id s, sc_tenant_id s, sc_project_id s, sc_asset_id s, sc_scanner_type s,
     sc_requested_by_user_id s, sc_max_attempts s, sc_timeout_seconds s, sc_retry_of_scan_id s,
     sc_config s, sc_correlation_id s, sc_created_at s)"

definition without_job :: "scan \<Rightarrow> scan" where
  "without_job s = s\<lparr>sc_job_id := None, sc_updated_at := 0\<rparr>"

definition scan_evolves :: "scan \<Rightarrow> scan \<Rightarrow> bool" where
  "scan_evolves s s' \<longleftrightarrow> scan_identity s' = scan_identity s \<and>
     status_path (sc_status s) (sc_status s') \<and> sc_attempt s \<le> sc_attempt s' \<and>
     (terminal (sc_status s) \<longrightarrow> without_job s' = without_job s)"

text \<open>An outbox row is never unpublished and keeps what it says; its counters rise.\<close>

definition outbox_evolves :: "scan_job_outbox \<Rightarrow> scan_job_outbox \<Rightarrow> bool" where
  "outbox_evolves b b' \<longleftrightarrow>
     b'\<lparr>ob_published_at := None, ob_attempt_count := 0, ob_last_attempt_at := None, ob_last_error := None\<rparr> =
     b\<lparr>ob_published_at := None, ob_attempt_count := 0, ob_last_attempt_at := None, ob_last_error := None\<rparr> \<and>
     (ob_published_at b \<noteq> None \<longrightarrow> ob_published_at b' \<noteq> None)"

text \<open>A finding keeps everything but the last detection and its triage fields.\<close>

definition finding_evolves :: "finding \<Rightarrow> finding \<Rightarrow> bool" where
  "finding_evolves f f' \<longleftrightarrow> fi_id f' = fi_id f \<and> finding_key f' = finding_key f \<and>
     fi_project_id f' = fi_project_id f \<and> fi_title f' = fi_title f \<and>
     fi_source_tool f' = fi_source_tool f \<and> fi_first_seen_at f' = fi_first_seen_at f"

definition evolves :: "db \<Rightarrow> db \<Rightarrow> bool" where
  "evolves d d' \<longleftrightarrow> grows scan_evolves (scans d) (scans d') \<and>
     grows (=) (scan_events d) (scan_events d') \<and>
     grows (=) (audit_events d) (audit_events d') \<and>
     grows outbox_evolves (outbox d) (outbox d') \<and>
     grows finding_evolves (findings d) (findings d')"

lemma scan_evolves_refl: "scan_evolves s s"
  by (simp add: scan_evolves_def path_refl)

lemma scan_evolves_trans: "scan_evolves a b \<Longrightarrow> scan_evolves b c \<Longrightarrow> scan_evolves a c"
  unfolding scan_evolves_def
proof (elim conjE, intro conjI impI)
  assume t: "terminal (sc_status a)" and b: "terminal (sc_status a) \<longrightarrow> without_job b = without_job a"
    and c: "terminal (sc_status b) \<longrightarrow> without_job c = without_job b"
  have "sc_status (without_job b) = sc_status (without_job a)" using t b by simp
  then have "sc_status b = sc_status a" by (simp add: without_job_def)
  then show "without_job c = without_job a" using t b c by simp
qed (auto intro: status_path_trans)

lemma outbox_evolves_refl: "outbox_evolves b b"
  by (simp add: outbox_evolves_def)

lemma outbox_evolves_trans: "outbox_evolves a b \<Longrightarrow> outbox_evolves b c \<Longrightarrow> outbox_evolves a c"
  by (auto simp: outbox_evolves_def)

lemma finding_evolves_refl: "finding_evolves f f"
  by (simp add: finding_evolves_def)

lemma finding_evolves_trans: "finding_evolves a b \<Longrightarrow> finding_evolves b c \<Longrightarrow> finding_evolves a c"
  by (auto simp: finding_evolves_def)

lemmas evolve_refls = scan_evolves_refl outbox_evolves_refl finding_evolves_refl

lemma evolves_refl: "evolves d d"
  by (simp add: evolves_def grows_refl evolve_refls)

lemma evolves_trans: "evolves d d' \<Longrightarrow> evolves d' d'' \<Longrightarrow> evolves d d''"
  unfolding evolves_def
  by (blast intro: grows_trans scan_evolves_trans outbox_evolves_trans finding_evolves_trans trans)

lemma evolves_status:
  assumes "target \<in> set (valid_transitions st)" "up_status u = Some target" "up_attempt u = None"
    and "\<And>s. P s \<Longrightarrow> sc_status s = st"
  shows "evolves d (update_scans P u t d)"
proof -
  have "scan_evolves s (apply_scan_update u t s)" if "P s" for s
    using assms assms(4) [OF that]
    by (auto simp: scan_evolves_def scan_identity_def terminal_no_transitions intro: status_path_edge)
  then show ?thesis
    by (simp add: evolves_def update_scans_def grows_update grows_refl evolve_refls)
qed

lemma evolves_claim:
  assumes "\<And>s. P s \<Longrightarrow> sc_status s = QUEUED \<and> sc_attempt s = a"
  shows "evolves d (update_scans P (claim_update a worker) t d)"
proof -
  have "scan_evolves s (apply_scan_update (claim_update a worker) t s)" if "P s" for s
    using assms [OF that]
    by (auto simp: scan_evolves_def scan_identity_def terminal_def claim_update_def
        intro: status_path_edge)
  then show ?thesis
    by (simp add: evolves_def update_scans_def grows_update grows_refl evolve_refls)
qed

lemma evolves_inserts:
  "evolves d (insert_scan s d)" "evolves d (insert_outbox b d)" "evolves d (insert_event e d)"
  "evolves d (insert_audit v d)" "evolves d (insert_finding f d)"
  by (simp_all add: evolves_def insert_scan_def insert_outbox_def insert_event_def insert_audit_def
      insert_finding_def grows_append grows_refl evolve_refls)

lemma evolves_redetect: "evolves d (update_finding f (redetected_row sid t) d)"
proof -
  have "finding_evolves r (redetected_row sid t r)" for r
    by (simp add: finding_evolves_def redetected_row_def finding_key_def)
  then show ?thesis
    by (simp add: evolves_def update_finding_def grows_update grows_refl evolve_refls)
qed

interpretation evo: scan_db_relation evolves "\<lambda>_. True"
proof (unfold_locales, goal_cases)
  case 2
  then show ?case by (rule evolves_trans)
qed (auto intro: evolves_refl evolves_status evolves_claim evolves_inserts evolves_redetect)

section \<open>Tenant isolation\<close>

definition other_rows :: "uuid \<Rightarrow> ('r \<Rightarrow> uuid) \<Rightarrow> 'r table \<Rightarrow> 'r table" where
  "other_rows tn owner t = filter (\<lambda>r. owner r \<noteq> tn) t"

definition tenant_only :: "uuid \<Rightarrow> db \<Rightarrow> db \<Rightarrow> bool" where
  "tenant_only tn d d' \<longleftrightarrow>
     other_rows tn sc_tenant_id (scans d') = other_rows tn sc_tenant_id (scans d) \<and>
     other_rows tn ev_tenant_id (scan_events d') = other_rows tn ev_tenant_id (scan_events d) \<and>
     other_rows tn ob_tenant_id (outbox d') = other_rows tn ob_tenant_id (outbox d) \<and>
     other_rows tn fi_tenant_id (findings d') = other_rows tn fi_tenant_id (findings d) \<and>
     filter (\<lambda>v. au_tenant_id v \<noteq> Some tn) (audit_events d') =
       filter (\<lambda>v. au_tenant_id v \<noteq> Some tn) (audit_events d) \<and>
     tenants d' = tenants d \<and> users d' = users d \<and> memberships d' = memberships d \<and>
     projects d' = projects d \<and> assets d' = assets d \<and>
     finding_references d' = finding_references d \<and> api_keys d' = api_keys d \<and>
     refresh_tokens d' = refresh_tokens d \<and> verification_tokens d' = verification_tokens d"

lemma tenant_only_update:
  assumes "\<And>s. P s \<Longrightarrow> sc_tenant_id s = tn"
  shows "tenant_only tn d (update_scans P u t d)"
proof -
  have "other_rows tn sc_tenant_id (update_where P (apply_scan_update u t) xs) =
      other_rows tn sc_tenant_id xs" for xs
    unfolding other_rows_def using assms by (intro filter_update_where_other) simp_all
  then show ?thesis by (simp add: tenant_only_def update_scans_def)
qed

lemma tenant_only_inserts:
  "sc_tenant_id s = tn \<Longrightarrow> tenant_only tn d (insert_scan s d)"
  "ob_tenant_id b = tn \<Longrightarrow> tenant_only tn d (insert_outbox b d)"
  "ev_tenant_id e = tn \<Longrightarrow> tenant_only tn d (insert_event e d)"
  "au_tenant_id v = Some tn \<Longrightarrow> tenant_only tn d (insert_audit v d)"
  "fi_tenant_id f = tn \<Longrightarrow> tenant_only tn d (insert_finding f d)"
  by (simp_all add: tenant_only_def other_rows_def insert_scan_def insert_outbox_def
      insert_event_def insert_audit_def insert_finding_def)

lemma tenant_only_redetect:
  assumes "fi_tenant_id f = tn"
  shows "tenant_only tn d (update_finding f (redetected_row sid t) d)"
proof -
  have "filter (\<lambda>r. fi_tenant_id r \<noteq> tn) (update_where (same_finding f) (redetected_row sid t) xs) =
      filter (\<lambda>r. fi_tenant_id r \<noteq> tn) xs" for xs
    using assms by (intro filter_update_where_other) (simp_all add: same_finding_def)
  then show ?thesis by (simp add: tenant_only_def other_rows_def update_finding_def)
qed

interpretation iso: scan_db_relation "tenant_only tn" "(=) tn" for tn
proof (unfold_locales, goal_cases)
  case (3 tn')
  then show ?case by (auto intro!: tenant_only_update simp: scan_at_def)
next
  case (7 tn')
  then show ?case by (auto intro!: tenant_only_update simp: scan_at_def)
qed (auto simp: tenant_only_inserts tenant_only_redetect, auto simp: tenant_only_def)

end
