(* ===== verification/Retry_Policy.thy ===== *)
theory Retry_Policy
  imports Exceptions
begin

text \<open>
  \<open>scan_engine/retry.py\<close>: whether and when a failed attempt is run again.  Delays are
  rationals where the code has floats; the one overflow the code can hit, converting
  \<open>2 ** (attempt - 1)\<close> to a float, is kept.  \<open>random.uniform\<close> is the parameter \<open>u\<close>,
  the fraction of the interval it picks.
\<close>

record retry_policy =
  rp_base_delay_seconds :: rat
  rp_max_delay_seconds :: rat
  rp_jitter :: bool

definition should_retry :: "int \<Rightarrow> int \<Rightarrow> bool" where
  "should_retry attempt max_attempts \<longleftrightarrow> attempt < max_attempts"

definition pow2 :: "int \<Rightarrow> rat" where
  "pow2 k = (if 0 \<le> k then 2 ^ nat k else 1 / 2 ^ nat (- k))"

definition backoff :: "retry_policy \<Rightarrow> int \<Rightarrow> rat" where
  "backoff p attempt = min (rp_base_delay_seconds p * pow2 (attempt - 1)) (rp_max_delay_seconds p)"

definition next_delay_seconds :: "retry_policy \<Rightarrow> rat \<Rightarrow> int \<Rightarrow> pyexc + rat" where
  "next_delay_seconds p u attempt =
    (if attempt - 1 \<ge> 1024 then Inl (exc OverflowError ''int too large to convert to float'')
     else Inr (if rp_jitter p then u * backoff p attempt else backoff p attempt))"

datatype error_class = Transient | Permanent

fun error_class_value :: "error_class \<Rightarrow> string" where
  "error_class_value Transient = ''transient''"
| "error_class_value Permanent = ''permanent''"

definition classify_error :: "pyexc \<Rightarrow> error_class" where
  "classify_error e = (if ex_class e = TransientScanError then Transient else Permanent)"

lemma pow2_pos [simp]: "0 < pow2 k"
  by (simp add: pow2_def)

lemma pow2_Suc: "pow2 (k + 1) = 2 * pow2 k"
proof (cases "0 \<le> k")
  case True
  then have "nat (k + 1) = Suc (nat k)" by simp
  with True show ?thesis by (simp add: pow2_def)
next
  case False
  show ?thesis
  proof (cases "k = -1")
    case True
    then show ?thesis by (simp add: pow2_def)
  next
    case no: False
    with False have "k + 1 < 0" by simp
    moreover have "nat (- k) = Suc (nat (- (k + 1)))" using no False by simp
    ultimately show ?thesis using False by (simp add: pow2_def)
  qed
qed

lemma pow2_mono: "j \<le> k \<Longrightarrow> pow2 j \<le> pow2 k"
proof (induction "nat (k - j)" arbitrary: k)
  case 0
  then show ?case by simp
next
  case (Suc n)
  then have "n = nat (k - 1 - j)" "j \<le> k - 1" by simp_all
  with Suc have "pow2 j \<le> pow2 (k - 1)" by simp
  also have "\<dots> \<le> pow2 k" using pow2_Suc [of "k - 1"] pow2_pos [of "k - 1"] by simp
  finally show ?case .
qed

lemma backoff_mono:
  assumes "0 \<le> rp_base_delay_seconds p" "a \<le> b"
  shows "backoff p a \<le> backoff p b"
proof -
  have "rp_base_delay_seconds p * pow2 (a - 1) \<le> rp_base_delay_seconds p * pow2 (b - 1)"
    using assms by (intro mult_left_mono pow2_mono) auto
  then show ?thesis by (auto simp: backoff_def min_def)
qed

lemma backoff_nonneg:
  "0 \<le> rp_base_delay_seconds p \<Longrightarrow> 0 \<le> rp_max_delay_seconds p \<Longrightarrow> 0 \<le> backoff p a"
  by (simp add: backoff_def less_imp_le)

lemma backoff_le_max: "backoff p a \<le> rp_max_delay_seconds p"
  by (simp add: backoff_def)

lemma next_delay_bounds:
  assumes "0 \<le> rp_base_delay_seconds p" "0 \<le> rp_max_delay_seconds p" "0 \<le> u" "u \<le> 1"
    and "next_delay_seconds p u a = Inr d"
  shows "0 \<le> d \<and> d \<le> backoff p a"
proof -
  have b: "0 \<le> backoff p a" using assms by (intro backoff_nonneg)
  then have "u * backoff p a \<le> backoff p a" using assms(4) mult_right_mono by fastforce
  then show ?thesis
    using assms b by (auto simp: next_delay_seconds_def split: if_splits)
qed

lemma classify_transient_iff [simp]: "classify_error e = Transient \<longleftrightarrow> ex_class e = TransientScanError"
  by (simp add: classify_error_def)

end
