(* ===== verification/Error_Sanitization.thy ===== *)
theory Error_Sanitization
  imports Exceptions Enums
begin

text \<open>
  \<open>core/error_sanitization.py\<close>: what a caught exception becomes before it may reach a
  database column, an event or an outbox row.  The result depends on the name of the
  exception's class alone.
\<close>

datatype error_category =
    Network
  | Timeout
  | Configuration
  | TargetUnreachable
  | ResourceLimit
  | Internal

fun error_category_value :: "error_category \<Rightarrow> string" where
  "error_category_value Network = ''network''"
| "error_category_value Timeout = ''timeout''"
| "error_category_value Configuration = ''configuration''"
| "error_category_value TargetUnreachable = ''target_unreachable''"
| "error_category_value ResourceLimit = ''resource_limit''"
| "error_category_value Internal = ''internal''"

definition error_category_members :: "error_category list" where
  "error_category_members = [Network, Timeout, Configuration, TargetUnreachable, ResourceLimit, Internal]"

interpretation error_category: str_enum error_category_members error_category_value
proof
  fix x y :: error_category
  show "x \<in> set error_category_members" by (cases x) (simp_all add: error_category_members_def)
  show "error_category_value x = error_category_value y \<Longrightarrow> x = y" by (cases x; cases y) simp_all
qed

record sanitized_error =
  se_code :: string
  se_category :: error_category
  se_summary :: string

definition category_by_exception_type :: "(string \<times> error_category) list" where
  "category_by_exception_type =
    [(''TransientScanError'', Network),
     (''PermanentScanError'', Internal),
     (''ScanConfigError'', Configuration),
     (''ScanTimeoutError'', Timeout),
     (''TimeoutError'', Timeout),
     (''ConnectionError'', Network),
     (''ConnectionRefusedError'', Network),
     (''ConnectionResetError'', Network),
     (''OSError'', Network),
     (''MemoryError'', ResourceLimit)]"

fun summary_by_category :: "error_category \<Rightarrow> string" where
  "summary_by_category Network = ''A network error occurred while communicating with the scan target or tool.''"
| "summary_by_category Timeout = ''The operation did not complete within its configured timeout.''"
| "summary_by_category Configuration = ''The scan configuration was invalid or incomplete.''"
| "summary_by_category TargetUnreachable = ''The scan target could not be reached.''"
| "summary_by_category ResourceLimit = ''A resource limit (memory, disk, or execution time) was exceeded.''"
| "summary_by_category Internal = ''An internal error occurred while executing the scan.''"

definition sanitize_exception :: "pyexc \<Rightarrow> sanitized_error" where
  "sanitize_exception e =
    (let category = (case map_of category_by_exception_type (ex_name e) of
                       None \<Rightarrow> Internal | Some c \<Rightarrow> c)
     in \<lparr>se_code = ex_name e, se_category = category, se_summary = summary_by_category category\<rparr>)"

lemma length_summary: "length (summary_by_category c) \<le> 80"
  by (cases c) simp_all

lemma sanitize_summary_form: "\<exists>c. se_summary (sanitize_exception e) = summary_by_category c"
  by (auto simp: sanitize_exception_def Let_def)

lemma sanitize_name_only:
  "ex_name e = ex_name e' \<Longrightarrow> sanitize_exception e = sanitize_exception e'"
  by (simp add: sanitize_exception_def)

lemma sanitize_summary_length: "length (se_summary (sanitize_exception e)) \<le> 80"
  using length_summary sanitize_summary_form by metis

end
