(* ===== verification/Orchestrator.thy ===== *)
theory Orchestrator
  imports Scan_Relations Retry_Policy Error_Sanitization
begin

text \<open>
  \<open>scan_engine/orchestrator.py\<close>: one execution attempt of a scan.  A scan is passed
  around as an identity-mapped object, which every fetch and every successful update
  refreshes, so the programs below take its identifier and read the object (\<open>obj\<close>)
  where the code reads an attribute.  What is outside the source (plugins, queue,
  SHA-256, the random generator, the ORM's synchronisation of objects) is in \<open>engine\<close>.
\<close>

record engine =
  en_sync :: bool
  en_sha256 :: "string \<Rightarrow> string"
  en_random :: rat
  en_retry :: retry_policy
  en_registry :: scanner_registry
  en_queue :: job_queue

section \<open>Calls on plugins and on the queue\<close>

definition plugin_call :: "plugin_method \<Rightarrow> uuid \<Rightarrow> (int \<Rightarrow> 'a outcome) \<Rightarrow> 'a prog" where
  "plugin_call m i f =
    thenE (emit (PluginCall m i)) (thenE pause (bindE now (\<lambda>t. of_outcome (f t))))"

text \<open>\<open>normalize_findings\<close> is synchronous: no await point.\<close>

definition plugin_call_sync :: "plugin_method \<Rightarrow> uuid \<Rightarrow> (int \<Rightarrow> 'a outcome) \<Rightarrow> 'a prog" where
  "plugin_call_sync m i f = thenE (emit (PluginCall m i)) (bindE now (\<lambda>t. of_outcome (f t)))"

definition dead_letter_scan :: "job_queue \<Rightarrow> scan_job_payload \<Rightarrow> string \<Rightarrow> unit prog" where
  "dead_letter_scan q p reason =
    thenE (of_outcome (jq_dead_letter_scan q p reason)) (emit (DeadLettered p reason))"

section \<open>Stages\<close>

definition assert_not_cancelled :: "uuid \<Rightarrow> uuid \<Rightarrow> unit prog" where
  "assert_not_cancelled tn i =
    bindE (scan_repo_get_by_id tn i) (\<lambda>current.
    case current of
      None \<Rightarrow> retE ()
    | Some s \<Rightarrow> if sc_status s = CANCELLED
        then raiseE (exc ScanCancelledError (''Scan '' @ uuid_str i @ '' was cancelled''))
        else retE ())"

definition mk_event :: "uuid \<Rightarrow> uuid \<Rightarrow> string \<Rightarrow> event_body \<Rightarrow> domain_event" where
  "mk_event i tn corr b =
    \<lparr>de_scan_id = i, de_tenant_id = tn, de_correlation_id = corr, de_body = b\<rparr>"

definition publish_progress :: "uuid \<Rightarrow> scan_context \<Rightarrow> scan_status \<Rightarrow> int \<Rightarrow> string \<Rightarrow> unit prog" where
  "publish_progress i cx stage percent corr =
    publish (mk_event i (cx_tenant_id cx) corr (ScanProgress stage percent None))"

definition worker_field :: "string \<Rightarrow> scan_update" where
  "worker_field worker = no_update\<lparr>up_worker_id := Some worker\<rparr>"

definition run_stages ::
    "engine \<Rightarrow> uuid \<Rightarrow> scanner_plugin \<Rightarrow> scan_context \<Rightarrow> string \<Rightarrow> string \<Rightarrow> unit prog" where
  "run_stages en i pl cx worker corr =
    thenE (assert_not_cancelled (cx_tenant_id cx) i)
    (thenE (plugin_call Prepare i (pl_prepare pl cx))
    (thenE (assert_not_cancelled (cx_tenant_id cx) i)
    (thenE (transition (en_sync en) i RUNNING (worker_field worker))
    (thenE (publish_progress i cx RUNNING 10 corr)
    (bindE (plugin_call Execute i (pl_execute pl cx)) (\<lambda>raw_output.
    thenE (assert_not_cancelled (cx_tenant_id cx) i)
    (thenE (transition (en_sync en) i COLLECTING (worker_field worker))
    (thenE (publish_progress i cx COLLECTING 60 corr)
    (bindE (plugin_call CollectResults i (pl_collect_results pl cx raw_output)) (\<lambda>raw_findings.
    thenE (assert_not_cancelled (cx_tenant_id cx) i)
    (thenE (transition (en_sync en) i PROCESSING (worker_field worker))
    (thenE (publish_progress i cx PROCESSING 85 corr)
    (bindE (plugin_call_sync NormalizeFindings i (pl_normalize_findings pl cx raw_findings))
      (\<lambda>normalized.
    thenE (process (en_sha256 en) cx normalized)
    (thenE (transition (en_sync en) i SUCCEEDED no_update)
    (thenE (publish (mk_event i (cx_tenant_id cx) corr ScanCompleted))
    (emit (Metric ''scan.succeeded''))))))))))))))))))"

section \<open>Failure handling\<close>

definition failure_fields :: "string \<Rightarrow> string \<Rightarrow> scan_update" where
  "failure_fields code summary = no_update\<lparr>up_error_code := Some code, up_error_summary := Some summary\<rparr>"

definition failure_summary :: "string \<Rightarrow> pyexc option \<Rightarrow> string option \<Rightarrow> string" where
  "failure_summary code e summary =
    (case summary of Some s \<Rightarrow> s
     | None \<Rightarrow> (case e of Some x \<Rightarrow> se_summary (sanitize_exception x) | None \<Rightarrow> code))"

definition finalize_failed ::
    "engine \<Rightarrow> uuid \<Rightarrow> string \<Rightarrow> pyexc option \<Rightarrow> string option \<Rightarrow> string \<Rightarrow> unit prog" where
  "finalize_failed en i code e summary0 corr =
    (let summary = failure_summary code e summary0 in
    thenE (transition (en_sync en) i FAILED (failure_fields code summary))
    (bindE (obj i) (\<lambda>s.
    thenE (publish (mk_event i (sc_tenant_id s) corr (ScanFailed code summary True)))
    (thenE (emit (Metric ''scan.failed''))
    (tryE
      (dead_letter_scan (en_queue en)
        \<lparr>jp_scan_id = i, jp_tenant_id = sc_tenant_id s, jp_correlation_id = corr\<rparr> code)
      (\<lambda>x. if is_exception x then emit (Log ''scan_engine.dead_letter_routing_failed'')
           else raiseE x))))))"

definition retry_message :: "scan \<Rightarrow> string" where
  "retry_message s = ''Retry scheduled (attempt '' @ int_str (sc_attempt s) @ ''/'' @
     int_str (sc_max_attempts s) @ '') after a transient error.''"

definition retry_outbox :: "scan \<Rightarrow> string \<Rightarrow> rat \<Rightarrow> outbox_create" where
  "retry_outbox s corr delay = \<lparr>oc_tenant_id = sc_tenant_id s, oc_scan_id = sc_id s,
     oc_scan_attempt = sc_attempt s, oc_event_type = ''scan.run'',
     oc_payload = scan_job_payload_to_dict
       \<lparr>jp_scan_id = sc_id s, jp_tenant_id = sc_tenant_id s, jp_correlation_id = corr\<rparr>,
     oc_countdown_seconds = delay\<rparr>"

definition handle_failure :: "engine \<Rightarrow> uuid \<Rightarrow> pyexc \<Rightarrow> string \<Rightarrow> unit prog" where
  "handle_failure en i e corr =
    thenE (emit (Metric ''scan.error''))
    (bindE (obj i) (\<lambda>s.
    if classify_error e = Transient \<and> should_retry (sc_attempt s) (sc_max_attempts s)
    then
      bindE (liftE (next_delay_seconds (en_retry en) (en_random en) (sc_attempt s))) (\<lambda>delay.
      thenE (outbox_repo_create (retry_outbox s corr delay))
      (thenE (transition (en_sync en) i QUEUED no_update)
      (bindE (obj i) (\<lambda>s.
      publish (mk_event i (sc_tenant_id s) corr (ScanProgress QUEUED 0 (Some (retry_message s))))))))
    else finalize_failed en i (ex_name e) (Some e) None corr))"

definition handle_stale_state :: "uuid \<Rightarrow> uuid \<Rightarrow> string \<Rightarrow> unit prog" where
  "handle_stale_state i tn corr =
    bindE (scan_repo_get_by_id tn i) (\<lambda>current.
    if (case current of None \<Rightarrow> False | Some s \<Rightarrow> sc_status s = CANCELLED)
    then publish (mk_event i tn corr ScanCancelled)
    else emit (Log ''scan_engine.stale_scan_state_during_run''))"

definition cleanup :: "uuid \<Rightarrow> scanner_plugin \<Rightarrow> scan_context \<Rightarrow> unit prog" where
  "cleanup i pl cx =
    tryE (plugin_call Cleanup i (pl_cleanup pl cx))
      (\<lambda>x. if is_exception x
           then thenE (emit (Metric ''scan.cleanup_failed'')) (emit (Log ''scan_engine.cleanup_failed''))
           else raiseE x)"

section \<open>An attempt\<close>

definition context_of :: "scan \<Rightarrow> uuid \<Rightarrow> string \<Rightarrow> scan_context" where
  "context_of s tn corr = \<lparr>cx_tenant_id = tn, cx_scan_id = sc_id s, cx_project_id = sc_project_id s,
     cx_asset_id = sc_asset_id s, cx_scanner_type = sc_scanner_type s,
     cx_requested_by_user_id = sc_requested_by_user_id s, cx_correlation_id = corr,
     cx_config = (case sc_config s of None \<Rightarrow> [] | Some c \<Rightarrow> c),
     cx_timeout_seconds = sc_timeout_seconds s\<rparr>"

definition on_stage_error :: "engine \<Rightarrow> uuid \<Rightarrow> uuid \<Rightarrow> string \<Rightarrow> pyexc \<Rightarrow> unit prog" where
  "on_stage_error en tn i corr e =
    (if ex_class e = BuiltinTimeoutError then
       thenE (transition (en_sync en) i TIMED_OUT no_update)
       (thenE (publish (mk_event i tn corr ScanTimedOut))
       (emit (Metric ''scan.timed_out'')))
     else if ex_class e = ScanCancelledError then
       bindE (obj i) (\<lambda>s.
       thenE (if sc_status s \<noteq> CANCELLED
              then thenE (transition (en_sync en) i CANCELLED no_update) (retE ()) else retE ())
       (publish (mk_event i tn corr ScanCancelled)))
     else if is_exception e then handle_failure en i e corr
     else raiseE e)"

definition run_claimed ::
    "engine \<Rightarrow> uuid \<Rightarrow> uuid \<Rightarrow> scanner_plugin \<Rightarrow> scan_context \<Rightarrow> string \<Rightarrow> string \<Rightarrow> unit prog" where
  "run_claimed en tn i pl cx worker corr =
    finallyE
      (tryE
        (tryE (with_timeout (run_stages en i pl cx worker corr)) (on_stage_error en tn i corr))
        (\<lambda>e. if ex_class e = StaleScanStateError then handle_stale_state i tn corr else raiseE e))
      (cleanup i pl cx)"

text \<open>
  After the claim: announce, build the context, validate.  Only a \<open>ScanConfigError\<close> is
  caught there; the flag tells whether the run goes on.
\<close>

definition validate :: "engine \<Rightarrow> uuid \<Rightarrow> scanner_plugin \<Rightarrow> scan_context \<Rightarrow> string \<Rightarrow> bool prog" where
  "validate en i pl cx corr =
    tryE (thenE (plugin_call ValidateConfig i (pl_validate_config pl cx)) (retE True))
      (\<lambda>e. if ex_class e = ScanConfigError
           then thenE (finalize_failed en i ''invalid_config'' (Some e) None corr)
             (thenE (cleanup i pl cx) (retE False))
           else raiseE e)"

definition execute_claimed ::
    "engine \<Rightarrow> uuid \<Rightarrow> uuid \<Rightarrow> scanner_plugin \<Rightarrow> string \<Rightarrow> string \<Rightarrow> unit prog" where
  "execute_claimed en tn i pl worker corr =
    thenE (publish (mk_event i tn corr (ScanStarted worker)))
    (bindE (obj i) (\<lambda>s.
    let cx = context_of s tn corr in
    bindE (validate en i pl cx corr) (\<lambda>go.
    if go then run_claimed en tn i pl cx worker corr else retE ())))"

definition run :: "engine \<Rightarrow> uuid \<Rightarrow> uuid \<Rightarrow> string \<Rightarrow> unit prog" where
  "run en tn i worker =
    bindE (scan_repo_get_by_id tn i) (\<lambda>found.
    case found of
      None \<Rightarrow> emit (Log ''scan_engine.scan_not_found'')
    | Some s \<Rightarrow>
      if sc_status s \<noteq> QUEUED
      then emit (Log ''scan_engine.duplicate_or_stale_delivery_ignored'')
      else
      bindE (if truthy (sc_correlation_id s) then retE (or_default (sc_correlation_id s) [])
             else bindE draw_uuid (\<lambda>u. retE (uuid_str u))) (\<lambda>corr.
      if \<not> registry_is_registered (en_registry en) (sc_scanner_type s)
      then finalize_failed en i ''scanner_not_registered'' None
        (Some (''No scanner plugin registered for '' @ py_repr (sc_scanner_type s))) corr
      else
      bindE (liftE (registry_get (en_registry en) (sc_scanner_type s))) (\<lambda>pl.
      bindE (scan_repo_claim_for_execution (en_sync en) tn i (sc_attempt s) worker) (\<lambda>claimed.
      case claimed of
        None \<Rightarrow> emit (Log ''scan_engine.duplicate_delivery_ignored'')
      | Some _ \<Rightarrow> thenE commit (execute_claimed en tn i pl worker corr)))))"

section \<open>Every attempt keeps the relations of the engine\<close>

lemma worker_field_attempt [simp]: "up_attempt (worker_field w) = None"
  by (simp add: worker_field_def no_update_def)

lemma failure_fields_attempt [simp]: "up_attempt (failure_fields c s) = None"
  by (simp add: failure_fields_def no_update_def)

lemma no_update_attempt [simp]: "up_attempt no_update = None"
  by (simp add: no_update_def)

lemma mk_event_sel [simp]:
  "de_tenant_id (mk_event i tn c b) = tn" "de_scan_id (mk_event i tn c b) = i"
  "de_correlation_id (mk_event i tn c b) = c" "de_body (mk_event i tn c b) = b"
  by (simp_all add: mk_event_def)

context scan_db_relation
begin

lemma keeps_plugin_call: "keeps R own (plugin_call m i f)"
  unfolding plugin_call_def
  by (intro keeps_thenE keeps_emit keeps_pause keeps_bindE keeps_now keeps_of_outcome)

lemma keeps_plugin_call_sync: "keeps R own (plugin_call_sync m i f)"
  unfolding plugin_call_sync_def
  by (intro keeps_thenE keeps_emit keeps_bindE keeps_now keeps_of_outcome)

lemma keeps_assert_not_cancelled: "own tn \<Longrightarrow> keeps R own (assert_not_cancelled tn i)"
  unfolding assert_not_cancelled_def
  by (intro keeps_bindE keeps_get_by_id) (auto intro: keeps_retE keeps_raiseE split: option.split)

lemma keeps_publish_progress: "own (cx_tenant_id cx) \<Longrightarrow> keeps R own (publish_progress i cx st p c)"
  unfolding publish_progress_def by (rule keeps_publish) simp

lemma keeps_run_stages: "own (cx_tenant_id cx) \<Longrightarrow> keeps R own (run_stages en i pl cx worker corr)"
  unfolding run_stages_def
  by (intro keeps_thenE keeps_bindE keeps_assert_not_cancelled keeps_plugin_call
      keeps_plugin_call_sync keeps_transition keeps_publish_progress keeps_process keeps_publish
      keeps_emit) simp_all

lemma keeps_finalize_failed: "keeps R own (finalize_failed en i code e summary corr)"
  unfolding finalize_failed_def dead_letter_scan_def Let_def
  by (intro keeps_thenE keeps_transition keeps_with_obj keeps_publish keeps_tryE keeps_of_outcome
      keeps_emit) (auto intro: keeps_emit keeps_raiseE)

lemma keeps_handle_failure: "keeps R own (handle_failure en i e corr)"
  unfolding handle_failure_def
  by (intro keeps_thenE keeps_emit keeps_with_obj)
    (auto intro!: keeps_bindE keeps_liftE keeps_thenE keeps_outbox_create keeps_transition
      keeps_with_obj keeps_publish keeps_finalize_failed simp: retry_outbox_def)

lemma keeps_handle_stale_state: "own tn \<Longrightarrow> keeps R own (handle_stale_state i tn corr)"
  unfolding handle_stale_state_def
  by (intro keeps_bindE keeps_get_by_id) (auto intro: keeps_publish keeps_emit)

lemma keeps_cleanup: "keeps R own (cleanup i pl cx)"
  unfolding cleanup_def
  by (intro keeps_tryE keeps_plugin_call) (auto intro: keeps_thenE keeps_emit keeps_raiseE)

lemma keeps_on_stage_error: "own tn \<Longrightarrow> keeps R own (on_stage_error en tn i corr e)"
  unfolding on_stage_error_def
  by (auto intro!: keeps_thenE keeps_transition keeps_publish keeps_emit keeps_with_obj keeps_retE
      keeps_handle_failure keeps_raiseE)

lemma keeps_run_claimed:
  "own tn \<Longrightarrow> own (cx_tenant_id cx) \<Longrightarrow> keeps R own (run_claimed en tn i pl cx worker corr)"
  unfolding run_claimed_def
  by (intro keeps_finallyE keeps_tryE keeps_with_timeout keeps_run_stages keeps_on_stage_error
      keeps_cleanup) (auto intro: keeps_handle_stale_state keeps_raiseE)

lemma keeps_validate: "keeps R own (validate en i pl cx corr)"
  unfolding validate_def
  by (intro keeps_tryE keeps_thenE keeps_plugin_call keeps_retE)
    (auto intro!: keeps_thenE keeps_finalize_failed keeps_cleanup keeps_retE keeps_raiseE)

lemma keeps_execute_claimed: "own tn \<Longrightarrow> keeps R own (execute_claimed en tn i pl worker corr)"
  unfolding execute_claimed_def Let_def
  by (intro keeps_thenE keeps_publish keeps_with_obj keeps_bindE keeps_validate)
    (auto intro!: keeps_run_claimed keeps_retE simp: context_of_def)

lemma keeps_run: "own tn \<Longrightarrow> keeps R own (run en tn i worker)"
  unfolding run_def
  by (intro keeps_bindE keeps_get_by_id)
    (auto intro!: keeps_emit keeps_bindE keeps_retE keeps_draw_uuid keeps_finalize_failed keeps_liftE
      keeps_claim keeps_thenE keeps_commit keeps_execute_claimed split: option.split)

end

lemma run_evolves:
  "safe evolves (\<lambda>_. True) w \<Longrightarrow> run en tn i worker w = (r, w') \<Longrightarrow> evolves (w_db w) (w_db w')"
  using evo.keepsD [OF evo.keeps_run] by (metis snd_conv)

lemma run_tenant_only:
  "safe (tenant_only tn) ((=) tn) w \<Longrightarrow> run en tn i worker w = (r, w') \<Longrightarrow>
    tenant_only tn (w_db w) (w_db w')"
  using iso.keepsD [OF iso.keeps_run] by (metis snd_conv)

end
