(* ===== verification/Common_Schemas.thy ===== *)
theory Common_Schemas
  imports Exceptions
begin

text \<open>
  \<open>schemas/common.py\<close>: the normalisation of slugs and e-mail addresses that several
  request schemas share.
\<close>

definition slug_char :: "char \<Rightarrow> bool" where
  "slug_char c = (let n = of_char c :: nat in (48 \<le> n \<and> n \<le> 57) \<or> (97 \<le> n \<and> n \<le> 122))"

text \<open>
  The pattern \<open>^[a-z0-9]+(?:-[a-z0-9]+)*$\<close> as an automaton; the flag says whether the
  current segment is non-empty.
\<close>

fun slug_from :: "bool \<Rightarrow> string \<Rightarrow> bool" where
  "slug_from seen [] = seen"
| "slug_from seen (c # cs) =
     (if slug_char c then slug_from True cs
      else if c = CHR ''-'' then seen \<and> slug_from False cs else False)"

definition is_slug :: "string \<Rightarrow> bool" where
  "is_slug s = slug_from False s"

definition normalize_slug :: "string \<Rightarrow> pyexc + string" where
  "normalize_slug value0 =
    (let value = lower (strip value0) in
     if is_slug value then Inr value
     else Inl (exc ValueError ''slug must be lowercase alphanumeric segments separated by single hyphens (e.g. 'my-project')''))"

definition normalize_email :: "string \<Rightarrow> string" where
  "normalize_email value = lower (strip value)"

lemma normalize_email_idem [simp]: "normalize_email (normalize_email s) = normalize_email s"
  by (simp add: normalize_email_def strip_lower)

lemma slug_from_chars: "slug_from b s \<Longrightarrow> \<forall>c\<in>set s. slug_char c \<or> c = CHR ''-''"
  by (induction s arbitrary: b) (auto split: if_splits)

lemma slug_char_not_space: "slug_char c \<Longrightarrow> \<not> is_space c"
  by (auto simp: slug_char_def is_space_def Let_def)

lemma dash_not_space: "\<not> is_space CHR ''-''"
  by (simp add: is_space_def Let_def)

lemma lower_slug_char: "slug_char c \<or> c = CHR ''-'' \<Longrightarrow> lower_char c = c"
  by (auto simp: slug_char_def lower_char_def Let_def)

lemma is_slug_normal:
  assumes "is_slug s"
  shows "lower (strip s) = s"
proof -
  have c: "\<forall>c\<in>set s. slug_char c \<or> c = CHR ''-''"
    using assms slug_from_chars by (auto simp: is_slug_def)
  have ne: "s \<noteq> []" using assms by (auto simp: is_slug_def)
  have "\<not> is_space c" if "c \<in> set s" for c
    using c that slug_char_not_space dash_not_space by blast
  then have "strip s = s" using ne by (intro strip_id) simp_all
  moreover have "lower s = s" unfolding lower_def using c lower_slug_char by (intro map_idI) auto
  ultimately show ?thesis by simp
qed

lemma normalize_slug_fixpoint: "normalize_slug s = Inr t \<Longrightarrow> is_slug t \<and> normalize_slug t = Inr t"
  by (auto simp: normalize_slug_def Let_def is_slug_normal split: if_splits)

end
