(* ===== verification/Project_Repositories.thy ===== *)
theory Project_Repositories
  imports Session Common_Schemas
begin

text \<open>
  Projects and assets: \<open>repositories/project_repository.py\<close>, \<open>asset_repository.py\<close> and the
  create schemas that feed them.  All lookups are by tenant.
\<close>

record project_create =
  pc_tenant_id :: uuid
  pc_name :: string
  pc_slug :: string
  pc_description :: "string option"

definition check_project_create :: "project_create \<Rightarrow> pyexc + project_create" where
  "check_project_create c =
    (case normalize_slug (pc_slug c) of Inl e \<Rightarrow> Inl e | Inr s \<Rightarrow> Inr (c\<lparr>pc_slug := s\<rparr>))"

definition new_project :: "project_create \<Rightarrow> uuid \<Rightarrow> int \<Rightarrow> project" where
  "new_project c i t = \<lparr>pr_id = i, pr_tenant_id = pc_tenant_id c, pr_name = pc_name c,
     pr_slug = pc_slug c, pr_description = pc_description c, pr_status = ProjectActive,
     pr_archived_at = None, pr_created_at = t, pr_updated_at = t\<rparr>"

definition project_insert_ok :: "project \<Rightarrow> db \<Rightarrow> bool" where
  "project_insert_ok p d \<longleftrightarrow> length (pr_name p) \<le> 200 \<and> length (pr_slug p) \<le> 100 \<and>
     (\<forall>r\<in>set (projects d). pr_id r \<noteq> pr_id p \<and>
        (pr_tenant_id r, pr_slug r) \<noteq> (pr_tenant_id p, pr_slug p))"

definition project_repo_create :: "project_create \<Rightarrow> project prog" where
  "project_repo_create c =
    bindE draw_uuid (\<lambda>i. bindE now (\<lambda>t.
    let p = new_project c i t in
    thenE (stmt (project_insert_ok p) (\<lambda>d. d\<lparr>projects := projects d @ [p]\<rparr>)) (retE p)))"

definition find_project :: "uuid \<Rightarrow> uuid \<Rightarrow> db \<Rightarrow> project option" where
  "find_project tn i d = select_one (\<lambda>p. pr_id p = i \<and> pr_tenant_id p = tn) (projects d)"

definition project_repo_get_by_id :: "uuid \<Rightarrow> uuid \<Rightarrow> project option prog" where
  "project_repo_get_by_id tn i = query (find_project tn i)"

definition project_repo_get_by_slug :: "uuid \<Rightarrow> string \<Rightarrow> project option prog" where
  "project_repo_get_by_slug tn s =
    query (\<lambda>d. select_one (\<lambda>p. pr_tenant_id p = tn \<and> pr_slug p = s) (projects d))"

definition project_repo_list_by_tenant :: "uuid \<Rightarrow> pagination \<Rightarrow> project page prog" where
  "project_repo_list_by_tenant tn p =
    query (\<lambda>d. paginate p (order_by pr_created_at
      (select_all (\<lambda>r. pr_tenant_id r = tn) (projects d))))"

record asset_create =
  asc_tenant_id :: uuid
  asc_project_id :: uuid
  asc_asset_type :: asset_type
  asc_name :: string
  asc_locator :: string
  asc_environment :: asset_environment

definition new_asset :: "asset_create \<Rightarrow> uuid \<Rightarrow> int \<Rightarrow> asset" where
  "new_asset c i t = \<lparr>as_id = i, as_tenant_id = asc_tenant_id c, as_project_id = asc_project_id c,
     as_asset_type = asc_asset_type c, as_name = asc_name c, as_locator = asc_locator c,
     as_environment = asc_environment c, as_status = AssetActive,
     as_authorization_status = Unauthorized, as_created_at = t, as_updated_at = t\<rparr>"

text \<open>The composite foreign key makes the asset's project one of the same tenant.\<close>

definition asset_insert_ok :: "asset \<Rightarrow> db \<Rightarrow> bool" where
  "asset_insert_ok a d \<longleftrightarrow> length (as_name a) \<le> 200 \<and> length (as_locator a) \<le> 2048 \<and>
     find_project (as_tenant_id a) (as_project_id a) d \<noteq> None \<and>
     (\<forall>r\<in>set (assets d). as_id r \<noteq> as_id a)"

definition asset_repo_create :: "asset_create \<Rightarrow> asset prog" where
  "asset_repo_create c =
    bindE draw_uuid (\<lambda>i. bindE now (\<lambda>t.
    let a = new_asset c i t in
    thenE (stmt (asset_insert_ok a) (\<lambda>d. d\<lparr>assets := assets d @ [a]\<rparr>)) (retE a)))"

definition find_asset :: "uuid \<Rightarrow> uuid \<Rightarrow> db \<Rightarrow> asset option" where
  "find_asset tn i d = select_one (\<lambda>a. as_id a = i \<and> as_tenant_id a = tn) (assets d)"

definition asset_repo_get_by_id :: "uuid \<Rightarrow> uuid \<Rightarrow> asset option prog" where
  "asset_repo_get_by_id tn i = query (find_asset tn i)"

definition asset_repo_list_by_project :: "uuid \<Rightarrow> uuid \<Rightarrow> pagination \<Rightarrow> asset page prog" where
  "asset_repo_list_by_project tn pr p =
    query (\<lambda>d. paginate p (order_by as_created_at
      (select_all (\<lambda>a. as_tenant_id a = tn \<and> as_project_id a = pr) (assets d))))"

lemma find_project_SomeD:
  "find_project tn i d = Some p \<Longrightarrow> p \<in> set (projects d) \<and> pr_id p = i \<and> pr_tenant_id p = tn"
  unfolding find_project_def by (rule select_one_SomeD)

lemma find_asset_SomeD:
  "find_asset tn i d = Some a \<Longrightarrow> a \<in> set (assets d) \<and> as_id a = i \<and> as_tenant_id a = tn"
  unfolding find_asset_def by (rule select_one_SomeD)

end
