(* ===== verification/Scan_Progress.thy ===== *)
theory Scan_Progress
  imports Models
begin

text \<open>
  \<open>scan_engine/progress.py\<close>: the linear estimate of when a scan will finish.  Times are
  integers in microseconds; \<open>timedelta(seconds=...)\<close> rounds to the microsecond, half to
  even.  The code's float division is exact here.
\<close>

definition round_half_even :: "rat \<Rightarrow> int" where
  "round_half_even x =
    (let n = floor x; f = x - of_int n in
     if f < 1 / 2 then n else if f > 1 / 2 then n + 1 else if even n then n else n + 1)"

definition estimate_completion :: "int option \<Rightarrow> int \<Rightarrow> int \<Rightarrow> int option" where
  "estimate_completion started_at percent now =
    (case started_at of
       None \<Rightarrow> None
     | Some s \<Rightarrow>
        if percent \<le> 0 then None
        else let elapsed = (of_int (now - s) / 1000000 :: rat) in
          if elapsed \<le> 0 then None
          else let total_estimated = elapsed / of_int percent * 100;
                   remaining = total_estimated - elapsed
            in if remaining \<le> 0 then Some now
               else Some (now + round_half_even (remaining * 1000000)))"

lemma round_half_even_bounds: "of_int (round_half_even x) \<le> x + 1 / 2 \<and> x - 1 / 2 \<le> of_int (round_half_even x)"
proof -
  define n where "n = floor x"
  have "of_int n \<le> x" "x < of_int n + 1" unfolding n_def by linarith+
  then show ?thesis
    unfolding round_half_even_def Let_def n_def [symmetric] by auto
qed

lemma round_half_even_of_int [simp]: "round_half_even (of_int k) = k"
  by (simp add: round_half_even_def Let_def)

lemma round_half_even_mono: "x \<le> y \<Longrightarrow> round_half_even x \<le> round_half_even y"
proof -
  assume xy: "x \<le> y"
  have fl: "floor x \<le> floor y" using xy by (rule floor_mono)
  show ?thesis
  proof (cases "floor x = floor y")
    case True
    with xy show ?thesis unfolding round_half_even_def Let_def by auto
  next
    case False
    with fl have "floor x + 1 \<le> floor y" by simp
    then show ?thesis unfolding round_half_even_def Let_def by auto
  qed
qed

lemma round_half_even_nonneg: "0 \<le> x \<Longrightarrow> 0 \<le> round_half_even x"
  using round_half_even_mono [of 0 x] round_half_even_of_int [of 0] by simp

text \<open>The remaining time is the elapsed time scaled by what is left over what is done.\<close>

lemma remaining_scaled:
  "0 < p \<Longrightarrow> (e :: rat) / of_int p * 100 - e = e * of_int (100 - p) / of_int p"
  by (simp add: field_simps)

lemma estimate_completion_Some:
  assumes "estimate_completion (Some s) p now = Some c"
  shows "0 < p \<and> s < now \<and>
    c = now + (if p < 100 then round_half_even (of_int ((now - s) * (100 - p)) / of_int p) else 0)"
proof -
  have p: "0 < p" using assms by (simp add: estimate_completion_def split: if_splits)
  have e: "0 < (of_int (now - s) / 1000000 :: rat)"
    using assms p by (simp add: estimate_completion_def Let_def not_le split: if_splits)
  then have sn: "s < now" by (simp add: zero_less_divide_iff)
  have r: "of_int (now - s) / 1000000 / of_int p * 100 - of_int (now - s) / 1000000 =
      (of_int (now - s) / 1000000 * of_int (100 - p) / of_int p :: rat)"
    using p by (rule remaining_scaled)
  have le: "(of_int (now - s) / 1000000 * of_int (100 - p) / of_int p :: rat) \<le> 0 \<longleftrightarrow> 100 \<le> p"
    using e p by (simp add: divide_le_0_iff mult_le_0_iff zero_less_divide_iff not_less)
  have "c = (if 100 \<le> p then now
     else now + round_half_even (of_int (now - s) / 1000000 * of_int (100 - p) / of_int p * 1000000))"
    using assms p e
    unfolding estimate_completion_def Let_def option.case r le
    by (simp add: not_le split: if_splits)
  moreover have "of_int (now - s) / 1000000 * of_int (100 - p) / of_int p * 1000000 =
      (of_int ((now - s) * (100 - p)) / of_int p :: rat)"
    by simp
  ultimately show ?thesis using p sn by auto
qed

end
