(* ===== verification/Scan_Service.thy ===== *)
theory Scan_Service
  imports Orchestrator Project_Repositories Scan_Progress
begin

text \<open>
  \<open>services/scan_service.py\<close>, with the request schemas of \<open>schemas/scan.py\<close>: create, read,
  list, cancel, retry and progress of scans, as the request handlers run them.  Creating
  or retrying a scan writes its outbox row and its \<open>QUEUED\<close> status in one commit; no
  operation talks to the queue, except \<open>cancel\<close>, best effort.
\<close>

section \<open>Schemas\<close>

definition scan_config_max_bytes :: nat where
  "scan_config_max_bytes = 16384"

definition config_too_big :: "json_object option \<Rightarrow> bool" where
  "config_too_big c = (case c of None \<Rightarrow> False | Some o' \<Rightarrow> length (dumps (JObj o')) > scan_config_max_bytes)"

record scan_create_request =
  rq_project_id :: uuid
  rq_asset_id :: uuid
  rq_scanner_type :: string
  rq_config :: "json_object option"
  rq_timeout_seconds :: "int option"
  rq_max_attempts :: "int option"

text \<open>The validators of the request body; each that fails contributes its message.\<close>

definition scan_create_request_errors :: "scan_create_request \<Rightarrow> string list" where
  "scan_create_request_errors r =
    (if config_too_big (rq_config r) then [''config must not exceed 16384 bytes''] else []) @
    (case rq_timeout_seconds r of Some t \<Rightarrow> if t \<le> 0 then [''timeout_seconds must be positive''] else []
     | None \<Rightarrow> []) @
    (case rq_max_attempts r of Some n \<Rightarrow> if n < 1 then [''max_attempts must be at least 1''] else []
     | None \<Rightarrow> [])"

definition check_scan_create :: "scan_create \<Rightarrow> pyexc + scan_create" where
  "check_scan_create c =
    (if config_too_big (cr_config c) then Inl (exc ValueError ''config must not exceed 16384 bytes'')
     else Inr c)"

text \<open>What a client sees of a scan: every column but the job id.\<close>

record scan_read =
  sr_id :: uuid
  sr_tenant_id :: uuid
  sr_project_id :: uuid
  sr_asset_id :: uuid
  sr_scanner_type :: string
  sr_status :: scan_status
  sr_requested_by_user_id :: "uuid option"
  sr_queued_at :: "int option"
  sr_started_at :: "int option"
  sr_completed_at :: "int option"
  sr_failed_at :: "int option"
  sr_cancelled_at :: "int option"
  sr_timed_out_at :: "int option"
  sr_error_code :: "string option"
  sr_error_summary :: "string option"
  sr_attempt :: int
  sr_max_attempts :: int
  sr_worker_id :: "string option"
  sr_timeout_seconds :: int
  sr_retry_of_scan_id :: "uuid option"
  sr_config :: "json_object option"
  sr_correlation_id :: "string option"
  sr_created_at :: int
  sr_updated_at :: int

definition scan_read_of :: "scan \<Rightarrow> scan_read" where
  "scan_read_of s = \<lparr>sr_id = sc_id s, sr_tenant_id = sc_tenant_id s, sr_project_id = sc_project_id s,
     sr_asset_id = sc_asset_id s, sr_scanner_type = sc_scanner_type s, sr_status = sc_status s,
     sr_requested_by_user_id = sc_requested_by_user_id s, sr_queued_at = sc_queued_at s,
     sr_started_at = sc_started_at s, sr_completed_at = sc_completed_at s,
     sr_failed_at = sc_failed_at s, sr_cancelled_at = sc_cancelled_at s,
     sr_timed_out_at = sc_timed_out_at s, sr_error_code = sc_error_code s,
     sr_error_summary = sc_error_summary s, sr_attempt = sc_attempt s,
     sr_max_attempts = sc_max_attempts s, sr_worker_id = sc_worker_id s,
     sr_timeout_seconds = sc_timeout_seconds s, sr_retry_of_scan_id = sc_retry_of_scan_id s,
     sr_config = sc_config s, sr_correlation_id = sc_correlation_id s,
     sr_created_at = sc_created_at s, sr_updated_at = sc_updated_at s\<rparr>"

record scan_progress_read =
  sp_scan_id :: uuid
  sp_status :: scan_status
  sp_stage :: string
  sp_percent :: int
  sp_started_at :: "int option"
  sp_estimated_completion_at :: "int option"
  sp_worker_id :: "string option"
  sp_updated_at :: int

section \<open>The service\<close>

definition retryable_statuses :: "scan_status list" where
  "retryable_statuses = [FAILED, CANCELLED, TIMED_OUT]"

definition scan_correlation_id :: "scan \<Rightarrow> string" where
  "scan_correlation_id s = or_default (sc_correlation_id s) (uuid_str (sc_id s))"

definition get_or_404 :: "uuid \<Rightarrow> uuid \<Rightarrow> scan prog" where
  "get_or_404 tn i =
    bindE (scan_repo_get_by_id tn i) (\<lambda>r.
    case r of None \<Rightarrow> raiseE (exc ScanNotFoundError []) | Some s \<Rightarrow> retE s)"

definition first_outbox :: "scan \<Rightarrow> outbox_create" where
  "first_outbox s = \<lparr>oc_tenant_id = sc_tenant_id s, oc_scan_id = sc_id s,
     oc_scan_attempt = sc_attempt s, oc_event_type = ''scan.run'',
     oc_payload = scan_job_payload_to_dict
       \<lparr>jp_scan_id = sc_id s, jp_tenant_id = sc_tenant_id s, jp_correlation_id = scan_correlation_id s\<rparr>,
     oc_countdown_seconds = 0\<rparr>"

definition enqueue :: "bool \<Rightarrow> uuid \<Rightarrow> scan prog" where
  "enqueue sync i =
    bindE (obj i) (\<lambda>s.
    let corr = scan_correlation_id s in
    thenE (outbox_repo_create (first_outbox s))
    (thenE (transition sync i QUEUED no_update)
    (bindE (obj i) (\<lambda>s'.
    thenE (publish (mk_event i (sc_tenant_id s') corr ScanQueued))
    (retE s')))))"

definition create_scan ::
    "bool \<Rightarrow> uuid \<Rightarrow> uuid option \<Rightarrow> scan_create_request \<Rightarrow> scan_read prog" where
  "create_scan sync tn requested_by data =
    bindE (project_repo_get_by_id tn (rq_project_id data)) (\<lambda>project.
    case project of None \<Rightarrow> raiseE (exc ProjectNotFoundError []) | Some _ \<Rightarrow>
    bindE (asset_repo_get_by_id tn (rq_asset_id data)) (\<lambda>asset.
    case asset of None \<Rightarrow> raiseE (exc AssetNotFoundError []) | Some a \<Rightarrow>
    if as_project_id a \<noteq> rq_project_id data then raiseE (exc AssetProjectMismatchError []) else
    bindE (liftE (check_scan_create
      \<lparr>cr_tenant_id = tn, cr_project_id = rq_project_id data, cr_asset_id = rq_asset_id data,
       cr_scanner_type = rq_scanner_type data, cr_requested_by_user_id = requested_by,
       cr_config = rq_config data, cr_timeout_seconds = rq_timeout_seconds data,
       cr_max_attempts = rq_max_attempts data, cr_retry_of_scan_id = None,
       cr_correlation_id = None\<rparr>)) (\<lambda>c.
    bindE (scan_repo_create c) (\<lambda>s.
    bindE (enqueue sync (sc_id s)) (\<lambda>s'.
    retE (scan_read_of s'))))))"

definition get_scan :: "uuid \<Rightarrow> uuid \<Rightarrow> scan_read prog" where
  "get_scan tn i = bindE (get_or_404 tn i) (\<lambda>s. retE (scan_read_of s))"

definition list_scans ::
    "uuid \<Rightarrow> pagination \<Rightarrow> uuid option \<Rightarrow> uuid option \<Rightarrow> scan_status option \<Rightarrow> scan_read page prog" where
  "list_scans tn p a pr st =
    bindE (scan_repo_list_by_tenant tn p a pr st) (\<lambda>pg.
    retE \<lparr>pg_items = map scan_read_of (pg_items pg), pg_total = pg_total pg,
      pg_limit = pg_limit pg, pg_offset = pg_offset pg\<rparr>)"

definition cancel_job :: "job_queue \<Rightarrow> string \<Rightarrow> unit prog" where
  "cancel_job q j = thenE (of_outcome (jq_cancel q j)) (emit (CancelledJob j))"

definition cancel_scan :: "bool \<Rightarrow> job_queue \<Rightarrow> uuid \<Rightarrow> uuid \<Rightarrow> scan_read prog" where
  "cancel_scan sync q tn i =
    bindE (get_or_404 tn i) (\<lambda>s.
    thenE (tryE (transition sync i CANCELLED no_update)
       (\<lambda>e. if ex_class e = InvalidScanTransitionError \<or> ex_class e = StaleScanStateError
            then raiseE (exc ScanNotCancellableError (ex_message e)) else raiseE e))
    (bindE (obj i) (\<lambda>s'.
    thenE (publish (mk_event i (sc_tenant_id s') (scan_correlation_id s') ScanCancelled))
    (thenE (case sc_job_id s of None \<Rightarrow> retE ()
            | Some j \<Rightarrow> tryE (cancel_job q j)
                (\<lambda>e. if is_exception e then emit (Log ''scan_service.job_cancel_failed'') else raiseE e))
    (retE (scan_read_of s'))))))"

definition not_retryable_message :: "uuid \<Rightarrow> scan_status \<Rightarrow> string" where
  "not_retryable_message i st = ''Scan '' @ uuid_str i @ '' is '' @ py_repr (scan_status_value st) @
     ''; only ['' @ join '', '' (map (\<lambda>x. py_repr (scan_status_value x)) [CANCELLED, FAILED, TIMED_OUT]) @
     ''] scans may be retried.''"

definition retry_scan :: "bool \<Rightarrow> uuid \<Rightarrow> uuid \<Rightarrow> uuid option \<Rightarrow> scan_read prog" where
  "retry_scan sync tn i requested_by =
    bindE (get_or_404 tn i) (\<lambda>original.
    if sc_status original \<notin> set retryable_statuses
    then raiseE (exc ScanNotRetryableError (not_retryable_message i (sc_status original))) else
    bindE (liftE (check_scan_create
      \<lparr>cr_tenant_id = tn, cr_project_id = sc_project_id original, cr_asset_id = sc_asset_id original,
       cr_scanner_type = sc_scanner_type original, cr_requested_by_user_id = requested_by,
       cr_config = sc_config original, cr_timeout_seconds = Some (sc_timeout_seconds original),
       cr_max_attempts = Some (sc_max_attempts original), cr_retry_of_scan_id = Some (sc_id original),
       cr_correlation_id = None\<rparr>)) (\<lambda>c.
    bindE (scan_repo_create c) (\<lambda>s.
    bindE (enqueue sync (sc_id s)) (\<lambda>s'.
    retE (scan_read_of s')))))"

definition or_else :: "string option \<Rightarrow> string option \<Rightarrow> string option" where
  "or_else x y = (if truthy x then x else y)"

definition progress_of :: "scan \<Rightarrow> scan_event option \<Rightarrow> int \<Rightarrow> scan_progress_read" where
  "progress_of s latest t =
    (let (stage, percent, worker, updated) =
      (case latest of
         Some e \<Rightarrow> (or_default (ev_stage e) (scan_status_value (sc_status s)),
                    (case ev_progress_percent e of None \<Rightarrow> 0 | Some p \<Rightarrow> p),
                    or_else (ev_worker_id e) (sc_worker_id s), ev_created_at e)
       | None \<Rightarrow> (scan_status_value (sc_status s), if sc_status s = SUCCEEDED then 100 else 0,
                  sc_worker_id s, sc_updated_at s))
     in \<lparr>sp_scan_id = sc_id s, sp_status = sc_status s, sp_stage = stage, sp_percent = percent,
         sp_started_at = sc_started_at s,
         sp_estimated_completion_at = estimate_completion (sc_started_at s) percent t,
         sp_worker_id = worker, sp_updated_at = updated\<rparr>)"

definition get_progress :: "uuid \<Rightarrow> uuid \<Rightarrow> scan_progress_read prog" where
  "get_progress tn i =
    bindE (get_or_404 tn i) (\<lambda>s.
    bindE (scan_event_repo_get_latest_progress tn i) (\<lambda>latest.
    bindE now (\<lambda>t. retE (progress_of s latest t))))"

section \<open>Every operation keeps the relations of the engine\<close>

lemma check_scan_create_Inr: "check_scan_create c = Inr c' \<Longrightarrow> c' = c"
  by (simp add: check_scan_create_def split: if_splits)

context request_db_relation
begin

lemma keeps_get_or_404: "own tn \<Longrightarrow> keeps R own (get_or_404 tn i)"
  unfolding get_or_404_def
  by (intro keeps_bindE keeps_get_by_id) (auto intro: keeps_raiseE keeps_retE split: option.split)

lemma keeps_enqueue: "target_ok QUEUED \<Longrightarrow> keeps R own (enqueue sync i)"
  unfolding enqueue_def Let_def
  by (intro keeps_with_obj keeps_thenE keeps_outbox_create keeps_transition_to keeps_publish keeps_retE)
    (simp_all add: first_outbox_def)

lemma keeps_create_and_enqueue:
  "own (cr_tenant_id c) \<Longrightarrow> target_ok QUEUED \<Longrightarrow>
    keeps R own (bindE (scan_repo_create c) (\<lambda>s. bindE (enqueue sync (sc_id s)) (\<lambda>s'. retE (scan_read_of s'))))"
  by (intro keeps_bindE keeps_scan_create keeps_enqueue keeps_retE)

lemma keeps_checked_create:
  "own (cr_tenant_id c) \<Longrightarrow> target_ok QUEUED \<Longrightarrow>
    keeps R own (bindE (liftE (check_scan_create c)) (\<lambda>c.
      bindE (scan_repo_create c) (\<lambda>s. bindE (enqueue sync (sc_id s)) (\<lambda>s'. retE (scan_read_of s')))))"
  by (cases "check_scan_create c")
    (auto simp: liftE_simps dest!: check_scan_create_Inr
      intro!: keeps_raiseE keeps_create_and_enqueue keeps_bind_post [OF keeps_retE] simp: retE_def)

lemma keeps_create_scan: "own tn \<Longrightarrow> target_ok QUEUED \<Longrightarrow> keeps R own (create_scan sync tn u data)"
  unfolding create_scan_def project_repo_get_by_id_def asset_repo_get_by_id_def
  by (intro keeps_bindE [OF keeps_query])
    (auto intro!: keeps_raiseE keeps_bindE [OF keeps_query] keeps_checked_create split: option.split)

lemma keeps_retry_scan: "own tn \<Longrightarrow> target_ok QUEUED \<Longrightarrow> keeps R own (retry_scan sync tn i u)"
  unfolding retry_scan_def
  by (intro keeps_bindE [OF keeps_get_or_404])
    (auto intro!: keeps_raiseE keeps_checked_create)

lemma keeps_cancel_scan: "own tn \<Longrightarrow> target_ok CANCELLED \<Longrightarrow> keeps R own (cancel_scan sync q tn i)"
  unfolding cancel_scan_def cancel_job_def
  by (intro keeps_bindE [OF keeps_get_or_404] keeps_thenE keeps_tryE keeps_transition_to keeps_with_obj
      keeps_publish keeps_retE)
    (auto intro!: keeps_raiseE keeps_retE keeps_tryE keeps_thenE keeps_of_outcome keeps_emit
      split: option.split)

lemma keeps_get_scan: "own tn \<Longrightarrow> keeps R own (get_scan tn i)"
  unfolding get_scan_def by (intro keeps_bindE keeps_get_or_404 keeps_retE)

lemma keeps_get_progress: "own tn \<Longrightarrow> keeps R own (get_progress tn i)"
  unfolding get_progress_def scan_event_repo_get_latest_progress_def
  by (intro keeps_bindE keeps_get_or_404 keeps_query keeps_now keeps_retE)

end

end
