(* ===== verification/Outbox_Dispatcher.thy ===== *)
theory Outbox_Dispatcher
  imports Orchestrator
begin

text \<open>
  The worker processes: the Celery adapter of the job queue
  (\<open>workers/job_queue_celery.py\<close>), the outbox dispatcher
  (\<open>workers/tasks/outbox_dispatcher.py\<close>) and the task that executes a scan
  (\<open>workers/tasks/scan_tasks.py\<close>).  Celery itself is a parameter: what \<open>send_task\<close> and
  \<open>revoke\<close> return or raise.
\<close>

section \<open>The Celery adapter\<close>

record celery =
  ce_send_task :: "string \<Rightarrow> (string \<times> string) list \<Rightarrow> string \<Rightarrow> rat option \<Rightarrow> string outcome"
  ce_revoke :: "string \<Rightarrow> bool \<Rightarrow> unit outcome"

record queue_names =
  qn_scan_queue_name :: string
  qn_scan_dead_letter_queue_name :: string

definition execute_scan_task_name :: string where
  "execute_scan_task_name = ''app.workers.tasks.scan_tasks.execute_scan''"

definition task_kwargs :: "scan_job_payload \<Rightarrow> (string \<times> string) list" where
  "task_kwargs p = [(''scan_id'', uuid_str (jp_scan_id p)), (''tenant_id'', uuid_str (jp_tenant_id p)),
     (''correlation_id'', jp_correlation_id p)]"

definition celery_enqueue_scan :: "queue_names \<Rightarrow> celery \<Rightarrow> scan_job_payload \<Rightarrow> rat \<Rightarrow> string outcome" where
  "celery_enqueue_scan n app p countdown =
    ce_send_task app execute_scan_task_name (task_kwargs p) (qn_scan_queue_name n)
      (if countdown > 0 then Some countdown else None)"

definition celery_cancel :: "celery \<Rightarrow> string \<Rightarrow> unit outcome" where
  "celery_cancel app job_id = ce_revoke app job_id False"

definition celery_dead_letter_scan :: "queue_names \<Rightarrow> celery \<Rightarrow> scan_job_payload \<Rightarrow> string \<Rightarrow> unit outcome" where
  "celery_dead_letter_scan n app p reason =
    (case ce_send_task app execute_scan_task_name (task_kwargs p) (qn_scan_dead_letter_queue_name n) None of
       Returns _ \<Rightarrow> Returns () | Raises e \<Rightarrow> Raises e)"

definition celery_job_queue :: "queue_names \<Rightarrow> celery \<Rightarrow> job_queue" where
  "celery_job_queue n app = \<lparr>jq_enqueue_scan = celery_enqueue_scan n app,
     jq_cancel = celery_cancel app, jq_dead_letter_scan = celery_dead_letter_scan n app\<rparr>"

section \<open>The dispatcher\<close>

definition enqueue_job :: "job_queue \<Rightarrow> scan_job_payload \<Rightarrow> rat \<Rightarrow> string prog" where
  "enqueue_job q p countdown =
    bindE (of_outcome (jq_enqueue_scan q p countdown)) (\<lambda>j. thenE (emit (SentJob p countdown)) (retE j))"

definition job_update :: "string \<Rightarrow> scan_update" where
  "job_update j = no_update\<lparr>up_job_id := Some j\<rparr>"

definition record_published :: "scan_job_outbox \<Rightarrow> string \<Rightarrow> int \<Rightarrow> bool prog" where
  "record_published b j t =
    bindE (scan_repo_get_by_id (ob_tenant_id b) (ob_scan_id b)) (\<lambda>found.
    thenE (case found of None \<Rightarrow> retE ()
           | Some s \<Rightarrow> thenE (scan_repo_update s (job_update j)) (retE ()))
    (thenE (outbox_repo_mark_published b t (ob_attempt_count b + 1))
    (thenE commit
    (thenE (emit (Log ''outbox_dispatcher.published''))
    (retE True)))))"

definition record_failed :: "scan_job_outbox \<Rightarrow> pyexc \<Rightarrow> int \<Rightarrow> bool prog" where
  "record_failed b e t =
    thenE (outbox_repo_mark_failed_attempt b (ob_attempt_count b + 1) t (se_summary (sanitize_exception e)))
    (thenE commit
    (thenE (emit (Log ''outbox_dispatcher.publish_failed''))
    (retE True)))"

definition dispatch_one :: "job_queue \<Rightarrow> uuid set \<Rightarrow> bool prog" where
  "dispatch_one q locked =
    bindE (outbox_repo_claim_next_pending locked) (\<lambda>claimed.
    case claimed of
      None \<Rightarrow> thenE rollback (retE False)
    | Some b \<Rightarrow>
      bindE (liftE (scan_job_payload_from_dict (ob_payload b))) (\<lambda>p.
      bindE now (\<lambda>t.
      bindE (tryE (bindE (enqueue_job q p (ob_countdown_seconds b)) (\<lambda>j. retE (Some j)))
               (\<lambda>e. if is_exception e then thenE (record_failed b e t) (retE None) else raiseE e)) (\<lambda>sent.
      case sent of None \<Rightarrow> retE True | Some j \<Rightarrow> record_published b j t))))"

text \<open>
  One tick: at most \<open>batch_size\<close> rows, one after the other; \<open>locked n\<close> are the rows other
  dispatchers hold at the \<open>n\<close>-th claim.
\<close>

fun dispatch_loop :: "job_queue \<Rightarrow> (nat \<Rightarrow> uuid set) \<Rightarrow> nat \<Rightarrow> nat \<Rightarrow> nat prog" where
  "dispatch_loop q locked 0 dispatched = retE dispatched"
| "dispatch_loop q locked (Suc k) dispatched =
    bindE (dispatch_one q (locked dispatched)) (\<lambda>claimed.
    if \<not> claimed then retE dispatched else dispatch_loop q locked k (Suc dispatched))"

definition dispatch_pending_outbox :: "job_queue \<Rightarrow> (nat \<Rightarrow> uuid set) \<Rightarrow> nat \<Rightarrow> nat prog" where
  "dispatch_pending_outbox q locked batch_size = dispatch_loop q locked batch_size 0"

section \<open>The execution task\<close>

text \<open>\<open>hostname or request id or uuid4\<close>\<close>

definition worker_id_of :: "string option \<Rightarrow> string option \<Rightarrow> string prog" where
  "worker_id_of hostname request_id =
    (if truthy hostname then retE (or_default hostname [])
     else if truthy request_id then retE (or_default request_id [])
     else bindE draw_uuid (\<lambda>u. retE (uuid_str u)))"

definition scan_task :: "engine \<Rightarrow> uuid \<Rightarrow> uuid \<Rightarrow> string \<Rightarrow> unit prog" where
  "scan_task en i tn worker =
    thenE (tryE (run en tn i worker) (\<lambda>e. if is_exception e then thenE rollback (raiseE e) else raiseE e))
      commit"

definition execute_scan ::
    "engine \<Rightarrow> string option \<Rightarrow> string option \<Rightarrow> (string \<times> string) list \<Rightarrow> unit prog" where
  "execute_scan en hostname request_id kwargs =
    bindE (worker_id_of hostname request_id) (\<lambda>worker.
    thenE (emit (Log ''scan_engine.task_received''))
    (case map_of kwargs ''scan_id'' of None \<Rightarrow> raiseE (exc KeyError ''scan_id'') | Some s \<Rightarrow>
     case map_of kwargs ''tenant_id'' of None \<Rightarrow> raiseE (exc KeyError ''tenant_id'') | Some t \<Rightarrow>
     bindE (liftE (uuid_of s)) (\<lambda>i. bindE (liftE (uuid_of t)) (\<lambda>tn. scan_task en i tn worker))))"

lemma uuid_of_str [simp]: "uuid_of (uuid_str u) = Inr u"
  by (simp add: uuid_of_def)

text \<open>What the queue delivers is what was enqueued.\<close>

lemma execute_scan_kwargs:
  "truthy hostname \<Longrightarrow> execute_scan en hostname r (task_kwargs p) w =
    scan_task en (jp_scan_id p) (jp_tenant_id p) (or_default hostname [])
      (w\<lparr>w_trace := w_trace w @ [Log ''scan_engine.task_received'']\<rparr>)"
  by (simp add: execute_scan_def worker_id_of_def task_kwargs_def prog_simps)

section \<open>The dispatcher keeps the history of scans and outbox\<close>

lemma evolves_job_update: "evolves d (update_scans P (job_update j) t d)"
proof -
  have "scan_evolves s (apply_scan_update (job_update j) t s)" for s
    by (simp add: scan_evolves_def scan_identity_def path_refl without_job_def apply_scan_update_def
        job_update_def no_update_def)
  then show ?thesis
    by (simp add: evolves_def update_scans_def grows_update grows_refl evolve_refls)
qed

lemma evolves_update_outbox:
  "(\<And>b. outbox_evolves b (f b)) \<Longrightarrow> evolves d (update_outbox i f d)"
  by (simp add: evolves_def update_outbox_def grows_update grows_refl evolve_refls)

lemma published_row_evolves: "outbox_evolves b (published_row t n b)"
  by (simp add: outbox_evolves_def published_row_def)

lemma failed_attempt_row_evolves: "outbox_evolves b (failed_attempt_row n t e b)"
  by (simp add: outbox_evolves_def failed_attempt_row_def)

text \<open>
  What the dispatcher and the task write besides what the scan engine does: the job id of a
  scan, and the outcome of a send in its outbox row.
\<close>

locale dispatch_db_relation = request_db_relation R "\<lambda>_. True" target_ok for R target_ok +
  assumes R_job: "R d (update_scans P (job_update j) t d)"
    and R_published: "R d (update_outbox i (published_row t n) d)"
    and R_failed_attempt: "R d (update_outbox i (failed_attempt_row n t e) d)"
begin

abbreviation kept :: "'a prog \<Rightarrow> bool" where
  "kept m \<equiv> keeps R (\<lambda>_. True) m"

lemma keeps_record_published: "kept (record_published b j t)"
  unfolding record_published_def scan_repo_update_def outbox_repo_mark_published_def Let_def
  by (intro keeps_bindE keeps_get_by_id keeps_thenE keeps_commit keeps_emit
      keeps_retE keeps_stmt R_published)
    (auto intro!: keeps_retE keeps_thenE keeps_bindE keeps_now keeps_stmt
      keeps_remember R_job split: option.split)

lemma keeps_record_failed: "kept (record_failed b e t)"
  unfolding record_failed_def outbox_repo_mark_failed_attempt_def
  by (intro keeps_thenE keeps_commit keeps_emit keeps_retE keeps_stmt R_failed_attempt)

lemma keeps_dispatch_one: "kept (dispatch_one q locked)"
  unfolding dispatch_one_def outbox_repo_claim_next_pending_def enqueue_job_def
  by (intro keeps_bindE [OF keeps_query])
    (auto intro!: keeps_thenE keeps_rollback keeps_retE keeps_bindE keeps_liftE
      keeps_now keeps_tryE keeps_of_outcome keeps_emit keeps_raiseE
      keeps_record_failed keeps_record_published split: option.split)

lemma keeps_dispatch_loop: "kept (dispatch_loop q locked k n)"
  by (induction k arbitrary: n) (auto intro!: keeps_retE keeps_bindE keeps_dispatch_one)

lemma keeps_dispatch_pending: "kept (dispatch_pending_outbox q locked batch)"
  unfolding dispatch_pending_outbox_def by (rule keeps_dispatch_loop)

end

locale outbox_db_relation = scan_db_relation R "\<lambda>_. True" + dispatch_db_relation R "\<lambda>_. True" for R
begin

lemma keeps_scan_task: "kept (scan_task en i tn worker)"
  unfolding scan_task_def
  by (intro keeps_thenE keeps_tryE keeps_run keeps_commit)
    (auto intro: keeps_thenE keeps_rollback keeps_raiseE)

end

interpretation out: outbox_db_relation evolves
  by unfold_locales
    (simp_all add: evolves_job_update evolves_update_outbox published_row_evolves failed_attempt_row_evolves)

section \<open>What one dispatch does\<close>

lemma next_pending_SomeD:
  assumes "next_pending locked d = Some b"
  shows "b \<in> set (outbox d) \<and> ob_published_at b = None \<and> ob_id b \<notin> locked \<and>
    (\<forall>c\<in>set (outbox d). ob_published_at c = None \<longrightarrow> ob_id c \<notin> locked \<longrightarrow> ob_created_at b \<le> ob_created_at c)"
proof -
  let ?xs = "select_all (\<lambda>b. ob_published_at b = None \<and> ob_id b \<notin> locked) (outbox d)"
  obtain cs where s: "sort_key ob_created_at ?xs = b # cs"
    using assms by (auto simp: next_pending_def order_by_def split: list.splits)
  have "sorted (map ob_created_at (b # cs))" unfolding s [symmetric] by simp
  then have le: "\<forall>c\<in>set (b # cs). ob_created_at b \<le> ob_created_at c" by auto
  have "set (b # cs) = set ?xs" unfolding s [symmetric] by simp
  then have m: "set (b # cs) = {c \<in> set (outbox d). ob_published_at c = None \<and> ob_id c \<notin> locked}"
    by (simp add: select_all_def)
  then have "b \<in> {c \<in> set (outbox d). ob_published_at c = None \<and> ob_id c \<notin> locked}" by auto
  moreover have "ob_created_at b \<le> ob_created_at c"
    if "c \<in> set (outbox d)" "ob_published_at c = None" "ob_id c \<notin> locked" for c
  proof -
    from that m have "c \<in> set (b # cs)" by blast
    with le show ?thesis by blast
  qed
  ultimately show ?thesis by blast
qed

lemma sort_key_Nil_iff: "sort_key f xs = [] \<longleftrightarrow> xs = []"
  by (simp flip: length_0_conv)

lemma next_pending_None_iff:
  "next_pending locked d = None \<longleftrightarrow>
    (\<forall>b\<in>set (outbox d). ob_published_at b = None \<longrightarrow> ob_id b \<in> locked)"
proof -
  let ?xs = "select_all (\<lambda>b. ob_published_at b = None \<and> ob_id b \<notin> locked) (outbox d)"
  have "next_pending locked d = None \<longleftrightarrow> sort_key ob_created_at ?xs = []"
    by (cases "sort_key ob_created_at ?xs") (simp_all add: next_pending_def order_by_def)
  then have "next_pending locked d = None \<longleftrightarrow> ?xs = []" by (simp only: sort_key_Nil_iff)
  then show ?thesis by (auto simp: select_all_def filter_empty_conv)
qed

end
