(* ===== verification/Quiet_Runs.thy ===== *)
theory Quiet_Runs
  imports Orchestrator
begin

text \<open>
  Exact results of the engine's operations when nothing interferes: no other session
  moves (the script is empty), the session has not failed, and fresh identifiers are
  fresh.  Each lemma gives the world an operation leaves, so that the functional
  properties of the orchestrator and the scan service are short runs through them.
\<close>

section \<open>Quiet worlds\<close>

definition quiet :: "world \<Rightarrow> bool" where
  "quiet w \<longleftrightarrow> w_script w = [] \<and> \<not> w_failed w"

lemma quiet_update [simp]:
  "quiet (w\<lparr>w_db := a\<rparr>) = quiet w" "quiet (w\<lparr>w_pend := b\<rparr>) = quiet w"
  "quiet (w\<lparr>w_objs := c\<rparr>) = quiet w" "quiet (w\<lparr>w_trace := e\<rparr>) = quiet w"
  "quiet (w\<lparr>w_drawn := f\<rparr>) = quiet w" "quiet (w\<lparr>w_deadline := g\<rparr>) = quiet w"
  "quiet (w\<lparr>w_expired := h\<rparr>) = quiet w"
  by (simp_all add: quiet_def)

lemma quiet_pause [prog_simps]: "quiet w \<Longrightarrow> pause w = (Inr (), w)"
  by (simp add: quiet_def pause_quiet)

lemma quiet_pause_stmt [prog_simps]: "quiet w \<Longrightarrow> pause_stmt w = (Inr (), w)"
  by (simp add: quiet_def pause_stmt_quiet)

lemma quiet_query [prog_simps]: "quiet w \<Longrightarrow> query q w = (Inr (q (view w)), w)"
  by (simp add: quiet_def query_quiet)

lemma quiet_stmt [prog_simps]:
  "quiet w \<Longrightarrow> ok (view w) \<Longrightarrow> stmt ok f w = (Inr (), w\<lparr>w_pend := (\<lambda>d. f (w_pend w d))\<rparr>)"
  by (simp add: quiet_def stmt_quiet)

lemma quiet_commit [prog_simps]:
  "quiet w \<Longrightarrow> commit w = (Inr (), w\<lparr>w_db := view w, w_pend := (\<lambda>x. x)\<rparr>)"
  by (simp add: quiet_def commit_ok)

lemma quiet_with_timeout [prog_simps]:
  "m (w\<lparr>w_deadline := True, w_expired := False\<rparr>) = (Inr x, w') \<Longrightarrow>
    with_timeout m w = (Inr x, w'\<lparr>w_deadline := w_deadline w, w_expired := w_expired w\<rparr>)"
  by (simp add: with_timeout_run)

lemma view_pend_id: "w_pend w = (\<lambda>x. x) \<Longrightarrow> view w = w_db w"
  by (simp add: view_def)

text \<open>The next \<open>k\<close> identifiers to be drawn are distinct and not in use.\<close>

definition ids_in_use :: "db \<Rightarrow> uuid set" where
  "ids_in_use d = sc_id ` set (scans d) \<union> ev_id ` set (scan_events d) \<union> ob_id ` set (outbox d) \<union>
     fi_id ` set (findings d) \<union> au_id ` set (audit_events d)"

fun fresh_ids :: "nat \<Rightarrow> (nat \<Rightarrow> uuid) \<Rightarrow> nat \<Rightarrow> uuid set \<Rightarrow> bool" where
  "fresh_ids 0 ids n used = True"
| "fresh_ids (Suc k) ids n used = (ids n \<notin> used \<and> fresh_ids k ids (Suc n) (insert (ids n) used))"

definition fresh :: "nat \<Rightarrow> world \<Rightarrow> bool" where
  "fresh k w \<longleftrightarrow> fresh_ids k (w_uuids w) (w_drawn w) (ids_in_use (view w))"

lemma fresh_ids_mono: "fresh_ids k ids n used \<Longrightarrow> used' \<subseteq> used \<Longrightarrow> fresh_ids k ids n used'"
  by (induction k arbitrary: n used used') (auto, metis insert_mono)

lemma fresh_le: "fresh k w \<Longrightarrow> j \<le> k \<Longrightarrow> fresh j w"
proof -
  have "fresh_ids k ids n used \<Longrightarrow> j \<le> k \<Longrightarrow> fresh_ids j ids n used" for ids n used
    by (induction k arbitrary: j n used) (auto elim!: le_SucE, case_tac j, auto)
  then show "fresh k w \<Longrightarrow> j \<le> k \<Longrightarrow> fresh j w" by (simp add: fresh_def)
qed

lemma ids_in_use_update_scans [simp]: "ids_in_use (update_scans P u t d) = ids_in_use d"
proof -
  have "sc_id ` set (update_where P (apply_scan_update u t) xs) = sc_id ` set xs" for xs
    by (metis apply_scan_update_fields(1) list.set_map map_update_where_same)
  then show ?thesis by (simp add: ids_in_use_def update_scans_def)
qed

lemma ids_in_use_inserts [simp]:
  "ids_in_use (insert_scan s d) = insert (sc_id s) (ids_in_use d)"
  "ids_in_use (insert_event e d) = insert (ev_id e) (ids_in_use d)"
  "ids_in_use (insert_outbox b d) = insert (ob_id b) (ids_in_use d)"
  "ids_in_use (insert_audit a d) = insert (au_id a) (ids_in_use d)"
  "ids_in_use (insert_finding f d) = insert (fi_id f) (ids_in_use d)"
  by (auto simp: ids_in_use_def insert_scan_def insert_event_def insert_outbox_def
      insert_audit_def insert_finding_def)

lemma fresh_next:
  assumes "fresh (Suc k) w" "w_uuids w' = w_uuids w" "w_drawn w' = Suc (w_drawn w)"
    and "ids_in_use (view w') \<subseteq> insert (w_uuids w (w_drawn w)) (ids_in_use (view w))"
  shows "fresh k w'"
  using assms fresh_ids_mono by (auto simp: fresh_def)

lemma fresh_same:
  assumes "fresh k w" "w_uuids w' = w_uuids w" "w_drawn w' = w_drawn w"
    and "ids_in_use (view w') \<subseteq> ids_in_use (view w)"
  shows "fresh k w'"
  using assms fresh_ids_mono by (auto simp: fresh_def)

lemma fresh_unused: "fresh (Suc k) w \<Longrightarrow> w_uuids w (w_drawn w) \<notin> ids_in_use (view w)"
  by (simp add: fresh_def)

section \<open>The object and its row\<close>

text \<open>The session's object of a scan is its row, and that row is the only one with its id.\<close>

definition loaded :: "uuid \<Rightarrow> scan \<Rightarrow> world \<Rightarrow> bool" where
  "loaded i s w \<longleftrightarrow> w_objs w i = Some s \<and> sc_id s = i \<and>
     find_scan (sc_tenant_id s) i (view w) = Some s"

definition advance :: "scan \<Rightarrow> scan_status \<Rightarrow> scan_update \<Rightarrow> int \<Rightarrow> scan" where
  "advance s target upd t = apply_scan_update (transition_fields s target upd t) t s"

lemma advance_fields [simp]:
  "sc_id (advance s st u t) = sc_id s" "sc_tenant_id (advance s st u t) = sc_tenant_id s"
  "sc_status (advance s st u t) = st" "sc_max_attempts (advance s st u t) = sc_max_attempts s"
  "sc_correlation_id (advance s st u t) = sc_correlation_id s"
  "sc_scanner_type (advance s st u t) = sc_scanner_type s"
  "sc_asset_id (advance s st u t) = sc_asset_id s"
  "sc_project_id (advance s st u t) = sc_project_id s"
  "sc_timeout_seconds (advance s st u t) = sc_timeout_seconds s"
  by (simp_all add: advance_def)

lemma advance_attempt [simp]: "up_attempt u = None \<Longrightarrow> sc_attempt (advance s st u t) = sc_attempt s"
  by (simp add: advance_def)

lemma find_scan_guard:
  assumes "find_scan tn i d = Some s" "P s"
  shows "select_one (\<lambda>r. scan_at tn i r \<and> P r) (scans d) \<noteq> None"
  using select_one_SomeD [of "scan_at tn i" "scans d" s] assms
  by (auto simp: find_scan_def select_one_None_iff)

definition unique_scans :: "db \<Rightarrow> bool" where
  "unique_scans d \<longleftrightarrow> distinct (map sc_id (scans d))"

lemma unique_scans_row:
  assumes "unique_scans d" "r \<in> set (scans d)" "s \<in> set (scans d)" "sc_id r = sc_id s"
  shows "r = s"
  using assms by (auto simp: unique_scans_def distinct_map dest: inj_onD)

lemma find_scan_unique:
  assumes u: "unique_scans d" and s: "find_scan tn i d = Some s" and P: "P s"
  shows "select_one (\<lambda>r. scan_at tn i r \<and> P r) (scans d) = Some s"
proof -
  obtain r where r: "select_one (\<lambda>r. scan_at tn i r \<and> P r) (scans d) = Some r"
    using find_scan_guard [OF s, of P] P by blast
  with u s have "r = s"
    using unique_scans_row [OF u] select_one_SomeD [OF r] find_scan_SomeD [OF s]
    by (auto simp: scan_at_def)
  with r show ?thesis by simp
qed

lemma unique_scans_writes [simp]:
  "unique_scans (update_scans P u t d) = unique_scans d"
  "unique_scans (insert_event e d) = unique_scans d" "unique_scans (insert_outbox b d) = unique_scans d"
  "unique_scans (insert_audit a d) = unique_scans d" "unique_scans (insert_finding f d) = unique_scans d"
  "unique_scans (update_finding f g d) = unique_scans d"
  by (simp_all add: unique_scans_def update_scans_def map_update_where_same insert_event_def
      insert_outbox_def insert_audit_def insert_finding_def update_finding_def)

section \<open>Transitions\<close>

definition advanced_db :: "uuid \<Rightarrow> scan \<Rightarrow> scan_status \<Rightarrow> scan_update \<Rightarrow> world \<Rightarrow> db" where
  "advanced_db i s target upd w =
    update_scans (\<lambda>r. scan_at (sc_tenant_id s) i r \<and> sc_status r = sc_status s)
      (transition_fields s target upd (w_clock w)) (w_clock w) (view w)"

lemma transition_quiet:
  assumes "quiet w" "loaded i s w" "unique_scans (view w)" "target \<in> set (valid_transitions (sc_status s))"
    and "scan_checks (advance s target upd (w_clock w))"
  shows "transition sync i target upd w = (Inr (advance s target upd (w_clock w)),
    w\<lparr>w_db := advanced_db i s target upd w, w_pend := (\<lambda>x. x),
      w_objs := (w_objs w)(i := Some (advance s target upd (w_clock w)))\<rparr>)"
proof -
  have "select_one (\<lambda>r. scan_at (sc_tenant_id s) i r \<and> sc_status r = sc_status s) (scans (view w)) = Some s"
    using assms by (intro find_scan_unique) (auto simp: loaded_def)
  then show ?thesis
    using assms
    by (simp add: transition_def scan_repo_conditional_update_def guarded_update_def assert_valid_def
        prog_simps obj_known loaded_def quiet_def Let_def advanced_db_def advance_def view_def)
qed

lemma find_advanced [simp]:
  "find_scan (sc_tenant_id s) i (view w) = Some s \<Longrightarrow>
    find_scan (sc_tenant_id s) i (advanced_db i s target upd w) =
      Some (advance s target upd (w_clock w))"
  by (simp add: advanced_db_def find_scan_update advance_def)

lemma advanced_db_other [simp]:
  "scan_events (advanced_db i s target upd w) = scan_events (view w)"
  "outbox (advanced_db i s target upd w) = outbox (view w)"
  "findings (advanced_db i s target upd w) = findings (view w)"
  "audit_events (advanced_db i s target upd w) = audit_events (view w)"
  "unique_scans (advanced_db i s target upd w) = unique_scans (view w)"
  "ids_in_use (advanced_db i s target upd w) = ids_in_use (view w)"
  by (simp_all add: advanced_db_def) (simp_all add: update_scans_def)

lemma transition_invalid:
  assumes "w_objs w i = Some s" "target \<notin> set (valid_transitions (sc_status s))"
  shows "transition sync i target upd w =
    (Inl (exc InvalidScanTransitionError (invalid_transition_message (sc_status s) target)), w)"
  using assms by (simp add: transition_def prog_simps obj_known assert_valid_def)

section \<open>Events\<close>

definition event_row :: "domain_event \<Rightarrow> uuid \<Rightarrow> int \<Rightarrow> scan_event option" where
  "event_row e i t = (case to_scan_event_create e (event_type_of (de_body e)) of
     Inl _ \<Rightarrow> None | Inr c \<Rightarrow> Some (new_scan_event c i t))"

lemma event_row_sel:
  "event_row e i t = Some r \<Longrightarrow> ev_id r = i \<and> ev_scan_id r = de_scan_id e \<and>
    ev_tenant_id r = de_tenant_id e \<and> ev_event_type r = event_type_of (de_body e)"
  by (auto simp: event_row_def new_scan_event_def dest!: to_scan_event_create_keys split: sum.splits)

definition published_world :: "domain_event \<Rightarrow> scan_event \<Rightarrow> world \<Rightarrow> world" where
  "published_world e r w = w\<lparr>w_db := insert_event r (view w), w_pend := (\<lambda>x. x),
     w_drawn := w_drawn w + 1,
     w_trace := w_trace w @ [Metric (''scan_engine.event.'' @ event_type_of (de_body e)),
       Log ''scan_engine.event'']\<rparr>"

lemma publish_quiet:
  assumes "quiet w" "fresh (Suc k) w"
    and "event_row e (w_uuids w (w_drawn w)) (w_clock w) = Some r" "scan_event_checks r"
  shows "publish e w = (Inr (), published_world e r w)"
proof -
  obtain c where c: "to_scan_event_create e (event_type_of (de_body e)) = Inr c"
      "r = new_scan_event c (w_uuids w (w_drawn w)) (w_clock w)"
    using assms by (auto simp: event_row_def split: sum.splits)
  have "\<forall>x\<in>set (scan_events (view w)). ev_id x \<noteq> w_uuids w (w_drawn w)"
    using fresh_unused [OF assms(2)] by (metis UnCI ids_in_use_def image_eqI)
  then show ?thesis
    using assms c
    by (simp add: publish_unfold persist_event_def observe_event_def log_event_def prog_simps
        scan_event_repo_create_def Let_def published_world_def view_def)
qed

text \<open>What a domain event may say for its row to satisfy the checks of the table.\<close>

fun body_fits :: "event_body \<Rightarrow> bool" where
  "body_fits (ScanStarted w) = (length w \<le> 200)"
| "body_fits (ScanProgress s p m) = (0 \<le> p \<and> p \<le> 100 \<and> max_len 2000 m)"
| "body_fits (ScanFailed c s d) = (length c \<le> 1000 \<and> length s \<le> 2000)"
| "body_fits (FindingCreated i f) = (length f \<le> 128)"
| "body_fits (FindingUpdated i f) = (length f \<le> 128)"
| "body_fits _ = True"

definition event_fits :: "domain_event \<Rightarrow> bool" where
  "event_fits e \<longleftrightarrow> body_fits (de_body e) \<and> length (de_correlation_id e) \<le> 100"

lemma length_json_char: "length (json_char c) \<le> 6"
  by (simp add: json_char_def Let_def)

lemma length_json_string: "length (json_string s) \<le> 6 * length s + 2"
proof -
  have "length (concat (map json_char s)) \<le> 6 * length s"
  proof (induction s)
    case (Cons c s)
    then show ?case using length_json_char [of c] by simp
  qed simp
  then show ?thesis by (simp add: json_string_def)
qed

lemma length_scan_status_value: "length (scan_status_value s) \<le> 50"
  by (cases s) simp_all

lemma length_event_type: "length (event_type_of b) \<le> 100"
  by (cases b) (simp_all add: event_type_of_def event_type_by_class_def)

lemma length_uuid_str [simp]: "length (uuid_str u) = 36"
  by (simp add: uuid_str_def Let_def)

lemma failed_metadata_fits:
  "length c \<le> 1000 \<Longrightarrow>
    \<not> 8192 < length (dumps (JObj [(''error_code'', JStr c), (''dead_letter'', JBool d)]))"
  using length_json_string [of c] by (simp add: json_string_def json_char_def)

lemma finding_metadata_fits:
  "length f \<le> 128 \<Longrightarrow>
    \<not> 8192 < length (dumps (JObj [(''finding_id'', JStr (uuid_str u)), (''fingerprint'', JStr f)]))"
  using length_json_string [of f] length_json_string [of "uuid_str u"]
  by (simp add: json_string_def json_char_def)

lemma event_fits_row:
  assumes "event_fits e"
  shows "\<exists>r. event_row e i t = Some r \<and> scan_event_checks r"
  using assms length_scan_status_value length_event_type [of "de_body e"]
  by (cases "de_body e")
    (auto simp: event_fits_def event_row_def to_scan_event_create_def check_scan_event_create_def
      Let_def scan_event_metadata_max_bytes_def new_scan_event_def scan_event_checks_def max_len_def
      failed_metadata_fits finding_metadata_fits simp del: dumps.simps)

end
