(* ===== verification/Quiet_Steps.thy ===== *)
theory Quiet_Steps
  imports Quiet_Runs
begin

text \<open>
  The steps of a run that nothing disturbs, composed: the world after a transition
  (\<open>adv_world\<close>), after an event (\<open>pub_world\<close>) and after a finding has been processed, with
  the condition (\<open>settled\<close>) each of them needs and re-establishes.
\<close>

section \<open>Rows that can still move\<close>

definition live_row :: "scan \<Rightarrow> int \<Rightarrow> bool" where
  "live_row s t \<longleftrightarrow> scan_checks s \<and> opt_ge (Some t) (sc_queued_at s) \<and> opt_ge (Some t) (sc_started_at s) \<and>
     sc_completed_at s = None \<and> sc_failed_at s = None \<and> sc_cancelled_at s = None \<and>
     sc_timed_out_at s = None \<and> 
     (sc_queued_at s = None \<longrightarrow> sc_status s = PENDING \<and> sc_started_at s = None)"

definition plain_fields :: "scan_update \<Rightarrow> bool" where
  "plain_fields u \<longleftrightarrow> up_queued_at u = None \<and> up_started_at u = None \<and> up_completed_at u = None \<and>
     up_failed_at u = None \<and> up_cancelled_at u = None \<and> up_timed_out_at u = None \<and>
     up_attempt u = None \<and> up_job_id u = None \<and> max_len 100 (up_error_code u) \<and>
     max_len 2000 (up_error_summary u) \<and> max_len 200 (up_worker_id u)"

lemma max_len_set_or [simp]: "max_len n x \<Longrightarrow> max_len n y \<Longrightarrow> max_len n (set_or x y)"
  by (cases x) simp_all

lemma opt_ge_Some [simp]: "opt_ge (Some a) (Some b) \<longleftrightarrow> b \<le> a"
  by (simp add: opt_ge_def)

lemma advance_times:
  assumes "plain_fields u"
  shows "sc_queued_at (advance s st u t) =
      (if st = QUEUED \<and> sc_queued_at s = None then Some t else sc_queued_at s)"
    and "sc_started_at (advance s st u t) =
      (if st = RUNNING \<and> sc_started_at s = None then Some t else sc_started_at s)"
    and "sc_completed_at (advance s st u t) = (if st = SUCCEEDED then Some t else sc_completed_at s)"
    and "sc_failed_at (advance s st u t) = (if st = FAILED then Some t else sc_failed_at s)"
    and "sc_cancelled_at (advance s st u t) = (if st = CANCELLED then Some t else sc_cancelled_at s)"
    and "sc_timed_out_at (advance s st u t) = (if st = TIMED_OUT then Some t else sc_timed_out_at s)"
    and "sc_job_id (advance s st u t) = sc_job_id s"
    and "sc_error_code (advance s st u t) = set_or (up_error_code u) (sc_error_code s)"
    and "sc_error_summary (advance s st u t) = set_or (up_error_summary u) (sc_error_summary s)"
    and "sc_worker_id (advance s st u t) = set_or (up_worker_id u) (sc_worker_id s)"
    and "sc_attempt (advance s st u t) = sc_attempt s"
  using assms
  by (cases st; simp add: plain_fields_def advance_def apply_scan_update_def
      transition_fields_def Let_def or_now_def)+

lemma live_advance:
  assumes "live_row s t" "plain_fields u"
  shows "scan_checks (advance s st u t)"
    and "st \<in> set (valid_transitions (sc_status s)) \<Longrightarrow> \<not> terminal st \<Longrightarrow>
      live_row (advance s st u t) t"
proof -
  have len: "max_len 100 (up_error_code u)" "max_len 2000 (up_error_summary u)" "max_len 200 (up_worker_id u)"
    using assms(2) by (simp_all add: plain_fields_def)
  have c: "scan_checks s" using assms(1) by (simp add: live_row_def)
  have len': "max_len 100 (sc_error_code s)" "max_len 2000 (sc_error_summary s)"
      "max_len 200 (sc_worker_id s)" "max_len 200 (sc_job_id s)" "max_len 100 (sc_correlation_id s)"
    using c by (simp_all add: scan_checks_def)
  have o: "opt_ge (sc_started_at (advance s st u t)) (sc_queued_at (advance s st u t))"
    using assms c by (auto simp: advance_times live_row_def scan_checks_def)
  have n: "count_set [sc_completed_at (advance s st u t), sc_failed_at (advance s st u t),
      sc_cancelled_at (advance s st u t), sc_timed_out_at (advance s st u t)] \<le> 1"
    using assms by (auto simp: advance_times live_row_def count_set_def)
  have l: "opt_ge (Some t) (sc_started_at (advance s st u t))" "opt_ge (Some t) (sc_queued_at (advance s st u t))"
    using assms by (auto simp: advance_times live_row_def)
  then have e: "opt_ge (sc_completed_at (advance s st u t)) (sc_started_at (advance s st u t))"
      "opt_ge (sc_failed_at (advance s st u t)) (sc_started_at (advance s st u t))"
      "opt_ge (sc_timed_out_at (advance s st u t)) (sc_started_at (advance s st u t))"
    using assms by (auto simp: advance_times live_row_def)
  show k: "scan_checks (advance s st u t)"
    using c o n e len len' assms(2)
    by (simp add: scan_checks_def advance_times)
  show "live_row (advance s st u t) t"
    if "st \<in> set (valid_transitions (sc_status s))" "\<not> terminal st"
    using k l assms that by (auto simp: live_row_def advance_times terminal_def)
qed

lemma plain_no_update [simp]: "plain_fields no_update"
  by (simp add: plain_fields_def no_update_def)

lemma plain_worker_field [simp]: "length worker \<le> 200 \<Longrightarrow> plain_fields (worker_field worker)"
  by (simp add: plain_fields_def worker_field_def no_update_def max_len_def)

lemma plain_failure_fields [simp]:
  "length c \<le> 100 \<Longrightarrow> length m \<le> 2000 \<Longrightarrow> plain_fields (failure_fields c m)"
  by (simp add: plain_fields_def failure_fields_def no_update_def max_len_def)

section \<open>Settled worlds\<close>

definition settled :: "nat \<Rightarrow> uuid \<Rightarrow> scan \<Rightarrow> world \<Rightarrow> bool" where
  "settled k i s w \<longleftrightarrow> quiet w \<and> fresh k w \<and> loaded i s w \<and> unique_scans (view w)"

lemma settled_obj [prog_simps]: "settled k i s w \<Longrightarrow> obj i w = (Inr s, w)"
  by (simp add: settled_def loaded_def obj_known)

lemma settled_quiet: "settled k i s w \<Longrightarrow> quiet w"
  by (simp add: settled_def)

lemma settled_id: "settled k i s w \<Longrightarrow> sc_id s = i"
  by (simp add: settled_def loaded_def)

lemma settled_le: "settled k i s w \<Longrightarrow> j \<le> k \<Longrightarrow> settled j i s w"
  by (auto simp: settled_def intro: fresh_le)

lemma settled_find: "settled k i s w \<Longrightarrow> find_scan (sc_tenant_id s) i (view w) = Some s"
  by (simp add: settled_def loaded_def)

lemma settled_update [simp]:
  "settled k i s (w\<lparr>w_trace := a\<rparr>) = settled k i s w"
  "settled k i s (w\<lparr>w_deadline := b\<rparr>) = settled k i s w"
  "settled k i s (w\<lparr>w_expired := c\<rparr>) = settled k i s w"
  by (simp_all add: settled_def fresh_def loaded_def)

definition adv_world :: "uuid \<Rightarrow> scan \<Rightarrow> scan_status \<Rightarrow> scan_update \<Rightarrow> world \<Rightarrow> world" where
  "adv_world i s st u w = w\<lparr>w_db := advanced_db i s st u w, w_pend := (\<lambda>x. x),
     w_objs := (w_objs w)(i := Some (advance s st u (w_clock w)))\<rparr>"

definition pub_world :: "domain_event \<Rightarrow> world \<Rightarrow> world" where
  "pub_world e w = (case event_row e (w_uuids w (w_drawn w)) (w_clock w) of
     None \<Rightarrow> w | Some r \<Rightarrow> published_world e r w)"

lemma adv_world_sel [simp]:
  "w_db (adv_world i s st u w) = advanced_db i s st u w" "w_pend (adv_world i s st u w) = (\<lambda>x. x)"
  "w_clock (adv_world i s st u w) = w_clock w" "w_uuids (adv_world i s st u w) = w_uuids w"
  "w_drawn (adv_world i s st u w) = w_drawn w" "w_trace (adv_world i s st u w) = w_trace w"
  "w_deadline (adv_world i s st u w) = w_deadline w" "w_expired (adv_world i s st u w) = w_expired w"
  "view (adv_world i s st u w) = advanced_db i s st u w"
  by (simp_all add: adv_world_def view_def)

lemma adv_step:
  assumes "settled k i s w" "live_row s (w_clock w)" "st \<in> set (valid_transitions (sc_status s))"
    "plain_fields u"
  shows "transition sync i st u w = (Inr (advance s st u (w_clock w)), adv_world i s st u w)"
    and "settled k i (advance s st u (w_clock w)) (adv_world i s st u w)"
proof -
  show "transition sync i st u w = (Inr (advance s st u (w_clock w)), adv_world i s st u w)"
    unfolding adv_world_def
  proof (rule transition_quiet)
    show "quiet w" "loaded i s w" "unique_scans (view w)" using assms(1) by (simp_all add: settled_def)
    show "st \<in> set (valid_transitions (sc_status s))" by (rule assms(3))
    show "scan_checks (advance s st u (w_clock w))" by (rule live_advance(1) [OF assms(2,4)])
  qed
  have "fresh k (adv_world i s st u w)"
    using assms by - (rule fresh_same [of k w], simp_all add: settled_def)
  moreover have "quiet (adv_world i s st u w)" using assms by (simp add: settled_def adv_world_def)
  ultimately show "settled k i (advance s st u (w_clock w)) (adv_world i s st u w)"
    using assms by (simp add: settled_def loaded_def) (simp add: adv_world_def)
qed

lemma pub_world_sel [simp]:
  "w_clock (pub_world e w) = w_clock w" "w_uuids (pub_world e w) = w_uuids w"
  "w_deadline (pub_world e w) = w_deadline w" "w_expired (pub_world e w) = w_expired w"
  "w_objs (pub_world e w) = w_objs w"
  by (simp_all add: pub_world_def published_world_def split: option.split)

lemma pub_step:
  assumes "quiet w" "fresh (Suc k) w" "event_fits e"
  shows "publish e w = (Inr (), pub_world e w)"
    and "quiet (pub_world e w)" "fresh k (pub_world e w)"
    and "\<exists>r. view (pub_world e w) = insert_event r (view w) \<and> ev_scan_id r = de_scan_id e \<and>
      ev_tenant_id r = de_tenant_id e \<and> ev_event_type r = event_type_of (de_body e)"
    and "w_db (pub_world e w) = view (pub_world e w)" "w_drawn (pub_world e w) = Suc (w_drawn w)"
    and "w_pend (pub_world e w) = (\<lambda>x. x)"
    and "w_trace (pub_world e w) = w_trace w @ [Metric (''scan_engine.event.'' @ event_type_of (de_body e)),
       Log ''scan_engine.event'']"
proof -
  obtain r where r: "event_row e (w_uuids w (w_drawn w)) (w_clock w) = Some r" "scan_event_checks r"
    using event_fits_row [OF assms(3)] by metis
  then have p: "pub_world e w = published_world e r w" by (simp add: pub_world_def)
  show "publish e w = (Inr (), pub_world e w)"
    using publish_quiet [OF assms(1,2) r] p by simp
  show "quiet (pub_world e w)" using assms p by (simp add: published_world_def)
  have v: "view (pub_world e w) = insert_event r (view w)"
    unfolding p by (simp add: published_world_def view_def)
  show "fresh k (pub_world e w)"
    using assms(2) v event_row_sel [OF r(1)]
    by - (rule fresh_next [of k w], auto simp: p published_world_def)
  show "\<exists>r. view (pub_world e w) = insert_event r (view w) \<and> ev_scan_id r = de_scan_id e \<and>
      ev_tenant_id r = de_tenant_id e \<and> ev_event_type r = event_type_of (de_body e)"
    using v event_row_sel [OF r(1)] by blast
  show "w_db (pub_world e w) = view (pub_world e w)" "w_drawn (pub_world e w) = Suc (w_drawn w)"
    "w_pend (pub_world e w) = (\<lambda>x. x)"
    "w_trace (pub_world e w) = w_trace w @ [Metric (''scan_engine.event.'' @ event_type_of (de_body e)),
       Log ''scan_engine.event'']"
    unfolding p by (simp_all add: published_world_def view_def)
qed

lemma pub_settled:
  "settled (Suc k) i s w \<Longrightarrow> event_fits e \<Longrightarrow> settled k i s (pub_world e w)"
  using pub_step [of w k e]
  by (auto simp: settled_def loaded_def find_scan_insert)

text \<open>The log of a scan, as the pair of an event's type and its stage.\<close>

definition event_types :: "uuid \<Rightarrow> db \<Rightarrow> string list" where
  "event_types i d = map ev_event_type (filter (\<lambda>e. ev_scan_id e = i) (scan_events d))"

lemma pub_tables:
  assumes "quiet w" "fresh (Suc k) w" "event_fits e"
  shows "event_types (de_scan_id e) (view (pub_world e w)) =
      event_types (de_scan_id e) (view w) @ [event_type_of (de_body e)]"
    and "scans (view (pub_world e w)) = scans (view w)"
    and "outbox (view (pub_world e w)) = outbox (view w)"
    and "findings (view (pub_world e w)) = findings (view w)"
    and "audit_events (view (pub_world e w)) = audit_events (view w)"
  using pub_step(4) [OF assms] by (auto simp: event_types_def insert_event_def)

lemma adv_tables [simp]:
  "event_types i (advanced_db j s st u w) = event_types i (view w)"
  by (simp add: event_types_def)

section \<open>Findings\<close>

text \<open>A normalised finding whose row the table accepts.\<close>

definition finding_fits :: "(string \<Rightarrow> string) \<Rightarrow> scan_context \<Rightarrow> normalized_finding \<Rightarrow> bool" where
  "finding_fits sha cx n \<longleftrightarrow> length (nf_title n) \<le> 300 \<and> length (nf_source_tool n) \<le> 100 \<and>
     max_len 2048 (nf_external_reference n) \<and> length (fc_fingerprint (finding_of sha cx n)) \<le> 128"

text \<open>Rows already there were seen no later than now.\<close>

definition findings_past :: "world \<Rightarrow> bool" where
  "findings_past w \<longleftrightarrow> (\<forall>f\<in>set (findings (view w)). finding_checks f \<and> fi_first_seen_at f \<le> w_clock w)"

definition detect_db :: "(string \<Rightarrow> string) \<Rightarrow> scan_context \<Rightarrow> normalized_finding \<Rightarrow> uuid \<Rightarrow> int \<Rightarrow> db \<Rightarrow> db" where
  "detect_db sha cx n i t d =
    (let c = finding_of sha cx n in
     case find_fingerprint (cx_tenant_id cx) (cx_asset_id cx) (fc_fingerprint c) d of
       Some f \<Rightarrow> update_finding f (redetected_row (cx_scan_id cx) t) d
     | None \<Rightarrow> insert_finding (new_finding c i t) d)"

lemma finding_of_sel [simp]:
  "fc_tenant_id (finding_of sha cx n) = cx_tenant_id cx" "fc_asset_id (finding_of sha cx n) = cx_asset_id cx"
  "fc_scan_id (finding_of sha cx n) = cx_scan_id cx"
  by (simp_all add: finding_of_def)

lemma finding_key_new [simp]:
  "finding_key (new_finding (finding_of sha cx n) i t) =
    (cx_tenant_id cx, cx_asset_id cx, fc_fingerprint (finding_of sha cx n))"
  by (simp add: finding_key_def new_finding_def finding_of_def)

lemma detect_db_other [simp]:
  "scans (detect_db sha cx n i t d) = scans d" "scan_events (detect_db sha cx n i t d) = scan_events d"
  "outbox (detect_db sha cx n i t d) = outbox d"
  "audit_events (detect_db sha cx n i t d) = audit_events d"
  by (simp_all add: detect_db_def Let_def insert_finding_def update_finding_def split: option.split)

lemma detect_db_ids: "ids_in_use (detect_db sha cx n i t d) \<subseteq> insert i (ids_in_use d)"
proof -
  have "fi_id ` set (update_where P (redetected_row sid t) xs) = fi_id ` set xs" for P sid xs
    by (metis list.set_map map_update_where_same redetected_row_key(2))
  then have "ids_in_use (update_finding f (redetected_row sid t) d) = ids_in_use d" for f sid
    by (simp add: ids_in_use_def update_finding_def)
  then show ?thesis
    by (auto simp: detect_db_def Let_def new_finding_def split: option.split)
qed

lemma find_scan_tables: "scans d = scans d' \<Longrightarrow> find_scan tn i d = find_scan tn i d'"
  by (simp add: find_scan_def)

lemma unique_scans_tables: "scans d = scans d' \<Longrightarrow> unique_scans d = unique_scans d'"
  by (simp add: unique_scans_def)

lemma record_detection_quiet:
  assumes w: "quiet w" "fresh (Suc k) w" and fits: "finding_fits sha cx n" and past: "findings_past w"
  shows "\<exists>f w'. finding_repo_record_detection (finding_of sha cx n) w = (Inr f, w') \<and> quiet w' \<and>
    view w' = detect_db sha cx n (w_uuids w (w_drawn w)) (w_clock w) (view w) \<and> fresh k w' \<and>
    w_clock w' = w_clock w \<and> w_objs w' = w_objs w \<and> w_trace w' = w_trace w \<and>
    w_deadline w' = w_deadline w \<and> w_expired w' = w_expired w"
proof (cases "find_fingerprint (cx_tenant_id cx) (cx_asset_id cx) (fc_fingerprint (finding_of sha cx n)) (view w)")
  case (Some f)
  then have "f \<in> set (findings (view w))"
    unfolding find_fingerprint_def using select_one_SomeD by metis
  then have "finding_checks (redetected_row (cx_scan_id cx) (w_clock w) f)"
    using past by (auto simp: findings_past_def finding_checks_def redetected_row_def)
  then have r: "finding_repo_record_detection (finding_of sha cx n) w =
      (Inr (redetected_row (cx_scan_id cx) (w_clock w) f),
       w\<lparr>w_pend := (\<lambda>d. update_finding f (redetected_row (cx_scan_id cx) (w_clock w)) (w_pend w d))\<rparr>)"
      (is "_ = (_, ?w')")
    using w Some by (simp add: finding_repo_record_detection_def finding_repo_get_by_fingerprint_def
        prog_simps Let_def)
  have v: "view ?w' = detect_db sha cx n (w_uuids w (w_drawn w)) (w_clock w) (view w)"
    using Some by (simp add: detect_db_def Let_def view_def)
  have "ids_in_use (view ?w') \<subseteq> ids_in_use (view w)"
    using Some detect_db_ids [of sha cx n i t "view w" for i t]
    by (auto simp: view_def update_finding_def ids_in_use_def update_where_def)
  then have "fresh k ?w'"
    using fresh_same [OF fresh_le [OF w(2)], of k ?w'] by simp
  then show ?thesis using r v w by (intro exI [of _ ?w'] exI) simp
next
  case None
  let ?i = "w_uuids w (w_drawn w)"
  let ?f = "new_finding (finding_of sha cx n) ?i (w_clock w)"
  have "finding_checks ?f"
    using fits by (simp add: finding_fits_def finding_checks_def new_finding_def finding_of_def)
  moreover have "\<forall>r\<in>set (findings (view w)). fi_id r \<noteq> ?i"
    using fresh_unused [OF w(2)] by (metis UnCI ids_in_use_def image_eqI)
  moreover have "\<forall>r\<in>set (findings (view w)). finding_key r \<noteq> finding_key ?f"
    using None unfolding finding_key_new find_fingerprint_def select_one_None_iff .
  ultimately have ok: "finding_insert_ok ?f (view w)"
    by (simp add: finding_insert_ok_def new_finding_def)
  then have r: "finding_repo_record_detection (finding_of sha cx n) w =
      (Inr ?f, w\<lparr>w_pend := (\<lambda>d. insert_finding ?f (w_pend w d)), w_drawn := w_drawn w + 1\<rparr>)"
      (is "_ = (_, ?w')")
    using w None by (simp add: finding_repo_record_detection_def finding_repo_get_by_fingerprint_def
        prog_simps Let_def)
  have v: "view ?w' = detect_db sha cx n ?i (w_clock w) (view w)"
    using None by (simp add: detect_db_def Let_def view_def)
  have "fresh k ?w'"
    using w(2) detect_db_ids v by - (rule fresh_next [of k w], simp_all)
  then show ?thesis using r v w by (intro exI [of _ ?w'] exI) simp
qed

definition keys_of :: "db \<Rightarrow> (uuid \<times> uuid \<times> string) set" where
  "keys_of d = finding_key ` set (findings d)"

definition detected_key :: "(string \<Rightarrow> string) \<Rightarrow> scan_context \<Rightarrow> normalized_finding \<Rightarrow> uuid \<times> uuid \<times> string" where
  "detected_key sha cx n = (cx_tenant_id cx, cx_asset_id cx, fc_fingerprint (finding_of sha cx n))"

lemma keys_of_redetect: "keys_of (update_finding f (redetected_row sid t) d) = keys_of d"
proof -
  have "map finding_key (update_where (same_finding f) (redetected_row sid t) (findings d)) =
      map finding_key (findings d)"
    by (rule map_update_where_same) simp
  then have "set (map finding_key (update_where (same_finding f) (redetected_row sid t) (findings d))) =
      set (map finding_key (findings d))"
    by (rule arg_cong)
  then show ?thesis by (simp only: keys_of_def update_finding_def set_map) simp
qed

lemma keys_of_detect: "keys_of (detect_db sha cx n i t d) = insert (detected_key sha cx n) (keys_of d)"
proof (cases "find_fingerprint (cx_tenant_id cx) (cx_asset_id cx) (fc_fingerprint (finding_of sha cx n)) d")
  case (Some f)
  from select_one_SomeD [OF this [unfolded find_fingerprint_def]]
  have "f \<in> set (findings d) \<and> finding_key f = detected_key sha cx n" unfolding detected_key_def .
  then have "detected_key sha cx n \<in> keys_of d" unfolding keys_of_def by (metis image_eqI)
  with Some show ?thesis
    by (simp add: detect_db_def Let_def keys_of_redetect insert_absorb)
qed (simp add: detect_db_def Let_def keys_of_def insert_finding_def detected_key_def)

lemma detect_db_unique:
  assumes "findings_unique d" "i \<notin> ids_in_use d"
  shows "findings_unique (detect_db sha cx n i t d)"
proof (cases "find_fingerprint (cx_tenant_id cx) (cx_asset_id cx) (fc_fingerprint (finding_of sha cx n)) d")
  case None
  have "\<forall>r\<in>set (findings d). finding_key r \<noteq> detected_key sha cx n"
    using None unfolding find_fingerprint_def select_one_None_iff detected_key_def .
  then have "detected_key sha cx n \<notin> finding_key ` set (findings d)" by auto
  moreover have "i \<notin> fi_id ` set (findings d)" using assms(2) by (simp add: ids_in_use_def)
  moreover have "fi_id (new_finding c i t) = i" for c by (simp add: new_finding_def)
  ultimately show ?thesis
    using None assms(1)
    by (simp add: detect_db_def Let_def findings_unique_def insert_finding_def detected_key_def)
qed (use assms in \<open>simp add: detect_db_def Let_def update_finding_unique\<close>)

lemma detect_db_past:
  assumes "\<forall>f\<in>set (findings d). finding_checks f \<and> fi_first_seen_at f \<le> t" "finding_fits sha cx n"
  shows "\<forall>f\<in>set (findings (detect_db sha cx n i t d)). finding_checks f \<and> fi_first_seen_at f \<le> t"
proof -
  have "finding_checks (redetected_row sid t f) \<and> fi_first_seen_at (redetected_row sid t f) \<le> t"
    if "finding_checks f \<and> fi_first_seen_at f \<le> t" for sid f
    using that by (simp add: finding_checks_def redetected_row_def)
  moreover have "finding_checks (new_finding (finding_of sha cx n) i t)"
    using assms(2) by (simp add: finding_fits_def finding_checks_def new_finding_def finding_of_def)
  ultimately show ?thesis
    using assms(1)
    by (auto simp: detect_db_def Let_def insert_finding_def update_finding_def update_where_def
        new_finding_def split: option.split)
qed

lemma detection_event_fits:
  "length (cx_correlation_id cx) \<le> 100 \<Longrightarrow> finding_fits sha cx n \<Longrightarrow>
    event_fits (detection_event cx again f (fc_fingerprint (finding_of sha cx n)))"
  by (simp add: event_fits_def detection_event_def finding_fits_def)

lemma audit_create_quiet:
  assumes "quiet w" "fresh (Suc k) w" "audit_checks (new_audit_event c (w_uuids w (w_drawn w)) (w_clock w))"
  shows "\<exists>a w'. audit_repo_create c w = (Inr a, w') \<and> quiet w' \<and> fresh k w' \<and>
    view w' = insert_audit a (view w) \<and> a = new_audit_event c (w_uuids w (w_drawn w)) (w_clock w) \<and>
    w_clock w' = w_clock w \<and> w_objs w' = w_objs w \<and> w_trace w' = w_trace w \<and>
    w_deadline w' = w_deadline w \<and> w_expired w' = w_expired w"
proof -
  let ?a = "new_audit_event c (w_uuids w (w_drawn w)) (w_clock w)"
  let ?w = "w\<lparr>w_pend := (\<lambda>d. insert_audit ?a (w_pend w d)), w_drawn := w_drawn w + 1\<rparr>"
  have i: "au_id ?a = w_uuids w (w_drawn w)" by (simp add: new_audit_event_def)
  have "\<forall>r\<in>set (audit_events (view w)). au_id r \<noteq> w_uuids w (w_drawn w)"
    using fresh_unused [OF assms(2)] by (metis UnCI ids_in_use_def image_eqI)
  then have r: "audit_repo_create c w = (Inr ?a, ?w)"
    using assms by (simp add: audit_repo_create_def prog_simps Let_def)
  have v: "view ?w = insert_audit ?a (view w)" by (simp add: view_def)
  have "fresh k ?w" using assms(2) v i by - (rule fresh_next [of k w], simp_all)
  then show ?thesis using r v assms by (intro exI [of _ ?w] exI [of _ ?a]) simp
qed

definition detection_fits :: "(string \<Rightarrow> string) \<Rightarrow> scan_context \<Rightarrow> normalized_finding \<Rightarrow> bool" where
  "detection_fits sha cx n \<longleftrightarrow> finding_fits sha cx n \<and> length (cx_correlation_id cx) \<le> 100"

lemma process_one_quiet:
  assumes w: "quiet w" "fresh (Suc (Suc (Suc k))) w"
    and fits: "detection_fits sha cx n" and past: "findings_past w"
  shows "\<exists>f w'. process_one sha cx n w = (Inr f, w') \<and> quiet w' \<and> fresh k w' \<and> findings_past w' \<and>
    scans (view w') = scans (view w) \<and> outbox (view w') = outbox (view w) \<and>
    findings (view w') = findings (detect_db sha cx n (w_uuids w (w_drawn w)) (w_clock w) (view w)) \<and>
    w_clock w' = w_clock w \<and> w_objs w' = w_objs w \<and> w_deadline w' = w_deadline w \<and>
    w_expired w' = w_expired w"
proof -
  let ?t = "w_clock w" and ?i = "w_uuids w (w_drawn w)"
  let ?fp = "fc_fingerprint (finding_of sha cx n)"
  define again where
    "again \<longleftrightarrow> find_fingerprint (cx_tenant_id cx) (cx_asset_id cx) ?fp (view w) \<noteq> None"
  obtain f w1 where r: "finding_repo_record_detection (finding_of sha cx n) w = (Inr f, w1)"
    and w1: "quiet w1" "view w1 = detect_db sha cx n ?i ?t (view w)" "fresh (Suc (Suc k)) w1"
      "w_clock w1 = ?t" "w_objs w1 = w_objs w" "w_deadline w1 = w_deadline w" "w_expired w1 = w_expired w"
    using record_detection_quiet [OF w(1) w(2)] fits past unfolding detection_fits_def by blast
  let ?c = "detection_audit cx again f"
  have "audit_checks (new_audit_event ?c (w_uuids w1 (w_drawn w1)) (w_clock w1))"
    using fits by (simp add: audit_checks_def new_audit_event_def detection_audit_def max_len_def detection_fits_def)
  then obtain a w2 where a: "audit_repo_create ?c w1 = (Inr a, w2)"
    and w2: "quiet w2" "fresh (Suc k) w2" "view w2 = insert_audit a (view w1)"
      "w_clock w2 = w_clock w1" "w_objs w2 = w_objs w1" "w_deadline w2 = w_deadline w1"
      "w_expired w2 = w_expired w1"
    using audit_create_quiet [OF w1(1) w1(3)] by blast
  let ?e = "detection_event cx again f ?fp"
  have e: "event_fits ?e" using detection_event_fits fits by (simp add: detection_fits_def)
  note p = pub_step [OF w2(1,2) e] and q = pub_tables [OF w2(1,2) e]
  have run: "process_one sha cx n w = (Inr f, pub_world ?e w2)"
    using w(1) r a p(1) unfolding process_one_def Let_def finding_repo_get_by_fingerprint_def
    by (simp add: prog_simps again_def [symmetric] del: not_None_eq)
  have d: "findings (view (pub_world ?e w2)) = findings (detect_db sha cx n ?i ?t (view w))"
    "scans (view (pub_world ?e w2)) = scans (view w)" "outbox (view (pub_world ?e w2)) = outbox (view w)"
    unfolding q w2(3) w1(2) by (simp_all add: insert_audit_def)
  have "findings_past (pub_world ?e w2)"
    using detect_db_past [of "view w" ?t sha cx n ?i] past fits
    unfolding findings_past_def d pub_world_sel w2(4) w1(4) detection_fits_def by blast
  then have "process_one sha cx n w = (Inr f, pub_world ?e w2) \<and> quiet (pub_world ?e w2) \<and>
      fresh k (pub_world ?e w2) \<and> findings_past (pub_world ?e w2)"
    using run p(2,3) by blast
  then show ?thesis using d w1(4-7) w2(4-7) pub_world_sel by metis
qed

lemma process_quiet:
  "quiet w \<Longrightarrow> fresh (3 * length ns + k) w \<Longrightarrow> findings_past w \<Longrightarrow>
   (\<And>n. n \<in> set ns \<Longrightarrow> detection_fits sha cx n) \<Longrightarrow> findings_unique (view w) \<Longrightarrow>
   \<exists>fs w'. process sha cx ns w = (Inr fs, w') \<and> quiet w' \<and> fresh k w' \<and>
    scans (view w') = scans (view w) \<and> outbox (view w') = outbox (view w) \<and>
    findings_unique (view w') \<and>
    keys_of (view w') = keys_of (view w) \<union> detected_key sha cx ` set ns \<and>
    w_clock w' = w_clock w \<and> w_objs w' = w_objs w \<and> w_deadline w' = w_deadline w \<and>
    w_expired w' = w_expired w"
proof (induction ns arbitrary: w)
  case Nil
  then show ?case by (simp add: process_def prog_simps)
next
  case (Cons n ns)
  have "fresh (Suc (Suc (Suc (3 * length ns + k)))) w" using Cons.prems(2) by (simp add: numeral_3_eq_3)
  moreover have "detection_fits sha cx n" using Cons.prems(4) by simp
  ultimately
  obtain f w1 where r: "process_one sha cx n w = (Inr f, w1)"
    and w1: "quiet w1" "fresh (3 * length ns + k) w1" "findings_past w1"
      "scans (view w1) = scans (view w)" "outbox (view w1) = outbox (view w)"
      "findings (view w1) = findings (detect_db sha cx n (w_uuids w (w_drawn w)) (w_clock w) (view w))"
      "w_clock w1 = w_clock w" "w_objs w1 = w_objs w" "w_deadline w1 = w_deadline w" "w_expired w1 = w_expired w"
    using process_one_quiet [OF Cons.prems(1) _ _ Cons.prems(3)] by blast
  have "w_uuids w (w_drawn w) \<notin> ids_in_use (view w)"
    using Cons.prems(2) fresh_unused [of "3 * length ns + k + 2" w] by (simp add: numeral_eq_Suc)
  then have u: "findings_unique (view w1)"
    using detect_db_unique [OF Cons.prems(5)] w1(6) by (simp add: findings_unique_def)
  have ks: "keys_of (view w1) = insert (detected_key sha cx n) (keys_of (view w))"
    using keys_of_detect w1(6) by (simp add: keys_of_def)
  have fits: "\<And>m. m \<in> set ns \<Longrightarrow> detection_fits sha cx m" using Cons.prems(4) by simp
  from Cons.IH [OF w1(1) w1(2) w1(3) fits u] obtain fs w2 where
    "process sha cx ns w1 = (Inr fs, w2)" "quiet w2" "fresh k w2"
    "scans (view w2) = scans (view w1)" "outbox (view w2) = outbox (view w1)"
    "findings_unique (view w2)" "keys_of (view w2) = keys_of (view w1) \<union> detected_key sha cx ` set ns"
    "w_clock w2 = w_clock w1" "w_objs w2 = w_objs w1" "w_deadline w2 = w_deadline w1"
    "w_expired w2 = w_expired w1" by blast
  then show ?case
    using r w1 ks by (intro exI [of _ "f # fs"] exI [of _ w2]) (auto simp: process_def prog_simps)
qed

end
