(* ===== verification/Run_Outcomes.thy ===== *)
theory Run_Outcomes
  imports Quiet_Steps
begin

text \<open>
  What an execution attempt does to its scan: the undisturbed runs that succeed, fail, are
  requeued or time out, and the ways an attempt ends without a final status.
\<close>

section \<open>Single steps of a settled run\<close>

lemma assert_not_cancelled_quiet:
  assumes "settled k i s w" "sc_status s \<noteq> CANCELLED" "sc_tenant_id s = tn"
  shows "assert_not_cancelled tn i w = (Inr (), w)"
proof -
  have o: "w\<lparr>w_objs := (w_objs w)(i := Some s)\<rparr> = w"
    using assms by (simp add: settled_def loaded_def fun_upd_idem)
  show ?thesis
    using assms settled_find [OF assms(1)] settled_id [OF assms(1)] o settled_quiet [OF assms(1)]
    by (simp add: assert_not_cancelled_def scan_repo_get_by_id_def prog_simps)
qed

lemma plugin_call_quiet:
  assumes "quiet w"
  shows "plugin_call m i f w =
    (case f (w_clock w) of
       Returns x \<Rightarrow> (Inr x, w\<lparr>w_trace := w_trace w @ [PluginCall m i]\<rparr>)
     | Raises e \<Rightarrow> (Inl e, w\<lparr>w_trace := w_trace w @ [PluginCall m i]\<rparr>))"
  using assms by (simp add: plugin_call_def prog_simps of_outcome_def split: outcome.split)

lemma plugin_call_sync_run:
  "plugin_call_sync m i f w =
    (case f (w_clock w) of
       Returns x \<Rightarrow> (Inr x, w\<lparr>w_trace := w_trace w @ [PluginCall m i]\<rparr>)
     | Raises e \<Rightarrow> (Inl e, w\<lparr>w_trace := w_trace w @ [PluginCall m i]\<rparr>))"
  by (simp add: plugin_call_sync_def prog_simps of_outcome_def split: outcome.split)

text \<open>A transition followed by its event, the unit most steps of a run consist of.\<close>

lemma transition_publish:
  assumes w: "settled (Suc k) i s w" and live: "live_row s (w_clock w)"
    and st: "st \<in> set (valid_transitions (sc_status s))" and u: "plain_fields u"
    and e: "event_fits e" "de_scan_id e = i"
  defines "s' \<equiv> advance s st u (w_clock w)" and "w' \<equiv> pub_world e (adv_world i s st u w)"
  shows "transition sync i st u w = (Inr s', adv_world i s st u w)"
    and "publish e (adv_world i s st u w) = (Inr (), w')"
    and "settled k i s' w'" "w_clock w' = w_clock w" "w_db w' = view w'"
    and "event_types i (view w') = event_types i (view w) @ [event_type_of (de_body e)]"
    and "outbox (view w') = outbox (view w)" "findings (view w') = findings (view w)"
    and "audit_events (view w') = audit_events (view w)"
    and "\<not> terminal st \<Longrightarrow> live_row s' (w_clock w)"
proof -
  note a = adv_step [OF w live st u]
  let ?a = "adv_world i s st u w"
  have a': "quiet ?a" "fresh (Suc k) ?a" using a(2) by (simp_all add: settled_def)
  show "transition sync i st u w = (Inr s', ?a)" unfolding s'_def by (rule a(1))
  show "publish e ?a = (Inr (), w')" unfolding w'_def by (rule pub_step(1) [OF a' e(1)])
  show "settled k i s' w'" unfolding s'_def w'_def by (rule pub_settled [OF a(2) e(1)])
  show "w_clock w' = w_clock w" by (simp add: w'_def)
  show "w_db w' = view w'" unfolding w'_def by (rule pub_step(5) [OF a' e(1)])
  show "event_types i (view w') = event_types i (view w) @ [event_type_of (de_body e)]"
    using pub_tables(1) [OF a' e(1)] e(2) by (simp add: w'_def)
  show "outbox (view w') = outbox (view w)" "findings (view w') = findings (view w)"
    "audit_events (view w') = audit_events (view w)"
    using pub_tables(3-5) [OF a' e(1)] by (simp_all add: w'_def)
  show "\<not> terminal st \<Longrightarrow> live_row s' (w_clock w)"
    unfolding s'_def by (rule live_advance(2) [OF live u st])
qed

section \<open>Failure\<close>

text \<open>A queue call that fails raises an ordinary exception, not a cancellation of the task.\<close>

definition queue_raises_exceptions :: "job_queue \<Rightarrow> bool" where
  "queue_raises_exceptions q \<longleftrightarrow> (\<forall>p r e. jq_dead_letter_scan q p r = Raises e \<longrightarrow> is_exception e)"

lemma dead_letter_quiet:
  assumes "queue_raises_exceptions q"
  shows "\<exists>tr. tryE (dead_letter_scan q p r)
      (\<lambda>x. if is_exception x then emit (Log m) else raiseE x) w = (Inr (), w\<lparr>w_trace := w_trace w @ tr\<rparr>)"
  using assms
  by (cases "jq_dead_letter_scan q p r") (auto simp: dead_letter_scan_def prog_simps queue_raises_exceptions_def)

lemma finalize_failed_quiet:
  assumes w: "settled (Suc k) i s w" and live: "live_row s (w_clock w)"
    and st: "FAILED \<in> set (valid_transitions (sc_status s))"
    and len: "length code \<le> 100" "length (failure_summary code e summary) \<le> 2000" "length corr \<le> 100"
    and q: "queue_raises_exceptions (en_queue en)"
  shows "\<exists>w'. finalize_failed en i code e summary corr w = (Inr (), w') \<and>
    settled k i (advance s FAILED (failure_fields code (failure_summary code e summary)) (w_clock w)) w' \<and>
    w_db w' = view w' \<and> event_types i (view w') = event_types i (view w) @ [''scan.failed''] \<and>
    outbox (view w') = outbox (view w)"
proof -
  let ?m = "failure_summary code e summary"
  let ?u = "failure_fields code ?m"
  let ?e = "mk_event i (sc_tenant_id s) corr (ScanFailed code ?m True)"
  have u: "plain_fields ?u" using len by simp
  have fe: "event_fits ?e" "de_scan_id ?e = i" using len by (simp_all add: event_fits_def)
  note t = transition_publish [OF w live st u fe]
  let ?w = "pub_world ?e (adv_world i s FAILED ?u w)"
  let ?p = "\<lparr>jp_scan_id = i, jp_tenant_id = sc_tenant_id s, jp_correlation_id = corr\<rparr>"
  let ?w1 = "?w\<lparr>w_trace := w_trace ?w @ [Metric ''scan.failed'']\<rparr>"
  obtain tr where d: "tryE (dead_letter_scan (en_queue en) ?p code)
      (\<lambda>x. if is_exception x then emit (Log ''scan_engine.dead_letter_routing_failed'') else raiseE x) ?w1 =
      (Inr (), ?w1\<lparr>w_trace := w_trace ?w1 @ tr\<rparr>)"
    using dead_letter_quiet [OF q] by blast
  have o: "obj i (adv_world i s FAILED ?u w) =
      (Inr (advance s FAILED ?u (w_clock w)), adv_world i s FAILED ?u w)"
    by (rule settled_obj [OF adv_step(2) [OF w live st u]])
  have "finalize_failed en i code e summary corr w = (Inr (), ?w1\<lparr>w_trace := w_trace ?w1 @ tr\<rparr>)"
    unfolding finalize_failed_def Let_def
    by (simp add: run_simps(3,4) t(1) o t(2) run_simps(7) d del: run_simps(5))
  then show ?thesis
    using t(3,5,6,7) by (intro exI [of _ "?w1\<lparr>w_trace := w_trace ?w1 @ tr\<rparr>"])
      (simp add: event_type_of_def event_type_by_class_def)
qed

section \<open>Requeueing\<close>

lemma length_dec_digits: "n < 10 ^ Suc k \<Longrightarrow> length (dec_digits n) \<le> Suc k"
proof (induction k arbitrary: n)
  case 0
  then show ?case by (simp add: dec_digits.simps)
next
  case (Suc k)
  then have "n div 10 < 10 ^ Suc k" by (simp add: less_mult_imp_div_less mult.commute)
  from Suc.IH [OF this] show ?case by (subst dec_digits.simps) simp
qed

lemma length_int_str: "0 \<le> i \<Longrightarrow> i < 2 ^ 31 \<Longrightarrow> length (int_str i) \<le> 10"
  using length_dec_digits [of "nat i" 9] by (simp add: int_str_def)

lemma length_retry_message: "scan_checks s \<Longrightarrow> length (retry_message s) \<le> 2000"
  using length_int_str [of "sc_attempt s"] length_int_str [of "sc_max_attempts s"]
  by (simp add: retry_message_def scan_checks_def)

lemma outbox_create_quiet:
  assumes w: "settled (Suc k) i s w"
    and b: "outbox_checks (new_outbox c (w_uuids w (w_drawn w)) (w_clock w))"
    and key: "(oc_tenant_id c, oc_scan_id c, oc_scan_attempt c) \<notin> outbox_key ` set (outbox (view w))"
  defines "r \<equiv> new_outbox c (w_uuids w (w_drawn w)) (w_clock w)"
  shows "\<exists>w'. outbox_repo_create c w = (Inr r, w') \<and> settled k i s w' \<and> w_clock w' = w_clock w \<and>
    view w' = insert_outbox r (view w) \<and> w_trace w' = w_trace w \<and> w_uuids w' = w_uuids w"
proof -
  let ?w = "w\<lparr>w_pend := (\<lambda>d. insert_outbox r (w_pend w d)), w_drawn := w_drawn w + 1\<rparr>"
  have q: "quiet w" and f: "fresh (Suc k) w" using w by (simp_all add: settled_def)
  have i: "ob_id r = w_uuids w (w_drawn w)" "outbox_key r = (oc_tenant_id c, oc_scan_id c, oc_scan_attempt c)"
    by (simp_all add: r_def new_outbox_def outbox_key_def)
  have "\<forall>x\<in>set (outbox (view w)). ob_id x \<noteq> w_uuids w (w_drawn w)"
    using fresh_unused [OF f] by (metis UnCI ids_in_use_def image_eqI)
  moreover have "\<forall>x\<in>set (outbox (view w)). outbox_key x \<noteq> outbox_key r"
    using key unfolding i(2) by (metis image_eqI)
  ultimately have "outbox_insert_ok r (view w)"
    using b i(1) by (simp add: outbox_insert_ok_def r_def)
  then have run: "outbox_repo_create c w = (Inr r, ?w)"
    using q by (simp add: outbox_repo_create_def prog_simps Let_def r_def)
  have v: "view ?w = insert_outbox r (view w)" by (simp add: view_def)
  have "fresh k ?w" using f v i by - (rule fresh_next [of k w], simp_all)
  then have "settled k i s ?w"
    using w v by (simp add: settled_def loaded_def find_scan_insert)
  then show ?thesis using run v by (intro exI [of _ ?w]) simp
qed

lemma handle_failure_requeues:
  assumes w: "settled (Suc (Suc k)) i s w" and live: "live_row s (w_clock w)"
    and st: "QUEUED \<in> set (valid_transitions (sc_status s))" "sc_status s \<noteq> PENDING"
    and e: "ex_class e = TransientScanError" "sc_attempt s < sc_max_attempts s"
    and delay: "next_delay_seconds (en_retry en) (en_random en) (sc_attempt s) = Inr delay" "0 \<le> delay"
    and corr: "length corr \<le> 100"
    and key: "(sc_tenant_id s, i, sc_attempt s) \<notin> outbox_key ` set (outbox (view w))"
  defines "b \<equiv> new_outbox (retry_outbox s corr delay) (w_uuids w (w_drawn w)) (w_clock w)"
  shows "\<exists>w'. handle_failure en i e corr w = (Inr (), w') \<and>
    settled k i (advance s QUEUED no_update (w_clock w)) w' \<and> w_db w' = view w' \<and>
    outbox (view w') = outbox (view w) @ [b] \<and>
    event_types i (view w') = event_types i (view w) @ [''scan.progress'']"
proof -
  let ?w0 = "w\<lparr>w_trace := w_trace w @ [Metric ''scan.error'']\<rparr>"
  have w0: "settled (Suc (Suc k)) i s ?w0" using w by simp
  have id: "sc_id s = i" by (rule settled_id [OF w])
  have att: "0 \<le> sc_attempt s" using live by (simp add: live_row_def scan_checks_def)
  have chk: "outbox_checks (new_outbox (retry_outbox s corr delay) (w_uuids ?w0 (w_drawn ?w0)) (w_clock ?w0))"
    using delay(2) att by (simp add: outbox_checks_def new_outbox_def retry_outbox_def)
  have key0: "(oc_tenant_id (retry_outbox s corr delay), oc_scan_id (retry_outbox s corr delay),
      oc_scan_attempt (retry_outbox s corr delay)) \<notin> outbox_key ` set (outbox (view ?w0))"
    using key id by (simp add: retry_outbox_def)
  obtain w1 where c: "outbox_repo_create (retry_outbox s corr delay) ?w0 = (Inr b, w1)"
    and w1: "settled (Suc k) i s w1" "w_clock w1 = w_clock w" "view w1 = insert_outbox b (view w)"
    using outbox_create_quiet [OF w0 chk key0] unfolding b_def by auto
  have live1: "live_row s (w_clock w1)" using live w1(2) by simp
  let ?s = "advance s QUEUED no_update (w_clock w)"
  let ?e = "mk_event i (sc_tenant_id s) corr (ScanProgress QUEUED 0 (Some (retry_message ?s)))"
  have "scan_checks ?s" using live_advance(1) [OF live plain_no_update] .
  then have fe: "event_fits ?e" "de_scan_id ?e = i"
    using corr length_retry_message by (simp_all add: event_fits_def max_len_def)
  note t = transition_publish [OF w1(1) live1 st(1) plain_no_update fe, unfolded w1(2)]
  have o: "obj i (adv_world i s QUEUED no_update w1) = (Inr ?s, adv_world i s QUEUED no_update w1)"
    using settled_obj [OF adv_step(2) [OF w1(1) live1 st(1) plain_no_update]] w1(2) by simp
  have "handle_failure en i e corr w = (Inr (), pub_world ?e (adv_world i s QUEUED no_update w1))"
    using e delay(1) by (simp add: handle_failure_def run_simps(3,4,7) settled_obj [OF w0]
        should_retry_def liftE_simps run_simps(1) c t(1) o t(2))
  then show ?thesis
    using t(3,5,6,7) w1(3)
    by (intro exI [of _ "pub_world ?e (adv_world i s QUEUED no_update w1)"])
      (simp add: event_type_of_def event_type_by_class_def insert_outbox_def event_types_def)
qed

text \<open>
  A transient error while findings are stored: \<open>PROCESSING\<close> has no edge back to
  \<open>QUEUED\<close>, so the handler itself raises, after it has written the outbox row.
\<close>

lemma handle_failure_processing:
  assumes w: "settled (Suc k) i s w" and live: "live_row s (w_clock w)"
    and st: "sc_status s = PROCESSING"
    and e: "ex_class e = TransientScanError" "sc_attempt s < sc_max_attempts s"
    and delay: "next_delay_seconds (en_retry en) (en_random en) (sc_attempt s) = Inr delay" "0 \<le> delay"
    and key: "(sc_tenant_id s, i, sc_attempt s) \<notin> outbox_key ` set (outbox (view w))"
  shows "\<exists>w'. handle_failure en i e corr w =
      (Inl (exc InvalidScanTransitionError (invalid_transition_message PROCESSING QUEUED)), w') \<and>
    settled k i s w' \<and> w_db w' = w_db w"
proof -
  let ?w0 = "w\<lparr>w_trace := w_trace w @ [Metric ''scan.error'']\<rparr>"
  have w0: "settled (Suc k) i s ?w0" using w by simp
  have id: "sc_id s = i" by (rule settled_id [OF w])
  have att: "0 \<le> sc_attempt s" using live by (simp add: live_row_def scan_checks_def)
  let ?c = "retry_outbox s corr delay"
  have chk: "outbox_checks (new_outbox ?c (w_uuids ?w0 (w_drawn ?w0)) (w_clock ?w0))"
    using delay(2) att by (simp add: outbox_checks_def new_outbox_def retry_outbox_def)
  have key0: "(oc_tenant_id ?c, oc_scan_id ?c, oc_scan_attempt ?c) \<notin> outbox_key ` set (outbox (view ?w0))"
    using key id by (simp add: retry_outbox_def)
  obtain b w1 where c: "outbox_repo_create ?c ?w0 = (Inr b, w1)" and w1: "settled k i s w1"
    using outbox_create_quiet [OF w0 chk key0] by blast
  have "w_db w1 = w_db w"
    using c settled_quiet [OF w] by (auto simp: outbox_repo_create_def prog_simps Let_def
        stmt_def quiet_def split: if_splits)
  moreover have "transition (en_sync en) i QUEUED no_update w1 =
      (Inl (exc InvalidScanTransitionError (invalid_transition_message PROCESSING QUEUED)), w1)"
    using transition_invalid [of w1 i s QUEUED] w1 st by (simp add: settled_def loaded_def)
  ultimately show ?thesis
    using e delay(1) w1 by (simp add: handle_failure_def run_simps(3,4,7) settled_obj [OF w0]
        should_retry_def liftE_simps run_simps(1) c)
qed

section \<open>Success\<close>

text \<open>A plugin whose methods all return at time \<open>t\<close>, with these results.\<close>

definition plugin_succeeds ::
    "scanner_plugin \<Rightarrow> scan_context \<Rightarrow> int \<Rightarrow> normalized_finding list \<Rightarrow> bool" where
  "plugin_succeeds pl cx t ns \<longleftrightarrow> pl_prepare pl cx t = Returns () \<and>
     (\<exists>raw rfs. pl_execute pl cx t = Returns raw \<and> pl_collect_results pl cx raw t = Returns rfs \<and>
        pl_normalize_findings pl cx rfs t = Returns ns)"

lemma progress_fits:
  "0 \<le> p \<Longrightarrow> p \<le> 100 \<Longrightarrow> length corr \<le> 100 \<Longrightarrow>
    event_fits (mk_event i tn corr (ScanProgress st p None))"
  by (simp add: event_fits_def)

text \<open>One stage boundary: not cancelled, advance, report progress.\<close>

definition stage :: "engine \<Rightarrow> uuid \<Rightarrow> scan_context \<Rightarrow> string \<Rightarrow> string \<Rightarrow> scan_status \<Rightarrow> int \<Rightarrow> unit prog" where
  "stage en i cx worker corr st p =
    thenE (assert_not_cancelled (cx_tenant_id cx) i)
    (thenE (transition (en_sync en) i st (worker_field worker))
      (publish_progress i cx st p corr))"

lemma thenE_assoc: "thenE (thenE a b) c = thenE a (thenE b c)"
  by (rule ext) (simp add: prog_simps split: prod.split sum.split)

lemma thenE_bindE_assoc: "thenE (thenE a b) (bindE m f) = thenE a (thenE b (bindE m f))"
  by (rule ext) (simp add: prog_simps split: prod.split sum.split)

lemma run_stages_by_stage:
  "run_stages en i pl cx worker corr =
    thenE (assert_not_cancelled (cx_tenant_id cx) i)
    (thenE (plugin_call Prepare i (pl_prepare pl cx))
    (thenE (stage en i cx worker corr RUNNING 10)
    (bindE (plugin_call Execute i (pl_execute pl cx)) (\<lambda>raw_output.
    thenE (stage en i cx worker corr COLLECTING 60)
    (bindE (plugin_call CollectResults i (pl_collect_results pl cx raw_output)) (\<lambda>raw_findings.
    thenE (stage en i cx worker corr PROCESSING 85)
    (bindE (plugin_call_sync NormalizeFindings i (pl_normalize_findings pl cx raw_findings))
      (\<lambda>normalized.
    thenE (process (en_sha256 en) cx normalized)
    (thenE (transition (en_sync en) i SUCCEEDED no_update)
    (thenE (publish (mk_event i (cx_tenant_id cx) corr ScanCompleted))
    (emit (Metric ''scan.succeeded''))))))))))))"
  by (simp add: run_stages_def stage_def thenE_assoc)

definition stage_row :: "scan \<Rightarrow> scan_status \<Rightarrow> string \<Rightarrow> int \<Rightarrow> scan" where
  "stage_row s st worker t = advance s st (worker_field worker) t"

lemma stage_quiet:
  assumes w: "settled (Suc k) i s w" and live: "live_row s (w_clock w)"
    and st: "st \<in> set (valid_transitions (sc_status s))" "\<not> terminal st" "sc_status s \<noteq> CANCELLED"
    and tn: "sc_tenant_id s = cx_tenant_id cx"
    and len: "length worker \<le> 200" "length corr \<le> 100" and p: "0 \<le> p" "p \<le> 100"
  shows "\<exists>w'. stage en i cx worker corr st p w = (Inr (), w') \<and>
    settled k i (stage_row s st worker (w_clock w)) w' \<and>
    live_row (stage_row s st worker (w_clock w)) (w_clock w) \<and> w_clock w' = w_clock w \<and>
    event_types i (view w') = event_types i (view w) @ [''scan.progress''] \<and>
    outbox (view w') = outbox (view w) \<and> findings (view w') = findings (view w) \<and>
    w_db w' = view w'"
proof -
  let ?e = "mk_event i (cx_tenant_id cx) corr (ScanProgress st p None)"
  have fe: "event_fits ?e" "de_scan_id ?e = i" using progress_fits p len by simp_all
  note t = transition_publish [OF w live st(1) plain_worker_field [OF len(1)] fe]
  have "stage en i cx worker corr st p w =
      (Inr (), pub_world ?e (adv_world i s st (worker_field worker) w))"
    using assert_not_cancelled_quiet [OF w st(3) tn]
    by (simp add: stage_def publish_progress_def run_simps(4) t(1,2))
  then show ?thesis
    using t(3-8) t(10) [OF st(2)]
    by (intro exI [of _ "pub_world ?e (adv_world i s st (worker_field worker) w)"])
      (simp add: stage_row_def event_type_of_def event_type_by_class_def)
qed

lemma stage_row_sel [simp]:
  "sc_status (stage_row s st worker t) = st" "sc_tenant_id (stage_row s st worker t) = sc_tenant_id s"
  "sc_id (stage_row s st worker t) = sc_id s" "sc_max_attempts (stage_row s st worker t) = sc_max_attempts s"
  by (simp_all add: stage_row_def)

lemma plugin_returns:
  "quiet w \<Longrightarrow> f (w_clock w) = Returns x \<Longrightarrow>
    plugin_call m i f w = (Inr x, w\<lparr>w_trace := w_trace w @ [PluginCall m i]\<rparr>)"
  by (simp add: plugin_call_quiet)

text \<open>What follows once the raw findings are there.\<close>

definition run_processing ::
    "engine \<Rightarrow> uuid \<Rightarrow> scanner_plugin \<Rightarrow> scan_context \<Rightarrow> string \<Rightarrow> raw_finding list \<Rightarrow> unit prog" where
  "run_processing en i pl cx corr raw_findings =
    bindE (plugin_call_sync NormalizeFindings i (pl_normalize_findings pl cx raw_findings)) (\<lambda>normalized.
    thenE (process (en_sha256 en) cx normalized)
    (thenE (transition (en_sync en) i SUCCEEDED no_update)
    (thenE (publish (mk_event i (cx_tenant_id cx) corr ScanCompleted))
    (emit (Metric ''scan.succeeded'')))))"

definition processing_row :: "scan \<Rightarrow> string \<Rightarrow> int \<Rightarrow> scan" where
  "processing_row s worker t =
    stage_row (stage_row (stage_row s RUNNING worker t) COLLECTING worker t) PROCESSING worker t"

definition completed_row :: "scan \<Rightarrow> string \<Rightarrow> int \<Rightarrow> scan" where
  "completed_row s worker t = advance (processing_row s worker t) SUCCEEDED no_update t"

lemma processing_row_sel [simp]:
  "sc_status (processing_row s worker t) = PROCESSING"
  "sc_tenant_id (processing_row s worker t) = sc_tenant_id s"
  "sc_max_attempts (processing_row s worker t) = sc_max_attempts s"
  by (simp_all add: processing_row_def)

lemma stage_row_attempt [simp]: "sc_attempt (stage_row s st worker t) = sc_attempt s"
  by (simp add: stage_row_def)

lemma processing_row_attempt [simp]: "sc_attempt (processing_row s worker t) = sc_attempt s"
  by (simp add: processing_row_def)

definition plugin_collects :: "scanner_plugin \<Rightarrow> scan_context \<Rightarrow> int \<Rightarrow> raw_finding list \<Rightarrow> bool" where
  "plugin_collects pl cx t rfs \<longleftrightarrow> pl_prepare pl cx t = Returns () \<and>
     (\<exists>raw. pl_execute pl cx t = Returns raw \<and> pl_collect_results pl cx raw t = Returns rfs)"

lemma run_stages_processing:
  assumes w: "settled (Suc (Suc (Suc k))) i s w" and live: "live_row s (w_clock w)"
    and st: "sc_status s = PREPARING" and tn: "sc_tenant_id s = cx_tenant_id cx"
    and pl: "plugin_collects pl cx (w_clock w) rfs"
    and len: "length worker \<le> 200" "length corr \<le> 100"
  shows "\<exists>w'. run_stages en i pl cx worker corr w = run_processing en i pl cx corr rfs w' \<and>
    settled k i (processing_row s worker (w_clock w)) w' \<and>
    live_row (processing_row s worker (w_clock w)) (w_clock w) \<and> w_clock w' = w_clock w \<and>
    outbox (view w') = outbox (view w) \<and> findings (view w') = findings (view w) \<and>
    w_db w' = view w'"
proof -
  let ?t = "w_clock w"
  obtain raw where p: "pl_prepare pl cx ?t = Returns ()" "pl_execute pl cx ?t = Returns raw"
      "pl_collect_results pl cx raw ?t = Returns rfs"
    using pl unfolding plugin_collects_def by blast
  have nc: "assert_not_cancelled (cx_tenant_id cx) i w = (Inr (), w)"
    using assert_not_cancelled_quiet [OF w _ tn] st by simp
  let ?w0 = "w\<lparr>w_trace := w_trace w @ [PluginCall Prepare i]\<rparr>"
  have w0: "settled (Suc (Suc (Suc k))) i s ?w0" "live_row s (w_clock ?w0)" using w live by simp_all
  let ?s1 = "stage_row s RUNNING worker ?t" and ?s3 = "processing_row s worker ?t"
  let ?s2 = "stage_row ?s1 COLLECTING worker ?t"
  obtain w1 where r1: "stage en i cx worker corr RUNNING 10 ?w0 = (Inr (), w1)"
    and w1: "settled (Suc (Suc k)) i ?s1 w1" "live_row ?s1 ?t" "w_clock w1 = ?t"
      "outbox (view w1) = outbox (view w)" "findings (view w1) = findings (view w)"
    using stage_quiet [OF w0, of RUNNING cx worker corr 10 en] st tn len by (auto simp: terminal_def)
  let ?w1 = "w1\<lparr>w_trace := w_trace w1 @ [PluginCall Execute i]\<rparr>"
  have w1': "settled (Suc (Suc k)) i ?s1 ?w1" "live_row ?s1 (w_clock ?w1)" using w1 by simp_all
  obtain w2 where r2: "stage en i cx worker corr COLLECTING 60 ?w1 = (Inr (), w2)"
    and w2: "settled (Suc k) i ?s2 w2" "live_row ?s2 ?t" "w_clock w2 = ?t"
      "outbox (view w2) = outbox (view w)" "findings (view w2) = findings (view w)"
    using stage_quiet [OF w1', of COLLECTING cx worker corr 60 en] tn len w1(3-5) by (auto simp: terminal_def)
  let ?w2 = "w2\<lparr>w_trace := w_trace w2 @ [PluginCall CollectResults i]\<rparr>"
  have w2': "settled (Suc k) i ?s2 ?w2" "live_row ?s2 (w_clock ?w2)" using w2 by simp_all
  obtain w3 where r3: "stage en i cx worker corr PROCESSING 85 ?w2 = (Inr (), w3)"
    and w3: "settled k i ?s3 w3" "live_row ?s3 ?t" "w_clock w3 = ?t"
      "outbox (view w3) = outbox (view w)" "findings (view w3) = findings (view w)" "w_db w3 = view w3"
    using stage_quiet [OF w2', of PROCESSING cx worker corr 85 en] tn len w2(3-5)
    by (auto simp: terminal_def processing_row_def)
  have "run_stages en i pl cx worker corr w = run_processing en i pl cx corr rfs w3"
    using p w1(3) w2(3) settled_quiet [OF w] settled_quiet [OF w1(1)] settled_quiet [OF w2(1)]
    unfolding run_stages_by_stage run_processing_def
    by (simp add: run_simps(3,4) nc plugin_returns r1 r2 r3)
  then show ?thesis using w3 by blast
qed

lemma run_stages_quiet:
  assumes w: "settled (Suc (Suc (Suc (3 * length ns + Suc k)))) i s w" and live: "live_row s (w_clock w)"
    and st: "sc_status s = PREPARING" and tn: "sc_tenant_id s = cx_tenant_id cx"
    and pl: "plugin_succeeds pl cx (w_clock w) ns"
    and len: "length worker \<le> 200" "length corr \<le> 100"
    and fits: "\<And>n. n \<in> set ns \<Longrightarrow> detection_fits (en_sha256 en) cx n"
    and past: "findings_past w" and uniq: "findings_unique (view w)"
  shows "\<exists>w'. run_stages en i pl cx worker corr w = (Inr (), w') \<and>
    settled k i (completed_row s worker (w_clock w)) w' \<and> w_db w' = view w' \<and>
    w_clock w' = w_clock w \<and> outbox (view w') = outbox (view w) \<and> findings_unique (view w') \<and>
    keys_of (view w') = keys_of (view w) \<union> detected_key (en_sha256 en) cx ` set ns"
proof -
  let ?t = "w_clock w" and ?s3 = "processing_row s worker (w_clock w)"
  obtain rfs where p: "plugin_collects pl cx ?t rfs" "pl_normalize_findings pl cx rfs ?t = Returns ns"
    using pl unfolding plugin_succeeds_def plugin_collects_def by blast
  obtain w3 where r3: "run_stages en i pl cx worker corr w = run_processing en i pl cx corr rfs w3"
    and w3: "settled (3 * length ns + Suc k) i ?s3 w3" "live_row ?s3 ?t" "w_clock w3 = ?t"
      "outbox (view w3) = outbox (view w)" "findings (view w3) = findings (view w)"
    using run_stages_processing [OF w live st tn p(1) len] by blast
  let ?w3 = "w3\<lparr>w_trace := w_trace w3 @ [PluginCall NormalizeFindings i]\<rparr>"
  have "quiet ?w3" "fresh (3 * length ns + Suc k) ?w3" "findings_past ?w3" "findings_unique (view ?w3)"
    using w3 past uniq by (simp_all add: settled_def fresh_def findings_past_def findings_unique_def)
  from process_quiet [OF this(1-3) fits this(4)]
  obtain fs w4 where r4: "process (en_sha256 en) cx ns ?w3 = (Inr fs, w4)"
    and w4: "quiet w4" "fresh (Suc k) w4" "scans (view w4) = scans (view ?w3)"
      "outbox (view w4) = outbox (view ?w3)" "findings_unique (view w4)"
      "keys_of (view w4) = keys_of (view ?w3) \<union> detected_key (en_sha256 en) cx ` set ns"
      "w_clock w4 = w_clock ?w3" "w_objs w4 = w_objs ?w3"
    by blast
  have s4: "settled (Suc k) i ?s3 w4"
    using w3(1) w4(1-3,8) find_scan_tables [OF w4(3)] unique_scans_tables [OF w4(3)]
    by (simp add: settled_def loaded_def)
  have live4: "live_row ?s3 (w_clock w4)" using w3 w4(7) by simp
  let ?e = "mk_event i (cx_tenant_id cx) corr ScanCompleted"
  have fe: "event_fits ?e" "de_scan_id ?e = i" using len by (simp_all add: event_fits_def)
  have st4: "SUCCEEDED \<in> set (valid_transitions (sc_status ?s3))" by simp
  note t = transition_publish [OF s4 live4 st4 plain_no_update fe]
  let ?w5 = "pub_world ?e (adv_world i ?s3 SUCCEEDED no_update w4)"
  let ?w6 = "?w5\<lparr>w_trace := w_trace ?w5 @ [Metric ''scan.succeeded'']\<rparr>"
  have run: "run_stages en i pl cx worker corr w = (Inr (), ?w6)"
    using p(2) w3(3) unfolding r3 run_processing_def
    by (simp add: run_simps(3,4,7) plugin_call_sync_run r4 t(1,2))
  have "keys_of (view ?w5) = keys_of (view w) \<union> detected_key (en_sha256 en) cx ` set ns"
    "findings_unique (view ?w5)"
    using t(8) w3(5) w4(5,6) by (simp_all add: keys_of_def findings_unique_def)
  then show ?thesis
    using run t(3,4,5,7) w4(4,7) w3(3,4)
    by (intro exI [of _ ?w6]) (simp add: completed_row_def)
qed

section \<open>A whole attempt\<close>

definition claimed_row :: "scan \<Rightarrow> string \<Rightarrow> int \<Rightarrow> scan" where
  "claimed_row s worker t = apply_scan_update (claim_update (sc_attempt s) worker) t s"

lemma claimed_row_sel [simp]:
  "sc_status (claimed_row s worker t) = PREPARING" "sc_attempt (claimed_row s worker t) = sc_attempt s + 1"
  "sc_id (claimed_row s worker t) = sc_id s" "sc_tenant_id (claimed_row s worker t) = sc_tenant_id s"
  "sc_max_attempts (claimed_row s worker t) = sc_max_attempts s"
  by (simp_all add: claimed_row_def claim_update_def)

lemma claimed_live:
  "live_row s t \<Longrightarrow> sc_status s = QUEUED \<Longrightarrow> length worker \<le> 200 \<Longrightarrow> sc_attempt s + 1 < 2 ^ 31 \<Longrightarrow>
    live_row (claimed_row s worker t) t"
  by (auto simp: live_row_def claimed_row_def claim_update_def no_update_def apply_scan_update_def
      scan_checks_def max_len_def)

text \<open>A session that has just loaded the scan it is asked to run.\<close>

definition queued_scan :: "uuid \<Rightarrow> uuid \<Rightarrow> scan \<Rightarrow> world \<Rightarrow> bool" where
  "queued_scan tn i s w \<longleftrightarrow> quiet w \<and> find_scan tn i (view w) = Some s \<and> unique_scans (view w) \<and>
     live_row s (w_clock w) \<and> sc_status s = QUEUED \<and> sc_attempt s < sc_max_attempts s \<and>
     truthy (sc_correlation_id s)"

definition corr_of :: "scan \<Rightarrow> string" where
  "corr_of s = or_default (sc_correlation_id s) []"

lemma corr_of_length: "scan_checks s \<Longrightarrow> length (corr_of s) \<le> 100"
  by (auto simp: corr_of_def or_default_def scan_checks_def max_len_def split: option.splits)

definition claimed_world :: "uuid \<Rightarrow> scan \<Rightarrow> string \<Rightarrow> world \<Rightarrow> world" where
  "claimed_world i s worker w = w\<lparr>
     w_db := update_scans (\<lambda>r. scan_at (sc_tenant_id s) i r \<and> sc_status r = QUEUED \<and> sc_attempt r = sc_attempt s)
       (claim_update (sc_attempt s) worker) (w_clock w) (view w),
     w_pend := (\<lambda>x. x), w_objs := (w_objs w)(i := Some (claimed_row s worker (w_clock w)))\<rparr>"

lemma claimed_world_sel [simp]:
  "w_clock (claimed_world i s worker w) = w_clock w" "w_trace (claimed_world i s worker w) = w_trace w"
  "w_drawn (claimed_world i s worker w) = w_drawn w" "w_uuids (claimed_world i s worker w) = w_uuids w"
  "findings (w_db (claimed_world i s worker w)) = findings (view w)"
  "outbox (w_db (claimed_world i s worker w)) = outbox (view w)"
  "scan_events (w_db (claimed_world i s worker w)) = scan_events (view w)"
  by (simp_all add: claimed_world_def view_def) (simp_all add: update_scans_def view_def)

lemma view_claimed [simp]: "view (claimed_world i s worker w) = w_db (claimed_world i s worker w)"
  by (simp add: claimed_world_def view_def)

lemma run_claims:
  assumes q: "queued_scan tn i s w" and worker: "length worker \<le> 200"
    and reg: "registry_get (en_registry en) (sc_scanner_type s) = Inr pl"
  shows "run en tn i worker w = execute_claimed en tn i pl worker (corr_of s) (claimed_world i s worker w)"
    and "fresh k w \<Longrightarrow> settled k i (claimed_row s worker (w_clock w)) (claimed_world i s worker w)"
    and "live_row (claimed_row s worker (w_clock w)) (w_clock w)"
proof -
  have w: "quiet w" "find_scan tn i (view w) = Some s" "unique_scans (view w)" "live_row s (w_clock w)"
      "sc_status s = QUEUED" "sc_attempt s < sc_max_attempts s" "truthy (sc_correlation_id s)"
    using q by (simp_all add: queued_scan_def)
  have id: "sc_id s = i" "sc_tenant_id s = tn" using find_scan_SomeD [OF w(2)] by simp_all
  have att: "sc_attempt s + 1 < 2 ^ 31" using w(4,6) by (simp add: live_row_def scan_checks_def)
  show live: "live_row (claimed_row s worker (w_clock w)) (w_clock w)"
    by (rule claimed_live [OF w(4,5) worker att])
  let ?w0 = "w\<lparr>w_objs := (w_objs w)(i := Some s)\<rparr>"
  have registered: "registry_is_registered (en_registry en) (sc_scanner_type s)"
    using reg by (auto simp: registry_get_def registry_is_registered_def split: option.splits)
  have sel: "select_one (\<lambda>r. scan_at tn i r \<and> sc_status r = QUEUED \<and> sc_attempt r = sc_attempt s)
      (scans (view w)) = Some s"
    using find_scan_unique [OF w(3,2), of "\<lambda>r. sc_status r = QUEUED \<and> sc_attempt r = sc_attempt s"] w(5) by simp
  have "scan_checks (claimed_row s worker (w_clock w))" using live by (simp add: live_row_def)
  then have claim: "thenE (scan_repo_claim_for_execution (en_sync en) tn i (sc_attempt s) worker) commit ?w0 =
      (Inr (), claimed_world i s worker w)"
    "\<exists>x. scan_repo_claim_for_execution (en_sync en) tn i (sc_attempt s) worker ?w0 =
      (Inr (Some (claimed_row s worker (w_clock w))), x) \<and> commit x = (Inr (), claimed_world i s worker w)"
    using w(1) sel id
    by (simp_all add: scan_repo_claim_for_execution_def guarded_update_def prog_simps quiet_def Let_def
        claimed_row_def claimed_world_def view_def)
  then obtain x where x: "scan_repo_claim_for_execution (en_sync en) tn i (sc_attempt s) worker ?w0 =
      (Inr (Some (claimed_row s worker (w_clock w))), x)" "commit x = (Inr (), claimed_world i s worker w)"
    by blast
  have get: "scan_repo_get_by_id tn i w = (Inr (Some s), ?w0)"
    using w(1,2) id by (simp add: scan_repo_get_by_id_def prog_simps)
  show "run en tn i worker w = execute_claimed en tn i pl worker (corr_of s) (claimed_world i s worker w)"
    using w(5,7) registered reg x
    by (simp add: run_def run_simps(1,3,4) get liftE_simps corr_of_def)
  assume f: "fresh k w"
  have "find_scan tn i (w_db (claimed_world i s worker w)) = Some (claimed_row s worker (w_clock w))"
    using w(2,5) id
    by (simp add: claimed_world_def find_scan_update claimed_row_def)
  moreover have "fresh k (claimed_world i s worker w)"
    using f by - (rule fresh_same [of k w], simp_all add: claimed_world_def)
  moreover have "quiet (claimed_world i s worker w)" using w(1) by (simp add: claimed_world_def)
  moreover have "unique_scans (w_db (claimed_world i s worker w))" using w(3) by (simp add: claimed_world_def)
  ultimately show "settled k i (claimed_row s worker (w_clock w)) (claimed_world i s worker w)"
    using id by (simp add: settled_def loaded_def) (simp add: claimed_world_def)
qed

definition cleanup_raises_exceptions :: "scanner_plugin \<Rightarrow> bool" where
  "cleanup_raises_exceptions pl \<longleftrightarrow> (\<forall>cx t e. pl_cleanup pl cx t = Raises e \<longrightarrow> is_exception e)"

lemma cleanup_quiet:
  assumes "quiet w" "cleanup_raises_exceptions pl"
  shows "\<exists>tr. cleanup i pl cx w = (Inr (), w\<lparr>w_trace := w_trace w @ PluginCall Cleanup i # tr\<rparr>)"
  using assms
  by (cases "pl_cleanup pl cx (w_clock w)") (auto simp: cleanup_def plugin_call_quiet prog_simps cleanup_raises_exceptions_def)

lemma with_timeout_settled:
  assumes "m (w\<lparr>w_deadline := True, w_expired := False\<rparr>) = (Inr x, w')"
  shows "with_timeout m w = (Inr x, w'\<lparr>w_deadline := w_deadline w, w_expired := w_expired w\<rparr>)"
  using assms by (simp add: with_timeout_run)

text \<open>Everything after validation, within its deadline, and the cleanup.\<close>

lemma run_claimed_quiet:
  assumes w: "settled (Suc (Suc (Suc (3 * length ns + Suc 0)))) i s w" and live: "live_row s (w_clock w)"
    and st: "sc_status s = PREPARING" and tn: "sc_tenant_id s = cx_tenant_id cx"
    and pl: "plugin_succeeds pl cx (w_clock w) ns" and cl: "cleanup_raises_exceptions pl"
    and len: "length worker \<le> 200" "length corr \<le> 100"
    and fits: "\<And>n. n \<in> set ns \<Longrightarrow> detection_fits (en_sha256 en) cx n"
    and past: "findings_past w" and uniq: "findings_unique (view w)"
  shows "\<exists>w'. run_claimed en tn i pl cx worker corr w = (Inr (), w') \<and> quiet w' \<and> view w' = w_db w' \<and>
    find_scan (sc_tenant_id s) i (w_db w') = Some (completed_row s worker (w_clock w)) \<and>
    outbox (w_db w') = outbox (view w) \<and> findings_unique (w_db w') \<and>
    keys_of (w_db w') = keys_of (view w) \<union> detected_key (en_sha256 en) cx ` set ns"
proof -
  let ?w = "w\<lparr>w_deadline := True, w_expired := False\<rparr>"
  have w': "settled (Suc (Suc (Suc (3 * length ns + Suc 0)))) i s ?w" "live_row s (w_clock ?w)"
    "plugin_succeeds pl cx (w_clock ?w) ns" "findings_past ?w" "findings_unique (view ?w)"
    using w live pl past uniq by (simp_all add: findings_past_def)
  obtain w5 where r: "run_stages en i pl cx worker corr ?w = (Inr (), w5)"
    and w5: "settled 0 i (completed_row s worker (w_clock w)) w5" "w_db w5 = view w5"
      "outbox (view w5) = outbox (view w)" "findings_unique (view w5)"
      "keys_of (view w5) = keys_of (view w) \<union> detected_key (en_sha256 en) cx ` set ns"
    using run_stages_quiet [OF w'(1,2) st tn w'(3) len fits w'(4,5)] by auto
  define w6 where "w6 = w5\<lparr>w_deadline := w_deadline w, w_expired := w_expired w\<rparr>"
  have t: "with_timeout (run_stages en i pl cx worker corr) w = (Inr (), w6)"
    unfolding w6_def by (rule with_timeout_settled) (rule r)
  have q6: "quiet w6" "view w6 = w_db w6"
    using settled_quiet [OF w5(1)] w5(2) by (simp_all add: w6_def)
  from cleanup_quiet [OF q6(1) cl] obtain tr where
    cu: "cleanup i pl cx w6 = (Inr (), w6\<lparr>w_trace := w_trace w6 @ PluginCall Cleanup i # tr\<rparr>)" by blast
  have "run_claimed en tn i pl cx worker corr w = (Inr (), w6\<lparr>w_trace := w_trace w6 @ PluginCall Cleanup i # tr\<rparr>)"
    by (simp add: run_claimed_def run_simps(5,6) t cu)
  moreover have "find_scan (sc_tenant_id s) i (view w5) = Some (completed_row s worker (w_clock w))"
    using settled_find [OF w5(1)] by (simp add: completed_row_def)
  moreover have "w_db w6 = view w5" using w5(2) by (simp add: w6_def)
  ultimately show ?thesis
    using w5(3-5) q6 by (intro exI [of _ "w6\<lparr>w_trace := w_trace w6 @ PluginCall Cleanup i # tr\<rparr>"]) simp
qed

lemma run_quiet_success:
  assumes q: "queued_scan tn i s w" and f: "fresh (3 * length ns + 5) w" and worker: "length worker \<le> 200"
    and reg: "registry_get (en_registry en) (sc_scanner_type s) = Inr pl"
    and valid: "pl_validate_config pl (context_of (claimed_row s worker (w_clock w)) tn (corr_of s)) (w_clock w) = Returns ()"
    and pl: "plugin_succeeds pl (context_of (claimed_row s worker (w_clock w)) tn (corr_of s)) (w_clock w) ns"
    and cl: "cleanup_raises_exceptions pl"
    and fits: "\<And>n. n \<in> set ns \<Longrightarrow>
      detection_fits (en_sha256 en) (context_of (claimed_row s worker (w_clock w)) tn (corr_of s)) n"
    and past: "findings_past w" and uniq: "findings_unique (view w)"
  shows "\<exists>w'. run en tn i worker w = (Inr (), w') \<and> quiet w' \<and> view w' = w_db w' \<and>
    find_scan tn i (w_db w') = Some (completed_row (claimed_row s worker (w_clock w)) worker (w_clock w)) \<and>
    outbox (w_db w') = outbox (view w) \<and> findings_unique (w_db w') \<and>
    keys_of (w_db w') = keys_of (view w) \<union>
      detected_key (en_sha256 en) (context_of (claimed_row s worker (w_clock w)) tn (corr_of s)) ` set ns"
proof -
  let ?t = "w_clock w" and ?s = "claimed_row s worker (w_clock w)" and ?c = "corr_of s"
  let ?cx = "context_of ?s tn ?c"
  note c = run_claims [OF q worker reg]
  have w: "quiet w" "find_scan tn i (view w) = Some s" "live_row s ?t" using q by (simp_all add: queued_scan_def)
  have tn: "sc_tenant_id s = tn" "sc_id s = i" using find_scan_SomeD [OF w(2)] by simp_all
  have corr: "length ?c \<le> 100" using w(3) corr_of_length by (simp add: live_row_def)
  let ?w1 = "claimed_world i s worker w"
  have "3 * length ns + 5 = Suc (Suc (Suc (Suc (3 * length ns + Suc 0))))" by simp
  with f c(2) have w1: "settled (Suc (Suc (Suc (Suc (3 * length ns + Suc 0))))) i ?s ?w1" by metis
  let ?e = "mk_event i tn ?c (ScanStarted worker)"
  have fe: "event_fits ?e" using corr worker by (simp add: event_fits_def)
  have q1: "quiet ?w1" "fresh (Suc (Suc (Suc (Suc (3 * length ns + Suc 0))))) ?w1"
    using w1 by (simp_all add: settled_def)
  note p = pub_step [OF q1 fe] and pt = pub_tables [OF q1 fe]
  let ?w2 = "pub_world ?e ?w1"
  have w2: "settled (Suc (Suc (Suc (3 * length ns + Suc 0)))) i ?s ?w2" by (rule pub_settled [OF w1 fe])
  let ?w3 = "?w2\<lparr>w_trace := w_trace ?w2 @ [PluginCall ValidateConfig i]\<rparr>"
  have v: "validate en i pl ?cx ?c ?w2 = (Inr True, ?w3)"
    using valid p(2) by (simp add: validate_def run_simps(1,4,5) plugin_call_quiet)
  have w3: "settled (Suc (Suc (Suc (3 * length ns + Suc 0)))) i ?s ?w3" "live_row ?s (w_clock ?w3)"
    using w2 c(3) by simp_all
  have "plugin_succeeds pl ?cx (w_clock ?w3) ns" "findings_past ?w3" "findings_unique (view ?w3)"
    using pl past uniq pt(4) by (simp_all add: findings_past_def findings_unique_def)
  with run_claimed_quiet [OF w3, of ?cx pl worker ?c en tn] cl worker corr fits tn
  obtain w' where r: "run_claimed en tn i pl ?cx worker ?c ?w3 = (Inr (), w')"
    and w': "quiet w'" "view w' = w_db w'" "find_scan tn i (w_db w') = Some (completed_row ?s worker ?t)"
      "outbox (w_db w') = outbox (view ?w3)" "findings_unique (w_db w')"
      "keys_of (w_db w') = keys_of (view ?w3) \<union> detected_key (en_sha256 en) ?cx ` set ns"
    by (auto simp: context_of_def)
  have "run en tn i worker w = (Inr (), w')"
    unfolding c(1) execute_claimed_def Let_def
    by (simp add: run_simps(3,4) p(1) settled_obj [OF w2] v r)
  moreover have "outbox (view ?w3) = outbox (view w)" "keys_of (view ?w3) = keys_of (view w)"
    using pt(3,4) by (simp_all add: keys_of_def)
  ultimately show ?thesis using w' by (intro exI [of _ w']) simp
qed

end
