(* ===== verification/Run_Failures.thy ===== *)
theory Run_Failures
  imports Run_Outcomes
begin

text \<open>
  How an attempt ends when something goes wrong: the outcome of every kind of stage
  error, cancellation noticed at a stage boundary, the cleanup that always runs, the
  attempts that end without a final status, and the claim that only one worker wins.
\<close>

section \<open>Stage errors\<close>

lemma timeout_settles:
  assumes w: "settled (Suc k) i s w" and live: "live_row s (w_clock w)"
    and st: "sc_status s \<in> {PREPARING, RUNNING, COLLECTING}" and tn: "sc_tenant_id s = tn"
    and e: "ex_class e = BuiltinTimeoutError" and corr: "length corr \<le> 100"
  shows "\<exists>w'. on_stage_error en tn i corr e w = (Inr (), w') \<and>
    settled k i (advance s TIMED_OUT no_update (w_clock w)) w' \<and> w_db w' = view w' \<and>
    outbox (view w') = outbox (view w) \<and>
    event_types i (view w') = event_types i (view w) @ [''scan.timed_out'']"
proof -
  let ?e = "mk_event i tn corr ScanTimedOut"
  have fe: "event_fits ?e" "de_scan_id ?e = i" using corr by (simp_all add: event_fits_def)
  have st': "TIMED_OUT \<in> set (valid_transitions (sc_status s))" using st by auto
  note t = transition_publish [OF w live st' plain_no_update fe]
  let ?w = "pub_world ?e (adv_world i s TIMED_OUT no_update w)"
  have "on_stage_error en tn i corr e w =
      (Inr (), ?w\<lparr>w_trace := w_trace ?w @ [Metric ''scan.timed_out'']\<rparr>)"
    using e by (simp add: on_stage_error_def run_simps(4,7) t(1,2))
  then show ?thesis
    using t(3,5,6,7) by (simp add: event_type_of_def event_type_by_class_def)
qed

lemma timeout_while_processing:
  assumes "w_objs w i = Some s" "sc_status s = PROCESSING" "ex_class e = BuiltinTimeoutError"
  shows "on_stage_error en tn i corr e w =
    (Inl (exc InvalidScanTransitionError (invalid_transition_message PROCESSING TIMED_OUT)), w)"
  using transition_invalid [OF assms(1), of TIMED_OUT] assms
  by (simp add: on_stage_error_def run_simps(4))

lemma cancelled_outcome:
  assumes w: "settled (Suc k) i s w" and st: "sc_status s = CANCELLED"
    and e: "ex_class e = ScanCancelledError" and corr: "length corr \<le> 100"
  shows "\<exists>w'. on_stage_error en tn i corr e w = (Inr (), w') \<and> settled k i s w' \<and>
    w_db w' = view w' \<and> event_types i (view w') = event_types i (view w) @ [''scan.cancelled''] \<and>
    w_trace w' = w_trace w @ [Metric ''scan_engine.event.scan.cancelled'', Log ''scan_engine.event'']"
proof -
  let ?e = "mk_event i tn corr ScanCancelled"
  have fe: "event_fits ?e" using corr by (simp add: event_fits_def)
  have q: "quiet w" "fresh (Suc k) w" using w by (simp_all add: settled_def)
  note p = pub_step [OF q fe] and pt = pub_tables [OF q fe]
  have "on_stage_error en tn i corr e w = (Inr (), pub_world ?e w)"
    using e st p(1) by (simp add: on_stage_error_def run_simps(1,3,4) settled_obj [OF w])
  then show ?thesis
    using p(5,8) pt(1) pub_settled [OF w fe] by (simp add: event_type_of_def event_type_by_class_def)
qed

lemma permanent_error_fails:
  assumes w: "settled (Suc k) i s w" and live: "live_row s (w_clock w)"
    and st: "FAILED \<in> set (valid_transitions (sc_status s))"
    and e: "is_exception e" "ex_class e \<noteq> BuiltinTimeoutError" "ex_class e \<noteq> ScanCancelledError"
    and final: "ex_class e \<noteq> TransientScanError \<or> sc_max_attempts s \<le> sc_attempt s"
    and len: "length (ex_name e) \<le> 100" "length corr \<le> 100"
    and q: "queue_raises_exceptions (en_queue en)"
  shows "\<exists>w'. on_stage_error en tn i corr e w = (Inr (), w') \<and>
    settled k i (advance s FAILED (failure_fields (ex_name e) (se_summary (sanitize_exception e)))
      (w_clock w)) w' \<and> w_db w' = view w' \<and> outbox (view w') = outbox (view w) \<and>
    event_types i (view w') = event_types i (view w) @ [''scan.failed'']"
proof -
  let ?w0 = "w\<lparr>w_trace := w_trace w @ [Metric ''scan.error'']\<rparr>"
  have w0: "settled (Suc k) i s ?w0" "live_row s (w_clock ?w0)" using w live by simp_all
  have m: "failure_summary (ex_name e) (Some e) None = se_summary (sanitize_exception e)"
    by (simp add: failure_summary_def)
  have l: "length (failure_summary (ex_name e) (Some e) None) \<le> 2000"
    using sanitize_summary_length [of e] by (simp add: m)
  from finalize_failed_quiet [OF w0 st len(1) l len(2) q, unfolded m]
  obtain w' where f: "finalize_failed en i (ex_name e) (Some e) None corr ?w0 = (Inr (), w')"
    and w': "settled k i (advance s FAILED (failure_fields (ex_name e) (se_summary (sanitize_exception e)))
        (w_clock w)) w'" "w_db w' = view w'" "outbox (view w') = outbox (view w)"
      "event_types i (view w') = event_types i (view w) @ [''scan.failed'']" by auto
  have "on_stage_error en tn i corr e w = (Inr (), w')"
    using e final f
    by (auto simp: on_stage_error_def handle_failure_def run_simps(3,4,7) settled_obj [OF w0(1)]
        should_retry_def)
  then show ?thesis using w' by blast
qed

section \<open>Cleanup\<close>

lemma pause_trace: "w_trace (snd (pause w)) = w_trace w"
  by (simp add: pause_def Let_def split: list.split)

lemma cleanup_trace: "\<exists>tr. w_trace (snd (cleanup i pl cx w)) = w_trace w @ PluginCall Cleanup i # tr"
proof -
  let ?w = "w\<lparr>w_trace := w_trace w @ [PluginCall Cleanup i]\<rparr>"
  obtain r w1 where p: "pause ?w = (r, w1)" by (cases "pause ?w")
  then have "w_trace w1 = w_trace w @ [PluginCall Cleanup i]"
    using pause_trace [of ?w] by simp
  then show ?thesis
    using p by (auto simp: cleanup_def plugin_call_def prog_simps of_outcome_def
        split: sum.split outcome.split)
qed

lemma run_claimed_cleans_up:
  "PluginCall Cleanup i \<in> set (w_trace (snd (run_claimed en tn i pl cx worker corr w)))"
proof -
  obtain r w1 where 1: "tryE (tryE (with_timeout (run_stages en i pl cx worker corr)) (on_stage_error en tn i corr))
        (\<lambda>e. if ex_class e = StaleScanStateError then handle_stale_state i tn corr else raiseE e) w = (r, w1)"
    by (cases "tryE (tryE (with_timeout (run_stages en i pl cx worker corr)) (on_stage_error en tn i corr))
        (\<lambda>e. if ex_class e = StaleScanStateError then handle_stale_state i tn corr else raiseE e) w")
  obtain r2 w2 where 2: "cleanup i pl cx w1 = (r2, w2)" by (cases "cleanup i pl cx w1")
  have "snd (run_claimed en tn i pl cx worker corr w) = w2"
    unfolding run_claimed_def finallyE_def 1 by (simp add: 2 split: sum.split)
  then show ?thesis using cleanup_trace [of i pl cx w1] 2 by auto
qed

text \<open>\<open>validate_config\<close> raising anything else escapes: no cleanup, the scan stays claimed.\<close>

lemma validate_escapes:
  assumes w: "settled (Suc k) i s w" and tn: "sc_tenant_id s = tn"
    and v: "pl_validate_config pl (context_of s tn corr) (w_clock w) = Raises e" "ex_class e \<noteq> ScanConfigError"
    and len: "length worker \<le> 200" "length corr \<le> 100"
  shows "\<exists>w'. execute_claimed en tn i pl worker corr w = (Inl e, w') \<and> settled k i s w' \<and>
    w_db w' = view w' \<and>
    w_trace w' = w_trace w @ [Metric ''scan_engine.event.scan.started'', Log ''scan_engine.event'',
      PluginCall ValidateConfig i]"
proof -
  let ?e = "mk_event i tn corr (ScanStarted worker)"
  have fe: "event_fits ?e" using len by (simp add: event_fits_def)
  have q: "quiet w" "fresh (Suc k) w" using w by (simp_all add: settled_def)
  note p = pub_step [OF q fe] and ps = pub_settled [OF w fe]
  have "execute_claimed en tn i pl worker corr w =
      (Inl e, (pub_world ?e w)\<lparr>w_trace := w_trace (pub_world ?e w) @ [PluginCall ValidateConfig i]\<rparr>)"
    using v p(2) by (simp add: execute_claimed_def Let_def run_simps(2-5) p(1) settled_obj [OF ps]
        validate_def plugin_call_quiet)
  then show ?thesis
    using ps p(5,8) by (simp add: event_type_of_def event_type_by_class_def)
qed

section \<open>Cancellation at a stage boundary\<close>

lemma stages_stop_when_cancelled:
  assumes w: "quiet w" "find_scan (cx_tenant_id cx) i (view w) = Some s" "sc_status s = CANCELLED"
  shows "run_stages en i pl cx worker corr w =
    (Inl (exc ScanCancelledError (''Scan '' @ uuid_str i @ '' was cancelled'')),
     w\<lparr>w_objs := (w_objs w)(i := Some s)\<rparr>)"
proof -
  have "sc_id s = i" using find_scan_SomeD [OF w(2)] by simp
  then have "assert_not_cancelled (cx_tenant_id cx) i w =
    (Inl (exc ScanCancelledError (''Scan '' @ uuid_str i @ '' was cancelled'')),
     w\<lparr>w_objs := (w_objs w)(i := Some s)\<rparr>)"
    using w by (simp add: assert_not_cancelled_def scan_repo_get_by_id_def prog_simps)
  then show ?thesis by (simp add: run_stages_def run_simps(4))
qed

lemma run_claimed_cancelled:
  assumes w: "quiet w" "fresh 1 w" "unique_scans (view w)"
    and s: "find_scan tn i (view w) = Some s" "sc_status s = CANCELLED"
    and cx: "cx_tenant_id cx = tn" and corr: "length corr \<le> 100" and cl: "cleanup_raises_exceptions pl"
  shows "\<exists>w' tr. run_claimed en tn i pl cx worker corr w = (Inr (), w') \<and>
    find_scan tn i (w_db w') = Some s \<and>
    event_types i (w_db w') = event_types i (view w) @ [''scan.cancelled''] \<and>
    w_trace w' = w_trace w @ [Metric ''scan_engine.event.scan.cancelled'', Log ''scan_engine.event'',
      PluginCall Cleanup i] @ tr"
proof -
  define e where "e = exc ScanCancelledError (''Scan '' @ uuid_str i @ '' was cancelled'')"
  have ec: "ex_class e = ScanCancelledError" by (simp add: e_def)
  have id: "sc_id s = i" "sc_tenant_id s = tn" using find_scan_SomeD [OF s(1)] by simp_all
  define w1 where "w1 = w\<lparr>w_deadline := True, w_expired := False, w_objs := (w_objs w)(i := Some s),
    w_deadline := w_deadline w, w_expired := w_expired w\<rparr>"
  have "run_stages en i pl cx worker corr (w\<lparr>w_deadline := True, w_expired := False\<rparr>) =
      (Inl e, w\<lparr>w_deadline := True, w_expired := False, w_objs := (w_objs w)(i := Some s)\<rparr>)"
    using stages_stop_when_cancelled [of "w\<lparr>w_deadline := True, w_expired := False\<rparr>" cx i s] w s cx
    by (simp add: e_def)
  then have t: "with_timeout (run_stages en i pl cx worker corr) w = (Inl e, w1)"
    by (simp add: with_timeout_run w1_def)
  have "fresh (Suc 0) w1" using w(2) by (simp add: w1_def fresh_def)
  then have w1: "settled (Suc 0) i s w1"
    using w s id by (simp add: settled_def loaded_def w1_def)
  obtain w2 where o: "on_stage_error en tn i corr e w1 = (Inr (), w2)"
    and w2: "settled 0 i s w2" "w_db w2 = view w2"
      "event_types i (view w2) = event_types i (view w1) @ [''scan.cancelled'']"
      "w_trace w2 = w_trace w1 @ [Metric ''scan_engine.event.scan.cancelled'', Log ''scan_engine.event'']"
    using cancelled_outcome [OF w1 s(2) ec corr] by blast
  obtain tr where c: "cleanup i pl cx w2 = (Inr (), w2\<lparr>w_trace := w_trace w2 @ PluginCall Cleanup i # tr\<rparr>)"
    using cleanup_quiet [OF settled_quiet [OF w2(1)] cl] by blast
  have "run_claimed en tn i pl cx worker corr w =
      (Inr (), w2\<lparr>w_trace := w_trace w2 @ PluginCall Cleanup i # tr\<rparr>)"
    by (simp add: run_claimed_def run_simps(5,6) t o c)
  moreover have "w_trace w1 = w_trace w" "view w1 = view w" by (simp_all add: w1_def)
  moreover have "find_scan tn i (view w2) = Some s" using settled_find [OF w2(1)] id by simp
  ultimately show ?thesis using w2 by simp
qed

section \<open>A transient error while findings are stored\<close>

lemma processing_transient_stuck:
  assumes w: "settled (Suc (Suc (Suc (Suc k)))) i s w" and live: "live_row s (w_clock w)"
    and st: "sc_status s = PREPARING" and tn: "sc_tenant_id s = tn" "cx_tenant_id cx = tn"
    and pl: "plugin_collects pl cx (w_clock w) rfs" "pl_normalize_findings pl cx rfs (w_clock w) = Raises e"
    and e: "ex_class e = TransientScanError" "sc_attempt s < sc_max_attempts s" "ex_name e \<noteq> ''CancelledError''"
    and delay: "next_delay_seconds (en_retry en) (en_random en) (sc_attempt s) = Inr delay" "0 \<le> delay"
    and key: "(tn, i, sc_attempt s) \<notin> outbox_key ` set (outbox (view w))"
    and len: "length worker \<le> 200" "length corr \<le> 100" and cl: "cleanup_raises_exceptions pl"
  shows "\<exists>w'. run_claimed en tn i pl cx worker corr w =
      (Inl (exc InvalidScanTransitionError (invalid_transition_message PROCESSING QUEUED)), w') \<and>
    find_scan tn i (w_db w') = Some (processing_row s worker (w_clock w)) \<and>
    outbox (w_db w') = outbox (view w)"
proof -
  let ?t = "w_clock w" and ?s = "processing_row s worker (w_clock w)"
  let ?w0 = "w\<lparr>w_deadline := True, w_expired := False\<rparr>"
  have w0: "settled (Suc (Suc (Suc (Suc k)))) i s ?w0" "live_row s (w_clock ?w0)" using w live by simp_all
  obtain w1 where r: "run_stages en i pl cx worker corr ?w0 = run_processing en i pl cx corr rfs w1"
    and w1: "settled (Suc k) i ?s w1" "live_row ?s ?t" "w_clock w1 = ?t" "outbox (view w1) = outbox (view w)"
      "w_db w1 = view w1"
    using run_stages_processing [OF w0 st, of cx pl rfs worker corr en] tn pl len by auto
  define w2 where "w2 = w1\<lparr>w_trace := w_trace w1 @ [PluginCall NormalizeFindings i],
    w_deadline := w_deadline w, w_expired := w_expired w\<rparr>"
  have "run_stages en i pl cx worker corr ?w0 =
      (Inl e, w1\<lparr>w_trace := w_trace w1 @ [PluginCall NormalizeFindings i]\<rparr>)"
    using pl(2) w1(3) unfolding r run_processing_def by (simp add: run_simps(3) plugin_call_sync_run)
  then have t: "with_timeout (run_stages en i pl cx worker corr) w = (Inl e, w2)"
    using e(3) by (simp add: with_timeout_run w2_def)
  have w2: "settled (Suc k) i ?s w2" "live_row ?s (w_clock w2)"
    using w1 by (simp_all add: w2_def)
  have key2: "(sc_tenant_id ?s, i, sc_attempt ?s) \<notin> outbox_key ` set (outbox (view w2))"
    using key tn(1) w1(4) by (simp add: w2_def)
  obtain w3 where h: "handle_failure en i e corr w2 =
      (Inl (exc InvalidScanTransitionError (invalid_transition_message PROCESSING QUEUED)), w3)"
    and w3: "settled k i ?s w3" "w_db w3 = w_db w2"
    using handle_failure_processing [OF w2 _ e(1) _ _ delay(2) key2, of en corr] e(2) delay(1) by auto
  obtain tr where c: "cleanup i pl cx w3 = (Inr (), w3\<lparr>w_trace := w_trace w3 @ PluginCall Cleanup i # tr\<rparr>)"
    using cleanup_quiet [OF settled_quiet [OF w3(1)] cl] by blast
  have "run_claimed en tn i pl cx worker corr w =
      (Inl (exc InvalidScanTransitionError (invalid_transition_message PROCESSING QUEUED)),
       w3\<lparr>w_trace := w_trace w3 @ PluginCall Cleanup i # tr\<rparr>)"
    using e(1) by (simp add: run_claimed_def run_simps(2,5,6) t on_stage_error_def is_exception_def h c)
  moreover have "w_db w3 = view w1" using w3(2) w1(5) by (simp add: w2_def)
  moreover have "find_scan tn i (view w1) = Some ?s" using settled_find [OF w1(1)] tn by simp
  ultimately show ?thesis using w1(4) by simp
qed

section \<open>One worker per attempt\<close>

lemma claim_after_claim:
  assumes c: "find_scan tn i d = Some r" "a < sc_attempt r" and d: "evolves d (view w1)"
    and u: "unique_scans (view w1)" and p: "pause_stmt w = (Inr (), w1)" "\<not> w_failed w1"
  shows "\<exists>w2. scan_repo_claim_for_execution sync tn i a worker w = (Inr None, w2) \<and> w_db w2 = w_db w1 \<and>
    w_pend w2 = w_pend w1"
proof -
  have r: "r \<in> set (scans d)" "sc_id r = i" "sc_tenant_id r = tn" using find_scan_SomeD [OF c(1)] by simp_all
  obtain r' where r': "r' \<in> set (scans (view w1))" "scan_evolves r r'"
    using d r(1) grows_memD unfolding evolves_def by metis
  have "\<not> (scan_at tn i x \<and> sc_status x = QUEUED \<and> sc_attempt x = a)" if "x \<in> set (scans (view w1))" for x
  proof
    assume x: "scan_at tn i x \<and> sc_status x = QUEUED \<and> sc_attempt x = a"
    then have "sc_id x = sc_id r'" using r r'(2) by (simp add: scan_at_def scan_evolves_def scan_identity_def)
    then have "x = r'" using unique_scans_row [OF u that r'(1)] by simp
    then show False using x c(2) r'(2) by (simp add: scan_evolves_def)
  qed
  then have "select_one (\<lambda>x. scan_at tn i x \<and> sc_status x = QUEUED \<and> sc_attempt x = a) (scans (view w1)) = None"
    by (simp add: select_one_None_iff)
  then show ?thesis
    using p by (simp add: scan_repo_claim_for_execution_def guarded_update_def run_simps(4) Let_def)
qed

end
