(* ===== verification/Scan_System.thy ===== *)
theory Scan_System
  imports Scan_Service Outbox_Dispatcher Run_Failures
begin

text \<open>
  The scan subsystem as a whole: API requests, worker tasks and dispatcher ticks, each in
  a session of its own, interleaved at their await points with any number of others.  A
  step is one session from start to end; what the others do meanwhile is its script,
  which may change the database only as the sessions of the system do.
\<close>

datatype action =
    ExecuteScan engine uuid uuid string
  | CreateScan bool uuid "uuid option" scan_create_request
  | CancelScan bool job_queue uuid uuid
  | RetryScan bool uuid uuid "uuid option"
  | DispatchOutbox job_queue "nat \<Rightarrow> uuid set" nat

fun action_prog :: "action \<Rightarrow> unit prog" where
  "action_prog (ExecuteScan en tn i worker) = scan_task en i tn worker"
| "action_prog (CreateScan sync tn u data) = thenE (request (create_scan sync tn u data)) (retE ())"
| "action_prog (CancelScan sync q tn i) = thenE (request (cancel_scan sync q tn i)) (retE ())"
| "action_prog (RetryScan sync tn i u) = thenE (request (retry_scan sync tn i u)) (retE ())"
| "action_prog (DispatchOutbox q locked batch) =
     thenE (dispatch_pending_outbox q locked batch) (retE ())"

definition interferes :: "ext list \<Rightarrow> bool" where
  "interferes script \<longleftrightarrow> (\<forall>e\<in>set script. \<forall>d. evolves d (ext_db e d))"

inductive sys_step :: "db \<Rightarrow> db \<Rightarrow> bool" where
  sys_session: "interferes script \<Longrightarrow>
    action_prog a (start_world d t script ids) = (r, w') \<Longrightarrow> sys_step d (w_db w')"

inductive sys_reach :: "db \<Rightarrow> db \<Rightarrow> bool" where
  sys_start: "sys_reach d d"
| sys_next: "sys_reach d d' \<Longrightarrow> sys_step d' d'' \<Longrightarrow> sys_reach d d''"

inductive_cases sys_stepE: "sys_step d d'"

lemma keeps_action: "keeps evolves (\<lambda>_. True) (action_prog a)"
  by (cases a)
    (auto intro!: out.keeps_scan_task evo.keeps_thenE evo.keeps_request evo.keeps_create_scan
        evo.keeps_cancel_scan evo.keeps_retry_scan out.keeps_dispatch_pending evo.keeps_retE)

lemma sys_step_evolves: "sys_step d d' \<Longrightarrow> evolves d d'"
proof (erule sys_stepE)
  fix script a t ids r w'
  assume i: "interferes script" and run: "action_prog a (start_world d t script ids) = (r, w')"
    and d': "d' = w_db w'"
  have "safe evolves (\<lambda>_. True) (start_world d t script ids)"
    using i by (intro safe_start evolves_refl) (simp add: interferes_def)
  from evo.keepsD [OF keeps_action this, of a] run d' show "evolves d d'"
    by (simp add: start_world_def)
qed

lemma sys_reach_evolves: "sys_reach d d' \<Longrightarrow> evolves d d'"
  by (induction rule: sys_reach.induct) (auto intro: evolves_refl evolves_trans sys_step_evolves)

text \<open>Isolation: the operations of one tenant's sessions, whatever the others do.\<close>

fun action_tenant :: "action \<Rightarrow> uuid option" where
  "action_tenant (ExecuteScan en tn i worker) = Some tn"
| "action_tenant (CreateScan sync tn u data) = Some tn"
| "action_tenant (CancelScan sync q tn i) = Some tn"
| "action_tenant (RetryScan sync tn i u) = Some tn"
| "action_tenant (DispatchOutbox q locked batch) = None"

lemma keeps_action_tenant:
  "action_tenant a = Some tn \<Longrightarrow> keeps (tenant_only tn) ((=) tn) (action_prog a)"
  by (cases a)
    (auto simp: scan_task_def
      intro!: iso.keeps_thenE iso.keeps_tryE iso.keeps_run iso.keeps_commit iso.keeps_rollback
        iso.keeps_raiseE iso.keeps_request iso.keeps_create_scan iso.keeps_cancel_scan
        iso.keeps_retry_scan iso.keeps_retE)

end
