(* ===== verification/Service_Outcomes.thy ===== *)
theory Service_Outcomes
  imports Scan_Service Run_Outcomes
begin

text \<open>
  The scan service operation by operation, when nothing interferes: creating and
  retrying commit the row, its outbox row and its first event; cancelling; and the
  refusals, which leave the database as it was.
\<close>

lemma uuid_str_not_Nil [simp]: "uuid_str u \<noteq> []"
  using length_uuid_str [of u] by fastforce

text \<open>Every outbox row belongs to a scan (the composite foreign key of the table).\<close>

definition outbox_refs :: "db \<Rightarrow> bool" where
  "outbox_refs d \<longleftrightarrow> ob_scan_id ` set (outbox d) \<subseteq> sc_id ` set (scans d)"

definition event_refs :: "db \<Rightarrow> bool" where
  "event_refs d \<longleftrightarrow> ev_scan_id ` set (scan_events d) \<subseteq> sc_id ` set (scans d)"

definition storable_create :: "scan_create \<Rightarrow> bool" where
  "storable_create c \<longleftrightarrow> length (cr_scanner_type c) \<le> 100 \<and> \<not> truthy (cr_correlation_id c) \<and>
     1 \<le> val_or (cr_max_attempts c) 3 \<and> val_or (cr_max_attempts c) 3 < 2 ^ 31 \<and>
     0 < val_or (cr_timeout_seconds c) 1800 \<and> val_or (cr_timeout_seconds c) 1800 < 2 ^ 31"

definition created_row :: "scan_create \<Rightarrow> world \<Rightarrow> scan" where
  "created_row c w = new_scan c (uuid_str (w_uuids w (w_drawn w))) (w_uuids w (Suc (w_drawn w))) (w_clock w)"

lemma created_row_sel [simp]:
  "sc_id (created_row c w) = w_uuids w (Suc (w_drawn w))" "sc_tenant_id (created_row c w) = cr_tenant_id c"
  "sc_status (created_row c w) = PENDING" "sc_attempt (created_row c w) = 0"
  "sc_correlation_id (created_row c w) = Some (uuid_str (w_uuids w (w_drawn w)))"
  "sc_project_id (created_row c w) = cr_project_id c" "sc_asset_id (created_row c w) = cr_asset_id c"
  "sc_scanner_type (created_row c w) = cr_scanner_type c"
  "sc_retry_of_scan_id (created_row c w) = cr_retry_of_scan_id c"
  by (simp_all add: created_row_def new_scan_def)

lemma created_row_live: "storable_create c \<Longrightarrow> live_row (created_row c w) t"
  by (simp add: live_row_def created_row_def new_scan_def scan_checks_def storable_create_def
      count_set_def max_len_def)

lemma scan_create_quiet:
  assumes w: "quiet w" "fresh (Suc (Suc k)) w" "unique_scans (view w)" and c: "storable_create c"
  shows "\<exists>w'. scan_repo_create c w = (Inr (created_row c w), w') \<and>
    settled k (sc_id (created_row c w)) (created_row c w) w' \<and> w_clock w' = w_clock w \<and>
    view w' = insert_scan (created_row c w) (view w) \<and> w_uuids w' = w_uuids w"
proof -
  let ?s = "created_row c w"
  let ?w1 = "w\<lparr>w_drawn := Suc (w_drawn w)\<rparr>"
  let ?w = "w\<lparr>w_drawn := Suc (Suc (w_drawn w)), w_pend := (\<lambda>d. insert_scan ?s (w_pend w d)),
    w_objs := (w_objs w)(sc_id ?s := Some ?s)\<rparr>"
  have f1: "fresh (Suc k) ?w1"
    using w(2) by - (rule fresh_next [of "Suc k" w], auto simp: view_def)
  then have new: "w_uuids w (Suc (w_drawn w)) \<notin> ids_in_use (view w)"
    using fresh_unused [of k ?w1] by (simp add: view_def)
  have notin: "sc_id r \<noteq> w_uuids w (Suc (w_drawn w))" if "r \<in> set (scans (view w))" for r
    using new that unfolding ids_in_use_def by (metis UnCI image_eqI)
  have "scan_checks ?s" using created_row_live [OF c] by (simp add: live_row_def)
  then have ok: "scan_insert_ok ?s (view w)" using notin by (simp add: scan_insert_ok_def)
  have "\<not> truthy (cr_correlation_id c)" using c by (simp add: storable_create_def)
  then have run: "scan_repo_create c w = (Inr ?s, ?w)"
    using w(1) ok
    by (simp add: scan_repo_create_def run_simps(1,3,4,8,9,10) Let_def created_row_def [symmetric]
        quiet_stmt view_def)
  have v: "view ?w = insert_scan ?s (view w)" by (simp add: view_def)
  have "fresh k ?w"
    using f1 v by - (rule fresh_next [of k ?w1], auto simp: view_def)
  moreover have "unique_scans (insert_scan ?s (view w))"
    using w(3) new by (simp add: unique_scans_def insert_scan_def ids_in_use_def)
  moreover have "find_scan (cr_tenant_id c) (sc_id ?s) (insert_scan ?s (view w)) = Some ?s"
  proof -
    have "select_one (scan_at (cr_tenant_id c) (sc_id ?s)) (scans (view w)) = None"
      using notin by (auto simp: select_one_None_iff scan_at_def)
    then show ?thesis by (simp add: find_scan_def insert_scan_def select_one_append scan_at_def)
  qed
  ultimately have "settled k (sc_id ?s) ?s ?w"
    using w(1) v by (simp add: settled_def loaded_def)
  then show ?thesis using run v by (intro exI [of _ ?w]) simp
qed

definition queued_row :: "scan_create \<Rightarrow> world \<Rightarrow> scan" where
  "queued_row c w = advance (created_row c w) QUEUED no_update (w_clock w)"

definition first_outbox_row :: "scan_create \<Rightarrow> world \<Rightarrow> scan_job_outbox" where
  "first_outbox_row c w =
    new_outbox (first_outbox (created_row c w)) (w_uuids w (Suc (Suc (w_drawn w)))) (w_clock w)"

lemma created_is_new:
  assumes "fresh (Suc (Suc k)) w"
  shows "sc_id (created_row c w) \<notin> sc_id ` set (scans (view w))"
  using assms by (auto simp: fresh_def ids_in_use_def)

text \<open>Queueing a pending scan writes its outbox row, its new status and its event.\<close>

lemma enqueue_quiet:
  assumes w: "settled (Suc (Suc k)) i s w" and live: "live_row s (w_clock w)" "sc_status s = PENDING"
    and corr: "length (scan_correlation_id s) \<le> 100"
    and key: "\<And>b. b \<in> set (outbox (view w)) \<Longrightarrow> ob_scan_id b \<noteq> i"
  defines "b \<equiv> new_outbox (first_outbox s) (w_uuids w (w_drawn w)) (w_clock w)"
  shows "\<exists>w'. enqueue sync i w = (Inr (advance s QUEUED no_update (w_clock w)), w') \<and>
    settled k i (advance s QUEUED no_update (w_clock w)) w' \<and> w_db w' = view w' \<and>
    outbox (view w') = outbox (view w) @ [b] \<and>
    event_types i (view w') = event_types i (view w) @ [''scan.queued''] \<and>
    {x \<in> set (scans (view w)). sc_id x \<noteq> i} \<subseteq> set (scans (view w')) \<and> w_uuids w' = w_uuids w"
proof -
  let ?c = "first_outbox s" and ?s = "advance s QUEUED no_update (w_clock w)"
  have id: "sc_id s = i" by (rule settled_id [OF w])
  have chk: "outbox_checks b"
    using live(1) by (simp add: b_def outbox_checks_def new_outbox_def first_outbox_def live_row_def scan_checks_def)
  have key': "(oc_tenant_id ?c, oc_scan_id ?c, oc_scan_attempt ?c) \<notin> outbox_key ` set (outbox (view w))"
  proof -
    have "\<forall>b\<in>set (outbox (view w)). ob_scan_id b \<noteq> i" using key by blast
    then show ?thesis using id by (auto simp: first_outbox_def outbox_key_def)
  qed
  obtain w2 where r2: "outbox_repo_create ?c w = (Inr b, w2)"
    and w2: "settled (Suc k) i s w2" "w_clock w2 = w_clock w" "view w2 = insert_outbox b (view w)" "w_uuids w2 = w_uuids w"
    using outbox_create_quiet [OF w chk [unfolded b_def] key'] unfolding b_def by blast
  let ?e = "mk_event i (sc_tenant_id s) (scan_correlation_id s) ScanQueued"
  have fe: "event_fits ?e" "de_scan_id ?e = i" using corr by (simp_all add: event_fits_def)
  have live2: "live_row s (w_clock w2)" using live(1) w2(2) by simp
  have st: "QUEUED \<in> set (valid_transitions (sc_status s))" using live(2) by simp
  note t = transition_publish [OF w2(1) live2 st plain_no_update fe, unfolded w2(2)]
  note adv = adv_step(2) [OF w2(1) live2 st plain_no_update]
  let ?w3 = "pub_world ?e (adv_world i s QUEUED no_update w2)"
  have o: "obj i (adv_world i s QUEUED no_update w2) = (Inr ?s, adv_world i s QUEUED no_update w2)"
    using settled_obj [OF adv] w2(2) by simp
  have corr': "scan_correlation_id ?s = scan_correlation_id s" by (simp add: scan_correlation_id_def id)
  have "enqueue sync i w = (Inr ?s, ?w3)"
    using t(1,2) id by (simp add: enqueue_def Let_def run_simps(1,3,4) settled_obj [OF w] r2 o corr')
  moreover have "{x \<in> set (scans (view w)). sc_id x \<noteq> i} \<subseteq> set (scans (view ?w3))"
  proof
    fix x assume "x \<in> {x \<in> set (scans (view w)). sc_id x \<noteq> i}"
    moreover have "quiet (adv_world i s QUEUED no_update w2)" "fresh (Suc k) (adv_world i s QUEUED no_update w2)"
      using adv by (simp_all add: settled_def)
    ultimately show "x \<in> set (scans (view ?w3))"
      by (force simp: pub_tables(2) [OF _ _ fe(1)] advanced_db_def update_scans_def update_where_def
          w2(3) insert_outbox_def scan_at_def)
  qed
  moreover have "outbox (view ?w3) = outbox (view w) @ [b]" "w_uuids ?w3 = w_uuids w"
    using t(7) w2(4) by (simp_all add: w2(3) insert_outbox_def)
  moreover have "event_types i (view ?w3) = event_types i (view w) @ [''scan.queued'']"
    using t(6) by (simp add: event_type_of_def event_type_by_class_def event_types_def w2(3) insert_outbox_def)
  ultimately show ?thesis using t(3,5) by (intro exI [of _ ?w3]) simp
qed

text \<open>
  What is committed when: the outbox row is flushed only, the transition commits it together
  with the scan, and the event is a commit of its own.
\<close>

lemma flushed_only:
  "quiet w \<Longrightarrow> w_db (snd (scan_repo_create c w)) = w_db w"
  "quiet w \<Longrightarrow> w_db (snd (outbox_repo_create oc w)) = w_db w"
  by (simp_all add: scan_repo_create_def outbox_repo_create_def run_simps(1,3,4,8,9,10) Let_def stmt_def
      pause_stmt_def quiet_def)

lemma enqueue_commits:
  assumes w: "settled (Suc (Suc k)) i s w" and live: "live_row s (w_clock w)" "sc_status s = PENDING"
    and corr: "length (scan_correlation_id s) \<le> 100"
    and key: "\<forall>b\<in>set (outbox (view w)). ob_scan_id b \<noteq> i"
  defines "b \<equiv> new_outbox (first_outbox s) (w_uuids w (w_drawn w)) (w_clock w)"
  shows "\<exists>w1 w2 w' e ev. outbox_repo_create (first_outbox s) w = (Inr b, w1) \<and> w_db w1 = w_db w \<and>
    transition sync i QUEUED no_update w1 = (Inr (advance s QUEUED no_update (w_clock w)), w2) \<and>
    find_scan (sc_tenant_id s) i (w_db w2) = Some (advance s QUEUED no_update (w_clock w)) \<and>
    outbox (w_db w2) = outbox (view w) @ [b] \<and> scan_events (w_db w2) = scan_events (view w) \<and>
    enqueue sync i w = thenE (publish e) (retE (advance s QUEUED no_update (w_clock w))) w2 \<and>
    publish e w2 = (Inr (), w') \<and> quiet w' \<and> w_db w' = view w' \<and> w_db w' = insert_event ev (w_db w2) \<and>
    ev_scan_id ev = i \<and> ev_event_type ev = ''scan.queued''"
proof -
  let ?c = "first_outbox s" and ?s = "advance s QUEUED no_update (w_clock w)"
  have id: "sc_id s = i" by (rule settled_id [OF w])
  have chk: "outbox_checks b"
    using live(1) by (simp add: b_def outbox_checks_def new_outbox_def first_outbox_def live_row_def scan_checks_def)
  have key': "(oc_tenant_id ?c, oc_scan_id ?c, oc_scan_attempt ?c) \<notin> outbox_key ` set (outbox (view w))"
    using key id by (force simp: first_outbox_def outbox_key_def)
  obtain w1 where r1: "outbox_repo_create ?c w = (Inr b, w1)"
    and w1: "settled (Suc k) i s w1" "w_clock w1 = w_clock w" "view w1 = insert_outbox b (view w)"
    using outbox_create_quiet [OF w chk [unfolded b_def] key'] unfolding b_def by blast
  have flushed: "w_db w1 = w_db w" using flushed_only(2) [OF settled_quiet [OF w], of ?c] r1 by simp
  define w2 where "w2 = adv_world i s QUEUED no_update w1"
  let ?e = "mk_event i (sc_tenant_id s) (scan_correlation_id s) ScanQueued"
  have e: "event_fits ?e" "de_scan_id ?e = i" using corr by (simp_all add: event_fits_def)
  have "live_row s (w_clock w1)" "QUEUED \<in> set (valid_transitions (sc_status s))" using live w1(2) by simp_all
  note a = adv_step [OF w1(1) this plain_no_update, folded w2_def, unfolded w1(2)]
  have t: "transition sync i QUEUED no_update w1 = (Inr ?s, w2)" and w2: "settled (Suc k) i ?s w2" by (rule a)+
  have v2: "view w2 = advanced_db i s QUEUED no_update w1" "w_db w2 = view w2" by (simp_all add: w2_def)
  note q2 = settled_quiet [OF w2]
  have "fresh (Suc k) w2" using w2 by (simp add: settled_def)
  note p = pub_step [OF q2 this e(1)]
  obtain ev where ev: "view (pub_world ?e w2) = insert_event ev (view w2)" "ev_scan_id ev = i"
    "ev_event_type ev = ''scan.queued''"
    using p(4) by (auto simp: event_type_of_def event_type_by_class_def)
  have "enqueue sync i w = thenE (publish ?e) (retE ?s) w2"
    using id t by (simp add: enqueue_def Let_def run_simps(3,4) settled_obj [OF w] settled_obj [OF w2] r1)
  moreover have "find_scan (sc_tenant_id s) i (w_db w2) = Some ?s"
    using settled_find [OF w2] v2(2) by simp
  moreover have "outbox (w_db w2) = outbox (view w) @ [b]" "scan_events (w_db w2) = scan_events (view w)"
    by (simp_all add: v2 advanced_db_def update_scans_def w1(3) insert_outbox_def)
  ultimately show ?thesis
    using r1 flushed t p(1,2,5) ev v2(2)
    by (intro exI [of _ w1] exI [of _ w2] exI [of _ "pub_world ?e w2"] exI [of _ ?e] exI [of _ ev]) simp
qed

lemma create_and_enqueue_quiet:
  assumes w: "quiet w" "fresh (Suc (Suc (Suc (Suc k)))) w" "unique_scans (view w)"
    and c: "storable_create c" and refs: "outbox_refs (view w)" "event_refs (view w)"
  shows "\<exists>w' b. bindE (scan_repo_create c) (\<lambda>s. bindE (enqueue sync (sc_id s)) (\<lambda>s'. retE (scan_read_of s'))) w =
      (Inr (scan_read_of (queued_row c w)), w') \<and>
    settled k (sc_id (queued_row c w)) (queued_row c w) w' \<and> w_db w' = view w' \<and>
    outbox (view w') = outbox (view w) @ [b] \<and> ob_published_at b = None \<and> ob_countdown_seconds b = 0 \<and>
    outbox_checks b \<and> outbox_key b = (cr_tenant_id c, sc_id (queued_row c w), 0) \<and>
    scan_job_payload_from_dict (ob_payload b) = Inr \<lparr>jp_scan_id = sc_id (queued_row c w),
      jp_tenant_id = cr_tenant_id c, jp_correlation_id = uuid_str (w_uuids w (w_drawn w))\<rparr> \<and>
    event_types (sc_id (queued_row c w)) (view w') = [''scan.queued''] \<and>
    set (scans (view w)) \<subseteq> set (scans (view w')) \<and> w_uuids w' = w_uuids w"
proof -
  let ?s = "created_row c w" and ?i = "sc_id (created_row c w)"
  obtain w1 where r1: "scan_repo_create c w = (Inr ?s, w1)"
    and w1: "settled (Suc (Suc k)) ?i ?s w1" "w_clock w1 = w_clock w" "view w1 = insert_scan ?s (view w)"
      "w_uuids w1 = w_uuids w"
    using scan_create_quiet [OF w c] by blast
  have new: "?i \<notin> sc_id ` set (scans (view w))" by (rule created_is_new [OF w(2)])
  have corr: "scan_correlation_id ?s = uuid_str (w_uuids w (w_drawn w))"
    by (simp add: scan_correlation_id_def or_default_def)
  have key: "ob_scan_id b \<noteq> ?i" if "b \<in> set (outbox (view w1))" for b
  proof -
    have "ob_scan_id b \<in> sc_id ` set (scans (view w))"
      using refs(1) that by (auto simp: outbox_refs_def w1(3) insert_scan_def)
    then show ?thesis using new by metis
  qed
  let ?b = "new_outbox (first_outbox ?s) (w_uuids w1 (w_drawn w1)) (w_clock w1)"
  obtain w' where r: "enqueue sync ?i w1 = (Inr (queued_row c w), w')"
    and w': "settled k ?i (queued_row c w) w'" "w_db w' = view w'" "outbox (view w') = outbox (view w1) @ [?b]"
      "event_types ?i (view w') = event_types ?i (view w1) @ [''scan.queued'']"
      "{x \<in> set (scans (view w1)). sc_id x \<noteq> ?i} \<subseteq> set (scans (view w'))" "w_uuids w' = w_uuids w1"
    using enqueue_quiet [OF w1(1) created_row_live [OF c] _ _ key, of sync] corr w1(2)
    by (auto simp: queued_row_def simp del: created_row_sel(1))
  have "?i \<notin> ev_scan_id ` set (scan_events (view w))" using refs(2) new by (auto simp: event_refs_def)
  then have "filter (\<lambda>e. ev_scan_id e = ?i) (scan_events (view w)) = []"
    unfolding filter_empty_conv by (metis imageI)
  then have ev: "event_types ?i (view w1) = []" by (simp add: event_types_def w1(3) insert_scan_def)
  have "bindE (scan_repo_create c) (\<lambda>s. bindE (enqueue sync (sc_id s)) (\<lambda>s'. retE (scan_read_of s'))) w =
      (Inr (scan_read_of (queued_row c w)), w')"
    using r by (simp add: run_simps(1,3) r1 del: created_row_sel(1))
  moreover have "set (scans (view w)) \<subseteq> set (scans (view w'))"
  proof
    fix x assume x: "x \<in> set (scans (view w))"
    then have "sc_id x \<noteq> ?i" using new by (metis image_eqI)
    then show "x \<in> set (scans (view w'))" using w'(5) x by (auto simp: w1(3) insert_scan_def)
  qed
  moreover have "outbox (view w') = outbox (view w) @ [?b]" using w'(3) by (simp add: w1(3) insert_scan_def)
  moreover have "ob_published_at ?b = None" "ob_countdown_seconds ?b = 0" "outbox_checks ?b"
    "outbox_key ?b = (cr_tenant_id c, sc_id (queued_row c w), 0)"
    "scan_job_payload_from_dict (ob_payload ?b) = Inr \<lparr>jp_scan_id = sc_id (queued_row c w),
      jp_tenant_id = cr_tenant_id c, jp_correlation_id = uuid_str (w_uuids w (w_drawn w))\<rparr>"
    by (simp_all add: new_outbox_def first_outbox_def outbox_key_def queued_row_def corr outbox_checks_def)
  ultimately show ?thesis
    using w'(1,2,4,6) w1(4) ev by (intro exI [of _ w'] exI [of _ ?b]) (simp add: queued_row_def)
qed

text \<open>A commit at the end of the request changes nothing more.\<close>

lemma request_settled:
  assumes "m w = (Inr x, w')" "quiet w'" "w_db w' = view w'"
  shows "request m w = (Inr x, w'\<lparr>w_pend := (\<lambda>d. d)\<rparr>)"
  using assms by (simp add: request_def run_simps(1,3,4,5) quiet_commit)

section \<open>Creating\<close>

definition request_create :: "uuid \<Rightarrow> uuid option \<Rightarrow> scan_create_request \<Rightarrow> scan_create" where
  "request_create tn u data = \<lparr>cr_tenant_id = tn, cr_project_id = rq_project_id data,
     cr_asset_id = rq_asset_id data, cr_scanner_type = rq_scanner_type data, cr_requested_by_user_id = u,
     cr_config = rq_config data, cr_timeout_seconds = rq_timeout_seconds data,
     cr_max_attempts = rq_max_attempts data, cr_retry_of_scan_id = None, cr_correlation_id = None\<rparr>"

lemma create_scan_quiet:
  assumes w: "quiet w" "fresh (Suc (Suc (Suc (Suc k)))) w" "unique_scans (view w)" "outbox_refs (view w)" "event_refs (view w)"
    and p: "find_project tn (rq_project_id data) (view w) = Some p"
    and a: "find_asset tn (rq_asset_id data) (view w) = Some a" "as_project_id a = rq_project_id data"
    and c: "\<not> config_too_big (rq_config data)" "storable_create (request_create tn u data)"
  defines "s \<equiv> queued_row (request_create tn u data) w"
  shows "\<exists>b w'. request (create_scan sync tn u data) w = (Inr (scan_read_of s), w') \<and>
    find_scan tn (sc_id s) (w_db w') = Some s \<and> unique_scans (w_db w') \<and>
    outbox (w_db w') = outbox (view w) @ [b] \<and> ob_published_at b = None \<and> ob_countdown_seconds b = 0 \<and>
    outbox_checks b \<and> outbox_key b = (tn, sc_id s, 0) \<and>
    scan_job_payload_from_dict (ob_payload b) = Inr \<lparr>jp_scan_id = sc_id s, jp_tenant_id = tn,
      jp_correlation_id = uuid_str (w_uuids w (w_drawn w))\<rparr> \<and>
    event_types (sc_id s) (w_db w') = [''scan.queued''] \<and>
    fresh k w' \<and> w_uuids w' = w_uuids w \<and> view w' = w_db w'"
proof -
  let ?c = "request_create tn u data"
  have tn: "cr_tenant_id ?c = tn" by (simp add: request_create_def)
  obtain w' b where m: "bindE (scan_repo_create ?c) (\<lambda>s. bindE (enqueue sync (sc_id s)) (\<lambda>s'. retE (scan_read_of s'))) w =
      (Inr (scan_read_of s), w')"
    and w': "settled k (sc_id s) s w'" "w_db w' = view w'" "w_uuids w' = w_uuids w"
    and r: "outbox (view w') = outbox (view w) @ [b]" "ob_published_at b = None" "ob_countdown_seconds b = 0"
      "outbox_checks b" "outbox_key b = (tn, sc_id s, 0)"
      "scan_job_payload_from_dict (ob_payload b) = Inr \<lparr>jp_scan_id = sc_id s,
        jp_tenant_id = tn, jp_correlation_id = uuid_str (w_uuids w (w_drawn w))\<rparr>"
      "event_types (sc_id s) (view w') = [''scan.queued'']"
    using create_and_enqueue_quiet [OF w(1-3) c(2) w(4,5), where sync = sync, folded s_def, unfolded tn]
    by (elim exE conjE) (rule that)
  have "create_scan sync tn u data w = (Inr (scan_read_of s), w')"
    using m p a c(1) w(1)
    by (simp add: create_scan_def project_repo_get_by_id_def asset_repo_get_by_id_def prog_simps
        check_scan_create_def request_create_def)
  from request_settled [of "create_scan sync tn u data", OF this settled_quiet [OF w'(1)] w'(2)]
  have "request (create_scan sync tn u data) w = (Inr (scan_read_of s), w'\<lparr>w_pend := (\<lambda>d. d)\<rparr>)" .
  moreover have "find_scan tn (sc_id s) (w_db w') = Some s"
    using settled_find [OF w'(1)] by (simp add: w'(2) s_def queued_row_def request_create_def)
  moreover have "fresh k (w'\<lparr>w_pend := (\<lambda>d. d)\<rparr>)"
    using w'(1) by - (rule fresh_same [of k w'], simp_all add: settled_def view_def w'(2) [unfolded view_def, symmetric])
  moreover have "unique_scans (w_db w')" using w'(1) by (simp add: settled_def w'(2))
  moreover have "view (w'\<lparr>w_pend := (\<lambda>d. d)\<rparr>) = w_db w'" by (simp add: view_def)
  ultimately show ?thesis using r w'(3) unfolding w'(2) [symmetric]
    by (intro exI [of _ b] exI [of _ "w'\<lparr>w_pend := (\<lambda>d. d)\<rparr>"]) simp
qed

text \<open>The commits of a create, one by one.\<close>

lemma create_scan_commits:
  assumes w: "quiet w" "fresh (Suc (Suc (Suc (Suc k)))) w" "unique_scans (view w)" "outbox_refs (view w)"
    and p: "find_project tn (rq_project_id data) (view w) = Some p"
    and a: "find_asset tn (rq_asset_id data) (view w) = Some a" "as_project_id a = rq_project_id data"
    and c: "\<not> config_too_big (rq_config data)" "storable_create (request_create tn u data)"
  defines "s \<equiv> queued_row (request_create tn u data) w"
  shows "\<exists>b wf wc e ev w'.
    bindE (scan_repo_create (request_create tn u data)) (\<lambda>s0. outbox_repo_create (first_outbox s0)) w = (Inr b, wf) \<and>
    w_db wf = w_db w \<and>
    transition sync (sc_id s) QUEUED no_update wf = (Inr s, wc) \<and> find_scan tn (sc_id s) (w_db wc) = Some s \<and>
    outbox (w_db wc) = outbox (view w) @ [b] \<and> scan_events (w_db wc) = scan_events (view w) \<and>
    create_scan sync tn u data w = thenE (publish e) (retE (scan_read_of s)) wc \<and>
    request (create_scan sync tn u data) w = (Inr (scan_read_of s), w') \<and>
    w_db w' = insert_event ev (w_db wc) \<and> ev_scan_id ev = sc_id s \<and> ev_event_type ev = ''scan.queued''"
proof -
  let ?c = "request_create tn u data" and ?s = "created_row (request_create tn u data) w"
  have s: "s = advance ?s QUEUED no_update (w_clock w)" "sc_id s = sc_id ?s" "sc_tenant_id ?s = tn"
    by (simp_all add: s_def queued_row_def) (simp add: request_create_def)
  obtain w1 where r1: "scan_repo_create ?c w = (Inr ?s, w1)"
    and w1: "settled (Suc (Suc k)) (sc_id ?s) ?s w1" "w_clock w1 = w_clock w" "view w1 = insert_scan ?s (view w)"
    using scan_create_quiet [OF w(1-3) c(2)] by blast
  have flushed: "w_db w1 = w_db w" using flushed_only(1) [OF w(1), of ?c] r1 by simp
  have "outbox (view w1) = outbox (view w)" "scan_events (view w1) = scan_events (view w)"
    by (simp_all add: w1(3) insert_scan_def)
  note same = this
  have key: "\<forall>b\<in>set (outbox (view w1)). ob_scan_id b \<noteq> sc_id ?s"
    using w(4) created_is_new [OF w(2), of ?c] unfolding same outbox_refs_def by (metis image_eqI subsetD)
  have corr: "length (scan_correlation_id ?s) \<le> 100" by (simp add: scan_correlation_id_def or_default_def)
  obtain b wf wc w' e ev where q: "outbox_repo_create (first_outbox ?s) w1 = (Inr b, wf)" "w_db wf = w_db w1"
    "transition sync (sc_id ?s) QUEUED no_update wf = (Inr s, wc)" "find_scan tn (sc_id ?s) (w_db wc) = Some s"
    "outbox (w_db wc) = outbox (view w) @ [b]" "scan_events (w_db wc) = scan_events (view w)"
    "enqueue sync (sc_id ?s) w1 = thenE (publish e) (retE s) wc"
    and e: "publish e wc = (Inr (), w')" "quiet w'" "w_db w' = view w'" "w_db w' = insert_event ev (w_db wc)"
    "ev_scan_id ev = sc_id ?s" "ev_event_type ev = ''scan.queued''"
    using enqueue_commits [OF w1(1) created_row_live [OF c(2)] created_row_sel(3) corr key, where sync = sync,
        unfolded w1(2) s(1) [symmetric] s(3) same]
    by (elim exE conjE) (rule that)
  have run: "create_scan sync tn u data w = bindE (enqueue sync (sc_id ?s)) (\<lambda>s'. retE (scan_read_of s')) w1"
    using r1 p a c(1) w(1)
    by (simp add: create_scan_def project_repo_get_by_id_def asset_repo_get_by_id_def prog_simps
        check_scan_create_def request_create_def del: created_row_sel(1))
  have returns: "create_scan sync tn u data w = (Inr (scan_read_of s), w')"
    "create_scan sync tn u data w = thenE (publish e) (retE (scan_read_of s)) wc"
    by (simp_all add: run q(7) run_simps(1,3,4) e(1) del: created_row_sel(1))
  from request_settled [of "create_scan sync tn u data", OF returns(1) e(2,3)]
  have "request (create_scan sync tn u data) w = (Inr (scan_read_of s), w'\<lparr>w_pend := (\<lambda>d. d)\<rparr>)" .
  moreover have "bindE (scan_repo_create ?c) (\<lambda>s0. outbox_repo_create (first_outbox s0)) w = (Inr b, wf)"
    by (simp add: run_simps(3) r1 q(1))
  ultimately show ?thesis using q(2-6) e(4-6) flushed returns(2) s(2)
    by (intro exI [of _ b] exI [of _ wf] exI [of _ wc] exI [of _ e] exI [of _ ev]
        exI [of _ "w'\<lparr>w_pend := (\<lambda>d. d)\<rparr>"]) simp
qed

section \<open>Cancelling\<close>

lemma get_or_404_quiet:
  assumes "quiet w" "find_scan tn i (view w) = Some s"
  shows "get_or_404 tn i w = (Inr s, w\<lparr>w_objs := (w_objs w)(i := Some s)\<rparr>)"
  using assms find_scan_SomeD [OF assms(2)]
  by (simp add: get_or_404_def scan_repo_get_by_id_def prog_simps)

lemma get_or_404_missing:
  assumes "quiet w" "find_scan tn i (view w) = None"
  shows "get_or_404 tn i w = (Inl (exc ScanNotFoundError []), w)"
  using assms by (simp add: get_or_404_def scan_repo_get_by_id_def prog_simps)

lemma settled_after_get:
  assumes "quiet w" "fresh k w" "unique_scans (view w)" "find_scan tn i (view w) = Some s"
  shows "settled k i s (w\<lparr>w_objs := (w_objs w)(i := Some s)\<rparr>)"
  using assms find_scan_SomeD [OF assms(4)] by (simp add: settled_def loaded_def fresh_def)

definition cancel_raises_exceptions :: "job_queue \<Rightarrow> bool" where
  "cancel_raises_exceptions q \<longleftrightarrow> (\<forall>j e. jq_cancel q j = Raises e \<longrightarrow> is_exception e)"

lemma cancel_job_quiet:
  assumes "cancel_raises_exceptions q"
  shows "\<exists>tr. tryE (cancel_job q j)
      (\<lambda>e. if is_exception e then emit (Log m) else raiseE e) w = (Inr (), w\<lparr>w_trace := w_trace w @ tr\<rparr>)"
  using assms by (cases "jq_cancel q j") (auto simp: cancel_job_def prog_simps cancel_raises_exceptions_def)

lemma scan_correlation_id_length: "scan_checks s \<Longrightarrow> length (scan_correlation_id s) \<le> 100"
  by (auto simp: scan_correlation_id_def or_default_def scan_checks_def max_len_def split: option.splits)

lemma cancel_scan_quiet:
  assumes w: "quiet w" "fresh 1 w" "unique_scans (view w)" and s: "find_scan tn i (view w) = Some s"
    and live: "live_row s (w_clock w)" "\<not> terminal (sc_status s)"
    and q: "cancel_raises_exceptions q"
  shows "\<exists>w'. cancel_scan sync q tn i w =
      (Inr (scan_read_of (advance s CANCELLED no_update (w_clock w))), w') \<and>
    quiet w' \<and> w_db w' = view w' \<and>
    find_scan tn i (w_db w') = Some (advance s CANCELLED no_update (w_clock w)) \<and>
    outbox (w_db w') = outbox (view w) \<and>
    event_types i (w_db w') = event_types i (view w) @ [''scan.cancelled'']"
proof -
  let ?s = "advance s CANCELLED no_update (w_clock w)"
  let ?w0 = "w\<lparr>w_objs := (w_objs w)(i := Some s)\<rparr>"
  have tn: "sc_tenant_id s = tn" using find_scan_SomeD [OF s] by simp
  have f: "fresh (Suc 0) w" using w(2) by simp
  have w0: "settled (Suc 0) i s ?w0" by (rule settled_after_get [OF w(1) f w(3) s])
  have live0: "live_row s (w_clock ?w0)" using live by simp
  have st: "CANCELLED \<in> set (valid_transitions (sc_status s))"
    using live(2) by (cases "sc_status s") (simp_all add: terminal_def)
  let ?e = "mk_event i tn (scan_correlation_id ?s) ScanCancelled"
  have "scan_checks ?s" by (rule live_advance(1) [OF live(1) plain_no_update])
  then have fe: "event_fits ?e" "de_scan_id ?e = i"
    using scan_correlation_id_length by (simp_all add: event_fits_def)
  note t = transition_publish [OF w0 live0 st plain_no_update fe]
  let ?a = "adv_world i s CANCELLED no_update ?w0"
  have o: "obj i ?a = (Inr ?s, ?a)"
    using settled_obj [OF adv_step(2) [OF w0 live0 st plain_no_update]] by simp
  obtain tr where job: "(case sc_job_id s of None \<Rightarrow> retE ()
      | Some j \<Rightarrow> tryE (cancel_job q j)
          (\<lambda>e. if is_exception e then emit (Log ''scan_service.job_cancel_failed'') else raiseE e)) (pub_world ?e ?a) =
      (Inr (), (pub_world ?e ?a)\<lparr>w_trace := w_trace (pub_world ?e ?a) @ tr\<rparr>)"
  proof (cases "sc_job_id s")
    case None
    show ?thesis by (rule that [of "[]"]) (simp add: None run_simps(1))
  next
    case (Some j)
    show ?thesis using cancel_job_quiet [OF q] that unfolding Some option.case by blast
  qed
  have "cancel_scan sync q tn i w =
      (Inr (scan_read_of ?s), (pub_world ?e ?a)\<lparr>w_trace := w_trace (pub_world ?e ?a) @ tr\<rparr>)"
    unfolding cancel_scan_def
    using t(1,2) job by (simp add: run_simps(1,3,4,5) get_or_404_quiet [OF w(1) s] o tn)
  moreover have "find_scan tn i (view (pub_world ?e ?a)) = Some ?s"
    using settled_find [OF t(3)] tn by simp
  moreover have "event_types i (view ?w0) = event_types i (view w)" "outbox (view ?w0) = outbox (view w)" by simp_all
  ultimately show ?thesis
    using t(5,6,7) settled_quiet [OF t(3)]
    by (intro exI [of _ "(pub_world ?e ?a)\<lparr>w_trace := w_trace (pub_world ?e ?a) @ tr\<rparr>"])
      (simp add: event_type_of_def event_type_by_class_def)
qed

lemma cancel_scan_terminal:
  assumes w: "quiet w" and s: "find_scan tn i (view w) = Some s" "terminal (sc_status s)"
  shows "\<exists>w'. cancel_scan sync q tn i w =
      (Inl (exc ScanNotCancellableError (invalid_transition_message (sc_status s) CANCELLED)), w') \<and>
    w_db w' = w_db w \<and> w_pend w' = w_pend w"
proof -
  let ?w0 = "w\<lparr>w_objs := (w_objs w)(i := Some s)\<rparr>"
  have "CANCELLED \<notin> set (valid_transitions (sc_status s))" using s(2) by (simp add: terminal_no_transitions)
  then have "transition sync i CANCELLED no_update ?w0 =
      (Inl (exc InvalidScanTransitionError (invalid_transition_message (sc_status s) CANCELLED)), ?w0)"
    by (intro transition_invalid) simp_all
  then show ?thesis
    by (simp add: cancel_scan_def run_simps(2-5) get_or_404_quiet [OF w s(1)])
qed

lemma retry_scan_refused:
  assumes w: "quiet w" and s: "find_scan tn i (view w) = Some s" "sc_status s \<notin> set retryable_statuses"
  shows "\<exists>w'. retry_scan sync tn i u w =
      (Inl (exc ScanNotRetryableError (not_retryable_message i (sc_status s))), w') \<and>
    w_db w' = w_db w \<and> w_pend w' = w_pend w"
  using s(2) by (simp add: retry_scan_def run_simps(2,3) get_or_404_quiet [OF w s(1)])

end
