(* ===== verification/Dispatch_Outcomes.thy ===== *)
theory Dispatch_Outcomes
  imports Outbox_Dispatcher Run_Outcomes
begin

text \<open>
  One dispatch, exactly, when nothing interferes: a sent message marks its row published,
  a failed send leaves it pending with a sanitised error, a failure after the send leaves
  it pending although the message is out; and what a whole tick does when every send
  fails.
\<close>

section \<open>Ordering\<close>

lemma insort_key_map:
  assumes "\<And>x. k (g x) = k x"
  shows "insort_key k (g x) (map g xs) = map g (insort_key k x xs)"
  by (induction xs) (simp_all add: assms)

lemma sort_key_map:
  assumes "\<And>x. k (g x) = k x"
  shows "sort_key k (map g xs) = map g (sort_key k xs)"
  by (induction xs) (simp_all add: insort_key_map [where k = k and g = g, OF assms])

definition keeps_pending :: "(scan_job_outbox \<Rightarrow> scan_job_outbox) \<Rightarrow> bool" where
  "keeps_pending f \<longleftrightarrow> (\<forall>b. ob_id (f b) = ob_id b \<and> ob_created_at (f b) = ob_created_at b \<and>
     ob_published_at (f b) = ob_published_at b)"

lemma failed_attempt_keeps_pending: "keeps_pending (failed_attempt_row n t e)"
  by (simp add: keeps_pending_def failed_attempt_row_def)

lemma next_pending_update:
  assumes f: "keeps_pending f" and b: "next_pending locked d = Some b"
  shows "next_pending locked (update_outbox (ob_id b) f d) = Some (f b)"
proof -
  let ?g = "\<lambda>r. if ob_id r = ob_id b then f r else r"
  let ?P = "\<lambda>b. ob_published_at b = None \<and> ob_id b \<notin> locked"
  have g: "\<And>r. ob_created_at (?g r) = ob_created_at r" "\<And>r. ?P (?g r) = ?P r"
    using f by (simp_all add: keeps_pending_def)
  have "select_all ?P (map ?g xs) = map ?g (select_all ?P xs)" for xs
    unfolding select_all_def using g(2) by (induction xs) simp_all
  then have "order_by ob_created_at (select_all ?P (outbox (update_outbox (ob_id b) f d))) =
      map ?g (order_by ob_created_at (select_all ?P (outbox d)))"
    by (simp add: update_outbox_def update_where_def order_by_def sort_key_map [where g = ?g and k = ob_created_at, OF g(1)])
  then show ?thesis
    using b by (auto simp: next_pending_def split: list.splits)
qed

section \<open>One dispatch\<close>

definition sent_world :: "scan_job_payload \<Rightarrow> rat \<Rightarrow> world \<Rightarrow> world" where
  "sent_world p c w = w\<lparr>w_trace := w_trace w @ [SentJob p c]\<rparr>"

lemma dispatch_one_sends:
  assumes w: "quiet w" and b: "next_pending locked (view w) = Some b"
    and p: "scan_job_payload_from_dict (ob_payload b) = Inr p"
    and j: "jq_enqueue_scan q p (ob_countdown_seconds b) = Returns j"
  shows "dispatch_one q locked w = record_published b j (w_clock w) (sent_world p (ob_countdown_seconds b) w)"
  using assms
  by (simp add: dispatch_one_def outbox_repo_claim_next_pending_def enqueue_job_def sent_world_def prog_simps)

lemma find_scan_updated:
  "find_scan tn i (update_scans (\<lambda>r. sc_id r = i) u t d) = map_option (apply_scan_update u t) (find_scan tn i d)"
proof -
  have "select_one (scan_at tn i) (update_where (\<lambda>r. sc_id r = i) (apply_scan_update u t) xs) =
      map_option (apply_scan_update u t) (select_one (scan_at tn i) xs)" for xs
    by (induction xs) (auto simp: scan_at_def)
  then show ?thesis by (simp add: find_scan_def update_scans_def)
qed

lemma find_scan_by_id:
  assumes s: "find_scan tn i d = Some s" and u: "unique_scans d"
  shows "select_one (\<lambda>r. sc_id r = i) (scans d) = Some s"
proof -
  have id: "sc_id s = i" "s \<in> set (scans d)" using find_scan_SomeD [OF s] by simp_all
  then have "select_one (\<lambda>r. sc_id r = i) (scans d) \<noteq> None" by (auto simp: select_one_None_iff)
  then obtain r where r: "select_one (\<lambda>r. sc_id r = i) (scans d) = Some r" by blast
  then show ?thesis using select_one_SomeD [OF r] unique_scans_row [OF u] id by metis
qed

lemma job_update_checks:
  "scan_checks s \<Longrightarrow> length j \<le> 200 \<Longrightarrow> scan_checks (apply_scan_update (job_update j) t s)"
  by (simp add: scan_checks_def apply_scan_update_def job_update_def no_update_def max_len_def)

lemma dispatch_one_published:
  assumes w: "quiet w" and b: "next_pending locked (view w) = Some b"
    and p: "scan_job_payload_from_dict (ob_payload b) = Inr p"
    and j: "jq_enqueue_scan q p (ob_countdown_seconds b) = Returns j" "length j \<le> 200"
    and s: "find_scan (ob_tenant_id b) (ob_scan_id b) (view w) = Some s" "scan_checks s" "unique_scans (view w)"
    and ok: "outbox_checks b"
  shows "\<exists>w'. dispatch_one q locked w = (Inr True, w') \<and>
    outbox (w_db w') = update_where (\<lambda>r. ob_id r = ob_id b)
      (published_row (w_clock w) (ob_attempt_count b + 1)) (outbox (view w)) \<and>
    find_scan (ob_tenant_id b) (ob_scan_id b) (w_db w') = Some (apply_scan_update (job_update j) (w_clock w) s) \<and>
    w_trace w' = w_trace w @ [SentJob p (ob_countdown_seconds b), Log ''outbox_dispatcher.published''] \<and>
    quiet w' \<and> w_pend w' = (\<lambda>d. d) \<and> w_uuids w' = w_uuids w \<and> w_drawn w' = w_drawn w \<and>
    w_db w' = update_outbox (ob_id b) (published_row (w_clock w) (ob_attempt_count b + 1))
      (update_scans (\<lambda>r. sc_id r = ob_scan_id b) (job_update j) (w_clock w) (view w))"
proof -
  let ?t = "w_clock w" and ?i = "ob_scan_id b"
  define w1 where "w1 = (sent_world p (ob_countdown_seconds b) w)\<lparr>w_objs := (w_objs w)(?i := Some s)\<rparr>"
  have id: "sc_id s = ?i" using find_scan_SomeD [OF s(1)] by simp
  have get: "scan_repo_get_by_id (ob_tenant_id b) ?i (sent_world p (ob_countdown_seconds b) w) = (Inr (Some s), w1)"
    using w s(1) id by (simp add: scan_repo_get_by_id_def prog_simps sent_world_def w1_def)
  let ?f = "update_scans (\<lambda>r. sc_id r = ?i) (job_update j) ?t"
  let ?g = "update_outbox (ob_id b) (published_row ?t (ob_attempt_count b + 1))"
  have q1: "quiet w1" "view w1 = view w" "w_clock w1 = ?t" "w_pend w1 = w_pend w"
    using w by (simp_all add: w1_def sent_world_def)
  define w2 where "w2 = w1\<lparr>w_pend := (\<lambda>d. ?f (w_pend w d)),
    w_objs := (w_objs w1)(?i := Some (apply_scan_update (job_update j) ?t s))\<rparr>"
  have "scan_update_ok (sc_id s) (job_update j) ?t (view w1)"
    using find_scan_by_id [OF s(1,3)] id job_update_checks [OF s(2) j(2)] q1(2) by (simp add: scan_update_ok_def)
  then have upd: "scan_repo_update s (job_update j) w1 =
      (Inr (apply_scan_update (job_update j) ?t s), w2)"
    using q1 id by (simp add: scan_repo_update_def run_simps(1,3,4,8,10) quiet_stmt Let_def w2_def)
  have q2: "quiet w2" "w_pend w2 = (\<lambda>d. ?f (w_pend w d))" "w_db w2 = w_db w"
      "w_trace w2 = w_trace w @ [SentJob p (ob_countdown_seconds b)]" "w_uuids w2 = w_uuids w" "w_drawn w2 = w_drawn w"
    using q1 by (simp_all add: w2_def w1_def sent_world_def)
  have ok2: "outbox_checks (published_row ?t (ob_attempt_count b + 1) b)"
    using ok by (simp add: outbox_checks_def published_row_def)
  define w3 where "w3 = w2\<lparr>w_pend := (\<lambda>d. ?g (?f (w_pend w d)))\<rparr>"
  have mark: "outbox_repo_mark_published b ?t (ob_attempt_count b + 1) w2 = (Inr (), w3)"
    using q2(1,2) ok2 by (simp add: outbox_repo_mark_published_def quiet_stmt w3_def)
  define w4 where "w4 = w3\<lparr>w_db := ?g (?f (view w)), w_pend := (\<lambda>x. x)\<rparr>"
  have com: "commit w3 = (Inr (), w4)"
    using q2(1,3) by (simp add: quiet_commit w4_def w3_def view_def)
  have run: "dispatch_one q locked w =
      (Inr True, w4\<lparr>w_trace := w_trace w4 @ [Log ''outbox_dispatcher.published'']\<rparr>)"
    unfolding dispatch_one_sends [OF w b p j(1)] record_published_def
    by (simp add: run_simps(1,3,4,7) get upd mark com)
  have "find_scan (ob_tenant_id b) ?i (?f (view w)) = Some (apply_scan_update (job_update j) ?t s)"
    using s(1) by (simp add: find_scan_updated)
  then have "find_scan (ob_tenant_id b) ?i (?g (?f (view w))) = Some (apply_scan_update (job_update j) ?t s)"
    by (simp add: find_scan_def update_outbox_def)
  then show ?thesis
    using run q2(1,4-6) by (simp add: w4_def w3_def update_outbox_def update_scans_def)
qed

lemma dispatch_one_empty:
  "quiet w \<Longrightarrow> w_pend w = (\<lambda>d. d) \<Longrightarrow> next_pending locked (w_db w) = None \<Longrightarrow>
    \<exists>w'. dispatch_one q locked w = (Inr False, w') \<and> w_db w' = w_db w \<and> w_trace w' = w_trace w \<and>
      w_uuids w' = w_uuids w \<and> w_drawn w' = w_drawn w"
  by (simp add: dispatch_one_def outbox_repo_claim_next_pending_def prog_simps rollback_def view_def)

text \<open>A tick that finds one row, publishes it and finds the outbox empty.\<close>

lemma dispatch_single:
  assumes d: "dispatch_one q (locked 0) w = (Inr True, w1)" and w1: "quiet w1" "w_pend w1 = (\<lambda>d. d)"
    and e: "next_pending (locked 1) (w_db w1) = None"
  shows "\<exists>w'. dispatch_pending_outbox q locked (Suc (Suc k)) w = (Inr 1, w') \<and>
    w_db w' = w_db w1 \<and> w_trace w' = w_trace w1 \<and> w_uuids w' = w_uuids w1 \<and> w_drawn w' = w_drawn w1"
proof -
  obtain w' where "dispatch_one q (locked 1) w1 = (Inr False, w')" "w_db w' = w_db w1" "w_trace w' = w_trace w1"
    "w_uuids w' = w_uuids w1" "w_drawn w' = w_drawn w1"
    using dispatch_one_empty [OF w1 e] by blast
  then show ?thesis using d by (simp add: dispatch_pending_outbox_def run_simps(1,3))
qed

lemma dispatch_one_failed:
  assumes w: "quiet w" and b: "next_pending locked (view w) = Some b" "outbox_checks b"
    and p: "scan_job_payload_from_dict (ob_payload b) = Inr p"
    and e: "jq_enqueue_scan q p (ob_countdown_seconds b) = Raises e" "is_exception e"
  shows "dispatch_one q locked w = (Inr True,
    w\<lparr>w_db := update_outbox (ob_id b) (failed_attempt_row (ob_attempt_count b + 1) (w_clock w)
        (se_summary (sanitize_exception e))) (view w), w_pend := (\<lambda>x. x),
      w_trace := w_trace w @ [Log ''outbox_dispatcher.publish_failed'']\<rparr>)"
proof -
  let ?f = "failed_attempt_row (ob_attempt_count b + 1) (w_clock w) (se_summary (sanitize_exception e))"
  have "outbox_checks (?f b)"
    using b(2) sanitize_summary_length [of e] by (simp add: outbox_checks_def failed_attempt_row_def max_len_def)
  then show ?thesis
    using w b(1) p e
    by (simp add: dispatch_one_def outbox_repo_claim_next_pending_def enqueue_job_def prog_simps
        record_failed_def outbox_repo_mark_failed_attempt_def view_def)
qed

text \<open>A failure to record the job id: the message is out, the row is still pending.\<close>

lemma dispatch_one_sent_not_recorded:
  assumes w: "quiet w" and b: "next_pending locked (view w) = Some b"
    and p: "scan_job_payload_from_dict (ob_payload b) = Inr p"
    and j: "jq_enqueue_scan q p (ob_countdown_seconds b) = Returns j" "200 < length j"
    and s: "find_scan (ob_tenant_id b) (ob_scan_id b) (view w) = Some s"
  shows "\<exists>w'. dispatch_one q locked w = (Inl db_error, w') \<and> w_db w' = w_db w \<and>
    SentJob p (ob_countdown_seconds b) \<in> set (w_trace w')"
proof -
  let ?i = "ob_scan_id b"
  let ?w1 = "(sent_world p (ob_countdown_seconds b) w)\<lparr>w_objs := (w_objs w)(?i := Some s)\<rparr>"
  have id: "sc_id s = ?i" using find_scan_SomeD [OF s] by simp
  have get: "scan_repo_get_by_id (ob_tenant_id b) ?i (sent_world p (ob_countdown_seconds b) w) = (Inr (Some s), ?w1)"
    using w s id by (simp add: scan_repo_get_by_id_def prog_simps sent_world_def)
  have "\<not> scan_update_ok i (job_update j) t d" for i t d
    using j(2) by (simp add: scan_update_ok_def scan_checks_def apply_scan_update_def job_update_def
        max_len_def split: option.split)
  then have "scan_repo_update s (job_update j) ?w1 = (Inl db_error, ?w1\<lparr>w_failed := True\<rparr>)"
    using w by (simp add: scan_repo_update_def run_simps(3,4,8) stmt_def prog_simps sent_world_def quiet_def)
  then have "dispatch_one q locked w = (Inl db_error, ?w1\<lparr>w_failed := True\<rparr>)"
    unfolding dispatch_one_sends [OF w b p j(1)] record_published_def
    by (simp add: run_simps(1,3,4) get)
  then show ?thesis by (simp add: sent_world_def)
qed

section \<open>A tick\<close>

lemma dispatch_loop_bounds:
  "dispatch_loop q locked k n w = (Inr m, w') \<Longrightarrow> n \<le> m \<and> m \<le> n + k"
proof (induction k arbitrary: n w)
  case 0
  then show ?case by (simp add: prog_simps)
next
  case (Suc k)
  then show ?case by (auto simp: prog_simps split: prod.splits sum.splits if_splits dest!: Suc.IH)
qed

lemma dispatch_loop_drained:
  "dispatch_loop q locked k n w = (Inr m, w') \<Longrightarrow> m < n + k \<Longrightarrow>
    \<exists>v. dispatch_one q (locked m) v = (Inr False, w')"
proof (induction k arbitrary: n w)
  case 0
  then show ?case by (simp add: prog_simps)
next
  case (Suc k)
  then show ?case by (auto simp: prog_simps split: prod.splits sum.splits if_splits)
qed

text \<open>
  When the queue refuses the message of the oldest row, the whole tick is spent on it: it is
  claimed again each time, and no other row is tried.
\<close>

lemma dispatch_loop_head_of_line:
  assumes e: "jq_enqueue_scan q p c = Raises e" "is_exception e"
  shows "quiet w \<Longrightarrow> next_pending locked (view w) = Some b \<Longrightarrow> outbox_checks b \<Longrightarrow>
    scan_job_payload_from_dict (ob_payload b) = Inr p \<Longrightarrow> ob_countdown_seconds b = c \<Longrightarrow>
    \<exists>w' b'. dispatch_loop q (\<lambda>_. locked) k n w = (Inr (n + k), w') \<and> quiet w' \<and>
      next_pending locked (view w') = Some b' \<and> ob_id b' = ob_id b \<and>
      ob_attempt_count b' = ob_attempt_count b + int k \<and>
      filter (\<lambda>r. ob_id r \<noteq> ob_id b) (outbox (view w')) = filter (\<lambda>r. ob_id r \<noteq> ob_id b) (outbox (view w)) \<and>
      (\<forall>p c. SentJob p c \<in> set (w_trace w') \<longrightarrow> SentJob p c \<in> set (w_trace w))"
proof (induction k arbitrary: n w b)
  case 0
  then show ?case by (simp add: prog_simps)
next
  case (Suc k)
  note e = e [folded Suc.prems(5)]
  let ?f = "failed_attempt_row (ob_attempt_count b + 1) (w_clock w) (se_summary (sanitize_exception e))"
  let ?w = "w\<lparr>w_db := update_outbox (ob_id b) ?f (view w), w_pend := (\<lambda>x. x),
    w_trace := w_trace w @ [Log ''outbox_dispatcher.publish_failed'']\<rparr>"
  have d: "dispatch_one q locked w = (Inr True, ?w)"
    by (rule dispatch_one_failed [OF Suc.prems(1-4) e])
  have b: "next_pending locked (view ?w) = Some (?f b)"
    using next_pending_update [OF failed_attempt_keeps_pending Suc.prems(2)] by (simp add: view_def)
  have chk: "outbox_checks (?f b)" "scan_job_payload_from_dict (ob_payload (?f b)) = Inr p"
      "ob_countdown_seconds (?f b) = c"
    using Suc.prems(3-5) sanitize_summary_length [of e]
    by (simp_all add: outbox_checks_def failed_attempt_row_def max_len_def)
  have "quiet ?w" using Suc.prems(1) by simp
  from Suc.IH [OF this b chk, of "Suc n"] obtain w' b' where
    r: "dispatch_loop q (\<lambda>_. locked) k (Suc n) ?w = (Inr (Suc n + k), w')"
    and b': "quiet w'" "next_pending locked (view w') = Some b'" "ob_id b' = ob_id (?f b)"
      "ob_attempt_count b' = ob_attempt_count (?f b) + int k"
      "filter (\<lambda>r. ob_id r \<noteq> ob_id (?f b)) (outbox (view w')) =
       filter (\<lambda>r. ob_id r \<noteq> ob_id (?f b)) (outbox (view ?w))"
      "\<forall>p c. SentJob p c \<in> set (w_trace w') \<longrightarrow> SentJob p c \<in> set (w_trace ?w)" by blast
  have "filter (\<lambda>r. ob_id r \<noteq> ob_id b) (outbox (view ?w)) = filter (\<lambda>r. ob_id r \<noteq> ob_id b) (outbox (view w))"
    by (simp add: view_def update_outbox_def filter_update_where_other failed_attempt_row_def)
  then show ?case
    using r d b' by (intro exI [of _ w'] exI [of _ b']) (simp add: run_simps(3) failed_attempt_row_def)
qed

end
