(* ===== verification/Scenarios.thy ===== *)
theory Scenarios
  imports Scan_System Service_Outcomes Dispatch_Outcomes
begin

text \<open>
  Concrete inputs: a small database, a plugin, an engine and the worlds of a few sessions,
  on which the properties are instantiated.
\<close>

definition demo_scan :: scan where
  "demo_scan = \<lparr>sc_id = 1, sc_tenant_id = 2, sc_project_id = 3, sc_asset_id = 4,
     sc_scanner_type = ''zap'', sc_status = QUEUED, sc_requested_by_user_id = None,
     sc_queued_at = Some 100, sc_started_at = None, sc_completed_at = None, sc_failed_at = None,
     sc_cancelled_at = None, sc_timed_out_at = None, sc_error_code = None, sc_error_summary = None,
     sc_attempt = 0, sc_max_attempts = 3, sc_worker_id = None, sc_job_id = None,
     sc_timeout_seconds = 1800, sc_retry_of_scan_id = None, sc_config = None,
     sc_correlation_id = Some ''corr'', sc_created_at = 100, sc_updated_at = 100\<rparr>"

definition demo_project :: project where
  "demo_project = \<lparr>pr_id = 3, pr_tenant_id = 2, pr_name = ''p'', pr_slug = ''p'', pr_description = None,
     pr_status = ProjectActive, pr_archived_at = None, pr_created_at = 1, pr_updated_at = 1\<rparr>"

text \<open>The asset has no authorization to be scanned; nothing in the service asks for one.\<close>

definition demo_asset :: asset where
  "demo_asset = \<lparr>as_id = 4, as_tenant_id = 2, as_project_id = 3, as_asset_type = WEBSITE, as_name = ''a'',
     as_locator = ''https://example.test'', as_environment = EnvUnknown, as_status = AssetActive,
     as_authorization_status = Unauthorized, as_created_at = 1, as_updated_at = 1\<rparr>"

definition db_with :: "scan list \<Rightarrow> db" where
  "db_with ss = empty_db\<lparr>projects := [demo_project], assets := [demo_asset], scans := ss\<rparr>"

definition demo_ids :: "nat \<Rightarrow> uuid" where
  "demo_ids n = word_of_nat (100 + n)"

definition demo_world :: "scan list \<Rightarrow> world" where
  "demo_world ss = start_world (db_with ss) 200 [] demo_ids"

text \<open>A session that has the scan loaded.\<close>

definition loaded_world :: "scan \<Rightarrow> world" where
  "loaded_world s = (demo_world [s])\<lparr>w_objs := [1 \<mapsto> s]\<rparr>"

definition demo_output :: raw_scan_output where
  "demo_output = \<lparr>ro_artifacts = [], ro_exit_code = Some 0, ro_findings = None\<rparr>"

definition demo_finding :: normalized_finding where
  "demo_finding = \<lparr>nf_title = ''XSS'', nf_description = Some ''d'', nf_severity = SevHigh,
     nf_confidence = ConfLow, nf_source_tool = ''zap'', nf_external_reference = None,
     nf_remediation = None, nf_rule_id = ''r1'', nf_locator = ''/''\<rparr>"

definition demo_plugin :: "unit outcome \<Rightarrow> normalized_finding list outcome \<Rightarrow> scanner_plugin" where
  "demo_plugin v ns = \<lparr>pl_validate_config = (\<lambda>_ _. v), pl_prepare = (\<lambda>_ _. Returns ()),
     pl_execute = (\<lambda>_ _. Returns demo_output), pl_collect_results = (\<lambda>_ _ _. Returns []),
     pl_normalize_findings = (\<lambda>_ _ _. ns), pl_cleanup = (\<lambda>_ _. Returns ())\<rparr>"

definition demo_queue :: "string outcome \<Rightarrow> job_queue" where
  "demo_queue r = \<lparr>jq_enqueue_scan = (\<lambda>_ _. r), jq_cancel = (\<lambda>_. Returns ()),
     jq_dead_letter_scan = (\<lambda>_ _. Returns ())\<rparr>"

definition demo_engine :: "scanner_plugin \<Rightarrow> engine" where
  "demo_engine pl = \<lparr>en_sync = True, en_sha256 = (\<lambda>s. take 64 s), en_random = 1 / 2,
     en_retry = \<lparr>rp_base_delay_seconds = 30, rp_max_delay_seconds = 600, rp_jitter = True\<rparr>,
     en_registry = \<lparr>rg_factories = [(''zap'', Returns (Some pl))], rg_capabilities = []\<rparr>,
     en_queue = demo_queue (Returns ''job-1'')\<rparr>"

definition demo_outbox :: scan_job_outbox where
  "demo_outbox = \<lparr>ob_id = 5, ob_tenant_id = 2, ob_scan_id = 1, ob_scan_attempt = 0,
     ob_event_type = ''scan.run'', ob_payload = scan_job_payload_to_dict
       \<lparr>jp_scan_id = 1, jp_tenant_id = 2, jp_correlation_id = ''corr''\<rparr>,
     ob_countdown_seconds = 0, ob_created_at = 100, ob_published_at = None, ob_attempt_count = 0,
     ob_last_attempt_at = None, ob_last_error = None\<rparr>"

definition dispatcher_world :: world where
  "dispatcher_world = start_world ((db_with [demo_scan])\<lparr>outbox := [demo_outbox]\<rparr>) 200 [] demo_ids"

section \<open>Facts about them\<close>

lemmas demo_defs = demo_scan_def demo_world_def loaded_world_def start_world_def db_with_def demo_ids_def

lemma demo_view [simp]:
  "view (demo_world ss) = db_with ss" "w_clock (demo_world ss) = 200" "w_pend (demo_world ss) = (\<lambda>x. x)"
  "quiet (demo_world ss)" "view (loaded_world s) = db_with [s]" "w_clock (loaded_world s) = 200"
  "w_objs (loaded_world s) 1 = Some s" "quiet (loaded_world s)" "w_db (demo_world ss) = db_with ss"
  by (simp_all add: demo_world_def loaded_world_def start_world_def view_def quiet_def)

lemma db_with_tables [simp]:
  "scans (db_with ss) = ss" "scan_events (db_with ss) = []" "outbox (db_with ss) = []"
  "findings (db_with ss) = []" "audit_events (db_with ss) = []"
  by (simp_all add: db_with_def)

lemma demo_ids_inject: "m < 100 \<Longrightarrow> n < 100 \<Longrightarrow> demo_ids m = demo_ids n \<longleftrightarrow> m = n"
  by (simp add: demo_ids_def word_of_nat_eq_iff take_bit_nat_eq_self)

lemma demo_ids_not_1: "n < 100 \<Longrightarrow> demo_ids n \<noteq> 1"
  using word_of_nat_eq_iff [of "100 + n" "1::nat", where ?'a = 128]
  by (simp add: demo_ids_def take_bit_nat_eq_self)

lemma fresh_demo_ids: "fresh_ids 8 demo_ids 0 {1}"
  using demo_ids_not_1 by (simp add: demo_ids_inject numeral_eq_Suc)

lemma demo_world_ids [simp]:
  "w_uuids (demo_world ss) = demo_ids" "w_drawn (demo_world ss) = 0"
  "w_uuids (loaded_world s) = demo_ids" "w_drawn (loaded_world s) = 0"
  by (simp_all add: demo_world_def loaded_world_def start_world_def)

lemma fresh_demo: "(\<And>s. s \<in> set ss \<Longrightarrow> sc_id s = 1) \<Longrightarrow> fresh 8 (demo_world ss)"
  using fresh_ids_mono [OF fresh_demo_ids, of "ids_in_use (db_with ss)"]
  by (auto simp: fresh_def ids_in_use_def)

lemma fresh_loaded: "sc_id s = 1 \<Longrightarrow> fresh 8 (loaded_world s)"
  using fresh_ids_mono [OF fresh_demo_ids, of "ids_in_use (db_with [s])"]
  by (auto simp: fresh_def ids_in_use_def)

lemma loaded_settled: "sc_id s = 1 \<Longrightarrow> sc_tenant_id s = 2 \<Longrightarrow> settled 8 1 s (loaded_world s)"
  using fresh_loaded by (simp add: settled_def loaded_def find_scan_def scan_at_def unique_scans_def)

lemma demo_dispatch:
  "quiet dispatcher_world" "w_pend dispatcher_world = (\<lambda>d. d)" "w_clock dispatcher_world = 200"
  "next_pending {} (view dispatcher_world) = Some demo_outbox" "outbox_checks demo_outbox"
  "scan_job_payload_from_dict (ob_payload demo_outbox) =
    Inr \<lparr>jp_scan_id = 1, jp_tenant_id = 2, jp_correlation_id = ''corr''\<rparr>"
  "find_scan (ob_tenant_id demo_outbox) (ob_scan_id demo_outbox) (view dispatcher_world) = Some demo_scan"
  "unique_scans (view dispatcher_world)" "outbox (view dispatcher_world) = [demo_outbox]"
  "jq_enqueue_scan (demo_queue r) pl c = r" "scan_checks demo_scan"
  by (simp_all add: dispatcher_world_def start_world_def quiet_def view_def)
    (simp_all add: next_pending_def order_by_def select_all_def demo_outbox_def outbox_checks_def
      find_scan_def scan_at_def unique_scans_def demo_queue_def demo_scan_def scan_checks_def
      count_set_def max_len_def)

end
