(* ===== verification/Execution_Properties.thy ===== *)
theory Execution_Properties
  imports Scenarios
begin

text \<open>
  The properties of scan execution: the state machine, a worker's attempt in every way it
  can end, and what holds of all sessions together.
\<close>

section \<open>The state machine\<close>

text \<open>C10 (transition): when \<open>transition\<close> returns, whatever other sessions did while it
  waited, the target was a valid edge from the status the session believed in, the row
  really had that status when the statement ran, exactly that row was changed, to the
  target status and within the table's checks, and the change is committed with nothing
  left pending.\<close>

theorem transition_commits:
  assumes run: "transition sync i target upd w = (Inr s', w')"
  shows "\<exists>s r w1. w_objs w i = Some s \<and> target \<in> set (valid_transitions (sc_status s)) \<and>
    pause_stmt w = (Inr (), w1) \<and> r \<in> set (scans (view w1)) \<and>
    scan_at (sc_tenant_id s) i r \<and> sc_status r = sc_status s \<and>
    s' = apply_scan_update (transition_fields s target upd (w_clock w)) (w_clock w1) r \<and>
    sc_status s' = target \<and> scan_checks s' \<and>
    w_db w' = update_scans (\<lambda>x. scan_at (sc_tenant_id s) i x \<and> sc_status x = sc_status s)
      (transition_fields s target upd (w_clock w)) (w_clock w1) (view w1) \<and>
    s' \<in> set (scans (w_db w')) \<and> w_pend w' = (\<lambda>x. x)"
proof -
  obtain s where s: "w_objs w i = Some s"
    using run by (cases "w_objs w i") (simp_all add: transition_def obj_def prog_simps)
  have valid: "target \<in> set (valid_transitions (sc_status s))"
    using run transition_invalid [OF s] by (cases "target \<in> set (valid_transitions (sc_status s))") auto
  let ?u = "transition_fields s target upd (w_clock w)"
  let ?G = "\<lambda>x. scan_at (sc_tenant_id s) i x \<and> sc_status x = sc_status s"
  have run': "bindE (guarded_update sync (sc_tenant_id s) i (\<lambda>x. sc_status x = sc_status s) ?u) (\<lambda>updated.
      case updated of
        None \<Rightarrow> bindE (obj i) (\<lambda>s. raiseE (exc StaleScanStateError (stale_message i (sc_status s) target)))
      | Some s' \<Rightarrow> thenE commit (retE s')) w = (Inr s', w')"
    using run s valid
    by (simp add: transition_def scan_repo_conditional_update_def run_simps(3,4,8) obj_known assert_valid_def run_simps(1))
  obtain r1 w1 where p: "pause_stmt w = (r1, w1)" by (cases "pause_stmt w")
  then have r1: "r1 = Inr ()"
    using run' by (cases r1) (simp_all add: guarded_update_def run_simps(3,4))
  have ok: "\<not> w_failed w1"
    using run' p r1 by (simp add: guarded_update_def run_simps(3,4) split: if_splits)
  obtain r where r: "select_one ?G (scans (view w1)) = Some r"
    using run' p r1 ok
    by (cases "select_one ?G (scans (view w1))")
      (simp_all add: guarded_update_def run_simps(2-4) Let_def obj_def split: option.splits)
  let ?r = "apply_scan_update ?u (w_clock w1) r"
  have chk: "scan_checks ?r"
    using run' p r1 ok r by (simp add: guarded_update_def run_simps(3,4) Let_def split: if_splits)
  have fin: "s' = ?r \<and> w_db w' = update_scans ?G ?u (w_clock w1) (view w1) \<and> w_pend w' = (\<lambda>x. x)"
    using run' p r1 ok r chk
    by (auto simp: guarded_update_def run_simps(1,3,4) Let_def commit_def view_def)
  have "r \<in> set (scans (view w1)) \<and> ?G r" by (rule select_one_SomeD [OF r])
  moreover from this fin have "s' \<in> set (scans (w_db w'))"
    by (force simp: update_scans_def update_where_def)
  ultimately show ?thesis using s valid p r1 chk fin by auto
qed

theorem transition_commits_witness:
  "\<exists>s r w1. w_objs (loaded_world demo_scan) 1 = Some s \<and> PREPARING \<in> set (valid_transitions (sc_status s)) \<and>
    pause_stmt (loaded_world demo_scan) = (Inr (), w1) \<and> r \<in> set (scans (view w1)) \<and> sc_status r = QUEUED"
proof -
  have "live_row demo_scan (w_clock (loaded_world demo_scan))"
    by (simp add: live_row_def demo_scan_def scan_checks_def count_set_def max_len_def)
  from adv_step(1) [OF loaded_settled this, of PREPARING no_update]
  have "transition True 1 PREPARING no_update (loaded_world demo_scan) =
      (Inr (advance demo_scan PREPARING no_update 200), adv_world 1 demo_scan PREPARING no_update (loaded_world demo_scan))"
    by (simp add: demo_scan_def)
  from transition_commits [OF this] show ?thesis by (auto simp: demo_scan_def)
qed

text \<open>The table: every status is reachable from \<open>PENDING\<close>, every status that is not
  terminal can be cancelled, and a terminal status is never left.\<close>

theorem status_table:
  "status_path PENDING s \<and> (terminal s \<or> CANCELLED \<in> set (valid_transitions s)) \<and>
    (status_path s t \<and> terminal s \<longrightarrow> t = s)"
proof -
  have 1: "status_path PENDING QUEUED" by (rule path_step [OF path_refl]) simp
  have 2: "status_path PENDING PREPARING" by (rule path_step [OF 1]) simp
  have 3: "status_path PENDING RUNNING" by (rule path_step [OF 2]) simp
  have 4: "status_path PENDING COLLECTING" by (rule path_step [OF 3]) simp
  have 5: "status_path PENDING PROCESSING" by (rule path_step [OF 4]) simp
  have "status_path PENDING s"
    using 1 2 3 4 5 path_refl path_step [OF 5, of s] path_step [OF 4, of s] by (cases s) simp_all
  moreover have "terminal s \<or> CANCELLED \<in> set (valid_transitions s)"
    by (cases s) (simp_all add: terminal_def)
  ultimately show ?thesis using terminal_absorbing by blast
qed

theorem status_table_witness: "status_path PENDING SUCCEEDED \<and> CANCELLED \<in> set (valid_transitions PROCESSING)"
  using status_table [of SUCCEEDED SUCCEEDED] status_table [of PROCESSING PROCESSING] by (simp add: terminal_def)

section \<open>All sessions together\<close>

text \<open>C1 (system history): in every interleaving of API requests, worker tasks and
  dispatcher ticks, each session interrupted at its await points by any others, every
  scan row stays, keeps its identity and its request, moves only along the state machine
  with a rising attempt counter, and is frozen (up to the queue's job id) once terminal;
  events and audit entries are append-only, outbox rows are never unpublished.\<close>

theorem system_history: "sys_reach d d' \<Longrightarrow> evolves d d'"
  by (rule sys_reach_evolves)

theorem system_history_witness:
  "\<exists>d'. sys_reach (db_with [demo_scan]) d' \<and> evolves (db_with [demo_scan]) d' \<and>
    (\<exists>s\<in>set (scans d'). sc_status s = CANCELLED)"
proof -
  have live: "live_row demo_scan (w_clock (demo_world [demo_scan]))" "\<not> terminal (sc_status demo_scan)"
    by (simp_all add: live_row_def demo_scan_def scan_checks_def count_set_def max_len_def terminal_def)
  have f: "fresh 1 (demo_world [demo_scan])"
    using fresh_le [OF fresh_demo [of "[demo_scan]"], of 1] by (simp add: demo_scan_def)
  have s: "find_scan 2 1 (view (demo_world [demo_scan])) = Some demo_scan"
    "unique_scans (view (demo_world [demo_scan]))"
    by (simp_all add: find_scan_def scan_at_def demo_scan_def unique_scans_def)
  have q: "cancel_raises_exceptions (demo_queue (Returns []))"
    by (simp add: cancel_raises_exceptions_def demo_queue_def)
  obtain w' where c: "cancel_scan True (demo_queue (Returns [])) 2 1 (demo_world [demo_scan]) =
      (Inr (scan_read_of (advance demo_scan CANCELLED no_update (w_clock (demo_world [demo_scan])))), w')"
    and w': "quiet w'" "w_db w' = view w'"
      "find_scan 2 1 (w_db w') = Some (advance demo_scan CANCELLED no_update (w_clock (demo_world [demo_scan])))"
    using cancel_scan_quiet [OF demo_view(4) f s(2,1) live q] by blast
  have "action_prog (CancelScan True (demo_queue (Returns [])) 2 1) (demo_world [demo_scan]) =
      (Inr (), w'\<lparr>w_pend := (\<lambda>d. d)\<rparr>)"
    using request_settled [of "cancel_scan True (demo_queue (Returns [])) 2 1", OF c w'(1,2)]
    by (simp add: run_simps(1,4))
  moreover have "interferes []" by (simp add: interferes_def)
  ultimately have "sys_step (db_with [demo_scan]) (w_db (w'\<lparr>w_pend := (\<lambda>d. d)\<rparr>))"
    unfolding demo_world_def by (rule sys_session [rotated])
  then have r: "sys_reach (db_with [demo_scan]) (w_db w')" using sys_start sys_next by fastforce
  moreover have "\<exists>s\<in>set (scans (w_db w')). sc_status s = CANCELLED"
    using find_scan_SomeD [OF w'(3)] by (metis advance_fields(3))
  ultimately show ?thesis using system_history [OF r] by blast
qed

text \<open>What a tenant's session may change of a database and what it may not.\<close>

definition others :: "uuid \<Rightarrow> db \<Rightarrow> db" where
  "others tn d = d\<lparr>scans := other_rows tn sc_tenant_id (scans d), scan_events := other_rows tn ev_tenant_id (scan_events d),
     outbox := other_rows tn ob_tenant_id (outbox d), findings := other_rows tn fi_tenant_id (findings d),
     audit_events := filter (\<lambda>v. au_tenant_id v \<noteq> Some tn) (audit_events d)\<rparr>"

lemma tenant_only_others: "tenant_only tn = (\<lambda>x y. others tn y = others tn x)"
proof (intro ext)
  fix x y
  show "tenant_only tn x y = (others tn y = others tn x)"
    by (cases x, cases y) (auto simp: tenant_only_def others_def)
qed

lemma interleaved_image:
  assumes "interleaved (\<lambda>x y. f y = f x) es d d'" "\<forall>e\<in>set es. \<forall>x. f (ext_db e x) = act e (f x)"
  shows "f d' = fold act es (f d)"
  using assms
proof (induction es arbitrary: d)
  case (Cons e es)
  then obtain d1 where "f d1 = f d" "interleaved (\<lambda>x y. f y = f x) es (ext_db e d1) d'" by auto
  with Cons show ?case by simp
qed simp

text \<open>C2 (tenant isolation): a session that acts for one tenant leaves the rows of every
  other tenant, in every table, exactly as its environment left them.  Whatever the environment commits at
  the session's await points (\<open>script\<close>), the committed database is the result of
  the environment's moves that the session met, in their order, and of steps of the session
  between them, each of which leaves everything but its tenant's rows as it finds it; so that,
  where the moves act on the rows of the other tenants (\<open>act\<close>), these are in the end what
  the moves alone have made of them.  Nothing is asked of the environment: it may write what
  it likes, rows of this tenant and of others, between any two statements.\<close>

theorem sessions_stay_in_their_tenant:
  assumes "action_tenant a = Some tn"
    and "action_prog a (start_world d t script ids) = (r, w')"
  shows "\<exists>es. script = es @ w_script w' \<and>
    interleaved (\<lambda>x y. others tn y = others tn x) es d (w_db w') \<and>
    (\<forall>act. (\<forall>e\<in>set es. \<forall>x. others tn (ext_db e x) = act e (others tn x)) \<longrightarrow>
      others tn (w_db w') = fold act es (others tn d))"
proof -
  have "able (tenant_only tn) ((=) tn) (start_world d t script ids)" by (rule able_start) (rule iso.R_refl)
  from keeps_interleaved [OF keeps_action_tenant [OF assms(1)] this] assms(2)
  obtain es where es: "script = es @ w_script w'" "interleaved (tenant_only tn) es d (w_db w')"
    by (auto simp: start_world_def)
  have i: "interleaved (\<lambda>x y. others tn y = others tn x) es d (w_db w')"
    using es(2) by (simp only: tenant_only_others)
  from es(1) i interleaved_image [OF i] show ?thesis by (intro exI [of _ es] conjI allI impI)
qed

text \<open>The witness: while tenant 2 cancels a scan, tenant 5 commits one of its own and it ends.\<close>

definition foreign_scan :: scan where
  "foreign_scan = demo_scan\<lparr>sc_id := 31, sc_tenant_id := 5\<rparr>"

definition env_move :: "(db \<Rightarrow> db) \<Rightarrow> ext" where
  "env_move f = \<lparr>ext_db = f, ext_redis = (\<lambda>r. r), ext_time = 1, ext_timeout = False, ext_broken = False\<rparr>"

definition foreign_moves :: "ext list" where
  "foreign_moves = [env_move (insert_scan foreign_scan),
     env_move (\<lambda>d. d\<lparr>scans := map (\<lambda>s. if sc_tenant_id s = 5 then s\<lparr>sc_status := SUCCEEDED\<rparr> else s) (scans d)\<rparr>)]"

theorem sessions_stay_in_their_tenant_witness:
  "other_rows 2 sc_tenant_id (scans (w_db (snd (action_prog (CancelScan True (demo_queue (Returns [])) 2 1)
      (start_world (db_with [demo_scan]) 200 foreign_moves demo_ids))))) \<in>
    {[], [foreign_scan], [foreign_scan\<lparr>sc_status := SUCCEEDED\<rparr>]}"
proof -
  obtain r w' where run: "action_prog (CancelScan True (demo_queue (Returns [])) 2 1)
      (start_world (db_with [demo_scan]) 200 foreign_moves demo_ids) = (r, w')"
    by (metis surj_pair)
  have a: "action_tenant (CancelScan True (demo_queue (Returns [])) 2 1) = Some 2" by simp
  from sessions_stay_in_their_tenant [OF a run] obtain es where es: "foreign_moves = es @ w_script w'"
    and f: "\<And>act. (\<forall>e\<in>set es. \<forall>x. others 2 (ext_db e x) = act e (others 2 x)) \<Longrightarrow>
      others 2 (w_db w') = fold act es (others 2 (db_with [demo_scan]))" by blast
  have sub: "set es \<subseteq> set foreign_moves" unfolding es by simp
  have other: "other_rows 2 sc_tenant_id (map (\<lambda>s. if sc_tenant_id s = 5 then s\<lparr>sc_status := SUCCEEDED\<rparr> else s) xs) =
      map (\<lambda>s. if sc_tenant_id s = 5 then s\<lparr>sc_status := SUCCEEDED\<rparr> else s) (other_rows 2 sc_tenant_id xs)" for xs
    by (induction xs) (auto simp: other_rows_def)
  have "\<forall>e\<in>set foreign_moves. \<forall>x. others 2 (ext_db e x) = ext_db e (others 2 x)"
    by (simp add: foreign_moves_def env_move_def others_def insert_scan_def foreign_scan_def other)
      (simp add: other_rows_def)
  with sub have "\<forall>e\<in>set es. \<forall>x. others 2 (ext_db e x) = ext_db e (others 2 x)" by blast
  from f [OF this] have o: "others 2 (w_db w') = fold ext_db es (others 2 (db_with [demo_scan]))" .
  have "es = [] \<or> es = [foreign_moves ! 0] \<or> es = foreign_moves"
    using es by (cases es rule: list.exhaust; cases "tl es") (auto simp: foreign_moves_def Cons_eq_append_conv)
  then have "scans (fold ext_db es (others 2 (db_with [demo_scan]))) \<in>
      {[], [foreign_scan], [foreign_scan\<lparr>sc_status := SUCCEEDED\<rparr>]}"
    by (elim disjE) (simp_all add: foreign_moves_def env_move_def insert_scan_def others_def db_with_def
        other_rows_def foreign_scan_def demo_scan_def)
  moreover have "other_rows 2 sc_tenant_id (scans (w_db w')) = scans (others 2 (w_db w'))" by (simp add: others_def)
  ultimately show ?thesis unfolding run snd_conv by (simp only: o)
qed

section \<open>One attempt\<close>

lemma evolves_unique_back:
  assumes "evolves d d'" "unique_scans d'"
  shows "unique_scans d"
proof -
  let ?n = "length (scans d)"
  have g: "list_all2 scan_evolves (scans d) (take ?n (scans d'))"
    using assms(1) by (simp add: evolves_def grows_def)
  have "map sc_id (scans d) = map sc_id (take ?n (scans d'))"
    using g by (induction rule: list_all2_induct) (simp_all add: scan_evolves_def scan_identity_def)
  moreover have "distinct (map sc_id (take ?n (scans d')))"
    using assms(2) by (simp add: unique_scans_def take_map [symmetric])
  ultimately show ?thesis by (simp add: unique_scans_def)
qed

text \<open>C11 (claim exclusivity): once an attempt has been claimed and committed, no later
  claim of the same attempt succeeds, in any session, whatever has happened in between;
  it changes nothing.\<close>

theorem claim_is_exclusive:
  assumes claim: "scan_repo_claim_for_execution sync tn i a worker w = (Inr (Some r), w1)"
      "commit w1 = (Inr (), w2)"
    and later: "evolves (w_db w2) (view v1)" "unique_scans (view v1)" "pause_stmt v = (Inr (), v1)" "\<not> w_failed v1"
  shows "sc_attempt r = a + 1 \<and>
    (\<exists>v2. scan_repo_claim_for_execution sync' tn i a worker' v = (Inr None, v2) \<and>
      w_db v2 = w_db v1 \<and> w_pend v2 = w_pend v1)"
proof -
  let ?G = "\<lambda>s. scan_at tn i s \<and> sc_status s = QUEUED \<and> sc_attempt s = a"
  obtain r0 wp where p: "pause_stmt w = (r0, wp)" by (cases "pause_stmt w")
  have r0: "r0 = Inr ()" "\<not> w_failed wp"
    using claim(1) p by (cases r0; simp add: scan_repo_claim_for_execution_def guarded_update_def run_simps(4) split: if_splits)+
  obtain s where s: "select_one ?G (scans (view wp)) = Some s"
    using claim(1) p r0 by (cases "select_one ?G (scans (view wp))")
      (simp_all add: scan_repo_claim_for_execution_def guarded_update_def run_simps(4) Let_def)
  have r: "r = apply_scan_update (claim_update a worker) (w_clock wp) s \<and>
      w_db w2 = update_scans ?G (claim_update a worker) (w_clock wp) (view wp)"
    using claim p r0 s
    by (auto simp: scan_repo_claim_for_execution_def guarded_update_def run_simps(4) Let_def commit_def view_def
        split: if_splits)
  have "scan_at tn i s" "s \<in> set (scans (view wp))" "?G s" using select_one_SomeD [OF s] by simp_all
  then have at: "sc_attempt r = a + 1" "r \<in> set (scans (w_db w2))" "scan_at tn i r"
    using r by (force simp: claim_update_def update_scans_def update_where_def scan_at_def)+
  obtain r' where r': "find_scan tn i (w_db w2) = Some r'"
    using at by (cases "find_scan tn i (w_db w2)") (auto simp: find_scan_def select_one_None_iff)
  have "r' = r"
    using unique_scans_row [OF evolves_unique_back [OF later(1,2)] _ at(2)] find_scan_SomeD [OF r'] at(3)
    by (simp add: scan_at_def)
  with r' at(1) show ?thesis
    using claim_after_claim [OF r' _ later(1-4)] by simp
qed

theorem claim_is_exclusive_witness:
  "\<exists>w1 w2 v2. scan_repo_claim_for_execution True 2 1 0 ''a'' (demo_world [demo_scan]) =
      (Inr (Some (claimed_row demo_scan ''a'' 200)), w1) \<and> commit w1 = (Inr (), w2) \<and>
    scan_repo_claim_for_execution True 2 1 0 ''b'' (start_world (w_db w2) 300 [] demo_ids) = (Inr None, v2) \<and>
    w_db v2 = w_db w2"
proof -
  let ?w = "demo_world [demo_scan]" and ?G = "\<lambda>s. scan_at 2 1 s \<and> sc_status s = QUEUED \<and> sc_attempt s = 0"
  have sel: "select_one ?G (scans (view ?w)) = Some demo_scan"
    by (simp add: scan_at_def demo_scan_def)
  have chk: "scan_checks (claimed_row demo_scan ''a'' 200)"
    by (simp add: claimed_row_def apply_scan_update_def claim_update_def no_update_def demo_scan_def scan_checks_def
        count_set_def max_len_def opt_ge_def)
  have w: "pause_stmt ?w = (Inr (), ?w)" "\<not> w_failed ?w" "w_db ?w = db_with [demo_scan]"
    by (simp_all add: pause_stmt_def demo_world_def start_world_def)
  define w1 where "w1 = ?w\<lparr>w_pend := (\<lambda>d. update_scans ?G (claim_update 0 ''a'') 200 (w_pend ?w d)),
    w_objs := (w_objs ?w)(1 := Some (claimed_row demo_scan ''a'' 200))\<rparr>"
  have r: "apply_scan_update (claim_update 0 ''a'') 200 demo_scan = claimed_row demo_scan ''a'' 200"
    by (simp add: claimed_row_def demo_scan_def)
  have 1: "scan_repo_claim_for_execution True 2 1 0 ''a'' ?w = (Inr (Some (claimed_row demo_scan ''a'' 200)), w1)"
    using w(1,2) sel r chk
    by (simp add: scan_repo_claim_for_execution_def guarded_update_def run_simps(4) Let_def w1_def del: demo_view)
      (simp add: demo_view)
  have p: "w_pend w1 = update_scans ?G (claim_update 0 ''a'') 200" "w_db w1 = db_with [demo_scan]" "\<not> w_failed w1"
    using w(2,3) by (simp_all add: w1_def)
  define w2 where "w2 = w1\<lparr>w_db := view w1, w_pend := (\<lambda>x. x)\<rparr>"
  define v where "v = start_world (w_db w2) 300 [] demo_ids"
  have 2: "commit w1 = (Inr (), w2)" using p(3) by (simp add: commit_def w2_def)
  have d: "w_db w2 = update_scans ?G (claim_update 0 ''a'') 200 (db_with [demo_scan])"
    using p by (simp add: w2_def view_def)
  have v: "view v = w_db w2" "w_db v = w_db w2" "w_script v = []" "\<not> w_failed v"
    by (simp_all add: v_def start_world_def view_def)
  have "unique_scans (view v)" by (simp add: v d unique_scans_def update_scans_def)
  then have "\<exists>v2. scan_repo_claim_for_execution True 2 1 0 ''b'' v = (Inr None, v2) \<and> w_db v2 = w_db v \<and> w_pend v2 = w_pend v"
    using claim_is_exclusive [OF 1 2, of v v] v evolves_refl by (simp add: pause_stmt_quiet)
  then show ?thesis using 1 2 v(2) by (auto simp: v_def)
qed

end
