(* ===== verification/Attempt_Properties.thy ===== *)
theory Attempt_Properties
  imports Scenarios
begin

text \<open>
  The properties of one execution attempt: which deliveries it refuses, how it ends when the
  plugin succeeds, fails, times out or is cancelled, what it always cleans up, and the two
  ways in which it leaves its scan stranded.
\<close>

section \<open>Concrete rows used by the witnesses\<close>

lemma demo_live: "live_row demo_scan 200" "sc_status demo_scan = QUEUED" "sc_id demo_scan = 1"
  "sc_tenant_id demo_scan = 2" "sc_attempt demo_scan = 0" "sc_max_attempts demo_scan = 3"
  by (simp_all add: live_row_def demo_scan_def scan_checks_def count_set_def max_len_def)

lemma claimed_demo: "live_row (claimed_row demo_scan ''w'' 200) 200"
  "settled 8 1 (claimed_row demo_scan ''w'' 200) (loaded_world (claimed_row demo_scan ''w'' 200))"
  using claimed_live [OF demo_live(1,2), of "''w''"] by (simp_all add: demo_live loaded_settled)

lemma demo_queued: "queued_scan 2 1 demo_scan (demo_world [demo_scan])"
  using demo_live
  by (simp add: queued_scan_def find_scan_def scan_at_def unique_scans_def) (simp add: demo_scan_def truthy_def)

lemma demo_queue_ok: "queue_raises_exceptions (demo_queue r)" "cleanup_raises_exceptions (demo_plugin v ns)"
  "en_queue (demo_engine pl) = demo_queue (Returns ''job-1'')"
  by (simp_all add: queue_raises_exceptions_def cleanup_raises_exceptions_def demo_queue_def demo_plugin_def
      demo_engine_def)

lemma demo_registry: "registry_get (en_registry (demo_engine pl)) (sc_scanner_type demo_scan) = Inr pl"
  by (simp add: demo_engine_def registry_get_def demo_scan_def)

section \<open>Which deliveries are run\<close>

text \<open>Duplicate delivery: a delivery for a scan that is not \<open>QUEUED\<close> (already running,
  finished, or cancelled) is ignored: no plugin is called and nothing is written.\<close>

theorem not_queued_is_ignored:
  assumes "quiet w" "find_scan tn i (view w) = Some s" "sc_status s \<noteq> QUEUED"
  shows "\<exists>w'. run en tn i worker w = (Inr (), w') \<and> w_db w' = w_db w \<and> w_pend w' = w_pend w \<and>
    w_trace w' = w_trace w @ [Log ''scan_engine.duplicate_or_stale_delivery_ignored'']"
proof -
  have "sc_id s = i" using find_scan_SomeD [OF assms(2)] by simp
  then show ?thesis
    using assms by (simp add: run_def scan_repo_get_by_id_def prog_simps)
qed

theorem not_queued_is_ignored_witness:
  "\<exists>w'. run (demo_engine (demo_plugin (Returns ()) (Returns []))) 2 1 ''w'' (demo_world [demo_scan\<lparr>sc_status := RUNNING\<rparr>]) =
     (Inr (), w') \<and> w_db w' = db_with [demo_scan\<lparr>sc_status := RUNNING\<rparr>]"
  using not_queued_is_ignored [of "demo_world [demo_scan\<lparr>sc_status := RUNNING\<rparr>]" 2 1 "demo_scan\<lparr>sc_status := RUNNING\<rparr>"]
  by (fastforce simp: find_scan_def scan_at_def demo_live)

section \<open>The run that succeeds\<close>

text \<open>C12 (success): a queued scan whose plugin prepares, executes, collects and normalises
  ends \<open>SUCCEEDED\<close> and committed, its attempt counter one higher, with its start and
  completion stamped; every detected fingerprint is stored exactly once, findings already
  known are not duplicated, and nothing is enqueued again.\<close>

theorem attempt_succeeds:
  assumes q: "queued_scan tn i s w" and f: "fresh (3 * length ns + 5) w" and worker: "length worker \<le> 200"
    and reg: "registry_get (en_registry en) (sc_scanner_type s) = Inr pl"
    and valid: "pl_validate_config pl (context_of (claimed_row s worker (w_clock w)) tn (corr_of s)) (w_clock w) = Returns ()"
    and pl: "plugin_succeeds pl (context_of (claimed_row s worker (w_clock w)) tn (corr_of s)) (w_clock w) ns"
    and cl: "cleanup_raises_exceptions pl"
    and fits: "\<And>n. n \<in> set ns \<Longrightarrow>
      detection_fits (en_sha256 en) (context_of (claimed_row s worker (w_clock w)) tn (corr_of s)) n"
    and past: "findings_past w" and uniq: "findings_unique (view w)"
  shows "\<exists>s' w'. run en tn i worker w = (Inr (), w') \<and> find_scan tn i (w_db w') = Some s' \<and>
    sc_status s' = SUCCEEDED \<and> sc_attempt s' = sc_attempt s + 1 \<and> sc_completed_at s' = Some (w_clock w) \<and>
    outbox (w_db w') = outbox (view w) \<and> findings_unique (w_db w') \<and>
    keys_of (w_db w') = keys_of (view w) \<union>
      detected_key (en_sha256 en) (context_of (claimed_row s worker (w_clock w)) tn (corr_of s)) ` set ns"
proof -
  let ?s = "completed_row (claimed_row s worker (w_clock w)) worker (w_clock w)"
  have "sc_status ?s = SUCCEEDED" "sc_attempt ?s = sc_attempt s + 1" "sc_completed_at ?s = Some (w_clock w)"
    by (simp_all add: completed_row_def)
      (simp_all add: advance_def transition_fields_def apply_scan_update_def no_update_def
        processing_row_def stage_row_def claimed_row_def or_now_def)
  then show ?thesis using run_quiet_success [OF q f worker reg valid pl cl fits past uniq] by blast
qed

theorem attempt_succeeds_witness:
  "\<exists>s' w'. run (demo_engine (demo_plugin (Returns ()) (Returns [demo_finding]))) 2 1 ''w'' (demo_world [demo_scan]) =
     (Inr (), w') \<and> find_scan 2 1 (w_db w') = Some s' \<and> sc_status s' = SUCCEEDED \<and> sc_attempt s' = 1 \<and>
     card (keys_of (w_db w')) = 1"
proof -
  let ?pl = "demo_plugin (Returns ()) (Returns [demo_finding])"
  let ?cx = "context_of (claimed_row demo_scan ''w'' 200) 2 (corr_of demo_scan)"
  have f: "fresh (3 * length [demo_finding] + 5) (demo_world [demo_scan])"
    using fresh_demo [of "[demo_scan]"] by (simp add: demo_live)
  have fits: "detection_fits (en_sha256 (demo_engine ?pl)) ?cx n" if "n \<in> set [demo_finding]" for n
    using that by (simp add: detection_fits_def finding_fits_def demo_finding_def demo_engine_def
        finding_of_def compute_fingerprint_def context_of_def corr_of_def or_default_def demo_scan_def)
  have "findings_past (demo_world [demo_scan])" "findings_unique (view (demo_world [demo_scan]))"
    "plugin_succeeds ?pl ?cx 200 [demo_finding]" "pl_validate_config ?pl ?cx 200 = Returns ()"
    by (simp_all add: findings_past_def findings_unique_def plugin_succeeds_def demo_plugin_def)
  with attempt_succeeds [OF demo_queued f _ demo_registry _ _ demo_queue_ok(2), of "''w''"] fits
  show ?thesis by (simp add: keys_of_def demo_live) (metis Un_empty_left card_1_singleton_iff One_nat_def)
qed

section \<open>The run that fails\<close>

text \<open>C16 (transient error): an error of class \<open>TransientScanError\<close> with attempts left puts
  the scan back in the queue, in the same transaction as exactly one new outbox row for
  this attempt, whose countdown is the backoff delay; a retry notice is published.\<close>

theorem transient_error_requeues:
  assumes w: "settled (Suc (Suc k)) i s w" and live: "live_row s (w_clock w)"
    and st: "sc_status s \<in> {PREPARING, RUNNING, COLLECTING}"
    and e: "ex_class e = TransientScanError" "sc_attempt s < sc_max_attempts s"
    and delay: "next_delay_seconds (en_retry en) (en_random en) (sc_attempt s) = Inr delay" "0 \<le> delay"
    and corr: "length corr \<le> 100"
    and key: "(sc_tenant_id s, i, sc_attempt s) \<notin> outbox_key ` set (outbox (view w))"
  shows "\<exists>w' b. on_stage_error en tn i corr e w = (Inr (), w') \<and>
    find_scan (sc_tenant_id s) i (w_db w') = Some (advance s QUEUED no_update (w_clock w)) \<and>
    outbox (w_db w') = outbox (view w) @ [b] \<and> outbox_key b = (sc_tenant_id s, i, sc_attempt s) \<and>
    ob_countdown_seconds b = delay \<and> ob_published_at b = None \<and>
    event_types i (w_db w') = event_types i (view w) @ [''scan.progress'']"
proof -
  have v: "QUEUED \<in> set (valid_transitions (sc_status s))" "sc_status s \<noteq> PENDING" using st by auto
  from handle_failure_requeues [OF w live v e delay corr key] obtain w' where
    h: "handle_failure en i e corr w = (Inr (), w')"
      "settled k i (advance s QUEUED no_update (w_clock w)) w'" "w_db w' = view w'"
      "outbox (view w') = outbox (view w) @
        [new_outbox (retry_outbox s corr delay) (w_uuids w (w_drawn w)) (w_clock w)]"
      "event_types i (view w') = event_types i (view w) @ [''scan.progress'']" by blast
  have "on_stage_error en tn i corr e w = (Inr (), w')"
    using e(1) h(1) by (simp add: on_stage_error_def is_exception_def)
  moreover have "sc_id s = i" by (rule settled_id [OF w])
  ultimately show ?thesis
    using h settled_find [OF h(2)] by (simp add: new_outbox_def retry_outbox_def outbox_key_def)
qed

theorem transient_error_requeues_witness:
  "\<exists>w' b. on_stage_error (demo_engine (demo_plugin (Returns ()) (Returns []))) 2 1 ''corr'' (exc TransientScanError ''x'')
     (loaded_world (claimed_row demo_scan ''w'' 200)) = (Inr (), w') \<and>
   outbox (w_db w') = [b] \<and> outbox_key b = (2, 1, 1) \<and> ob_countdown_seconds b = 15"
proof -
  let ?s = "claimed_row demo_scan ''w'' 200"
  have s: "settled (Suc (Suc 6)) 1 ?s (loaded_world ?s)" "live_row ?s (w_clock (loaded_world ?s))"
    using claimed_demo by simp_all
  have "next_delay_seconds (en_retry (demo_engine pl)) (en_random (demo_engine pl)) 1 = Inr 15" for pl
    by (simp add: next_delay_seconds_def demo_engine_def backoff_def pow2_def)
  with transient_error_requeues [OF s, of "exc TransientScanError ''x''"
      "demo_engine (demo_plugin (Returns ()) (Returns []))" 15 "''corr''" 2]
  show ?thesis by (fastforce simp: demo_live)
qed

text \<open>C18 (permanent error): any other error, or a transient one when the attempts are used
  up, ends the scan \<open>FAILED\<close> with the class name as code and the sanitised summary,
  queues nothing, and publishes one \<open>scan.failed\<close>.\<close>

theorem permanent_error_ends_failed:
  assumes w: "settled (Suc k) i s w" and live: "live_row s (w_clock w)"
    and st: "sc_status s \<in> {PREPARING, RUNNING, COLLECTING, PROCESSING}"
    and e: "is_exception e" "ex_class e \<noteq> BuiltinTimeoutError" "ex_class e \<noteq> ScanCancelledError"
    and final: "ex_class e \<noteq> TransientScanError \<or> sc_max_attempts s \<le> sc_attempt s"
    and len: "length (ex_name e) \<le> 100" "length corr \<le> 100"
    and q: "queue_raises_exceptions (en_queue en)"
  shows "\<exists>w' s'. on_stage_error en tn i corr e w = (Inr (), w') \<and>
    find_scan (sc_tenant_id s) i (w_db w') = Some s' \<and> sc_status s' = FAILED \<and>
    sc_error_code s' = Some (ex_name e) \<and> sc_error_summary s' = Some (se_summary (sanitize_exception e)) \<and>
    outbox (w_db w') = outbox (view w) \<and>
    event_types i (w_db w') = event_types i (view w) @ [''scan.failed'']"
proof -
  have v: "FAILED \<in> set (valid_transitions (sc_status s))" using st by auto
  from permanent_error_fails [OF w live v e final len q] obtain w' where
    h: "on_stage_error en tn i corr e w = (Inr (), w')"
      "settled k i (advance s FAILED (failure_fields (ex_name e) (se_summary (sanitize_exception e))) (w_clock w)) w'"
      "w_db w' = view w'" "outbox (view w') = outbox (view w)"
      "event_types i (view w') = event_types i (view w) @ [''scan.failed'']" by blast
  then show ?thesis
    using settled_find [OF h(2)]
    by (simp add: advance_def transition_fields_def apply_scan_update_def failure_fields_def no_update_def)
qed

theorem permanent_error_ends_failed_witness:
  "\<exists>w' s'. on_stage_error (demo_engine (demo_plugin (Returns ()) (Returns []))) 2 1 ''corr'' (exc ScanConfigError ''bad'')
     (loaded_world (claimed_row demo_scan ''w'' 200)) = (Inr (), w') \<and>
   find_scan 2 1 (w_db w') = Some s' \<and> sc_status s' = FAILED \<and> sc_error_code s' = Some ''ScanConfigError''"
proof -
  let ?s = "claimed_row demo_scan ''w'' 200"
  have s: "settled (Suc 7) 1 ?s (loaded_world ?s)" "live_row ?s (w_clock (loaded_world ?s))"
    using claimed_demo by simp_all
  have "ex_name (exc ScanConfigError ''bad'') = ''ScanConfigError''" "is_exception (exc ScanConfigError ''bad'')"
    by (simp_all add: exc_def is_exception_def)
  with permanent_error_ends_failed [OF s, of "exc ScanConfigError ''bad''" "''corr''"
      "demo_engine (demo_plugin (Returns ()) (Returns []))" 2] demo_queue_ok(1)
  show ?thesis by (fastforce simp: demo_live demo_queue_ok)
qed

text \<open>C34 (timeout): a timeout while the plugin prepares, executes or collects ends the
  scan \<open>TIMED_OUT\<close> with one event; while findings are being stored it instead raises
  out of the attempt, because the table has no edge to \<open>TIMED_OUT\<close> from there, and the scan
  keeps the status \<open>PROCESSING\<close>.\<close>

theorem timeout_outcome:
  assumes w: "settled (Suc k) i s w" and live: "live_row s (w_clock w)" and tn: "sc_tenant_id s = tn"
    and e: "ex_class e = BuiltinTimeoutError" and corr: "length corr \<le> 100"
  shows "(sc_status s \<in> {PREPARING, RUNNING, COLLECTING} \<longrightarrow>
      (\<exists>w'. on_stage_error en tn i corr e w = (Inr (), w') \<and>
        find_scan tn i (w_db w') = Some (advance s TIMED_OUT no_update (w_clock w)) \<and>
        outbox (w_db w') = outbox (view w) \<and>
        event_types i (w_db w') = event_types i (view w) @ [''scan.timed_out''])) \<and>
    (sc_status s = PROCESSING \<longrightarrow>
      on_stage_error en tn i corr e w =
        (Inl (exc InvalidScanTransitionError (invalid_transition_message PROCESSING TIMED_OUT)), w))"
proof (intro conjI impI)
  assume st: "sc_status s \<in> {PREPARING, RUNNING, COLLECTING}"
  from timeout_settles [OF w live st tn e corr] obtain w' where
    h: "on_stage_error en tn i corr e w = (Inr (), w')"
      "settled k i (advance s TIMED_OUT no_update (w_clock w)) w'" "w_db w' = view w'"
      "outbox (view w') = outbox (view w)"
      "event_types i (view w') = event_types i (view w) @ [''scan.timed_out'']" by blast
  then show "\<exists>w'. on_stage_error en tn i corr e w = (Inr (), w') \<and>
      find_scan tn i (w_db w') = Some (advance s TIMED_OUT no_update (w_clock w)) \<and>
      outbox (w_db w') = outbox (view w) \<and>
      event_types i (w_db w') = event_types i (view w) @ [''scan.timed_out'']"
    using settled_find [OF h(2)] tn by simp
next
  assume "sc_status s = PROCESSING"
  then show "on_stage_error en tn i corr e w =
      (Inl (exc InvalidScanTransitionError (invalid_transition_message PROCESSING TIMED_OUT)), w)"
    using timeout_while_processing e w by (simp add: settled_def loaded_def)
qed

theorem timeout_outcome_witness:
  "\<exists>w'. on_stage_error (demo_engine (demo_plugin (Returns ()) (Returns []))) 2 1 ''corr'' (exc BuiltinTimeoutError [])
     (loaded_world (claimed_row demo_scan ''w'' 200)) = (Inr (), w') \<and>
   event_types 1 (w_db w') = [''scan.timed_out'']"
proof -
  let ?s = "claimed_row demo_scan ''w'' 200"
  have s: "settled (Suc 7) 1 ?s (loaded_world ?s)" "live_row ?s (w_clock (loaded_world ?s))"
    using claimed_demo by simp_all
  with timeout_outcome [OF s, of 2 "exc BuiltinTimeoutError []" "''corr''"
      "demo_engine (demo_plugin (Returns ()) (Returns []))"]
  show ?thesis by (fastforce simp: demo_live event_types_def)
qed

section \<open>Cleanup, cancellation and stranded scans\<close>

text \<open>Cleanup: once the configuration is accepted, the plugin's cleanup is called
  whatever happens in the attempt: success, any exception, a timeout at any await point,
  cancellation, a lost race, or any interference by other sessions.\<close>

theorem cleanup_always_called:
  "PluginCall Cleanup i \<in> set (w_trace (snd (run_claimed en tn i pl cx worker corr w)))"
  by (rule run_claimed_cleans_up)

text \<open>Cancellation: a cancellation noticed at the first stage boundary stops the
  attempt before the plugin's prepare, execute and collect: the row stays as the
  cancelling request left it, the attempt returns normally with one \<open>scan.cancelled\<close> event,
  and the only plugin call is the cleanup.\<close>

theorem cancelled_attempt_stops:
  assumes w: "quiet w" "fresh 1 w" "unique_scans (view w)"
    and s: "find_scan tn i (view w) = Some s" "sc_status s = CANCELLED"
    and cx: "cx_tenant_id cx = tn" and corr: "length corr \<le> 100" and cl: "cleanup_raises_exceptions pl"
  shows "\<exists>w' tr. run_claimed en tn i pl cx worker corr w = (Inr (), w') \<and>
    find_scan tn i (w_db w') = Some s \<and>
    event_types i (w_db w') = event_types i (view w) @ [''scan.cancelled''] \<and>
    w_trace w' = w_trace w @ [Metric ''scan_engine.event.scan.cancelled'', Log ''scan_engine.event'',
      PluginCall Cleanup i] @ tr"
  by (rule run_claimed_cancelled [OF assms])

theorem cancelled_attempt_stops_witness:
  "\<exists>w'. run_claimed (demo_engine (demo_plugin (Returns ()) (Returns []))) 2 1 (demo_plugin (Returns ()) (Returns []))
      (context_of demo_scan 2 ''corr'') ''w'' ''corr'' (demo_world [demo_scan\<lparr>sc_status := CANCELLED\<rparr>]) = (Inr (), w') \<and>
    event_types 1 (w_db w') = [''scan.cancelled'']"
proof -
  let ?w = "demo_world [demo_scan\<lparr>sc_status := CANCELLED\<rparr>]"
  have "fresh 1 ?w" using fresh_le [OF fresh_demo, of "[demo_scan\<lparr>sc_status := CANCELLED\<rparr>]" 1] by (simp add: demo_live)
  from cancelled_attempt_stops [OF _ this, of 2 1 "demo_scan\<lparr>sc_status := CANCELLED\<rparr>"
      "context_of demo_scan 2 ''corr''" "''corr''" "demo_plugin (Returns ()) (Returns [])"]
  show ?thesis
    by (fastforce simp: unique_scans_def find_scan_def scan_at_def demo_live demo_queue_ok event_types_def context_of_def)
qed

text \<open>Stranded while processing: a \<open>TransientScanError\<close> raised while the findings are
  normalised escapes the attempt as an invalid transition, although attempts are left:
  the scan stays \<open>PROCESSING\<close>, the retry's outbox row is rolled back, and no later delivery
  will run the scan (it is not \<open>QUEUED\<close>).\<close>

theorem transient_error_while_processing_strands:
  assumes w: "settled (Suc (Suc (Suc (Suc k)))) i s w" and live: "live_row s (w_clock w)"
    and st: "sc_status s = PREPARING" and tn: "sc_tenant_id s = tn" "cx_tenant_id cx = tn"
    and pl: "plugin_collects pl cx (w_clock w) rfs" "pl_normalize_findings pl cx rfs (w_clock w) = Raises e"
    and e: "ex_class e = TransientScanError" "sc_attempt s < sc_max_attempts s" "ex_name e \<noteq> ''CancelledError''"
    and delay: "next_delay_seconds (en_retry en) (en_random en) (sc_attempt s) = Inr delay" "0 \<le> delay"
    and key: "(tn, i, sc_attempt s) \<notin> outbox_key ` set (outbox (view w))"
    and len: "length worker \<le> 200" "length corr \<le> 100" and cl: "cleanup_raises_exceptions pl"
  shows "\<exists>s' w'. run_claimed en tn i pl cx worker corr w =
      (Inl (exc InvalidScanTransitionError (invalid_transition_message PROCESSING QUEUED)), w') \<and>
    find_scan tn i (w_db w') = Some s' \<and> sc_status s' = PROCESSING \<and> sc_attempt s' = sc_attempt s \<and>
    outbox (w_db w') = outbox (view w)"
  using processing_transient_stuck [OF w live st tn pl e delay key len cl] by fastforce

theorem transient_error_while_processing_strands_witness:
  "\<exists>s' w'. run_claimed (demo_engine (demo_plugin (Returns ()) (Raises (exc TransientScanError ''db busy'')))) 2 1
      (demo_plugin (Returns ()) (Raises (exc TransientScanError ''db busy'')))
      (context_of demo_scan 2 ''corr'') ''w'' ''corr'' (loaded_world (claimed_row demo_scan ''w'' 200)) =
      (Inl (exc InvalidScanTransitionError (invalid_transition_message PROCESSING QUEUED)), w') \<and>
    find_scan 2 1 (w_db w') = Some s' \<and> sc_status s' = PROCESSING \<and> outbox (w_db w') = []"
proof -
  let ?s = "claimed_row demo_scan ''w'' 200"
  let ?pl = "demo_plugin (Returns ()) (Raises (exc TransientScanError ''db busy''))"
  let ?cx = "context_of demo_scan 2 ''corr''"
  have s: "settled (Suc (Suc (Suc (Suc 4)))) 1 ?s (loaded_world ?s)" "live_row ?s (w_clock (loaded_world ?s))"
    using claimed_demo by simp_all
  have "next_delay_seconds (en_retry (demo_engine pl)) (en_random (demo_engine pl)) (sc_attempt ?s) = Inr 15" for pl
    by (simp add: next_delay_seconds_def demo_engine_def backoff_def pow2_def demo_live)
  moreover have "plugin_collects ?pl ?cx 200 []" "cx_tenant_id ?cx = 2"
    "pl_normalize_findings ?pl ?cx [] 200 = Raises (exc TransientScanError ''db busy'')"
    by (simp_all add: plugin_collects_def demo_plugin_def context_of_def)
  ultimately show ?thesis
    using transient_error_while_processing_strands [OF s, of 2 ?cx ?pl "[]" "exc TransientScanError ''db busy''"
        "demo_engine ?pl" 15 "''w''" "''corr''"] demo_queue_ok(2)
    by (fastforce simp: demo_live)
qed

text \<open>Stranded while validating: if \<open>validate_config\<close> raises anything but a
  \<open>ScanConfigError\<close>, the error escapes the run: the claimed scan stays \<open>PREPARING\<close>
  and the plugin's cleanup is not called.\<close>

theorem validation_error_strands:
  assumes w: "settled (Suc k) i s w" and tn: "sc_tenant_id s = tn"
    and v: "pl_validate_config pl (context_of s tn corr) (w_clock w) = Raises e" "ex_class e \<noteq> ScanConfigError"
    and len: "length worker \<le> 200" "length corr \<le> 100"
  shows "\<exists>w'. execute_claimed en tn i pl worker corr w = (Inl e, w') \<and>
    find_scan tn i (w_db w') = Some s \<and>
    w_trace w' = w_trace w @ [Metric ''scan_engine.event.scan.started'', Log ''scan_engine.event'',
      PluginCall ValidateConfig i]"
proof -
  obtain w' where h: "execute_claimed en tn i pl worker corr w = (Inl e, w')" "settled k i s w'" "w_db w' = view w'"
    "w_trace w' = w_trace w @ [Metric ''scan_engine.event.scan.started'', Log ''scan_engine.event'',
      PluginCall ValidateConfig i]"
    using validate_escapes [OF w tn v len, of en] by blast
  then show ?thesis using settled_find [OF h(2)] tn by simp
qed

theorem validation_error_strands_witness:
  "\<exists>w'. execute_claimed (demo_engine (demo_plugin (Raises (exc ValueError ''x'')) (Returns []))) 2 1
      (demo_plugin (Raises (exc ValueError ''x'')) (Returns [])) ''w'' ''corr''
      (loaded_world (claimed_row demo_scan ''w'' 200)) = (Inl (exc ValueError ''x''), w') \<and>
    find_scan 2 1 (w_db w') = Some (claimed_row demo_scan ''w'' 200)"
proof -
  let ?s = "claimed_row demo_scan ''w'' 200"
  have s: "settled (Suc 7) 1 ?s (loaded_world ?s)" using claimed_demo by simp
  from validation_error_strands [OF s, of 2 "demo_plugin (Raises (exc ValueError ''x'')) (Returns [])"
      "''corr''" "exc ValueError ''x''" "''w''"]
  show ?thesis by (fastforce simp: demo_live demo_plugin_def)
qed

end
