(* ===== verification/Service_Properties.thy ===== *)
theory Service_Properties
  imports Scenarios
begin

text \<open>
  The properties of the scan service and of the outbox dispatcher: what a request commits,
  what it refuses, and what a dispatcher tick does to the rows it claims.
\<close>

section \<open>Creating a scan\<close>

text \<open>C19 (create): a request naming a project and an asset of the caller's tenant writes the
  scan and one unpublished outbox row, for attempt 0, whose payload decodes to this scan and tenant.
  Both are only flushed (\<open>wf\<close>) until the transition to \<open>QUEUED\<close>, which commits them in one
  transaction (\<open>wc\<close>): no scan is ever there without its outbox row.  The \<open>scan.queued\<close> event
  is not part of it; it is all that is left to do, and a commit of its own.  Nothing in the
  hypotheses speaks of the asset's \<open>status\<close> or \<open>authorization_status\<close>: neither is consulted.\<close>

theorem create_scan_commits_queued_and_outbox:
  assumes w: "quiet w" "fresh 4 w" "unique_scans (view w)" "outbox_refs (view w)" "event_refs (view w)"
    and p: "find_project tn (rq_project_id data) (view w) = Some p"
    and a: "find_asset tn (rq_asset_id data) (view w) = Some a" "as_project_id a = rq_project_id data"
    and c: "\<not> config_too_big (rq_config data)" "storable_create (request_create tn u data)"
  shows "\<exists>s b wf wc e ev w'.
    bindE (scan_repo_create (request_create tn u data)) (\<lambda>s0. outbox_repo_create (first_outbox s0)) w = (Inr b, wf) \<and>
    w_db wf = w_db w \<and>
    transition sync (sc_id s) QUEUED no_update wf = (Inr s, wc) \<and> find_scan tn (sc_id s) (w_db wc) = Some s \<and>
    outbox (w_db wc) = outbox (view w) @ [b] \<and> scan_events (w_db wc) = scan_events (view w) \<and>
    create_scan sync tn u data w = thenE (publish e) (retE (scan_read_of s)) wc \<and>
    request (create_scan sync tn u data) w = (Inr (scan_read_of s), w') \<and>
    w_db w' = insert_event ev (w_db wc) \<and> ev_scan_id ev = sc_id s \<and> ev_event_type ev = ''scan.queued'' \<and>
    find_scan tn (sc_id s) (w_db w') = Some s \<and> sc_status s = QUEUED \<and> sc_attempt s = 0 \<and>
    sc_asset_id s = rq_asset_id data \<and> outbox (w_db w') = outbox (view w) @ [b] \<and>
    ob_published_at b = None \<and> outbox_key b = (tn, sc_id s, 0) \<and>
    (\<exists>corr. scan_job_payload_from_dict (ob_payload b) =
      Inr \<lparr>jp_scan_id = sc_id s, jp_tenant_id = tn, jp_correlation_id = corr\<rparr>) \<and>
    event_types (sc_id s) (w_db w') = [''scan.queued'']"
proof -
  let ?s = "queued_row (request_create tn u data) w"
  have "sc_status ?s = QUEUED" "sc_attempt ?s = 0" "sc_asset_id ?s = rq_asset_id data"
    by (simp_all add: queued_row_def request_create_def)
  note s = this
  have f: "fresh (Suc (Suc (Suc (Suc 0)))) w" using w(2) by (simp add: numeral_eq_Suc)
  obtain b w' where r: "request (create_scan sync tn u data) w = (Inr (scan_read_of ?s), w')"
    "find_scan tn (sc_id ?s) (w_db w') = Some ?s" "outbox (w_db w') = outbox (view w) @ [b]"
    "ob_published_at b = None" "outbox_key b = (tn, sc_id ?s, 0)"
    "\<exists>corr. scan_job_payload_from_dict (ob_payload b) =
      Inr \<lparr>jp_scan_id = sc_id ?s, jp_tenant_id = tn, jp_correlation_id = corr\<rparr>"
    "event_types (sc_id ?s) (w_db w') = [''scan.queued'']"
    using create_scan_quiet [OF w(1) f w(3-5) p a c, of sync] by blast
  obtain b1 wf wc e ev w1 where
    q: "bindE (scan_repo_create (request_create tn u data)) (\<lambda>s0. outbox_repo_create (first_outbox s0)) w = (Inr b1, wf)"
      "w_db wf = w_db w" "transition sync (sc_id ?s) QUEUED no_update wf = (Inr ?s, wc)"
      "find_scan tn (sc_id ?s) (w_db wc) = Some ?s" "outbox (w_db wc) = outbox (view w) @ [b1]"
      "scan_events (w_db wc) = scan_events (view w)"
      "create_scan sync tn u data w = thenE (publish e) (retE (scan_read_of ?s)) wc"
    and q1: "request (create_scan sync tn u data) w = (Inr (scan_read_of ?s), w1)"
      "w_db w1 = insert_event ev (w_db wc)" "ev_scan_id ev = sc_id ?s" "ev_event_type ev = ''scan.queued''"
    using create_scan_commits [OF w(1) f w(3,4) p a c, of sync] by (elim exE conjE) (rule that)
  have w1: "w1 = w'" using r(1) q1(1) by simp
  have "outbox (w_db w') = outbox (w_db wc)" using q1(2) unfolding w1 by (simp add: insert_event_def)
  then have b: "b1 = b" using r(3) q(5) by simp
  show ?thesis using r s q [unfolded b] q1(2-4) [unfolded w1]
    by (intro exI [of _ ?s] exI [of _ b] exI [of _ wf] exI [of _ wc] exI [of _ e] exI [of _ ev] exI [of _ w']) simp
qed

definition demo_request :: scan_create_request where
  "demo_request = \<lparr>rq_project_id = 3, rq_asset_id = 4, rq_scanner_type = ''zap'', rq_config = None,
     rq_timeout_seconds = None, rq_max_attempts = None\<rparr>"

theorem create_scan_commits_queued_and_outbox_witness:
  "\<exists>s w'. request (create_scan True 2 None demo_request) (demo_world []) = (Inr (scan_read_of s), w') \<and>
     find_scan 2 (sc_id s) (w_db w') = Some s \<and> sc_status s = QUEUED \<and>
     find_asset 2 4 (db_with []) = Some demo_asset \<and> as_authorization_status demo_asset = Unauthorized"
proof -
  have f: "fresh 4 (demo_world [])" using fresh_le [OF fresh_demo, of "[]" 4] by simp
  have a: "find_asset 2 4 (db_with []) = Some demo_asset" "find_project 2 3 (db_with []) = Some demo_project"
    by (simp_all add: find_asset_def find_project_def db_with_def demo_asset_def demo_project_def)
  have c: "storable_create (request_create 2 None demo_request)" "\<not> config_too_big (rq_config demo_request)"
    by (simp_all add: storable_create_def request_create_def demo_request_def truthy_def val_or_def config_too_big_def)
  have r: "unique_scans (db_with [])" "outbox_refs (db_with [])" "event_refs (db_with [])"
    by (simp_all add: unique_scans_def outbox_refs_def event_refs_def)
  from create_scan_commits_queued_and_outbox [of "demo_world []" 2 demo_request demo_project demo_asset None True]
  show ?thesis using f a c r by (fastforce simp: demo_request_def demo_asset_def)
qed

text \<open>A refused create: a project or asset the tenant does not own, or an asset of another
  project, is refused with its own error, and nothing is written.\<close>

theorem create_scan_refusals:
  assumes w: "quiet w"
  shows "(find_project tn (rq_project_id data) (view w) = None \<longrightarrow>
      create_scan sync tn u data w = (Inl (exc ProjectNotFoundError []), w)) \<and>
    (\<forall>p. find_project tn (rq_project_id data) (view w) = Some p \<longrightarrow>
      (find_asset tn (rq_asset_id data) (view w) = None \<longrightarrow>
        create_scan sync tn u data w = (Inl (exc AssetNotFoundError []), w)) \<and>
      (\<forall>a. find_asset tn (rq_asset_id data) (view w) = Some a \<longrightarrow> as_project_id a \<noteq> rq_project_id data \<longrightarrow>
        create_scan sync tn u data w = (Inl (exc AssetProjectMismatchError []), w)))"
  using assms
  by (auto simp: create_scan_def project_repo_get_by_id_def asset_repo_get_by_id_def prog_simps)

theorem create_scan_refusals_witness:
  "create_scan True 9 None demo_request (demo_world []) = (Inl (exc ProjectNotFoundError []), demo_world [])"
  using create_scan_refusals [of "demo_world []" 9 demo_request]
  by (simp add: find_project_def db_with_def demo_project_def)

section \<open>Retrying and cancelling\<close>

definition retry_create :: "uuid option \<Rightarrow> scan \<Rightarrow> scan_create" where
  "retry_create u s = \<lparr>cr_tenant_id = sc_tenant_id s, cr_project_id = sc_project_id s,
     cr_asset_id = sc_asset_id s, cr_scanner_type = sc_scanner_type s, cr_requested_by_user_id = u,
     cr_config = sc_config s, cr_timeout_seconds = Some (sc_timeout_seconds s),
     cr_max_attempts = Some (sc_max_attempts s), cr_retry_of_scan_id = Some (sc_id s), cr_correlation_id = None\<rparr>"

lemma retry_storable: "scan_checks s \<Longrightarrow> storable_create (retry_create u s)"
  by (simp add: storable_create_def retry_create_def scan_checks_def val_or_def truthy_def)

lemma retry_scan_requeues:
  assumes w: "quiet w" "fresh 4 w" "unique_scans (view w)" "outbox_refs (view w)" "event_refs (view w)"
    and s: "find_scan tn i (view w) = Some s" "scan_checks s" "\<not> config_too_big (sc_config s)"
    and st: "sc_status s \<in> {FAILED, CANCELLED, TIMED_OUT}"
  shows "\<exists>s' b w'. retry_scan sync tn i u w = (Inr (scan_read_of s'), w') \<and>
    find_scan tn (sc_id s') (w_db w') = Some s' \<and> sc_id s' \<noteq> i \<and> sc_status s' = QUEUED \<and>
    sc_attempt s' = 0 \<and> sc_asset_id s' = sc_asset_id s \<and> sc_retry_of_scan_id s' = Some i \<and>
    s \<in> set (scans (w_db w')) \<and> outbox (w_db w') = outbox (view w) @ [b] \<and>
    outbox_key b = (tn, sc_id s', 0)"
proof -
  define v where "v = w\<lparr>w_objs := (w_objs w)(i := Some s)\<rparr>"
  have id: "sc_id s = i" "sc_tenant_id s = tn" "s \<in> set (scans (view w))" using find_scan_SomeD [OF s(1)] by simp_all
  let ?c = "retry_create u s"
  let ?s = "queued_row ?c v"
  have v: "quiet v" "fresh (Suc (Suc (Suc (Suc 0)))) v" "unique_scans (view v)" "outbox_refs (view v)"
      "event_refs (view v)"
    using w by (simp_all add: v_def fresh_def numeral_eq_Suc)
  obtain w' b where m: "bindE (scan_repo_create ?c) (\<lambda>s. bindE (enqueue sync (sc_id s)) (\<lambda>s'. retE (scan_read_of s'))) v =
      (Inr (scan_read_of ?s), w')"
    and w': "settled 0 (sc_id ?s) ?s w'" "w_db w' = view w'"
      "outbox (view w') = outbox (view v) @ [b]" "outbox_key b = (cr_tenant_id ?c, sc_id ?s, 0)"
      "set (scans (view v)) \<subseteq> set (scans (view w'))"
    using create_and_enqueue_quiet [OF v(1-3) retry_storable [OF s(2)] v(4,5)] by blast
  have "retry_scan sync tn i u w =
      bindE (scan_repo_create ?c) (\<lambda>s. bindE (enqueue sync (sc_id s)) (\<lambda>s'. retE (scan_read_of s'))) v"
    using st s(3) id(1,2)
    by (auto simp: retry_scan_def run_simps(3) get_or_404_quiet [OF w(1) s(1)] retryable_statuses_def
        check_scan_create_def retry_create_def liftE_simps run_simps(1) v_def)
  then have run: "retry_scan sync tn i u w = (Inr (scan_read_of ?s), w')" using m by simp
  have f: "find_scan tn (sc_id ?s) (view w') = Some ?s" "cr_tenant_id ?c = tn"
    using settled_find [OF w'(1)] id by (simp_all add: queued_row_def retry_create_def)
  have q: "sc_status ?s = QUEUED" "sc_attempt ?s = 0" "sc_asset_id ?s = sc_asset_id s"
    by (simp_all add: queued_row_def retry_create_def id)
  have rt: "sc_retry_of_scan_id ?s = Some i"
    by (simp add: queued_row_def advance_def apply_scan_update_def)
      (simp add: retry_create_def id)
  have old: "s \<in> set (scans (view w'))" "view v = view w" using w'(5) id(3) by (auto simp: v_def)
  have "sc_id ?s \<noteq> i"
  proof
    assume "sc_id ?s = i"
    then have "?s = s"
      using unique_scans_row [of "view w'" ?s s] w'(1) find_scan_SomeD [OF f(1)] old(1) id(1)
      by (simp add: settled_def)
    then show False using st q(1) by auto
  qed
  with f q rt old show ?thesis
    using run w' by (intro exI [of _ ?s] exI [of _ b] exI [of _ w']) simp
qed

text \<open>C31 (retry): a failed, cancelled or timed-out scan is retried as a new scan with the
  same target and limits, linked to the original, queued with its own outbox row; the
  original row is untouched.  A scan in any other status is refused and nothing is written.\<close>

theorem retry_scan_outcome:
  assumes w: "quiet w" "fresh 4 w" "unique_scans (view w)" "outbox_refs (view w)" "event_refs (view w)"
    and s: "find_scan tn i (view w) = Some s" "scan_checks s" "\<not> config_too_big (sc_config s)"
  shows "(sc_status s \<in> {FAILED, CANCELLED, TIMED_OUT} \<longrightarrow>
      (\<exists>s' b w'. retry_scan sync tn i u w = (Inr (scan_read_of s'), w') \<and>
        find_scan tn (sc_id s') (w_db w') = Some s' \<and> sc_id s' \<noteq> i \<and> sc_status s' = QUEUED \<and>
        sc_attempt s' = 0 \<and> sc_asset_id s' = sc_asset_id s \<and> sc_retry_of_scan_id s' = Some i \<and>
        s \<in> set (scans (w_db w')) \<and> outbox (w_db w') = outbox (view w) @ [b] \<and>
        outbox_key b = (tn, sc_id s', 0))) \<and>
    (sc_status s \<notin> {FAILED, CANCELLED, TIMED_OUT} \<longrightarrow>
      (\<exists>w'. retry_scan sync tn i u w =
          (Inl (exc ScanNotRetryableError (not_retryable_message i (sc_status s))), w') \<and>
        w_db w' = w_db w \<and> w_pend w' = w_pend w))"
proof (intro conjI impI)
  assume "sc_status s \<in> {FAILED, CANCELLED, TIMED_OUT}"
  from retry_scan_requeues [OF w s this] show "\<exists>s' b w'. retry_scan sync tn i u w = (Inr (scan_read_of s'), w') \<and>
        find_scan tn (sc_id s') (w_db w') = Some s' \<and> sc_id s' \<noteq> i \<and> sc_status s' = QUEUED \<and>
        sc_attempt s' = 0 \<and> sc_asset_id s' = sc_asset_id s \<and> sc_retry_of_scan_id s' = Some i \<and>
        s \<in> set (scans (w_db w')) \<and> outbox (w_db w') = outbox (view w) @ [b] \<and>
        outbox_key b = (tn, sc_id s', 0)" .
next
  assume "sc_status s \<notin> {FAILED, CANCELLED, TIMED_OUT}"
  then have "sc_status s \<notin> set retryable_statuses" by (simp add: retryable_statuses_def)
  from retry_scan_refused [OF w(1) s(1) this]
  show "\<exists>w'. retry_scan sync tn i u w =
          (Inl (exc ScanNotRetryableError (not_retryable_message i (sc_status s))), w') \<and>
        w_db w' = w_db w \<and> w_pend w' = w_pend w" .
qed

lemma demo_row_facts:
  assumes "s = demo_scan\<lparr>sc_status := st\<rparr>"
  shows "quiet (demo_world [s])" "fresh 8 (demo_world [s])" "unique_scans (view (demo_world [s]))"
    "outbox_refs (view (demo_world [s]))" "event_refs (view (demo_world [s]))"
    "find_scan 2 1 (view (demo_world [s])) = Some s"
  using fresh_demo [of "[s]"] assms
  by (simp_all add: unique_scans_def outbox_refs_def event_refs_def find_scan_def scan_at_def demo_scan_def)

theorem retry_scan_outcome_witness:
  "\<exists>s' w'. retry_scan True 2 1 None (demo_world [demo_scan\<lparr>sc_status := CANCELLED\<rparr>]) = (Inr (scan_read_of s'), w') \<and>
     sc_status s' = QUEUED \<and> sc_retry_of_scan_id s' = Some 1 \<and> length (outbox (w_db w')) = 1"
proof -
  let ?s = "demo_scan\<lparr>sc_status := CANCELLED\<rparr>"
  note d = demo_row_facts [of ?s CANCELLED, OF refl]
  have f: "fresh 4 (demo_world [?s])" by (rule fresh_le [OF d(2)]) simp
  have c: "scan_checks ?s" "\<not> config_too_big (sc_config ?s)"
    by (simp_all add: demo_scan_def scan_checks_def count_set_def max_len_def config_too_big_def)
  from retry_scan_outcome [OF d(1) f d(3-6) c, of True None] show ?thesis by fastforce
qed

text \<open>C38 (cancel): cancelling a scan that is not finished commits \<open>CANCELLED\<close> and one
  \<open>scan.cancelled\<close> event, whether or not the queue accepts the revocation of its job;
  cancelling a finished scan is refused and nothing is written.\<close>

theorem cancel_scan_outcome:
  assumes w: "quiet w" "fresh 1 w" "unique_scans (view w)" and s: "find_scan tn i (view w) = Some s"
  shows "(\<not> terminal (sc_status s) \<and> live_row s (w_clock w) \<and> cancel_raises_exceptions q \<longrightarrow>
      (\<exists>s' w'. cancel_scan sync q tn i w = (Inr (scan_read_of s'), w') \<and>
        find_scan tn i (w_db w') = Some s' \<and> sc_status s' = CANCELLED \<and>
        sc_cancelled_at s' = Some (w_clock w) \<and> outbox (w_db w') = outbox (view w) \<and>
        event_types i (w_db w') = event_types i (view w) @ [''scan.cancelled''])) \<and>
    (terminal (sc_status s) \<longrightarrow>
      (\<exists>w'. cancel_scan sync q tn i w =
          (Inl (exc ScanNotCancellableError (invalid_transition_message (sc_status s) CANCELLED)), w') \<and>
        w_db w' = w_db w \<and> w_pend w' = w_pend w))"
proof (intro conjI impI)
  assume a: "\<not> terminal (sc_status s) \<and> live_row s (w_clock w) \<and> cancel_raises_exceptions q"
  have "sc_cancelled_at (advance s CANCELLED no_update (w_clock w)) = Some (w_clock w)"
    by (simp add: advance_def transition_fields_def apply_scan_update_def no_update_def or_now_def)
  then show "\<exists>s' w'. cancel_scan sync q tn i w = (Inr (scan_read_of s'), w') \<and>
        find_scan tn i (w_db w') = Some s' \<and> sc_status s' = CANCELLED \<and>
        sc_cancelled_at s' = Some (w_clock w) \<and> outbox (w_db w') = outbox (view w) \<and>
        event_types i (w_db w') = event_types i (view w) @ [''scan.cancelled'']"
    using cancel_scan_quiet [OF w s, of q sync] a by (metis advance_fields(3))
next
  assume "terminal (sc_status s)"
  then show "\<exists>w'. cancel_scan sync q tn i w =
          (Inl (exc ScanNotCancellableError (invalid_transition_message (sc_status s) CANCELLED)), w') \<and>
        w_db w' = w_db w \<and> w_pend w' = w_pend w"
    by (rule cancel_scan_terminal [OF w(1) s])
qed

theorem cancel_scan_outcome_witness:
  "\<exists>w'. cancel_scan True (demo_queue (Returns [])) 2 1 (demo_world [demo_scan\<lparr>sc_status := SUCCEEDED\<rparr>]) =
    (Inl (exc ScanNotCancellableError (invalid_transition_message SUCCEEDED CANCELLED)), w') \<and>
    w_db w' = db_with [demo_scan\<lparr>sc_status := SUCCEEDED\<rparr>]"
proof -
  let ?s = "demo_scan\<lparr>sc_status := SUCCEEDED\<rparr>"
  note d = demo_row_facts [of ?s SUCCEEDED, OF refl]
  have f: "fresh 1 (demo_world [?s])" by (rule fresh_le [OF d(2)]) simp
  from cancel_scan_outcome [OF d(1) f d(3,6), of "demo_queue (Returns [])" True]
  show ?thesis by (auto simp: terminal_def)
qed

text \<open>Other tenants: every operation on a scan id that is not the caller's tenant's
  answers as if the scan did not exist, and writes nothing.\<close>

theorem foreign_scan_is_not_found:
  assumes "quiet w" "find_scan tn i (view w) = None"
  shows "get_scan tn i w = (Inl (exc ScanNotFoundError []), w) \<and>
    get_progress tn i w = (Inl (exc ScanNotFoundError []), w) \<and>
    cancel_scan sync q tn i w = (Inl (exc ScanNotFoundError []), w) \<and>
    retry_scan sync tn i u w = (Inl (exc ScanNotFoundError []), w)"
  using get_or_404_missing [OF assms]
  by (simp add: get_scan_def get_progress_def cancel_scan_def retry_scan_def run_simps(3))

theorem foreign_scan_is_not_found_witness:
  "cancel_scan True (demo_queue (Returns [])) 77 1 (demo_world [demo_scan]) =
    (Inl (exc ScanNotFoundError []), demo_world [demo_scan])"
  using foreign_scan_is_not_found [of "demo_world [demo_scan]" 77 1 True]
  by (simp add: find_scan_def scan_at_def demo_scan_def)

section \<open>The outbox dispatcher\<close>

text \<open>Which row is claimed: the dispatcher claims the oldest unpublished row that no other
  dispatcher has locked, and reports an empty outbox exactly when there is none, writing
  nothing.\<close>

theorem dispatcher_claims_oldest:
  "(case next_pending locked d of
      None \<Rightarrow> (\<forall>b\<in>set (outbox d). ob_published_at b = None \<longrightarrow> ob_id b \<in> locked)
    | Some b \<Rightarrow> b \<in> set (outbox d) \<and> ob_published_at b = None \<and> ob_id b \<notin> locked \<and>
        (\<forall>c\<in>set (outbox d). ob_published_at c = None \<longrightarrow> ob_id c \<notin> locked \<longrightarrow> ob_created_at b \<le> ob_created_at c))"
proof (cases "next_pending locked d")
  case None
  then show ?thesis using next_pending_None_iff [of locked d] by simp
next
  case (Some b)
  then show ?thesis using next_pending_SomeD [OF Some] by simp
qed

theorem dispatcher_claims_oldest_witness:
  "next_pending {} ((db_with [demo_scan])\<lparr>outbox := [demo_outbox\<lparr>ob_published_at := Some 1\<rparr>]\<rparr>) = None \<and>
    ob_published_at (demo_outbox\<lparr>ob_published_at := Some 1\<rparr>) \<noteq> None"
  using dispatcher_claims_oldest [where locked = "{}" and d = "(db_with [demo_scan])\<lparr>outbox := [demo_outbox\<lparr>ob_published_at := Some 1\<rparr>]\<rparr>"]
  by (auto split: option.splits)

text \<open>C25 (published): a send the queue accepts is recorded in one commit: exactly the
  claimed row is marked published with its attempt counted, and the scan carries the
  job id; the message sent is the row's own payload and countdown.\<close>

theorem dispatch_publishes:
  assumes w: "quiet w" and b: "next_pending locked (view w) = Some b"
    and p: "scan_job_payload_from_dict (ob_payload b) = Inr p"
    and j: "jq_enqueue_scan q p (ob_countdown_seconds b) = Returns j" "length j \<le> 200"
    and s: "find_scan (ob_tenant_id b) (ob_scan_id b) (view w) = Some s" "scan_checks s" "unique_scans (view w)"
    and ok: "outbox_checks b"
  shows "\<exists>s' w'. dispatch_one q locked w = (Inr True, w') \<and>
    outbox (w_db w') = update_where (\<lambda>r. ob_id r = ob_id b)
      (\<lambda>r. r\<lparr>ob_published_at := Some (w_clock w), ob_attempt_count := ob_attempt_count b + 1,
             ob_last_attempt_at := Some (w_clock w)\<rparr>) (outbox (view w)) \<and>
    find_scan (ob_tenant_id b) (ob_scan_id b) (w_db w') = Some s' \<and>
    sc_job_id s' = Some j \<and> sc_status s' = sc_status s \<and>
    w_trace w' = w_trace w @ [SentJob p (ob_countdown_seconds b), Log ''outbox_dispatcher.published'']"
proof -
  have f: "published_row t n = (\<lambda>r. r\<lparr>ob_published_at := Some t, ob_attempt_count := n, ob_last_attempt_at := Some t\<rparr>)" for t n
    by (rule ext) (simp add: published_row_def)
  have "sc_job_id (apply_scan_update (job_update j) t s) = Some j"
    "sc_status (apply_scan_update (job_update j) t s) = sc_status s" for t
    by (simp_all add: apply_scan_update_def job_update_def no_update_def)
  then show ?thesis using dispatch_one_published [OF w b p j s ok, unfolded f] by blast
qed

theorem dispatch_publishes_witness:
  "\<exists>s' w'. dispatch_one (demo_queue (Returns ''job-1'')) {} dispatcher_world = (Inr True, w') \<and>
    find_scan 2 1 (w_db w') = Some s' \<and> sc_job_id s' = Some ''job-1'' \<and>
    map ob_published_at (outbox (w_db w')) = [Some 200]"
proof -
  have "length ''job-1'' \<le> 200" "ob_tenant_id demo_outbox = 2" "ob_scan_id demo_outbox = 1"
    by (simp_all add: demo_outbox_def)
  with dispatch_publishes [OF demo_dispatch(1,4,6,10) _ demo_dispatch(7,11,8,5), of "''job-1''"]
  show ?thesis by (fastforce simp: demo_dispatch)
qed

text \<open>Send failed: a send the queue refuses leaves the row unpublished with its attempt
  counted and the sanitised error recorded; no scan is touched, nothing was sent.\<close>

theorem dispatch_records_failure:
  assumes w: "quiet w" and b: "next_pending locked (view w) = Some b" "outbox_checks b"
    and p: "scan_job_payload_from_dict (ob_payload b) = Inr p"
    and e: "jq_enqueue_scan q p (ob_countdown_seconds b) = Raises e" "is_exception e"
  shows "\<exists>w'. dispatch_one q locked w = (Inr True, w') \<and> scans (w_db w') = scans (view w) \<and>
    outbox (w_db w') = update_where (\<lambda>r. ob_id r = ob_id b)
      (\<lambda>r. r\<lparr>ob_attempt_count := ob_attempt_count b + 1, ob_last_attempt_at := Some (w_clock w),
             ob_last_error := Some (se_summary (sanitize_exception e))\<rparr>) (outbox (view w)) \<and>
    w_trace w' = w_trace w @ [Log ''outbox_dispatcher.publish_failed'']"
proof -
  have f: "failed_attempt_row n t m = (\<lambda>r. r\<lparr>ob_attempt_count := n, ob_last_attempt_at := Some t, ob_last_error := Some m\<rparr>)" for n t m
    by (rule ext) (simp add: failed_attempt_row_def)
  show ?thesis
    by (rule exI, rule conjI, rule dispatch_one_failed [OF w b p e, unfolded f])
      (simp add: update_outbox_def)
qed

theorem dispatch_records_failure_witness:
  "\<exists>w'. dispatch_one (demo_queue (Raises (exc ValueError ''down''))) {} dispatcher_world = (Inr True, w') \<and>
    map ob_attempt_count (outbox (w_db w')) = [1] \<and> map ob_published_at (outbox (w_db w')) = [None]"
proof -
  have "is_exception (exc ValueError ''down'')" "ob_attempt_count demo_outbox = 0" "ob_published_at demo_outbox = None"
    by (simp_all add: is_exception_def demo_outbox_def)
  with dispatch_records_failure [OF demo_dispatch(1,4,5,6,10), of "exc ValueError ''down''"]
  show ?thesis by (fastforce simp: demo_dispatch)
qed

text \<open>Sent but not recorded: recording the job id is not best effort: when the update
  of the scan is rejected after the send, the error escapes, nothing is committed, and
  the row whose message is already in the queue is still pending.\<close>

theorem dispatch_sent_but_pending:
  assumes w: "quiet w" "w_pend w = (\<lambda>d. d)" and b: "next_pending locked (view w) = Some b"
    and p: "scan_job_payload_from_dict (ob_payload b) = Inr p"
    and j: "jq_enqueue_scan q p (ob_countdown_seconds b) = Returns j" "200 < length j"
    and s: "find_scan (ob_tenant_id b) (ob_scan_id b) (view w) = Some s"
  shows "\<exists>w'. dispatch_one q locked w = (Inl db_error, w') \<and> next_pending locked (w_db w') = Some b \<and>
    SentJob p (ob_countdown_seconds b) \<in> set (w_trace w')"
proof -
  have "view w = w_db w" using w(2) by (simp add: view_def)
  then show ?thesis using dispatch_one_sent_not_recorded [OF w(1) b p j s] b by metis
qed

theorem dispatch_sent_but_pending_witness:
  "\<exists>w'. dispatch_one (demo_queue (Returns (replicate 201 CHR ''x''))) {} dispatcher_world = (Inl db_error, w') \<and>
    next_pending {} (w_db w') = Some demo_outbox"
proof -
  have "200 < length (replicate 201 CHR ''x'')" by simp
  from dispatch_sent_but_pending [OF demo_dispatch(1,2,4,6,10) this demo_dispatch(7)]
  show ?thesis by blast
qed

text \<open>C35 (tick): a tick reports between 0 and \<open>batch_size\<close> rows, and when it reports fewer
  its last claim found the outbox empty.  When the queue refuses the message of the oldest
  row, if only of that row, a tick spends its whole batch on it: its failures are counted,
  nothing is sent, and every other row is left as it is, whether the queue would take it or not.\<close>

theorem dispatch_tick:
  "(dispatch_pending_outbox q locked n w = (Inr m, w') \<longrightarrow>
      m \<le> n \<and> (m < n \<longrightarrow> (\<exists>v. dispatch_one q (locked m) v = (Inr False, w')))) \<and>
    (quiet w \<and> next_pending lk (view w) = Some b \<and> outbox_checks b \<and>
      scan_job_payload_from_dict (ob_payload b) = Inr p \<and>
      jq_enqueue_scan q p (ob_countdown_seconds b) = Raises e \<and> is_exception e \<longrightarrow>
      (\<exists>w' b'. dispatch_pending_outbox q (\<lambda>_. lk) n w = (Inr n, w') \<and>
        next_pending lk (view w') = Some b' \<and> ob_id b' = ob_id b \<and>
        ob_attempt_count b' = ob_attempt_count b + int n \<and>
        filter (\<lambda>r. ob_id r \<noteq> ob_id b) (outbox (view w')) = filter (\<lambda>r. ob_id r \<noteq> ob_id b) (outbox (view w)) \<and>
        (\<forall>p c. SentJob p c \<in> set (w_trace w') \<longrightarrow> SentJob p c \<in> set (w_trace w))))"
proof (intro conjI impI)
  assume "dispatch_pending_outbox q locked n w = (Inr m, w')"
  then show "m \<le> n" "m < n \<Longrightarrow> \<exists>v. dispatch_one q (locked m) v = (Inr False, w')"
    using dispatch_loop_bounds [of q locked n 0 w m w'] dispatch_loop_drained [of q locked n 0 w m w']
    by (simp_all add: dispatch_pending_outbox_def)
next
  assume a: "quiet w \<and> next_pending lk (view w) = Some b \<and> outbox_checks b \<and>
      scan_job_payload_from_dict (ob_payload b) = Inr p \<and>
      jq_enqueue_scan q p (ob_countdown_seconds b) = Raises e \<and> is_exception e"
  then show "\<exists>w' b'. dispatch_pending_outbox q (\<lambda>_. lk) n w = (Inr n, w') \<and>
        next_pending lk (view w') = Some b' \<and> ob_id b' = ob_id b \<and>
        ob_attempt_count b' = ob_attempt_count b + int n \<and>
        filter (\<lambda>r. ob_id r \<noteq> ob_id b) (outbox (view w')) = filter (\<lambda>r. ob_id r \<noteq> ob_id b) (outbox (view w)) \<and>
        (\<forall>p c. SentJob p c \<in> set (w_trace w') \<longrightarrow> SentJob p c \<in> set (w_trace w))"
    using dispatch_loop_head_of_line [of q p "ob_countdown_seconds b" e w lk b n 0]
    unfolding dispatch_pending_outbox_def by auto
qed

text \<open>A queue that refuses the messages of one scan, and a younger row that it would take.\<close>

definition refuses_scan :: "uuid \<Rightarrow> job_queue" where
  "refuses_scan i = (demo_queue (Returns ''job-1''))\<lparr>jq_enqueue_scan := (\<lambda>p _.
     if jp_scan_id p = i then Raises (exc ValueError ''refused'') else Returns ''job-1'')\<rparr>"

definition younger_outbox :: scan_job_outbox where
  "younger_outbox = demo_outbox\<lparr>ob_id := 6, ob_scan_id := 8, ob_created_at := 150,
     ob_payload := scan_job_payload_to_dict \<lparr>jp_scan_id = 8, jp_tenant_id = 2, jp_correlation_id = ''corr''\<rparr>\<rparr>"

definition two_rows_world :: world where
  "two_rows_world = start_world ((db_with [demo_scan])\<lparr>outbox := [demo_outbox, younger_outbox]\<rparr>) 200 [] demo_ids"

theorem dispatch_tick_witness:
  "jq_enqueue_scan (refuses_scan 1) \<lparr>jp_scan_id = 8, jp_tenant_id = 2, jp_correlation_id = ''corr''\<rparr> 0 = Returns ''job-1'' \<and>
    (\<exists>w' b'. dispatch_pending_outbox (refuses_scan 1) (\<lambda>_. {}) 3 two_rows_world = (Inr 3, w') \<and>
      next_pending {} (view w') = Some b' \<and> ob_attempt_count b' = 3 \<and> younger_outbox \<in> set (outbox (view w')))"
proof -
  have w: "quiet two_rows_world" "next_pending {} (view two_rows_world) = Some demo_outbox"
    "outbox (view two_rows_world) = [demo_outbox, younger_outbox]"
    by (simp_all add: two_rows_world_def start_world_def quiet_def view_def)
      (simp add: next_pending_def order_by_def select_all_def younger_outbox_def demo_outbox_def)
  have q: "jq_enqueue_scan (refuses_scan 1) \<lparr>jp_scan_id = 1, jp_tenant_id = 2, jp_correlation_id = ''corr''\<rparr> c =
      Raises (exc ValueError ''refused'')" "is_exception (exc ValueError ''refused'')"
    "jq_enqueue_scan (refuses_scan 1) \<lparr>jp_scan_id = 8, jp_tenant_id = 2, jp_correlation_id = ''corr''\<rparr> 0 = Returns ''job-1''" for c
    by (simp_all add: refuses_scan_def is_exception_def)
  have o: "ob_id younger_outbox = 6" "ob_id demo_outbox = 5" "ob_attempt_count demo_outbox = 0"
    by (simp_all add: younger_outbox_def demo_outbox_def)
  from conjunct2 [OF dispatch_tick [of "refuses_scan 1" "\<lambda>_. {}" 3 two_rows_world _ _ "{}" demo_outbox
      "\<lparr>jp_scan_id = 1, jp_tenant_id = 2, jp_correlation_id = ''corr''\<rparr>" "exc ValueError ''refused''"]]
  obtain w' b' where r: "dispatch_pending_outbox (refuses_scan 1) (\<lambda>_. {}) 3 two_rows_world = (Inr 3, w')"
    "next_pending {} (view w') = Some b'" "ob_attempt_count b' = 3"
    and f: "filter (\<lambda>r. ob_id r \<noteq> 5) (outbox (view w')) = [younger_outbox]"
    using w q(1,2) demo_dispatch(5,6) by (auto simp: o)
  have "younger_outbox \<in> set (filter (\<lambda>r. ob_id r \<noteq> 5) (outbox (view w')))" unfolding f by simp
  then show ?thesis using r q(3) by auto
qed

end
