(* ===== verification/Identity_Repositories.thy ===== *)
theory Identity_Repositories
  imports Session Common_Schemas
begin

text \<open>
  Tenants, users and memberships: \<open>repositories/tenant_repository.py\<close>,
  \<open>user_repository.py\<close>, \<open>membership_repository.py\<close> and the schemas that feed them.  A
  repository changes a loaded object and flushes it: an \<open>UPDATE\<close> by primary key of the
  columns whose value differs from the loaded one (\<open>set_col\<close>), none at all when none
  differs, with \<open>updated_at\<close> stamped by the database and read back.  Foreign keys are not
  checked again here: the identifiers come from rows the session has read, and no
  operation deletes a user or a tenant.
\<close>

definition set_col :: "'c \<Rightarrow> 'c \<Rightarrow> 'c \<Rightarrow> 'c" where
  "set_col new loaded current = (if new = loaded then current else new)"

lemma set_col_loaded [simp]: "set_col new loaded loaded = new"
  by (simp add: set_col_def)

lemma set_col_same [simp]: "set_col x x current = current"
  by (simp add: set_col_def)

text \<open>
  A field of an update schema: \<open>None\<close> when the client left it out, \<open>Some None\<close> for an
  explicit \<open>null\<close>, which every column updated through such a schema refuses.
\<close>

type_synonym 'a patch_field = "'a option option"

definition patched :: "'a patch_field \<Rightarrow> 'a \<Rightarrow> 'a" where
  "patched p x = (case p of Some (Some y) \<Rightarrow> y | _ \<Rightarrow> x)"

lemma patched_simps [simp]: "patched None x = x" "patched (Some None) x = x" "patched (Some (Some y)) x = y"
  by (simp_all add: patched_def)

section \<open>Tenants\<close>

record tenant_create =
  tc_name :: string
  tc_slug :: string

record tenant_update =
  tu_name :: "string patch_field"
  tu_status :: "tenant_status patch_field"

definition check_tenant_create :: "tenant_create \<Rightarrow> pyexc + tenant_create" where
  "check_tenant_create c =
    (case normalize_slug (tc_slug c) of Inl e \<Rightarrow> Inl e | Inr s \<Rightarrow> Inr (c\<lparr>tc_slug := s\<rparr>))"

definition new_tenant :: "tenant_create \<Rightarrow> uuid \<Rightarrow> int \<Rightarrow> tenant" where
  "new_tenant c i t = \<lparr>te_id = i, te_name = tc_name c, te_slug = tc_slug c, te_status = TenantActive,
     te_deleted_at = None, te_created_at = t, te_updated_at = t\<rparr>"

definition tenant_insert_ok :: "tenant \<Rightarrow> db \<Rightarrow> bool" where
  "tenant_insert_ok r d \<longleftrightarrow> length (te_name r) \<le> 200 \<and> length (te_slug r) \<le> 100 \<and>
     (\<forall>x\<in>set (tenants d). te_id x \<noteq> te_id r \<and> te_slug x \<noteq> te_slug r)"

definition tenant_repo_create :: "tenant_create \<Rightarrow> tenant prog" where
  "tenant_repo_create c =
    bindE draw_uuid (\<lambda>i. bindE now (\<lambda>t.
    let r = new_tenant c i t in
    thenE (stmt (tenant_insert_ok r) (\<lambda>d. d\<lparr>tenants := tenants d @ [r]\<rparr>)) (retE r)))"

definition find_tenant :: "uuid \<Rightarrow> db \<Rightarrow> tenant option" where
  "find_tenant i d = select_one (\<lambda>r. te_id r = i) (tenants d)"

definition tenant_repo_get_by_id :: "uuid \<Rightarrow> tenant option prog" where
  "tenant_repo_get_by_id i = query (find_tenant i)"

definition tenant_repo_get_by_slug :: "string \<Rightarrow> tenant option prog" where
  "tenant_repo_get_by_slug s = query (\<lambda>d. select_one (\<lambda>r. te_slug r = s) (tenants d))"

definition set_tenant :: "tenant \<Rightarrow> tenant_update \<Rightarrow> tenant \<Rightarrow> tenant" where
  "set_tenant l u r = r\<lparr>te_name := set_col (patched (tu_name u) (te_name l)) (te_name l) (te_name r),
     te_status := set_col (patched (tu_status u) (te_status l)) (te_status l) (te_status r)\<rparr>"

definition tenant_repo_update :: "tenant \<Rightarrow> tenant_update \<Rightarrow> tenant prog" where
  "tenant_repo_update l u =
    (if set_tenant l u l = l \<and> tu_name u \<noteq> Some None \<and> tu_status u \<noteq> Some None then retE l
     else bindE now (\<lambda>t.
       thenE (stmt (\<lambda>d. tu_name u \<noteq> Some None \<and> tu_status u \<noteq> Some None \<and>
                length (te_name (set_tenant l u l)) \<le> 200 \<and> (\<exists>r\<in>set (tenants d). te_id r = te_id l))
          (\<lambda>d. d\<lparr>tenants := update_where (\<lambda>r. te_id r = te_id l)
             (\<lambda>r. (set_tenant l u r)\<lparr>te_updated_at := t\<rparr>) (tenants d)\<rparr>))
        (retE ((set_tenant l u l)\<lparr>te_updated_at := t\<rparr>))))"

definition tenant_repo_list_all :: "pagination \<Rightarrow> tenant page prog" where
  "tenant_repo_list_all p = query (\<lambda>d. paginate p (order_by te_created_at (tenants d)))"

section \<open>Users\<close>

record user_create =
  uc_email :: string
  uc_display_name :: string

record user_update =
  uu_display_name :: "string patch_field"
  uu_status :: "user_status patch_field"

definition check_user_create :: "user_create \<Rightarrow> user_create" where
  "check_user_create c = c\<lparr>uc_email := normalize_email (uc_email c)\<rparr>"

definition new_user :: "user_create \<Rightarrow> uuid \<Rightarrow> int \<Rightarrow> user" where
  "new_user c i t = \<lparr>us_id = i, us_email = uc_email c, us_display_name = uc_display_name c,
     us_status = UserActive, us_hashed_password = None, us_token_version = 0,
     us_email_verified_at = None, us_created_at = t, us_updated_at = t\<rparr>"

definition user_checks :: "user \<Rightarrow> bool" where
  "user_checks u \<longleftrightarrow> length (us_email u) \<le> 320 \<and> length (us_display_name u) \<le> 200 \<and>
     max_len 255 (us_hashed_password u) \<and> - (2 ^ 31) \<le> us_token_version u \<and> us_token_version u < 2 ^ 31"

definition user_insert_ok :: "user \<Rightarrow> db \<Rightarrow> bool" where
  "user_insert_ok u d \<longleftrightarrow> user_checks u \<and>
     (\<forall>x\<in>set (users d). us_id x \<noteq> us_id u \<and> us_email x \<noteq> us_email u)"

definition insert_user :: "user \<Rightarrow> db \<Rightarrow> db" where
  "insert_user u d = d\<lparr>users := users d @ [u]\<rparr>"

definition user_repo_create :: "user_create \<Rightarrow> user prog" where
  "user_repo_create c =
    bindE draw_uuid (\<lambda>i. bindE now (\<lambda>t.
    let u = new_user c i t in
    thenE (stmt (user_insert_ok u) (insert_user u)) (retE u)))"

definition find_user :: "uuid \<Rightarrow> db \<Rightarrow> user option" where
  "find_user i d = select_one (\<lambda>u. us_id u = i) (users d)"

definition find_email :: "string \<Rightarrow> db \<Rightarrow> user option" where
  "find_email e d = select_one (\<lambda>u. us_email u = e) (users d)"

definition user_repo_get_by_id :: "uuid \<Rightarrow> user option prog" where
  "user_repo_get_by_id i = query (find_user i)"

definition user_repo_get_by_email :: "string \<Rightarrow> user option prog" where
  "user_repo_get_by_email e = query (find_email e)"

definition update_user :: "uuid \<Rightarrow> (user \<Rightarrow> user) \<Rightarrow> int \<Rightarrow> db \<Rightarrow> db" where
  "update_user i f t d =
    d\<lparr>users := update_where (\<lambda>u. us_id u = i) (\<lambda>u. (f u)\<lparr>us_updated_at := t\<rparr>) (users d)\<rparr>"

text \<open>\<open>f\<close> sets the columns that differ from the loaded object \<open>u\<close>.\<close>

definition flush_user :: "user \<Rightarrow> (user \<Rightarrow> user) \<Rightarrow> user prog" where
  "flush_user u f =
    (if f u = u then retE u
     else bindE now (\<lambda>t.
       thenE (stmt (\<lambda>d. user_checks (f u) \<and> (\<exists>r\<in>set (users d). us_id r = us_id u))
          (update_user (us_id u) f t))
        (retE ((f u)\<lparr>us_updated_at := t\<rparr>))))"

definition user_repo_update :: "user \<Rightarrow> user_update \<Rightarrow> user prog" where
  "user_repo_update u d =
    (if uu_display_name d = Some None \<or> uu_status d = Some None then thenE (stmt (\<lambda>_. False) (\<lambda>x. x)) (retE u)
     else flush_user u (\<lambda>r. r\<lparr>
       us_display_name := set_col (patched (uu_display_name d) (us_display_name u)) (us_display_name u) (us_display_name r),
       us_status := set_col (patched (uu_status d) (us_status u)) (us_status u) (us_status r)\<rparr>))"

definition set_password :: "user \<Rightarrow> string \<Rightarrow> bool \<Rightarrow> user \<Rightarrow> user" where
  "set_password u h invalidate_sessions r = r\<lparr>
     us_hashed_password := set_col (Some h) (us_hashed_password u) (us_hashed_password r),
     us_token_version := set_col (us_token_version u + (if invalidate_sessions then 1 else 0))
       (us_token_version u) (us_token_version r)\<rparr>"

definition user_repo_set_password :: "user \<Rightarrow> string \<Rightarrow> bool \<Rightarrow> user prog" where
  "user_repo_set_password u h invalidate_sessions = flush_user u (set_password u h invalidate_sessions)"

definition user_repo_mark_email_verified :: "user \<Rightarrow> user prog" where
  "user_repo_mark_email_verified u =
    bindE now (\<lambda>t. flush_user u (\<lambda>r. r\<lparr>
      us_email_verified_at := set_col (Some t) (us_email_verified_at u) (us_email_verified_at r)\<rparr>))"

definition bump_version :: "user \<Rightarrow> user \<Rightarrow> user" where
  "bump_version u r = r\<lparr>us_token_version := us_token_version u + 1\<rparr>"

definition user_repo_bump_token_version :: "user \<Rightarrow> user prog" where
  "user_repo_bump_token_version u = flush_user u (bump_version u)"

section \<open>Memberships\<close>

record membership_create =
  mc_tenant_id :: uuid
  mc_user_id :: uuid
  mc_role :: membership_role

record membership_update =
  mu_role :: "membership_role patch_field"
  mu_status :: "membership_status patch_field"

definition new_membership :: "membership_create \<Rightarrow> uuid \<Rightarrow> int \<Rightarrow> membership" where
  "new_membership c i t = \<lparr>me_id = i, me_tenant_id = mc_tenant_id c, me_user_id = mc_user_id c,
     me_role = mc_role c, me_status = MemberActive, me_created_at = t, me_updated_at = t\<rparr>"

definition membership_key :: "membership \<Rightarrow> uuid \<times> uuid" where
  "membership_key m = (me_tenant_id m, me_user_id m)"

definition insert_membership :: "membership \<Rightarrow> db \<Rightarrow> db" where
  "insert_membership m d = d\<lparr>memberships := memberships d @ [m]\<rparr>"

definition membership_repo_create :: "membership_create \<Rightarrow> membership prog" where
  "membership_repo_create c =
    bindE draw_uuid (\<lambda>i. bindE now (\<lambda>t.
    let m = new_membership c i t in
    thenE (stmt (\<lambda>d. \<forall>r\<in>set (memberships d). me_id r \<noteq> i \<and> membership_key r \<noteq> membership_key m)
        (insert_membership m))
      (retE m)))"

definition find_membership :: "uuid \<Rightarrow> uuid \<Rightarrow> db \<Rightarrow> membership option" where
  "find_membership tn i d = select_one (\<lambda>m. me_id m = i \<and> me_tenant_id m = tn) (memberships d)"

definition find_member :: "uuid \<Rightarrow> uuid \<Rightarrow> db \<Rightarrow> membership option" where
  "find_member tn u d = select_one (\<lambda>m. membership_key m = (tn, u)) (memberships d)"

definition membership_repo_get_by_id :: "uuid \<Rightarrow> uuid \<Rightarrow> membership option prog" where
  "membership_repo_get_by_id tn i = query (find_membership tn i)"

definition membership_repo_get_by_tenant_and_user :: "uuid \<Rightarrow> uuid \<Rightarrow> membership option prog" where
  "membership_repo_get_by_tenant_and_user tn u = query (find_member tn u)"

definition membership_repo_list_by_tenant :: "uuid \<Rightarrow> pagination \<Rightarrow> membership page prog" where
  "membership_repo_list_by_tenant tn p =
    query (\<lambda>d. paginate p (order_by me_created_at
      (select_all (\<lambda>m. me_tenant_id m = tn) (memberships d))))"

text \<open>The active memberships of a user, each with the name of its tenant (\<open>joinedload\<close>).\<close>

definition active_memberships :: "uuid \<Rightarrow> db \<Rightarrow> membership list" where
  "active_memberships u d = order_by me_created_at
     (select_all (\<lambda>m. me_user_id m = u \<and> me_status m = MemberActive) (memberships d))"

definition tenant_name_of :: "db \<Rightarrow> uuid \<Rightarrow> string" where
  "tenant_name_of d tn = (case find_tenant tn d of None \<Rightarrow> [] | Some r \<Rightarrow> te_name r)"

definition membership_repo_list_by_user :: "uuid \<Rightarrow> (membership \<times> string) list prog" where
  "membership_repo_list_by_user u =
    query (\<lambda>d. map (\<lambda>m. (m, tenant_name_of d (me_tenant_id m))) (active_memberships u d))"

definition set_membership :: "membership \<Rightarrow> membership_update \<Rightarrow> membership \<Rightarrow> membership" where
  "set_membership l u r = r\<lparr>
     me_role := set_col (patched (mu_role u) (me_role l)) (me_role l) (me_role r),
     me_status := set_col (patched (mu_status u) (me_status l)) (me_status l) (me_status r)\<rparr>"

text \<open>
  The \<open>UPDATE\<close> names the primary key; the model names the tenant of the loaded row as well,
  which selects the same row, since keys are unique and a row never changes its tenant.
\<close>

definition same_membership :: "membership \<Rightarrow> membership \<Rightarrow> bool" where
  "same_membership l r \<longleftrightarrow> me_id r = me_id l \<and> me_tenant_id r = me_tenant_id l"

definition update_memberships :: "(membership \<Rightarrow> bool) \<Rightarrow> (membership \<Rightarrow> membership) \<Rightarrow> db \<Rightarrow> db" where
  "update_memberships P f d = d\<lparr>memberships := update_where P f (memberships d)\<rparr>"

definition membership_repo_update :: "membership \<Rightarrow> membership_update \<Rightarrow> membership prog" where
  "membership_repo_update l u =
    (if set_membership l u l = l \<and> mu_role u \<noteq> Some None \<and> mu_status u \<noteq> Some None then retE l
     else bindE now (\<lambda>t.
       thenE (stmt (\<lambda>d. mu_role u \<noteq> Some None \<and> mu_status u \<noteq> Some None \<and>
                (\<exists>r\<in>set (memberships d). same_membership l r))
          (update_memberships (same_membership l) (\<lambda>r. (set_membership l u r)\<lparr>me_updated_at := t\<rparr>)))
        (retE ((set_membership l u l)\<lparr>me_updated_at := t\<rparr>))))"

end
