(* ===== verification/Token_Repositories.thy ===== *)
theory Token_Repositories
  imports Identity_Repositories
begin

text \<open>
  The credential tables: \<open>repositories/refresh_token_repository.py\<close>,
  \<open>verification_token_repository.py\<close> and \<open>api_key_repository.py\<close>, with the schemas that
  carry their arguments.  A loaded object is passed as the row it was read as; a change
  of it is an \<open>UPDATE\<close> by primary key, whatever the row has become since.
\<close>

section \<open>Refresh tokens\<close>

record refresh_token_create =
  rc_tenant_id :: uuid
  rc_user_id :: uuid
  rc_family_id :: uuid
  rc_hashed_token :: string
  rc_expires_at :: int
  rc_created_by_ip :: "string option"
  rc_user_agent :: "string option"

definition new_refresh_token :: "refresh_token_create \<Rightarrow> uuid \<Rightarrow> uuid \<Rightarrow> int \<Rightarrow> refresh_token" where
  "new_refresh_token c fam i t = \<lparr>rt_id = i, rt_tenant_id = rc_tenant_id c, rt_user_id = rc_user_id c,
     rt_family_id = fam, rt_hashed_token = rc_hashed_token c, rt_status = TokenActive,
     rt_expires_at = rc_expires_at c, rt_revoked_at = None, rt_replaced_by_id = None,
     rt_created_by_ip = rc_created_by_ip c, rt_user_agent = rc_user_agent c,
     rt_created_at = t, rt_updated_at = t\<rparr>"

definition refresh_token_insert_ok :: "refresh_token \<Rightarrow> db \<Rightarrow> bool" where
  "refresh_token_insert_ok r d \<longleftrightarrow> length (rt_hashed_token r) \<le> 64 \<and>
     max_len 64 (rt_created_by_ip r) \<and> max_len 500 (rt_user_agent r) \<and>
     (\<forall>x\<in>set (refresh_tokens d). rt_id x \<noteq> rt_id r \<and> rt_hashed_token x \<noteq> rt_hashed_token r)"

definition insert_refresh_token :: "refresh_token \<Rightarrow> db \<Rightarrow> db" where
  "insert_refresh_token r d = d\<lparr>refresh_tokens := refresh_tokens d @ [r]\<rparr>"

definition refresh_repo_create :: "refresh_token_create \<Rightarrow> uuid \<Rightarrow> refresh_token prog" where
  "refresh_repo_create c fam =
    bindE draw_uuid (\<lambda>i. bindE now (\<lambda>t.
    let r = new_refresh_token c fam i t in
    thenE (stmt (refresh_token_insert_ok r) (insert_refresh_token r)) (retE r)))"

definition find_refresh_token :: "string \<Rightarrow> db \<Rightarrow> refresh_token option" where
  "find_refresh_token h d = select_one (\<lambda>r. rt_hashed_token r = h) (refresh_tokens d)"

definition refresh_repo_get_by_hashed_token :: "string \<Rightarrow> refresh_token option prog" where
  "refresh_repo_get_by_hashed_token h = query (find_refresh_token h)"

definition refresh_repo_get_by_id :: "uuid \<Rightarrow> uuid \<Rightarrow> refresh_token option prog" where
  "refresh_repo_get_by_id u i =
    query (\<lambda>d. select_one (\<lambda>r. rt_id r = i \<and> rt_user_id r = u) (refresh_tokens d))"

definition update_refresh_tokens ::
    "(refresh_token \<Rightarrow> bool) \<Rightarrow> (refresh_token \<Rightarrow> refresh_token) \<Rightarrow> db \<Rightarrow> db" where
  "update_refresh_tokens P f d = d\<lparr>refresh_tokens := update_where P f (refresh_tokens d)\<rparr>"

definition rotated_row :: "uuid \<Rightarrow> int \<Rightarrow> refresh_token \<Rightarrow> refresh_token" where
  "rotated_row new t r = r\<lparr>rt_status := TokenRotated, rt_replaced_by_id := Some new, rt_updated_at := t\<rparr>"

definition revoked_row :: "int \<Rightarrow> refresh_token \<Rightarrow> refresh_token" where
  "revoked_row t r = r\<lparr>rt_status := TokenRevoked, rt_revoked_at := Some t, rt_updated_at := t\<rparr>"

interpretation rotated: keyed_update rt_id "rotated_row new t"
  by unfold_locales (simp add: rotated_row_def)

interpretation revoked: keyed_update rt_id "revoked_row t"
  by unfold_locales (simp add: revoked_row_def)

interpretation rotated_hash: keyed_update rt_hashed_token "rotated_row new t"
  by unfold_locales (simp add: rotated_row_def)

interpretation revoked_hash: keyed_update rt_hashed_token "revoked_row t"
  by unfold_locales (simp add: revoked_row_def)

definition refresh_repo_rotate :: "refresh_token \<Rightarrow> refresh_token_create \<Rightarrow> refresh_token prog" where
  "refresh_repo_rotate old c =
    bindE (refresh_repo_create c (rt_family_id old)) (\<lambda>new.
    bindE now (\<lambda>t.
    thenE (stmt (\<lambda>d. \<exists>r\<in>set (refresh_tokens d). rt_id r = rt_id old)
        (update_refresh_tokens (\<lambda>r. rt_id r = rt_id old) (rotated_row (rt_id new) t)))
      (retE new)))"

definition refresh_repo_revoke :: "refresh_token \<Rightarrow> refresh_token prog" where
  "refresh_repo_revoke r =
    bindE now (\<lambda>t.
    thenE (stmt (\<lambda>d. \<exists>x\<in>set (refresh_tokens d). rt_id x = rt_id r)
        (update_refresh_tokens (\<lambda>x. rt_id x = rt_id r) (revoked_row t)))
      (retE (revoked_row t r)))"

text \<open>\<open>SELECT\<close> the tokens that are not revoked yet, then revoke each of them by its key.\<close>

definition live_tokens :: "(refresh_token \<Rightarrow> bool) \<Rightarrow> db \<Rightarrow> refresh_token list" where
  "live_tokens P d = select_all (\<lambda>r. P r \<and> rt_status r \<noteq> TokenRevoked) (refresh_tokens d)"

definition revoke_selected :: "(refresh_token \<Rightarrow> bool) \<Rightarrow> nat prog" where
  "revoke_selected P =
    bindE (query (live_tokens P)) (\<lambda>ts.
    bindE now (\<lambda>t.
    thenE (if ts = [] then retE () else
        stmt (\<lambda>d. rt_id ` set ts \<subseteq> rt_id ` set (refresh_tokens d))
          (update_refresh_tokens (\<lambda>r. rt_id r \<in> rt_id ` set ts) (revoked_row t)))
      (retE (length ts))))"

definition refresh_repo_revoke_family :: "uuid \<Rightarrow> nat prog" where
  "refresh_repo_revoke_family fam = revoke_selected (\<lambda>r. rt_family_id r = fam)"

definition refresh_repo_revoke_all_for_user :: "uuid \<Rightarrow> nat prog" where
  "refresh_repo_revoke_all_for_user u = revoke_selected (\<lambda>r. rt_user_id r = u)"

definition active_sessions :: "uuid \<Rightarrow> db \<Rightarrow> refresh_token list" where
  "active_sessions u d = order_by_desc rt_created_at
     (select_all (\<lambda>r. rt_user_id r = u \<and> rt_status r = TokenActive) (refresh_tokens d))"

definition refresh_repo_list_active_sessions :: "uuid \<Rightarrow> refresh_token list prog" where
  "refresh_repo_list_active_sessions u = query (active_sessions u)"

section \<open>Verification tokens\<close>

record verification_token_create =
  vc_user_id :: uuid
  vc_purpose :: verification_token_purpose
  vc_hashed_token :: string
  vc_expires_at :: int

definition new_verification_token :: "verification_token_create \<Rightarrow> uuid \<Rightarrow> int \<Rightarrow> verification_token" where
  "new_verification_token c i t = \<lparr>vt_id = i, vt_user_id = vc_user_id c, vt_purpose = vc_purpose c,
     vt_hashed_token = vc_hashed_token c, vt_expires_at = vc_expires_at c, vt_consumed_at = None,
     vt_created_at = t, vt_updated_at = t\<rparr>"

definition insert_verification_token :: "verification_token \<Rightarrow> db \<Rightarrow> db" where
  "insert_verification_token r d = d\<lparr>verification_tokens := verification_tokens d @ [r]\<rparr>"

definition verification_repo_create :: "verification_token_create \<Rightarrow> verification_token prog" where
  "verification_repo_create c =
    bindE draw_uuid (\<lambda>i. bindE now (\<lambda>t.
    let r = new_verification_token c i t in
    thenE (stmt (\<lambda>d. length (vt_hashed_token r) \<le> 64 \<and>
          (\<forall>x\<in>set (verification_tokens d). vt_id x \<noteq> i \<and> vt_hashed_token x \<noteq> vt_hashed_token r))
        (insert_verification_token r))
      (retE r)))"

definition valid_token :: "verification_token_purpose \<Rightarrow> int \<Rightarrow> verification_token \<Rightarrow> bool" where
  "valid_token p t r \<longleftrightarrow> vt_purpose r = p \<and> vt_consumed_at r = None \<and> t < vt_expires_at r"

definition find_valid_token :: "string \<Rightarrow> verification_token_purpose \<Rightarrow> int \<Rightarrow> db \<Rightarrow> verification_token option" where
  "find_valid_token h p t d =
    select_one (\<lambda>r. vt_hashed_token r = h \<and> valid_token p t r) (verification_tokens d)"

definition verification_repo_get_valid ::
    "string \<Rightarrow> verification_token_purpose \<Rightarrow> verification_token option prog" where
  "verification_repo_get_valid h p = bindE now (\<lambda>t. query (find_valid_token h p t))"

definition consumed_row :: "int \<Rightarrow> verification_token \<Rightarrow> verification_token" where
  "consumed_row t r = r\<lparr>vt_consumed_at := Some t, vt_updated_at := t\<rparr>"

interpretation consumed: keyed_update vt_id "consumed_row t"
  by unfold_locales (simp add: consumed_row_def)

definition update_verification_tokens ::
    "(verification_token \<Rightarrow> bool) \<Rightarrow> (verification_token \<Rightarrow> verification_token) \<Rightarrow> db \<Rightarrow> db" where
  "update_verification_tokens P f d = d\<lparr>verification_tokens := update_where P f (verification_tokens d)\<rparr>"

definition verification_repo_consume :: "verification_token \<Rightarrow> verification_token prog" where
  "verification_repo_consume r =
    bindE now (\<lambda>t.
    thenE (stmt (\<lambda>d. \<exists>x\<in>set (verification_tokens d). vt_id x = vt_id r)
        (update_verification_tokens (\<lambda>x. vt_id x = vt_id r) (consumed_row t)))
      (retE (consumed_row t r)))"

definition verification_repo_invalidate_pending :: "uuid \<Rightarrow> verification_token_purpose \<Rightarrow> nat prog" where
  "verification_repo_invalidate_pending u p =
    bindE now (\<lambda>t.
    bindE (query (\<lambda>d. select_all (\<lambda>r. vt_user_id r = u \<and> valid_token p t r) (verification_tokens d))) (\<lambda>ts.
    bindE now (\<lambda>t'.
    thenE (if ts = [] then retE () else
        stmt (\<lambda>d. vt_id ` set ts \<subseteq> vt_id ` set (verification_tokens d))
          (update_verification_tokens (\<lambda>r. vt_id r \<in> vt_id ` set ts) (consumed_row t')))
      (retE (length ts)))))"

section \<open>API keys\<close>

record api_key_create =
  kc_tenant_id :: uuid
  kc_user_id :: "uuid option"
  kc_name :: string
  kc_prefix :: string
  kc_hashed_secret :: string
  kc_scopes :: "string list"
  kc_expires_at :: "int option"

definition new_api_key :: "api_key_create \<Rightarrow> uuid \<Rightarrow> int \<Rightarrow> api_key" where
  "new_api_key c i t = \<lparr>ak_id = i, ak_tenant_id = kc_tenant_id c, ak_user_id = kc_user_id c,
     ak_name = kc_name c, ak_prefix = kc_prefix c, ak_hashed_secret = kc_hashed_secret c,
     ak_scopes = kc_scopes c, ak_status = KeyActive, ak_expires_at = kc_expires_at c,
     ak_last_used_at = None, ak_revoked_at = None, ak_created_at = t, ak_updated_at = t\<rparr>"

definition api_key_insert_ok :: "api_key \<Rightarrow> db \<Rightarrow> bool" where
  "api_key_insert_ok k d \<longleftrightarrow> length (ak_name k) \<le> 200 \<and> length (ak_prefix k) \<le> 32 \<and>
     length (ak_hashed_secret k) \<le> 255 \<and> (\<forall>s\<in>set (ak_scopes k). length s \<le> 100) \<and>
     (\<forall>x\<in>set (api_keys d). ak_id x \<noteq> ak_id k \<and> ak_prefix x \<noteq> ak_prefix k)"

definition insert_api_key :: "api_key \<Rightarrow> db \<Rightarrow> db" where
  "insert_api_key k d = d\<lparr>api_keys := api_keys d @ [k]\<rparr>"

definition api_key_repo_create :: "api_key_create \<Rightarrow> api_key prog" where
  "api_key_repo_create c =
    bindE draw_uuid (\<lambda>i. bindE now (\<lambda>t.
    let k = new_api_key c i t in
    thenE (stmt (api_key_insert_ok k) (insert_api_key k)) (retE k)))"

definition find_api_key :: "uuid \<Rightarrow> uuid \<Rightarrow> db \<Rightarrow> api_key option" where
  "find_api_key tn i d = select_one (\<lambda>k. ak_id k = i \<and> ak_tenant_id k = tn) (api_keys d)"

definition find_prefix :: "string \<Rightarrow> db \<Rightarrow> api_key option" where
  "find_prefix p d = select_one (\<lambda>k. ak_prefix k = p) (api_keys d)"

definition api_key_repo_get_by_id :: "uuid \<Rightarrow> uuid \<Rightarrow> api_key option prog" where
  "api_key_repo_get_by_id tn i = query (find_api_key tn i)"

definition api_key_repo_get_by_prefix :: "string \<Rightarrow> api_key option prog" where
  "api_key_repo_get_by_prefix p = query (find_prefix p)"

definition api_key_repo_list_by_tenant :: "uuid \<Rightarrow> pagination \<Rightarrow> api_key page prog" where
  "api_key_repo_list_by_tenant tn p =
    query (\<lambda>d. paginate p (order_by ak_created_at
      (select_all (\<lambda>k. ak_tenant_id k = tn) (api_keys d))))"

text \<open>The fields the service leaves unset are \<open>None\<close>; it never sets one to \<open>null\<close>.\<close>

record api_key_update =
  ku_status :: "api_key_status option"
  ku_revoked_at :: "int option"
  ku_last_used_at :: "int option"

definition set_api_key :: "api_key \<Rightarrow> api_key_update \<Rightarrow> api_key \<Rightarrow> api_key" where
  "set_api_key l u k = k\<lparr>
     ak_status := (case ku_status u of None \<Rightarrow> ak_status k | Some s \<Rightarrow> set_col s (ak_status l) (ak_status k)),
     ak_revoked_at := (case ku_revoked_at u of None \<Rightarrow> ak_revoked_at k
                       | x \<Rightarrow> set_col x (ak_revoked_at l) (ak_revoked_at k)),
     ak_last_used_at := (case ku_last_used_at u of None \<Rightarrow> ak_last_used_at k
                         | x \<Rightarrow> set_col x (ak_last_used_at l) (ak_last_used_at k))\<rparr>"

definition same_api_key :: "api_key \<Rightarrow> api_key \<Rightarrow> bool" where
  "same_api_key l k \<longleftrightarrow> ak_id k = ak_id l \<and> ak_tenant_id k = ak_tenant_id l"

definition update_api_key :: "api_key \<Rightarrow> api_key_update \<Rightarrow> int \<Rightarrow> db \<Rightarrow> db" where
  "update_api_key l u t d = d\<lparr>api_keys := update_where (same_api_key l)
     (\<lambda>k. (set_api_key l u k)\<lparr>ak_updated_at := t\<rparr>) (api_keys d)\<rparr>"

definition api_key_repo_update :: "api_key \<Rightarrow> api_key_update \<Rightarrow> api_key prog" where
  "api_key_repo_update l u =
    (if set_api_key l u l = l then retE l
     else bindE now (\<lambda>t.
       thenE (stmt (\<lambda>d. \<exists>k\<in>set (api_keys d). same_api_key l k) (update_api_key l u t))
         (retE ((set_api_key l u l)\<lparr>ak_updated_at := t\<rparr>))))"

end
