(* ===== verification/Security.thy ===== *)
theory Security
  imports Session "HOL-Library.Char_ord" "HOL-Library.AList"
begin

text \<open>
  \<open>core/security.py\<close> and the settings of \<open>core/config.py\<close> that the access side reads: the
  password policy, random secrets, and access tokens.  Argon2, SHA-256, the random generator and the JWT library are not part
  of the source: they are the fields of \<open>crypto\<close>.  Randomness comes from the supply that
  also names rows, so that a program stays a function of its world.  The work factors and
  the signature algorithm are arguments of those libraries, carried here only as settings.
\<close>

record settings =
  st_environment :: string
  st_project_name :: string
  st_jwt_secret_key :: string
  st_jwt_refresh_secret_key :: string
  st_jwt_algorithm :: string
  st_jwt_access_key_id :: string
  st_jwt_refresh_key_id :: string
  st_jwt_issuer :: string
  st_jwt_access_token_expire_minutes :: int
  st_jwt_refresh_token_expire_days :: int
  st_password_min_length :: int
  st_password_require_uppercase :: bool
  st_password_require_lowercase :: bool
  st_password_require_digit :: bool
  st_password_require_symbol :: bool
  st_argon2_time_cost :: int
  st_argon2_memory_cost_kib :: int
  st_argon2_parallelism :: int
  st_email_verification_token_expire_hours :: int
  st_password_reset_token_expire_minutes :: int
  st_frontend_base_url :: string
  st_rate_limit_login_per_minute :: int
  st_rate_limit_refresh_per_minute :: int
  st_rate_limit_password_reset_per_minute :: int
  st_rate_limit_api_key_create_per_minute :: int
  st_security_headers_enabled :: bool
  st_security_hsts_max_age_seconds :: int
  st_security_csp_policy :: string

text \<open>The defaults of \<open>core/config.py\<close>.\<close>

definition default_settings :: settings where
  "default_settings = \<lparr>st_environment = ''local'', st_project_name = ''SentinelX'',
     st_jwt_secret_key = ''insecure-development-secret-change-me'',
     st_jwt_refresh_secret_key = ''insecure-development-refresh-secret-change-me'',
     st_jwt_algorithm = ''HS256'',
     st_jwt_access_key_id = ''sentinelx-access-1'', st_jwt_refresh_key_id = ''sentinelx-refresh-1'',
     st_jwt_issuer = ''sentinelx.io'', st_jwt_access_token_expire_minutes = 15,
     st_jwt_refresh_token_expire_days = 7, st_password_min_length = 12,
     st_password_require_uppercase = True, st_password_require_lowercase = True,
     st_password_require_digit = True, st_password_require_symbol = True,
     st_argon2_time_cost = 3, st_argon2_memory_cost_kib = 65536, st_argon2_parallelism = 4,
     st_email_verification_token_expire_hours = 24, st_password_reset_token_expire_minutes = 30,
     st_frontend_base_url = ''http://localhost:3000'',
     st_rate_limit_login_per_minute = 5, st_rate_limit_refresh_per_minute = 10,
     st_rate_limit_password_reset_per_minute = 3, st_rate_limit_api_key_create_per_minute = 5,
     st_security_headers_enabled = True, st_security_hsts_max_age_seconds = 63072000,
     st_security_csp_policy = ''default-src 'self'' @ [chr 39]\<rparr>"

record crypto =
  cy_hash_password :: "string \<Rightarrow> uuid \<Rightarrow> string"  \<comment> \<open>the second argument is the salt\<close>
  cy_verify_password :: "string \<Rightarrow> string \<Rightarrow> bool"
  cy_needs_rehash :: "string \<Rightarrow> bool"
  cy_is_breached :: "string \<Rightarrow> bool"
  cy_token_urlsafe :: "nat \<Rightarrow> uuid \<Rightarrow> string"
  cy_sha256_hex :: "string \<Rightarrow> string"
  cy_jwt_encode :: "json_object \<Rightarrow> string \<Rightarrow> string \<Rightarrow> string"  \<comment> \<open>payload, secret, \<open>kid\<close>\<close>
  cy_jwt_decode :: "string \<Rightarrow> string \<Rightarrow> string \<Rightarrow> int \<Rightarrow> json_object option"
    \<comment> \<open>token, secret, issuer, clock: \<open>None\<close> for any \<open>PyJWTError\<close>\<close>

section \<open>Password policy\<close>

definition is_upper :: "char \<Rightarrow> bool" where
  "is_upper c \<longleftrightarrow> CHR ''A'' \<le> c \<and> c \<le> CHR ''Z''"

definition is_lower :: "char \<Rightarrow> bool" where
  "is_lower c \<longleftrightarrow> CHR ''a'' \<le> c \<and> c \<le> CHR ''z''"

text \<open>\<open>\d\<close> and \<open>\w\<close> on the code points below 256.\<close>

definition is_digit :: "char \<Rightarrow> bool" where
  "is_digit c \<longleftrightarrow> CHR ''0'' \<le> c \<and> c \<le> CHR ''9''"

definition is_word_char :: "char \<Rightarrow> bool" where
  "is_word_char c \<longleftrightarrow> is_upper c \<or> is_lower c \<or> is_digit c \<or> c = CHR ''_'' \<or>
     (let n = of_char c :: nat in
       n \<in> {170, 178, 179, 181, 185, 186, 188, 189, 190} \<or> (192 \<le> n \<and> n \<noteq> 215 \<and> n \<noteq> 247))"

definition is_symbol :: "char \<Rightarrow> bool" where
  "is_symbol c \<longleftrightarrow> \<not> is_word_char c \<and> \<not> is_space c"

definition has_char :: "(char \<Rightarrow> bool) \<Rightarrow> string \<Rightarrow> bool" where
  "has_char P s = list_ex P s"

definition password_violations :: "settings \<Rightarrow> string \<Rightarrow> string list" where
  "password_violations st pw =
    (if int (length pw) < st_password_min_length st
     then [''must be at least '' @ int_str (st_password_min_length st) @ '' characters long''] else []) @
    (if st_password_require_uppercase st \<and> \<not> has_char is_upper pw then [''must contain an uppercase letter''] else []) @
    (if st_password_require_lowercase st \<and> \<not> has_char is_lower pw then [''must contain a lowercase letter''] else []) @
    (if st_password_require_digit st \<and> \<not> has_char is_digit pw then [''must contain a digit''] else []) @
    (if st_password_require_symbol st \<and> \<not> has_char is_symbol pw then [''must contain a symbol''] else [])"

definition password_policy_error :: "string list \<Rightarrow> pyexc" where
  "password_policy_error vs = exc (PasswordPolicyError vs) (join ''; '' vs)"

definition validate_password_policy :: "settings \<Rightarrow> string \<Rightarrow> pyexc + unit" where
  "validate_password_policy st pw =
    (let vs = password_violations st pw in if vs \<noteq> [] then Inl (password_policy_error vs) else Inr ())"

lemma validate_password_policy_ok:
  "validate_password_policy st pw = Inr () \<longleftrightarrow>
    st_password_min_length st \<le> int (length pw) \<and>
    (st_password_require_uppercase st \<longrightarrow> (\<exists>c\<in>set pw. is_upper c)) \<and>
    (st_password_require_lowercase st \<longrightarrow> (\<exists>c\<in>set pw. is_lower c)) \<and>
    (st_password_require_digit st \<longrightarrow> (\<exists>c\<in>set pw. is_digit c)) \<and>
    (st_password_require_symbol st \<longrightarrow> (\<exists>c\<in>set pw. is_symbol c))"
  by (auto simp: validate_password_policy_def password_violations_def has_char_def list_ex_iff Let_def
      split: if_splits)

section \<open>Secrets\<close>

definition hash_password :: "crypto \<Rightarrow> string \<Rightarrow> string prog" where
  "hash_password cy pw = bindE draw_uuid (\<lambda>salt. retE (cy_hash_password cy pw salt))"

definition generate_secret :: "crypto \<Rightarrow> nat \<Rightarrow> string prog" where
  "generate_secret cy n = bindE draw_uuid (\<lambda>u. retE (cy_token_urlsafe cy n u))"

definition hash_secret :: "crypto \<Rightarrow> string \<Rightarrow> string" where
  "hash_secret cy s = cy_sha256_hex cy s"

section \<open>Access tokens\<close>

datatype token_type = Access | Refresh

fun token_type_value :: "token_type \<Rightarrow> string" where
  "token_type_value Access = ''access''"
| "token_type_value Refresh = ''refresh''"

definition secret_and_kid_for :: "token_type \<Rightarrow> settings \<Rightarrow> string \<times> string" where
  "secret_and_kid_for ty st =
    (if ty = Access then (st_jwt_secret_key st, st_jwt_access_key_id st)
     else (st_jwt_refresh_secret_key st, st_jwt_refresh_key_id st))"

text \<open>Times are microseconds; the JWT library truncates claims to whole seconds.\<close>

definition seconds :: "int \<Rightarrow> int" where
  "seconds t = t div 1000000"

definition minutes :: "int \<Rightarrow> int" where
  "minutes n = n * 60 * 1000000"

definition days :: "int \<Rightarrow> int" where
  "days n = n * 24 * 60 * 60 * 1000000"

definition update_payload :: "json_object \<Rightarrow> json_object \<Rightarrow> json_object" where
  "update_payload p extra = foldl (\<lambda>acc (k, v). AList.update k v acc) p extra"

definition create_token ::
    "settings \<Rightarrow> crypto \<Rightarrow> string \<Rightarrow> token_type \<Rightarrow> int option \<Rightarrow> json_object \<Rightarrow> (string \<times> string) prog" where
  "create_token st cy subject ty expires_delta extra =
    bindE now (\<lambda>t. bindE draw_uuid (\<lambda>u.
    let jti = uuid_str u;
        delta = (case expires_delta of Some x \<Rightarrow> x
                 | None \<Rightarrow> if ty = Access then minutes (st_jwt_access_token_expire_minutes st)
                           else days (st_jwt_refresh_token_expire_days st));
        payload = [(''sub'', JStr subject), (''type'', JStr (token_type_value ty)),
          (''iss'', JStr (st_jwt_issuer st)), (''iat'', JInt (seconds t)),
          (''exp'', JInt (seconds (t + delta))), (''jti'', JStr jti)];
        (secret, kid) = secret_and_kid_for ty st
    in retE (cy_jwt_encode cy (update_payload payload extra) secret kid, jti)))"

definition jwt_error :: pyexc where
  "jwt_error = exc PlainException ''PyJWTError''"

definition decode_token :: "settings \<Rightarrow> crypto \<Rightarrow> string \<Rightarrow> token_type \<Rightarrow> int \<Rightarrow> pyexc + json_object" where
  "decode_token st cy tok ty t =
    (case cy_jwt_decode cy tok (fst (secret_and_kid_for ty st)) (st_jwt_issuer st) t of
       None \<Rightarrow> Inl jwt_error
     | Some p \<Rightarrow> if map_of p ''type'' \<noteq> Some (JStr (token_type_value ty)) then Inl jwt_error else Inr p)"

text \<open>
  What the JWT library documents: decoding what was encoded with the same secret gives the
  payload back while it has been issued, has not expired and names the issuer, and nothing
  decodes under a secret it was not signed with.  The claims the code encodes are strings
  and integers.
\<close>

definition flat_claims :: "json_object \<Rightarrow> bool" where
  "flat_claims p \<longleftrightarrow> (\<forall>(k, v)\<in>set p. case v of JStr s \<Rightarrow> True | JInt i \<Rightarrow> True | _ \<Rightarrow> False)"

definition claims_current :: "json_object \<Rightarrow> string \<Rightarrow> int \<Rightarrow> bool" where
  "claims_current p iss t \<longleftrightarrow> map_of p ''iss'' = Some (JStr iss) \<and>
     (case map_of p ''iat'' of Some (JInt i) \<Rightarrow> i \<le> seconds t | _ \<Rightarrow> True) \<and>
     (case map_of p ''exp'' of Some (JInt e) \<Rightarrow> seconds t < e | _ \<Rightarrow> True)"

definition jwt_sound :: "crypto \<Rightarrow> bool" where
  "jwt_sound cy \<longleftrightarrow> (\<forall>p s s' k iss t. flat_claims p \<longrightarrow>
     cy_jwt_decode cy (cy_jwt_encode cy p s k) s' iss t =
       (if s' = s \<and> claims_current p iss t then Some p else None))"

end
