(* ===== verification/Auth_Service.thy ===== *)
theory Auth_Service
  imports Token_Repositories Finding_Repositories Security
begin

text \<open>
  \<open>services/auth_service.py\<close>, with the request schemas of \<open>schemas/auth.py\<close> and the e-mails
  of \<open>services/email_service.py\<close>: registration, login, refresh-token rotation with reuse
  detection, logout, tenant switching, password and e-mail verification, session
  management.  Audit records of a refused login, of a replayed token and of a bad
  verification token are committed before the error is raised, and survive the rollback
  of the request.
\<close>

section \<open>Schemas\<close>

record request_context =
  rx_ip_address :: "string option"
  rx_user_agent :: "string option"

record register_request =
  rg_email :: string
  rg_display_name :: string
  rg_password :: string

record login_request =
  lg_email :: string
  lg_password :: string
  lg_tenant_id :: "uuid option"

record user_read =
  ur_id :: uuid
  ur_email :: string
  ur_display_name :: string
  ur_status :: user_status
  ur_created_at :: int
  ur_updated_at :: int

record register_response =
  rr_user :: user_read
  rr_email_verification_sent :: bool

record token_pair =
  tp_access_token :: string
  tp_refresh_token :: string
  tp_expires_in :: int

record tenant_option =
  to_tenant_id :: uuid
  to_tenant_name :: string
  to_role :: membership_role

record login_response =
  lr_token :: "token_pair option"
  lr_available_tenants :: "tenant_option list"

definition user_read_of :: "user \<Rightarrow> user_read" where
  "user_read_of u = \<lparr>ur_id = us_id u, ur_email = us_email u, ur_display_name = us_display_name u,
     ur_status = us_status u, ur_created_at = us_created_at u, ur_updated_at = us_updated_at u\<rparr>"

definition parse_register :: "register_request \<Rightarrow> register_request" where
  "parse_register r = r\<lparr>rg_email := normalize_email (rg_email r)\<rparr>"

definition parse_login :: "login_request \<Rightarrow> login_request" where
  "parse_login r = r\<lparr>lg_email := normalize_email (lg_email r)\<rparr>"

section \<open>E-mails\<close>

definition send_verification_email :: "settings \<Rightarrow> string \<Rightarrow> string \<Rightarrow> unit prog" where
  "send_verification_email st to tok =
    emit (SentEmail to ''Verify your SentinelX email address''
      (''Verify your email address by visiting: '' @ st_frontend_base_url st @ ''/verify-email?token='' @ tok))"

definition send_password_reset_email :: "settings \<Rightarrow> string \<Rightarrow> string \<Rightarrow> unit prog" where
  "send_password_reset_email st to tok =
    emit (SentEmail to ''Reset your SentinelX password''
      (''Reset your password by visiting: '' @ st_frontend_base_url st @ ''/reset-password?token='' @ tok))"

section \<open>Internals\<close>

definition check_password_policy :: "settings \<Rightarrow> crypto \<Rightarrow> string \<Rightarrow> unit prog" where
  "check_password_policy st cy pw =
    thenE (liftE (validate_password_policy st pw))
      (if cy_is_breached cy pw
       then raiseE (password_policy_error [''password has appeared in a known data breach''])
       else retE ())"

definition record_audit :: "audit_create \<Rightarrow> unit prog" where
  "record_audit c = bindE (liftE (check_audit_create c)) (\<lambda>c'. bindE (audit_repo_create c') (\<lambda>_. retE ()))"

text \<open>An event of one user about a resource, with or without the caller's metadata.\<close>

definition auth_event ::
    "uuid option \<Rightarrow> uuid option \<Rightarrow> string \<Rightarrow> string \<Rightarrow> string option \<Rightarrow> audit_outcome \<Rightarrow>
     request_context \<Rightarrow> audit_create" where
  "auth_event tn actor action rtype rid out cx = \<lparr>ac_tenant_id = tn, ac_actor_user_id = actor,
     ac_action = action, ac_resource_type = rtype, ac_resource_id = rid, ac_outcome = out,
     ac_correlation_id = None, ac_source_ip = rx_ip_address cx, ac_user_agent = rx_user_agent cx,
     ac_event_metadata = None\<rparr>"

definition no_context :: request_context where
  "no_context = \<lparr>rx_ip_address = None, rx_user_agent = None\<rparr>"

definition user_event :: "uuid option \<Rightarrow> user \<Rightarrow> string \<Rightarrow> request_context \<Rightarrow> audit_create" where
  "user_event tn u action cx =
    auth_event tn (Some (us_id u)) action ''user'' (Some (uuid_str (us_id u))) AuditSuccess cx"

definition failed_login_event :: "user option \<Rightarrow> string \<Rightarrow> request_context \<Rightarrow> audit_create" where
  "failed_login_event u email cx = auth_event None (map_option us_id u) ''auth.login'' ''user''
     (Some (case u of Some x \<Rightarrow> uuid_str (us_id x) | None \<Rightarrow> email)) AuditFailure cx"

definition record_failed_login :: "user option \<Rightarrow> string \<Rightarrow> request_context \<Rightarrow> unit prog" where
  "record_failed_login u email cx = thenE (record_audit (failed_login_event u email cx)) commit"

definition resolve_tenant ::
    "membership list \<Rightarrow> uuid option \<Rightarrow> pyexc + (uuid \<times> membership_role) option" where
  "resolve_tenant ms requested =
    (case requested of
       Some tn \<Rightarrow> (case List.find (\<lambda>m. me_tenant_id m = tn) ms of
                     None \<Rightarrow> Inl (exc TenantAccessDeniedError [])
                   | Some m \<Rightarrow> Inr (Some (me_tenant_id m, me_role m)))
     | None \<Rightarrow> (case ms of [m] \<Rightarrow> Inr (Some (me_tenant_id m, me_role m)) | _ \<Rightarrow> Inr None))"

definition access_claims :: "user \<Rightarrow> uuid \<Rightarrow> membership_role \<Rightarrow> json_object" where
  "access_claims u tn role = [(''tenant_id'', JStr (uuid_str tn)),
     (''role'', JStr (membership_role_value role)), (''ver'', JInt (us_token_version u))]"

definition create_access_token :: "settings \<Rightarrow> crypto \<Rightarrow> user \<Rightarrow> uuid \<Rightarrow> membership_role \<Rightarrow> string prog" where
  "create_access_token st cy u tn role =
    bindE (create_token st cy (uuid_str (us_id u)) Access None (access_claims u tn role))
      (\<lambda>(tok, jti). retE tok)"

definition build_refresh_token_create ::
    "settings \<Rightarrow> crypto \<Rightarrow> uuid \<Rightarrow> uuid \<Rightarrow> uuid \<Rightarrow> string \<Rightarrow> request_context \<Rightarrow> refresh_token_create prog" where
  "build_refresh_token_create st cy tn u fam raw cx =
    bindE now (\<lambda>t. retE \<lparr>rc_tenant_id = tn, rc_user_id = u, rc_family_id = fam,
      rc_hashed_token = hash_secret cy raw,
      rc_expires_at = t + days (st_jwt_refresh_token_expire_days st),
      rc_created_by_ip = rx_ip_address cx, rc_user_agent = rx_user_agent cx\<rparr>)"

definition token_pair_of :: "settings \<Rightarrow> string \<Rightarrow> string \<Rightarrow> token_pair" where
  "token_pair_of st acc raw = \<lparr>tp_access_token = acc, tp_refresh_token = raw,
     tp_expires_in = st_jwt_access_token_expire_minutes st * 60\<rparr>"

definition issue_fresh_token_pair ::
    "settings \<Rightarrow> crypto \<Rightarrow> user \<Rightarrow> uuid \<Rightarrow> membership_role \<Rightarrow> request_context \<Rightarrow> token_pair prog" where
  "issue_fresh_token_pair st cy u tn role cx =
    bindE draw_uuid (\<lambda>fam.
    bindE (generate_secret cy 32) (\<lambda>raw.
    bindE (build_refresh_token_create st cy tn (us_id u) fam raw cx) (\<lambda>c.
    thenE (bindE (refresh_repo_create c fam) (\<lambda>_. retE ()))
    (bindE (create_access_token st cy u tn role) (\<lambda>acc.
    retE (token_pair_of st acc raw))))))"

definition verification_token_ttl :: "settings \<Rightarrow> verification_token_purpose \<Rightarrow> int" where
  "verification_token_ttl st p =
    (if p = EmailVerification then minutes (60 * st_email_verification_token_expire_hours st)
     else minutes (st_password_reset_token_expire_minutes st))"

definition issue_verification_token_and_email ::
    "settings \<Rightarrow> crypto \<Rightarrow> user \<Rightarrow> verification_token_purpose \<Rightarrow> unit prog" where
  "issue_verification_token_and_email st cy u p =
    bindE (verification_repo_invalidate_pending (us_id u) p) (\<lambda>_.
    bindE (generate_secret cy 32) (\<lambda>raw.
    bindE now (\<lambda>t.
    bindE (verification_repo_create \<lparr>vc_user_id = us_id u, vc_purpose = p,
      vc_hashed_token = hash_secret cy raw, vc_expires_at = t + verification_token_ttl st p\<rparr>) (\<lambda>_.
    if p = EmailVerification then send_verification_email st (us_email u) raw
    else send_password_reset_email st (us_email u) raw))))"

section \<open>Registration and login\<close>

definition register :: "settings \<Rightarrow> crypto \<Rightarrow> register_request \<Rightarrow> register_response prog" where
  "register st cy data =
    bindE (user_repo_get_by_email (rg_email data)) (\<lambda>existing.
    if existing \<noteq> None then raiseE (exc EmailAlreadyRegisteredError []) else
    thenE (check_password_policy st cy (rg_password data))
    (bindE (user_repo_create (check_user_create
        \<lparr>uc_email = rg_email data, uc_display_name = rg_display_name data\<rparr>)) (\<lambda>u.
    bindE (hash_password cy (rg_password data)) (\<lambda>h.
    bindE (user_repo_set_password u h False) (\<lambda>u'.
    thenE (issue_verification_token_and_email st cy u' EmailVerification)
    (thenE (record_audit (user_event None u' ''auth.register'' no_context))
    (retE \<lparr>rr_user = user_read_of u', rr_email_verification_sent = True\<rparr>)))))))"

text \<open>The user whose stored hash the password matches.\<close>

definition password_matches :: "crypto \<Rightarrow> user option \<Rightarrow> string \<Rightarrow> user option" where
  "password_matches cy u pw =
    (case u of None \<Rightarrow> None | Some x \<Rightarrow>
      (case us_hashed_password x of None \<Rightarrow> None
       | Some h \<Rightarrow> if cy_verify_password cy pw h then Some x else None))"

definition rehash_if_needed :: "crypto \<Rightarrow> user \<Rightarrow> string \<Rightarrow> user prog" where
  "rehash_if_needed cy u pw =
    (if (case us_hashed_password u of None \<Rightarrow> False | Some h \<Rightarrow> cy_needs_rehash cy h)
     then bindE (hash_password cy pw) (\<lambda>h. user_repo_set_password u h False)
     else retE u)"

definition tenant_option_of :: "membership \<times> string \<Rightarrow> tenant_option" where
  "tenant_option_of mn = \<lparr>to_tenant_id = me_tenant_id (fst mn), to_tenant_name = snd mn,
     to_role = me_role (fst mn)\<rparr>"

definition login :: "settings \<Rightarrow> crypto \<Rightarrow> login_request \<Rightarrow> request_context \<Rightarrow> login_response prog" where
  "login st cy data cx =
    bindE (user_repo_get_by_email (lg_email data)) (\<lambda>found.
    case password_matches cy found (lg_password data) of
      None \<Rightarrow> thenE (record_failed_login found (lg_email data) cx) (raiseE (exc InvalidCredentialsError []))
    | Some u \<Rightarrow>
      if us_status u \<noteq> UserActive
      then thenE (record_failed_login found (lg_email data) cx) (raiseE (exc AccountInactiveError []))
      else
      bindE (rehash_if_needed cy u (lg_password data)) (\<lambda>u'.
      bindE (membership_repo_list_by_user (us_id u')) (\<lambda>ms.
      bindE (liftE (resolve_tenant (map fst ms) (lg_tenant_id data))) (\<lambda>choice.
      case choice of
        None \<Rightarrow>
          thenE (record_audit ((user_event None u' ''auth.login'' cx)
              \<lparr>ac_event_metadata := Some [(''available_tenant_count'', JInt (int (length ms)))]\<rparr>))
            (retE \<lparr>lr_token = None, lr_available_tenants = map tenant_option_of ms\<rparr>)
      | Some (tn, role) \<Rightarrow>
          bindE (issue_fresh_token_pair st cy u' tn role cx) (\<lambda>tp.
          thenE (record_audit (user_event (Some tn) u' ''auth.login'' cx))
            (retE \<lparr>lr_token = Some tp, lr_available_tenants = []\<rparr>))))))"

section \<open>Refresh, logout, switching\<close>

definition reuse_event :: "refresh_token \<Rightarrow> request_context \<Rightarrow> audit_create" where
  "reuse_event r cx = auth_event (Some (rt_tenant_id r)) (Some (rt_user_id r))
     ''auth.refresh_token_reuse_detected'' ''refresh_token_family'' (Some (uuid_str (rt_family_id r)))
     AuditDenied cx"

definition refresh_token_invalid :: pyexc where
  "refresh_token_invalid = exc InvalidRefreshTokenError []"

definition refresh :: "settings \<Rightarrow> crypto \<Rightarrow> string \<Rightarrow> request_context \<Rightarrow> token_pair prog" where
  "refresh st cy raw cx =
    bindE (refresh_repo_get_by_hashed_token (hash_secret cy raw)) (\<lambda>found.
    case found of None \<Rightarrow> raiseE refresh_token_invalid | Some r \<Rightarrow>
    if rt_status r = TokenRotated then
      bindE (refresh_repo_revoke_family (rt_family_id r)) (\<lambda>_.
      thenE (record_audit (reuse_event r cx))
      (thenE commit (raiseE (exc RefreshTokenReuseDetectedError []))))
    else bindE now (\<lambda>t.
    if rt_status r = TokenRevoked \<or> rt_expires_at r \<le> t then raiseE refresh_token_invalid else
    bindE (user_repo_get_by_id (rt_user_id r)) (\<lambda>user.
    case user of None \<Rightarrow> raiseE refresh_token_invalid | Some u \<Rightarrow>
    if us_status u \<noteq> UserActive then raiseE refresh_token_invalid else
    bindE (membership_repo_get_by_tenant_and_user (rt_tenant_id r) (us_id u)) (\<lambda>member.
    case member of None \<Rightarrow> raiseE refresh_token_invalid | Some m \<Rightarrow>
    if me_status m \<noteq> MemberActive then raiseE refresh_token_invalid else
    bindE (generate_secret cy 32) (\<lambda>raw'.
    bindE (build_refresh_token_create st cy (rt_tenant_id r) (us_id u) (rt_family_id r) raw' cx) (\<lambda>c.
    thenE (bindE (refresh_repo_rotate r c) (\<lambda>_. retE ()))
    (bindE (create_access_token st cy u (rt_tenant_id r) (me_role m)) (\<lambda>acc.
    retE (token_pair_of st acc raw')))))))))"

definition logout :: "crypto \<Rightarrow> user \<Rightarrow> uuid \<Rightarrow> string \<Rightarrow> request_context \<Rightarrow> unit prog" where
  "logout cy u tn raw cx =
    bindE (refresh_repo_get_by_hashed_token (hash_secret cy raw)) (\<lambda>found.
    thenE (case found of
        Some r \<Rightarrow> if rt_user_id r = us_id u
                 then bindE (refresh_repo_revoke_family (rt_family_id r)) (\<lambda>_. retE ()) else retE ()
      | None \<Rightarrow> retE ())
    (record_audit (user_event (Some tn) u ''auth.logout'' cx)))"

definition switch_tenant ::
    "settings \<Rightarrow> crypto \<Rightarrow> user \<Rightarrow> uuid \<Rightarrow> request_context \<Rightarrow> token_pair prog" where
  "switch_tenant st cy u tn cx =
    bindE (membership_repo_get_by_tenant_and_user tn (us_id u)) (\<lambda>member.
    case member of None \<Rightarrow> raiseE (exc TenantAccessDeniedError []) | Some m \<Rightarrow>
    if me_status m \<noteq> MemberActive then raiseE (exc TenantAccessDeniedError []) else
    bindE (issue_fresh_token_pair st cy u tn (me_role m) cx) (\<lambda>tp.
    thenE (record_audit (user_event (Some tn) u ''auth.switch_tenant'' cx)) (retE tp)))"

section \<open>Passwords and e-mail verification\<close>

definition change_password :: "settings \<Rightarrow> crypto \<Rightarrow> user \<Rightarrow> string \<Rightarrow> string \<Rightarrow> unit prog" where
  "change_password st cy u current_password new_password =
    (if password_matches cy (Some u) current_password = None
     then raiseE (exc InvalidCredentialsError [])
     else
     thenE (check_password_policy st cy new_password)
     (bindE (hash_password cy new_password) (\<lambda>h.
     bindE (user_repo_set_password u h True) (\<lambda>u'.
     bindE (refresh_repo_revoke_all_for_user (us_id u')) (\<lambda>_.
     record_audit (user_event None u' ''auth.change_password'' no_context))))))"

definition request_password_reset :: "settings \<Rightarrow> crypto \<Rightarrow> string \<Rightarrow> request_context \<Rightarrow> unit prog" where
  "request_password_reset st cy email cx =
    bindE (user_repo_get_by_email email) (\<lambda>user.
    case user of None \<Rightarrow> retE () | Some u \<Rightarrow>
    if us_status u \<noteq> UserActive then retE () else
    thenE (issue_verification_token_and_email st cy u PasswordReset)
      (record_audit (user_event None u ''auth.password_reset_request'' cx)))"

definition bad_token_event :: "string \<Rightarrow> audit_create" where
  "bad_token_event action = auth_event None None action ''verification_token'' None AuditFailure no_context"

definition refuse_token :: "string \<Rightarrow> unit prog" where
  "refuse_token action =
    thenE (record_audit (bad_token_event action))
    (thenE commit (raiseE (exc InvalidVerificationTokenError [])))"

definition confirm_password_reset :: "settings \<Rightarrow> crypto \<Rightarrow> string \<Rightarrow> string \<Rightarrow> unit prog" where
  "confirm_password_reset st cy raw new_password =
    bindE (verification_repo_get_valid (hash_secret cy raw) PasswordReset) (\<lambda>found.
    case found of None \<Rightarrow> refuse_token ''auth.password_reset'' | Some r \<Rightarrow>
    thenE (check_password_policy st cy new_password)
    (bindE (user_repo_get_by_id (vt_user_id r)) (\<lambda>user.
    case user of None \<Rightarrow> raiseE (exc InvalidVerificationTokenError []) | Some u \<Rightarrow>
    bindE (hash_password cy new_password) (\<lambda>h.
    bindE (user_repo_set_password u h True) (\<lambda>u'.
    bindE (refresh_repo_revoke_all_for_user (us_id u')) (\<lambda>_.
    bindE (verification_repo_consume r) (\<lambda>_.
    record_audit (user_event None u' ''auth.password_reset'' no_context))))))))"

definition request_email_verification :: "settings \<Rightarrow> crypto \<Rightarrow> user \<Rightarrow> unit prog" where
  "request_email_verification st cy u =
    (if us_email_verified_at u \<noteq> None then retE ()
     else issue_verification_token_and_email st cy u EmailVerification)"

definition confirm_email_verification :: "crypto \<Rightarrow> string \<Rightarrow> unit prog" where
  "confirm_email_verification cy raw =
    bindE (verification_repo_get_valid (hash_secret cy raw) EmailVerification) (\<lambda>found.
    case found of None \<Rightarrow> refuse_token ''auth.email_verification'' | Some r \<Rightarrow>
    bindE (user_repo_get_by_id (vt_user_id r)) (\<lambda>user.
    case user of None \<Rightarrow> raiseE (exc InvalidVerificationTokenError []) | Some u \<Rightarrow>
    bindE (user_repo_mark_email_verified u) (\<lambda>u'.
    bindE (verification_repo_consume r) (\<lambda>_.
    record_audit (user_event None u' ''auth.email_verification'' no_context)))))"

section \<open>Sessions\<close>

definition list_sessions :: "uuid \<Rightarrow> refresh_token list prog" where
  "list_sessions u = refresh_repo_list_active_sessions u"

definition revoke_session :: "user \<Rightarrow> uuid \<Rightarrow> unit prog" where
  "revoke_session u i =
    bindE (refresh_repo_get_by_id (us_id u) i) (\<lambda>found.
    case found of None \<Rightarrow> raiseE refresh_token_invalid
    | Some r \<Rightarrow> bindE (refresh_repo_revoke_family (rt_family_id r)) (\<lambda>_. retE ()))"

definition revoke_all_sessions :: "user \<Rightarrow> unit prog" where
  "revoke_all_sessions u =
    bindE (refresh_repo_revoke_all_for_user (us_id u)) (\<lambda>_.
    bindE (user_repo_bump_token_version u) (\<lambda>_. retE ()))"

end
