(* ===== verification/API_Key_Service.thy ===== *)
theory API_Key_Service
  imports Token_Repositories Security
begin

text \<open>
  \<open>services/api_key_service.py\<close>: a key is \<open>prefix.secret\<close>; the prefix is stored and unique,
  of the secret only the hash.
\<close>

record api_key_issue_request =
  ki_name :: string
  ki_scopes :: "string list"
  ki_expires_at :: "int option"

record api_key_issue_response =
  kr_id :: uuid
  kr_name :: string
  kr_prefix :: string
  kr_api_key :: string
  kr_scopes :: "string list"
  kr_expires_at :: "int option"
  kr_created_at :: int

definition issue :: "crypto \<Rightarrow> uuid \<Rightarrow> uuid option \<Rightarrow> api_key_issue_request \<Rightarrow> api_key_issue_response prog" where
  "issue cy tn u data =
    bindE (generate_secret cy 6) (\<lambda>p.
    bindE (generate_secret cy 32) (\<lambda>secret.
    let prefix = ''sx_'' @ p; plaintext_key = prefix @ ''.'' @ secret in
    bindE (api_key_repo_create \<lparr>kc_tenant_id = tn, kc_user_id = u, kc_name = ki_name data,
      kc_prefix = prefix, kc_hashed_secret = hash_secret cy secret, kc_scopes = ki_scopes data,
      kc_expires_at = ki_expires_at data\<rparr>) (\<lambda>k.
    retE \<lparr>kr_id = ak_id k, kr_name = ak_name k, kr_prefix = ak_prefix k, kr_api_key = plaintext_key,
      kr_scopes = ak_scopes k, kr_expires_at = ak_expires_at k, kr_created_at = ak_created_at k\<rparr>)))"

text \<open>\<open>plaintext_key.split(".", 1)\<close>: without a dot the unpacking raises \<open>ValueError\<close>.\<close>

definition split_key :: "string \<Rightarrow> (string \<times> string) option" where
  "split_key s = (if CHR ''.'' \<in> set s
     then Some (takeWhile (\<lambda>c. c \<noteq> CHR ''.'') s, tl (dropWhile (\<lambda>c. c \<noteq> CHR ''.'') s)) else None)"

definition authenticate :: "crypto \<Rightarrow> string \<Rightarrow> api_key option prog" where
  "authenticate cy plaintext_key =
    (case split_key plaintext_key of None \<Rightarrow> retE None | Some (prefix, secret) \<Rightarrow>
     bindE (api_key_repo_get_by_prefix prefix) (\<lambda>found.
     case found of None \<Rightarrow> retE None | Some k \<Rightarrow>
     if ak_status k \<noteq> KeyActive then retE None else
     bindE now (\<lambda>t.
     if (case ak_expires_at k of None \<Rightarrow> False | Some e \<Rightarrow> e \<le> t) then retE None else
     if ak_hashed_secret k \<noteq> hash_secret cy secret then retE None else
     bindE now (\<lambda>t'.
     bindE (api_key_repo_update k \<lparr>ku_status = None, ku_revoked_at = None, ku_last_used_at = Some t'\<rparr>)
       (\<lambda>k'. retE (Some k'))))))"

definition revoke_key :: "api_key \<Rightarrow> api_key prog" where
  "revoke_key k =
    bindE now (\<lambda>t. api_key_repo_update k
      \<lparr>ku_status = Some KeyRevoked, ku_revoked_at = Some t, ku_last_used_at = None\<rparr>)"

text \<open>
  The revoked object is the same ORM object, so the new key copies its name, scopes and
  expiry from it.
\<close>

definition rotate_key :: "crypto \<Rightarrow> uuid \<Rightarrow> uuid option \<Rightarrow> api_key \<Rightarrow> api_key_issue_response prog" where
  "rotate_key cy tn u k =
    bindE (revoke_key k) (\<lambda>_.
    issue cy tn u \<lparr>ki_name = ak_name k, ki_scopes = ak_scopes k, ki_expires_at = ak_expires_at k\<rparr>)"

end
