(* ===== verification/Redis_State.thy ===== *)
theory Redis_State
  imports Session
begin

text \<open>
  The two guards that live in Redis: \<open>core/token_denylist.py\<close> and \<open>core/rate_limit.py\<close>.  The
  commands they use are modelled as Redis documents them: each is atomic, a key past its
  expiry does not exist, \<open>INCR\<close> starts at one and keeps the expiry, \<open>EXPIRE\<close> and the
  \<open>ex\<close> argument of \<open>SET\<close> count whole seconds from now.
\<close>

definition redis_live :: "redis \<Rightarrow> int \<Rightarrow> string \<Rightarrow> int option" where
  "redis_live r t k = (case r k of
     None \<Rightarrow> None
   | Some (v, e) \<Rightarrow> (case e of None \<Rightarrow> Some v | Some x \<Rightarrow> if t < x then Some v else None))"

definition incr_key :: "string \<Rightarrow> int \<Rightarrow> redis \<Rightarrow> redis" where
  "incr_key k t r = (case redis_live r t k of
     None \<Rightarrow> r(k := Some (1, None))
   | Some v \<Rightarrow> r(k := Some (v + 1, snd (the (r k)))))"

definition expire_key :: "string \<Rightarrow> int \<Rightarrow> int \<Rightarrow> redis \<Rightarrow> redis" where
  "expire_key k secs t r = (case redis_live r t k of
     None \<Rightarrow> r
   | Some v \<Rightarrow> r(k := Some (v, Some (t + secs * 1000000))))"

definition redis_do :: "(int \<Rightarrow> redis \<Rightarrow> redis) \<Rightarrow> unit prog" where
  "redis_do f = thenE pause (\<lambda>w. (Inr (), w\<lparr>w_redis := f (w_clock w) (w_redis w)\<rparr>))"

definition redis_incr :: "string \<Rightarrow> int prog" where
  "redis_incr k = thenE (redis_do (incr_key k))
     (\<lambda>w. (Inr (case w_redis w k of None \<Rightarrow> 0 | Some (v, _) \<Rightarrow> v), w))"

definition redis_expire :: "string \<Rightarrow> int \<Rightarrow> unit prog" where
  "redis_expire k secs = redis_do (expire_key k secs)"

definition redis_set_ex :: "string \<Rightarrow> int \<Rightarrow> int \<Rightarrow> unit prog" where
  "redis_set_ex k v secs = redis_do (\<lambda>t r. r(k := Some (v, Some (t + secs * 1000000))))"

definition redis_exists :: "string \<Rightarrow> bool prog" where
  "redis_exists k = thenE pause (\<lambda>w. (Inr (redis_live (w_redis w) (w_clock w) k \<noteq> None), w))"

section \<open>The logout denylist\<close>

definition denylist_key :: "string \<Rightarrow> string" where
  "denylist_key jti = ''auth:denylist:jti:'' @ jti"

definition deny_token :: "string \<Rightarrow> int \<Rightarrow> unit prog" where
  "deny_token jti ttl_seconds =
    (if ttl_seconds \<le> 0 then retE () else redis_set_ex (denylist_key jti) 1 ttl_seconds)"

definition is_token_denied :: "string \<Rightarrow> bool prog" where
  "is_token_denied jti = redis_exists (denylist_key jti)"

section \<open>Rate limiting\<close>

record http_request =
  hr_forwarded_for :: "string option"
  hr_client_host :: "string option"
  hr_user_agent :: "string option"

definition get_client_ip :: "http_request \<Rightarrow> string option" where
  "get_client_ip r =
    (if truthy (hr_forwarded_for r)
     then Some (strip (takeWhile (\<lambda>c. c \<noteq> CHR '','') (or_default (hr_forwarded_for r) [])))
     else hr_client_host r)"

definition rate_key :: "string \<Rightarrow> http_request \<Rightarrow> string" where
  "rate_key name r = ''auth:ratelimit:'' @ name @ '':'' @ or_default (get_client_ip r) ''unknown''"

definition too_many_requests :: pyexc where
  "too_many_requests = exc (HTTPException 429) ''Too many requests. Please try again later.''"

definition rate_limit :: "string \<Rightarrow> int \<Rightarrow> int \<Rightarrow> http_request \<Rightarrow> unit prog" where
  "rate_limit name max_requests window_seconds r =
    bindE (redis_incr (rate_key name r)) (\<lambda>current.
    thenE (whenE (current = 1) (redis_expire (rate_key name r) window_seconds))
      (if current > max_requests then raiseE too_many_requests else retE ()))"

definition live_count :: "int option \<Rightarrow> int" where
  "live_count x = (case x of None \<Rightarrow> 0 | Some v \<Rightarrow> v)"

lemma live_count_simps [simp]: "live_count None = 0" "live_count (Some v) = v"
  by (simp_all add: live_count_def)

lemma redis_run [prog_simps]:
  assumes "w_script w = []"
  shows "redis_do f w = (Inr (), w\<lparr>w_redis := f (w_clock w) (w_redis w)\<rparr>)"
    and "redis_exists k w = (Inr (redis_live (w_redis w) (w_clock w) k \<noteq> None), w)"
    and "redis_incr k w = (Inr (live_count (redis_live (w_redis w) (w_clock w) k) + 1),
           w\<lparr>w_redis := incr_key k (w_clock w) (w_redis w)\<rparr>)"
  using assms
  by (auto simp: redis_do_def redis_exists_def redis_incr_def run_simps pause_quiet incr_key_def
      live_count_def split: option.split)

end
