(* ===== verification/Access_Control.thy ===== *)
theory Access_Control
  imports Auth_Service API_Key_Service Redis_State
begin

text \<open>
  \<open>core/permissions.py\<close> and \<open>api/deps.py\<close>: the role matrix, and the dependencies that turn a
  bearer token or an API key into the principal of a request.
\<close>

section \<open>Permissions\<close>

datatype permission =
    MEMBERS_VIEW
  | MEMBERS_MANAGE
  | API_KEYS_VIEW
  | API_KEYS_MANAGE
  | AUDIT_VIEW
  | SCANS_VIEW
  | SCANS_MANAGE

fun permission_value :: "permission \<Rightarrow> string" where
  "permission_value MEMBERS_VIEW = ''members:view''"
| "permission_value MEMBERS_MANAGE = ''members:manage''"
| "permission_value API_KEYS_VIEW = ''api_keys:view''"
| "permission_value API_KEYS_MANAGE = ''api_keys:manage''"
| "permission_value AUDIT_VIEW = ''audit:view''"
| "permission_value SCANS_VIEW = ''scans:view''"
| "permission_value SCANS_MANAGE = ''scans:manage''"

definition permission_members :: "permission list" where
  "permission_members = [MEMBERS_VIEW, MEMBERS_MANAGE, API_KEYS_VIEW, API_KEYS_MANAGE, AUDIT_VIEW,
     SCANS_VIEW, SCANS_MANAGE]"

interpretation permission_enum: str_enum permission_members permission_value
proof unfold_locales
  fix x y :: permission
  show "x \<in> set permission_members" by (cases x) (simp_all add: permission_members_def)
  show "permission_value x = permission_value y \<Longrightarrow> x = y" by (cases x; cases y) simp_all
qed

fun role_permissions :: "membership_role \<Rightarrow> permission list" where
  "role_permissions OWNER = permission_members"
| "role_permissions ADMINISTRATOR = permission_members"
| "role_permissions SECURITY_ANALYST = [MEMBERS_VIEW, API_KEYS_VIEW, AUDIT_VIEW, SCANS_VIEW, SCANS_MANAGE]"
| "role_permissions DEVELOPER = [MEMBERS_VIEW, API_KEYS_VIEW, SCANS_VIEW, SCANS_MANAGE]"
| "role_permissions VIEWER = [MEMBERS_VIEW, SCANS_VIEW]"

definition has_permission :: "membership_role \<Rightarrow> permission \<Rightarrow> bool" where
  "has_permission role p \<longleftrightarrow> p \<in> set (role_permissions role)"

record principal =
  pn_user :: "user option"
  pn_tenant_id :: uuid
  pn_role :: "membership_role option"
  pn_scopes :: "string list option"

definition principal_has_permission :: "principal \<Rightarrow> permission \<Rightarrow> bool" where
  "principal_has_permission pn p =
    (case pn_scopes pn of
       Some scopes \<Rightarrow> permission_value p \<in> set scopes
     | None \<Rightarrow> (case pn_role pn of Some role \<Rightarrow> has_permission role p | None \<Rightarrow> False))"

definition forbidden :: pyexc where
  "forbidden = exc (HTTPException 403) ''You do not have permission to perform this action.''"

definition require_permission :: "permission \<Rightarrow> principal \<Rightarrow> principal prog" where
  "require_permission p pn = (if \<not> principal_has_permission pn p then raiseE forbidden else retE pn)"

section \<open>Principals\<close>

definition unauthorized :: "string \<Rightarrow> pyexc" where
  "unauthorized detail = exc (HTTPException 401) detail"

definition str_claim :: "json_object \<Rightarrow> string \<Rightarrow> string option" where
  "str_claim p k = (case map_of p k of Some (JStr s) \<Rightarrow> Some s | _ \<Rightarrow> None)"

text \<open>
  Claims are read as the code reads them; the JWT library has already refused a \<open>sub\<close> or
  \<open>jti\<close> that is not a string.
\<close>

definition get_access_token_payload :: "settings \<Rightarrow> crypto \<Rightarrow> string option \<Rightarrow> json_object prog" where
  "get_access_token_payload st cy credentials =
    (case credentials of None \<Rightarrow> raiseE (unauthorized ''Not authenticated'') | Some tok \<Rightarrow>
     bindE now (\<lambda>t.
     case decode_token st cy tok Access t of
       Inl _ \<Rightarrow> raiseE (unauthorized ''Invalid or expired access token'')
     | Inr p \<Rightarrow>
       bindE (if truthy (str_claim p ''jti'') then is_token_denied (or_default (str_claim p ''jti'') [])
              else retE False) (\<lambda>denied.
       if denied then raiseE (unauthorized ''Token has been revoked'') else retE p)))"

definition get_current_user :: "json_object \<Rightarrow> user prog" where
  "get_current_user p =
    (case Option.bind (str_claim p ''sub'') uuid_parse of
       None \<Rightarrow> raiseE (unauthorized ''Invalid token subject'')
     | Some i \<Rightarrow>
       bindE (user_repo_get_by_id i) (\<lambda>found.
       case found of None \<Rightarrow> raiseE (unauthorized ''User not found or inactive'') | Some u \<Rightarrow>
       if us_status u \<noteq> UserActive then raiseE (unauthorized ''User not found or inactive'') else
       if map_of p ''ver'' \<noteq> Some (JInt (us_token_version u))
       then raiseE (unauthorized ''Token has been invalidated'')
       else retE u))"

definition ensure_tenant_active :: "uuid \<Rightarrow> unit prog" where
  "ensure_tenant_active tn =
    bindE (tenant_repo_get_by_id tn) (\<lambda>found.
    case found of None \<Rightarrow> raiseE (unauthorized ''Tenant is not active'') | Some r \<Rightarrow>
    if te_status r \<noteq> TenantActive then raiseE (unauthorized ''Tenant is not active'') else retE ())"

definition principal_from_api_key :: "crypto \<Rightarrow> string \<Rightarrow> principal prog" where
  "principal_from_api_key cy plaintext_key =
    bindE (authenticate cy plaintext_key) (\<lambda>found.
    case found of None \<Rightarrow> raiseE (unauthorized ''Invalid API key'') | Some k \<Rightarrow>
    thenE commit
    (thenE (ensure_tenant_active (ak_tenant_id k))
    (bindE (case ak_user_id k of None \<Rightarrow> retE None | Some u \<Rightarrow> user_repo_get_by_id u) (\<lambda>user.
    retE \<lparr>pn_user = user, pn_tenant_id = ak_tenant_id k, pn_role = None,
      pn_scopes = Some (ak_scopes k)\<rparr>))))"

text \<open>What a request carries: the \<open>X-API-Key\<close> header and the bearer token.\<close>

record credentials =
  cd_api_key :: "string option"
  cd_bearer :: "string option"

definition principal_from_token :: "settings \<Rightarrow> crypto \<Rightarrow> string option \<Rightarrow> principal prog" where
  "principal_from_token st cy bearer =
    bindE (get_access_token_payload st cy bearer) (\<lambda>p.
    bindE (get_current_user p) (\<lambda>u.
    if \<not> truthy (str_claim p ''tenant_id'') then raiseE (unauthorized ''Token is not scoped to a tenant'') else
    case uuid_parse (or_default (str_claim p ''tenant_id'') []) of
      None \<Rightarrow> raiseE (unauthorized ''Invalid tenant claim'')
    | Some tn \<Rightarrow>
      bindE (membership_repo_get_by_tenant_and_user tn (us_id u)) (\<lambda>found.
      case found of None \<Rightarrow> raiseE (unauthorized ''Tenant membership is no longer active'') | Some m \<Rightarrow>
      if me_status m \<noteq> MemberActive then raiseE (unauthorized ''Tenant membership is no longer active'') else
      thenE (ensure_tenant_active tn)
      (retE \<lparr>pn_user = Some u, pn_tenant_id = tn, pn_role = Some (me_role m), pn_scopes = None\<rparr>))))"

definition get_current_principal :: "settings \<Rightarrow> crypto \<Rightarrow> credentials \<Rightarrow> principal prog" where
  "get_current_principal st cy cd =
    (case cd_api_key cd of Some k \<Rightarrow> principal_from_api_key cy k
     | None \<Rightarrow> principal_from_token st cy (cd_bearer cd))"

definition current_user :: "settings \<Rightarrow> crypto \<Rightarrow> credentials \<Rightarrow> user prog" where
  "current_user st cy cd = bindE (get_access_token_payload st cy (cd_bearer cd)) get_current_user"

end
