(* ===== verification/Endpoints.thy ===== *)
theory Endpoints
  imports Access_Control Scan_Service "HOL-Library.List_Lexorder"
begin

text \<open>
  The HTTP boundary: \<open>core/error_handlers.py\<close> and the endpoint modules under \<open>api/v1\<close>.  An
  endpoint is the program of its dependencies (rate limit, principal, permission) and its
  body; the transaction of the request (\<open>Session.request\<close>) is put around it by the caller.
  The read schemas of memberships and audit events have exactly the columns of the rows
  and are the rows themselves.
\<close>

section \<open>Errors\<close>

fun status_of_error :: "py_class \<Rightarrow> nat" where
  "status_of_error InvalidCredentialsError = 401"
| "status_of_error AccountInactiveError = 401"
| "status_of_error EmailAlreadyRegisteredError = 409"
| "status_of_error TenantAccessDeniedError = 403"
| "status_of_error InvalidRefreshTokenError = 401"
| "status_of_error RefreshTokenReuseDetectedError = 401"
| "status_of_error InvalidVerificationTokenError = 400"
| "status_of_error (PasswordPolicyError vs) = 422"
| "status_of_error ScanNotFoundError = 404"
| "status_of_error ProjectNotFoundError = 404"
| "status_of_error AssetNotFoundError = 404"
| "status_of_error AssetProjectMismatchError = 400"
| "status_of_error ScanNotCancellableError = 409"
| "status_of_error ScanNotRetryableError = 409"
| "status_of_error (HTTPException n) = n"
| "status_of_error _ = 500"

fun auth_detail :: "py_class \<Rightarrow> string" where
  "auth_detail InvalidCredentialsError = ''Invalid email or password.''"
| "auth_detail AccountInactiveError = ''This account is not active.''"
| "auth_detail EmailAlreadyRegisteredError = ''That email address is already registered.''"
| "auth_detail TenantAccessDeniedError = ''You do not have access to that tenant.''"
| "auth_detail InvalidRefreshTokenError = ''Invalid or expired refresh token.''"
| "auth_detail RefreshTokenReuseDetectedError = ''This refresh token has already been used and was revoked.''"
| "auth_detail InvalidVerificationTokenError = ''Invalid or expired token.''"
| "auth_detail _ = ''The request could not be processed.''"

fun scan_detail :: "py_class \<Rightarrow> string" where
  "scan_detail ScanNotFoundError = ''Scan not found.''"
| "scan_detail ProjectNotFoundError = ''Project not found.''"
| "scan_detail AssetNotFoundError = ''Asset not found.''"
| "scan_detail AssetProjectMismatchError = ''The asset does not belong to the given project.''"
| "scan_detail _ = ''The request could not be processed.''"

definition auth_service_errors :: "py_class list" where
  "auth_service_errors = [InvalidCredentialsError, AccountInactiveError, EmailAlreadyRegisteredError,
     TenantAccessDeniedError, InvalidRefreshTokenError, RefreshTokenReuseDetectedError,
     InvalidVerificationTokenError]"

definition scan_service_errors :: "py_class list" where
  "scan_service_errors = [ScanNotFoundError, ProjectNotFoundError, AssetNotFoundError,
     AssetProjectMismatchError, ScanNotCancellableError, ScanNotRetryableError]"

record http_response =
  hp_status :: nat
  hp_body :: json_object

text \<open>What a client receives for an exception that leaves the endpoint.\<close>

definition error_response :: "pyexc \<Rightarrow> http_response" where
  "error_response e = (let c = ex_class e in
     \<lparr>hp_status = status_of_error c,
      hp_body =
       (if c \<in> set auth_service_errors then [(''detail'', JStr (auth_detail c))]
        else if c \<in> set scan_service_errors
          then [(''detail'', JStr (if ex_message e \<noteq> [] then ex_message e else scan_detail c))]
        else (case c of
          PasswordPolicyError vs \<Rightarrow> [(''detail'', JStr ''Password does not meet policy requirements.''),
            (''violations'', JList (map JStr vs))]
        | HTTPException n \<Rightarrow> [(''detail'', JStr (ex_message e))]
        | _ \<Rightarrow> [(''detail'', JStr ''Internal Server Error'')]))\<rparr>)"

section \<open>Shared dependencies\<close>

record server =
  sv_settings :: settings
  sv_crypto :: crypto

definition request_context_of :: "http_request \<Rightarrow> request_context" where
  "request_context_of r = \<lparr>rx_ip_address = get_client_ip r, rx_user_agent = hr_user_agent r\<rparr>"

definition principal_of :: "server \<Rightarrow> credentials \<Rightarrow> principal prog" where
  "principal_of sv cd = get_current_principal (sv_settings sv) (sv_crypto sv) cd"

definition user_of :: "server \<Rightarrow> credentials \<Rightarrow> user prog" where
  "user_of sv cd = current_user (sv_settings sv) (sv_crypto sv) cd"

definition permitted :: "server \<Rightarrow> credentials \<Rightarrow> permission \<Rightarrow> principal prog" where
  "permitted sv cd p = bindE (principal_of sv cd) (require_permission p)"

definition actor_user_id :: "principal \<Rightarrow> uuid option" where
  "actor_user_id pn = map_option us_id (pn_user pn)"

definition http_error :: "nat \<Rightarrow> string \<Rightarrow> pyexc" where
  "http_error n detail = exc (HTTPException n) detail"

definition require_user_session :: "principal \<Rightarrow> pyexc + user \<times> membership_role" where
  "require_user_session pn = (case (pn_user pn, pn_role pn) of
     (Some u, Some role) \<Rightarrow> Inr (u, role)
   | _ \<Rightarrow> Inl (http_error 401 ''This endpoint requires a user session (JWT), not an API key.''))"

section \<open>Authentication\<close>

definition ep_register :: "server \<Rightarrow> register_request \<Rightarrow> register_response prog" where
  "ep_register sv data = register (sv_settings sv) (sv_crypto sv) (parse_register data)"

definition ep_login :: "server \<Rightarrow> http_request \<Rightarrow> login_request \<Rightarrow> login_response prog" where
  "ep_login sv rq data =
    thenE (rate_limit ''login'' (st_rate_limit_login_per_minute (sv_settings sv)) 60 rq)
      (login (sv_settings sv) (sv_crypto sv) (parse_login data) (request_context_of rq))"

definition ep_refresh :: "server \<Rightarrow> http_request \<Rightarrow> string \<Rightarrow> token_pair prog" where
  "ep_refresh sv rq raw =
    thenE (rate_limit ''refresh'' (st_rate_limit_refresh_per_minute (sv_settings sv)) 60 rq)
      (refresh (sv_settings sv) (sv_crypto sv) raw (request_context_of rq))"

text \<open>\<open>int(exp - time.time())\<close>: truncation towards zero.\<close>

definition trunc_seconds :: "int \<Rightarrow> int" where
  "trunc_seconds x = (if 0 \<le> x then x div 1000000 else - ((- x) div 1000000))"

definition deny_access_token :: "json_object \<Rightarrow> unit prog" where
  "deny_access_token p =
    (case (str_claim p ''jti'', map_of p ''exp'') of
       (Some (c # cs), Some (JInt e)) \<Rightarrow>
         bindE now (\<lambda>t. deny_token (c # cs) (trunc_seconds (e * 1000000 - t)))
     | _ \<Rightarrow> retE ())"

definition ep_logout :: "server \<Rightarrow> credentials \<Rightarrow> http_request \<Rightarrow> string \<Rightarrow> unit prog" where
  "ep_logout sv cd rq raw =
    bindE (principal_of sv cd) (\<lambda>pn.
    bindE (get_access_token_payload (sv_settings sv) (sv_crypto sv) (cd_bearer cd)) (\<lambda>p.
    bindE (liftE (require_user_session pn)) (\<lambda>(u, role).
    thenE (logout (sv_crypto sv) u (pn_tenant_id pn) raw (request_context_of rq))
      (deny_access_token p))))"

definition ep_switch_tenant :: "server \<Rightarrow> credentials \<Rightarrow> http_request \<Rightarrow> uuid \<Rightarrow> token_pair prog" where
  "ep_switch_tenant sv cd rq tn =
    bindE (user_of sv cd) (\<lambda>u.
      switch_tenant (sv_settings sv) (sv_crypto sv) u tn (request_context_of rq))"

record me_response =
  mr_user :: user_read
  mr_tenant_id :: uuid
  mr_role :: membership_role

definition ep_me :: "server \<Rightarrow> credentials \<Rightarrow> me_response prog" where
  "ep_me sv cd =
    bindE (principal_of sv cd) (\<lambda>pn.
    bindE (liftE (require_user_session pn)) (\<lambda>(u, role).
    retE \<lparr>mr_user = user_read_of u, mr_tenant_id = pn_tenant_id pn, mr_role = role\<rparr>))"

definition ep_change_password :: "server \<Rightarrow> credentials \<Rightarrow> string \<Rightarrow> string \<Rightarrow> unit prog" where
  "ep_change_password sv cd current_password new_password =
    bindE (user_of sv cd) (\<lambda>u.
      change_password (sv_settings sv) (sv_crypto sv) u current_password new_password)"

definition reset_request_message :: string where
  "reset_request_message =
    ''If that email address is registered, a password reset link has been sent.''"

definition ep_request_password_reset :: "server \<Rightarrow> http_request \<Rightarrow> string \<Rightarrow> string prog" where
  "ep_request_password_reset sv rq email =
    thenE (rate_limit ''password_reset'' (st_rate_limit_password_reset_per_minute (sv_settings sv)) 60 rq)
    (thenE (request_password_reset (sv_settings sv) (sv_crypto sv) (normalize_email email)
        (request_context_of rq))
      (retE reset_request_message))"

definition ep_confirm_password_reset :: "server \<Rightarrow> string \<Rightarrow> string \<Rightarrow> unit prog" where
  "ep_confirm_password_reset sv raw new_password =
    confirm_password_reset (sv_settings sv) (sv_crypto sv) raw new_password"

definition ep_request_email_verification :: "server \<Rightarrow> credentials \<Rightarrow> string prog" where
  "ep_request_email_verification sv cd =
    bindE (user_of sv cd) (\<lambda>u.
    thenE (request_email_verification (sv_settings sv) (sv_crypto sv) u)
      (retE ''If verification is needed, an email has been sent.''))"

definition ep_confirm_email_verification :: "server \<Rightarrow> string \<Rightarrow> unit prog" where
  "ep_confirm_email_verification sv raw = confirm_email_verification (sv_crypto sv) raw"

record session_read =
  sn_id :: uuid
  sn_created_at :: int
  sn_expires_at :: int
  sn_user_agent :: "string option"
  sn_created_by_ip :: "string option"

definition session_read_of :: "refresh_token \<Rightarrow> session_read" where
  "session_read_of r = \<lparr>sn_id = rt_id r, sn_created_at = rt_created_at r, sn_expires_at = rt_expires_at r,
     sn_user_agent = rt_user_agent r, sn_created_by_ip = rt_created_by_ip r\<rparr>"

definition ep_list_sessions :: "server \<Rightarrow> credentials \<Rightarrow> session_read list prog" where
  "ep_list_sessions sv cd =
    bindE (user_of sv cd) (\<lambda>u.
    bindE (list_sessions (us_id u)) (\<lambda>ts. retE (map session_read_of ts)))"

definition ep_revoke_session :: "server \<Rightarrow> credentials \<Rightarrow> uuid \<Rightarrow> unit prog" where
  "ep_revoke_session sv cd i = bindE (user_of sv cd) (\<lambda>u. revoke_session u i)"

definition ep_revoke_all_sessions :: "server \<Rightarrow> credentials \<Rightarrow> unit prog" where
  "ep_revoke_all_sessions sv cd = bindE (user_of sv cd) revoke_all_sessions"

section \<open>Memberships\<close>

definition principal_event ::
    "principal \<Rightarrow> string \<Rightarrow> string \<Rightarrow> uuid \<Rightarrow> json_object option \<Rightarrow> audit_create" where
  "principal_event pn action rtype rid meta =
    (auth_event (Some (pn_tenant_id pn)) (actor_user_id pn) action rtype (Some (uuid_str rid))
      AuditSuccess no_context)\<lparr>ac_event_metadata := meta\<rparr>"

definition ep_list_memberships :: "server \<Rightarrow> credentials \<Rightarrow> pagination \<Rightarrow> membership page prog" where
  "ep_list_memberships sv cd p =
    bindE (permitted sv cd MEMBERS_VIEW) (\<lambda>pn. membership_repo_list_by_tenant (pn_tenant_id pn) p)"

definition add_member :: "principal \<Rightarrow> string \<Rightarrow> membership_role \<Rightarrow> membership prog" where
  "add_member pn email role =
    bindE (user_repo_get_by_email email) (\<lambda>found.
    case found of None \<Rightarrow> raiseE (http_error 404 ''No user with that email exists.'') | Some u \<Rightarrow>
    bindE (membership_repo_get_by_tenant_and_user (pn_tenant_id pn) (us_id u)) (\<lambda>existing.
    bindE (case existing of
        Some m \<Rightarrow>
          if me_status m \<noteq> MemberRemoved
          then raiseE (http_error 409 ''User is already a member of this tenant.'')
          else membership_repo_update m
            \<lparr>mu_role = Some (Some role), mu_status = Some (Some MemberActive)\<rparr>
      | None \<Rightarrow> membership_repo_create
          \<lparr>mc_tenant_id = pn_tenant_id pn, mc_user_id = us_id u, mc_role = role\<rparr>) (\<lambda>m.
    thenE (record_audit (principal_event pn ''membership.add'' ''tenant_membership'' (me_id m)
        (Some [(''member_user_id'', JStr (uuid_str (us_id u))),
               (''role'', JStr (membership_role_value role))])))
      (retE m))))"

definition ep_add_member :: "server \<Rightarrow> credentials \<Rightarrow> string \<Rightarrow> membership_role \<Rightarrow> membership prog" where
  "ep_add_member sv cd email role =
    bindE (permitted sv cd MEMBERS_MANAGE) (\<lambda>pn. add_member pn (normalize_email email) role)"

definition get_membership :: "principal \<Rightarrow> uuid \<Rightarrow> membership prog" where
  "get_membership pn i =
    bindE (membership_repo_get_by_id (pn_tenant_id pn) i) (\<lambda>found.
    case found of None \<Rightarrow> raiseE (http_error 404 ''Membership not found.'') | Some m \<Rightarrow> retE m)"

definition update_membership :: "principal \<Rightarrow> uuid \<Rightarrow> membership_update \<Rightarrow> membership prog" where
  "update_membership pn i data =
    bindE (get_membership pn i) (\<lambda>m0.
    bindE (membership_repo_update m0 data) (\<lambda>m.
    thenE (case mu_role data of
        Some (Some role) \<Rightarrow>
          whenE (role \<noteq> me_role m0)
            (record_audit (principal_event pn ''membership.role_change'' ''tenant_membership'' (me_id m)
              (Some [(''member_user_id'', JStr (uuid_str (me_user_id m))),
                     (''old_role'', JStr (membership_role_value (me_role m0))),
                     (''new_role'', JStr (membership_role_value role))])))
      | _ \<Rightarrow> retE ())
    (retE m)))"

definition ep_update_membership ::
    "server \<Rightarrow> credentials \<Rightarrow> uuid \<Rightarrow> membership_update \<Rightarrow> membership prog" where
  "ep_update_membership sv cd i data =
    bindE (permitted sv cd MEMBERS_MANAGE) (\<lambda>pn. update_membership pn i data)"

definition remove_member :: "principal \<Rightarrow> uuid \<Rightarrow> unit prog" where
  "remove_member pn i =
    bindE (get_membership pn i) (\<lambda>m0.
    bindE (membership_repo_update m0 \<lparr>mu_role = None, mu_status = Some (Some MemberRemoved)\<rparr>) (\<lambda>m.
    record_audit (principal_event pn ''membership.remove'' ''tenant_membership'' (me_id m)
      (Some [(''member_user_id'', JStr (uuid_str (me_user_id m)))]))))"

definition ep_remove_member :: "server \<Rightarrow> credentials \<Rightarrow> uuid \<Rightarrow> unit prog" where
  "ep_remove_member sv cd i = bindE (permitted sv cd MEMBERS_MANAGE) (\<lambda>pn. remove_member pn i)"

section \<open>API keys and audit events\<close>

definition valid_scope_values :: "string list" where
  "valid_scope_values = map permission_value permission_members"

definition list_repr :: "string list \<Rightarrow> string" where
  "list_repr xs = ''['' @ join '', '' (map py_repr xs) @ '']''"

definition validate_scopes :: "string list \<Rightarrow> pyexc + unit" where
  "validate_scopes scopes =
    (let unknown = sort (filter (\<lambda>s. s \<notin> set valid_scope_values) scopes) in
     if unknown \<noteq> []
     then Inl (http_error 422 (''Unknown scope(s): '' @ list_repr unknown @ ''. Must be one of '' @
       list_repr (sort valid_scope_values) @ ''.''))
     else Inr ())"

definition create_api_key :: "crypto \<Rightarrow> principal \<Rightarrow> api_key_issue_request \<Rightarrow> api_key_issue_response prog" where
  "create_api_key cy pn data =
    thenE (liftE (validate_scopes (ki_scopes data)))
    (bindE (issue cy (pn_tenant_id pn) (actor_user_id pn) data) (\<lambda>resp.
    thenE (record_audit (principal_event pn ''api_key.create'' ''api_key'' (kr_id resp) None))
      (retE resp)))"

definition ep_create_api_key ::
    "server \<Rightarrow> credentials \<Rightarrow> http_request \<Rightarrow> api_key_issue_request \<Rightarrow> api_key_issue_response prog" where
  "ep_create_api_key sv cd rq data =
    bindE (permitted sv cd API_KEYS_MANAGE) (\<lambda>pn.
    thenE (rate_limit ''api_key_create'' (st_rate_limit_api_key_create_per_minute (sv_settings sv)) 60 rq)
      (create_api_key (sv_crypto sv) pn data))"

record api_key_read =
  kd_id :: uuid
  kd_tenant_id :: uuid
  kd_user_id :: "uuid option"
  kd_name :: string
  kd_prefix :: string
  kd_scopes :: "string list"
  kd_status :: api_key_status
  kd_expires_at :: "int option"
  kd_last_used_at :: "int option"
  kd_revoked_at :: "int option"
  kd_created_at :: int
  kd_updated_at :: int

definition api_key_read_of :: "api_key \<Rightarrow> api_key_read" where
  "api_key_read_of k = \<lparr>kd_id = ak_id k, kd_tenant_id = ak_tenant_id k, kd_user_id = ak_user_id k,
     kd_name = ak_name k, kd_prefix = ak_prefix k, kd_scopes = ak_scopes k, kd_status = ak_status k,
     kd_expires_at = ak_expires_at k, kd_last_used_at = ak_last_used_at k,
     kd_revoked_at = ak_revoked_at k, kd_created_at = ak_created_at k, kd_updated_at = ak_updated_at k\<rparr>"

definition map_page :: "('a \<Rightarrow> 'b) \<Rightarrow> 'a page \<Rightarrow> 'b page" where
  "map_page f p = \<lparr>pg_items = map f (pg_items p), pg_total = pg_total p, pg_limit = pg_limit p,
     pg_offset = pg_offset p\<rparr>"

definition ep_list_api_keys :: "server \<Rightarrow> credentials \<Rightarrow> pagination \<Rightarrow> api_key_read page prog" where
  "ep_list_api_keys sv cd p =
    bindE (permitted sv cd API_KEYS_VIEW) (\<lambda>pn.
    bindE (api_key_repo_list_by_tenant (pn_tenant_id pn) p) (\<lambda>pg. retE (map_page api_key_read_of pg)))"

definition get_owned_api_key :: "principal \<Rightarrow> uuid \<Rightarrow> api_key prog" where
  "get_owned_api_key pn i =
    bindE (api_key_repo_get_by_id (pn_tenant_id pn) i) (\<lambda>found.
    case found of None \<Rightarrow> raiseE (http_error 404 ''API key not found.'') | Some k \<Rightarrow> retE k)"

definition revoke_api_key :: "principal \<Rightarrow> uuid \<Rightarrow> api_key_read prog" where
  "revoke_api_key pn i =
    bindE (get_owned_api_key pn i) (\<lambda>k0.
    bindE (revoke_key k0) (\<lambda>k.
    thenE (record_audit (principal_event pn ''api_key.revoke'' ''api_key'' (ak_id k) None))
      (retE (api_key_read_of k))))"

definition ep_revoke_api_key :: "server \<Rightarrow> credentials \<Rightarrow> uuid \<Rightarrow> api_key_read prog" where
  "ep_revoke_api_key sv cd i = bindE (permitted sv cd API_KEYS_MANAGE) (\<lambda>pn. revoke_api_key pn i)"

definition rotate_api_key :: "crypto \<Rightarrow> principal \<Rightarrow> uuid \<Rightarrow> api_key_issue_response prog" where
  "rotate_api_key cy pn i =
    bindE (get_owned_api_key pn i) (\<lambda>k.
    bindE (rotate_key cy (pn_tenant_id pn) (actor_user_id pn) k) (\<lambda>resp.
    thenE (record_audit (principal_event pn ''api_key.revoke'' ''api_key'' (ak_id k)
        (Some [(''reason'', JStr ''rotated'')])))
    (thenE (record_audit (principal_event pn ''api_key.create'' ''api_key'' (kr_id resp)
        (Some [(''reason'', JStr ''rotated''), (''replaces'', JStr (uuid_str (ak_id k)))])))
    (retE resp))))"

definition ep_rotate_api_key :: "server \<Rightarrow> credentials \<Rightarrow> uuid \<Rightarrow> api_key_issue_response prog" where
  "ep_rotate_api_key sv cd i =
    bindE (permitted sv cd API_KEYS_MANAGE) (\<lambda>pn. rotate_api_key (sv_crypto sv) pn i)"

definition ep_list_audit_events :: "server \<Rightarrow> credentials \<Rightarrow> pagination \<Rightarrow> audit_event page prog" where
  "ep_list_audit_events sv cd p =
    bindE (permitted sv cd AUDIT_VIEW) (\<lambda>pn. audit_repo_list_by_tenant (pn_tenant_id pn) p)"

section \<open>Scans\<close>

definition ep_create_scan :: "server \<Rightarrow> credentials \<Rightarrow> bool \<Rightarrow> scan_create_request \<Rightarrow> scan_read prog" where
  "ep_create_scan sv cd sync data =
    bindE (permitted sv cd SCANS_MANAGE) (\<lambda>pn. create_scan sync (pn_tenant_id pn) (actor_user_id pn) data)"

definition ep_list_scans ::
    "server \<Rightarrow> credentials \<Rightarrow> pagination \<Rightarrow> uuid option \<Rightarrow> uuid option \<Rightarrow> scan_status option \<Rightarrow>
     scan_read page prog" where
  "ep_list_scans sv cd p a pr st =
    bindE (permitted sv cd SCANS_VIEW) (\<lambda>pn. list_scans (pn_tenant_id pn) p a pr st)"

definition ep_get_scan :: "server \<Rightarrow> credentials \<Rightarrow> uuid \<Rightarrow> scan_read prog" where
  "ep_get_scan sv cd i = bindE (permitted sv cd SCANS_VIEW) (\<lambda>pn. get_scan (pn_tenant_id pn) i)"

definition ep_get_scan_progress :: "server \<Rightarrow> credentials \<Rightarrow> uuid \<Rightarrow> scan_progress_read prog" where
  "ep_get_scan_progress sv cd i =
    bindE (permitted sv cd SCANS_VIEW) (\<lambda>pn. get_progress (pn_tenant_id pn) i)"

definition ep_cancel_scan :: "server \<Rightarrow> credentials \<Rightarrow> bool \<Rightarrow> job_queue \<Rightarrow> uuid \<Rightarrow> scan_read prog" where
  "ep_cancel_scan sv cd sync q i =
    bindE (permitted sv cd SCANS_MANAGE) (\<lambda>pn. cancel_scan sync q (pn_tenant_id pn) i)"

definition ep_retry_scan :: "server \<Rightarrow> credentials \<Rightarrow> bool \<Rightarrow> uuid \<Rightarrow> scan_read prog" where
  "ep_retry_scan sv cd sync i =
    bindE (permitted sv cd SCANS_MANAGE) (\<lambda>pn. retry_scan sync (pn_tenant_id pn) i (actor_user_id pn))"

end
