(* ===== verification/Access_Runs.thy ===== *)
theory Access_Runs
  imports Endpoints Quiet_Runs
begin

text \<open>
  Exact results of the access operations when nothing interferes.  A run is summarised by
  what it draws from the identifier supply and what it will after (\<open>after\<close>), so that the
  results of operations compose by rewriting.
\<close>

section \<open>Writes\<close>

definition after :: "world \<Rightarrow> nat \<Rightarrow> (db \<Rightarrow> db) \<Rightarrow> world" where
  "after w n f = w\<lparr>w_drawn := w_drawn w + n, w_pend := (\<lambda>d. f (w_pend w d))\<rparr>"

lemma after_sel [simp]:
  "view (after w n f) = f (view w)" "quiet (after w n f) = quiet w" "w_db (after w n f) = w_db w"
  "w_clock (after w n f) = w_clock w" "w_uuids (after w n f) = w_uuids w"
  "w_drawn (after w n f) = w_drawn w + n" "w_redis (after w n f) = w_redis w"
  "w_trace (after w n f) = w_trace w" "w_script (after w n f) = w_script w"
  "w_failed (after w n f) = w_failed w"
  by (simp_all add: after_def view_def quiet_def)

lemma after_after [simp]: "after (after w m f) n g = after w (m + n) (\<lambda>d. g (f d))"
  by (simp add: after_def)

lemma after_nothing [simp]: "after w 0 (\<lambda>d. d) = w"
  by (simp add: after_def)

abbreviation draw :: "world \<Rightarrow> nat \<Rightarrow> uuid" where
  "draw w n \<equiv> w_uuids w (w_drawn w + n)"

named_theorems runs  \<comment> \<open>results of operations in a quiet world\<close>

lemmas basic_runs [runs] = run_simps(1-6) run_simps(8) quiet_query

lemma draw_run [runs]: "draw_uuid w = (Inr (draw w 0), after w 1 (\<lambda>d. d))"
  by (simp add: after_def run_simps)

lemma stmt_run [runs]: "quiet w \<Longrightarrow> ok (view w) \<Longrightarrow> stmt ok f w = (Inr (), after w 0 f)"
  by (simp add: quiet_stmt after_def)

text \<open>The end of a request: what was written is committed.\<close>

definition committed :: "world \<Rightarrow> world" where
  "committed w = w\<lparr>w_db := view w, w_pend := (\<lambda>x. x)\<rparr>"

lemma committed_sel [simp]:
  "w_db (committed w) = view w" "view (committed w) = view w" "quiet (committed w) = quiet w"
  "w_clock (committed w) = w_clock w" "w_uuids (committed w) = w_uuids w"
  "w_drawn (committed w) = w_drawn w" "w_redis (committed w) = w_redis w" "w_pend (committed w) = (\<lambda>x. x)"
  "w_trace (committed w) = w_trace w"
  by (simp_all add: committed_def view_def quiet_def)

lemma commit_run [runs]: "quiet w \<Longrightarrow> commit w = (Inr (), committed w)"
  by (simp add: quiet_commit committed_def)

lemma request_returns: "m w = (Inr x, w') \<Longrightarrow> quiet w' \<Longrightarrow> request m w = (Inr x, committed w')"
  by (simp add: request_def runs)

text \<open>A request that raises leaves what the handler itself committed, and nothing else.\<close>

lemma request_raises:
  "m w = (Inl e, w') \<Longrightarrow> is_exception e \<Longrightarrow>
    request m w = (Inl e, w'\<lparr>w_pend := (\<lambda>x. x), w_failed := False, w_objs := (\<lambda>_. None)\<rparr>)"
  by (simp add: request_def runs rollback_def)

lemma is_exception_exc [simp]: "is_exception (exc c m) \<longleftrightarrow> c \<noteq> BaseOnly"
  by (simp add: is_exception_def)

section \<open>The identifier supply\<close>

definition access_ids :: "db \<Rightarrow> uuid set" where
  "access_ids d = us_id ` set (users d) \<union> me_id ` set (memberships d) \<union> rt_id ` set (refresh_tokens d) \<union>
     vt_id ` set (verification_tokens d) \<union> ak_id ` set (api_keys d) \<union> au_id ` set (audit_events d)"

definition id_supply :: "nat \<Rightarrow> world \<Rightarrow> bool" where
  "id_supply k w \<longleftrightarrow> (\<forall>n<k. draw w n \<notin> access_ids (view w)) \<and>
     (\<forall>m<k. \<forall>n<k. draw w m = draw w n \<longrightarrow> m = n)"

lemma supplyD: "id_supply k w \<Longrightarrow> n < k \<Longrightarrow> draw w n \<notin> access_ids (view w)"
  by (simp add: id_supply_def)

lemma supply_distinct: "id_supply k w \<Longrightarrow> m < k \<Longrightarrow> n < k \<Longrightarrow> m \<noteq> n \<Longrightarrow> draw w m \<noteq> draw w n"
  by (auto simp: id_supply_def)

lemma access_ids_iff:
  "i \<notin> access_ids d \<longleftrightarrow> (\<forall>u\<in>set (users d). us_id u \<noteq> i) \<and> (\<forall>m\<in>set (memberships d). me_id m \<noteq> i) \<and>
     (\<forall>r\<in>set (refresh_tokens d). rt_id r \<noteq> i) \<and> (\<forall>r\<in>set (verification_tokens d). vt_id r \<noteq> i) \<and>
     (\<forall>k\<in>set (api_keys d). ak_id k \<noteq> i) \<and> (\<forall>a\<in>set (audit_events d). au_id a \<noteq> i)"
  by (auto simp: access_ids_def)

section \<open>Crypto\<close>

definition digest_64 :: "crypto \<Rightarrow> bool" where
  "digest_64 cy \<longleftrightarrow> (\<forall>s. length (cy_sha256_hex cy s) = 64)"

lemma hash_password_run [runs]:
  "hash_password cy pw w = (Inr (cy_hash_password cy pw (draw w 0)), after w 1 (\<lambda>d. d))"
  by (simp add: hash_password_def runs)

lemma generate_secret_run [runs]:
  "generate_secret cy n w = (Inr (cy_token_urlsafe cy n (draw w 0)), after w 1 (\<lambda>d. d))"
  by (simp add: generate_secret_def runs)

definition access_payload :: "settings \<Rightarrow> user \<Rightarrow> uuid \<Rightarrow> membership_role \<Rightarrow> int \<Rightarrow> uuid \<Rightarrow> json_object" where
  "access_payload st u tn role t j = [(''sub'', JStr (uuid_str (us_id u))), (''type'', JStr ''access''),
     (''iss'', JStr (st_jwt_issuer st)), (''iat'', JInt (seconds t)),
     (''exp'', JInt (seconds (t + minutes (st_jwt_access_token_expire_minutes st)))),
     (''jti'', JStr (uuid_str j)), (''tenant_id'', JStr (uuid_str tn)),
     (''role'', JStr (membership_role_value role)), (''ver'', JInt (us_token_version u))]"

definition access_token :: "settings \<Rightarrow> crypto \<Rightarrow> user \<Rightarrow> uuid \<Rightarrow> membership_role \<Rightarrow> int \<Rightarrow> uuid \<Rightarrow> string" where
  "access_token st cy u tn role t j =
    cy_jwt_encode cy (access_payload st u tn role t j) (st_jwt_secret_key st) (st_jwt_access_key_id st)"

lemma create_access_token_run [runs]:
  "create_access_token st cy u tn role w =
    (Inr (access_token st cy u tn role (w_clock w) (draw w 0)), after w 1 (\<lambda>d. d))"
  by (simp add: create_access_token_def create_token_def runs access_token_def access_payload_def
      update_payload_def access_claims_def secret_and_kid_for_def Let_def)

section \<open>Audit records\<close>

definition audit_fits :: "audit_create \<Rightarrow> bool" where
  "audit_fits c \<longleftrightarrow> check_audit_create c = Inr c \<and> (\<forall>i t. audit_checks (new_audit_event c i t))"

lemma record_audit_run [runs]:
  "quiet w \<Longrightarrow> audit_fits c \<Longrightarrow> (\<forall>a\<in>set (audit_events (view w)). au_id a \<noteq> draw w 0) \<Longrightarrow>
    record_audit c w = (Inr (), after w 1 (insert_audit (new_audit_event c (draw w 0) (w_clock w))))"
  by (simp add: record_audit_def audit_repo_create_def runs liftE_simps audit_fits_def Let_def)

definition context_fits :: "request_context \<Rightarrow> bool" where
  "context_fits cx \<longleftrightarrow> max_len 64 (rx_ip_address cx) \<and> max_len 500 (rx_user_agent cx)"

lemma no_context_fits [simp]: "context_fits no_context"
  by (simp add: context_fits_def no_context_def)

lemma auth_event_fits:
  "length action \<le> 150 \<Longrightarrow> length rtype \<le> 100 \<Longrightarrow> max_len 200 rid \<Longrightarrow> context_fits cx \<Longrightarrow>
    audit_fits (auth_event tn actor action rtype rid out cx)"
  by (simp add: audit_fits_def check_audit_create_def audit_checks_def new_audit_event_def auth_event_def
      context_fits_def)

lemma user_event_fits: "length action \<le> 150 \<Longrightarrow> context_fits cx \<Longrightarrow> audit_fits (user_event tn u action cx)"
  unfolding user_event_def by (rule auth_event_fits) (simp_all add: max_len_def)

lemma insert_audit_tables [simp]:
  "users (insert_audit a d) = users d" "memberships (insert_audit a d) = memberships d"
  "tenants (insert_audit a d) = tenants d" "refresh_tokens (insert_audit a d) = refresh_tokens d"
  "verification_tokens (insert_audit a d) = verification_tokens d" "api_keys (insert_audit a d) = api_keys d"
  "audit_events (insert_audit a d) = audit_events d @ [a]" "scans (insert_audit a d) = scans d"
  by (simp_all add: insert_audit_def)

lemma insert_refresh_token_tables [simp]:
  "users (insert_refresh_token a d) = users d" "memberships (insert_refresh_token a d) = memberships d"
  "tenants (insert_refresh_token a d) = tenants d"
  "refresh_tokens (insert_refresh_token a d) = refresh_tokens d @ [a]"
  "verification_tokens (insert_refresh_token a d) = verification_tokens d"
  "api_keys (insert_refresh_token a d) = api_keys d" "audit_events (insert_refresh_token a d) = audit_events d"
  by (simp_all add: insert_refresh_token_def)

lemma update_refresh_tokens_tables [simp]:
  "users (update_refresh_tokens P f d) = users d" "memberships (update_refresh_tokens P f d) = memberships d"
  "tenants (update_refresh_tokens P f d) = tenants d"
  "refresh_tokens (update_refresh_tokens P f d) = update_where P f (refresh_tokens d)"
  "verification_tokens (update_refresh_tokens P f d) = verification_tokens d"
  "api_keys (update_refresh_tokens P f d) = api_keys d"
  "audit_events (update_refresh_tokens P f d) = audit_events d"
  by (simp_all add: update_refresh_tokens_def)

lemma find_other_tables [simp]:
  "find_user i (insert_audit a d) = find_user i d" "find_user i (insert_refresh_token r d) = find_user i d"
  "find_user i (update_refresh_tokens P f d) = find_user i d"
  "find_member tn i (insert_audit a d) = find_member tn i d"
  "find_member tn i (insert_refresh_token r d) = find_member tn i d"
  "find_member tn i (update_refresh_tokens P f d) = find_member tn i d"
  "find_tenant tn (insert_audit a d) = find_tenant tn d"
  "find_tenant tn (insert_refresh_token r d) = find_tenant tn d"
  "find_tenant tn (update_refresh_tokens P f d) = find_tenant tn d"
  by (simp_all add: find_user_def find_member_def find_tenant_def)

end
