(* ===== verification/Access_Outcomes.thy ===== *)
theory Access_Outcomes
  imports Access_Runs
begin

text \<open>
  The authentication service operation by operation, when nothing interferes: what login,
  refresh, logout and the password flows write, and what they commit when they refuse.
\<close>

section \<open>Issuing tokens\<close>

definition issued_secret :: "crypto \<Rightarrow> uuid \<Rightarrow> string" where
  "issued_secret cy u = cy_token_urlsafe cy 32 u"

definition session_row ::
    "settings \<Rightarrow> crypto \<Rightarrow> uuid \<Rightarrow> uuid \<Rightarrow> uuid \<Rightarrow> request_context \<Rightarrow> int \<Rightarrow> uuid \<Rightarrow> uuid \<Rightarrow> refresh_token" where
  "session_row st cy tn u fam cx t secret i = new_refresh_token
     \<lparr>rc_tenant_id = tn, rc_user_id = u, rc_family_id = fam,
      rc_hashed_token = hash_secret cy (issued_secret cy secret),
      rc_expires_at = t + days (st_jwt_refresh_token_expire_days st),
      rc_created_by_ip = rx_ip_address cx, rc_user_agent = rx_user_agent cx\<rparr> fam i t"

lemma session_row_sel [simp]:
  "rt_id (session_row st cy tn u fam cx t x i) = i" "rt_tenant_id (session_row st cy tn u fam cx t x i) = tn"
  "rt_user_id (session_row st cy tn u fam cx t x i) = u" "rt_family_id (session_row st cy tn u fam cx t x i) = fam"
  "rt_status (session_row st cy tn u fam cx t x i) = TokenActive"
  "rt_hashed_token (session_row st cy tn u fam cx t x i) = hash_secret cy (issued_secret cy x)"
  "rt_expires_at (session_row st cy tn u fam cx t x i) = t + days (st_jwt_refresh_token_expire_days st)"
  by (simp_all add: session_row_def new_refresh_token_def)

text \<open>A secret whose hash no refresh token has yet.\<close>

definition new_secret :: "crypto \<Rightarrow> uuid \<Rightarrow> db \<Rightarrow> bool" where
  "new_secret cy x d \<longleftrightarrow>
     (\<forall>r\<in>set (refresh_tokens d). rt_hashed_token r \<noteq> hash_secret cy (issued_secret cy x))"

lemma session_row_ok:
  "digest_64 cy \<Longrightarrow> context_fits cx \<Longrightarrow> i \<notin> access_ids d \<Longrightarrow> new_secret cy x d \<Longrightarrow>
    refresh_token_insert_ok (session_row st cy tn u fam cx t x i) d"
  by (simp add: refresh_token_insert_ok_def context_fits_def digest_64_def hash_secret_def new_secret_def
      access_ids_iff session_row_def new_refresh_token_def)

lemma issue_fresh_token_pair_run [runs]:
  assumes "quiet w" "digest_64 cy" "context_fits cx" "draw w 2 \<notin> access_ids (view w)"
    and "new_secret cy (draw w 1) (view w)"
  shows "issue_fresh_token_pair st cy u tn role cx w =
    (Inr (token_pair_of st (access_token st cy u tn role (w_clock w) (draw w 3)) (issued_secret cy (draw w 1))),
     after w 4 (insert_refresh_token (session_row st cy tn (us_id u) (draw w 0) cx (w_clock w) (draw w 1) (draw w 2))))"
  using session_row_ok [OF assms(2-5), of st tn "us_id u" "draw w 0" "w_clock w"] assms(1)
  by (simp add: issue_fresh_token_pair_def build_refresh_token_create_def refresh_repo_create_def runs Let_def
      session_row_def issued_secret_def numeral_eq_Suc)

section \<open>Login\<close>

definition matching_user :: "crypto \<Rightarrow> login_request \<Rightarrow> db \<Rightarrow> user option" where
  "matching_user cy data d = password_matches cy (find_email (lg_email data) d) (lg_password data)"

lemma password_matches_Some: "password_matches cy f pw = Some u \<Longrightarrow> f = Some u \<and> us_hashed_password u \<noteq> None"
  by (auto simp: password_matches_def split: option.splits if_splits)

definition current_hash :: "crypto \<Rightarrow> user \<Rightarrow> bool" where
  "current_hash cy u \<longleftrightarrow> (\<forall>h. us_hashed_password u = Some h \<longrightarrow> \<not> cy_needs_rehash cy h)"

definition login_session :: "settings \<Rightarrow> crypto \<Rightarrow> user \<Rightarrow> uuid \<Rightarrow> request_context \<Rightarrow> world \<Rightarrow> refresh_token" where
  "login_session st cy u tn cx w =
    session_row st cy tn (us_id u) (draw w 0) cx (w_clock w) (draw w 1) (draw w 2)"

lemma login_succeeds_run:
  assumes w: "quiet w" "id_supply 5 w" "new_secret cy (draw w 1) (view w)"
    and cy: "digest_64 cy" "context_fits cx"
    and u: "matching_user cy data (view w) = Some u" "us_status u = UserActive" "current_hash cy u"
    and tn: "resolve_tenant (active_memberships (us_id u) (view w)) (lg_tenant_id data) = Inr (Some (tn, role))"
  shows "login st cy data cx w =
    (Inr \<lparr>lr_token = Some (token_pair_of st (access_token st cy u tn role (w_clock w) (draw w 3))
        (issued_secret cy (draw w 1))), lr_available_tenants = []\<rparr>,
     after w 5 (\<lambda>d. insert_audit (new_audit_event (user_event (Some tn) u ''auth.login'' cx) (draw w 4) (w_clock w))
       (insert_refresh_token (login_session st cy u tn cx w) d)))"
proof -
  have ids: "draw w 2 \<notin> access_ids (view w)" "draw w 4 \<notin> access_ids (view w)"
    using supplyD [OF w(2), of 2] supplyD [OF w(2), of 4] by simp_all
  have a: "audit_fits (user_event (Some tn) u ''auth.login'' cx)" by (rule user_event_fits) (simp_all add: cy)
  have re: "rehash_if_needed cy u pw v = (Inr u, v)" for pw v
    using u(3) by (auto simp: rehash_if_needed_def current_hash_def runs split: option.split)
  show ?thesis
    using w(1,3) cy u(1,2) tn ids a
    by (simp add: login_def user_repo_get_by_email_def membership_repo_list_by_user_def matching_user_def runs
        re comp_def liftE_simps access_ids_iff login_session_def)
qed

lemma failed_login_run:
  assumes w: "quiet w" "id_supply 1 w" and c: "context_fits cx" "length email \<le> 200"
  shows "record_failed_login u email cx w =
    (Inr (), committed (after w 1 (insert_audit
       (new_audit_event (failed_login_event u email cx) (draw w 0) (w_clock w)))))"
proof -
  have "draw w 0 \<notin> access_ids (view w)" using w(2) supplyD [of 1 w 0] by simp
  moreover have "audit_fits (failed_login_event u email cx)"
    unfolding failed_login_event_def
    by (rule auth_event_fits) (simp_all add: c max_len_def split: option.split)
  ultimately show ?thesis using w(1) by (simp add: record_failed_login_def runs access_ids_iff)
qed

section \<open>Refresh and revocation\<close>

lemma find_refresh_token_SomeD:
  "find_refresh_token h d = Some r \<Longrightarrow> r \<in> set (refresh_tokens d) \<and> rt_hashed_token r = h"
  unfolding find_refresh_token_def by (rule select_one_SomeD)

lemma find_user_SomeD: "find_user i d = Some u \<Longrightarrow> u \<in> set (users d) \<and> us_id u = i"
  unfolding find_user_def by (rule select_one_SomeD)

lemma find_member_SomeD:
  "find_member tn i d = Some m \<Longrightarrow> m \<in> set (memberships d) \<and> me_tenant_id m = tn \<and> me_user_id m = i"
  by (auto simp: find_member_def membership_key_def dest: select_one_SomeD)

text \<open>The holder of a token may still use it.\<close>

definition holder_ok :: "refresh_token \<Rightarrow> int \<Rightarrow> db \<Rightarrow> user \<Rightarrow> membership \<Rightarrow> bool" where
  "holder_ok r t d u m \<longleftrightarrow> t < rt_expires_at r \<and> find_user (rt_user_id r) d = Some u \<and>
     us_status u = UserActive \<and> find_member (rt_tenant_id r) (us_id u) d = Some m \<and> me_status m = MemberActive"

definition replacement :: "settings \<Rightarrow> crypto \<Rightarrow> refresh_token \<Rightarrow> request_context \<Rightarrow> world \<Rightarrow> refresh_token" where
  "replacement st cy r cx w = session_row st cy (rt_tenant_id r) (rt_user_id r) (rt_family_id r) cx
     (w_clock w) (draw w 0) (draw w 1)"

definition rotate_db :: "refresh_token \<Rightarrow> refresh_token \<Rightarrow> int \<Rightarrow> db \<Rightarrow> db" where
  "rotate_db old new t d = update_refresh_tokens (\<lambda>x. rt_id x = rt_id old) (rotated_row (rt_id new) t)
     (insert_refresh_token new d)"

lemma refresh_rotates_run:
  assumes w: "quiet w" "id_supply 3 w" "new_secret cy (draw w 0) (view w)"
    and cy: "digest_64 cy" "context_fits cx"
    and r: "find_refresh_token (hash_secret cy raw) (view w) = Some r" "rt_status r = TokenActive"
    and h: "holder_ok r (w_clock w) (view w) u m"
  shows "refresh st cy raw cx w =
    (Inr (token_pair_of st (access_token st cy u (rt_tenant_id r) (me_role m) (w_clock w) (draw w 2))
        (issued_secret cy (draw w 0))),
     after w 3 (rotate_db r (replacement st cy r cx w) (w_clock w)))"
proof -
  have u: "us_id u = rt_user_id r" using h find_user_SomeD by (auto simp: holder_ok_def)
  have "draw w 1 \<notin> access_ids (view w)" using supplyD [OF w(2), of 1] by simp
  from session_row_ok [OF cy this w(3), of st "rt_tenant_id r" "rt_user_id r" "rt_family_id r" "w_clock w"]
  have ok: "refresh_token_insert_ok (replacement st cy r cx w) (view w)" by (simp add: replacement_def)
  have "\<exists>x\<in>set (refresh_tokens (view w)). rt_id x = rt_id r" using find_refresh_token_SomeD [OF r(1)] by blast
  then show ?thesis
    using w(1) r h ok u
    by (simp add: refresh_def refresh_repo_get_by_hashed_token_def user_repo_get_by_id_def
        membership_repo_get_by_tenant_and_user_def build_refresh_token_create_def refresh_repo_rotate_def
        refresh_repo_create_def runs holder_ok_def replacement_def session_row_def Let_def
        rotate_db_def [abs_def] issued_secret_def new_refresh_token_def numeral_eq_Suc)
qed

lemma update_no_refresh_tokens [simp]: "update_refresh_tokens (\<lambda>r. False) f = (\<lambda>d. d)"
  by (simp add: update_refresh_tokens_def fun_eq_iff update_where_none)

definition revoke_db :: "(refresh_token \<Rightarrow> bool) \<Rightarrow> int \<Rightarrow> db \<Rightarrow> db \<Rightarrow> db" where
  "revoke_db P t seen = update_refresh_tokens (\<lambda>r. rt_id r \<in> rt_id ` set (live_tokens P seen)) (revoked_row t)"

lemma revoke_selected_run [runs]:
  "quiet w \<Longrightarrow> revoke_selected P w =
    (Inr (length (live_tokens P (view w))), after w 0 (revoke_db P (w_clock w) (view w)))"
proof -
  assume w: "quiet w"
  let ?ts = "live_tokens P (view w)"
  have "rt_id ` set ?ts \<subseteq> rt_id ` set (refresh_tokens (view w))"
    by (auto simp: live_tokens_def select_all_def)
  then show ?thesis
    using w by (cases "?ts = []") (simp_all add: revoke_selected_def runs revoke_db_def)
qed

lemma refresh_reuse_run:
  assumes w: "quiet w" "id_supply 1 w" and cx: "context_fits cx"
    and r: "find_refresh_token (hash_secret cy raw) (view w) = Some r" "rt_status r = TokenRotated"
  shows "refresh st cy raw cx w = (Inl (exc RefreshTokenReuseDetectedError []),
    committed (after w 1 (\<lambda>d. insert_audit (new_audit_event (reuse_event r cx) (draw w 0) (w_clock w))
      (revoke_db (\<lambda>x. rt_family_id x = rt_family_id r) (w_clock w) (view w) d))))"
proof -
  have "draw w 0 \<notin> access_ids (view w)" using supplyD [OF w(2), of 0] by simp
  moreover have "audit_fits (reuse_event r cx)"
    unfolding reuse_event_def by (rule auth_event_fits) (simp_all add: cx max_len_def)
  moreover have "audit_events (revoke_db P t v d) = audit_events d" for P t v d by (simp add: revoke_db_def)
  ultimately show ?thesis
    using w(1) r
    by (simp add: refresh_def refresh_repo_get_by_hashed_token_def refresh_repo_revoke_family_def runs access_ids_iff)
qed

lemma refresh_dead_run:
  assumes "quiet w" "find_refresh_token (hash_secret cy raw) (view w) = Some r" "rt_status r = TokenRevoked"
  shows "refresh st cy raw cx w = (Inl refresh_token_invalid, w)"
  using assms by (simp add: refresh_def refresh_repo_get_by_hashed_token_def runs)

lemma refresh_unknown_run:
  assumes "quiet w" "find_refresh_token (hash_secret cy raw) (view w) = None"
  shows "refresh st cy raw cx w = (Inl refresh_token_invalid, w)"
  using assms by (simp add: refresh_def refresh_repo_get_by_hashed_token_def runs)

section \<open>Token families\<close>

text \<open>
  The abstract protocol of one login session: the secret in use and the secrets used
  before it, or nothing at all once the family is revoked.
\<close>

datatype family_state = Live "string list" string | Dead

fun present :: "family_state \<Rightarrow> string \<Rightarrow> string \<Rightarrow> family_state" where
  "present (Live used cur) h new =
     (if h = cur then Live (used @ [cur]) new else if h \<in> set used then Dead else Live used cur)"
| "present Dead h new = Dead"

fun accepts :: "family_state \<Rightarrow> string \<Rightarrow> bool" where
  "accepts (Live used cur) h = (h = cur)"
| "accepts Dead h = False"

definition family_rows :: "uuid \<Rightarrow> db \<Rightarrow> refresh_token list" where
  "family_rows fam d = filter (\<lambda>r. rt_family_id r = fam) (refresh_tokens d)"

definition rows_state :: "refresh_token list \<Rightarrow> family_state option" where
  "rows_state rs =
    (if rs = [] then None
     else if rt_status (last rs) = TokenActive \<and> (\<forall>r\<in>set (butlast rs). rt_status r = TokenRotated)
     then Some (Live (map rt_hashed_token (butlast rs)) (rt_hashed_token (last rs)))
     else if \<forall>r\<in>set rs. rt_status r = TokenRevoked then Some Dead else None)"

definition family_state :: "uuid \<Rightarrow> db \<Rightarrow> family_state option" where
  "family_state fam d = rows_state (family_rows fam d)"

definition token_keys_ok :: "db \<Rightarrow> bool" where
  "token_keys_ok d \<longleftrightarrow> distinct (map rt_id (refresh_tokens d)) \<and> distinct (map rt_hashed_token (refresh_tokens d))"

text \<open>Every family of the database is in a state of the protocol.\<close>

definition families_ok :: "db \<Rightarrow> bool" where
  "families_ok d \<longleftrightarrow> token_keys_ok d \<and>
     (\<forall>fam. family_rows fam d \<noteq> [] \<longrightarrow> family_state fam d \<noteq> None)"

lemma token_by_key:
  assumes "token_keys_ok d" "r \<in> set (refresh_tokens d)" "r' \<in> set (refresh_tokens d)"
  shows "rt_id r = rt_id r' \<longleftrightarrow> r = r'" "rt_hashed_token r = rt_hashed_token r' \<longleftrightarrow> r = r'"
  using assms by (auto simp: token_keys_ok_def distinct_map dest: inj_onD)

lemma rows_state_snoc:
  "rows_state (rs @ [r]) =
    (if rt_status r = TokenActive \<and> (\<forall>x\<in>set rs. rt_status x = TokenRotated)
     then Some (Live (map rt_hashed_token rs) (rt_hashed_token r))
     else if \<forall>x\<in>set (rs @ [r]). rt_status x = TokenRevoked then Some Dead else None)"
  by (simp add: rows_state_def)

lemma rows_state_LiveD:
  "rows_state rs = Some (Live used cur) \<Longrightarrow> \<exists>xs r. rs = xs @ [r] \<and> rt_status r = TokenActive \<and>
    (\<forall>x\<in>set xs. rt_status x = TokenRotated) \<and> used = map rt_hashed_token xs \<and> cur = rt_hashed_token r"
  by (cases rs rule: rev_cases) (auto simp: rows_state_def split: if_splits)

lemma rows_state_DeadD: "rows_state rs = Some Dead \<Longrightarrow> rs \<noteq> [] \<and> (\<forall>r\<in>set rs. rt_status r = TokenRevoked)"
  by (auto simp: rows_state_def split: if_splits)

end
