(* ===== verification/Token_Families.thy ===== *)
theory Token_Families
  imports Access_Outcomes
begin

text \<open>
  The refresh-token table refines the abstract protocol of a session: rotation and
  revocation, as the repository performs them on rows, move each family as \<open>present\<close> says
  and leave the others alone.
\<close>

lemma rotated_row_sel [simp]:
  "rt_id (rotated_row i t r) = rt_id r" "rt_family_id (rotated_row i t r) = rt_family_id r"
  "rt_hashed_token (rotated_row i t r) = rt_hashed_token r" "rt_status (rotated_row i t r) = TokenRotated"
  "rt_user_id (rotated_row i t r) = rt_user_id r"
  by (simp_all add: rotated_row_def)

lemma revoked_row_sel [simp]:
  "rt_id (revoked_row t r) = rt_id r" "rt_family_id (revoked_row t r) = rt_family_id r"
  "rt_hashed_token (revoked_row t r) = rt_hashed_token r" "rt_status (revoked_row t r) = TokenRevoked"
  "rt_user_id (revoked_row t r) = rt_user_id r"
  by (simp_all add: revoked_row_def)

section \<open>Rotation\<close>

lemma rotate_db_tables:
  assumes "token_keys_ok d" "old \<in> set (refresh_tokens d)" "rt_id new \<noteq> rt_id old"
  shows "refresh_tokens (rotate_db old new t d) =
    map (\<lambda>r. if r = old then rotated_row (rt_id new) t r else r) (refresh_tokens d) @ [new]"
  using assms token_by_key(1) [OF assms(1)]
  by (auto simp: rotate_db_def update_where_def)

lemma family_rows_rotate:
  assumes "token_keys_ok d" "old \<in> set (refresh_tokens d)" "rt_id new \<noteq> rt_id old"
  shows "family_rows fam (rotate_db old new t d) =
    map (\<lambda>r. if r = old then rotated_row (rt_id new) t r else r) (family_rows fam d) @
    (if rt_family_id new = fam then [new] else [])"
proof -
  have "filter (\<lambda>r. rt_family_id r = fam) (map (\<lambda>r. if r = old then rotated_row i t r else r) xs) =
      map (\<lambda>r. if r = old then rotated_row i t r else r) (filter (\<lambda>r. rt_family_id r = fam) xs)" for i xs
    by (induction xs) auto
  then show ?thesis by (simp add: family_rows_def rotate_db_tables [OF assms])
qed

lemma rotate_keys_ok:
  assumes "token_keys_ok d" "old \<in> set (refresh_tokens d)"
    and "\<forall>r\<in>set (refresh_tokens d). rt_id r \<noteq> rt_id new \<and> rt_hashed_token r \<noteq> rt_hashed_token new"
  shows "token_keys_ok (rotate_db old new t d)"
proof -
  have ne: "rt_id new \<noteq> rt_id old" using assms(2,3) by auto
  have "map rt_id (map (\<lambda>r. if r = old then rotated_row i t r else r) xs) = map rt_id xs"
    "map rt_hashed_token (map (\<lambda>r. if r = old then rotated_row i t r else r) xs) = map rt_hashed_token xs" for i xs
    by (induction xs) auto
  then show ?thesis
    using assms(1,3) by (auto simp: token_keys_ok_def rotate_db_tables [OF assms(1,2) ne] simp del: map_map)
qed

lemma family_distinct: "token_keys_ok d \<Longrightarrow> distinct (family_rows fam d)"
  by (simp add: token_keys_ok_def family_rows_def distinct_map)

lemma family_rows_subset: "r \<in> set (family_rows fam d) \<longleftrightarrow> r \<in> set (refresh_tokens d) \<and> rt_family_id r = fam"
  by (auto simp: family_rows_def)

lemma live_current:
  assumes "token_keys_ok d" "family_state fam d = Some (Live used cur)"
    and "r \<in> set (refresh_tokens d)" "rt_family_id r = fam"
  shows "rt_status r = (if rt_hashed_token r = cur then TokenActive else TokenRotated)"
    and "rt_hashed_token r \<noteq> cur \<longleftrightarrow> rt_hashed_token r \<in> set used"
proof -
  obtain xs l where f: "family_rows fam d = xs @ [l]" "rt_status l = TokenActive"
    "\<forall>x\<in>set xs. rt_status x = TokenRotated" "used = map rt_hashed_token xs" "cur = rt_hashed_token l"
    using rows_state_LiveD assms(2) by (force simp: family_state_def)
  have r: "r \<in> set (xs @ [l])" using assms(3,4) family_rows_subset f(1) by metis
  have "rt_hashed_token x \<noteq> rt_hashed_token l" if "x \<in> set xs" for x
  proof -
    have "x \<noteq> l" using family_distinct [OF assms(1), of fam] that f(1) by auto
    moreover have "x \<in> set (family_rows fam d)" "l \<in> set (family_rows fam d)" using that f(1) by auto
    ultimately show ?thesis using token_by_key(2) [OF assms(1)] by (simp add: family_rows_subset)
  qed
  then show "rt_status r = (if rt_hashed_token r = cur then TokenActive else TokenRotated)"
    "rt_hashed_token r \<noteq> cur \<longleftrightarrow> rt_hashed_token r \<in> set used"
    using r f(2-5) by (cases "r = l"; fastforce)+
qed

lemma rotate_live:
  assumes ok: "token_keys_ok d" and fam: "family_state fam d = Some (Live used cur)"
    and old: "old \<in> set (refresh_tokens d)" "rt_family_id old = fam" "rt_hashed_token old = cur"
    and new: "rt_id new \<noteq> rt_id old" "rt_family_id new = fam" "rt_status new = TokenActive"
  shows "family_state fam (rotate_db old new t d) = Some (present (Live used cur) cur (rt_hashed_token new))"
proof -
  obtain xs l where f: "family_rows fam d = xs @ [l]" "rt_status l = TokenActive"
    "\<forall>x\<in>set xs. rt_status x = TokenRotated" "used = map rt_hashed_token xs" "cur = rt_hashed_token l"
    using rows_state_LiveD fam by (force simp: family_state_def)
  have "l \<in> set (refresh_tokens d)" using f(1) family_rows_subset [of l fam d] by simp
  then have l: "l = old" using token_by_key(2) [OF ok] old f(5) by auto
  have "old \<notin> set xs" using family_distinct [OF ok, of fam] f(1) l by simp
  then have "map (\<lambda>r. if r = old then rotated_row (rt_id new) t r else r) xs = xs" by (induction xs) auto
  then have "family_rows fam (rotate_db old new t d) = (xs @ [rotated_row (rt_id new) t old]) @ [new]"
    using f(1) l new(2) by (simp add: family_rows_rotate [OF ok old(1) new(1)])
  then show ?thesis
    using f(3,4) new(3) old(3) by (simp only: family_state_def rows_state_snoc) (simp add: f(5) l)
qed

lemma rotate_other:
  assumes "token_keys_ok d" "old \<in> set (refresh_tokens d)" "rt_id new \<noteq> rt_id old"
    and "rt_family_id new = rt_family_id old" "fam \<noteq> rt_family_id old"
  shows "family_state fam (rotate_db old new t d) = family_state fam d"
proof -
  have "old \<notin> set (family_rows fam d)" using assms(5) by (simp add: family_rows_subset)
  then have "map (\<lambda>r. if r = old then rotated_row (rt_id new) t r else r) (family_rows fam d) = family_rows fam d"
    by (auto intro!: map_idI)
  then show ?thesis using assms by (simp add: family_state_def family_rows_rotate [OF assms(1-3)])
qed

section \<open>Revocation\<close>

lemma revoke_db_tables:
  assumes "token_keys_ok d"
  shows "refresh_tokens (revoke_db P t d d) =
    map (\<lambda>r. if P r \<and> rt_status r \<noteq> TokenRevoked then revoked_row t r else r) (refresh_tokens d)"
proof -
  have "rt_id r \<in> rt_id ` set (live_tokens P d) \<longleftrightarrow> P r \<and> rt_status r \<noteq> TokenRevoked"
    if "r \<in> set (refresh_tokens d)" for r
    using that token_by_key(1) [OF assms that] by (auto simp: live_tokens_def select_all_def)
  then show ?thesis by (simp add: revoke_db_def update_where_def)
qed

lemma revoke_keys_ok: "token_keys_ok d \<Longrightarrow> token_keys_ok (revoke_db P t d d)"
proof -
  have "map rt_id (map (\<lambda>r. if Q r then revoked_row t r else r) xs) = map rt_id xs"
    "map rt_hashed_token (map (\<lambda>r. if Q r then revoked_row t r else r) xs) = map rt_hashed_token xs" for Q xs
    by (induction xs) auto
  then show "token_keys_ok d \<Longrightarrow> token_keys_ok (revoke_db P t d d)"
    by (simp add: token_keys_ok_def [of "revoke_db P t d d"] revoke_db_tables del: map_map)
      (simp add: token_keys_ok_def)
qed

lemma family_rows_revoke:
  assumes "token_keys_ok d" "\<And>r i t. P (revoked_row t r) = P r"
  shows "family_rows fam (revoke_db P t d d) =
    map (\<lambda>r. if P r \<and> rt_status r \<noteq> TokenRevoked then revoked_row t r else r) (family_rows fam d)"
proof -
  have "filter (\<lambda>r. rt_family_id r = fam) (map (\<lambda>r. if Q r then revoked_row t r else r) xs) =
      map (\<lambda>r. if Q r then revoked_row t r else r) (filter (\<lambda>r. rt_family_id r = fam) xs)" for Q xs
    by (induction xs) auto
  then show ?thesis by (simp add: family_rows_def revoke_db_tables [OF assms(1)])
qed

lemma revoked_family:
  assumes "token_keys_ok d" "family_rows fam d \<noteq> []"
  shows "family_state fam (revoke_db (\<lambda>r. rt_family_id r = fam) t d d) = Some Dead"
proof -
  have "\<forall>r\<in>set (family_rows fam (revoke_db (\<lambda>r. rt_family_id r = fam) t d d)). rt_status r = TokenRevoked"
    by (auto simp: family_rows_revoke [OF assms(1)] family_rows_subset)
  moreover have "family_rows fam (revoke_db (\<lambda>r. rt_family_id r = fam) t d d) \<noteq> []"
    using assms(2) by (simp add: family_rows_revoke [OF assms(1)])
  ultimately show ?thesis by (auto simp: family_state_def rows_state_def)
qed

lemma revoke_other:
  assumes "token_keys_ok d" "fam \<noteq> fam'"
  shows "family_state fam' (revoke_db (\<lambda>r. rt_family_id r = fam) t d d) = family_state fam' d"
proof -
  have "map (\<lambda>r. if rt_family_id r = fam \<and> rt_status r \<noteq> TokenRevoked then revoked_row t r else r)
      (family_rows fam' d) = family_rows fam' d"
    using assms(2) by (auto simp: family_rows_subset intro!: map_idI)
  then show ?thesis by (simp add: family_state_def family_rows_revoke [OF assms(1)])
qed

lemma families_okI:
  assumes "token_keys_ok d'" "families_ok d" "family_state fam d' \<noteq> None"
    and "\<And>f. f \<noteq> fam \<Longrightarrow> family_state f d' = family_state f d"
    and "\<And>f. f \<noteq> fam \<Longrightarrow> family_rows f d' \<noteq> [] \<Longrightarrow> family_rows f d \<noteq> []"
  shows "families_ok d'"
  unfolding families_ok_def
proof (intro conjI allI impI)
  fix f assume "family_rows f d' \<noteq> []"
  then show "family_state f d' \<noteq> None" using assms(2-5) by (cases "f = fam") (auto simp: families_ok_def)
qed (rule assms(1))

lemma families_ok_keys: "families_ok d \<Longrightarrow> token_keys_ok d"
  by (simp add: families_ok_def)

section \<open>Refreshing, end to end\<close>

lemma insert_audit_families [simp]:
  "families_ok (insert_audit a d) = families_ok d" "family_state fam (insert_audit a d) = family_state fam d"
  by (simp_all add: families_ok_def family_state_def family_rows_def token_keys_ok_def)

lemma rotate_families_ok:
  assumes ok: "families_ok d" and fam: "family_state (rt_family_id old) d = Some (Live used cur)"
    and old: "old \<in> set (refresh_tokens d)" "rt_hashed_token old = cur"
    and new: "rt_family_id new = rt_family_id old" "rt_status new = TokenActive"
      "\<forall>r\<in>set (refresh_tokens d). rt_id r \<noteq> rt_id new \<and> rt_hashed_token r \<noteq> rt_hashed_token new"
  shows "families_ok (rotate_db old new t d)"
proof -
  note k = families_ok_keys [OF ok]
  have ne: "rt_id new \<noteq> rt_id old" using old(1) new(3) by auto
  show ?thesis
  proof (rule families_okI [OF rotate_keys_ok [OF k old(1) new(3)] ok, of "rt_family_id old"])
    show "family_state (rt_family_id old) (rotate_db old new t d) \<noteq> None"
      using rotate_live [OF k fam old(1) refl old(2) ne new(1,2)] by simp
    show "family_state f (rotate_db old new t d) = family_state f d" if "f \<noteq> rt_family_id old" for f
      by (rule rotate_other [OF k old(1) ne new(1) that])
    show "family_rows f d \<noteq> []" if "f \<noteq> rt_family_id old" "family_rows f (rotate_db old new t d) \<noteq> []" for f
      using that new(1) by (auto simp: family_rows_rotate [OF k old(1) ne])
  qed
qed

lemma revoke_families_ok:
  assumes ok: "families_ok d" and ne: "family_rows fam d \<noteq> []"
  shows "families_ok (revoke_db (\<lambda>r. rt_family_id r = fam) t d d)"
proof -
  note k = families_ok_keys [OF ok]
  show ?thesis
  proof (rule families_okI [OF revoke_keys_ok [OF k] ok, of fam])
    show "family_state fam (revoke_db (\<lambda>r. rt_family_id r = fam) t d d) \<noteq> None"
      using revoked_family [OF k ne] by simp
    show "family_state f (revoke_db (\<lambda>r. rt_family_id r = fam) t d d) = family_state f d" if "f \<noteq> fam" for f
      using revoke_other [OF k] that by metis
    show "family_rows f d \<noteq> []" if "family_rows f (revoke_db (\<lambda>r. rt_family_id r = fam) t d d) \<noteq> []" for f
      using that by (auto simp: family_rows_revoke [OF k])
  qed
qed

end
