(* ===== verification/Overlaps.thy ===== *)
theory Overlaps
  imports Token_Families
begin

text \<open>
  Two requests on the same session that overlap: a refresh has read its token when another
  request commits, and goes on with the row it has read.
\<close>

definition idle :: ext where
  "idle = \<lparr>ext_db = (\<lambda>d. d), ext_redis = (\<lambda>r. r), ext_time = 0, ext_timeout = False, ext_broken = False\<rparr>"

text \<open>Another session that commits what \<open>f\<close> does to the database.\<close>

definition commits :: "(db \<Rightarrow> db) \<Rightarrow> ext" where
  "commits f = idle\<lparr>ext_db := f\<rparr>"

definition moved :: "ext \<Rightarrow> ext list \<Rightarrow> world \<Rightarrow> world" where
  "moved e es w = w\<lparr>w_db := ext_db e (w_db w), w_redis := ext_redis e (w_redis w),
     w_clock := w_clock w + int (ext_time e), w_script := es\<rparr>"

lemma query_moved:
  "w_script w = e # es \<Longrightarrow> \<not> ext_timeout e \<Longrightarrow> \<not> w_failed w \<Longrightarrow>
    query q w = (Inr (q (view (moved e es w))), moved e es w)"
  by (simp add: query_def run_simps(3,4) pause_stmt_def pause_def strikes_def moved_def Let_def)

definition overlapped :: "db \<Rightarrow> int \<Rightarrow> (db \<Rightarrow> db) \<Rightarrow> (nat \<Rightarrow> uuid) \<Rightarrow> world" where
  "overlapped d t f ids = start_world d t [idle, commits f] ids"

lemma moved_overlapped [simp]:
  "moved idle [commits f] (overlapped d t f ids) = start_world d t [commits f] ids"
  "moved (commits f) [] (start_world d t [commits f] ids) = start_world (f d) t [] ids"
  by (simp_all add: moved_def overlapped_def start_world_def idle_def commits_def)

lemma start_sel [simp]:
  "view (start_world d t s ids) = d" "w_db (start_world d t s ids) = d" "w_clock (start_world d t s ids) = t"
  "w_uuids (start_world d t s ids) = ids" "w_drawn (start_world d t s ids) = 0"
  "w_script (start_world d t s ids) = s" "\<not> w_failed (start_world d t s ids)"
  "quiet (start_world d t [] ids)" "w_redis (start_world d t s ids) = (\<lambda>_. None)"
  by (simp_all add: start_world_def view_def quiet_def)

lemma overlapped_sel [simp]:
  "view (overlapped d t f ids) = d" "w_clock (overlapped d t f ids) = t"
  "w_script (overlapped d t f ids) = [idle, commits f]" "\<not> w_failed (overlapped d t f ids)"
  by (simp_all add: overlapped_def)

lemma no_timeout [simp]: "\<not> ext_timeout idle" "\<not> ext_timeout (commits f)"
  by (simp_all add: idle_def commits_def)

lemma refresh_overlapped_run:
  fixes d d' :: db
  assumes d': "d' = f d" and supply': "id_supply 3 (start_world d' t [] ids)" "new_secret cy (ids 0) d'"
    and cy: "digest_64 cy" "context_fits cx"
    and r: "find_refresh_token (hash_secret cy raw) d = Some r" "rt_status r = TokenActive"
    and h: "holder_ok r t d' u m" and still: "\<exists>x\<in>set (refresh_tokens d'). rt_id x = rt_id r"
  shows "\<exists>tp w'. request (refresh st cy raw cx) (overlapped d t f ids) = (Inr tp, w') \<and>
    w_db w' = rotate_db r (session_row st cy (rt_tenant_id r) (rt_user_id r) (rt_family_id r) cx t (ids 0) (ids 1)) t d'"
proof -
  let ?v = "start_world d' t [] ids"
  let ?n = "session_row st cy (rt_tenant_id r) (rt_user_id r) (rt_family_id r) cx t (ids 0) (ids 1)"
  have u: "us_id u = rt_user_id r" using h find_user_SomeD by (auto simp: holder_ok_def)
  have "ids 1 \<notin> access_ids d'" using supplyD [OF supply'(1), of 1] by simp
  from session_row_ok [OF cy this supply'(2)]
  have ok: "refresh_token_insert_ok ?n d'" .
  have q: "query q (overlapped d t f ids) = (Inr (q d), start_world d t [commits f] ids)"
    "query q (start_world d t [commits f] ids) = (Inr (q d'), ?v)" for q :: "db \<Rightarrow> 'x"
    using query_moved [of _ idle "[commits f]" q] query_moved [of _ "commits f" "[]" q] d' by simp_all
  obtain tp w' where "refresh st cy raw cx (overlapped d t f ids) = (Inr tp, w')"
    "quiet w'" "view w' = rotate_db r ?n t d'"
  proof -
    have "refresh st cy raw cx (overlapped d t f ids) =
      (Inr (token_pair_of st (access_token st cy u (rt_tenant_id r) (me_role m) t (ids 2)) (issued_secret cy (ids 0))),
       after ?v 3 (rotate_db r ?n t))"
      using r h ok u still
      by (simp add: refresh_def refresh_repo_get_by_hashed_token_def user_repo_get_by_id_def
          membership_repo_get_by_tenant_and_user_def build_refresh_token_create_def refresh_repo_rotate_def
          refresh_repo_create_def runs holder_ok_def session_row_def Let_def q query_moved d' [symmetric]
          rotate_db_def [abs_def] issued_secret_def new_refresh_token_def numeral_eq_Suc)
    then show ?thesis by (rule that) simp_all
  qed
  then show ?thesis using request_returns by fastforce
qed

section \<open>What an overlap leaves\<close>

lemma rotate_db_id: "rt_id old = rt_id old' \<Longrightarrow> rotate_db old new t d = rotate_db old' new t d"
  by (simp add: rotate_db_def)

lemma rotated_again_row [simp]:
  "rt_id (rotated_row i t r) = rt_id r" "rt_status (rotated_row i t r) = TokenRotated"
  by (simp_all add: rotated_row_def)

lemma rotate_rows:
  assumes k: "token_keys_ok d" and f: "family_rows fam d = xs @ old # ys" and "rt_id new \<noteq> rt_id old"
    and new: "rt_family_id new = fam"
  shows "family_rows fam (rotate_db old new t d) = xs @ rotated_row (rt_id new) t old # ys @ [new]"
proof -
  have "old \<in> set (family_rows fam d)" using f by simp
  then have old: "old \<in> set (refresh_tokens d)" by (simp add: family_rows_subset)
  have "old \<notin> set xs" "old \<notin> set ys" using family_distinct [OF k, of fam] f by simp_all
  then have "map (\<lambda>r. if r = old then rotated_row i t r else r) xs = xs"
    "map (\<lambda>r. if r = old then rotated_row i t r else r) ys = ys" for i
    by (auto intro!: map_idI)
  then show ?thesis using f new by (simp add: family_rows_rotate [OF k old assms(3)])
qed

lemma double_rotation_rows:
  assumes k: "token_keys_ok d" and f: "family_rows fam d = xs @ [old]"
    and b: "rt_family_id b = fam" "\<forall>r\<in>set (refresh_tokens d). rt_id r \<noteq> rt_id b \<and> rt_hashed_token r \<noteq> rt_hashed_token b"
    and a: "rt_family_id a = fam" "rt_id a \<noteq> rt_id old"
  shows "\<exists>old'. rt_status old' = TokenRotated \<and>
    family_rows fam (rotate_db old a t (rotate_db old b t d)) = xs @ [old', b, a]"
proof -
  let ?r = "rotated_row (rt_id b) t old" and ?d = "rotate_db old b t d"
  have "old \<in> set (family_rows fam d)" using f by simp
  then have old: "old \<in> set (refresh_tokens d)" by (simp add: family_rows_subset)
  have rows: "family_rows fam ?d = xs @ ?r # [b]"
    using rotate_rows [OF k, of fam xs old "[]" b t] f b old by auto
  have "family_rows fam (rotate_db ?r a t ?d) = xs @ rotated_row (rt_id a) t ?r # [b] @ [a]"
    using a by (intro rotate_rows [OF rotate_keys_ok [OF k old b(2)] rows]) simp_all
  moreover have "rotate_db old a t ?d = rotate_db ?r a t ?d" by (rule rotate_db_id) simp
  ultimately show ?thesis by (intro exI [of _ "rotated_row (rt_id a) t ?r"]) simp
qed

end
