(* ===== verification/Principal_Outcomes.thy ===== *)
theory Principal_Outcomes
  imports Access_Runs
begin

text \<open>
  Who a request acts as: what a principal obtained from a token or an API key implies of
  the database, and which tokens and keys obtain one.
\<close>

lemmas quiet_redis = redis_run [OF conjunct1 [OF quiet_def [THEN iffD1]]]

section \<open>Bearer tokens\<close>

definition token_denied :: "json_object \<Rightarrow> world \<Rightarrow> bool" where
  "token_denied p w \<longleftrightarrow> truthy (str_claim p ''jti'') \<and>
     redis_live (w_redis w) (w_clock w) (denylist_key (or_default (str_claim p ''jti'') [])) \<noteq> None"

lemma payload_quiet:
  assumes "quiet w"
  shows "get_access_token_payload st cy b w =
    (case b of None \<Rightarrow> (Inl (unauthorized ''Not authenticated''), w) | Some tok \<Rightarrow>
      (case decode_token st cy tok Access (w_clock w) of
        Inl _ \<Rightarrow> (Inl (unauthorized ''Invalid or expired access token''), w)
      | Inr p \<Rightarrow> if token_denied p w then (Inl (unauthorized ''Token has been revoked''), w) else (Inr p, w)))"
  using assms
  by (auto simp: get_access_token_payload_def runs is_token_denied_def quiet_redis token_denied_def
      split: option.split sum.split)

definition claimed_user :: "json_object \<Rightarrow> uuid option" where
  "claimed_user p = Option.bind (str_claim p ''sub'') uuid_parse"

definition claimed_tenant :: "json_object \<Rightarrow> uuid option" where
  "claimed_tenant p = Option.bind (str_claim p ''tenant_id'') uuid_parse"

definition session_user :: "json_object \<Rightarrow> db \<Rightarrow> user \<Rightarrow> bool" where
  "session_user p d u \<longleftrightarrow> (\<exists>i. claimed_user p = Some i \<and> find_user i d = Some u) \<and>
     us_status u = UserActive \<and> map_of p ''ver'' = Some (JInt (us_token_version u))"

lemma current_user_quiet:
  assumes "quiet w" "get_current_user p w = (Inr u, w')"
  shows "session_user p (view w) u \<and> w' = w"
  using assms
  by (auto simp: get_current_user_def session_user_def claimed_user_def user_repo_get_by_id_def runs
      split: option.splits if_splits)

lemma current_user_run:
  assumes "quiet w" "session_user p (view w) u"
  shows "get_current_user p w = (Inr u, w)"
  using assms
  by (auto simp: get_current_user_def session_user_def claimed_user_def user_repo_get_by_id_def runs)

lemma tenant_active_run:
  "quiet w \<Longrightarrow> ensure_tenant_active tn w =
    (if \<exists>r. find_tenant tn (view w) = Some r \<and> te_status r = TenantActive then (Inr (), w)
     else (Inl (unauthorized ''Tenant is not active''), w))"
  by (auto simp: ensure_tenant_active_def tenant_repo_get_by_id_def runs split: option.split)

text \<open>What has to hold in the database for a token's claims to give a principal.\<close>

definition token_principal :: "json_object \<Rightarrow> db \<Rightarrow> principal \<Rightarrow> bool" where
  "token_principal p d pn \<longleftrightarrow> (\<exists>u tn m r. session_user p d u \<and> claimed_tenant p = Some tn \<and>
     find_member tn (us_id u) d = Some m \<and> me_status m = MemberActive \<and>
     find_tenant tn d = Some r \<and> te_status r = TenantActive \<and>
     pn = \<lparr>pn_user = Some u, pn_tenant_id = tn, pn_role = Some (me_role m), pn_scopes = None\<rparr>)"

lemma claimed_tenant_truthy:
  "claimed_tenant p = Some tn \<Longrightarrow> truthy (str_claim p ''tenant_id'') \<and>
    uuid_parse (or_default (str_claim p ''tenant_id'') []) = Some tn"
  by (cases "str_claim p ''tenant_id''") (auto simp: claimed_tenant_def truthy_def or_default_def uuid_parse_def)

lemma truthy_claimed_tenant:
  "truthy (str_claim p ''tenant_id'') \<Longrightarrow>
    uuid_parse (or_default (str_claim p ''tenant_id'') []) = claimed_tenant p"
  by (cases "str_claim p ''tenant_id''") (auto simp: claimed_tenant_def truthy_def or_default_def)

definition live_payload :: "settings \<Rightarrow> crypto \<Rightarrow> string option \<Rightarrow> world \<Rightarrow> json_object \<Rightarrow> bool" where
  "live_payload st cy b w p \<longleftrightarrow> (\<exists>tok. b = Some tok \<and> decode_token st cy tok Access (w_clock w) = Inr p) \<and>
     \<not> token_denied p w"

lemma principal_from_token_iff:
  assumes w: "quiet w"
  shows "principal_from_token st cy b w = (Inr pn, w') \<longleftrightarrow>
    w' = w \<and> (\<exists>p. live_payload st cy b w p \<and> token_principal p (view w) pn)"
proof
  assume "principal_from_token st cy b w = (Inr pn, w')"
  then obtain p u where p: "get_access_token_payload st cy b w = (Inr p, w)"
    and u: "get_current_user p w = (Inr u, w)"
    and rest: "(if \<not> truthy (str_claim p ''tenant_id'') then raiseE (unauthorized ''Token is not scoped to a tenant'') else
      case uuid_parse (or_default (str_claim p ''tenant_id'') []) of
        None \<Rightarrow> raiseE (unauthorized ''Invalid tenant claim'')
      | Some tn \<Rightarrow>
        bindE (membership_repo_get_by_tenant_and_user tn (us_id u)) (\<lambda>found.
        case found of None \<Rightarrow> raiseE (unauthorized ''Tenant membership is no longer active'') | Some m \<Rightarrow>
        if me_status m \<noteq> MemberActive then raiseE (unauthorized ''Tenant membership is no longer active'') else
        thenE (ensure_tenant_active tn)
        (retE \<lparr>pn_user = Some u, pn_tenant_id = tn, pn_role = Some (me_role m), pn_scopes = None\<rparr>))) w = (Inr pn, w')"
    using w
    by (auto simp: principal_from_token_def run_simps(3) payload_quiet dest: current_user_quiet
        split: prod.splits sum.splits option.splits if_splits)
  have s: "session_user p (view w) u" using current_user_quiet [OF w u] by simp
  have l: "live_payload st cy b w p"
    using p by (auto simp: payload_quiet w live_payload_def split: option.splits sum.splits if_splits)
  have "w' = w \<and> token_principal p (view w) pn"
    using rest w s
    by (auto simp: runs tenant_active_run membership_repo_get_by_tenant_and_user_def truthy_claimed_tenant
        token_principal_def split: if_splits option.splits)
  with l show "w' = w \<and> (\<exists>p. live_payload st cy b w p \<and> token_principal p (view w) pn)" by blast
next
  assume a: "w' = w \<and> (\<exists>p. live_payload st cy b w p \<and> token_principal p (view w) pn)"
  then obtain p u tn m r where p: "live_payload st cy b w p" "session_user p (view w) u"
    "claimed_tenant p = Some tn" "find_member tn (us_id u) (view w) = Some m" "me_status m = MemberActive"
    "find_tenant tn (view w) = Some r" "te_status r = TenantActive"
    and pn: "pn = \<lparr>pn_user = Some u, pn_tenant_id = tn, pn_role = Some (me_role m), pn_scopes = None\<rparr>"
    by (auto simp: token_principal_def)
  have "get_access_token_payload st cy b w = (Inr p, w)"
    using p(1) by (auto simp: payload_quiet w live_payload_def)
  then show "principal_from_token st cy b w = (Inr pn, w')"
    using a p(3-7) current_user_run [OF w p(2)] claimed_tenant_truthy [OF p(3)] w
    by (simp add: principal_from_token_def runs membership_repo_get_by_tenant_and_user_def tenant_active_run pn)
qed

text \<open>The claims of an access token that \<open>create_access_token\<close> made.\<close>

lemma access_payload_flat: "flat_claims (access_payload st u tn role t j)"
  by (simp add: flat_claims_def access_payload_def)

lemma issued_token_live:
  assumes "jwt_sound cy" "seconds t \<le> seconds (w_clock w)"
    and "seconds (w_clock w) < seconds (t + minutes (st_jwt_access_token_expire_minutes st))"
    and "redis_live (w_redis w) (w_clock w) (denylist_key (uuid_str j)) = None"
  shows "live_payload st cy (Some (access_token st cy u tn role t j)) w (access_payload st u tn role t j)"
  using assms access_payload_flat
  by (auto simp: live_payload_def decode_token_def secret_and_kid_for_def access_token_def jwt_sound_def
      claims_current_def) (auto simp: access_payload_def token_denied_def str_claim_def or_default_def)

lemma issued_token_claims [simp]:
  "claimed_user (access_payload st u tn role t j) = Some (us_id u)"
  "claimed_tenant (access_payload st u tn role t j) = Some tn"
  "map_of (access_payload st u tn role t j) ''ver'' = Some (JInt (us_token_version u))"
  "map_of (access_payload st u tn role t j) ''exp'' =
    Some (JInt (seconds (t + minutes (st_jwt_access_token_expire_minutes st))))"
  "str_claim (access_payload st u tn role t j) ''jti'' = Some (uuid_str j)"
  by (simp_all add: access_payload_def claimed_user_def claimed_tenant_def str_claim_def)

end
