(* ===== verification/Access_Scenarios.thy ===== *)
theory Access_Scenarios
  imports Overlaps Principal_Outcomes
begin

text \<open>
  Concrete inputs for the access side: a crypto whose digest pads and whose tokens print
  their claims, so that it satisfies the laws assumed of the libraries, and a small
  database of one tenant, one user and one session.
\<close>

section \<open>A token format\<close>

fun print_str :: "string \<Rightarrow> string" where
  "print_str [] = ''e''"
| "print_str (c # s) = CHR ''c'' # c # print_str s"

fun scan_str :: "string \<Rightarrow> (string \<times> string) option" where
  "scan_str (x # s) =
     (if x = CHR ''e'' then Some ([], s)
      else case s of [] \<Rightarrow> None | c # r \<Rightarrow> map_option (\<lambda>(a, b). (c # a, b)) (scan_str r))"
| "scan_str [] = None"

lemma scan_print_str [simp]: "scan_str (print_str s @ r) = Some (s, r)"
  by (induction s) auto

fun print_int :: "int \<Rightarrow> string" where
  "print_int i = (if i < 0 then CHR ''-'' else CHR ''+'') # print_str (replicate (nat \<bar>i\<bar>) CHR ''1'')"

fun scan_int :: "string \<Rightarrow> (int \<times> string) option" where
  "scan_int [] = None"
| "scan_int (x # s) = map_option (\<lambda>(a, r). (if x = CHR ''-'' then - int (length a) else int (length a), r)) (scan_str s)"

lemma scan_print_int [simp]: "scan_int (print_int i @ r) = Some (i, r)"
  by simp

fun print_claims :: "json_object \<Rightarrow> string" where
  "print_claims [] = []"
| "print_claims ((k, JInt i) # p) = CHR ''i'' # print_str k @ print_int i @ print_claims p"
| "print_claims ((k, JStr s) # p) = CHR ''s'' # print_str k @ print_str s @ print_claims p"
| "print_claims ((k, v) # p) = print_claims p"

definition scan_claim :: "char \<Rightarrow> string \<Rightarrow> ((string \<times> json) \<times> string) option" where
  "scan_claim x s = Option.bind (scan_str s) (\<lambda>(k, r).
     if x = CHR ''i'' then map_option (\<lambda>(i, r). ((k, JInt i), r)) (scan_int r)
     else map_option (\<lambda>(v, r). ((k, JStr v), r)) (scan_str r))"

text \<open>The first argument bounds the number of claims.\<close>

fun scan_claims :: "nat \<Rightarrow> string \<Rightarrow> json_object option" where
  "scan_claims n [] = Some []"
| "scan_claims 0 (x # s) = None"
| "scan_claims (Suc n) (x # s) =
     (case scan_claim x s of None \<Rightarrow> None | Some (kv, r) \<Rightarrow> map_option ((#) kv) (scan_claims n r))"

lemma scan_print_claims: "flat_claims p \<Longrightarrow> length p \<le> n \<Longrightarrow> scan_claims n (print_claims p) = Some p"
proof (induction p arbitrary: n rule: print_claims.induct)
  case (2 k i p)
  then show ?case by (cases n) (auto simp: scan_claim_def flat_claims_def simp del: print_int.simps)
next
  case (3 k s p)
  then show ?case by (cases n) (auto simp: scan_claim_def flat_claims_def)
qed (simp_all add: flat_claims_def)

lemma length_print_claims: "flat_claims p \<Longrightarrow> length p \<le> length (print_claims p)"
  by (induction p rule: print_claims.induct) (auto simp: flat_claims_def)

definition demo_jwt_decode :: "string \<Rightarrow> string \<Rightarrow> string \<Rightarrow> int \<Rightarrow> json_object option" where
  "demo_jwt_decode tok s iss t = (case scan_str tok of None \<Rightarrow> None | Some (s', r) \<Rightarrow>
     (case scan_claims (length r) r of None \<Rightarrow> None
      | Some p \<Rightarrow> if s = s' \<and> claims_current p iss t then Some p else None))"

definition demo_crypto :: crypto where
  "demo_crypto = \<lparr>cy_hash_password = (\<lambda>pw salt. ''h'' @ pw), cy_verify_password = (\<lambda>pw h. h = ''h'' @ pw),
     cy_needs_rehash = (\<lambda>h. False), cy_is_breached = (\<lambda>pw. False),
     cy_token_urlsafe = (\<lambda>n u. if n < 32 then drop 28 (uuid_str u) else ''s'' @ uuid_str u),
     cy_sha256_hex = (\<lambda>s. take 64 (s @ replicate 64 CHR ''0'')),
     cy_jwt_encode = (\<lambda>p s k. print_str s @ print_claims p), cy_jwt_decode = demo_jwt_decode\<rparr>"

lemma demo_crypto_sound: "jwt_sound demo_crypto" "digest_64 demo_crypto"
  using scan_print_claims length_print_claims
  by (auto simp: jwt_sound_def demo_crypto_def demo_jwt_decode_def digest_64_def min_def)

section \<open>A database\<close>

definition demo_tenant :: tenant where
  "demo_tenant = \<lparr>te_id = 2, te_name = ''t'', te_slug = ''t'', te_status = TenantActive,
     te_deleted_at = None, te_created_at = 1, te_updated_at = 1\<rparr>"

definition demo_user :: user where
  "demo_user = \<lparr>us_id = 7, us_email = ''a@b.c'', us_display_name = ''A'', us_status = UserActive,
     us_hashed_password = Some ''hpw'', us_token_version = 0, us_email_verified_at = None,
     us_created_at = 1, us_updated_at = 1\<rparr>"

definition demo_member :: membership where
  "demo_member = \<lparr>me_id = 8, me_tenant_id = 2, me_user_id = 7, me_role = DEVELOPER,
     me_status = MemberActive, me_created_at = 1, me_updated_at = 1\<rparr>"

definition demo_token :: refresh_token where
  "demo_token = \<lparr>rt_id = 10, rt_tenant_id = 2, rt_user_id = 7, rt_family_id = 9,
     rt_hashed_token = hash_secret demo_crypto ''raw'', rt_status = TokenActive, rt_expires_at = 1000,
     rt_revoked_at = None, rt_replaced_by_id = None, rt_created_by_ip = None, rt_user_agent = None,
     rt_created_at = 1, rt_updated_at = 1\<rparr>"

definition access_db :: db where
  "access_db = empty_db\<lparr>tenants := [demo_tenant], users := [demo_user], memberships := [demo_member],
     refresh_tokens := [demo_token]\<rparr>"

definition access_ids_from :: "nat \<Rightarrow> nat \<Rightarrow> uuid" where
  "access_ids_from k n = word_of_nat (k + n)"

definition access_world :: world where
  "access_world = start_world access_db 200 [] (access_ids_from 100)"

lemma access_db_tables [simp]:
  "tenants access_db = [demo_tenant]" "users access_db = [demo_user]" "memberships access_db = [demo_member]"
  "refresh_tokens access_db = [demo_token]" "verification_tokens access_db = []" "api_keys access_db = []"
  "audit_events access_db = []"
  by (simp_all add: access_db_def)

lemma small_words: "m < 1000 \<Longrightarrow> n < 1000 \<Longrightarrow> (word_of_nat m :: uuid) = word_of_nat n \<longleftrightarrow> m = n"
  by (simp add: word_of_nat_eq_iff take_bit_nat_eq_self)

lemma access_ids_from_eq: "k + m < 1000 \<Longrightarrow> k + n < 1000 \<Longrightarrow> access_ids_from k m = access_ids_from k n \<longleftrightarrow> m = n"
  by (simp add: access_ids_from_def small_words)

lemma access_ids_fresh: "100 \<le> k \<Longrightarrow> k + n < 1000 \<Longrightarrow> access_ids_from k n \<notin> {7, 8, 10}"
  using small_words [of "k + n" 7] small_words [of "k + n" 8] small_words [of "k + n" 10]
  by (simp add: access_ids_from_def)

lemma access_db_ids: "access_ids access_db = {7, 8, 10}"
  by (auto simp: access_ids_def demo_user_def demo_member_def demo_token_def)

lemma access_supply: "100 \<le> k \<Longrightarrow> k + j < 1000 \<Longrightarrow> id_supply j (start_world access_db t [] (access_ids_from k))"
  using access_ids_fresh [of k] access_ids_from_eq [of k] by (simp add: id_supply_def access_db_ids)

lemma demo_secret_hash:
  "hash_secret demo_crypto (issued_secret demo_crypto u) = ''s'' @ uuid_str u @ replicate 27 CHR ''0''"
  using length_uuid_str [of u]
  by (simp add: hash_secret_def issued_secret_def demo_crypto_def numeral_eq_Suc)

lemma demo_new_secret: "new_secret demo_crypto u access_db"
  by (simp add: new_secret_def demo_secret_hash demo_token_def)
    (simp add: hash_secret_def demo_crypto_def)

lemma access_finds [simp]:
  "find_user 7 access_db = Some demo_user" "find_member 2 7 access_db = Some demo_member"
  "find_tenant 2 access_db = Some demo_tenant" "find_email ''a@b.c'' access_db = Some demo_user"
  "find_refresh_token (hash_secret demo_crypto ''raw'') access_db = Some demo_token"
  by (simp_all add: find_user_def find_member_def find_tenant_def find_email_def find_refresh_token_def
      membership_key_def demo_user_def demo_member_def demo_tenant_def demo_token_def)

end
