(* ===== verification/Access_Properties.thy ===== *)
theory Access_Properties
  imports Access_Scenarios
begin

text \<open>
  The properties of the authentication service: what a login grants and what a refused one
  leaves behind, refresh-token rotation as a protocol and where overlapping requests break
  it, single-use reset links, and what a bearer token must satisfy on every request.
\<close>

lemma request_raised:
  assumes "m w = (Inl e, w')" "is_exception e"
  shows "\<exists>w''. request m w = (Inl e, w'') \<and> w_db w'' = w_db w'"
  using request_raises [of m, OF assms] by simp

section \<open>Login\<close>

text \<open>C13 (login): a login with the right password of an active account, whose stored hash has the
  current parameters (\<open>current_hash\<close>: none is computed anew) and whose tenant can be resolved, commits one new refresh token, \<open>ACTIVE\<close> and stored only as a hash, and one audit
  record; and from its issue to its expiry the access token it returns gives exactly the
  principal of this user in this tenant, with the role the membership has at the time of
  the request, as long as user, membership and tenant are active, the user's token
  version is the one at login, and the token has not been denied.\<close>

theorem login_grants_access:
  assumes w: "quiet w" "id_supply 5 w" "new_secret cy (draw w 1) (view w)"
    and cy: "digest_64 cy" "jwt_sound cy" "context_fits cx"
    and u: "matching_user cy data (view w) = Some u" "us_status u = UserActive" "current_hash cy u"
    and tn: "resolve_tenant (active_memberships (us_id u) (view w)) (lg_tenant_id data) = Inr (Some (tn, role))"
  shows "\<exists>tp w' r a. request (login st cy data cx) w =
      (Inr \<lparr>lr_token = Some tp, lr_available_tenants = []\<rparr>, w') \<and>
    w_db w' = insert_audit a (insert_refresh_token r (view w)) \<and>
    rt_status r = TokenActive \<and> rt_user_id r = us_id u \<and> rt_tenant_id r = tn \<and>
    rt_hashed_token r = hash_secret cy (tp_refresh_token tp) \<and>
    au_action a = ''auth.login'' \<and> au_outcome a = AuditSuccess \<and> au_actor_user_id a = Some (us_id u) \<and>
    (\<forall>v pn. quiet v \<longrightarrow> seconds (w_clock w) \<le> seconds (w_clock v) \<longrightarrow>
      seconds (w_clock v) < seconds (w_clock w + minutes (st_jwt_access_token_expire_minutes st)) \<longrightarrow>
      redis_live (w_redis v) (w_clock v) (denylist_key (uuid_str (draw w 3))) = None \<longrightarrow>
      (principal_from_token st cy (Some (tp_access_token tp)) v = (Inr pn, v) \<longleftrightarrow>
        (\<exists>u' m te. find_user (us_id u) (view v) = Some u' \<and> us_status u' = UserActive \<and>
          us_token_version u' = us_token_version u \<and>
          find_member tn (us_id u) (view v) = Some m \<and> me_status m = MemberActive \<and>
          find_tenant tn (view v) = Some te \<and> te_status te = TenantActive \<and>
          pn = \<lparr>pn_user = Some u', pn_tenant_id = tn, pn_role = Some (me_role m), pn_scopes = None\<rparr>)))"
proof -
  let ?acc = "access_token st cy u tn role (w_clock w) (draw w 3)"
  let ?p = "access_payload st u tn role (w_clock w) (draw w 3)"
  let ?tp = "token_pair_of st ?acc (issued_secret cy (draw w 1))"
  let ?a = "new_audit_event (user_event (Some tn) u ''auth.login'' cx) (draw w 4) (w_clock w)"
  note run = login_succeeds_run [OF w cy(1,3) u tn, of st]
  from request_returns [of "login st cy data cx", OF run]
  have req: "request (login st cy data cx) w = (Inr \<lparr>lr_token = Some ?tp, lr_available_tenants = []\<rparr>,
      committed (after w 5 (\<lambda>d. insert_audit ?a (insert_refresh_token (login_session st cy u tn cx w) d))))"
    using w(1) by simp
  have acc: "principal_from_token st cy (Some ?acc) v = (Inr pn, v) \<longleftrightarrow> token_principal ?p (view v) pn"
    if v: "quiet v" "seconds (w_clock w) \<le> seconds (w_clock v)"
      "seconds (w_clock v) < seconds (w_clock w + minutes (st_jwt_access_token_expire_minutes st))"
      "redis_live (w_redis v) (w_clock v) (denylist_key (uuid_str (draw w 3))) = None" for v pn
  proof -
    have "live_payload st cy (Some ?acc) v ?p" by (rule issued_token_live [OF cy(2) v(2-4)])
    moreover have "live_payload st cy b v p \<Longrightarrow> live_payload st cy b v p' \<Longrightarrow> p = p'" for b p p'
      by (auto simp: live_payload_def)
    ultimately show ?thesis using v(1) principal_from_token_iff [OF v(1), of st cy "Some ?acc" pn v] by metis
  qed
  have claims: "token_principal ?p d pn \<longleftrightarrow>
      (\<exists>u' m te. find_user (us_id u) d = Some u' \<and> us_status u' = UserActive \<and>
        us_token_version u' = us_token_version u \<and> find_member tn (us_id u) d = Some m \<and>
        me_status m = MemberActive \<and> find_tenant tn d = Some te \<and> te_status te = TenantActive \<and>
        pn = \<lparr>pn_user = Some u', pn_tenant_id = tn, pn_role = Some (me_role m), pn_scopes = None\<rparr>)" for d pn
    using find_user_SomeD by (fastforce simp: token_principal_def session_user_def)
  show ?thesis
    using acc claims req
    by (intro exI [of _ ?tp] exI [of _ "committed (after w 5
        (\<lambda>d. insert_audit ?a (insert_refresh_token (login_session st cy u tn cx w) d)))"]
        exI [of _ "login_session st cy u tn cx w"] exI [of _ ?a])
      (simp add: login_session_def token_pair_of_def new_audit_event_def user_event_def auth_event_def)
qed

definition demo_login :: login_request where
  "demo_login = \<lparr>lg_email = ''a@b.c'', lg_password = ''pw'', lg_tenant_id = None\<rparr>"

theorem login_grants_access_witness:
  "\<exists>tp w' v. request (login default_settings demo_crypto demo_login no_context) access_world =
      (Inr \<lparr>lr_token = Some tp, lr_available_tenants = []\<rparr>, w') \<and>
    v = start_world (w_db w') 300 [] (access_ids_from 200) \<and>
    principal_from_token default_settings demo_crypto (Some (tp_access_token tp)) v =
      (Inr \<lparr>pn_user = Some demo_user, pn_tenant_id = 2, pn_role = Some DEVELOPER, pn_scopes = None\<rparr>, v)"
proof -
  let ?st = default_settings
  have m: "matching_user demo_crypto demo_login (view access_world) = Some demo_user"
    by (simp add: matching_user_def demo_login_def access_world_def password_matches_def)
      (simp add: demo_user_def demo_crypto_def)
  have r: "resolve_tenant (active_memberships (us_id demo_user) (view access_world)) (lg_tenant_id demo_login) =
      Inr (Some (2, DEVELOPER))"
    by (simp add: resolve_tenant_def active_memberships_def select_all_def order_by_def access_world_def
        demo_login_def demo_user_def demo_member_def)
  have q: "quiet access_world" "id_supply 5 access_world" "new_secret demo_crypto (draw access_world 1) (view access_world)"
    using access_supply [of 100 5 200] demo_new_secret by (simp_all add: access_world_def)
  have u: "us_status demo_user = UserActive" "current_hash demo_crypto demo_user"
    by (simp_all add: demo_user_def current_hash_def demo_crypto_def)
  obtain tp w' rt a where l: "request (login ?st demo_crypto demo_login no_context) access_world =
      (Inr \<lparr>lr_token = Some tp, lr_available_tenants = []\<rparr>, w')"
    and db: "w_db w' = insert_audit a (insert_refresh_token rt (view access_world))"
    and acc: "\<And>v pn. quiet v \<Longrightarrow> seconds (w_clock access_world) \<le> seconds (w_clock v) \<Longrightarrow>
      seconds (w_clock v) < seconds (w_clock access_world + minutes (st_jwt_access_token_expire_minutes ?st)) \<Longrightarrow>
      redis_live (w_redis v) (w_clock v) (denylist_key (uuid_str (draw access_world 3))) = None \<Longrightarrow>
      (principal_from_token ?st demo_crypto (Some (tp_access_token tp)) v = (Inr pn, v) \<longleftrightarrow>
        (\<exists>u' m te. find_user (us_id demo_user) (view v) = Some u' \<and> us_status u' = UserActive \<and>
          us_token_version u' = us_token_version demo_user \<and>
          find_member 2 (us_id demo_user) (view v) = Some m \<and> me_status m = MemberActive \<and>
          find_tenant 2 (view v) = Some te \<and> te_status te = TenantActive \<and>
          pn = \<lparr>pn_user = Some u', pn_tenant_id = 2, pn_role = Some (me_role m), pn_scopes = None\<rparr>))"
    using login_grants_access [OF q demo_crypto_sound(2,1) no_context_fits m u r, of ?st] by blast
  let ?v = "start_world (w_db w') 300 [] (access_ids_from 200)"
  have "principal_from_token ?st demo_crypto (Some (tp_access_token tp)) ?v =
      (Inr \<lparr>pn_user = Some demo_user, pn_tenant_id = 2, pn_role = Some DEVELOPER, pn_scopes = None\<rparr>, ?v)"
  proof (rule acc [THEN iffD2])
    show "seconds (w_clock ?v) < seconds (w_clock access_world + minutes (st_jwt_access_token_expire_minutes ?st))"
      by (simp add: seconds_def minutes_def access_world_def default_settings_def)
    have "us_id demo_user = 7" "me_role demo_member = DEVELOPER" "me_status demo_member = MemberActive"
      "te_status demo_tenant = TenantActive"
      by (simp_all add: demo_user_def demo_member_def demo_tenant_def)
    then show "\<exists>u' m te. find_user (us_id demo_user) (view ?v) = Some u' \<and> us_status u' = UserActive \<and>
          us_token_version u' = us_token_version demo_user \<and>
          find_member 2 (us_id demo_user) (view ?v) = Some m \<and> me_status m = MemberActive \<and>
          find_tenant 2 (view ?v) = Some te \<and> te_status te = TenantActive \<and>
          \<lparr>pn_user = Some demo_user, pn_tenant_id = 2, pn_role = Some DEVELOPER, pn_scopes = None\<rparr> =
          \<lparr>pn_user = Some u', pn_tenant_id = 2, pn_role = Some (me_role m), pn_scopes = None\<rparr>"
      using u(1) by (simp add: db access_world_def)
  qed (simp_all add: seconds_def access_world_def redis_live_def)
  then show ?thesis using l by blast
qed



section \<open>Refresh tokens\<close>

text \<open>
  Whether the holder of a token may still use it: the token has not expired, and user and
  membership are there and active.
\<close>

definition holder_valid :: "refresh_token \<Rightarrow> int \<Rightarrow> db \<Rightarrow> bool" where
  "holder_valid r t d \<longleftrightarrow> t < rt_expires_at r \<and>
     (case find_user (rt_user_id r) d of None \<Rightarrow> False | Some u \<Rightarrow> us_status u = UserActive \<and>
        (case find_member (rt_tenant_id r) (us_id u) d of None \<Rightarrow> False | Some m \<Rightarrow> me_status m = MemberActive))"

lemma holder_valid_iff: "holder_valid r t d \<longleftrightarrow> (\<exists>u m. holder_ok r t d u m)"
  by (auto simp: holder_valid_def holder_ok_def split: option.splits)

lemma refresh_barred_run:
  assumes "quiet w" "find_refresh_token (hash_secret cy raw) (view w) = Some r" "rt_status r = TokenActive"
    and "\<not> holder_valid r (w_clock w) (view w)"
  shows "refresh st cy raw cx w = (Inl refresh_token_invalid, w)"
  using assms
  by (auto simp: refresh_def refresh_repo_get_by_hashed_token_def user_repo_get_by_id_def
      membership_repo_get_by_tenant_and_user_def holder_valid_def runs split: option.splits)

text \<open>
  The answer to a secret \<open>h\<close> of a family in state \<open>s\<close>, and what becomes of the family: the
  holder matters for the secret in use alone.
\<close>

definition refresh_answer :: "family_state \<Rightarrow> string \<Rightarrow> bool \<Rightarrow> string \<Rightarrow> pyexc + token_pair \<Rightarrow> bool" where
  "refresh_answer s h valid new res \<longleftrightarrow> (case res of
     Inr tp \<Rightarrow> accepts s h \<and> valid \<and> tp_refresh_token tp = new
   | Inl e \<Rightarrow> \<not> (accepts s h \<and> valid) \<and>
       e = (if s = Dead \<or> accepts s h then refresh_token_invalid else exc RefreshTokenReuseDetectedError []))"

definition refreshed_state :: "family_state \<Rightarrow> string \<Rightarrow> bool \<Rightarrow> string \<Rightarrow> family_state" where
  "refreshed_state s h valid new = (if accepts s h \<and> \<not> valid then s else present s h new)"

text \<open>Presenting the current token of a live family, by a valid holder.\<close>

lemma refresh_current:
  assumes w: "quiet w" "id_supply 3 w" "new_secret cy (draw w 0) (view w)" "w_db w = view w"
    and cy: "digest_64 cy" "context_fits cx" and ok: "families_ok (view w)"
    and r: "find_refresh_token (hash_secret cy raw) (view w) = Some r" "rt_family_id r = fam"
      "family_state fam (view w) = Some (Live used cur)"
    and h: "holder_valid r (w_clock w) (view w)"
    and here: "hash_secret cy raw = cur"
  shows "\<exists>tp w'. request (refresh st cy raw cx) w = (Inr tp, w') \<and>
    tp_refresh_token tp = issued_secret cy (draw w 0) \<and>
    family_state fam (w_db w') =
      Some (present (Live used cur) (hash_secret cy raw) (hash_secret cy (issued_secret cy (draw w 0)))) \<and>
    (\<forall>f. f \<noteq> fam \<longrightarrow> family_state f (w_db w') = family_state f (view w)) \<and> families_ok (w_db w')"
proof -
  obtain u m where h: "holder_ok r (w_clock w) (view w) u m" using h by (auto simp: holder_valid_iff)
  note k = families_ok_keys [OF ok]
  have rin: "r \<in> set (refresh_tokens (view w))" "rt_hashed_token r = hash_secret cy raw"
    using find_refresh_token_SomeD [OF r(1)] by simp_all
  note st = live_current [OF k r(3) rin(1) r(2)]
  let ?n = "replacement st cy r cx w"
  have "draw w 1 \<notin> access_ids (view w)" using supplyD [OF w(2), of 1] by simp
  then have n: "\<forall>x\<in>set (refresh_tokens (view w)). rt_id x \<noteq> rt_id ?n \<and> rt_hashed_token x \<noteq> rt_hashed_token ?n"
    "rt_family_id ?n = rt_family_id r" "rt_status ?n = TokenActive"
    "rt_hashed_token ?n = hash_secret cy (issued_secret cy (draw w 0))"
    using w(3) by (simp_all add: access_ids_iff new_secret_def replacement_def)
  have ne: "rt_id ?n \<noteq> rt_id r" using n(1) rin(1) by auto
  have act: "rt_status r = TokenActive" using st(1) here rin(2) by simp
  note run = refresh_rotates_run [OF w(1-3) cy r(1) act h, of st]
  from request_returns [of "refresh st cy raw cx", OF run] w(1)
  have "request (refresh st cy raw cx) w =
      (Inr (token_pair_of st (access_token st cy u (rt_tenant_id r) (me_role m) (w_clock w) (draw w 2))
        (issued_secret cy (draw w 0))), committed (after w 3 (rotate_db r ?n (w_clock w))))" by simp
  moreover have "family_state fam (rotate_db r ?n (w_clock w) (view w)) = Some (present (Live used cur) (hash_secret cy raw) (rt_hashed_token ?n))"
    using rotate_live [OF k r(3) rin(1) r(2) _ ne _ n(3)] n(2) rin(2) here r(2) by simp
  moreover have "families_ok (rotate_db r ?n (w_clock w) (view w))"
    using rotate_families_ok [OF ok _ rin(1) _ n(2,3,1)] r(2,3) rin(2) here by simp
  moreover have "family_state f (rotate_db r ?n (w_clock w) (view w)) = family_state f (view w)" if "f \<noteq> fam" for f
    using rotate_other [OF k rin(1) ne n(2)] that r(2) by simp
  ultimately show ?thesis using here n(4) by (intro exI conjI) (auto simp: token_pair_of_def)
qed

text \<open>Presenting a token of a live family that was rotated before.\<close>

lemma refresh_reused:
  assumes w: "quiet w" "id_supply 3 w" "new_secret cy (draw w 0) (view w)" "w_db w = view w"
    and cy: "digest_64 cy" "context_fits cx" and ok: "families_ok (view w)"
    and r: "find_refresh_token (hash_secret cy raw) (view w) = Some r" "rt_family_id r = fam"
      "family_state fam (view w) = Some (Live used cur)"
    and here: "hash_secret cy raw \<noteq> cur"
  shows "\<exists>w'. request (refresh st cy raw cx) w = (Inl (exc RefreshTokenReuseDetectedError []), w') \<and>
    family_state fam (w_db w') =
      Some (present (Live used cur) (hash_secret cy raw) (hash_secret cy (issued_secret cy (draw w 0)))) \<and>
    (\<forall>f. f \<noteq> fam \<longrightarrow> family_state f (w_db w') = family_state f (view w)) \<and> families_ok (w_db w')"
proof -
  note k = families_ok_keys [OF ok]
  have rin: "r \<in> set (refresh_tokens (view w))" "rt_hashed_token r = hash_secret cy raw"
    using find_refresh_token_SomeD [OF r(1)] by simp_all
  note st = live_current [OF k r(3) rin(1) r(2)]
  have rows: "family_rows fam (view w) \<noteq> []" using family_rows_subset [of r fam "view w"] r(2) rin(1) by auto
  let ?d = "revoke_db (\<lambda>x. rt_family_id x = fam) (w_clock w) (view w) (view w)"
  have rot: "rt_status r = TokenRotated" "hash_secret cy raw \<in> set used" using st here rin(2) by simp_all
  have "id_supply 1 w" using supplyD [OF w(2), of 0] by (simp add: id_supply_def)
  note run = refresh_reuse_run [OF w(1) this cy(2) r(1) rot(1), of st]
  from request_raised [of "refresh st cy raw cx", OF run]
  obtain w' where "request (refresh st cy raw cx) w = (Inl (exc RefreshTokenReuseDetectedError []), w')"
    "w_db w' = insert_audit (new_audit_event (reuse_event r cx) (draw w 0) (w_clock w)) ?d"
    by (auto simp: r(2))
  moreover have "family_state fam ?d = Some Dead" "families_ok ?d"
    "\<And>f. f \<noteq> fam \<Longrightarrow> family_state f ?d = family_state f (view w)"
    using revoked_family [OF k rows] revoke_families_ok [OF ok rows] revoke_other [OF k] by metis+
  ultimately show ?thesis using here rot(2) by (intro exI [of _ w'] conjI) auto
qed

text \<open>C8 (rotation protocol): on a database whose families are in states of the protocol, a
  refresh with a secret of one of them that nothing overlaps is one step of it.  The secret in
  use is accepted exactly when its holder is valid, and replaced by the new one; of an
  invalid holder (token expired, user or membership missing or inactive) it is refused and
  the family stays as it is.  A used secret kills the family for good, whoever its holder is and
  whether or not it has expired, and is answered by the reuse error; a dead family stays dead.
  All other families are untouched, and every family is again in a state of the protocol.\<close>

theorem refresh_refines_protocol:
  assumes w: "quiet w" "id_supply 3 w" "new_secret cy (draw w 0) (view w)" "w_db w = view w"
    and cy: "digest_64 cy" "context_fits cx" and ok: "families_ok (view w)"
    and r: "find_refresh_token (hash_secret cy raw) (view w) = Some r" "rt_family_id r = fam"
      "family_state fam (view w) = Some s"
  shows "\<exists>res w'. request (refresh st cy raw cx) w = (res, w') \<and>
    refresh_answer s (hash_secret cy raw) (holder_valid r (w_clock w) (view w)) (issued_secret cy (draw w 0)) res \<and>
    family_state fam (w_db w') = Some (refreshed_state s (hash_secret cy raw) (holder_valid r (w_clock w) (view w))
      (hash_secret cy (issued_secret cy (draw w 0)))) \<and>
    (\<forall>f. f \<noteq> fam \<longrightarrow> family_state f (w_db w') = family_state f (view w)) \<and> families_ok (w_db w')"
proof -
  have rin: "r \<in> set (refresh_tokens (view w))" "rt_hashed_token r = hash_secret cy raw"
    using find_refresh_token_SomeD [OF r(1)] by simp_all
  have refused: ?thesis if "refresh st cy raw cx w = (Inl refresh_token_invalid, w)"
    "s = Dead \<or> accepts s (hash_secret cy raw) \<and> \<not> holder_valid r (w_clock w) (view w)"
  proof -
    from request_raised [of "refresh st cy raw cx", OF that(1)]
    obtain w' where "request (refresh st cy raw cx) w = (Inl refresh_token_invalid, w')" "w_db w' = view w"
      by (auto simp: refresh_token_invalid_def w(4))
    then show ?thesis using that(2) r(3) ok by (auto simp: refresh_answer_def refreshed_state_def)
  qed
  show ?thesis
  proof (cases s)
    case (Live used cur)
    note r' = r(1,2) r(3) [unfolded Live]
    note st = live_current [OF families_ok_keys [OF ok] r'(3) rin(1) r(2)]
    consider "hash_secret cy raw \<noteq> cur" | "hash_secret cy raw = cur" "holder_valid r (w_clock w) (view w)"
      | "hash_secret cy raw = cur" "\<not> holder_valid r (w_clock w) (view w)" by blast
    then show ?thesis
    proof cases
      case 1
      from refresh_reused [OF w cy ok r' 1, of st] 1 show ?thesis unfolding Live
        by (auto simp: refresh_answer_def refreshed_state_def)
    next
      case 2
      from refresh_current [OF w cy ok r' 2(2,1), of st] 2 show ?thesis unfolding Live
        by (auto simp: refresh_answer_def refreshed_state_def)
    next
      case 3
      then have "rt_status r = TokenActive" using st(1) rin(2) by simp
      from refresh_barred_run [OF w(1) r(1) this 3(2)] show ?thesis by (rule refused) (simp add: Live 3)
    qed
  next
    case Dead
    have "rt_status r = TokenRevoked"
      using rows_state_DeadD r(3) Dead rin(1) r(2) family_rows_subset by (metis family_state_def)
    from refresh_dead_run [OF w(1) r(1) this] show ?thesis by (rule refused) (simp add: Dead)
  qed
qed

lemma demo_family: "families_ok access_db" "family_state 9 access_db = Some (Live [] (hash_secret demo_crypto ''raw''))"
  by (simp_all add: families_ok_def token_keys_ok_def family_rows_def family_state_def rows_state_def demo_token_def)

lemma demo_holder: "holder_ok demo_token 200 access_db demo_user demo_member"
  using access_finds(1,2) by (simp add: holder_ok_def demo_token_def demo_user_def demo_member_def del: access_finds)

theorem refresh_refines_protocol_witness:
  "\<exists>tp w'. request (refresh default_settings demo_crypto ''raw'' no_context) access_world = (Inr tp, w') \<and>
    family_state 9 (w_db w') =
      Some (Live [hash_secret demo_crypto ''raw''] (hash_secret demo_crypto (tp_refresh_token tp)))"
proof -
  have q: "quiet access_world" "id_supply 3 access_world" "new_secret demo_crypto (draw access_world 0) (view access_world)"
    "w_db access_world = view access_world" "view access_world = access_db" "w_clock access_world = 200"
    using access_supply [of 100 3 200] demo_new_secret by (simp_all add: access_world_def)
  have r: "find_refresh_token (hash_secret demo_crypto ''raw'') (view access_world) = Some demo_token"
    "rt_family_id demo_token = 9"
    "family_state 9 (view access_world) = Some (Live [] (hash_secret demo_crypto ''raw''))"
    "families_ok (view access_world)"
    using demo_family q by (simp_all add: demo_token_def [THEN arg_cong, of rt_family_id])
  have "holder_valid demo_token (w_clock access_world) (view access_world)"
    using demo_holder q(5,6) by (auto simp: holder_valid_iff)
  with refresh_refines_protocol [OF q(1-4) demo_crypto_sound(2) no_context_fits r(4,1-3), of default_settings]
  obtain res w' where run: "request (refresh default_settings demo_crypto ''raw'' no_context) access_world = (res, w')"
    and a: "refresh_answer (Live [] (hash_secret demo_crypto ''raw'')) (hash_secret demo_crypto ''raw'') True
      (issued_secret demo_crypto (draw access_world 0)) res"
    and f: "family_state 9 (w_db w') = Some (refreshed_state (Live [] (hash_secret demo_crypto ''raw''))
      (hash_secret demo_crypto ''raw'') True (hash_secret demo_crypto (issued_secret demo_crypto (draw access_world 0))))"
    by auto
  from a obtain tp where "res = Inr tp" "tp_refresh_token tp = issued_secret demo_crypto (draw access_world 0)"
    by (cases res) (auto simp: refresh_answer_def)
  with run f show ?thesis by (auto simp: refreshed_state_def)
qed

section \<open>Overlapping requests\<close>

text \<open>What a request commits, as a function of the database it starts from.\<close>

definition committed_by :: "'a prog \<Rightarrow> int \<Rightarrow> (nat \<Rightarrow> uuid) \<Rightarrow> db \<Rightarrow> db" where
  "committed_by m t ids d = w_db (snd (request m (start_world d t [] ids)))"

text \<open>An active token is the last of its family, and every token before it was rotated.\<close>

lemma active_is_last:
  assumes ok: "families_ok d" and r: "r \<in> set (refresh_tokens d)" "rt_status r = TokenActive"
  shows "\<exists>xs. family_rows (rt_family_id r) d = xs @ [r] \<and> (\<forall>x\<in>set xs. rt_status x = TokenRotated)"
proof -
  let ?fam = "rt_family_id r"
  have rf: "r \<in> set (family_rows ?fam d)" using r(1) by (simp add: family_rows_subset)
  then obtain s where s: "family_state ?fam d = Some s" using ok by (force simp: families_ok_def)
  then obtain used cur where "family_state ?fam d = Some (Live used cur)"
    using rows_state_DeadD [of "family_rows ?fam d"] r(2) rf by (cases s) (auto simp: family_state_def)
  then obtain xs l where f: "family_rows ?fam d = xs @ [l]" "\<forall>x\<in>set xs. rt_status x = TokenRotated"
    using rows_state_LiveD by (force simp: family_state_def)
  then have "l = r" using rf r(2) by auto
  then show ?thesis using f by blast
qed

text \<open>C33 (overlapping refreshes): the token is read without a lock and rotated by primary key.
  When a second refresh of the same token commits between the read and the write of the
  first, both succeed, the family has two \<open>ACTIVE\<close> tokens and is in no state of the protocol;
  the replay that reuse detection exists for goes unnoticed.\<close>

theorem overlapping_refreshes_fork:
  assumes ok: "families_ok d" and cy: "digest_64 cy" "context_fits cx"
    and r: "find_refresh_token (hash_secret cy raw) d = Some r" "rt_status r = TokenActive"
    and h: "holder_ok r t d u m"
    and b: "id_supply 3 (start_world d t [] idsB)" "new_secret cy (idsB 0) d"
    and d': "d' = committed_by (refresh st cy raw cx) t idsB d"
    and a: "id_supply 3 (start_world d' t [] idsA)" "new_secret cy (idsA 0) d'"
  shows "\<exists>tpA tpB wA wB. request (refresh st cy raw cx) (start_world d t [] idsB) = (Inr tpB, wB) \<and>
    request (refresh st cy raw cx)
      (overlapped d t (committed_by (refresh st cy raw cx) t idsB) idsA) = (Inr tpA, wA) \<and>
    length (filter (\<lambda>x. rt_status x = TokenActive) (family_rows (rt_family_id r) (w_db wA))) = 2 \<and>
    family_state (rt_family_id r) (w_db wA) = None"
proof -
  note k = families_ok_keys [OF ok]
  let ?fam = "rt_family_id r"
  let ?w = "start_world d t [] idsB"
  let ?b = "replacement st cy r cx ?w"
  let ?a = "session_row st cy (rt_tenant_id r) (rt_user_id r) ?fam cx t (idsA 0) (idsA 1)"
  have rin: "r \<in> set (refresh_tokens d)" using find_refresh_token_SomeD [OF r(1)] by simp
  have "quiet ?w" "new_secret cy (draw ?w 0) (view ?w)" using b(2) by simp_all
  note run = refresh_rotates_run [OF this(1) b(1) this(2) cy, of raw r u m st]
  have "refresh st cy raw cx ?w = (Inr (token_pair_of st (access_token st cy u (rt_tenant_id r) (me_role m) t (idsB 2))
      (issued_secret cy (idsB 0))), after ?w 3 (rotate_db r ?b t))"
    using run r h by (simp add: numeral_2_eq_2)
  from request_returns [of "refresh st cy raw cx", OF this]
  obtain tpB wB where B: "request (refresh st cy raw cx) ?w = (Inr tpB, wB)" "w_db wB = rotate_db r ?b t d"
    by (simp add: committed_def view_def [symmetric])
  have d'_eq: "d' = rotate_db r ?b t d" using B by (simp add: d' committed_by_def)
  have h': "holder_ok r t d' u m"
    using h by (simp add: holder_ok_def d'_eq rotate_db_def)
  have "idsB 1 \<notin> access_ids d" using supplyD [OF b(1), of 1] by simp
  then have nb: "rt_family_id ?b = ?fam" "rt_status ?b = TokenActive"
    "\<forall>x\<in>set (refresh_tokens d). rt_id x \<noteq> rt_id ?b \<and> rt_hashed_token x \<noteq> rt_hashed_token ?b"
    using b(2) by (simp_all add: access_ids_iff new_secret_def replacement_def)
  have ne: "rt_id ?b \<noteq> rt_id r" using nb(3) rin by auto
  have tabs: "refresh_tokens d' = map (\<lambda>x. if x = r then rotated_row (rt_id ?b) t x else x) (refresh_tokens d) @ [?b]"
    unfolding d'_eq by (rule rotate_db_tables [OF k rin ne])
  have "rotated_row (rt_id ?b) t r \<in> set (refresh_tokens d')" using rin by (force simp: tabs)
  then have still: "\<exists>x\<in>set (refresh_tokens d'). rt_id x = rt_id r" by (rule bexI [rotated]) simp
  from refresh_overlapped_run [of d' "committed_by (refresh st cy raw cx) t idsB" d, OF d' a cy r h' still, of st]
  obtain tpA wA where A: "request (refresh st cy raw cx)
      (overlapped d t (committed_by (refresh st cy raw cx) t idsB) idsA) = (Inr tpA, wA)"
    "w_db wA = rotate_db r ?a t d'" by blast
  have "idsA 1 \<notin> access_ids d'" using supplyD [OF a(1), of 1] by simp
  then have na: "rt_id ?a \<noteq> rt_id r" using still by (auto simp: access_ids_iff)
  obtain xs where f: "family_rows ?fam d = xs @ [r]" "\<forall>x\<in>set xs. rt_status x = TokenRotated"
    using active_is_last [OF ok rin r(2)] by blast
  from double_rotation_rows [OF k f(1) nb(1) nb(3) _ na, of t]
  obtain old' where "rt_status old' = TokenRotated" "family_rows ?fam (w_db wA) = xs @ [old', ?b, ?a]"
    by (auto simp: A(2) d'_eq)
  moreover have "filter (\<lambda>x. rt_status x = TokenActive) xs = []" using f(2) by (auto simp: filter_empty_conv)
  ultimately have "length (filter (\<lambda>x. rt_status x = TokenActive) (family_rows ?fam (w_db wA))) = 2 \<and>
      family_state ?fam (w_db wA) = None"
    using nb(2) by (simp add: family_state_def rows_state_def butlast_append)
  then show ?thesis using A(1) B(1) by blast
qed

lemma demo_first_refresh:
  "committed_by (refresh default_settings demo_crypto ''raw'' no_context) 200 (access_ids_from 100) access_db =
    rotate_db demo_token (session_row default_settings demo_crypto 2 7 9 no_context 200
      (access_ids_from 100 0) (access_ids_from 100 1)) 200 access_db"
proof -
  let ?w = "start_world access_db 200 [] (access_ids_from 100)"
  have q: "quiet ?w" "id_supply 3 ?w" "new_secret demo_crypto (draw ?w 0) (view ?w)"
    using access_supply [of 100 3 200] demo_new_secret by simp_all
  have r: "find_refresh_token (hash_secret demo_crypto ''raw'') (view ?w) = Some demo_token"
    "rt_status demo_token = TokenActive" "holder_ok demo_token (w_clock ?w) (view ?w) demo_user demo_member"
    using demo_holder by (simp_all add: demo_token_def [THEN arg_cong, of rt_status])
  from refresh_rotates_run [OF q demo_crypto_sound(2) no_context_fits r, of default_settings]
  obtain tp where "refresh default_settings demo_crypto ''raw'' no_context ?w =
      (Inr tp, after ?w 3 (rotate_db demo_token (replacement default_settings demo_crypto demo_token no_context ?w) 200))"
    by auto
  from request_returns [of "refresh default_settings demo_crypto ''raw'' no_context", OF this]
  have "committed_by (refresh default_settings demo_crypto ''raw'' no_context) 200 (access_ids_from 100) access_db =
      rotate_db demo_token (replacement default_settings demo_crypto demo_token no_context ?w) 200 access_db"
    by (simp add: committed_by_def)
  then show ?thesis by (simp add: replacement_def demo_token_def)
qed

lemma rotate_access_ids:
  assumes "rt_id new = i"
  shows "access_ids (rotate_db old new t d) \<subseteq> insert i (access_ids d)"
proof -
  have "rt_id ` set (refresh_tokens (rotate_db old new t d)) \<subseteq> insert i (rt_id ` set (refresh_tokens d))"
  proof -
    have "rt_id ` set (update_where P (rotated_row j t) xs) = rt_id ` set xs" for P j xs
      by (metis rotated.keys_updated set_map)
    then show ?thesis using assms by (auto simp: rotate_db_def)
  qed
  moreover have "users (rotate_db old new t d) = users d" "memberships (rotate_db old new t d) = memberships d"
    "verification_tokens (rotate_db old new t d) = verification_tokens d"
    "api_keys (rotate_db old new t d) = api_keys d" "audit_events (rotate_db old new t d) = audit_events d"
    by (simp_all add: rotate_db_def)
  ultimately show ?thesis unfolding access_ids_def by auto
qed

lemma rotate_new_secret:
  "new_secret cy x (insert_refresh_token new d) \<Longrightarrow> new_secret cy x (rotate_db old new t d)"
  by (auto simp: new_secret_def rotate_db_def update_where_def rotated_row_def)

theorem overlapping_refreshes_fork_witness:
  "\<exists>tpA wA. request (refresh default_settings demo_crypto ''raw'' no_context)
      (overlapped access_db 200
        (committed_by (refresh default_settings demo_crypto ''raw'' no_context) 200 (access_ids_from 100))
        (access_ids_from 200)) = (Inr tpA, wA) \<and>
    length (filter (\<lambda>x. rt_status x = TokenActive) (family_rows 9 (w_db wA))) = 2"
proof -
  define d' where "d' = committed_by (refresh default_settings demo_crypto ''raw'' no_context) 200 (access_ids_from 100) access_db"
  let ?n = "session_row default_settings demo_crypto 2 7 9 no_context 200 (access_ids_from 100 0) (access_ids_from 100 1)"
  have d': "d' = rotate_db demo_token ?n 200 access_db" by (simp add: d'_def demo_first_refresh)
  have "access_ids d' \<subseteq> {7, 8, 10, access_ids_from 100 1}"
    using rotate_access_ids [of ?n "access_ids_from 100 1" demo_token 200 access_db] by (auto simp: d' access_db_ids)
  moreover have "access_ids_from 200 n \<notin> {7, 8, 10, access_ids_from 100 1}" if "n < 3" for n
    using access_ids_fresh [of 200 n] small_words [of "200 + n" "101"] that by (simp add: access_ids_from_def)
  ultimately have a: "id_supply 3 (start_world d' 200 [] (access_ids_from 200))"
    using access_ids_from_eq [of 200] by (auto simp: id_supply_def)
  have "access_ids_from 100 0 \<noteq> access_ids_from 200 0" by (simp add: access_ids_from_def)
  then have "uuid_str (access_ids_from 100 0) \<noteq> uuid_str (access_ids_from 200 0)"
    by (metis uuid_parse_str option.inject)
  then have "new_secret demo_crypto (access_ids_from 200 0) (insert_refresh_token ?n access_db)"
    using demo_new_secret [of "access_ids_from 200 0"] by (auto simp: new_secret_def demo_secret_hash)
  then have n: "new_secret demo_crypto (access_ids_from 200 0) d'" by (simp add: d' rotate_new_secret)
  have r: "find_refresh_token (hash_secret demo_crypto ''raw'') access_db = Some demo_token"
    "rt_status demo_token = TokenActive" "rt_family_id demo_token = 9"
    by (simp_all add: demo_token_def [THEN arg_cong, of rt_status] demo_token_def [THEN arg_cong, of rt_family_id])
  have b: "id_supply 3 (start_world access_db 200 [] (access_ids_from 100))" "new_secret demo_crypto (access_ids_from 100 0) access_db"
    using access_supply [of 100 3 200] demo_new_secret by simp_all
  show ?thesis
    using overlapping_refreshes_fork [OF demo_family(1) demo_crypto_sound(2) no_context_fits r(1,2) demo_holder b d'_def a n]
    unfolding r(3) by blast
qed

lemma logout_run:
  assumes w: "quiet w" "id_supply 1 w" and cx: "context_fits cx"
    and r: "find_refresh_token (hash_secret cy raw) (view w) = Some r" "rt_user_id r = us_id u"
  shows "logout cy u tn raw cx w = (Inr (), after w 1 (\<lambda>d.
    insert_audit (new_audit_event (user_event (Some tn) u ''auth.logout'' cx) (draw w 0) (w_clock w))
      (revoke_db (\<lambda>x. rt_family_id x = rt_family_id r) (w_clock w) (view w) d)))"
proof -
  have "draw w 0 \<notin> access_ids (view w)" using supplyD [OF w(2), of 0] by simp
  moreover have "audit_fits (user_event (Some tn) u ''auth.logout'' cx)" by (rule user_event_fits) (simp_all add: cx)
  moreover have "audit_events (revoke_db P t v d) = audit_events d" for P t v d by (simp add: revoke_db_def)
  ultimately show ?thesis
    using w(1) r
    by (simp add: logout_def refresh_repo_get_by_hashed_token_def refresh_repo_revoke_family_def runs access_ids_iff)
qed

text \<open>Logout during a refresh: a logout that nothing overlaps leaves its family dead.  One
  that commits while a refresh of the same token is between its read and its write does
  not: the refresh succeeds, overwrites the revocation of the token it holds, and its new
  token is \<open>ACTIVE\<close>, so that the session outlives the logout.\<close>

theorem logout_during_refresh:
  assumes ok: "families_ok d" and cy: "digest_64 cy" "context_fits cx"
    and r: "find_refresh_token (hash_secret cy raw) d = Some r" "rt_status r = TokenActive" "rt_user_id r = us_id u"
    and h: "holder_ok r t d u m"
    and b: "id_supply 1 (start_world d t [] idsB)"
    and d': "d' = committed_by (logout cy u tn raw cx) t idsB d"
    and a: "id_supply 3 (start_world d' t [] idsA)" "new_secret cy (idsA 0) d'"
  shows "family_state (rt_family_id r) d' = Some Dead \<and>
    (\<exists>tp wA. request (refresh st cy raw cx)
        (overlapped d t (committed_by (logout cy u tn raw cx) t idsB) idsA) = (Inr tp, wA) \<and>
      (\<exists>x\<in>set (family_rows (rt_family_id r) (w_db wA)).
        rt_status x = TokenActive \<and> rt_hashed_token x = hash_secret cy (issued_secret cy (idsA 0))))"
proof -
  note k = families_ok_keys [OF ok]
  let ?fam = "rt_family_id r"
  let ?w = "start_world d t [] idsB"
  let ?d = "revoke_db (\<lambda>x. rt_family_id x = ?fam) t d d"
  let ?a = "session_row st cy (rt_tenant_id r) (rt_user_id r) ?fam cx t (idsA 0) (idsA 1)"
  have rin: "r \<in> set (refresh_tokens d)" using find_refresh_token_SomeD [OF r(1)] by simp
  have "quiet ?w" "find_refresh_token (hash_secret cy raw) (view ?w) = Some r" using r(1) by simp_all
  from logout_run [OF this(1) b cy(2) this(2) r(3), of tn]
  obtain e where "logout cy u tn raw cx ?w = (Inr (), after ?w 1 (\<lambda>d'. insert_audit e (revoke_db (\<lambda>x. rt_family_id x = ?fam) t d d')))"
    by auto
  from request_returns [of "logout cy u tn raw cx", OF this]
  have d'_eq: "d' = insert_audit e ?d" by (simp add: d' committed_by_def)
  have rows: "family_rows ?fam d \<noteq> []" using family_rows_subset [of r ?fam d] rin by auto
  have dead: "family_state ?fam d' = Some Dead" using revoked_family [OF k rows] by (simp add: d'_eq)
  have h': "holder_ok r t d' u m" using h by (simp add: holder_ok_def d'_eq revoke_db_def)
  have "rt_id r \<in> rt_id ` set (refresh_tokens ?d)"
  proof -
    have "rt_id ` set (update_where P (revoked_row t) xs) = rt_id ` set xs" for P xs
      by (metis revoked.keys_updated set_map)
    then show ?thesis using imageI [OF rin, of rt_id] by (simp add: revoke_db_def)
  qed
  then obtain x where "x \<in> set (refresh_tokens ?d)" "rt_id r = rt_id x" by (rule imageE)
  then have "\<exists>x\<in>set (refresh_tokens ?d). rt_id x = rt_id r" by (intro bexI [of _ x]) simp_all
  then have still: "\<exists>x\<in>set (refresh_tokens d'). rt_id x = rt_id r" by (simp add: d'_eq)
  from refresh_overlapped_run [of d' "committed_by (logout cy u tn raw cx) t idsB" d, OF d' a cy r(1,2) h' still, of st]
  obtain tp wA where A: "request (refresh st cy raw cx)
      (overlapped d t (committed_by (logout cy u tn raw cx) t idsB) idsA) = (Inr tp, wA)"
    "w_db wA = rotate_db r ?a t d'" by blast
  have "idsA 1 \<notin> access_ids d'" using supplyD [OF a(1), of 1] by simp
  then have "rt_id ?a \<noteq> rt_id r" using still by (auto simp: access_ids_iff)
  then have "?a \<in> set (family_rows ?fam (w_db wA))"
    by (simp add: A(2) family_rows_subset rotate_db_def)
  then have "\<exists>x\<in>set (family_rows ?fam (w_db wA)). rt_status x = TokenActive \<and>
      rt_hashed_token x = hash_secret cy (issued_secret cy (idsA 0))"
    by (intro bexI [of _ ?a]) simp_all
  then show ?thesis using dead A(1) by blast
qed

lemma demo_logout:
  "\<exists>e. au_id e = access_ids_from 100 0 \<and>
    committed_by (logout demo_crypto demo_user 2 ''raw'' no_context) 200 (access_ids_from 100) access_db =
    insert_audit e (revoke_db (\<lambda>x. rt_family_id x = 9) 200 access_db access_db)"
proof -
  let ?w = "start_world access_db 200 [] (access_ids_from 100)"
  have q: "quiet ?w" "id_supply 1 ?w" using access_supply [of 100 1 200] by simp_all
  have r: "find_refresh_token (hash_secret demo_crypto ''raw'') (view ?w) = Some demo_token"
    "rt_user_id demo_token = us_id demo_user" "rt_family_id demo_token = 9"
    using access_finds(5) by (simp_all add: demo_token_def demo_user_def del: access_finds)
  from logout_run [OF q no_context_fits r(1,2), of 2] r(3)
  have "logout demo_crypto demo_user 2 ''raw'' no_context ?w = (Inr (), after ?w 1 (\<lambda>d.
      insert_audit (new_audit_event (user_event (Some 2) demo_user ''auth.logout'' no_context) (access_ids_from 100 0) 200)
        (revoke_db (\<lambda>x. rt_family_id x = 9) 200 access_db d)))"
    by simp
  from request_returns [of "logout demo_crypto demo_user 2 ''raw'' no_context", OF this]
  show ?thesis
    by (intro exI [of _ "new_audit_event (user_event (Some 2) demo_user ''auth.logout'' no_context) (access_ids_from 100 0) 200"])
      (simp add: committed_by_def new_audit_event_def)
qed

theorem logout_during_refresh_witness:
  "\<exists>tp wA. request (refresh default_settings demo_crypto ''raw'' no_context)
      (overlapped access_db 200
        (committed_by (logout demo_crypto demo_user 2 ''raw'' no_context) 200 (access_ids_from 100))
        (access_ids_from 200)) = (Inr tp, wA) \<and>
    (\<exists>x\<in>set (family_rows 9 (w_db wA)). rt_status x = TokenActive)"
proof -
  define d' where "d' = committed_by (logout demo_crypto demo_user 2 ''raw'' no_context) 200 (access_ids_from 100) access_db"
  obtain e where d': "d' = insert_audit e (revoke_db (\<lambda>x. rt_family_id x = 9) 200 access_db access_db)"
    and e: "au_id e = access_ids_from 100 0"
    using demo_logout by (auto simp: d'_def)
  have tabs: "users d' = [demo_user]" "memberships d' = [demo_member]" "verification_tokens d' = []"
    "api_keys d' = []" "audit_events d' = [e]"
    by (simp_all add: d' revoke_db_def)
  have "token_keys_ok access_db" using demo_family(1) by (simp add: families_ok_def)
  from revoke_db_tables [OF this, of "\<lambda>x. rt_family_id x = 9" 200]
  have rt: "map rt_id (refresh_tokens d') = [10]" "map rt_hashed_token (refresh_tokens d') = [hash_secret demo_crypto ''raw'']"
    by (simp_all add: d') (simp_all add: demo_token_def)
  then have rtset: "rt_id ` set (refresh_tokens d') = {10}" by (metis list.set(1) list.simps(15) set_map)
  have "access_ids d' = {7, 8, 10, access_ids_from 100 0}"
    by (auto simp: access_ids_def tabs rtset e demo_user_def demo_member_def)
  moreover have "access_ids_from 200 n \<notin> {7, 8, 10, access_ids_from 100 0}" if "n < 3" for n
    using access_ids_fresh [of 200 n] small_words [of "200 + n" "100"] that by (simp add: access_ids_from_def)
  ultimately have a: "id_supply 3 (start_world d' 200 [] (access_ids_from 200))"
    using access_ids_from_eq [of 200] by (auto simp: id_supply_def)
  have n: "new_secret demo_crypto (access_ids_from 200 0) d'"
  proof -
    have "new_secret demo_crypto (access_ids_from 200 0) access_db" by (rule demo_new_secret)
    then have "hash_secret demo_crypto ''raw'' \<noteq> hash_secret demo_crypto (issued_secret demo_crypto (access_ids_from 200 0))"
      by (simp add: new_secret_def demo_token_def)
    moreover have "rt_hashed_token ` set (refresh_tokens d') = {hash_secret demo_crypto ''raw''}"
      using rt(2) by (metis list.set(1) list.simps(15) set_map)
    ultimately show ?thesis unfolding new_secret_def by (metis image_eqI singletonD)
  qed
  have r: "find_refresh_token (hash_secret demo_crypto ''raw'') access_db = Some demo_token"
    "rt_status demo_token = TokenActive" "rt_user_id demo_token = us_id demo_user" "rt_family_id demo_token = 9"
    using access_finds(5) by (simp_all add: demo_token_def demo_user_def del: access_finds)
  have b: "id_supply 1 (start_world access_db 200 [] (access_ids_from 100))" using access_supply [of 100 1 200] by simp
  show ?thesis
    using logout_during_refresh [OF demo_family(1) demo_crypto_sound(2) no_context_fits r(1-3) demo_holder b d'_def a n]
    unfolding r(4) by blast
qed

end
