(* ===== verification/Session_Properties.thy ===== *)
theory Session_Properties
  imports Access_Scenarios
begin

text \<open>
  Ending sessions: what a password reset revokes, and that its link works once; and what a
  bearer token has to satisfy on every request, so that each way of ending a session is
  seen at the next one.
\<close>

section \<open>Runs\<close>

lemma flush_user_run [runs]:
  assumes "quiet w" "f u \<noteq> u" "user_checks (f u)" "find_user (us_id u) (view w) = Some u'"
  shows "flush_user u f w =
    (Inr ((f u)\<lparr>us_updated_at := w_clock w\<rparr>), after w 0 (update_user (us_id u) f (w_clock w)))"
proof -
  have "\<exists>r\<in>set (users (view w)). us_id r = us_id u" using find_user_SomeD [OF assms(4)] by blast
  then show ?thesis using assms(1-3) by (simp add: flush_user_def runs)
qed

lemma update_user_tables [simp]:
  "users (update_user i f t d) = update_where (\<lambda>u. us_id u = i) (\<lambda>u. (f u)\<lparr>us_updated_at := t\<rparr>) (users d)"
  "memberships (update_user i f t d) = memberships d" "tenants (update_user i f t d) = tenants d"
  "refresh_tokens (update_user i f t d) = refresh_tokens d"
  "verification_tokens (update_user i f t d) = verification_tokens d"
  "audit_events (update_user i f t d) = audit_events d"
  by (simp_all add: update_user_def)

lemma update_verification_tokens_tables [simp]:
  "users (update_verification_tokens P f d) = users d"
  "refresh_tokens (update_verification_tokens P f d) = refresh_tokens d"
  "verification_tokens (update_verification_tokens P f d) = update_where P f (verification_tokens d)"
  "audit_events (update_verification_tokens P f d) = audit_events d"
  by (simp_all add: update_verification_tokens_def)

lemma revoke_db_tables_other [simp]:
  "users (revoke_db P t v d) = users d" "verification_tokens (revoke_db P t v d) = verification_tokens d"
  "audit_events (revoke_db P t v d) = audit_events d"
  by (simp_all add: revoke_db_def)

lemma revoke_db_seen: "refresh_tokens v = refresh_tokens v' \<Longrightarrow> revoke_db P t v = revoke_db P t v'"
  by (simp add: revoke_db_def live_tokens_def fun_eq_iff)

lemma find_valid_token_SomeD:
  "find_valid_token h p t d = Some r \<Longrightarrow>
    r \<in> set (verification_tokens d) \<and> vt_hashed_token r = h \<and> valid_token p t r"
  unfolding find_valid_token_def by (drule select_one_SomeD) simp

text \<open>A new password the policy accepts and whose hash and version the row can hold.\<close>

definition acceptable :: "settings \<Rightarrow> crypto \<Rightarrow> user \<Rightarrow> string \<Rightarrow> string \<Rightarrow> bool" where
  "acceptable st cy u pw h \<longleftrightarrow> validate_password_policy st pw = Inr () \<and> \<not> cy_is_breached cy pw \<and>
     user_checks (set_password u h True u)"

lemma policy_run: "acceptable st cy u pw h \<Longrightarrow> check_password_policy st cy pw w = (Inr (), w)"
  by (simp add: check_password_policy_def acceptable_def runs liftE_simps)

lemma set_password_changes: "set_password u h True u \<noteq> u"
proof
  assume "set_password u h True u = u"
  from arg_cong [OF this, of us_token_version] show False by (simp add: set_password_def)
qed

definition reset_db :: "user \<Rightarrow> verification_token \<Rightarrow> string \<Rightarrow> int \<Rightarrow> db \<Rightarrow> db \<Rightarrow> db" where
  "reset_db u r h t seen d = update_verification_tokens (\<lambda>x. vt_id x = vt_id r) (consumed_row t)
     (revoke_db (\<lambda>x. rt_user_id x = us_id u) t seen (update_user (us_id u) (set_password u h True) t d))"

lemma confirm_reset_run:
  assumes w: "quiet w" "id_supply 2 w"
    and r: "find_valid_token (hash_secret cy raw) PasswordReset (w_clock w) (view w) = Some r"
    and u: "find_user (vt_user_id r) (view w) = Some u" "acceptable st cy u pw (cy_hash_password cy pw (draw w 0))"
  shows "\<exists>a. confirm_password_reset st cy raw pw w =
    (Inr (), after w 2 (\<lambda>d. insert_audit a (reset_db u r (cy_hash_password cy pw (draw w 0)) (w_clock w) (view w) d)))"
proof -
  let ?h = "cy_hash_password cy pw (draw w 0)"
  have i: "us_id u = vt_user_id r" using find_user_SomeD [OF u(1)] by simp
  have "draw w 1 \<notin> access_ids (view w)" using supplyD [OF w(2), of 1] by simp
  then have fresh: "\<forall>a\<in>set (audit_events (view w)). au_id a \<noteq> draw w 1" by (simp add: access_ids_iff)
  have chk: "user_checks (set_password u ?h True u)" using u(2) by (simp add: acceptable_def)
  have rin: "\<exists>x\<in>set (verification_tokens (view w)). vt_id x = vt_id r"
    using find_valid_token_SomeD [OF r] by blast
  have sid: "us_id (set_password u h True v) = us_id v" for h v by (simp add: set_password_def)
  have a: "audit_fits (user_event None x ''auth.password_reset'' no_context)" for x
    by (rule user_event_fits) simp_all
  have seen: "revoke_db P t (update_user j f t (view w)) = revoke_db P t (view w)" for P t j f
    by (rule revoke_db_seen) simp
  show ?thesis
    using w(1) r u(1) i fresh rin chk
    by (simp add: confirm_password_reset_def verification_repo_get_valid_def user_repo_get_by_id_def
        user_repo_set_password_def refresh_repo_revoke_all_for_user_def verification_repo_consume_def runs
        policy_run [OF u(2)] set_password_changes sid seen a reset_db_def [abs_def] numeral_2_eq_2)
      blast
qed

lemma reset_db_tables:
  "refresh_tokens (reset_db u r h t d d) =
    update_where (\<lambda>x. rt_id x \<in> rt_id ` set (live_tokens (\<lambda>x. rt_user_id x = us_id u) d)) (revoked_row t) (refresh_tokens d)"
  "verification_tokens (reset_db u r h t d d) =
    update_where (\<lambda>x. vt_id x = vt_id r) (consumed_row t) (verification_tokens d)"
  "users (reset_db u r h t d d) = update_where (\<lambda>x. us_id x = us_id u)
    (\<lambda>x. (set_password u h True x)\<lparr>us_updated_at := t\<rparr>) (users d)"
  "audit_events (reset_db u r h t d d) = audit_events d"
  by (simp_all add: reset_db_def revoke_db_def)

lemma reset_revokes:
  "x \<in> set (refresh_tokens (reset_db u r h t d d)) \<Longrightarrow> rt_user_id x = us_id u \<Longrightarrow> rt_status x = TokenRevoked"
  by (auto simp: reset_db_tables update_where_def live_tokens_def select_all_def revoked_row_def split: if_splits)

interpretation new_password: keyed_update us_id "\<lambda>x. (set_password u h True x)\<lparr>us_updated_at := t\<rparr>"
  by unfold_locales (simp add: set_password_def)

lemma reset_user:
  assumes "find_user (us_id u) d = Some u"
  shows "find_user (us_id u) (reset_db u r h t d d) = Some ((set_password u h True u)\<lparr>us_updated_at := t\<rparr>)"
  using assms new_password.select_updated [where k = "us_id u" and P = "\<lambda>_. True"]
  by (simp add: find_user_def reset_db_tables)

lemma reset_consumes:
  assumes "distinct (map vt_hashed_token (verification_tokens d))"
    and "find_valid_token k p t d = Some r"
  shows "find_valid_token k p' t' (insert_audit a (reset_db u r h t d d)) = None"
  using assms find_valid_token_SomeD [OF assms(2)]
  by (auto simp: find_valid_token_def select_one_None_iff reset_db_tables update_where_def consumed_row_def
      valid_token_def dest: inj_onD simp: distinct_map split: if_splits)

lemma refuse_token_run:
  assumes w: "quiet w" "id_supply 1 w" and act: "length action \<le> 150"
  shows "\<exists>a. refuse_token action w =
    (Inl (exc InvalidVerificationTokenError []), committed (after w 1 (insert_audit a)))"
proof -
  have "draw w 0 \<notin> access_ids (view w)" using supplyD [OF w(2), of 0] by simp
  moreover have "audit_fits (bad_token_event action)"
    unfolding bad_token_event_def by (rule auth_event_fits) (simp_all add: act)
  ultimately show ?thesis using w(1) by (simp add: refuse_token_def runs access_ids_iff) blast
qed

section \<open>Password reset\<close>

lemma session_user_version:
  "session_user p d u \<Longrightarrow> find_user (us_id u) d' = Some v \<Longrightarrow> us_token_version v \<noteq> us_token_version u \<Longrightarrow>
    \<not> session_user p d' u'"
  using find_user_SomeD by (fastforce simp: session_user_def)

text \<open>C14 (a password reset ends every session, once): confirming a valid link commits the new
  hash and the next token version, leaves no refresh token of the user usable, and makes
  every access token of the user that was accepted before refused.  The link itself is
  spent: presented again, at any later time and whatever the password, it is refused.\<close>

theorem password_reset_single_use:
  assumes w: "quiet w" "id_supply 2 w" "view w = d"
    and keys: "distinct (map vt_hashed_token (verification_tokens d))"
    and r: "find_valid_token (hash_secret cy raw) PasswordReset (w_clock w) d = Some r"
    and u: "find_user (vt_user_id r) d = Some u" "acceptable st cy u pw (cy_hash_password cy pw (draw w 0))"
  shows "\<exists>w'. request (confirm_password_reset st cy raw pw) w = (Inr (), w') \<and>
    (\<exists>v. find_user (us_id u) (w_db w') = Some v \<and>
      us_hashed_password v = Some (cy_hash_password cy pw (draw w 0)) \<and>
      us_token_version v = us_token_version u + 1) \<and>
    (\<forall>x\<in>set (refresh_tokens (w_db w')). rt_user_id x = us_id u \<longrightarrow> rt_status x = TokenRevoked) \<and>
    (\<forall>p. session_user p d u \<longrightarrow> (\<forall>u'. \<not> session_user p (w_db w') u')) \<and>
    (\<forall>w2 pw2. quiet w2 \<and> id_supply 1 w2 \<and> view w2 = w_db w' \<longrightarrow>
      fst (confirm_password_reset st cy raw pw2 w2) = Inl (exc InvalidVerificationTokenError []))"
proof -
  let ?h = "cy_hash_password cy pw (draw w 0)"
  obtain a where run: "confirm_password_reset st cy raw pw w =
      (Inr (), after w 2 (\<lambda>x. insert_audit a (reset_db u r ?h (w_clock w) d x)))"
    using confirm_reset_run [OF w(1,2) r [folded w(3)] u(1) [folded w(3)] u(2)] w(3) by auto
  let ?d = "insert_audit a (reset_db u r ?h (w_clock w) d d)"
  have "us_id u = vt_user_id r" using find_user_SomeD [OF u(1)] by simp
  then have "find_user (us_id u) d = Some u" using u(1) by simp
  from reset_user [OF this]
  obtain v where v: "find_user (us_id u) ?d = Some v" "us_hashed_password v = Some ?h"
    "us_token_version v = us_token_version u + 1"
    by (simp add: set_password_def)
  have old: "\<not> session_user p ?d u'" if "session_user p d u" for p u'
    by (rule session_user_version [OF that v(1)]) (simp add: v(3))
  have again: "fst (confirm_password_reset st cy raw pw2 w2) = Inl (exc InvalidVerificationTokenError [])"
    if "quiet w2" "id_supply 1 w2" "view w2 = ?d" for w2 pw2
    using refuse_token_run [OF that(1,2), of "''auth.password_reset''"] that
      reset_consumes [OF keys r, of PasswordReset "w_clock w2" a u ?h]
    by (auto simp: confirm_password_reset_def verification_repo_get_valid_def runs)
  from request_returns [of "confirm_password_reset st cy raw pw", OF run]
  obtain w' where "request (confirm_password_reset st cy raw pw) w = (Inr (), w')" "w_db w' = ?d"
    using w by simp
  then show ?thesis using v old again reset_revokes by auto
qed

definition reset_token :: verification_token where
  "reset_token = \<lparr>vt_id = 11, vt_user_id = 7, vt_purpose = PasswordReset,
     vt_hashed_token = hash_secret demo_crypto ''link'', vt_expires_at = 1000, vt_consumed_at = None,
     vt_created_at = 1, vt_updated_at = 1\<rparr>"

definition reset_world :: world where
  "reset_world = start_world (access_db\<lparr>verification_tokens := [reset_token]\<rparr>) 200 [] (access_ids_from 100)"

lemma reset_world_supply: "id_supply 2 reset_world"
proof -
  have "access_ids (access_db\<lparr>verification_tokens := [reset_token]\<rparr>) = insert 11 (access_ids access_db)"
    by (auto simp: access_ids_def reset_token_def)
  moreover have "access_ids_from 100 n \<noteq> 11" if "n < 2" for n
    using small_words [of "100 + n" 11] that by (simp add: access_ids_from_def)
  ultimately show ?thesis
    using access_supply [of 100 2 200] by (auto simp: id_supply_def reset_world_def)
qed

theorem password_reset_single_use_witness:
  "\<exists>w'. request (confirm_password_reset default_settings demo_crypto ''link'' ''Longer-Passw0rd!'') reset_world = (Inr (), w') \<and>
    (\<exists>v. find_user 7 (w_db w') = Some v \<and> us_hashed_password v = Some ''hLonger-Passw0rd!'') \<and>
    (\<forall>x\<in>set (refresh_tokens (w_db w')). rt_user_id x = 7 \<longrightarrow> rt_status x = TokenRevoked)"
proof -
  let ?d = "access_db\<lparr>verification_tokens := [reset_token]\<rparr>"
  have w: "quiet reset_world" "view reset_world = ?d" by (simp_all add: reset_world_def)
  have k: "distinct (map vt_hashed_token (verification_tokens ?d))" by simp
  have r: "find_valid_token (hash_secret demo_crypto ''link'') PasswordReset (w_clock reset_world) ?d = Some reset_token"
    by (simp add: find_valid_token_def valid_token_def reset_token_def reset_world_def)
  have u: "find_user (vt_user_id reset_token) ?d = Some demo_user"
    by (simp add: find_user_def reset_token_def demo_user_def)
  have "validate_password_policy default_settings ''Longer-Passw0rd!'' = Inr ()" by code_simp
  then have a: "acceptable default_settings demo_crypto demo_user ''Longer-Passw0rd!''
      (cy_hash_password demo_crypto ''Longer-Passw0rd!'' (draw reset_world 0))"
    by (simp add: acceptable_def demo_crypto_def user_checks_def set_password_def set_col_def demo_user_def max_len_def)
  have "us_id demo_user = 7" by (simp add: demo_user_def)
  then show ?thesis
    using password_reset_single_use [OF w(1) reset_world_supply w(2) k r u a]
    by (auto simp: demo_crypto_def)
qed

section \<open>Bearer tokens\<close>

text \<open>C9 (bearer tokens): a request is authenticated by a bearer token exactly when the token
  decodes as an access token whose identifier is not denied, its subject is an active user
  whose token version is the token's, and the user's membership in the token's tenant and
  that tenant are active, all read from the database at that request; the role is the
  membership's, whatever the token says.  Any other request is refused as unauthorized and
  changes nothing.\<close>

theorem bearer_principal_exact:
  assumes "quiet w"
  shows "(principal_from_token st cy b w = (Inr pn, w') \<longleftrightarrow>
      w' = w \<and> (\<exists>tok p u tn m te. b = Some tok \<and> decode_token st cy tok Access (w_clock w) = Inr p \<and>
        \<not> token_denied p w \<and>
        claimed_user p = Some (us_id u) \<and> find_user (us_id u) (view w) = Some u \<and> us_status u = UserActive \<and>
        map_of p ''ver'' = Some (JInt (us_token_version u)) \<and>
        claimed_tenant p = Some tn \<and> find_member tn (us_id u) (view w) = Some m \<and> me_status m = MemberActive \<and>
        find_tenant tn (view w) = Some te \<and> te_status te = TenantActive \<and>
        pn = \<lparr>pn_user = Some u, pn_tenant_id = tn, pn_role = Some (me_role m), pn_scopes = None\<rparr>)) \<and>
    ((\<exists>pn. principal_from_token st cy b w = (Inr pn, w)) \<or>
      (\<exists>msg. principal_from_token st cy b w = (Inl (unauthorized msg), w)))"
proof -
  have s: "session_user p d u \<longleftrightarrow> claimed_user p = Some (us_id u) \<and> find_user (us_id u) d = Some u \<and>
      us_status u = UserActive \<and> map_of p ''ver'' = Some (JInt (us_token_version u))" for p d u
    using find_user_SomeD by (auto simp: session_user_def)
  have "principal_from_token st cy b w = (Inr pn, w') \<longleftrightarrow>
      w' = w \<and> (\<exists>p. live_payload st cy b w p \<and> token_principal p (view w) pn)"
    by (rule principal_from_token_iff [OF assms])
  moreover have "(\<exists>pn. principal_from_token st cy b w = (Inr pn, w)) \<or>
      (\<exists>msg. principal_from_token st cy b w = (Inl (unauthorized msg), w))"
    using assms
    by (auto simp: principal_from_token_def payload_quiet get_current_user_def user_repo_get_by_id_def
        membership_repo_get_by_tenant_and_user_def tenant_active_run runs split: option.split sum.split)
  ultimately show ?thesis unfolding live_payload_def token_principal_def s by blast
qed

theorem bearer_principal_exact_witness:
  "principal_from_token default_settings demo_crypto
      (Some (access_token default_settings demo_crypto demo_user 2 OWNER 200 5)) access_world =
    (Inr \<lparr>pn_user = Some demo_user, pn_tenant_id = 2, pn_role = Some DEVELOPER, pn_scopes = None\<rparr>, access_world)"
proof -
  let ?p = "access_payload default_settings demo_user 2 OWNER 200 5"
  have q: "quiet access_world" "view access_world = access_db" "w_clock access_world = 200"
    by (simp_all add: access_world_def)
  have "live_payload default_settings demo_crypto
      (Some (access_token default_settings demo_crypto demo_user 2 OWNER 200 5)) access_world ?p"
    by (rule issued_token_live [OF demo_crypto_sound(1)])
      (simp_all add: access_world_def seconds_def minutes_def default_settings_def redis_live_def start_world_def)
  then have "decode_token default_settings demo_crypto
      (access_token default_settings demo_crypto demo_user 2 OWNER 200 5) Access (w_clock access_world) = Inr ?p"
    "\<not> token_denied ?p access_world"
    by (simp_all add: live_payload_def)
  moreover have "us_id demo_user = 7" "us_status demo_user = UserActive" "me_status demo_member = MemberActive"
    "me_role demo_member = DEVELOPER" "te_status demo_tenant = TenantActive"
    by (simp_all add: demo_user_def demo_member_def demo_tenant_def)
  ultimately show ?thesis
    using q bearer_principal_exact [OF q(1), THEN conjunct1, THEN iffD2, OF conjI, OF refl,
        OF exI [of _ "access_token default_settings demo_crypto demo_user 2 OWNER 200 5"],
        OF exI [of _ ?p], OF exI [of _ demo_user], OF exI [of _ 2], OF exI [of _ demo_member],
        OF exI [of _ demo_tenant]]
    by simp
qed

end
