(* ===== verification/Key_Properties.thy ===== *)
theory Key_Properties
  imports Access_Scenarios
begin

text \<open>
  API keys: a key works exactly as issued until it is revoked, rotated or expires; what its
  principal is; and how far its scopes reach.
\<close>

section \<open>Runs\<close>

text \<open>The laws of \<open>secrets.token_urlsafe(6)\<close>: eight characters, none of them a dot.\<close>

definition urlsafe_tokens :: "crypto \<Rightarrow> bool" where
  "urlsafe_tokens cy \<longleftrightarrow>
     (\<forall>u. CHR ''.'' \<notin> set (cy_token_urlsafe cy 6 u) \<and> length (cy_token_urlsafe cy 6 u) = 8)"

definition key_prefix :: "crypto \<Rightarrow> uuid \<Rightarrow> string" where
  "key_prefix cy u = ''sx_'' @ cy_token_urlsafe cy 6 u"

definition issued_key ::
    "crypto \<Rightarrow> uuid \<Rightarrow> uuid option \<Rightarrow> api_key_issue_request \<Rightarrow> world \<Rightarrow> api_key" where
  "issued_key cy tn u data w = new_api_key \<lparr>kc_tenant_id = tn, kc_user_id = u, kc_name = ki_name data,
     kc_prefix = key_prefix cy (draw w 0), kc_hashed_secret = hash_secret cy (issued_secret cy (draw w 1)),
     kc_scopes = ki_scopes data, kc_expires_at = ki_expires_at data\<rparr> (draw w 2) (w_clock w)"

definition plaintext_of :: "crypto \<Rightarrow> world \<Rightarrow> string" where
  "plaintext_of cy w = key_prefix cy (draw w 0) @ ''.'' @ issued_secret cy (draw w 1)"

lemma issued_key_sel [simp]:
  "ak_id (issued_key cy tn u data w) = draw w 2" "ak_tenant_id (issued_key cy tn u data w) = tn"
  "ak_user_id (issued_key cy tn u data w) = u" "ak_name (issued_key cy tn u data w) = ki_name data"
  "ak_prefix (issued_key cy tn u data w) = key_prefix cy (draw w 0)"
  "ak_hashed_secret (issued_key cy tn u data w) = hash_secret cy (issued_secret cy (draw w 1))"
  "ak_scopes (issued_key cy tn u data w) = ki_scopes data" "ak_status (issued_key cy tn u data w) = KeyActive"
  "ak_expires_at (issued_key cy tn u data w) = ki_expires_at data"
  "ak_last_used_at (issued_key cy tn u data w) = None" "ak_created_at (issued_key cy tn u data w) = w_clock w"
  by (simp_all add: issued_key_def new_api_key_def)

text \<open>The row fits its columns and its prefix is not in use.\<close>

definition issuable :: "crypto \<Rightarrow> api_key_issue_request \<Rightarrow> world \<Rightarrow> bool" where
  "issuable cy data w \<longleftrightarrow> length (ki_name data) \<le> 200 \<and> (\<forall>s\<in>set (ki_scopes data). length s \<le> 100) \<and>
     (\<forall>k\<in>set (api_keys (view w)). ak_prefix k \<noteq> key_prefix cy (draw w 0))"

lemma issued_key_ok:
  assumes "urlsafe_tokens cy" "digest_64 cy" "issuable cy data w" "draw w 2 \<notin> access_ids (view w)"
  shows "api_key_insert_ok (issued_key cy tn u data w) (view w)"
  using assms
  by (simp add: api_key_insert_ok_def issuable_def urlsafe_tokens_def digest_64_def key_prefix_def hash_secret_def
      access_ids_iff)

lemma issue_run:
  assumes "quiet w" "draw w 2 \<notin> access_ids (view w)" "urlsafe_tokens cy" "digest_64 cy" "issuable cy data w"
  shows "issue cy tn u data w =
    (Inr \<lparr>kr_id = draw w 2, kr_name = ki_name data, kr_prefix = key_prefix cy (draw w 0),
       kr_api_key = plaintext_of cy w, kr_scopes = ki_scopes data, kr_expires_at = ki_expires_at data,
       kr_created_at = w_clock w\<rparr>,
     after w 3 (insert_api_key (issued_key cy tn u data w)))"
  using issued_key_ok [OF assms(3-5,2), of tn u] assms(1)
  by (simp add: issue_def api_key_repo_create_def runs Let_def issued_key_def plaintext_of_def key_prefix_def
      issued_secret_def new_api_key_def numeral_eq_Suc)

lemma insert_api_key_tables [simp]:
  "api_keys (insert_api_key k d) = api_keys d @ [k]" "users (insert_api_key k d) = users d"
  "memberships (insert_api_key k d) = memberships d" "tenants (insert_api_key k d) = tenants d"
  "refresh_tokens (insert_api_key k d) = refresh_tokens d" "audit_events (insert_api_key k d) = audit_events d"
  "verification_tokens (insert_api_key k d) = verification_tokens d"
  by (simp_all add: insert_api_key_def)

lemma split_plaintext:
  "CHR ''.'' \<notin> set p \<Longrightarrow> split_key (p @ ''.'' @ s) = Some (p, s)"
  by (auto simp: split_key_def takeWhile_append dropWhile_append)

lemma split_issued: "urlsafe_tokens cy \<Longrightarrow> split_key (key_prefix cy u @ ''.'' @ s) = Some (key_prefix cy u, s)"
  by (rule split_plaintext) (auto simp: key_prefix_def urlsafe_tokens_def)

section \<open>Authentication\<close>

text \<open>A presented key identifies a stored one.\<close>

definition presents :: "crypto \<Rightarrow> string \<Rightarrow> int \<Rightarrow> db \<Rightarrow> api_key \<Rightarrow> bool" where
  "presents cy raw t d k \<longleftrightarrow> (\<exists>p s. split_key raw = Some (p, s) \<and> find_prefix p d = Some k \<and>
     ak_status k = KeyActive \<and> (\<forall>e. ak_expires_at k = Some e \<longrightarrow> t < e) \<and> ak_hashed_secret k = hash_secret cy s)"

definition used_update :: "int \<Rightarrow> api_key_update" where
  "used_update t = \<lparr>ku_status = None, ku_revoked_at = None, ku_last_used_at = Some t\<rparr>"

definition touch :: "api_key \<Rightarrow> int \<Rightarrow> db \<Rightarrow> db" where
  "touch k t = (if ak_last_used_at k = Some t then (\<lambda>d. d) else update_api_key k (used_update t) t)"

definition touched :: "api_key \<Rightarrow> int \<Rightarrow> api_key" where
  "touched k t = (if ak_last_used_at k = Some t then k
     else k\<lparr>ak_last_used_at := Some t, ak_updated_at := t\<rparr>)"

lemma touched_sel [simp]:
  "ak_id (touched k t) = ak_id k" "ak_tenant_id (touched k t) = ak_tenant_id k"
  "ak_user_id (touched k t) = ak_user_id k" "ak_scopes (touched k t) = ak_scopes k"
  "ak_status (touched k t) = ak_status k"
  by (simp_all add: touched_def)

lemma find_prefix_SomeD: "find_prefix p d = Some k \<Longrightarrow> k \<in> set (api_keys d) \<and> ak_prefix k = p"
  unfolding find_prefix_def by (rule select_one_SomeD)

lemma key_update_run:
  assumes "quiet w" "k \<in> set (api_keys (view w))" "set_api_key k u k \<noteq> k"
  shows "api_key_repo_update k u w =
    (Inr ((set_api_key k u k)\<lparr>ak_updated_at := w_clock w\<rparr>), after w 0 (update_api_key k u (w_clock w)))"
proof -
  have "\<exists>x\<in>set (api_keys (view w)). same_api_key k x" using assms(2) by (auto simp: same_api_key_def)
  then show ?thesis using assms by (simp add: api_key_repo_update_def runs)
qed

lemma used_changes: "set_api_key k (used_update t) k = k \<longleftrightarrow> ak_last_used_at k = Some t"
  by (cases k) (auto simp: set_api_key_def used_update_def set_col_def)

lemma touch_run:
  assumes "quiet w" "k \<in> set (api_keys (view w))"
  shows "api_key_repo_update k (used_update (w_clock w)) w =
    (Inr (touched k (w_clock w)), after w 0 (touch k (w_clock w)))"
proof (cases "ak_last_used_at k = Some (w_clock w)")
  case True
  then show ?thesis by (simp add: api_key_repo_update_def used_changes touched_def touch_def runs)
next
  case False
  then show ?thesis
    using key_update_run [OF assms, of "used_update (w_clock w)"]
    by (simp add: used_changes touched_def touch_def) (simp add: set_api_key_def used_update_def set_col_def)
qed

lemma authenticate_run:
  assumes "quiet w" "presents cy raw (w_clock w) (view w) k"
  shows "authenticate cy raw w = (Inr (Some (touched k (w_clock w))), after w 0 (touch k (w_clock w)))"
proof -
  obtain p s where k: "split_key raw = Some (p, s)" "find_prefix p (view w) = Some k" "ak_status k = KeyActive"
    "\<forall>e. ak_expires_at k = Some e \<longrightarrow> w_clock w < e" "ak_hashed_secret k = hash_secret cy s"
    using assms(2) by (auto simp: presents_def)
  have "k \<in> set (api_keys (view w))" using find_prefix_SomeD [OF k(2)] by simp
  from touch_run [OF assms(1) this]
  have "api_key_repo_update k \<lparr>ku_status = None, ku_revoked_at = None, ku_last_used_at = Some (w_clock w)\<rparr> w =
      (Inr (touched k (w_clock w)), after w 0 (touch k (w_clock w)))"
    by (simp add: used_update_def)
  then show ?thesis
    using assms(1) k
    by (auto simp: authenticate_def api_key_repo_get_by_prefix_def runs split: option.split)
qed

lemma authenticate_refused:
  assumes "quiet w" "\<nexists>k. presents cy raw (w_clock w) (view w) k"
  shows "authenticate cy raw w = (Inr None, w)"
  using assms
  by (auto simp: authenticate_def api_key_repo_get_by_prefix_def runs presents_def split: option.split)

section \<open>Revocation\<close>

lemma select_one_update:
  "(\<And>r. P (f r) = P r) \<Longrightarrow>
    select_one P (update_where Q f t) = map_option (\<lambda>r. if Q r then f r else r) (select_one P t)"
  by (induction t) auto

definition revoked_update :: "int \<Rightarrow> api_key_update" where
  "revoked_update t = \<lparr>ku_status = Some KeyRevoked, ku_revoked_at = Some t, ku_last_used_at = None\<rparr>"

definition withdraw :: "api_key \<Rightarrow> int \<Rightarrow> db \<Rightarrow> db" where
  "withdraw k t = (if set_api_key k (revoked_update t) k = k then (\<lambda>d. d) else update_api_key k (revoked_update t) t)"

lemma set_api_key_sel [simp]:
  "ak_id (set_api_key l u k) = ak_id k" "ak_prefix (set_api_key l u k) = ak_prefix k"
  "ak_tenant_id (set_api_key l u k) = ak_tenant_id k"
  by (simp_all add: set_api_key_def)

lemma update_api_key_tables [simp]:
  "tenants (update_api_key k u t d) = tenants d" "users (update_api_key k u t d) = users d"
  "memberships (update_api_key k u t d) = memberships d" "refresh_tokens (update_api_key k u t d) = refresh_tokens d"
  "verification_tokens (update_api_key k u t d) = verification_tokens d"
  "audit_events (update_api_key k u t d) = audit_events d"
  by (simp_all add: update_api_key_def)

lemma find_prefix_update:
  "find_prefix p (update_api_key k u t d) =
    map_option (\<lambda>x. if same_api_key k x then (set_api_key k u x)\<lparr>ak_updated_at := t\<rparr> else x) (find_prefix p d)"
  unfolding find_prefix_def update_api_key_def by (simp add: select_one_update)

lemma withdrawn: "set_api_key k (revoked_update t) k = x \<Longrightarrow> ak_status x = KeyRevoked"
  by (auto simp: set_api_key_def revoked_update_def set_col_def)

lemma find_withdrawn:
  assumes "find_prefix p d = Some k"
  shows "\<exists>x. find_prefix p (withdraw k t d) = Some x \<and> ak_status x = KeyRevoked"
proof (cases "set_api_key k (revoked_update t) k = k")
  case True
  then show ?thesis using assms withdrawn [OF True] by (simp add: withdraw_def)
next
  case False
  then show ?thesis
    using assms withdrawn [OF refl, of k t] by (simp add: withdraw_def find_prefix_update same_api_key_def)
qed

lemma withdraw_keys:
  "set (map ak_prefix (api_keys (withdraw k t d))) = set (map ak_prefix (api_keys d))"
  "set (map ak_id (api_keys (withdraw k t d))) = set (map ak_id (api_keys d))"
proof -
  have "map ak_prefix (update_where P (\<lambda>x. (set_api_key k u x)\<lparr>ak_updated_at := t\<rparr>) xs) = map ak_prefix xs"
    "map ak_id (update_where P (\<lambda>x. (set_api_key k u x)\<lparr>ak_updated_at := t\<rparr>) xs) = map ak_id xs" for P u xs
    by (simp_all add: update_where_def)
  then show "set (map ak_prefix (api_keys (withdraw k t d))) = set (map ak_prefix (api_keys d))"
    "set (map ak_id (api_keys (withdraw k t d))) = set (map ak_id (api_keys d))"
    by (simp_all add: withdraw_def update_api_key_def del: set_map)
qed

lemma withdraw_tables [simp]:
  "tenants (withdraw k t d) = tenants d" "users (withdraw k t d) = users d"
  "memberships (withdraw k t d) = memberships d" "refresh_tokens (withdraw k t d) = refresh_tokens d"
  "verification_tokens (withdraw k t d) = verification_tokens d" "audit_events (withdraw k t d) = audit_events d"
  by (simp_all add: withdraw_def)

lemma withdraw_access_ids [simp]: "access_ids (withdraw k t d) = access_ids d"
  using withdraw_keys(2) [of k t d] by (simp add: access_ids_def)

lemma revoke_key_run:
  assumes "quiet w" "k \<in> set (api_keys (view w))"
  shows "\<exists>x. revoke_key k w = (Inr x, after w 0 (withdraw k (w_clock w)))"
proof (cases "set_api_key k (revoked_update (w_clock w)) k = k")
  case True
  then show ?thesis by (simp add: revoke_key_def api_key_repo_update_def runs withdraw_def) (simp add: revoked_update_def)
next
  case False
  then show ?thesis using key_update_run [OF assms False]
    by (simp add: revoke_key_def runs withdraw_def) (simp add: revoked_update_def)
qed

lemma refused_withdrawn:
  assumes "quiet v" "find_prefix p (view v) = Some x" "ak_status x = KeyRevoked" "split_key raw = Some (p, s)"
  shows "authenticate cy raw v = (Inr None, v)"
  by (rule authenticate_refused [OF assms(1)]) (use assms in \<open>auto simp: presents_def\<close>)

lemma find_issued:
  "issuable cy data w \<Longrightarrow>
    find_prefix (key_prefix cy (draw w 0)) (insert_api_key (issued_key cy tn u data w) (view w)) =
      Some (issued_key cy tn u data w)"
proof -
  assume "issuable cy data w"
  then have "select_one (\<lambda>k. ak_prefix k = key_prefix cy (draw w 0)) (api_keys (view w)) = None"
    by (simp add: select_one_None_iff issuable_def)
  then show ?thesis by (simp add: find_prefix_def select_one_append)
qed

text \<open>What can be done with the key an issue returned.\<close>

lemma issued_presents:
  assumes "urlsafe_tokens cy" "find_prefix (key_prefix cy (draw w 0)) d = Some (issued_key cy tn u data w)"
  shows "presents cy (key_prefix cy (draw w 0) @ ''.'' @ s) t d k \<longleftrightarrow>
    k = issued_key cy tn u data w \<and> (\<forall>e. ki_expires_at data = Some e \<longrightarrow> t < e) \<and>
    hash_secret cy (issued_secret cy (draw w 1)) = hash_secret cy s"
  unfolding presents_def split_issued [OF assms(1)] using assms(2) by auto

lemma key_principal_run:
  assumes w: "quiet w" and k: "presents cy raw (w_clock w) (view w) k"
  shows "principal_from_api_key cy raw w =
    (if \<exists>te. find_tenant (ak_tenant_id k) (view w) = Some te \<and> te_status te = TenantActive
     then Inr \<lparr>pn_user = Option.bind (ak_user_id k) (\<lambda>u. find_user u (view w)), pn_tenant_id = ak_tenant_id k,
       pn_role = None, pn_scopes = Some (ak_scopes k)\<rparr>
     else Inl (unauthorized ''Tenant is not active''),
     committed (after w 0 (touch k (w_clock w))))"
proof -
  have q: "quiet (committed (after w 0 (touch k (w_clock w))))" using w by simp
  have f: "find_tenant i (touch k t d) = find_tenant i d" "find_user i (touch k t d) = find_user i d" for i t d
    by (simp_all add: touch_def find_tenant_def find_user_def)
  show ?thesis
    using w by (auto simp: principal_from_api_key_def authenticate_run [OF w k] runs tenant_active_run [OF q] f
        user_repo_get_by_id_def split: option.split)
qed

section \<open>Properties\<close>

text \<open>C21 (API-key principals): a request with an API key acts for the key's tenant with exactly
  the permissions in the key's stored scopes, no role and whatever user the key is bound to,
  and records the use, which is committed even when the tenant turns out not to be active
  and the request is refused; a key that is unknown, malformed, revoked, expired or
  presented with another secret is refused and changes nothing.  The status of the bound
  user is not looked at.\<close>

theorem api_key_principal_exact:
  assumes w: "quiet w"
  shows "(\<forall>k. presents cy raw (w_clock w) (view w) k \<longrightarrow>
      (\<exists>pn w'. w' = committed (after w 0 (touch k (w_clock w))) \<and>
        principal_from_api_key cy raw w =
          (if \<exists>te. find_tenant (ak_tenant_id k) (view w) = Some te \<and> te_status te = TenantActive then (Inr pn, w')
           else (Inl (unauthorized ''Tenant is not active''), w')) \<and>
        pn_tenant_id pn = ak_tenant_id k \<and> pn_role pn = None \<and>
        pn_user pn = Option.bind (ak_user_id k) (\<lambda>u. find_user u (view w)) \<and>
        (\<forall>p. principal_has_permission pn p \<longleftrightarrow> permission_value p \<in> set (ak_scopes k)))) \<and>
    ((\<nexists>k. presents cy raw (w_clock w) (view w) k) \<longrightarrow>
      principal_from_api_key cy raw w = (Inl (unauthorized ''Invalid API key''), w))"
proof (intro conjI allI impI)
  fix k
  assume k: "presents cy raw (w_clock w) (view w) k"
  let ?w = "committed (after w 0 (touch k (w_clock w)))"
  let ?pn = "\<lparr>pn_user = Option.bind (ak_user_id k) (\<lambda>u. find_user u (view w)), pn_tenant_id = ak_tenant_id k,
    pn_role = None, pn_scopes = Some (ak_scopes k)\<rparr>"
  have "principal_from_api_key cy raw w =
      (if \<exists>te. find_tenant (ak_tenant_id k) (view w) = Some te \<and> te_status te = TenantActive then (Inr ?pn, ?w)
       else (Inl (unauthorized ''Tenant is not active''), ?w))"
    by (simp add: key_principal_run [OF w k])
  then show "\<exists>pn w'. w' = ?w \<and> principal_from_api_key cy raw w =
      (if \<exists>te. find_tenant (ak_tenant_id k) (view w) = Some te \<and> te_status te = TenantActive then (Inr pn, w')
       else (Inl (unauthorized ''Tenant is not active''), w')) \<and>
      pn_tenant_id pn = ak_tenant_id k \<and> pn_role pn = None \<and>
      pn_user pn = Option.bind (ak_user_id k) (\<lambda>u. find_user u (view w)) \<and>
      (\<forall>p. principal_has_permission pn p \<longleftrightarrow> permission_value p \<in> set (ak_scopes k))"
    by (intro exI [of _ ?pn] exI [of _ ?w]) (simp add: principal_has_permission_def)
next
  assume "\<nexists>k. presents cy raw (w_clock w) (view w) k"
  then show "principal_from_api_key cy raw w = (Inl (unauthorized ''Invalid API key''), w)"
    by (simp add: principal_from_api_key_def authenticate_refused [OF w] runs)
qed

text \<open>What a key does from its issue on, and once it is revoked.\<close>

lemma issued_authenticates:
  assumes cy: "urlsafe_tokens cy" "issuable cy data w"
    and v: "quiet v" "view v = insert_api_key (issued_key cy tn u data w) (view w)"
  shows "(\<exists>k v'. authenticate cy (key_prefix cy (draw w 0) @ ''.'' @ s) v = (Inr (Some k), v') \<and> ak_id k = draw w 2 \<and>
      ak_tenant_id k = tn \<and> ak_user_id k = u \<and> ak_scopes k = ki_scopes data \<and>
      ak_hashed_secret k = hash_secret cy (issued_secret cy (draw w 1))) \<longleftrightarrow>
    hash_secret cy s = hash_secret cy (issued_secret cy (draw w 1)) \<and>
      (\<forall>e. ki_expires_at data = Some e \<longrightarrow> w_clock v < e)" (is "?L \<longleftrightarrow> ?R")
proof -
  let ?k = "issued_key cy tn u data w"
  let ?p = "key_prefix cy (draw w 0)"
  note f = find_issued [OF cy(2), of tn u]
  show ?thesis
  proof
    assume ?R
    then have "presents cy (?p @ ''.'' @ s) (w_clock v) (view v) ?k"
      using issued_presents [OF cy(1) f, of s "w_clock v" ?k] by (simp add: v(2))
    from authenticate_run [OF v(1) this] show ?L by (auto simp: touched_def)
  next
    assume ?L
    then show ?R
      using authenticate_refused [OF v(1), of cy "?p @ ''.'' @ s"] issued_presents [OF cy(1) f]
      by (fastforce simp: v(2))
  qed
qed

lemma issued_revoked:
  assumes cy: "urlsafe_tokens cy" "issuable cy data w"
    and v: "quiet v" "view v = insert_api_key (issued_key cy tn u data w) (view w)"
  shows "\<exists>x v'. request (revoke_key (issued_key cy tn u data w)) v = (Inr x, v') \<and>
    (\<forall>y s. quiet y \<and> view y = w_db v' \<longrightarrow>
      authenticate cy (key_prefix cy (draw w 0) @ ''.'' @ s) y = (Inr None, y))"
proof -
  let ?k = "issued_key cy tn u data w"
  let ?p = "key_prefix cy (draw w 0)"
  let ?d = "insert_api_key ?k (view w)"
  note f = find_issued [OF cy(2), of tn u]
  have "?k \<in> set (api_keys (view v))" by (simp add: v(2))
  from revoke_key_run [OF v(1) this]
  obtain x where x: "revoke_key ?k v = (Inr x, after v 0 (withdraw ?k (w_clock v)))" by blast
  obtain k' where k': "find_prefix ?p (withdraw ?k (w_clock v) ?d) = Some k'" "ak_status k' = KeyRevoked"
    using find_withdrawn [OF f] by blast
  from request_returns [of "revoke_key ?k", OF x]
  have "request (revoke_key ?k) v = (Inr x, committed (after v 0 (withdraw ?k (w_clock v))))" using v(1) by simp
  moreover have "authenticate cy (?p @ ''.'' @ s) y = (Inr None, y)"
    if "quiet y" "view y = withdraw ?k (w_clock v) ?d" for y s
    by (rule refused_withdrawn [OF that(1) _ k'(2) split_issued [OF cy(1)]])
      (use k'(1) in \<open>simp add: that(2)\<close>)
  ultimately show ?thesis using v(2) by auto
qed

text \<open>C20 (API-key life cycle): the key that an issue returns authenticates as issued, in its
  tenant and with its scopes, until its expiry; the same prefix with a secret of another
  hash does not; the row stores the hash only; and once the key is revoked no secret
  works with its prefix.\<close>

theorem api_key_life_cycle:
  assumes w: "quiet w" "draw w 2 \<notin> access_ids (view w)"
    and cy: "urlsafe_tokens cy" "digest_64 cy" "issuable cy data w"
  shows "\<exists>resp w' secret. request (issue cy tn u data) w = (Inr resp, w') \<and>
    kr_api_key resp = kr_prefix resp @ ''.'' @ secret \<and>
    (\<forall>v. quiet v \<and> view v = w_db w' \<longrightarrow>
      (\<forall>s. (\<exists>k v'. authenticate cy (kr_prefix resp @ ''.'' @ s) v = (Inr (Some k), v') \<and>
          ak_id k = kr_id resp \<and> ak_tenant_id k = tn \<and> ak_user_id k = u \<and> ak_scopes k = ki_scopes data \<and>
          ak_hashed_secret k = hash_secret cy secret) \<longleftrightarrow>
        hash_secret cy s = hash_secret cy secret \<and> (\<forall>e. ki_expires_at data = Some e \<longrightarrow> w_clock v < e)) \<and>
      (\<exists>k x v'. find_prefix (kr_prefix resp) (view v) = Some k \<and> request (revoke_key k) v = (Inr x, v') \<and>
        (\<forall>y s. quiet y \<and> view y = w_db v' \<longrightarrow>
          authenticate cy (kr_prefix resp @ ''.'' @ s) y = (Inr None, y))))"
proof -
  let ?k = "issued_key cy tn u data w"
  let ?r = "\<lparr>kr_id = draw w 2, kr_name = ki_name data, kr_prefix = key_prefix cy (draw w 0), kr_api_key = plaintext_of cy w,
    kr_scopes = ki_scopes data, kr_expires_at = ki_expires_at data, kr_created_at = w_clock w\<rparr>"
  from request_returns [of "issue cy tn u data", OF issue_run [OF w cy]]
  have run: "request (issue cy tn u data) w = (Inr ?r, committed (after w 3 (insert_api_key ?k)))"
    using w(1) by simp
  show ?thesis
    using run issued_authenticates [OF cy(1,3)] issued_revoked [OF cy(1,3)] find_issued [OF cy(3), of tn u]
    by (intro exI [of _ ?r] exI [of _ "committed (after w 3 (insert_api_key ?k))"]
        exI [of _ "issued_secret cy (draw w 1)"]) (simp add: plaintext_of_def)
qed

lemma issuable_withdrawn: "issuable cy data w \<Longrightarrow> issuable cy data (after w 0 (withdraw k t))"
proof -
  assume i: "issuable cy data w"
  have e: "(\<forall>x\<in>A. ak_prefix x \<noteq> c) \<longleftrightarrow> c \<notin> ak_prefix ` A" for A c by auto
  show ?thesis using i withdraw_keys(1) [of k t "view w"] by (simp add: issuable_def e)
qed

lemma issued_after: "issued_key cy tn u data (after w 0 f) = issued_key cy tn u data w"
  "plaintext_of cy (after w 0 f) = plaintext_of cy w"
  by (simp_all add: issued_key_def plaintext_of_def)

definition reissue_of :: "api_key \<Rightarrow> api_key_issue_request" where
  "reissue_of k = \<lparr>ki_name = ak_name k, ki_scopes = ak_scopes k, ki_expires_at = ak_expires_at k\<rparr>"

lemma rotate_key_run:
  assumes w: "quiet w" "draw w 2 \<notin> access_ids (view w)"
    and cy: "urlsafe_tokens cy" "digest_64 cy" "issuable cy (reissue_of k) w"
    and k: "k \<in> set (api_keys (view w))"
  shows "\<exists>resp. rotate_key cy tn u k w = (Inr resp, after w 3 (\<lambda>d.
      insert_api_key (issued_key cy tn u (reissue_of k) w) (withdraw k (w_clock w) d))) \<and>
    kr_id resp = draw w 2 \<and> kr_prefix resp = key_prefix cy (draw w 0) \<and> kr_api_key resp = plaintext_of cy w"
proof -
  obtain x where x: "revoke_key k w = (Inr x, after w 0 (withdraw k (w_clock w)))"
    using revoke_key_run [OF w(1) k] by blast
  let ?w = "after w 0 (withdraw k (w_clock w))"
  have "quiet ?w" "draw ?w 2 \<notin> access_ids (view ?w)" using w by simp_all
  from issue_run [OF this cy(1,2) issuable_withdrawn [OF cy(3)], of tn u]
  show ?thesis
    using x by (simp add: rotate_key_def runs reissue_of_def issued_after del: One_nat_def)
qed


text \<open>C36 (scopes do not bound what a key can obtain): the permission \<open>api_keys:manage\<close> alone lets a
  principal create a key with any list of known scopes, its own or not; the new key's
  principal then has exactly those.\<close>

theorem manage_scope_mints_any_scope:
  assumes w: "quiet w" "id_supply 4 w"
    and cy: "urlsafe_tokens cy" "digest_64 cy" "issuable cy data w"
    and pn: "pn_scopes pn = Some [permission_value API_KEYS_MANAGE]"
    and data: "set (ki_scopes data) \<subseteq> set valid_scope_values"
  shows "\<exists>resp w'. request (bindE (require_permission API_KEYS_MANAGE pn) (\<lambda>pn. create_api_key cy pn data)) w =
      (Inr resp, w') \<and>
    (\<forall>v te. quiet v \<and> view v = w_db w' \<and> (\<forall>e. ki_expires_at data = Some e \<longrightarrow> w_clock v < e) \<and>
        find_tenant (pn_tenant_id pn) (view v) = Some te \<and> te_status te = TenantActive \<longrightarrow>
      (\<exists>pn' v'. principal_from_api_key cy (kr_api_key resp) v = (Inr pn', v') \<and>
        pn_tenant_id pn' = pn_tenant_id pn \<and>
        (\<forall>p. principal_has_permission pn' p \<longleftrightarrow> permission_value p \<in> set (ki_scopes data))))"
proof -
  let ?k = "issued_key cy (pn_tenant_id pn) (actor_user_id pn) data w"
  let ?e = "principal_event pn ''api_key.create'' ''api_key'' (draw w 2) None"
  let ?a = "new_audit_event ?e (draw w 3) (w_clock w)"
  let ?f = "\<lambda>d. insert_audit ?a (insert_api_key ?k d)"
  have ids: "draw w 2 \<notin> access_ids (view w)" "draw w 3 \<notin> access_ids (view w)"
    using supplyD [OF w(2), of 2] supplyD [OF w(2), of 3] by simp_all
  have fits: "audit_fits ?e"
    using auth_event_fits [of "''api_key.create''" "''api_key''" "Some (uuid_str (draw w 2))" no_context
        "Some (pn_tenant_id pn)" "actor_user_id pn" AuditSuccess]
    by (simp add: principal_event_def audit_fits_def check_audit_create_def audit_checks_def new_audit_event_def
        auth_event_def max_len_def)
  have "filter (\<lambda>s. s \<notin> set valid_scope_values) (ki_scopes data) = []" using data by (auto simp: filter_empty_conv)
  then have sc: "validate_scopes (ki_scopes data) = Inr ()" by (simp add: validate_scopes_def)
  have "principal_has_permission pn API_KEYS_MANAGE" using pn by (simp add: principal_has_permission_def)
  then obtain resp where r: "bindE (require_permission API_KEYS_MANAGE pn) (\<lambda>pn. create_api_key cy pn data) w =
      (Inr resp, after w 4 ?f)" "kr_api_key resp = plaintext_of cy w"
    using issue_run [OF w(1) ids(1) cy, of "pn_tenant_id pn" "actor_user_id pn"] w(1) ids(2) fits sc
    by (simp add: require_permission_def create_api_key_def runs liftE_simps access_ids_iff)
  have f: "find_prefix (key_prefix cy (draw w 0)) (?f (view w)) = Some ?k"
    using find_issued [OF cy(3), of "pn_tenant_id pn" "actor_user_id pn"] by (simp add: find_prefix_def insert_audit_def)
  have "\<exists>pn' v'. principal_from_api_key cy (kr_api_key resp) v = (Inr pn', v') \<and>
      pn_tenant_id pn' = pn_tenant_id pn \<and>
      (\<forall>p. principal_has_permission pn' p \<longleftrightarrow> permission_value p \<in> set (ki_scopes data))"
    if v: "quiet v" "view v = ?f (view w)" and e: "\<forall>e. ki_expires_at data = Some e \<longrightarrow> w_clock v < e"
      and te: "find_tenant (pn_tenant_id pn) (view v) = Some te" "te_status te = TenantActive" for v te
  proof -
    have "presents cy (kr_api_key resp) (w_clock v) (view v) ?k"
      using issued_presents [OF cy(1) f, of "issued_secret cy (draw w 1)" "w_clock v" ?k] e v(2)
      by (simp add: r(2) plaintext_of_def)
    from key_principal_run [OF v(1) this] te show ?thesis by (simp add: principal_has_permission_def)
  qed
  moreover from request_returns
    [of "bindE (require_permission API_KEYS_MANAGE pn) (\<lambda>pn. create_api_key cy pn data)", OF r(1)]
  have "request (bindE (require_permission API_KEYS_MANAGE pn) (\<lambda>pn. create_api_key cy pn data)) w =
      (Inr resp, committed (after w 4 ?f))"
    using w(1) by simp
  ultimately show ?thesis by (intro exI [of _ resp] exI [of _ "committed (after w 4 ?f)"]) auto
qed

section \<open>Concrete keys\<close>

lemma hex_char_not_dot: "n < 16 \<Longrightarrow> hex_char n \<noteq> CHR ''.''"
proof
  assume "n < 16" "hex_char n = CHR ''.''"
  then have "hex_val (CHR ''.'') = Some n" by (metis hex_val_char)
  then show False by (simp add: hex_val_def)
qed

lemma no_dot_in_uuid: "CHR ''.'' \<notin> set (uuid_str u)"
proof
  assume "CHR ''.'' \<in> set (uuid_str u)"
  then have "CHR ''.'' \<in> set (filter (\<lambda>c. c \<noteq> CHR ''-'') (uuid_str u))" by simp
  then have "CHR ''.'' \<in> set (hex_digits 32 (unat u))" by (simp only: filter_dash_uuid_str)
  moreover have "c \<noteq> CHR ''.''" if "c \<in> set (hex_digits k n)" for c k n
    using that by (induction k arbitrary: n) (auto simp: hex_char_not_dot hex_char_not_dot [THEN not_sym])
  ultimately show False by blast
qed

lemma demo_urlsafe: "urlsafe_tokens demo_crypto"
  using no_dot_in_uuid by (auto simp: urlsafe_tokens_def demo_crypto_def length_uuid_str dest: in_set_dropD)

definition demo_request :: api_key_issue_request where
  "demo_request = \<lparr>ki_name = ''ci'', ki_scopes = [''scans:view'', ''members:manage''], ki_expires_at = None\<rparr>"

definition demo_key :: api_key where
  "demo_key = \<lparr>ak_id = 12, ak_tenant_id = 2, ak_user_id = Some 7, ak_name = ''ci'', ak_prefix = ''sx_p'',
     ak_hashed_secret = hash_secret demo_crypto ''s'', ak_scopes = [''scans:view''], ak_status = KeyActive,
     ak_expires_at = None, ak_last_used_at = None, ak_revoked_at = None, ak_created_at = 1, ak_updated_at = 1\<rparr>"

definition key_world :: "api_key \<Rightarrow> world" where
  "key_world k = start_world (access_db\<lparr>api_keys := [k]\<rparr>) 200 [] (access_ids_from 100)"

lemma demo_issuable: "issuable demo_crypto demo_request access_world"
  by (simp add: issuable_def demo_request_def access_world_def)

lemma access_world_simps [simp]:
  "quiet access_world" "view access_world = access_db" "w_clock access_world = 200"
  by (simp_all add: access_world_def)

lemma access_world_supply: "id_supply 5 access_world"
  using access_supply [of 100 5 200] by (simp add: access_world_def)

theorem api_key_principal_exact_witness:
  "\<exists>pn w'. principal_from_api_key demo_crypto ''sx_p.s'' (key_world demo_key) = (Inr pn, w') \<and>
    (\<forall>p. principal_has_permission pn p \<longleftrightarrow> permission_value p = ''scans:view'')"
proof -
  have "quiet (key_world demo_key)" by (simp add: key_world_def)
  moreover have "presents demo_crypto ''sx_p.s'' (w_clock (key_world demo_key)) (view (key_world demo_key)) demo_key"
    by (simp add: presents_def key_world_def find_prefix_def split_key_def)
      (simp add: demo_key_def)
  moreover have "find_tenant (ak_tenant_id demo_key) (view (key_world demo_key)) = Some demo_tenant"
    "te_status demo_tenant = TenantActive" "ak_scopes demo_key = [''scans:view'']"
    by (simp_all add: key_world_def find_tenant_def) (simp_all add: demo_key_def demo_tenant_def)
  ultimately show ?thesis using api_key_principal_exact [of "key_world demo_key" demo_crypto "''sx_p.s''"] by auto
qed

theorem api_key_life_cycle_witness:
  "\<exists>resp w'. request (issue demo_crypto 2 None demo_request) access_world = (Inr resp, w')"
proof -
  have "draw access_world 2 \<notin> access_ids (view access_world)" using supplyD [OF access_world_supply, of 2] by simp
  from api_key_life_cycle [OF access_world_simps(1) this demo_urlsafe demo_crypto_sound(2) demo_issuable, of 2 None]
  show ?thesis by blast
qed

lemma key_world_supply: "draw (key_world demo_key) 2 \<notin> access_ids (view (key_world demo_key))"
proof -
  have "access_ids (access_db\<lparr>api_keys := [demo_key]\<rparr>) = insert 12 (access_ids access_db)"
    by (auto simp: access_ids_def demo_key_def)
  then show ?thesis
    using access_ids_fresh [of 100 2] small_words [of 102 12]
    by (simp add: key_world_def access_db_ids) (simp add: access_ids_from_def)
qed

lemma length_sx_p: "length ''sx_p'' \<noteq> (11 :: nat)"
  by simp


definition demo_manager :: principal where
  "demo_manager = \<lparr>pn_user = None, pn_tenant_id = 2, pn_role = None, pn_scopes = Some [''api_keys:manage'']\<rparr>"

theorem manage_scope_mints_any_scope_witness:
  "\<exists>resp w'. request (bindE (require_permission API_KEYS_MANAGE demo_manager)
      (\<lambda>pn. create_api_key demo_crypto pn demo_request)) access_world = (Inr resp, w') \<and>
    \<not> principal_has_permission demo_manager MEMBERS_MANAGE"
proof -
  have s: "id_supply 4 access_world" using access_world_supply by (simp add: id_supply_def)
  have p: "pn_scopes demo_manager = Some [permission_value API_KEYS_MANAGE]" by (simp add: demo_manager_def)
  have d: "set (ki_scopes demo_request) \<subseteq> set valid_scope_values"
    by (simp add: demo_request_def valid_scope_values_def permission_members_def)
  have "\<not> principal_has_permission demo_manager MEMBERS_MANAGE"
    by (simp add: principal_has_permission_def demo_manager_def)
  then show ?thesis
    using manage_scope_mints_any_scope [OF access_world_simps(1) s demo_urlsafe demo_crypto_sound(2) demo_issuable p d]
    by blast
qed

end
