(* ===== verification/Guard_Properties.thy ===== *)
theory Guard_Properties
  imports Access_Scenarios
begin

text \<open>
  The guards kept in Redis: exactly which requests of a window a rate limit admits, and
  exactly how long a logout keeps its access token denied.
\<close>

section \<open>Rate limiting\<close>

text \<open>Requests, each with the time it arrives at, through one limiter.\<close>

fun admitted :: "string \<Rightarrow> int \<Rightarrow> int \<Rightarrow> (int \<times> http_request) list \<Rightarrow> world \<Rightarrow> bool list" where
  "admitted name limit secs [] w = []"
| "admitted name limit secs ((t, r) # xs) w =
    (case rate_limit name limit secs r (w\<lparr>w_clock := t\<rparr>) of
      (res, w') \<Rightarrow> (res = Inr ()) # admitted name limit secs xs w')"

definition arrivals_within :: "int \<Rightarrow> int \<Rightarrow> (int \<times> http_request) list \<Rightarrow> bool" where
  "arrivals_within t0 secs xs \<longleftrightarrow> (\<forall>x\<in>set xs. t0 \<le> fst x \<and> fst x < t0 + secs * 1000000)"

text \<open>The counter a key has before its window ends, if all its hits were at \<open>t0\<close> or later.\<close>

definition counts :: "redis \<Rightarrow> int \<Rightarrow> int \<Rightarrow> string \<Rightarrow> int \<Rightarrow> bool" where
  "counts r t0 secs k n \<longleftrightarrow>
    (if n = 0 then r k = None else \<exists>e. r k = Some (n, Some e) \<and> t0 + secs * 1000000 \<le> e)"

definition hit :: "string \<Rightarrow> int \<Rightarrow> int \<Rightarrow> int \<Rightarrow> redis \<Rightarrow> redis" where
  "hit k secs t n r = (if n = 0 then expire_key k secs t (incr_key k t r) else incr_key k t r)"

lemma hit_counts:
  assumes "counts r t0 secs k n" "0 \<le> n" "t0 \<le> t" "t < t0 + secs * 1000000" "0 < secs"
  shows "counts (hit k secs t n r) t0 secs k (n + 1)" "k' \<noteq> k \<Longrightarrow> hit k secs t n r k' = r k'"
    "live_count (redis_live r t k) = n"
  using assms
  by (auto simp: counts_def hit_def expire_key_def incr_key_def redis_live_def split: if_splits option.splits)

lemma rate_limit_hit:
  assumes "quiet w" "counts (w_redis w) t0 secs (rate_key name r) n" "0 \<le> n" "t0 \<le> t" "t < t0 + secs * 1000000" "0 < secs"
  shows "rate_limit name limit secs r (w\<lparr>w_clock := t\<rparr>) =
    (if n + 1 > limit then Inl too_many_requests else Inr (),
     w\<lparr>w_clock := t, w_redis := hit (rate_key name r) secs t n (w_redis w)\<rparr>)"
proof -
  have s: "w_script (w\<lparr>w_clock := t, w_redis := x\<rparr>) = []" for x using assms(1) by (simp add: quiet_def)
  show ?thesis
    using hit_counts(3) [OF assms(2-6)] s [of "w_redis w"] assms(1,3)
    by (auto simp: rate_limit_def runs quiet_def redis_run redis_expire_def hit_def whenE_def)
qed

lemma rate_limit_window_gen:
  assumes "quiet w" "0 < secs" "arrivals_within t0 secs xs"
    and "\<forall>x\<in>set xs. counts (w_redis w) t0 secs (rate_key name (snd x)) (c (rate_key name (snd x))) \<and> 0 \<le> c (rate_key name (snd x))"
  shows "admitted name limit secs xs w = map (\<lambda>i. c (rate_key name (snd (xs ! i))) +
      int (length (filter (\<lambda>x. rate_key name (snd x) = rate_key name (snd (xs ! i))) (take i xs))) < limit) [0..<length xs]"
  using assms
proof (induction xs arbitrary: w c)
  case Nil
  then show ?case by simp
next
  case (Cons x xs)
  obtain t r where x: "x = (t, r)" by (cases x)
  let ?k = "rate_key name r"
  let ?w = "w\<lparr>w_clock := t, w_redis := hit ?k secs t (c ?k) (w_redis w)\<rparr>"
  let ?c = "c(?k := c ?k + 1)"
  have h: "counts (w_redis w) t0 secs ?k (c ?k)" "0 \<le> c ?k" "t0 \<le> t" "t < t0 + secs * 1000000" "0 < secs"
    using Cons.prems by (simp_all add: x arrivals_within_def)
  have q: "quiet ?w" using Cons.prems(1) by (simp add: quiet_def)
  have "counts (w_redis ?w) t0 secs (rate_key name (snd y)) (?c (rate_key name (snd y))) \<and> 0 \<le> ?c (rate_key name (snd y))"
    if "y \<in> set xs" for y
    using that Cons.prems(4) hit_counts [OF h] h(2) by (auto simp: counts_def)
  then have ih: "admitted name limit secs xs ?w = map (\<lambda>i. ?c (rate_key name (snd (xs ! i))) +
      int (length (filter (\<lambda>x. rate_key name (snd x) = rate_key name (snd (xs ! i))) (take i xs))) < limit) [0..<length xs]"
    using Cons.prems(3) by (intro Cons.IH q h(5)) (auto simp: arrivals_within_def)
  let ?n = "\<lambda>c ys i. c (rate_key name (snd (ys ! i))) +
    int (length (filter (\<lambda>x. rate_key name (snd x) = rate_key name (snd (ys ! i))) (take i ys)))"
  have "?n ?c xs i = ?n c (x # xs) (Suc i)" for i by (simp add: x)
  then have "admitted name limit secs xs ?w = map (\<lambda>i. ?n c (x # xs) (Suc i) < limit) [0..<length xs]"
    unfolding ih by simp
  moreover have "admitted name limit secs (x # xs) w = (c ?k < limit) # admitted name limit secs xs ?w"
    unfolding x admitted.simps rate_limit_hit [OF Cons.prems(1) h, of limit] by (simp add: not_less)
  moreover have "[0..<length (x # xs)] = 0 # map Suc [0..<length xs]" by (simp add: upt_conv_Cons map_Suc_upt del: upt_Suc)
  moreover have "c ?k < limit \<longleftrightarrow> ?n c (x # xs) 0 < limit" by (simp add: x)
  ultimately show ?case by (simp only: list.map map_map comp_def)
qed

text \<open>C32 (rate limits): of the requests that arrive within one window of the first, a limiter
  admits each one that fewer than its maximum number of earlier requests with the same key
  precede, refused ones counted, whatever the other keys do; and the key of a request with a
  forwarding header is read from that header alone, so that its sender chooses the counter
  it is held against.\<close>

theorem rate_limit_window:
  assumes "quiet w" "0 < secs" "arrivals_within t0 secs xs"
    and "\<forall>x\<in>set xs. w_redis w (rate_key name (snd x)) = None"
  shows "admitted name limit secs xs w = map (\<lambda>i.
      int (length (filter (\<lambda>x. rate_key name (snd x) = rate_key name (snd (xs ! i))) (take i xs))) < limit)
      [0..<length xs] \<and>
    (\<forall>r h. hr_forwarded_for r \<noteq> None \<and> hr_forwarded_for r \<noteq> Some [] \<longrightarrow>
      rate_key name (r\<lparr>hr_client_host := h\<rparr>) = rate_key name r)"
proof -
  have "counts (w_redis w) t0 secs (rate_key name (snd x)) 0" if "x \<in> set xs" for x
    using assms(4) that by (simp add: counts_def)
  then have "admitted name limit secs xs w = map (\<lambda>i. 0 +
      int (length (filter (\<lambda>x. rate_key name (snd x) = rate_key name (snd (xs ! i))) (take i xs))) < limit) [0..<length xs]"
    by (intro rate_limit_window_gen [OF assms(1-3), where c = "\<lambda>_. 0"]) simp
  moreover have "rate_key name (r\<lparr>hr_client_host := h\<rparr>) = rate_key name r"
    if "hr_forwarded_for r \<noteq> None" "hr_forwarded_for r \<noteq> Some []" for r h
    using that by (auto simp: rate_key_def get_client_ip_def truthy_def)
  ultimately show ?thesis by simp
qed

definition from_header :: "string \<Rightarrow> http_request" where
  "from_header h = \<lparr>hr_forwarded_for = Some h, hr_client_host = Some ''10.0.0.1'', hr_user_agent = None\<rparr>"

theorem rate_limit_window_witness:
  "admitted ''login'' 1 60 [(200, from_header ''a''), (300, from_header ''a''), (400, from_header ''b'')] access_world =
    [True, False, True]"
proof -
  let ?xs = "[(200, from_header ''a''), (300, from_header ''a''), (400, from_header ''b'')] :: (int \<times> http_request) list"
  have k: "rate_key ''login'' (from_header ''a'') \<noteq> rate_key ''login'' (from_header ''b'')"
    by (simp add: rate_key_def get_client_ip_def from_header_def truthy_def or_default_def strip_def is_space_def)
  have "quiet access_world" "\<forall>x\<in>set ?xs. w_redis access_world (rate_key ''login'' (snd x)) = None"
    by (simp_all add: access_world_def)
  then have "admitted ''login'' 1 60 ?xs access_world = map (\<lambda>i.
      int (length (filter (\<lambda>x. rate_key ''login'' (snd x) = rate_key ''login'' (snd (?xs ! i))) (take i ?xs))) < 1)
      [0..<length ?xs]"
    using rate_limit_window [of access_world 60 200 ?xs "''login''" 1] by (simp add: arrivals_within_def)
  also have "\<dots> = [True, False, True]" using k k [symmetric] by (simp add: upt_rec)
  finally show ?thesis .
qed

section \<open>The denylist\<close>

text \<open>Denial of an access token: after a logout at time \<open>t\<close> an access token that expires at
  second \<open>e\<close> is refused for the whole seconds that were left of it, and then, for what
  remained of a second, accepted again: there is no moment in the last second before its
  expiry at which a logout denies it at all.\<close>

theorem denylist_gap:
  assumes w: "quiet w" "w_redis w (denylist_key jti) = None" and jti: "jti \<noteq> []"
    and p: "str_claim p ''jti'' = Some jti" "map_of p ''exp'' = Some (JInt e)" and t: "w_clock w \<le> e * 1000000"
  shows "\<exists>w'. deny_access_token p w = (Inr (), w') \<and>
    (\<forall>t'. token_denied p (w'\<lparr>w_clock := t'\<rparr>) \<longleftrightarrow>
      w_clock w + 1000000 \<le> e * 1000000 \<and> t' < w_clock w + (e * 1000000 - w_clock w) div 1000000 * 1000000) \<and>
    (\<not> 1000000 dvd w_clock w \<longrightarrow>
      (\<exists>t'. seconds t' < e \<and> w_clock w \<le> t' \<and> \<not> token_denied p (w'\<lparr>w_clock := t'\<rparr>)))"
proof -
  obtain c cs where cs: "jti = c # cs" using jti by (cases jti) simp_all
  let ?s = "(e * 1000000 - w_clock w) div 1000000"
  have s: "trunc_seconds (e * 1000000 - w_clock w) = ?s" "0 \<le> ?s"
    using t by (simp_all add: trunc_seconds_def)
  define r where "r = (if ?s \<le> 0 then w_redis w
    else (w_redis w)(denylist_key jti := Some (1, Some (w_clock w + ?s * 1000000))))"
  have run: "deny_access_token p w = (Inr (), w\<lparr>w_redis := r\<rparr>)"
    using w s p by (auto simp: deny_access_token_def cs deny_token_def runs redis_set_ex_def quiet_redis(1) r_def)
  have pos: "0 < ?s \<longleftrightarrow> w_clock w + 1000000 \<le> e * 1000000" by linarith
  have d: "token_denied p (w\<lparr>w_redis := r, w_clock := t'\<rparr>) \<longleftrightarrow>
      w_clock w + 1000000 \<le> e * 1000000 \<and> t' < w_clock w + ?s * 1000000" for t'
    using w(2) pos p(1) jti by (auto simp: token_denied_def r_def redis_live_def truthy_def or_default_def)
  have gap: "w_clock w + ?s * 1000000 < e * 1000000" if "\<not> 1000000 dvd w_clock w"
  proof -
    have "(e * 1000000 - w_clock w) mod 1000000 \<noteq> 0"
      using that by (metis dvd_diff_right_iff dvd_triv_right mod_eq_0_iff_dvd dvd_diff_commute)
    then have "0 < (e * 1000000 - w_clock w) mod 1000000" using pos_mod_sign [of 1000000 "e * 1000000 - w_clock w"] by linarith
    then show ?thesis using div_mult_mod_eq [of "e * 1000000 - w_clock w" 1000000] by linarith
  qed
  have "\<exists>t'. seconds t' < e \<and> w_clock w \<le> t' \<and> \<not> token_denied p (w\<lparr>w_redis := r, w_clock := t'\<rparr>)"
    if "\<not> 1000000 dvd w_clock w"
    using gap [OF that] s(2) d by (intro exI [of _ "w_clock w + ?s * 1000000"]) (auto simp: seconds_def)
  with run d show ?thesis by auto
qed

definition last_second_claims :: json_object where
  "last_second_claims = [(''jti'', JStr ''j''), (''exp'', JInt 1)]"

theorem denylist_gap_witness:
  "\<exists>w' t'. deny_access_token last_second_claims access_world = (Inr (), w') \<and> seconds t' < 1 \<and>
    \<not> token_denied last_second_claims (w'\<lparr>w_clock := t'\<rparr>)"
proof -
  have "quiet access_world" "w_redis access_world (denylist_key ''j'') = None" "w_clock access_world \<le> 1 * 1000000"
    "\<not> 1000000 dvd w_clock access_world"
    by (simp_all add: access_world_def)
  then show ?thesis
    using denylist_gap [of access_world "''j''" last_second_claims 1]
    by (auto simp: last_second_claims_def str_claim_def)
qed

end
