(* ===== verification/Artifact_Storage.thy ===== *)
theory Artifact_Storage
  imports Scanner_Plugins "HOL-Library.Char_ord" "HOL-Library.List_Lexorder"
begin

text \<open>
  \<open>scan_engine/storage/local.py\<close>: artifacts of a scan as files below
  \<open>base_dir/tenant_id/scan_id\<close>.  Names are untrusted.  An absolute path is the list of its
  segments; a file system is its regular files, directories and symbolic links.
  \<open>realpath\<close> is the loop of Python's \<open>os.path.realpath\<close>, which \<open>Path.resolve\<close> calls.
\<close>

type_synonym path = "string list"

record file_system =
  fs_files :: "(path \<times> string) list"
  fs_dirs :: "path list"
  fs_links :: "(path \<times> string) list"

section \<open>Resolving paths\<close>

fun split_slash :: "string \<Rightarrow> string \<Rightarrow> string list" where
  "split_slash acc [] = [rev acc]"
| "split_slash acc (c # cs) =
    (if c = CHR ''/'' then rev acc # split_slash [] cs else split_slash (c # acc) cs)"

definition is_absolute :: "string \<Rightarrow> bool" where
  "is_absolute s \<longleftrightarrow> s \<noteq> [] \<and> hd s = CHR ''/''"

text \<open>The stack holds segments still to walk, and marks where a link's target ends.\<close>

datatype part = Segment string | LinkDone path

function realpath_loop ::
    "(path \<times> string) list \<Rightarrow> (path \<Rightarrow> path option option) \<Rightarrow> path \<Rightarrow> part list \<Rightarrow> path" where
  "realpath_loop links seen cur [] = cur"
| "realpath_loop links seen cur (LinkDone l # rest) = realpath_loop links (seen(l \<mapsto> Some cur)) cur rest"
| "realpath_loop links seen cur (Segment s # rest) =
    (if s = [] \<or> s = ''.'' then realpath_loop links seen cur rest
     else if s = ''..'' then realpath_loop links seen (butlast cur) rest
     else let new = cur @ [s] in
       case map_of links new of
         None \<Rightarrow> realpath_loop links seen new rest
       | Some target \<Rightarrow>
          (case seen new of
             Some (Some p) \<Rightarrow> realpath_loop links seen p rest
           | Some None \<Rightarrow> realpath_loop links seen new rest
           | None \<Rightarrow>
               realpath_loop links (seen(new \<mapsto> None)) (if is_absolute target then [] else cur)
                 (map Segment (split_slash [] target) @ LinkDone new # rest)))"
  by pat_completeness auto

text \<open>Each link is entered at most once, so the loop ends whatever the links are.\<close>

definition unseen :: "(path \<times> string) list \<Rightarrow> (path \<Rightarrow> path option option) \<Rightarrow> nat" where
  "unseen links seen = length (filter (\<lambda>l. seen (fst l) = None) links)"

lemma unseen_le: "unseen links (seen(k \<mapsto> x)) \<le> unseen links seen"
  unfolding unseen_def by (induction links) auto

lemma unseen_less:
  assumes "map_of links k = Some t" "seen k = None"
  shows "unseen links (seen(k \<mapsto> x)) < unseen links seen"
  using assms(1)
proof (induction links)
  case Nil
  then show ?case by simp
next
  case (Cons l links)
  show ?case
  proof (cases "fst l = k")
    case True
    then show ?thesis using assms(2) unseen_le [of links seen k x] by (simp add: unseen_def)
  next
    case False
    then show ?thesis using Cons by (auto simp: unseen_def split: if_splits)
  qed
qed

termination realpath_loop
  by (relation "inv_image (less_than <*lex*> less_than)
      (\<lambda>(links, seen, cur, st). (unseen links seen, length st))")
    (auto simp: le_imp_less_or_eq [OF unseen_le] unseen_less order.order_iff_strict [symmetric] unseen_le
      simp del: fun_upd_apply)

definition realpath :: "(path \<times> string) list \<Rightarrow> path \<Rightarrow> path" where
  "realpath links segs = realpath_loop links Map.empty [] (map Segment segs)"

section \<open>The storage\<close>

definition scan_dir :: "file_system \<Rightarrow> path \<Rightarrow> uuid \<Rightarrow> uuid \<Rightarrow> path" where
  "scan_dir fs base tn i = realpath (fs_links fs) (base @ [uuid_str tn, uuid_str i])"

definition proper_prefix :: "path \<Rightarrow> path \<Rightarrow> bool" where
  "proper_prefix p q \<longleftrightarrow> length p < length q \<and> take (length p) q = p"

text \<open>\<open>_resolve_path\<close>; the system call behind \<open>resolve\<close> rejects a null character.\<close>

definition resolve_path :: "file_system \<Rightarrow> path \<Rightarrow> uuid \<Rightarrow> uuid \<Rightarrow> string \<Rightarrow> pyexc + path" where
  "resolve_path fs base tn i name =
    (if name = [] then Inl (exc ArtifactPathError ''Artifact name must not be empty'')
     else if CHR 0x00 \<in> set name then Inl (exc ValueError ''embedded null byte'')
     else
      let dir = scan_dir fs base tn i;
          candidate = realpath (fs_links fs) ((if is_absolute name then [] else dir) @ split_slash [] name)
      in if candidate \<noteq> dir \<and> \<not> proper_prefix dir candidate
         then Inl (exc ArtifactPathError (''Artifact name escapes its scan namespace: '' @ py_repr name))
         else Inr candidate)"

text \<open>
  The operating system's view of a resolved path.  A link that is left in it is part of a
  loop, so that following it fails.
\<close>

definition prefixes_of :: "path \<Rightarrow> path list" where
  "prefixes_of p = map (\<lambda>k. take (Suc k) p) [0..<length p]"

definition through_link :: "file_system \<Rightarrow> path \<Rightarrow> bool" where
  "through_link fs p \<longleftrightarrow> (\<exists>q\<in>set (prefixes_of p). map_of (fs_links fs) q \<noteq> None)"

definition is_file :: "file_system \<Rightarrow> path \<Rightarrow> bool" where
  "is_file fs p \<longleftrightarrow> \<not> through_link fs p \<and> map_of (fs_files fs) p \<noteq> None"

definition make_dirs :: "file_system \<Rightarrow> path \<Rightarrow> pyexc + file_system" where
  "make_dirs fs p =
    (if \<exists>q\<in>set (prefixes_of p). map_of (fs_files fs) q \<noteq> None \<or> map_of (fs_links fs) q \<noteq> None
     then Inl (exc OSError ''not a directory'')
     else Inr (fs\<lparr>fs_dirs := fs_dirs fs @ filter (\<lambda>q. q \<notin> set (fs_dirs fs)) (prefixes_of p)\<rparr>))"

definition write_bytes :: "file_system \<Rightarrow> path \<Rightarrow> string \<Rightarrow> pyexc + file_system" where
  "write_bytes fs p bytes =
    (if through_link fs p then Inl (exc OSError ''symbolic link loop'')
     else if p \<in> set (fs_dirs fs) then Inl (exc IsADirectoryError ''is a directory'')
     else Inr (fs\<lparr>fs_files := AList.update p bytes (fs_files fs)\<rparr>))"

definition save ::
    "file_system \<Rightarrow> path \<Rightarrow> uuid \<Rightarrow> uuid \<Rightarrow> string \<Rightarrow> string \<Rightarrow> string option \<Rightarrow> pyexc + artifact_ref \<times> file_system" where
  "save fs base tn i name bytes content_type =
    (case resolve_path fs base tn i name of Inl e \<Rightarrow> Inl e | Inr p \<Rightarrow>
     case make_dirs fs (butlast p) of Inl e \<Rightarrow> Inl e | Inr fs1 \<Rightarrow>
     case write_bytes fs1 p bytes of Inl e \<Rightarrow> Inl e | Inr fs2 \<Rightarrow>
     Inr (\<lparr>ar_key = name, ar_size_bytes = int (length bytes), ar_content_type = content_type\<rparr>, fs2))"

definition get :: "file_system \<Rightarrow> path \<Rightarrow> uuid \<Rightarrow> uuid \<Rightarrow> string \<Rightarrow> pyexc + string" where
  "get fs base tn i name =
    (case resolve_path fs base tn i name of Inl e \<Rightarrow> Inl e | Inr p \<Rightarrow>
     if \<not> is_file fs p then Inl (exc FileNotFoundError (''Artifact not found: '' @ py_repr name))
     else Inr (the (map_of (fs_files fs) p)))"

definition unlink :: "file_system \<Rightarrow> path \<Rightarrow> pyexc + file_system" where
  "unlink fs p =
    (if through_link fs (butlast p) \<or> (\<exists>q\<in>set (prefixes_of (butlast p)). map_of (fs_files fs) q \<noteq> None)
     then Inl (exc OSError ''not a directory'')
     else if p \<in> set (fs_dirs fs) then Inl (exc IsADirectoryError ''is a directory'')
     else Inr (fs\<lparr>fs_files := AList.delete p (fs_files fs), fs_links := AList.delete p (fs_links fs)\<rparr>))"

definition delete_artifact :: "file_system \<Rightarrow> path \<Rightarrow> uuid \<Rightarrow> uuid \<Rightarrow> string \<Rightarrow> pyexc + file_system" where
  "delete_artifact fs base tn i name =
    (case resolve_path fs base tn i name of Inl e \<Rightarrow> Inl e | Inr p \<Rightarrow> unlink fs p)"

definition artifact_exists :: "file_system \<Rightarrow> path \<Rightarrow> uuid \<Rightarrow> uuid \<Rightarrow> string \<Rightarrow> pyexc + bool" where
  "artifact_exists fs base tn i name =
    (case resolve_path fs base tn i name of Inl e \<Rightarrow> Inl e | Inr p \<Rightarrow> Inr (is_file fs p))"

text \<open>\<open>sorted(scan_dir.rglob("*"))\<close>, kept to what \<open>is_file\<close> accepts (links are followed).\<close>

definition list_artifacts :: "file_system \<Rightarrow> path \<Rightarrow> uuid \<Rightarrow> uuid \<Rightarrow> artifact_ref list" where
  "list_artifacts fs base tn i =
    (let dir = scan_dir fs base tn i in
     if dir \<notin> set (fs_dirs fs) then []
     else concat (map (\<lambda>p. let r = realpath (fs_links fs) p in
         if is_file fs r
         then [\<lparr>ar_key = join ''/'' (drop (length dir) p),
                ar_size_bytes = int (length (the (map_of (fs_files fs) r))), ar_content_type = None\<rparr>]
         else [])
       (sort (filter (proper_prefix dir) (map fst (fs_files fs) @ map fst (fs_links fs))))))"

section \<open>Confinement and round trips\<close>

lemma resolve_path_confined:
  "resolve_path fs base tn i name = Inr p \<Longrightarrow>
    p = scan_dir fs base tn i \<or> proper_prefix (scan_dir fs base tn i) p"
  by (auto simp: resolve_path_def Let_def split: if_splits)

lemma prefixes_of_links: "through_link (fs\<lparr>fs_files := a\<rparr>) p = through_link fs p"
  "through_link (fs\<lparr>fs_dirs := b\<rparr>) p = through_link fs p"
  by (simp_all add: through_link_def)

lemma save_SomeD:
  assumes "save fs base tn i name bytes ct = Inr (r, fs')"
  shows "\<exists>p ds. resolve_path fs base tn i name = Inr p \<and> \<not> through_link fs p \<and> p \<notin> set (fs_dirs fs') \<and>
    fs' = fs\<lparr>fs_dirs := ds, fs_files := AList.update p bytes (fs_files fs)\<rparr> \<and>
    r = \<lparr>ar_key = name, ar_size_bytes = int (length bytes), ar_content_type = ct\<rparr>"
  using assms
  by (auto simp: save_def make_dirs_def write_bytes_def prefixes_of_links split: sum.splits if_splits)

lemma resolve_path_files:
  "resolve_path (fs\<lparr>fs_dirs := b, fs_files := a\<rparr>) base tn i name = resolve_path fs base tn i name"
  by (simp add: resolve_path_def scan_dir_def)

lemma get_after_save:
  assumes "save fs base tn i name bytes ct = Inr (r, fs')"
  shows "get fs' base tn i name = Inr bytes"
proof -
  obtain p ds where p: "resolve_path fs base tn i name = Inr p" "\<not> through_link fs p"
    "fs' = fs\<lparr>fs_dirs := ds, fs_files := AList.update p bytes (fs_files fs)\<rparr>"
    using save_SomeD [OF assms] by blast
  then show ?thesis
    by (simp add: get_def resolve_path_files is_file_def prefixes_of_links update_conv)
qed

text \<open>A path with no symbolic link on it, and no dot segments, is its own \<open>realpath\<close>.\<close>

definition plain_path :: "(path \<times> string) list \<Rightarrow> path \<Rightarrow> bool" where
  "plain_path links p \<longleftrightarrow> (\<forall>q\<in>set (prefixes_of p). map_of links q = None) \<and>
     set p \<inter> {[], ''.'', ''..''} = {}"

lemma plain_path_step:
  assumes "plain_path links (cur @ s # rest)"
  shows "map_of links (cur @ [s]) = None" "s \<noteq> []" "s \<noteq> ''.''" "s \<noteq> ''..''"
proof -
  have "cur @ [s] \<in> set (prefixes_of (cur @ s # rest))"
    unfolding prefixes_of_def by (auto intro!: image_eqI [of _ _ "length cur"])
  then show "map_of links (cur @ [s]) = None" using assms by (simp add: plain_path_def)
  show "s \<noteq> []" "s \<noteq> ''.''" "s \<noteq> ''..''" using assms by (auto simp: plain_path_def)
qed

lemma realpath_loop_plain:
  "plain_path links (cur @ rest) \<Longrightarrow> realpath_loop links seen cur (map Segment rest) = cur @ rest"
proof (induction rest arbitrary: cur)
  case Nil
  then show ?case by simp
next
  case (Cons s rest)
  then show ?case using plain_path_step [OF Cons.prems] Cons.IH [of "cur @ [s]"] by (simp add: Let_def)
qed

lemma realpath_plain: "plain_path links p \<Longrightarrow> realpath links p = p"
  using realpath_loop_plain [of links "[]" p] by (simp add: realpath_def)

lemma namespaces_disjoint:
  assumes "scan_dir fs base tn i = base @ [uuid_str tn, uuid_str i]"
    and "scan_dir fs base tn' i' = base @ [uuid_str tn', uuid_str i']" "(tn, i) \<noteq> (tn', i')"
    and "p = scan_dir fs base tn i \<or> proper_prefix (scan_dir fs base tn i) p"
    and "p' = scan_dir fs base tn' i' \<or> proper_prefix (scan_dir fs base tn' i') p'"
  shows "p \<noteq> p'"
proof -
  let ?n = "length base + 2"
  have "take ?n p = base @ [uuid_str tn, uuid_str i]" "take ?n p' = base @ [uuid_str tn', uuid_str i']"
    using assms(1,2,4,5) by (auto simp: proper_prefix_def)
  then show ?thesis using assms(3) by auto
qed

lemma save_isolated:
  assumes plain: "plain_path (fs_links fs) (base @ [uuid_str tn, uuid_str i])"
      "plain_path (fs_links fs) (base @ [uuid_str tn', uuid_str i'])"
    and other: "(tn, i) \<noteq> (tn', i')" and s: "save fs base tn i name bytes ct = Inr (r, fs')"
  shows "get fs' base tn' i' name' = get fs base tn' i' name'"
proof -
  have dirs: "scan_dir fs base tn i = base @ [uuid_str tn, uuid_str i]"
    "scan_dir fs base tn' i' = base @ [uuid_str tn', uuid_str i']"
    using realpath_plain plain by (simp_all add: scan_dir_def)
  obtain p ds where p: "resolve_path fs base tn i name = Inr p"
    "fs' = fs\<lparr>fs_dirs := ds, fs_files := AList.update p bytes (fs_files fs)\<rparr>"
    using save_SomeD [OF s] by blast
  show ?thesis
  proof (cases "resolve_path fs base tn' i' name'")
    case (Inr q)
    have "p \<noteq> q"
      using namespaces_disjoint [OF dirs other resolve_path_confined [OF p(1)] resolve_path_confined [OF Inr]] .
    then show ?thesis
      unfolding p(2) by (simp add: get_def resolve_path_files Inr is_file_def prefixes_of_links update_conv)
  qed (simp add: get_def p(2) resolve_path_files)
qed

end
