(* ===== verification/Data_Properties.thy ===== *)
theory Data_Properties
  imports Artifact_Storage Finding_Pipeline Retry_Policy
begin

text \<open>
  The value-level parts of the engine: artifact storage under untrusted names, finding
  fingerprints and retry delays.
\<close>

section \<open>Artifacts\<close>

lemma prefixes_of_butlast: "q \<in> set (prefixes_of (butlast p)) \<Longrightarrow> q \<in> set (prefixes_of p) \<and> q \<noteq> p"
  by (auto simp: prefixes_of_def take_butlast image_iff)

text \<open>What a save that succeeds has checked and done.\<close>

definition made_dirs :: "file_system \<Rightarrow> path \<Rightarrow> path list" where
  "made_dirs fs p = fs_dirs fs @ filter (\<lambda>q. q \<notin> set (fs_dirs fs)) (prefixes_of p)"

lemma saved:
  assumes "save fs base tn i name bytes ct = Inr (r, fs')"
  shows "\<exists>p. resolve_path fs base tn i name = Inr p \<and> \<not> through_link fs p \<and> p \<notin> set (made_dirs fs (butlast p)) \<and>
    fs' = fs\<lparr>fs_dirs := made_dirs fs (butlast p), fs_files := AList.update p bytes (fs_files fs)\<rparr> \<and>
    (\<forall>q\<in>set (prefixes_of (butlast p)). map_of (fs_files fs) q = None) \<and>
    r = \<lparr>ar_key = name, ar_size_bytes = int (length bytes), ar_content_type = ct\<rparr>"
  using assms
  by (auto simp: save_def make_dirs_def write_bytes_def prefixes_of_links made_dirs_def split: sum.splits if_splits)

lemma resolved_same:
  "fs_links fs' = fs_links fs \<Longrightarrow> resolve_path fs' base tn i name = resolve_path fs base tn i name"
  "fs_links fs' = fs_links fs \<Longrightarrow> through_link fs' p = through_link fs p"
  by (simp_all add: resolve_path_def scan_dir_def through_link_def)

lemma not_through_butlast: "\<not> through_link fs p \<Longrightarrow> \<not> through_link fs (butlast p)"
  using prefixes_of_butlast by (auto simp: through_link_def)

lemma self_prefix: "p \<noteq> [] \<Longrightarrow> p \<in> set (prefixes_of p)"
  unfolding prefixes_of_def by (auto intro!: image_eqI [of _ _ "length p - 1"])

definition rooted :: "file_system \<Rightarrow> bool" where
  "rooted fs \<longleftrightarrow> [] \<notin> fst ` set (fs_links fs)"

lemma unlinked_same: "rooted fs \<Longrightarrow> \<not> through_link fs p \<Longrightarrow> AList.delete p (fs_links fs) = fs_links fs"
  using self_prefix [of p] by (cases "p = []") (auto simp: rooted_def through_link_def map_of_eq_None_iff)

text \<open>C26 (artifacts): what was saved under a name is what is read back under it, until it is
  deleted, after which it is not found; it lies inside the directory of its scan, whatever
  the name; only names that resolve to the same path are affected; and where no symbolic
  link leads into them, no name of another scan is.\<close>

theorem artifact_round_trip:
  assumes s: "save fs base tn i name bytes ct = Inr (r, fs')" and root: "rooted fs"
  shows "get fs' base tn i name = Inr bytes \<and> artifact_exists fs' base tn i name = Inr True \<and>
    ar_size_bytes r = int (length bytes) \<and>
    (\<exists>p. resolve_path fs base tn i name = Inr p \<and>
      (p = scan_dir fs base tn i \<or> proper_prefix (scan_dir fs base tn i) p) \<and>
      (\<forall>tn' i' name'. resolve_path fs base tn' i' name' \<noteq> Inr p \<longrightarrow>
        get fs' base tn' i' name' = get fs base tn' i' name')) \<and>
    (\<exists>fs''. delete_artifact fs' base tn i name = Inr fs'' \<and> artifact_exists fs'' base tn i name = Inr False \<and>
      get fs'' base tn i name = Inl (exc FileNotFoundError (''Artifact not found: '' @ py_repr name))) \<and>
    (\<forall>tn' i' name'. plain_path (fs_links fs) (base @ [uuid_str tn, uuid_str i]) \<and>
      plain_path (fs_links fs) (base @ [uuid_str tn', uuid_str i']) \<and> (tn, i) \<noteq> (tn', i') \<longrightarrow>
      get fs' base tn' i' name' = get fs base tn' i' name')"
proof -
  obtain p where p: "resolve_path fs base tn i name = Inr p" "\<not> through_link fs p"
    "p \<notin> set (made_dirs fs (butlast p))" "\<forall>q\<in>set (prefixes_of (butlast p)). map_of (fs_files fs) q = None"
    and fs': "fs' = fs\<lparr>fs_dirs := made_dirs fs (butlast p), fs_files := AList.update p bytes (fs_files fs)\<rparr>"
    and r: "ar_size_bytes r = int (length bytes)"
    using saved [OF s] by auto
  have l: "fs_links fs' = fs_links fs" by (simp add: fs')
  have p': "resolve_path fs' base tn i name = Inr p" "\<not> through_link fs' p"
    using p(1,2) resolved_same [OF l] by simp_all
  have others: "get fs' base tn' i' name' = get fs base tn' i' name'"
    if "resolve_path fs base tn' i' name' \<noteq> Inr p" for tn' i' name'
  proof (cases "resolve_path fs base tn' i' name'")
    case (Inr q)
    then have "q \<noteq> p" using that by auto
    then show ?thesis
      using Inr by (simp add: get_def resolved_same [OF l] is_file_def) (simp add: fs' update_conv)
  qed (simp add: get_def resolved_same [OF l])
  let ?fs = "fs'\<lparr>fs_files := AList.delete p (fs_files fs'), fs_links := AList.delete p (fs_links fs')\<rparr>"
  have "\<forall>q\<in>set (prefixes_of (butlast p)). map_of (fs_files fs') q = None"
    using p(4) prefixes_of_butlast by (auto simp: fs' update_conv)
  then have "unlink fs' p = Inr ?fs"
    using p(3) not_through_butlast [OF p'(2)] by (auto simp: unlink_def) (simp add: fs')
  then have del: "delete_artifact fs' base tn i name = Inr ?fs" by (simp add: delete_artifact_def p'(1))
  have l2: "fs_links ?fs = fs_links fs" using unlinked_same [OF root p(2)] by (simp add: l)
  have "resolve_path ?fs base tn i name = Inr p" "\<not> is_file ?fs p"
    using p(1) resolved_same [OF l2] by (simp_all add: is_file_def delete_conv)
  then have gone: "artifact_exists ?fs base tn i name = Inr False"
    "get ?fs base tn i name = Inl (exc FileNotFoundError (''Artifact not found: '' @ py_repr name))"
    by (simp_all add: artifact_exists_def get_def)
  have "is_file fs' p" "map_of (fs_files fs') p = Some bytes"
    using p'(2) by (simp_all add: is_file_def) (simp_all add: fs' update_conv)
  then have "get fs' base tn i name = Inr bytes" "artifact_exists fs' base tn i name = Inr True"
    by (simp_all add: get_def artifact_exists_def p'(1))
  moreover note r resolve_path_confined [OF p(1)] save_isolated [OF _ _ _ s]
  ultimately show ?thesis using p(1) others del gone by blast
qed

definition demo_fs :: file_system where
  "demo_fs = \<lparr>fs_files = [], fs_dirs = [], fs_links = []\<rparr>"

text \<open>A name that is a dot: it is accepted, for the directory of the scan itself.\<close>

lemma realpath_loop_prefix:
  "plain_path links (cur @ rest) \<Longrightarrow>
    realpath_loop links seen cur (map Segment rest @ tail) = realpath_loop links seen (cur @ rest) tail"
proof (induction rest arbitrary: cur)
  case Nil
  then show ?case by simp
next
  case (Cons s rest)
  then show ?case using plain_path_step [OF Cons.prems] Cons.IH [of "cur @ [s]"] by (simp add: Let_def)
qed

lemma resolve_dot:
  assumes "plain_path (fs_links fs) (base @ [uuid_str tn, uuid_str i])"
  shows "scan_dir fs base tn i = base @ [uuid_str tn, uuid_str i]"
    "resolve_path fs base tn i ''.'' = Inr (base @ [uuid_str tn, uuid_str i])"
proof -
  show dir: "scan_dir fs base tn i = base @ [uuid_str tn, uuid_str i]"
    using realpath_plain [OF assms] by (simp add: scan_dir_def)
  have "realpath (fs_links fs) ((base @ [uuid_str tn, uuid_str i]) @ [''.'']) = base @ [uuid_str tn, uuid_str i]"
    using realpath_loop_prefix [of "fs_links fs" "[]" "base @ [uuid_str tn, uuid_str i]" Map.empty "[Segment ''.'']"] assms
    by (simp add: realpath_def)
  then show "resolve_path fs base tn i ''.'' = Inr (base @ [uuid_str tn, uuid_str i])"
    by (simp add: resolve_path_def Let_def dir is_absolute_def)
qed

lemma proper_prefix_dirs:
  assumes "p \<noteq> []" "proper_prefix p q"
  shows "p \<in> set (prefixes_of (butlast q))"
proof -
  have "length p - 1 < length q - 1" using assms by (cases p) (auto simp: proper_prefix_def)
  then show ?thesis
    using assms unfolding prefixes_of_def
    by (auto simp: proper_prefix_def take_butlast intro!: image_eqI [of _ _ "length p - 1"])
qed

text \<open>An artifact named with a dot: the name \<open>.\<close> passes the confinement check and, in a scan that
  has no artifact yet, is saved as a file in the place of the scan's directory; after that
  every save in the scan under a name that lies inside the directory fails.\<close>

theorem dot_artifact_blocks_scan:
  assumes plain: "plain_path (fs_links fs) (base @ [uuid_str tn, uuid_str i])"
    and fresh: "scan_dir fs base tn i \<notin> set (fs_dirs fs)"
      "\<forall>q\<in>set (prefixes_of (scan_dir fs base tn i)). map_of (fs_files fs) q = None"
  shows "\<exists>r fs'. save fs base tn i ''.'' bytes ct = Inr (r, fs') \<and>
    (\<forall>name p bytes' ct'. resolve_path fs base tn i name = Inr p \<and> p \<noteq> scan_dir fs base tn i \<longrightarrow>
      (\<exists>e. save fs' base tn i name bytes' ct' = Inl e \<and> ex_class e = OSError))"
proof -
  let ?dir = "base @ [uuid_str tn, uuid_str i]"
  note dot = resolve_dot [OF plain]
  let ?fs = "fs\<lparr>fs_dirs := made_dirs fs (butlast ?dir), fs_files := AList.update ?dir bytes (fs_files fs)\<rparr>"
  have no: "map_of (fs_links fs) q = None" "map_of (fs_files fs) q = None" if "q \<in> set (prefixes_of ?dir)" for q
    using that plain fresh(2) by (auto simp: plain_path_def dot(1))
  have "\<forall>q\<in>set (prefixes_of (butlast ?dir)). map_of (fs_files fs) q = None \<and> map_of (fs_links fs) q = None"
    using no prefixes_of_butlast [of _ ?dir] by blast
  then have mk: "make_dirs fs (butlast ?dir) = Inr (fs\<lparr>fs_dirs := made_dirs fs (butlast ?dir)\<rparr>)"
    by (auto simp: make_dirs_def made_dirs_def)
  have "?dir \<notin> set (made_dirs fs (butlast ?dir))"
    using fresh(1) prefixes_of_butlast [of ?dir ?dir] by (auto simp: made_dirs_def dot(1))
  moreover have "\<not> through_link fs ?dir" using no by (auto simp: through_link_def)
  ultimately have "save fs base tn i ''.'' bytes ct =
      Inr (\<lparr>ar_key = ''.'', ar_size_bytes = int (length bytes), ar_content_type = ct\<rparr>, ?fs)"
    by (simp add: save_def dot(2) mk write_bytes_def prefixes_of_links)
  moreover have "\<exists>e. save ?fs base tn i name bytes' ct' = Inl e \<and> ex_class e = OSError"
    if p: "resolve_path fs base tn i name = Inr p" "p \<noteq> scan_dir fs base tn i" for name p bytes' ct'
  proof -
    have "proper_prefix ?dir p" using resolve_path_confined [OF p(1)] p(2) by (simp add: dot(1))
    then have "?dir \<in> set (prefixes_of (butlast p))" by (intro proper_prefix_dirs) simp
    moreover have "map_of (fs_files ?fs) ?dir \<noteq> None" by (simp add: update_conv)
    ultimately have "make_dirs ?fs (butlast p) = Inl (exc OSError ''not a directory'')"
      unfolding make_dirs_def by (subst if_P) blast+
    moreover have "resolve_path ?fs base tn i name = Inr p" using p(1) resolved_same(1) [of ?fs fs] by simp
    ultimately show ?thesis by (simp add: save_def)
  qed
  ultimately show ?thesis by blast
qed

theorem artifact_round_trip_witness:
  "\<exists>r fs'. save demo_fs [''srv''] 1 2 ''a.txt'' ''data'' None = Inr (r, fs') \<and> get fs' [''srv''] 1 2 ''a.txt'' = Inr ''data''"
proof -
  have "\<not> isl (save demo_fs [''srv''] 1 2 ''a.txt'' ''data'' None)" by code_simp
  then obtain r fs' where s: "save demo_fs [''srv''] 1 2 ''a.txt'' ''data'' None = Inr (r, fs')"
    by (cases "save demo_fs [''srv''] 1 2 ''a.txt'' ''data'' None") auto
  moreover have "rooted demo_fs" by (simp add: rooted_def demo_fs_def)
  ultimately show ?thesis using artifact_round_trip [OF s] by blast
qed

theorem dot_artifact_blocks_scan_witness:
  "\<exists>r fs'. save demo_fs [''srv''] 1 2 ''.'' ''data'' None = Inr (r, fs')"
proof -
  have "plain_path (fs_links demo_fs) ([''srv''] @ [uuid_str 1, uuid_str 2])" by code_simp
  moreover have "scan_dir demo_fs [''srv''] 1 2 \<notin> set (fs_dirs demo_fs)"
    "\<forall>q\<in>set (prefixes_of (scan_dir demo_fs [''srv''] 1 2)). map_of (fs_files demo_fs) q = None"
    by (simp_all add: demo_fs_def)
  ultimately show ?thesis using dot_artifact_blocks_scan by blast
qed

section \<open>Path resolution\<close>

definition clean :: "path \<Rightarrow> bool" where
  "clean p \<longleftrightarrow> set p \<inter> {[], ''.'', ''..''} = {}"

lemma clean_iff: "clean p \<longleftrightarrow> [] \<notin> set p \<and> ''.'' \<notin> set p \<and> ''..'' \<notin> set p"
  unfolding clean_def by blast

lemma clean_simps [simp]: "clean []" "clean (p @ q) \<longleftrightarrow> clean p \<and> clean q"
  "clean [s] \<longleftrightarrow> s \<noteq> [] \<and> s \<noteq> ''.'' \<and> s \<noteq> ''..''"
  unfolding clean_iff by auto

lemma clean_butlast: "clean p \<Longrightarrow> clean (butlast p)"
  by (auto simp: clean_def dest: in_set_butlastD)

definition clean_seen :: "(path \<Rightarrow> path option option) \<Rightarrow> bool" where
  "clean_seen seen \<longleftrightarrow> (\<forall>l p. seen l = Some (Some p) \<longrightarrow> clean p)"

lemma clean_seen_simps [simp]:
  "clean_seen Map.empty" "clean_seen seen \<Longrightarrow> clean_seen (seen(l \<mapsto> None))"
  "clean_seen seen \<Longrightarrow> clean p \<Longrightarrow> clean_seen (seen(l \<mapsto> Some p))"
  by (auto simp: clean_seen_def)

lemma clean_seenD: "clean_seen seen \<Longrightarrow> seen l = Some (Some p) \<Longrightarrow> clean p"
  by (auto simp: clean_seen_def)

lemma realpath_loop_clean:
  "clean cur \<Longrightarrow> clean_seen seen \<Longrightarrow> clean (realpath_loop links seen cur st)"
proof (induction links seen cur st rule: realpath_loop.induct)
  case (3 links seen cur s rest)
  show ?case
  proof (cases "s = [] \<or> s = ''.'' \<or> s = ''..''")
    case True
    then show ?thesis using 3 by (auto simp: clean_butlast)
  next
    case False
    let ?new = "cur @ [s]"
    have s: "s \<noteq> []" "s \<noteq> ''.''" "s \<noteq> ''..''" and new: "clean ?new" using False 3(7) by simp_all
    show ?thesis
    proof (cases "map_of links ?new")
      case None
      then show ?thesis using s 3(3) [OF _ _ refl None new 3(8)] by (simp add: Let_def)
    next
      case (Some target)
      note m = this
      show ?thesis
      proof (cases "seen ?new")
        case None
        then show ?thesis using s m 3(4) [OF _ _ refl m None _ clean_seen_simps(2) [OF 3(8)]] 3(7)
          by (simp add: Let_def del: fun_upd_apply)
      next
        case (Some p)
        then show ?thesis
          using s m 3(5,6) [OF _ _ refl m] new 3(8) clean_seenD [OF 3(8)] by (cases p) (simp_all add: Let_def)
      qed
    qed
  qed
qed simp_all

lemma realpath_clean: "clean (realpath links segs)"
  by (simp add: realpath_def realpath_loop_clean)

lemma realpath_prefix:
  "plain_path links p \<Longrightarrow> realpath links (p @ t) = realpath_loop links Map.empty p (map Segment t)"
  using realpath_loop_prefix [of links "[]" p Map.empty "map Segment t"] by (simp add: realpath_def)

lemma self_link:
  "split_slash [] s = [s] \<Longrightarrow> \<not> is_absolute s \<Longrightarrow> clean [s] \<Longrightarrow>
    realpath_loop [(cur @ [s], s)] Map.empty cur [Segment s] = cur @ [s]"
  by (simp add: Let_def)

text \<open>C37 (resolving a name): resolving an artifact's name ends whatever cycles the symbolic links form, in
  an error of the two kinds that are meant or in a path with no empty and no dot segment,
  so that comparing it with the scan's directory segment by segment is the confinement
  check it is meant to be; a link that points to itself, on which following links without
  remembering them would never end, resolves to its own path.\<close>

theorem resolution_ends:
  "(case resolve_path fs base tn i name of
      Inl e \<Rightarrow> ex_class e \<in> {ArtifactPathError, ValueError}
    | Inr p \<Rightarrow> clean p \<and> clean (scan_dir fs base tn i) \<and>
        (p = scan_dir fs base tn i \<or> proper_prefix (scan_dir fs base tn i) p)) \<and>
    (fs_links fs = [(base @ [uuid_str tn, uuid_str i, s], s)] \<and> CHR ''/'' \<notin> set s \<and> CHR 0x00 \<notin> set s \<and>
      plain_path (fs_links fs) (base @ [uuid_str tn, uuid_str i]) \<and> clean [s] \<longrightarrow>
      resolve_path fs base tn i s = Inr (base @ [uuid_str tn, uuid_str i, s]))"
proof (intro conjI impI)
  show "case resolve_path fs base tn i name of
      Inl e \<Rightarrow> ex_class e \<in> {ArtifactPathError, ValueError}
    | Inr p \<Rightarrow> clean p \<and> clean (scan_dir fs base tn i) \<and>
        (p = scan_dir fs base tn i \<or> proper_prefix (scan_dir fs base tn i) p)"
    using realpath_clean by (auto simp: resolve_path_def Let_def scan_dir_def)
next
  let ?dir = "base @ [uuid_str tn, uuid_str i]"
  assume s: "fs_links fs = [(base @ [uuid_str tn, uuid_str i, s], s)] \<and> CHR ''/'' \<notin> set s \<and> CHR 0x00 \<notin> set s \<and>
    plain_path (fs_links fs) ?dir \<and> clean [s]"
  have "split_slash acc x = [rev acc @ x]" if "CHR ''/'' \<notin> set x" for acc x
    using that by (induction x arbitrary: acc) auto
  then have split: "split_slash [] s = [s]" using s by simp
  have rel: "\<not> is_absolute s" using s by (cases s) (auto simp: is_absolute_def)
  have "realpath (fs_links fs) (?dir @ [s]) = ?dir @ [s]"
  proof -
    from s have l: "fs_links fs = [(?dir @ [s], s)]" and pl: "plain_path (fs_links fs) ?dir" and c: "clean [s]" by auto
    show ?thesis using realpath_prefix [OF pl, of "[s]"] self_link [OF split rel c, of ?dir] unfolding l list.map by (rule trans)
  qed
  then show "resolve_path fs base tn i s = Inr (base @ [uuid_str tn, uuid_str i, s])"
    using s split rel resolve_dot(1) [of fs base tn i] by (auto simp: resolve_path_def proper_prefix_def Let_def)
qed

theorem resolution_ends_witness:
  "resolve_path \<lparr>fs_files = [], fs_dirs = [], fs_links = [([''srv'', uuid_str 1, uuid_str 2, ''l''], ''l'')]\<rparr> [''srv''] 1 2 ''l'' =
    Inr [''srv'', uuid_str 1, uuid_str 2, ''l'']"
proof -
  have "plain_path [([''srv'', uuid_str 1, uuid_str 2, ''l''], ''l'')] [''srv'', uuid_str 1, uuid_str 2]" by code_simp
  then show ?thesis
    using resolution_ends [of "\<lparr>fs_files = [], fs_dirs = [], fs_links = [([''srv'', uuid_str 1, uuid_str 2, ''l''], ''l'')]\<rparr>"
        "[''srv'']" 1 2 "[]" "''l''"]
    by simp
qed

section \<open>Fingerprints\<close>

text \<open>Fingerprints: findings whose scanner type, rule and locator are free of the separator get
  the same fingerprint from every digest only when they agree in all four components.
  Nothing keeps the separator out of a scanner's output, and a rule that has it in it is
  not told apart from a locator that does: whatever the digest, those findings collide.\<close>

theorem fingerprint_exact:
  "((fp_separator \<notin> set s \<and> fp_separator \<notin> set r \<and> fp_separator \<notin> set l \<and>
      fp_separator \<notin> set s' \<and> fp_separator \<notin> set r' \<and> fp_separator \<notin> set l') \<longrightarrow>
      (\<forall>sha. compute_fingerprint sha s r l d = compute_fingerprint sha s' r' l' d') =
      (s = s' \<and> r = r' \<and> l = l' \<and> d = d')) \<and>
    compute_fingerprint sha s (r @ fp_separator # x) l d = compute_fingerprint sha s r (x @ fp_separator # l) d"
proof (intro conjI impI)
  assume "fp_separator \<notin> set s \<and> fp_separator \<notin> set r \<and> fp_separator \<notin> set l \<and>
    fp_separator \<notin> set s' \<and> fp_separator \<notin> set r' \<and> fp_separator \<notin> set l'"
  then have p: "fingerprint_payload s r l d = fingerprint_payload s' r' l' d' \<longleftrightarrow>
      s = s' \<and> r = r' \<and> l = l' \<and> d = d'"
    by (intro fingerprint_payload_inject) simp_all
  have "(\<forall>sha. compute_fingerprint sha s r l d = compute_fingerprint sha s' r' l' d') \<longleftrightarrow>
      fingerprint_payload s r l d = fingerprint_payload s' r' l' d'"
    by (auto simp: compute_fingerprint_def dest: spec [of _ "\<lambda>x. x"])
  with p show "(\<forall>sha. compute_fingerprint sha s r l d = compute_fingerprint sha s' r' l' d') =
      (s = s' \<and> r = r' \<and> l = l' \<and> d = d')" by simp
next
  show "compute_fingerprint sha s (r @ fp_separator # x) l d = compute_fingerprint sha s r (x @ fp_separator # l) d"
    by (simp add: compute_fingerprint_def fingerprint_payload_def)
qed

theorem fingerprint_exact_witness:
  "\<not> (\<forall>sha. compute_fingerprint sha ''noop'' ''r1'' ''l'' ''d'' = compute_fingerprint sha ''noop'' ''r2'' ''l'' ''d'') \<and>
    compute_fingerprint (\<lambda>p. p) ''noop'' (''a'' @ fp_separator # ''b'') ''c'' ''d'' =
      compute_fingerprint (\<lambda>p. p) ''noop'' ''a'' (''b'' @ fp_separator # ''c'') ''d''"
proof -
  have f: "fp_separator \<notin> set ''nopr12l''" by code_simp
  then show ?thesis
    using fingerprint_exact [of "''noop''" "''r1''" "''l''" "''noop''" "''r2''" "''l''" "''d''" "''d''" "\<lambda>p. p" "[]"]
    fingerprint_exact [of "''noop''" "''a''" "''c''" "''noop''" "''a''" "''c''" "''d''" "''d''" "\<lambda>p. p" "''b''"]
    by simp
qed

section \<open>Retry delays\<close>

lemma pow2_nat: "pow2 (int n) = 2 ^ n"
  by (simp add: pow2_def)

text \<open>Retry delays: the delay after the attempt \<open>a\<close> doubles with each attempt from the base delay until
  it reaches the maximum and stays there; jitter only shortens it, and never below zero;
  and it exists for the first 1024 attempts and for none after them, where computing it
  raises an overflow.\<close>

theorem retry_delay_bounds:
  assumes "0 \<le> rp_base_delay_seconds p" "0 \<le> rp_max_delay_seconds p" "0 \<le> u" "u \<le> 1"
  shows "backoff p (int n + 1) = min (rp_base_delay_seconds p * 2 ^ n) (rp_max_delay_seconds p) \<and>
    (a \<le> b \<longrightarrow> backoff p a \<le> backoff p b) \<and>
    (if a \<le> 1024
     then \<exists>x. next_delay_seconds p u a = Inr x \<and> 0 \<le> x \<and> x \<le> backoff p a \<and> x \<le> rp_max_delay_seconds p \<and>
       (\<not> rp_jitter p \<longrightarrow> x = backoff p a)
     else \<exists>e. next_delay_seconds p u a = Inl e \<and> ex_class e = OverflowError)"
proof (intro conjI impI)
  show "backoff p (int n + 1) = min (rp_base_delay_seconds p * 2 ^ n) (rp_max_delay_seconds p)"
    by (simp add: backoff_def pow2_nat)
  show "backoff p a \<le> backoff p b" if "a \<le> b" by (rule backoff_mono [OF assms(1) that])
  show "if a \<le> 1024
     then \<exists>x. next_delay_seconds p u a = Inr x \<and> 0 \<le> x \<and> x \<le> backoff p a \<and> x \<le> rp_max_delay_seconds p \<and>
       (\<not> rp_jitter p \<longrightarrow> x = backoff p a)
     else \<exists>e. next_delay_seconds p u a = Inl e \<and> ex_class e = OverflowError"
  proof (cases "a \<le> 1024")
    case True
    then obtain x where x: "next_delay_seconds p u a = Inr x" by (auto simp: next_delay_seconds_def)
    from next_delay_bounds [OF assms x] backoff_le_max [of p a] x True show ?thesis
      by (auto simp: next_delay_seconds_def split: if_splits)
  qed (simp add: next_delay_seconds_def)
qed

theorem retry_delay_bounds_witness:
  "backoff \<lparr>rp_base_delay_seconds = 2, rp_max_delay_seconds = 60, rp_jitter = False\<rparr> (int 3 + 1) = 16"
  using retry_delay_bounds [of "\<lparr>rp_base_delay_seconds = 2, rp_max_delay_seconds = 60, rp_jitter = False\<rparr>" 0 3 1 2]
  by simp

end
