(* ===== verification/Schema.thy ===== *)
theory Schema
  imports Models
begin

text \<open>
  The database schema and the statements that change it.  A schema is its tables in the
  order they were made; a statement is what the migrations of \<open>alembic/versions\<close> call on
  \<open>alembic.op\<close>, with the effect PostgreSQL documents for the DDL it emits, errors
  included.  A row is checked against a table under SQL's three-valued logic.
\<close>

section \<open>Tables\<close>

datatype col_type =
    TString nat
  | TText
  | TUuid
  | TTimestamp
  | TInteger
  | TFloat
  | TJsonb
  | TStringArray nat
  | TEnum string "string list" nat

datatype server_default = Literal string | SqlFunction string

record column =
  co_name :: string
  co_type :: col_type
  co_nullable :: bool
  co_default :: "server_default option"

text \<open>The conditions the migrations write, in the forms they use.\<close>

datatype sql =
    IsNull string
  | AtLeast string int
  | Above string int
  | AtMost string int
  | NotBefore string string
  | OneOf string "string list"
  | SizeAtMost string nat
  | SetAtMost "string list" nat
  | SqlAnd sql sql
  | SqlOr sql sql

datatype on_delete = Restrict | Cascade | SetNull

datatype constraint =
    PrimaryKey string "string list"
  | Unique string "string list"
  | ForeignKey string "string list" string "string list" on_delete
  | Check string sql

record index =
  ix_name :: string
  ix_columns :: "string list"
  ix_where :: "sql option"

record table_def =
  td_name :: string
  td_columns :: "column list"
  td_constraints :: "constraint list"
  td_indexes :: "index list"

type_synonym schema = "table_def list"

fun sql_columns :: "sql \<Rightarrow> string list" where
  "sql_columns (IsNull c) = [c]"
| "sql_columns (AtLeast c n) = [c]"
| "sql_columns (Above c n) = [c]"
| "sql_columns (AtMost c n) = [c]"
| "sql_columns (NotBefore c d) = [c, d]"
| "sql_columns (OneOf c xs) = [c]"
| "sql_columns (SizeAtMost c n) = [c]"
| "sql_columns (SetAtMost cs n) = cs"
| "sql_columns (SqlAnd p q) = sql_columns p @ sql_columns q"
| "sql_columns (SqlOr p q) = sql_columns p @ sql_columns q"

fun constraint_name :: "constraint \<Rightarrow> string" where
  "constraint_name (PrimaryKey n cs) = n"
| "constraint_name (Unique n cs) = n"
| "constraint_name (ForeignKey n cs t ds d) = n"
| "constraint_name (Check n p) = n"

fun constraint_columns :: "constraint \<Rightarrow> string list" where
  "constraint_columns (PrimaryKey n cs) = cs"
| "constraint_columns (Unique n cs) = cs"
| "constraint_columns (ForeignKey n cs t ds d) = cs"
| "constraint_columns (Check n p) = sql_columns p"

text \<open>A foreign key as its table, columns, target table, target columns and action.\<close>

fun foreign_key :: "constraint \<Rightarrow> (string list \<times> string \<times> string list \<times> on_delete) option" where
  "foreign_key (ForeignKey n cs t ds d) = Some (cs, t, ds, d)"
| "foreign_key _ = None"

fun key_columns :: "constraint \<Rightarrow> string list option" where
  "key_columns (PrimaryKey n cs) = Some cs"
| "key_columns (Unique n cs) = Some cs"
| "key_columns _ = None"

definition table_of :: "string \<Rightarrow> schema \<Rightarrow> table_def option" where
  "table_of t s = List.find (\<lambda>x. td_name x = t) s"

definition column_of :: "string \<Rightarrow> table_def \<Rightarrow> column option" where
  "column_of c t = List.find (\<lambda>x. co_name x = c) (td_columns t)"

definition column_types :: "string list \<Rightarrow> table_def \<Rightarrow> col_type option list" where
  "column_types cs t = map (\<lambda>c. map_option co_type (column_of c t)) cs"

definition has_columns :: "string list \<Rightarrow> table_def \<Rightarrow> bool" where
  "has_columns cs t \<longleftrightarrow> set cs \<subseteq> set (map co_name (td_columns t))"

definition table_keys :: "table_def \<Rightarrow> string list list" where
  "table_keys t = List.map_filter key_columns (td_constraints t)"

definition table_foreign_keys :: "table_def \<Rightarrow> (string list \<times> string \<times> string list \<times> on_delete) list" where
  "table_foreign_keys t = List.map_filter foreign_key (td_constraints t)"

section \<open>Statements\<close>

datatype ddl =
    CreateTable string "column list" "constraint list"
  | DropTable string
  | AddColumn string column
  | DropColumn string string
  | AddConstraint string constraint
  | DropConstraint string string
  | CreateIndex string index
  | DropIndex string string

datatype ddl_error =
    DuplicateTable
  | UndefinedTable
  | DuplicateColumn
  | UndefinedColumn
  | DuplicateObject
  | UndefinedObject
  | InvalidForeignKey
  | DependentObjectsStillExist

text \<open>
  \<open>sa.Enum(native_enum=False, create_constraint=True)\<close>: a \<open>VARCHAR\<close> and a check, named by
  the convention of \<open>db/base.py\<close>.
\<close>

definition ck_name :: "string \<Rightarrow> string \<Rightarrow> string" where
  "ck_name t n = ''ck_'' @ t @ ''_'' @ n"

fun enum_check :: "string \<Rightarrow> column \<Rightarrow> constraint option" where
  "enum_check t c = (case co_type c of TEnum n xs k \<Rightarrow> Some (Check (ck_name t n) (OneOf (co_name c) xs)) | _ \<Rightarrow> None)"

text \<open>A foreign key needs a key on exactly its target columns, and columns of equal types.\<close>

definition foreign_key_ok :: "schema \<Rightarrow> table_def \<Rightarrow> constraint \<Rightarrow> bool" where
  "foreign_key_ok s t c = (case foreign_key c of None \<Rightarrow> True | Some (cs, u, ds, d) \<Rightarrow>
     (case table_of u s of None \<Rightarrow> False | Some v \<Rightarrow>
        list_ex (\<lambda>k. set k = set ds) (table_keys v) \<and> column_types cs t = column_types ds v))"

definition constraint_ok :: "schema \<Rightarrow> table_def \<Rightarrow> constraint \<Rightarrow> bool" where
  "constraint_ok s t c \<longleftrightarrow> has_columns (constraint_columns c) t \<and> foreign_key_ok s t c"

definition replace_table :: "table_def \<Rightarrow> schema \<Rightarrow> schema" where
  "replace_table t s = map (\<lambda>x. if td_name x = td_name t then t else x) s"

text \<open>Another constraint that relies on a key over these columns of the table.\<close>

definition key_in_use :: "string \<Rightarrow> (string list \<Rightarrow> bool) \<Rightarrow> schema \<Rightarrow> bool" where
  "key_in_use t P s = list_ex (\<lambda>x. list_ex (\<lambda>(cs, u, ds, d). u = t \<and> P ds) (table_foreign_keys x)) s"

definition referenced :: "string \<Rightarrow> schema \<Rightarrow> bool" where
  "referenced t s = list_ex (\<lambda>x. td_name x \<noteq> t \<and> list_ex (\<lambda>(cs, u, ds, d). u = t) (table_foreign_keys x)) s"

definition index_names :: "schema \<Rightarrow> string list" where
  "index_names s = concat (map (\<lambda>t. map ix_name (td_indexes t)) s)"

definition with_table :: "string \<Rightarrow> schema \<Rightarrow> (table_def \<Rightarrow> ddl_error + schema) \<Rightarrow> ddl_error + schema" where
  "with_table t s f = (case table_of t s of None \<Rightarrow> Inl UndefinedTable | Some x \<Rightarrow> f x)"

fun apply_ddl :: "ddl \<Rightarrow> schema \<Rightarrow> ddl_error + schema" where
  "apply_ddl (CreateTable t cols cons) s =
    (let cons' = cons @ List.map_filter (enum_check t) cols;
         new = \<lparr>td_name = t, td_columns = cols, td_constraints = cons', td_indexes = []\<rparr> in
     if table_of t s \<noteq> None then Inl DuplicateTable
     else if \<not> distinct (map co_name cols) then Inl DuplicateColumn
     else if \<not> distinct (map constraint_name cons') then Inl DuplicateObject
     else if \<not> list_all (\<lambda>c. has_columns (constraint_columns c) new) cons' then Inl UndefinedColumn
     else if \<not> list_all (foreign_key_ok (s @ [new]) new) cons' then Inl InvalidForeignKey
     else Inr (s @ [new]))"
| "apply_ddl (DropTable t) s = with_table t s (\<lambda>_.
     if referenced t s then Inl DependentObjectsStillExist else Inr (filter (\<lambda>x. td_name x \<noteq> t) s))"
| "apply_ddl (AddColumn t c) s = with_table t s (\<lambda>x.
     if column_of (co_name c) x \<noteq> None then Inl DuplicateColumn
     else Inr (replace_table (x\<lparr>td_columns := td_columns x @ [c],
       td_constraints := td_constraints x @ List.map_filter (enum_check t) [c]\<rparr>) s))"
| "apply_ddl (DropColumn t c) s = with_table t s (\<lambda>x.
     if column_of c x = None then Inl UndefinedColumn
     else let x' = x\<lparr>td_columns := filter (\<lambda>y. co_name y \<noteq> c) (td_columns x),
                     td_constraints := filter (\<lambda>k. c \<notin> set (constraint_columns k)) (td_constraints x),
                     td_indexes := filter (\<lambda>i. c \<notin> set (ix_columns i)) (td_indexes x)\<rparr>;
              s' = replace_table x' s in
       if key_in_use t (\<lambda>ds. c \<in> set ds) s' then Inl DependentObjectsStillExist else Inr s')"
| "apply_ddl (AddConstraint t k) s = with_table t s (\<lambda>x.
     if constraint_name k \<in> set (map constraint_name (td_constraints x)) then Inl DuplicateObject
     else if \<not> has_columns (constraint_columns k) x then Inl UndefinedColumn
     else if \<not> foreign_key_ok s x k then Inl InvalidForeignKey
     else Inr (replace_table (x\<lparr>td_constraints := td_constraints x @ [k]\<rparr>) s))"
| "apply_ddl (DropConstraint t n) s = with_table t s (\<lambda>x.
     case List.find (\<lambda>k. constraint_name k = n) (td_constraints x) of
       None \<Rightarrow> Inl UndefinedObject
     | Some k \<Rightarrow>
        let s' = replace_table (x\<lparr>td_constraints := filter (\<lambda>k. constraint_name k \<noteq> n) (td_constraints x)\<rparr>) s in
        if (case key_columns k of None \<Rightarrow> False | Some cs \<Rightarrow> key_in_use t (\<lambda>ds. set ds = set cs) s')
        then Inl DependentObjectsStillExist else Inr s')"
| "apply_ddl (CreateIndex t i) s = with_table t s (\<lambda>x.
     if ix_name i \<in> set (index_names s) then Inl DuplicateObject
     else if \<not> has_columns (ix_columns i) x then Inl UndefinedColumn
     else Inr (replace_table (x\<lparr>td_indexes := td_indexes x @ [i]\<rparr>) s))"
| "apply_ddl (DropIndex n t) s = with_table t s (\<lambda>x.
     if n \<notin> set (map ix_name (td_indexes x)) then Inl UndefinedObject
     else Inr (replace_table (x\<lparr>td_indexes := filter (\<lambda>i. ix_name i \<noteq> n) (td_indexes x)\<rparr>) s))"

fun run_ddl :: "ddl list \<Rightarrow> schema \<Rightarrow> ddl_error + schema" where
  "run_ddl [] s = Inr s"
| "run_ddl (o1 # os) s = (case apply_ddl o1 s of Inl e \<Rightarrow> Inl e | Inr s' \<Rightarrow> run_ddl os s')"

text \<open>A revision, and the chain that \<open>alembic upgrade head\<close> and \<open>downgrade base\<close> walk.\<close>

record revision =
  rv_id :: string
  rv_down :: "string option"
  rv_upgrade :: "ddl list"
  rv_downgrade :: "ddl list"

fun successor :: "string option \<Rightarrow> revision list \<Rightarrow> revision option" where
  "successor r rs = List.find (\<lambda>x. rv_down x = r) rs"

fun upgrade_all :: "revision list \<Rightarrow> schema \<Rightarrow> ddl_error + schema" where
  "upgrade_all [] s = Inr s"
| "upgrade_all (r # rs) s = (case run_ddl (rv_upgrade r) s of Inl e \<Rightarrow> Inl e | Inr s' \<Rightarrow> upgrade_all rs s')"

fun linked :: "string option \<Rightarrow> revision list \<Rightarrow> bool" where
  "linked prev [] = True"
| "linked prev (r # rs) = (rv_down r = prev \<and> linked (Some (rv_id r)) rs)"

section \<open>Rows\<close>

datatype sql_value =
    VText string
  | VInt int
  | VTime int
  | VFloat rat
  | VUuid uuid
  | VTexts "string list"
  | VJson json

type_synonym sql_row = "(string \<times> sql_value option) list"

text \<open>A column the row does not list is \<open>NULL\<close>.\<close>

definition value_of :: "sql_row \<Rightarrow> string \<Rightarrow> sql_value option" where
  "value_of r c = (case map_of r c of Some v \<Rightarrow> v | None \<Rightarrow> None)"

fun fits :: "col_type \<Rightarrow> sql_value \<Rightarrow> bool" where
  "fits (TString n) (VText s) = (length s \<le> n)"
| "fits TText (VText s) = True"
| "fits TUuid (VUuid u) = True"
| "fits TTimestamp (VTime t) = True"
| "fits TInteger (VInt i) = (- (2 ^ 31) \<le> i \<and> i < 2 ^ 31)"
| "fits TFloat (VFloat x) = True"
| "fits TJsonb (VJson j) = True"
| "fits (TStringArray n) (VTexts xs) = (\<forall>s\<in>set xs. length s \<le> n)"
| "fits (TEnum m xs n) (VText s) = (length s \<le> n)"
| "fits _ _ = False"

fun compare_num :: "(rat \<Rightarrow> bool) \<Rightarrow> sql_value option \<Rightarrow> bool option" where
  "compare_num P None = None"
| "compare_num P (Some (VInt i)) = Some (P (of_int i))"
| "compare_num P (Some (VFloat x)) = Some (P x)"
| "compare_num P (Some _) = None"

fun sql_and :: "bool option \<Rightarrow> bool option \<Rightarrow> bool option" where
  "sql_and (Some False) q = Some False"
| "sql_and (Some True) q = q"
| "sql_and None (Some False) = Some False"
| "sql_and None _ = None"

fun sql_or :: "bool option \<Rightarrow> bool option \<Rightarrow> bool option" where
  "sql_or (Some True) q = Some True"
| "sql_or (Some False) q = q"
| "sql_or None (Some True) = Some True"
| "sql_or None _ = None"

text \<open>\<open>pg_column_size\<close> is the parameter \<open>sz\<close>.\<close>

fun holds :: "(json \<Rightarrow> nat) \<Rightarrow> sql_row \<Rightarrow> sql \<Rightarrow> bool option" where
  "holds sz r (IsNull c) = Some (value_of r c = None)"
| "holds sz r (AtLeast c n) = compare_num (\<lambda>x. of_int n \<le> x) (value_of r c)"
| "holds sz r (Above c n) = compare_num (\<lambda>x. of_int n < x) (value_of r c)"
| "holds sz r (AtMost c n) = compare_num (\<lambda>x. x \<le> of_int n) (value_of r c)"
| "holds sz r (NotBefore c d) = (case (value_of r c, value_of r d) of
     (Some (VTime t), Some (VTime u)) \<Rightarrow> Some (u \<le> t) | _ \<Rightarrow> None)"
| "holds sz r (OneOf c xs) = (case value_of r c of Some (VText s) \<Rightarrow> Some (s \<in> set xs) | _ \<Rightarrow> None)"
| "holds sz r (SizeAtMost c n) = (case value_of r c of Some (VJson j) \<Rightarrow> Some (sz j \<le> n) | _ \<Rightarrow> None)"
| "holds sz r (SetAtMost cs n) = Some (length (filter (\<lambda>c. value_of r c \<noteq> None) cs) \<le> n)"
| "holds sz r (SqlAnd p q) = sql_and (holds sz r p) (holds sz r q)"
| "holds sz r (SqlOr p q) = sql_or (holds sz r p) (holds sz r q)"

text \<open>A check refuses a row only when it is false; unknown passes.\<close>

fun check_passes :: "(json \<Rightarrow> nat) \<Rightarrow> sql_row \<Rightarrow> constraint \<Rightarrow> bool" where
  "check_passes sz r (Check n p) = (holds sz r p \<noteq> Some False)"
| "check_passes sz r _ = True"

definition column_accepts :: "sql_row \<Rightarrow> column \<Rightarrow> bool" where
  "column_accepts r c = (case value_of r (co_name c) of None \<Rightarrow> co_nullable c | Some v \<Rightarrow> fits (co_type c) v)"

definition row_accepted :: "(json \<Rightarrow> nat) \<Rightarrow> table_def \<Rightarrow> sql_row \<Rightarrow> bool" where
  "row_accepted sz t r \<longleftrightarrow> list_all (column_accepts r) (td_columns t) \<and> list_all (check_passes sz r) (td_constraints t)"

end
