(* ===== verification/Migrations.thy ===== *)
theory Migrations
  imports Schema
begin

text \<open>
  The migrations of \<open>alembic/versions\<close>, statement by statement, as \<open>alembic upgrade\<close> and
  \<open>alembic downgrade\<close> run them.  A condition that the source gives as SQL text is written
  as the \<open>sql\<close> value it parses to.
\<close>

definition sa_column :: "string \<Rightarrow> col_type \<Rightarrow> bool \<Rightarrow> server_default option \<Rightarrow> column" where
  "sa_column n t nullable d = \<lparr>co_name = n, co_type = t, co_nullable = nullable, co_default = d\<rparr>"

section \<open>Revision \<open>a174c38765f8\<close>: foundation\<close>

definition create_tenants :: ddl where
  "create_tenants = CreateTable ''tenants''
    [sa_column ''name'' (TString 200) False None,
     sa_column ''slug'' (TString 100) False None,
     sa_column ''status'' (TEnum ''tenant_status'' [''ACTIVE'', ''SUSPENDED'', ''ARCHIVED''] 32) False (Some (Literal ''active'')),
     sa_column ''deleted_at'' TTimestamp True None,
     sa_column ''id'' TUuid False None,
     sa_column ''created_at'' TTimestamp False (Some (SqlFunction ''now()'')),
     sa_column ''updated_at'' TTimestamp False (Some (SqlFunction ''now()''))]
    [PrimaryKey ''pk_tenants'' [''id''],
     Unique ''uq_tenants_slug'' [''slug'']]"

definition create_users :: ddl where
  "create_users = CreateTable ''users''
    [sa_column ''email'' (TString 320) False None,
     sa_column ''display_name'' (TString 200) False None,
     sa_column ''status'' (TEnum ''user_status'' [''ACTIVE'', ''SUSPENDED'', ''DEACTIVATED''] 32) False (Some (Literal ''active'')),
     sa_column ''id'' TUuid False None,
     sa_column ''created_at'' TTimestamp False (Some (SqlFunction ''now()'')),
     sa_column ''updated_at'' TTimestamp False (Some (SqlFunction ''now()''))]
    [PrimaryKey ''pk_users'' [''id''],
     Unique ''uq_users_email'' [''email'']]"

definition create_api_key_metadata :: ddl where
  "create_api_key_metadata = CreateTable ''api_key_metadata''
    [sa_column ''tenant_id'' TUuid False None,
     sa_column ''user_id'' TUuid True None,
     sa_column ''name'' (TString 200) False None,
     sa_column ''prefix'' (TString 32) False None,
     sa_column ''hashed_secret'' (TString 255) False None,
     sa_column ''scopes'' (TStringArray 100) False None,
     sa_column ''status'' (TEnum ''api_key_status'' [''ACTIVE'', ''REVOKED'', ''EXPIRED''] 32) False (Some (Literal ''active'')),
     sa_column ''expires_at'' TTimestamp True None,
     sa_column ''last_used_at'' TTimestamp True None,
     sa_column ''revoked_at'' TTimestamp True None,
     sa_column ''id'' TUuid False None,
     sa_column ''created_at'' TTimestamp False (Some (SqlFunction ''now()'')),
     sa_column ''updated_at'' TTimestamp False (Some (SqlFunction ''now()''))]
    [ForeignKey ''fk_api_key_metadata_tenant_id_tenants'' [''tenant_id''] ''tenants'' [''id''] Restrict,
     ForeignKey ''fk_api_key_metadata_user_id_users'' [''user_id''] ''users'' [''id''] SetNull,
     PrimaryKey ''pk_api_key_metadata'' [''id''],
     Unique ''uq_api_key_metadata_prefix'' [''prefix'']]"

definition create_audit_events :: ddl where
  "create_audit_events = CreateTable ''audit_events''
    [sa_column ''tenant_id'' TUuid True None,
     sa_column ''actor_user_id'' TUuid True None,
     sa_column ''action'' (TString 150) False None,
     sa_column ''resource_type'' (TString 100) False None,
     sa_column ''resource_id'' (TString 200) True None,
     sa_column ''outcome'' (TEnum ''audit_outcome'' [''SUCCESS'', ''FAILURE'', ''DENIED''] 32) False None,
     sa_column ''correlation_id'' (TString 100) True None,
     sa_column ''source_ip'' (TString 64) True None,
     sa_column ''user_agent'' (TString 500) True None,
     sa_column ''metadata'' TJsonb True None,
     sa_column ''id'' TUuid False None,
     sa_column ''created_at'' TTimestamp False (Some (SqlFunction ''now()''))]
    [Check ''ck_audit_events_metadata_size_limit'' (SqlOr (IsNull ''metadata'') (SizeAtMost ''metadata'' 8192)),
     ForeignKey ''fk_audit_events_actor_user_id_users'' [''actor_user_id''] ''users'' [''id''] SetNull,
     ForeignKey ''fk_audit_events_tenant_id_tenants'' [''tenant_id''] ''tenants'' [''id''] SetNull,
     PrimaryKey ''pk_audit_events'' [''id'']]"

definition create_projects :: ddl where
  "create_projects = CreateTable ''projects''
    [sa_column ''tenant_id'' TUuid False None,
     sa_column ''name'' (TString 200) False None,
     sa_column ''slug'' (TString 100) False None,
     sa_column ''description'' TText True None,
     sa_column ''status'' (TEnum ''project_status'' [''ACTIVE'', ''ARCHIVED''] 32) False (Some (Literal ''active'')),
     sa_column ''archived_at'' TTimestamp True None,
     sa_column ''id'' TUuid False None,
     sa_column ''created_at'' TTimestamp False (Some (SqlFunction ''now()'')),
     sa_column ''updated_at'' TTimestamp False (Some (SqlFunction ''now()''))]
    [ForeignKey ''fk_projects_tenant_id_tenants'' [''tenant_id''] ''tenants'' [''id''] Restrict,
     PrimaryKey ''pk_projects'' [''id''],
     Unique ''uq_projects_tenant_id_id'' [''tenant_id'', ''id''],
     Unique ''uq_projects_tenant_id_slug'' [''tenant_id'', ''slug'']]"

definition create_tenant_memberships :: ddl where
  "create_tenant_memberships = CreateTable ''tenant_memberships''
    [sa_column ''tenant_id'' TUuid False None,
     sa_column ''user_id'' TUuid False None,
     sa_column ''role'' (TEnum ''membership_role'' [''OWNER'', ''ADMINISTRATOR'', ''SECURITY_ANALYST'', ''DEVELOPER'', ''VIEWER''] 32) False None,
     sa_column ''status'' (TEnum ''membership_status'' [''ACTIVE'', ''INVITED'', ''SUSPENDED'', ''REMOVED''] 32) False (Some (Literal ''active'')),
     sa_column ''id'' TUuid False None,
     sa_column ''created_at'' TTimestamp False (Some (SqlFunction ''now()'')),
     sa_column ''updated_at'' TTimestamp False (Some (SqlFunction ''now()''))]
    [ForeignKey ''fk_tenant_memberships_tenant_id_tenants'' [''tenant_id''] ''tenants'' [''id''] Restrict,
     ForeignKey ''fk_tenant_memberships_user_id_users'' [''user_id''] ''users'' [''id''] Restrict,
     PrimaryKey ''pk_tenant_memberships'' [''id''],
     Unique ''uq_tenant_memberships_tenant_id_user_id'' [''tenant_id'', ''user_id'']]"

definition create_assets :: ddl where
  "create_assets = CreateTable ''assets''
    [sa_column ''tenant_id'' TUuid False None,
     sa_column ''project_id'' TUuid False None,
     sa_column ''asset_type'' (TEnum ''asset_type'' [''WEBSITE'', ''API'', ''REPOSITORY'', ''CONTAINER_IMAGE'', ''INFRASTRUCTURE'', ''DOMAIN'', ''IP_RANGE''] 32) False None,
     sa_column ''name'' (TString 200) False None,
     sa_column ''locator'' (TString 2048) False None,
     sa_column ''environment'' (TEnum ''asset_environment'' [''PRODUCTION'', ''STAGING'', ''DEVELOPMENT'', ''TEST'', ''UNKNOWN''] 32) False (Some (Literal ''unknown'')),
     sa_column ''status'' (TEnum ''asset_status'' [''ACTIVE'', ''INACTIVE'', ''DECOMMISSIONED''] 32) False (Some (Literal ''active'')),
     sa_column ''authorization_status'' (TEnum ''authorization_status'' [''UNAUTHORIZED'', ''PENDING'', ''AUTHORIZED'', ''EXPIRED'', ''REVOKED''] 32) False (Some (Literal ''unauthorized'')),
     sa_column ''id'' TUuid False None,
     sa_column ''created_at'' TTimestamp False (Some (SqlFunction ''now()'')),
     sa_column ''updated_at'' TTimestamp False (Some (SqlFunction ''now()''))]
    [ForeignKey ''fk_assets_tenant_id_project_id_projects'' [''tenant_id'', ''project_id''] ''projects'' [''tenant_id'', ''id''] Restrict,
     ForeignKey ''fk_assets_tenant_id_tenants'' [''tenant_id''] ''tenants'' [''id''] Restrict,
     PrimaryKey ''pk_assets'' [''id''],
     Unique ''uq_assets_tenant_id_id'' [''tenant_id'', ''id'']]"

definition create_scans :: ddl where
  "create_scans = CreateTable ''scans''
    [sa_column ''tenant_id'' TUuid False None,
     sa_column ''project_id'' TUuid False None,
     sa_column ''asset_id'' TUuid False None,
     sa_column ''scanner_type'' (TString 100) False None,
     sa_column ''status'' (TEnum ''scan_status'' [''PENDING'', ''QUEUED'', ''RUNNING'', ''SUCCEEDED'', ''FAILED'', ''CANCELLED''] 32) False (Some (Literal ''pending'')),
     sa_column ''requested_by_user_id'' TUuid True None,
     sa_column ''queued_at'' TTimestamp True None,
     sa_column ''started_at'' TTimestamp True None,
     sa_column ''completed_at'' TTimestamp True None,
     sa_column ''failed_at'' TTimestamp True None,
     sa_column ''error_code'' (TString 100) True None,
     sa_column ''error_summary'' (TString 2000) True None,
     sa_column ''id'' TUuid False None,
     sa_column ''created_at'' TTimestamp False (Some (SqlFunction ''now()'')),
     sa_column ''updated_at'' TTimestamp False (Some (SqlFunction ''now()''))]
    [Check ''ck_scans_completed_failed_mutually_exclusive'' (SqlOr (IsNull ''completed_at'') (IsNull ''failed_at'')),
     Check ''ck_scans_completed_after_started'' (SqlOr (SqlOr (IsNull ''completed_at'') (IsNull ''started_at'')) (NotBefore ''completed_at'' ''started_at'')),
     Check ''ck_scans_failed_after_started'' (SqlOr (SqlOr (IsNull ''failed_at'') (IsNull ''started_at'')) (NotBefore ''failed_at'' ''started_at'')),
     Check ''ck_scans_started_after_queued'' (SqlOr (SqlOr (IsNull ''started_at'') (IsNull ''queued_at'')) (NotBefore ''started_at'' ''queued_at'')),
     ForeignKey ''fk_scans_requested_by_user_id_users'' [''requested_by_user_id''] ''users'' [''id''] SetNull,
     ForeignKey ''fk_scans_tenant_id_asset_id_assets'' [''tenant_id'', ''asset_id''] ''assets'' [''tenant_id'', ''id''] Restrict,
     ForeignKey ''fk_scans_tenant_id_project_id_projects'' [''tenant_id'', ''project_id''] ''projects'' [''tenant_id'', ''id''] Restrict,
     ForeignKey ''fk_scans_tenant_id_tenants'' [''tenant_id''] ''tenants'' [''id''] Restrict,
     PrimaryKey ''pk_scans'' [''id''],
     Unique ''uq_scans_tenant_id_id'' [''tenant_id'', ''id'']]"

definition create_findings :: ddl where
  "create_findings = CreateTable ''findings''
    [sa_column ''tenant_id'' TUuid False None,
     sa_column ''project_id'' TUuid False None,
     sa_column ''asset_id'' TUuid False None,
     sa_column ''scan_id'' TUuid False None,
     sa_column ''title'' (TString 300) False None,
     sa_column ''description'' TText True None,
     sa_column ''severity'' (TEnum ''finding_severity'' [''INFORMATIONAL'', ''LOW'', ''MEDIUM'', ''HIGH'', ''CRITICAL''] 32) False None,
     sa_column ''status'' (TEnum ''finding_status'' [''OPEN'', ''ACKNOWLEDGED'', ''IN_PROGRESS'', ''RESOLVED'', ''ACCEPTED_RISK'', ''FALSE_POSITIVE''] 32) False (Some (Literal ''open'')),
     sa_column ''confidence'' (TEnum ''finding_confidence'' [''LOW'', ''MEDIUM'', ''HIGH'', ''CONFIRMED''] 32) False (Some (Literal ''medium'')),
     sa_column ''source_tool'' (TString 100) False None,
     sa_column ''external_reference'' (TString 2048) True None,
     sa_column ''fingerprint'' (TString 128) False None,
     sa_column ''remediation'' TText True None,
     sa_column ''first_seen_at'' TTimestamp False (Some (SqlFunction ''now()'')),
     sa_column ''last_seen_at'' TTimestamp False (Some (SqlFunction ''now()'')),
     sa_column ''resolved_at'' TTimestamp True None,
     sa_column ''id'' TUuid False None,
     sa_column ''created_at'' TTimestamp False (Some (SqlFunction ''now()'')),
     sa_column ''updated_at'' TTimestamp False (Some (SqlFunction ''now()''))]
    [Check ''ck_findings_last_seen_after_first_seen'' (NotBefore ''last_seen_at'' ''first_seen_at''),
     Check ''ck_findings_resolved_after_first_seen'' (SqlOr (IsNull ''resolved_at'') (NotBefore ''resolved_at'' ''first_seen_at'')),
     ForeignKey ''fk_findings_tenant_id_asset_id_assets'' [''tenant_id'', ''asset_id''] ''assets'' [''tenant_id'', ''id''] Restrict,
     ForeignKey ''fk_findings_tenant_id_project_id_projects'' [''tenant_id'', ''project_id''] ''projects'' [''tenant_id'', ''id''] Restrict,
     ForeignKey ''fk_findings_tenant_id_scan_id_scans'' [''tenant_id'', ''scan_id''] ''scans'' [''tenant_id'', ''id''] Restrict,
     ForeignKey ''fk_findings_tenant_id_tenants'' [''tenant_id''] ''tenants'' [''id''] Restrict,
     PrimaryKey ''pk_findings'' [''id''],
     Unique ''uq_findings_tenant_id_asset_id_fingerprint'' [''tenant_id'', ''asset_id'', ''fingerprint''],
     Unique ''uq_findings_tenant_id_id'' [''tenant_id'', ''id'']]"

definition create_finding_references :: ddl where
  "create_finding_references = CreateTable ''finding_references''
    [sa_column ''tenant_id'' TUuid False None,
     sa_column ''finding_id'' TUuid False None,
     sa_column ''reference_type'' (TEnum ''finding_reference_type'' [''CVE'', ''CWE'', ''OWASP'', ''ADVISORY_URL'', ''VENDOR_ID''] 32) False None,
     sa_column ''value'' (TString 500) False None,
     sa_column ''id'' TUuid False None,
     sa_column ''created_at'' TTimestamp False (Some (SqlFunction ''now()'')),
     sa_column ''updated_at'' TTimestamp False (Some (SqlFunction ''now()''))]
    [ForeignKey ''fk_finding_references_tenant_id_finding_id_findings'' [''tenant_id'', ''finding_id''] ''findings'' [''tenant_id'', ''id''] Cascade,
     PrimaryKey ''pk_finding_references'' [''id''],
     Unique ''uq_finding_references_finding_id_reference_type_value'' [''finding_id'', ''reference_type'', ''value'']]"

definition upgrade_foundation :: "ddl list" where
  "upgrade_foundation =
    [create_tenants,
     create_users,
     create_api_key_metadata,
     create_audit_events,
     create_projects,
     create_tenant_memberships,
     create_assets,
     create_scans,
     create_findings,
     create_finding_references]"

definition downgrade_foundation :: "ddl list" where
  "downgrade_foundation =
    [DropTable ''finding_references'',
     DropTable ''findings'',
     DropTable ''scans'',
     DropTable ''assets'',
     DropTable ''tenant_memberships'',
     DropTable ''projects'',
     DropTable ''audit_events'',
     DropTable ''api_key_metadata'',
     DropTable ''users'',
     DropTable ''tenants'']"

definition foundation :: revision where
  "foundation = \<lparr>rv_id = ''a174c38765f8'', rv_down = None,
     rv_upgrade = upgrade_foundation, rv_downgrade = downgrade_foundation\<rparr>"

section \<open>Revision \<open>af3a58d67429\<close>: authentication\<close>

definition create_refresh_tokens :: ddl where
  "create_refresh_tokens = CreateTable ''refresh_tokens''
    [sa_column ''tenant_id'' TUuid False None,
     sa_column ''user_id'' TUuid False None,
     sa_column ''family_id'' TUuid False None,
     sa_column ''hashed_token'' (TString 64) False None,
     sa_column ''status'' (TEnum ''refresh_token_status'' [''ACTIVE'', ''ROTATED'', ''REVOKED''] 32) False (Some (Literal ''active'')),
     sa_column ''expires_at'' TTimestamp False None,
     sa_column ''revoked_at'' TTimestamp True None,
     sa_column ''replaced_by_id'' TUuid True None,
     sa_column ''created_by_ip'' (TString 64) True None,
     sa_column ''user_agent'' (TString 500) True None,
     sa_column ''id'' TUuid False None,
     sa_column ''created_at'' TTimestamp False (Some (SqlFunction ''now()'')),
     sa_column ''updated_at'' TTimestamp False (Some (SqlFunction ''now()''))]
    [ForeignKey ''fk_refresh_tokens_replaced_by_id_refresh_tokens'' [''replaced_by_id''] ''refresh_tokens'' [''id''] SetNull,
     ForeignKey ''fk_refresh_tokens_tenant_id_tenants'' [''tenant_id''] ''tenants'' [''id''] Restrict,
     ForeignKey ''fk_refresh_tokens_user_id_users'' [''user_id''] ''users'' [''id''] Restrict,
     PrimaryKey ''pk_refresh_tokens'' [''id''],
     Unique ''uq_refresh_tokens_hashed_token'' [''hashed_token'']]"

definition create_user_verification_tokens :: ddl where
  "create_user_verification_tokens = CreateTable ''user_verification_tokens''
    [sa_column ''user_id'' TUuid False None,
     sa_column ''purpose'' (TEnum ''verification_token_purpose'' [''EMAIL_VERIFICATION'', ''PASSWORD_RESET''] 32) False None,
     sa_column ''hashed_token'' (TString 64) False None,
     sa_column ''expires_at'' TTimestamp False None,
     sa_column ''consumed_at'' TTimestamp True None,
     sa_column ''id'' TUuid False None,
     sa_column ''created_at'' TTimestamp False (Some (SqlFunction ''now()'')),
     sa_column ''updated_at'' TTimestamp False (Some (SqlFunction ''now()''))]
    [ForeignKey ''fk_user_verification_tokens_user_id_users'' [''user_id''] ''users'' [''id''] Restrict,
     PrimaryKey ''pk_user_verification_tokens'' [''id''],
     Unique ''uq_user_verification_tokens_hashed_token'' [''hashed_token'']]"

definition upgrade_authentication :: "ddl list" where
  "upgrade_authentication =
    [create_refresh_tokens,
     CreateIndex ''refresh_tokens'' \<lparr>ix_name = ''ix_refresh_tokens_family_id'', ix_columns = [''family_id''], ix_where = None\<rparr>,
     create_user_verification_tokens,
     AddColumn ''users'' (sa_column ''hashed_password'' (TString 255) True None),
     AddColumn ''users'' (sa_column ''token_version'' TInteger False (Some (Literal ''0''))),
     AddColumn ''users'' (sa_column ''email_verified_at'' TTimestamp True None)]"

definition downgrade_authentication :: "ddl list" where
  "downgrade_authentication =
    [DropColumn ''users'' ''email_verified_at'',
     DropColumn ''users'' ''token_version'',
     DropColumn ''users'' ''hashed_password'',
     DropTable ''user_verification_tokens'',
     DropIndex ''ix_refresh_tokens_family_id'' ''refresh_tokens'',
     DropTable ''refresh_tokens'']"

definition authentication :: revision where
  "authentication = \<lparr>rv_id = ''af3a58d67429'', rv_down = Some ''a174c38765f8'',
     rv_upgrade = upgrade_authentication, rv_downgrade = downgrade_authentication\<rparr>"

section \<open>Revision \<open>b3214246fc2f\<close>: orchestration\<close>

definition create_scan_events :: ddl where
  "create_scan_events = CreateTable ''scan_events''
    [sa_column ''tenant_id'' TUuid False None,
     sa_column ''scan_id'' TUuid False None,
     sa_column ''event_type'' (TString 100) False None,
     sa_column ''stage'' (TString 50) True None,
     sa_column ''progress_percent'' TInteger True None,
     sa_column ''worker_id'' (TString 200) True None,
     sa_column ''correlation_id'' (TString 100) True None,
     sa_column ''message'' (TString 2000) True None,
     sa_column ''metadata'' TJsonb True None,
     sa_column ''id'' TUuid False None,
     sa_column ''created_at'' TTimestamp False (Some (SqlFunction ''clock_timestamp()''))]
    [Check ''ck_scan_events_metadata_size_limit'' (SqlOr (IsNull ''metadata'') (SizeAtMost ''metadata'' 8192)),
     Check ''ck_scan_events_progress_percent_range'' (SqlOr (IsNull ''progress_percent'') (SqlAnd (AtLeast ''progress_percent'' 0) (AtMost ''progress_percent'' 100))),
     ForeignKey ''fk_scan_events_tenant_id_scan_id_scans'' [''tenant_id'', ''scan_id''] ''scans'' [''tenant_id'', ''id''] Cascade,
     ForeignKey ''fk_scan_events_tenant_id_tenants'' [''tenant_id''] ''tenants'' [''id''] Restrict,
     PrimaryKey ''pk_scan_events'' [''id'']]"

definition upgrade_orchestration :: "ddl list" where
  "upgrade_orchestration =
    [create_scan_events,
     AddColumn ''scans'' (sa_column ''cancelled_at'' TTimestamp True None),
     AddColumn ''scans'' (sa_column ''timed_out_at'' TTimestamp True None),
     AddColumn ''scans'' (sa_column ''attempt'' TInteger False (Some (Literal ''0''))),
     AddColumn ''scans'' (sa_column ''max_attempts'' TInteger False (Some (Literal ''3''))),
     AddColumn ''scans'' (sa_column ''worker_id'' (TString 200) True None),
     AddColumn ''scans'' (sa_column ''job_id'' (TString 200) True None),
     AddColumn ''scans'' (sa_column ''timeout_seconds'' TInteger False (Some (Literal ''1800''))),
     AddColumn ''scans'' (sa_column ''retry_of_scan_id'' TUuid True None),
     AddColumn ''scans'' (sa_column ''config'' TJsonb True None),
     AddColumn ''scans'' (sa_column ''correlation_id'' (TString 100) True None),
     AddConstraint ''scans'' (ForeignKey ''fk_scans_tenant_id_retry_of_scan_id_scans'' [''tenant_id'', ''retry_of_scan_id''] ''scans'' [''tenant_id'', ''id''] SetNull),
     DropConstraint ''scans'' ''ck_scans_scan_status'',
     AddConstraint ''scans'' (Check ''ck_scans_scan_status'' (OneOf ''status'' [''PENDING'', ''QUEUED'', ''PREPARING'', ''RUNNING'', ''COLLECTING'', ''PROCESSING'', ''SUCCEEDED'', ''FAILED'', ''CANCELLED'', ''TIMED_OUT''])),
     DropConstraint ''scans'' ''ck_scans_completed_failed_mutually_exclusive'',
     AddConstraint ''scans'' (Check ''ck_scans_terminal_timestamps_mutually_exclusive'' (SetAtMost [''completed_at'', ''failed_at'', ''cancelled_at'', ''timed_out_at''] 1)),
     AddConstraint ''scans'' (Check ''ck_scans_timed_out_after_started'' (SqlOr (SqlOr (IsNull ''timed_out_at'') (IsNull ''started_at'')) (NotBefore ''timed_out_at'' ''started_at''))),
     AddConstraint ''scans'' (Check ''ck_scans_attempt_non_negative'' (AtLeast ''attempt'' 0)),
     AddConstraint ''scans'' (Check ''ck_scans_max_attempts_positive'' (AtLeast ''max_attempts'' 1)),
     AddConstraint ''scans'' (Check ''ck_scans_timeout_seconds_positive'' (Above ''timeout_seconds'' 0)),
     AddConstraint ''scans'' (Check ''ck_scans_config_size_limit'' (SqlOr (IsNull ''config'') (SizeAtMost ''config'' 16384)))]"

definition downgrade_orchestration :: "ddl list" where
  "downgrade_orchestration =
    [DropConstraint ''scans'' ''ck_scans_config_size_limit'',
     DropConstraint ''scans'' ''ck_scans_timeout_seconds_positive'',
     DropConstraint ''scans'' ''ck_scans_max_attempts_positive'',
     DropConstraint ''scans'' ''ck_scans_attempt_non_negative'',
     DropConstraint ''scans'' ''ck_scans_timed_out_after_started'',
     DropConstraint ''scans'' ''ck_scans_terminal_timestamps_mutually_exclusive'',
     AddConstraint ''scans'' (Check ''ck_scans_completed_failed_mutually_exclusive'' (SqlOr (IsNull ''completed_at'') (IsNull ''failed_at''))),
     DropConstraint ''scans'' ''ck_scans_scan_status'',
     AddConstraint ''scans'' (Check ''ck_scans_scan_status'' (OneOf ''status'' [''PENDING'', ''QUEUED'', ''RUNNING'', ''SUCCEEDED'', ''FAILED'', ''CANCELLED''])),
     DropConstraint ''scans'' ''fk_scans_tenant_id_retry_of_scan_id_scans'',
     DropColumn ''scans'' ''correlation_id'',
     DropColumn ''scans'' ''config'',
     DropColumn ''scans'' ''retry_of_scan_id'',
     DropColumn ''scans'' ''timeout_seconds'',
     DropColumn ''scans'' ''job_id'',
     DropColumn ''scans'' ''worker_id'',
     DropColumn ''scans'' ''max_attempts'',
     DropColumn ''scans'' ''attempt'',
     DropColumn ''scans'' ''timed_out_at'',
     DropColumn ''scans'' ''cancelled_at'',
     DropTable ''scan_events'']"

definition orchestration :: revision where
  "orchestration = \<lparr>rv_id = ''b3214246fc2f'', rv_down = Some ''af3a58d67429'',
     rv_upgrade = upgrade_orchestration, rv_downgrade = downgrade_orchestration\<rparr>"

section \<open>Revision \<open>a1fb5cd36013\<close>: outbox\<close>

definition create_scan_job_outbox :: ddl where
  "create_scan_job_outbox = CreateTable ''scan_job_outbox''
    [sa_column ''tenant_id'' TUuid False None,
     sa_column ''scan_id'' TUuid False None,
     sa_column ''scan_attempt'' TInteger False None,
     sa_column ''event_type'' (TString 50) False None,
     sa_column ''payload'' TJsonb False None,
     sa_column ''countdown_seconds'' TFloat False (Some (Literal ''0'')),
     sa_column ''created_at'' TTimestamp False (Some (SqlFunction ''now()'')),
     sa_column ''published_at'' TTimestamp True None,
     sa_column ''attempt_count'' TInteger False (Some (Literal ''0'')),
     sa_column ''last_attempt_at'' TTimestamp True None,
     sa_column ''last_error'' (TString 500) True None,
     sa_column ''id'' TUuid False None]
    [Check ''ck_scan_job_outbox_attempt_count_non_negative'' (AtLeast ''attempt_count'' 0),
     Check ''ck_scan_job_outbox_countdown_seconds_non_negative'' (AtLeast ''countdown_seconds'' 0),
     Check ''ck_scan_job_outbox_payload_size_limit'' (SqlOr (IsNull ''payload'') (SizeAtMost ''payload'' 4096)),
     Check ''ck_scan_job_outbox_scan_attempt_non_negative'' (AtLeast ''scan_attempt'' 0),
     ForeignKey ''fk_scan_job_outbox_tenant_id_scan_id_scans'' [''tenant_id'', ''scan_id''] ''scans'' [''tenant_id'', ''id''] Cascade,
     ForeignKey ''fk_scan_job_outbox_tenant_id_tenants'' [''tenant_id''] ''tenants'' [''id''] Restrict,
     PrimaryKey ''pk_scan_job_outbox'' [''id''],
     Unique ''uq_scan_job_outbox_tenant_scan_attempt'' [''tenant_id'', ''scan_id'', ''scan_attempt'']]"

definition upgrade_outbox :: "ddl list" where
  "upgrade_outbox =
    [create_scan_job_outbox,
     CreateIndex ''scan_job_outbox'' \<lparr>ix_name = ''ix_scan_job_outbox_pending'', ix_columns = [''created_at''], ix_where = Some (IsNull ''published_at'')\<rparr>]"

definition downgrade_outbox :: "ddl list" where
  "downgrade_outbox =
    [DropIndex ''ix_scan_job_outbox_pending'' ''scan_job_outbox'',
     DropTable ''scan_job_outbox'']"

definition outbox :: revision where
  "outbox = \<lparr>rv_id = ''a1fb5cd36013'', rv_down = Some ''b3214246fc2f'',
     rv_upgrade = upgrade_outbox, rv_downgrade = downgrade_outbox\<rparr>"

section \<open>The chain\<close>

definition revisions :: "revision list" where
  "revisions = [foundation, authentication, orchestration, outbox]"

end
