(* ===== verification/Migration_Runs.thy ===== *)
theory Migration_Runs
  imports Migrations
begin

text \<open>
  The schema after each revision, table by table, and the runs that reach it.  The tables
  are named, so that a statement is run by rewriting with the few facts about them that
  it looks at.
\<close>

named_theorems table_facts  \<comment> \<open>name, keys, foreign keys and key columns of the tables\<close>

section \<open>The tables\<close>

definition tenants_table :: table_def where
  "tenants_table = \<lparr>td_name = ''tenants'',
     td_columns =
      [sa_column ''name'' (TString 200) False None,
       sa_column ''slug'' (TString 100) False None,
       sa_column ''status'' (TEnum ''tenant_status'' [''ACTIVE'', ''SUSPENDED'', ''ARCHIVED''] 32) False (Some (Literal ''active'')),
       sa_column ''deleted_at'' TTimestamp True None,
       sa_column ''id'' TUuid False None,
       sa_column ''created_at'' TTimestamp False (Some (SqlFunction ''now()'')),
       sa_column ''updated_at'' TTimestamp False (Some (SqlFunction ''now()''))],
     td_constraints =
      [PrimaryKey ''pk_tenants'' [''id''],
       Unique ''uq_tenants_slug'' [''slug''],
       Check ''ck_tenants_tenant_status'' (OneOf ''status'' [''ACTIVE'', ''SUSPENDED'', ''ARCHIVED''])],
     td_indexes = []\<rparr>"

definition users_table :: table_def where
  "users_table = \<lparr>td_name = ''users'',
     td_columns =
      [sa_column ''email'' (TString 320) False None,
       sa_column ''display_name'' (TString 200) False None,
       sa_column ''status'' (TEnum ''user_status'' [''ACTIVE'', ''SUSPENDED'', ''DEACTIVATED''] 32) False (Some (Literal ''active'')),
       sa_column ''id'' TUuid False None,
       sa_column ''created_at'' TTimestamp False (Some (SqlFunction ''now()'')),
       sa_column ''updated_at'' TTimestamp False (Some (SqlFunction ''now()''))],
     td_constraints =
      [PrimaryKey ''pk_users'' [''id''],
       Unique ''uq_users_email'' [''email''],
       Check ''ck_users_user_status'' (OneOf ''status'' [''ACTIVE'', ''SUSPENDED'', ''DEACTIVATED''])],
     td_indexes = []\<rparr>"

definition api_key_metadata_table :: table_def where
  "api_key_metadata_table = \<lparr>td_name = ''api_key_metadata'',
     td_columns =
      [sa_column ''tenant_id'' TUuid False None,
       sa_column ''user_id'' TUuid True None,
       sa_column ''name'' (TString 200) False None,
       sa_column ''prefix'' (TString 32) False None,
       sa_column ''hashed_secret'' (TString 255) False None,
       sa_column ''scopes'' (TStringArray 100) False None,
       sa_column ''status'' (TEnum ''api_key_status'' [''ACTIVE'', ''REVOKED'', ''EXPIRED''] 32) False (Some (Literal ''active'')),
       sa_column ''expires_at'' TTimestamp True None,
       sa_column ''last_used_at'' TTimestamp True None,
       sa_column ''revoked_at'' TTimestamp True None,
       sa_column ''id'' TUuid False None,
       sa_column ''created_at'' TTimestamp False (Some (SqlFunction ''now()'')),
       sa_column ''updated_at'' TTimestamp False (Some (SqlFunction ''now()''))],
     td_constraints =
      [ForeignKey ''fk_api_key_metadata_tenant_id_tenants'' [''tenant_id''] ''tenants'' [''id''] Restrict,
       ForeignKey ''fk_api_key_metadata_user_id_users'' [''user_id''] ''users'' [''id''] SetNull,
       PrimaryKey ''pk_api_key_metadata'' [''id''],
       Unique ''uq_api_key_metadata_prefix'' [''prefix''],
       Check ''ck_api_key_metadata_api_key_status'' (OneOf ''status'' [''ACTIVE'', ''REVOKED'', ''EXPIRED''])],
     td_indexes = []\<rparr>"

definition audit_events_table :: table_def where
  "audit_events_table = \<lparr>td_name = ''audit_events'',
     td_columns =
      [sa_column ''tenant_id'' TUuid True None,
       sa_column ''actor_user_id'' TUuid True None,
       sa_column ''action'' (TString 150) False None,
       sa_column ''resource_type'' (TString 100) False None,
       sa_column ''resource_id'' (TString 200) True None,
       sa_column ''outcome'' (TEnum ''audit_outcome'' [''SUCCESS'', ''FAILURE'', ''DENIED''] 32) False None,
       sa_column ''correlation_id'' (TString 100) True None,
       sa_column ''source_ip'' (TString 64) True None,
       sa_column ''user_agent'' (TString 500) True None,
       sa_column ''metadata'' TJsonb True None,
       sa_column ''id'' TUuid False None,
       sa_column ''created_at'' TTimestamp False (Some (SqlFunction ''now()''))],
     td_constraints =
      [Check ''ck_audit_events_metadata_size_limit'' (SqlOr (IsNull ''metadata'') (SizeAtMost ''metadata'' 8192)),
       ForeignKey ''fk_audit_events_actor_user_id_users'' [''actor_user_id''] ''users'' [''id''] SetNull,
       ForeignKey ''fk_audit_events_tenant_id_tenants'' [''tenant_id''] ''tenants'' [''id''] SetNull,
       PrimaryKey ''pk_audit_events'' [''id''],
       Check ''ck_audit_events_audit_outcome'' (OneOf ''outcome'' [''SUCCESS'', ''FAILURE'', ''DENIED''])],
     td_indexes = []\<rparr>"

definition projects_table :: table_def where
  "projects_table = \<lparr>td_name = ''projects'',
     td_columns =
      [sa_column ''tenant_id'' TUuid False None,
       sa_column ''name'' (TString 200) False None,
       sa_column ''slug'' (TString 100) False None,
       sa_column ''description'' TText True None,
       sa_column ''status'' (TEnum ''project_status'' [''ACTIVE'', ''ARCHIVED''] 32) False (Some (Literal ''active'')),
       sa_column ''archived_at'' TTimestamp True None,
       sa_column ''id'' TUuid False None,
       sa_column ''created_at'' TTimestamp False (Some (SqlFunction ''now()'')),
       sa_column ''updated_at'' TTimestamp False (Some (SqlFunction ''now()''))],
     td_constraints =
      [ForeignKey ''fk_projects_tenant_id_tenants'' [''tenant_id''] ''tenants'' [''id''] Restrict,
       PrimaryKey ''pk_projects'' [''id''],
       Unique ''uq_projects_tenant_id_id'' [''tenant_id'', ''id''],
       Unique ''uq_projects_tenant_id_slug'' [''tenant_id'', ''slug''],
       Check ''ck_projects_project_status'' (OneOf ''status'' [''ACTIVE'', ''ARCHIVED''])],
     td_indexes = []\<rparr>"

definition tenant_memberships_table :: table_def where
  "tenant_memberships_table = \<lparr>td_name = ''tenant_memberships'',
     td_columns =
      [sa_column ''tenant_id'' TUuid False None,
       sa_column ''user_id'' TUuid False None,
       sa_column ''role'' (TEnum ''membership_role'' [''OWNER'', ''ADMINISTRATOR'', ''SECURITY_ANALYST'', ''DEVELOPER'', ''VIEWER''] 32) False None,
       sa_column ''status'' (TEnum ''membership_status'' [''ACTIVE'', ''INVITED'', ''SUSPENDED'', ''REMOVED''] 32) False (Some (Literal ''active'')),
       sa_column ''id'' TUuid False None,
       sa_column ''created_at'' TTimestamp False (Some (SqlFunction ''now()'')),
       sa_column ''updated_at'' TTimestamp False (Some (SqlFunction ''now()''))],
     td_constraints =
      [ForeignKey ''fk_tenant_memberships_tenant_id_tenants'' [''tenant_id''] ''tenants'' [''id''] Restrict,
       ForeignKey ''fk_tenant_memberships_user_id_users'' [''user_id''] ''users'' [''id''] Restrict,
       PrimaryKey ''pk_tenant_memberships'' [''id''],
       Unique ''uq_tenant_memberships_tenant_id_user_id'' [''tenant_id'', ''user_id''],
       Check ''ck_tenant_memberships_membership_role'' (OneOf ''role'' [''OWNER'', ''ADMINISTRATOR'', ''SECURITY_ANALYST'', ''DEVELOPER'', ''VIEWER'']),
       Check ''ck_tenant_memberships_membership_status'' (OneOf ''status'' [''ACTIVE'', ''INVITED'', ''SUSPENDED'', ''REMOVED''])],
     td_indexes = []\<rparr>"

definition assets_table :: table_def where
  "assets_table = \<lparr>td_name = ''assets'',
     td_columns =
      [sa_column ''tenant_id'' TUuid False None,
       sa_column ''project_id'' TUuid False None,
       sa_column ''asset_type'' (TEnum ''asset_type'' [''WEBSITE'', ''API'', ''REPOSITORY'', ''CONTAINER_IMAGE'', ''INFRASTRUCTURE'', ''DOMAIN'', ''IP_RANGE''] 32) False None,
       sa_column ''name'' (TString 200) False None,
       sa_column ''locator'' (TString 2048) False None,
       sa_column ''environment'' (TEnum ''asset_environment'' [''PRODUCTION'', ''STAGING'', ''DEVELOPMENT'', ''TEST'', ''UNKNOWN''] 32) False (Some (Literal ''unknown'')),
       sa_column ''status'' (TEnum ''asset_status'' [''ACTIVE'', ''INACTIVE'', ''DECOMMISSIONED''] 32) False (Some (Literal ''active'')),
       sa_column ''authorization_status'' (TEnum ''authorization_status'' [''UNAUTHORIZED'', ''PENDING'', ''AUTHORIZED'', ''EXPIRED'', ''REVOKED''] 32) False (Some (Literal ''unauthorized'')),
       sa_column ''id'' TUuid False None,
       sa_column ''created_at'' TTimestamp False (Some (SqlFunction ''now()'')),
       sa_column ''updated_at'' TTimestamp False (Some (SqlFunction ''now()''))],
     td_constraints =
      [ForeignKey ''fk_assets_tenant_id_project_id_projects'' [''tenant_id'', ''project_id''] ''projects'' [''tenant_id'', ''id''] Restrict,
       ForeignKey ''fk_assets_tenant_id_tenants'' [''tenant_id''] ''tenants'' [''id''] Restrict,
       PrimaryKey ''pk_assets'' [''id''],
       Unique ''uq_assets_tenant_id_id'' [''tenant_id'', ''id''],
       Check ''ck_assets_asset_type'' (OneOf ''asset_type'' [''WEBSITE'', ''API'', ''REPOSITORY'', ''CONTAINER_IMAGE'', ''INFRASTRUCTURE'', ''DOMAIN'', ''IP_RANGE'']),
       Check ''ck_assets_asset_environment'' (OneOf ''environment'' [''PRODUCTION'', ''STAGING'', ''DEVELOPMENT'', ''TEST'', ''UNKNOWN'']),
       Check ''ck_assets_asset_status'' (OneOf ''status'' [''ACTIVE'', ''INACTIVE'', ''DECOMMISSIONED'']),
       Check ''ck_assets_authorization_status'' (OneOf ''authorization_status'' [''UNAUTHORIZED'', ''PENDING'', ''AUTHORIZED'', ''EXPIRED'', ''REVOKED''])],
     td_indexes = []\<rparr>"

definition scans_table :: table_def where
  "scans_table = \<lparr>td_name = ''scans'',
     td_columns =
      [sa_column ''tenant_id'' TUuid False None,
       sa_column ''project_id'' TUuid False None,
       sa_column ''asset_id'' TUuid False None,
       sa_column ''scanner_type'' (TString 100) False None,
       sa_column ''status'' (TEnum ''scan_status'' [''PENDING'', ''QUEUED'', ''RUNNING'', ''SUCCEEDED'', ''FAILED'', ''CANCELLED''] 32) False (Some (Literal ''pending'')),
       sa_column ''requested_by_user_id'' TUuid True None,
       sa_column ''queued_at'' TTimestamp True None,
       sa_column ''started_at'' TTimestamp True None,
       sa_column ''completed_at'' TTimestamp True None,
       sa_column ''failed_at'' TTimestamp True None,
       sa_column ''error_code'' (TString 100) True None,
       sa_column ''error_summary'' (TString 2000) True None,
       sa_column ''id'' TUuid False None,
       sa_column ''created_at'' TTimestamp False (Some (SqlFunction ''now()'')),
       sa_column ''updated_at'' TTimestamp False (Some (SqlFunction ''now()''))],
     td_constraints =
      [Check ''ck_scans_completed_failed_mutually_exclusive'' (SqlOr (IsNull ''completed_at'') (IsNull ''failed_at'')),
       Check ''ck_scans_completed_after_started'' (SqlOr (SqlOr (IsNull ''completed_at'') (IsNull ''started_at'')) (NotBefore ''completed_at'' ''started_at'')),
       Check ''ck_scans_failed_after_started'' (SqlOr (SqlOr (IsNull ''failed_at'') (IsNull ''started_at'')) (NotBefore ''failed_at'' ''started_at'')),
       Check ''ck_scans_started_after_queued'' (SqlOr (SqlOr (IsNull ''started_at'') (IsNull ''queued_at'')) (NotBefore ''started_at'' ''queued_at'')),
       ForeignKey ''fk_scans_requested_by_user_id_users'' [''requested_by_user_id''] ''users'' [''id''] SetNull,
       ForeignKey ''fk_scans_tenant_id_asset_id_assets'' [''tenant_id'', ''asset_id''] ''assets'' [''tenant_id'', ''id''] Restrict,
       ForeignKey ''fk_scans_tenant_id_project_id_projects'' [''tenant_id'', ''project_id''] ''projects'' [''tenant_id'', ''id''] Restrict,
       ForeignKey ''fk_scans_tenant_id_tenants'' [''tenant_id''] ''tenants'' [''id''] Restrict,
       PrimaryKey ''pk_scans'' [''id''],
       Unique ''uq_scans_tenant_id_id'' [''tenant_id'', ''id''],
       Check ''ck_scans_scan_status'' (OneOf ''status'' [''PENDING'', ''QUEUED'', ''RUNNING'', ''SUCCEEDED'', ''FAILED'', ''CANCELLED''])],
     td_indexes = []\<rparr>"

definition findings_table :: table_def where
  "findings_table = \<lparr>td_name = ''findings'',
     td_columns =
      [sa_column ''tenant_id'' TUuid False None,
       sa_column ''project_id'' TUuid False None,
       sa_column ''asset_id'' TUuid False None,
       sa_column ''scan_id'' TUuid False None,
       sa_column ''title'' (TString 300) False None,
       sa_column ''description'' TText True None,
       sa_column ''severity'' (TEnum ''finding_severity'' [''INFORMATIONAL'', ''LOW'', ''MEDIUM'', ''HIGH'', ''CRITICAL''] 32) False None,
       sa_column ''status'' (TEnum ''finding_status'' [''OPEN'', ''ACKNOWLEDGED'', ''IN_PROGRESS'', ''RESOLVED'', ''ACCEPTED_RISK'', ''FALSE_POSITIVE''] 32) False (Some (Literal ''open'')),
       sa_column ''confidence'' (TEnum ''finding_confidence'' [''LOW'', ''MEDIUM'', ''HIGH'', ''CONFIRMED''] 32) False (Some (Literal ''medium'')),
       sa_column ''source_tool'' (TString 100) False None,
       sa_column ''external_reference'' (TString 2048) True None,
       sa_column ''fingerprint'' (TString 128) False None,
       sa_column ''remediation'' TText True None,
       sa_column ''first_seen_at'' TTimestamp False (Some (SqlFunction ''now()'')),
       sa_column ''last_seen_at'' TTimestamp False (Some (SqlFunction ''now()'')),
       sa_column ''resolved_at'' TTimestamp True None,
       sa_column ''id'' TUuid False None,
       sa_column ''created_at'' TTimestamp False (Some (SqlFunction ''now()'')),
       sa_column ''updated_at'' TTimestamp False (Some (SqlFunction ''now()''))],
     td_constraints =
      [Check ''ck_findings_last_seen_after_first_seen'' (NotBefore ''last_seen_at'' ''first_seen_at''),
       Check ''ck_findings_resolved_after_first_seen'' (SqlOr (IsNull ''resolved_at'') (NotBefore ''resolved_at'' ''first_seen_at'')),
       ForeignKey ''fk_findings_tenant_id_asset_id_assets'' [''tenant_id'', ''asset_id''] ''assets'' [''tenant_id'', ''id''] Restrict,
       ForeignKey ''fk_findings_tenant_id_project_id_projects'' [''tenant_id'', ''project_id''] ''projects'' [''tenant_id'', ''id''] Restrict,
       ForeignKey ''fk_findings_tenant_id_scan_id_scans'' [''tenant_id'', ''scan_id''] ''scans'' [''tenant_id'', ''id''] Restrict,
       ForeignKey ''fk_findings_tenant_id_tenants'' [''tenant_id''] ''tenants'' [''id''] Restrict,
       PrimaryKey ''pk_findings'' [''id''],
       Unique ''uq_findings_tenant_id_asset_id_fingerprint'' [''tenant_id'', ''asset_id'', ''fingerprint''],
       Unique ''uq_findings_tenant_id_id'' [''tenant_id'', ''id''],
       Check ''ck_findings_finding_severity'' (OneOf ''severity'' [''INFORMATIONAL'', ''LOW'', ''MEDIUM'', ''HIGH'', ''CRITICAL'']),
       Check ''ck_findings_finding_status'' (OneOf ''status'' [''OPEN'', ''ACKNOWLEDGED'', ''IN_PROGRESS'', ''RESOLVED'', ''ACCEPTED_RISK'', ''FALSE_POSITIVE'']),
       Check ''ck_findings_finding_confidence'' (OneOf ''confidence'' [''LOW'', ''MEDIUM'', ''HIGH'', ''CONFIRMED''])],
     td_indexes = []\<rparr>"

definition finding_references_table :: table_def where
  "finding_references_table = \<lparr>td_name = ''finding_references'',
     td_columns =
      [sa_column ''tenant_id'' TUuid False None,
       sa_column ''finding_id'' TUuid False None,
       sa_column ''reference_type'' (TEnum ''finding_reference_type'' [''CVE'', ''CWE'', ''OWASP'', ''ADVISORY_URL'', ''VENDOR_ID''] 32) False None,
       sa_column ''value'' (TString 500) False None,
       sa_column ''id'' TUuid False None,
       sa_column ''created_at'' TTimestamp False (Some (SqlFunction ''now()'')),
       sa_column ''updated_at'' TTimestamp False (Some (SqlFunction ''now()''))],
     td_constraints =
      [ForeignKey ''fk_finding_references_tenant_id_finding_id_findings'' [''tenant_id'', ''finding_id''] ''findings'' [''tenant_id'', ''id''] Cascade,
       PrimaryKey ''pk_finding_references'' [''id''],
       Unique ''uq_finding_references_finding_id_reference_type_value'' [''finding_id'', ''reference_type'', ''value''],
       Check ''ck_finding_references_finding_reference_type'' (OneOf ''reference_type'' [''CVE'', ''CWE'', ''OWASP'', ''ADVISORY_URL'', ''VENDOR_ID''])],
     td_indexes = []\<rparr>"

definition users_with_credentials :: table_def where
  "users_with_credentials = \<lparr>td_name = ''users'',
     td_columns =
      [sa_column ''email'' (TString 320) False None,
       sa_column ''display_name'' (TString 200) False None,
       sa_column ''status'' (TEnum ''user_status'' [''ACTIVE'', ''SUSPENDED'', ''DEACTIVATED''] 32) False (Some (Literal ''active'')),
       sa_column ''id'' TUuid False None,
       sa_column ''created_at'' TTimestamp False (Some (SqlFunction ''now()'')),
       sa_column ''updated_at'' TTimestamp False (Some (SqlFunction ''now()'')),
       sa_column ''hashed_password'' (TString 255) True None,
       sa_column ''token_version'' TInteger False (Some (Literal ''0'')),
       sa_column ''email_verified_at'' TTimestamp True None],
     td_constraints =
      [PrimaryKey ''pk_users'' [''id''],
       Unique ''uq_users_email'' [''email''],
       Check ''ck_users_user_status'' (OneOf ''status'' [''ACTIVE'', ''SUSPENDED'', ''DEACTIVATED''])],
     td_indexes = []\<rparr>"

definition refresh_tokens_table :: table_def where
  "refresh_tokens_table = \<lparr>td_name = ''refresh_tokens'',
     td_columns =
      [sa_column ''tenant_id'' TUuid False None,
       sa_column ''user_id'' TUuid False None,
       sa_column ''family_id'' TUuid False None,
       sa_column ''hashed_token'' (TString 64) False None,
       sa_column ''status'' (TEnum ''refresh_token_status'' [''ACTIVE'', ''ROTATED'', ''REVOKED''] 32) False (Some (Literal ''active'')),
       sa_column ''expires_at'' TTimestamp False None,
       sa_column ''revoked_at'' TTimestamp True None,
       sa_column ''replaced_by_id'' TUuid True None,
       sa_column ''created_by_ip'' (TString 64) True None,
       sa_column ''user_agent'' (TString 500) True None,
       sa_column ''id'' TUuid False None,
       sa_column ''created_at'' TTimestamp False (Some (SqlFunction ''now()'')),
       sa_column ''updated_at'' TTimestamp False (Some (SqlFunction ''now()''))],
     td_constraints =
      [ForeignKey ''fk_refresh_tokens_replaced_by_id_refresh_tokens'' [''replaced_by_id''] ''refresh_tokens'' [''id''] SetNull,
       ForeignKey ''fk_refresh_tokens_tenant_id_tenants'' [''tenant_id''] ''tenants'' [''id''] Restrict,
       ForeignKey ''fk_refresh_tokens_user_id_users'' [''user_id''] ''users'' [''id''] Restrict,
       PrimaryKey ''pk_refresh_tokens'' [''id''],
       Unique ''uq_refresh_tokens_hashed_token'' [''hashed_token''],
       Check ''ck_refresh_tokens_refresh_token_status'' (OneOf ''status'' [''ACTIVE'', ''ROTATED'', ''REVOKED''])],
     td_indexes = [\<lparr>ix_name = ''ix_refresh_tokens_family_id'', ix_columns = [''family_id''], ix_where = None\<rparr>]\<rparr>"

definition user_verification_tokens_table :: table_def where
  "user_verification_tokens_table = \<lparr>td_name = ''user_verification_tokens'',
     td_columns =
      [sa_column ''user_id'' TUuid False None,
       sa_column ''purpose'' (TEnum ''verification_token_purpose'' [''EMAIL_VERIFICATION'', ''PASSWORD_RESET''] 32) False None,
       sa_column ''hashed_token'' (TString 64) False None,
       sa_column ''expires_at'' TTimestamp False None,
       sa_column ''consumed_at'' TTimestamp True None,
       sa_column ''id'' TUuid False None,
       sa_column ''created_at'' TTimestamp False (Some (SqlFunction ''now()'')),
       sa_column ''updated_at'' TTimestamp False (Some (SqlFunction ''now()''))],
     td_constraints =
      [ForeignKey ''fk_user_verification_tokens_user_id_users'' [''user_id''] ''users'' [''id''] Restrict,
       PrimaryKey ''pk_user_verification_tokens'' [''id''],
       Unique ''uq_user_verification_tokens_hashed_token'' [''hashed_token''],
       Check ''ck_user_verification_tokens_verification_token_purpose'' (OneOf ''purpose'' [''EMAIL_VERIFICATION'', ''PASSWORD_RESET''])],
     td_indexes = []\<rparr>"

definition scans_orchestrated :: table_def where
  "scans_orchestrated = \<lparr>td_name = ''scans'',
     td_columns =
      [sa_column ''tenant_id'' TUuid False None,
       sa_column ''project_id'' TUuid False None,
       sa_column ''asset_id'' TUuid False None,
       sa_column ''scanner_type'' (TString 100) False None,
       sa_column ''status'' (TEnum ''scan_status'' [''PENDING'', ''QUEUED'', ''RUNNING'', ''SUCCEEDED'', ''FAILED'', ''CANCELLED''] 32) False (Some (Literal ''pending'')),
       sa_column ''requested_by_user_id'' TUuid True None,
       sa_column ''queued_at'' TTimestamp True None,
       sa_column ''started_at'' TTimestamp True None,
       sa_column ''completed_at'' TTimestamp True None,
       sa_column ''failed_at'' TTimestamp True None,
       sa_column ''error_code'' (TString 100) True None,
       sa_column ''error_summary'' (TString 2000) True None,
       sa_column ''id'' TUuid False None,
       sa_column ''created_at'' TTimestamp False (Some (SqlFunction ''now()'')),
       sa_column ''updated_at'' TTimestamp False (Some (SqlFunction ''now()'')),
       sa_column ''cancelled_at'' TTimestamp True None,
       sa_column ''timed_out_at'' TTimestamp True None,
       sa_column ''attempt'' TInteger False (Some (Literal ''0'')),
       sa_column ''max_attempts'' TInteger False (Some (Literal ''3'')),
       sa_column ''worker_id'' (TString 200) True None,
       sa_column ''job_id'' (TString 200) True None,
       sa_column ''timeout_seconds'' TInteger False (Some (Literal ''1800'')),
       sa_column ''retry_of_scan_id'' TUuid True None,
       sa_column ''config'' TJsonb True None,
       sa_column ''correlation_id'' (TString 100) True None],
     td_constraints =
      [Check ''ck_scans_completed_after_started'' (SqlOr (SqlOr (IsNull ''completed_at'') (IsNull ''started_at'')) (NotBefore ''completed_at'' ''started_at'')),
       Check ''ck_scans_failed_after_started'' (SqlOr (SqlOr (IsNull ''failed_at'') (IsNull ''started_at'')) (NotBefore ''failed_at'' ''started_at'')),
       Check ''ck_scans_started_after_queued'' (SqlOr (SqlOr (IsNull ''started_at'') (IsNull ''queued_at'')) (NotBefore ''started_at'' ''queued_at'')),
       ForeignKey ''fk_scans_requested_by_user_id_users'' [''requested_by_user_id''] ''users'' [''id''] SetNull,
       ForeignKey ''fk_scans_tenant_id_asset_id_assets'' [''tenant_id'', ''asset_id''] ''assets'' [''tenant_id'', ''id''] Restrict,
       ForeignKey ''fk_scans_tenant_id_project_id_projects'' [''tenant_id'', ''project_id''] ''projects'' [''tenant_id'', ''id''] Restrict,
       ForeignKey ''fk_scans_tenant_id_tenants'' [''tenant_id''] ''tenants'' [''id''] Restrict,
       PrimaryKey ''pk_scans'' [''id''],
       Unique ''uq_scans_tenant_id_id'' [''tenant_id'', ''id''],
       ForeignKey ''fk_scans_tenant_id_retry_of_scan_id_scans'' [''tenant_id'', ''retry_of_scan_id''] ''scans'' [''tenant_id'', ''id''] SetNull,
       Check ''ck_scans_scan_status'' (OneOf ''status'' [''PENDING'', ''QUEUED'', ''PREPARING'', ''RUNNING'', ''COLLECTING'', ''PROCESSING'', ''SUCCEEDED'', ''FAILED'', ''CANCELLED'', ''TIMED_OUT'']),
       Check ''ck_scans_terminal_timestamps_mutually_exclusive'' (SetAtMost [''completed_at'', ''failed_at'', ''cancelled_at'', ''timed_out_at''] 1),
       Check ''ck_scans_timed_out_after_started'' (SqlOr (SqlOr (IsNull ''timed_out_at'') (IsNull ''started_at'')) (NotBefore ''timed_out_at'' ''started_at'')),
       Check ''ck_scans_attempt_non_negative'' (AtLeast ''attempt'' 0),
       Check ''ck_scans_max_attempts_positive'' (AtLeast ''max_attempts'' 1),
       Check ''ck_scans_timeout_seconds_positive'' (Above ''timeout_seconds'' 0),
       Check ''ck_scans_config_size_limit'' (SqlOr (IsNull ''config'') (SizeAtMost ''config'' 16384))],
     td_indexes = []\<rparr>"

definition scan_events_table :: table_def where
  "scan_events_table = \<lparr>td_name = ''scan_events'',
     td_columns =
      [sa_column ''tenant_id'' TUuid False None,
       sa_column ''scan_id'' TUuid False None,
       sa_column ''event_type'' (TString 100) False None,
       sa_column ''stage'' (TString 50) True None,
       sa_column ''progress_percent'' TInteger True None,
       sa_column ''worker_id'' (TString 200) True None,
       sa_column ''correlation_id'' (TString 100) True None,
       sa_column ''message'' (TString 2000) True None,
       sa_column ''metadata'' TJsonb True None,
       sa_column ''id'' TUuid False None,
       sa_column ''created_at'' TTimestamp False (Some (SqlFunction ''clock_timestamp()''))],
     td_constraints =
      [Check ''ck_scan_events_metadata_size_limit'' (SqlOr (IsNull ''metadata'') (SizeAtMost ''metadata'' 8192)),
       Check ''ck_scan_events_progress_percent_range'' (SqlOr (IsNull ''progress_percent'') (SqlAnd (AtLeast ''progress_percent'' 0) (AtMost ''progress_percent'' 100))),
       ForeignKey ''fk_scan_events_tenant_id_scan_id_scans'' [''tenant_id'', ''scan_id''] ''scans'' [''tenant_id'', ''id''] Cascade,
       ForeignKey ''fk_scan_events_tenant_id_tenants'' [''tenant_id''] ''tenants'' [''id''] Restrict,
       PrimaryKey ''pk_scan_events'' [''id'']],
     td_indexes = []\<rparr>"

definition scan_job_outbox_table :: table_def where
  "scan_job_outbox_table = \<lparr>td_name = ''scan_job_outbox'',
     td_columns =
      [sa_column ''tenant_id'' TUuid False None,
       sa_column ''scan_id'' TUuid False None,
       sa_column ''scan_attempt'' TInteger False None,
       sa_column ''event_type'' (TString 50) False None,
       sa_column ''payload'' TJsonb False None,
       sa_column ''countdown_seconds'' TFloat False (Some (Literal ''0'')),
       sa_column ''created_at'' TTimestamp False (Some (SqlFunction ''now()'')),
       sa_column ''published_at'' TTimestamp True None,
       sa_column ''attempt_count'' TInteger False (Some (Literal ''0'')),
       sa_column ''last_attempt_at'' TTimestamp True None,
       sa_column ''last_error'' (TString 500) True None,
       sa_column ''id'' TUuid False None],
     td_constraints =
      [Check ''ck_scan_job_outbox_attempt_count_non_negative'' (AtLeast ''attempt_count'' 0),
       Check ''ck_scan_job_outbox_countdown_seconds_non_negative'' (AtLeast ''countdown_seconds'' 0),
       Check ''ck_scan_job_outbox_payload_size_limit'' (SqlOr (IsNull ''payload'') (SizeAtMost ''payload'' 4096)),
       Check ''ck_scan_job_outbox_scan_attempt_non_negative'' (AtLeast ''scan_attempt'' 0),
       ForeignKey ''fk_scan_job_outbox_tenant_id_scan_id_scans'' [''tenant_id'', ''scan_id''] ''scans'' [''tenant_id'', ''id''] Cascade,
       ForeignKey ''fk_scan_job_outbox_tenant_id_tenants'' [''tenant_id''] ''tenants'' [''id''] Restrict,
       PrimaryKey ''pk_scan_job_outbox'' [''id''],
       Unique ''uq_scan_job_outbox_tenant_scan_attempt'' [''tenant_id'', ''scan_id'', ''scan_attempt'']],
     td_indexes = [\<lparr>ix_name = ''ix_scan_job_outbox_pending'', ix_columns = [''created_at''], ix_where = Some (IsNull ''published_at'')\<rparr>]\<rparr>"

definition scans_restored :: table_def where
  "scans_restored = \<lparr>td_name = ''scans'',
     td_columns =
      [sa_column ''tenant_id'' TUuid False None,
       sa_column ''project_id'' TUuid False None,
       sa_column ''asset_id'' TUuid False None,
       sa_column ''scanner_type'' (TString 100) False None,
       sa_column ''status'' (TEnum ''scan_status'' [''PENDING'', ''QUEUED'', ''RUNNING'', ''SUCCEEDED'', ''FAILED'', ''CANCELLED''] 32) False (Some (Literal ''pending'')),
       sa_column ''requested_by_user_id'' TUuid True None,
       sa_column ''queued_at'' TTimestamp True None,
       sa_column ''started_at'' TTimestamp True None,
       sa_column ''completed_at'' TTimestamp True None,
       sa_column ''failed_at'' TTimestamp True None,
       sa_column ''error_code'' (TString 100) True None,
       sa_column ''error_summary'' (TString 2000) True None,
       sa_column ''id'' TUuid False None,
       sa_column ''created_at'' TTimestamp False (Some (SqlFunction ''now()'')),
       sa_column ''updated_at'' TTimestamp False (Some (SqlFunction ''now()''))],
     td_constraints =
      [Check ''ck_scans_completed_after_started'' (SqlOr (SqlOr (IsNull ''completed_at'') (IsNull ''started_at'')) (NotBefore ''completed_at'' ''started_at'')),
       Check ''ck_scans_failed_after_started'' (SqlOr (SqlOr (IsNull ''failed_at'') (IsNull ''started_at'')) (NotBefore ''failed_at'' ''started_at'')),
       Check ''ck_scans_started_after_queued'' (SqlOr (SqlOr (IsNull ''started_at'') (IsNull ''queued_at'')) (NotBefore ''started_at'' ''queued_at'')),
       ForeignKey ''fk_scans_requested_by_user_id_users'' [''requested_by_user_id''] ''users'' [''id''] SetNull,
       ForeignKey ''fk_scans_tenant_id_asset_id_assets'' [''tenant_id'', ''asset_id''] ''assets'' [''tenant_id'', ''id''] Restrict,
       ForeignKey ''fk_scans_tenant_id_project_id_projects'' [''tenant_id'', ''project_id''] ''projects'' [''tenant_id'', ''id''] Restrict,
       ForeignKey ''fk_scans_tenant_id_tenants'' [''tenant_id''] ''tenants'' [''id''] Restrict,
       PrimaryKey ''pk_scans'' [''id''],
       Unique ''uq_scans_tenant_id_id'' [''tenant_id'', ''id''],
       Check ''ck_scans_completed_failed_mutually_exclusive'' (SqlOr (IsNull ''completed_at'') (IsNull ''failed_at'')),
       Check ''ck_scans_scan_status'' (OneOf ''status'' [''PENDING'', ''QUEUED'', ''RUNNING'', ''SUCCEEDED'', ''FAILED'', ''CANCELLED''])],
     td_indexes = []\<rparr>"

definition scans_widening :: table_def where
  "scans_widening = \<lparr>td_name = ''scans'',
     td_columns =
      [sa_column ''tenant_id'' TUuid False None,
       sa_column ''project_id'' TUuid False None,
       sa_column ''asset_id'' TUuid False None,
       sa_column ''scanner_type'' (TString 100) False None,
       sa_column ''status'' (TEnum ''scan_status'' [''PENDING'', ''QUEUED'', ''RUNNING'', ''SUCCEEDED'', ''FAILED'', ''CANCELLED''] 32) False (Some (Literal ''pending'')),
       sa_column ''requested_by_user_id'' TUuid True None,
       sa_column ''queued_at'' TTimestamp True None,
       sa_column ''started_at'' TTimestamp True None,
       sa_column ''completed_at'' TTimestamp True None,
       sa_column ''failed_at'' TTimestamp True None,
       sa_column ''error_code'' (TString 100) True None,
       sa_column ''error_summary'' (TString 2000) True None,
       sa_column ''id'' TUuid False None,
       sa_column ''created_at'' TTimestamp False (Some (SqlFunction ''now()'')),
       sa_column ''updated_at'' TTimestamp False (Some (SqlFunction ''now()'')),
       sa_column ''cancelled_at'' TTimestamp True None,
       sa_column ''timed_out_at'' TTimestamp True None,
       sa_column ''attempt'' TInteger False (Some (Literal ''0'')),
       sa_column ''max_attempts'' TInteger False (Some (Literal ''3'')),
       sa_column ''worker_id'' (TString 200) True None],
     td_constraints =
      [Check ''ck_scans_completed_failed_mutually_exclusive'' (SqlOr (IsNull ''completed_at'') (IsNull ''failed_at'')),
       Check ''ck_scans_completed_after_started'' (SqlOr (SqlOr (IsNull ''completed_at'') (IsNull ''started_at'')) (NotBefore ''completed_at'' ''started_at'')),
       Check ''ck_scans_failed_after_started'' (SqlOr (SqlOr (IsNull ''failed_at'') (IsNull ''started_at'')) (NotBefore ''failed_at'' ''started_at'')),
       Check ''ck_scans_started_after_queued'' (SqlOr (SqlOr (IsNull ''started_at'') (IsNull ''queued_at'')) (NotBefore ''started_at'' ''queued_at'')),
       ForeignKey ''fk_scans_requested_by_user_id_users'' [''requested_by_user_id''] ''users'' [''id''] SetNull,
       ForeignKey ''fk_scans_tenant_id_asset_id_assets'' [''tenant_id'', ''asset_id''] ''assets'' [''tenant_id'', ''id''] Restrict,
       ForeignKey ''fk_scans_tenant_id_project_id_projects'' [''tenant_id'', ''project_id''] ''projects'' [''tenant_id'', ''id''] Restrict,
       ForeignKey ''fk_scans_tenant_id_tenants'' [''tenant_id''] ''tenants'' [''id''] Restrict,
       PrimaryKey ''pk_scans'' [''id''],
       Unique ''uq_scans_tenant_id_id'' [''tenant_id'', ''id''],
       Check ''ck_scans_scan_status'' (OneOf ''status'' [''PENDING'', ''QUEUED'', ''RUNNING'', ''SUCCEEDED'', ''FAILED'', ''CANCELLED''])],
     td_indexes = []\<rparr>"

definition scans_widened :: table_def where
  "scans_widened = \<lparr>td_name = ''scans'',
     td_columns =
      [sa_column ''tenant_id'' TUuid False None,
       sa_column ''project_id'' TUuid False None,
       sa_column ''asset_id'' TUuid False None,
       sa_column ''scanner_type'' (TString 100) False None,
       sa_column ''status'' (TEnum ''scan_status'' [''PENDING'', ''QUEUED'', ''RUNNING'', ''SUCCEEDED'', ''FAILED'', ''CANCELLED''] 32) False (Some (Literal ''pending'')),
       sa_column ''requested_by_user_id'' TUuid True None,
       sa_column ''queued_at'' TTimestamp True None,
       sa_column ''started_at'' TTimestamp True None,
       sa_column ''completed_at'' TTimestamp True None,
       sa_column ''failed_at'' TTimestamp True None,
       sa_column ''error_code'' (TString 100) True None,
       sa_column ''error_summary'' (TString 2000) True None,
       sa_column ''id'' TUuid False None,
       sa_column ''created_at'' TTimestamp False (Some (SqlFunction ''now()'')),
       sa_column ''updated_at'' TTimestamp False (Some (SqlFunction ''now()'')),
       sa_column ''cancelled_at'' TTimestamp True None,
       sa_column ''timed_out_at'' TTimestamp True None,
       sa_column ''attempt'' TInteger False (Some (Literal ''0'')),
       sa_column ''max_attempts'' TInteger False (Some (Literal ''3'')),
       sa_column ''worker_id'' (TString 200) True None,
       sa_column ''job_id'' (TString 200) True None,
       sa_column ''timeout_seconds'' TInteger False (Some (Literal ''1800'')),
       sa_column ''retry_of_scan_id'' TUuid True None,
       sa_column ''config'' TJsonb True None,
       sa_column ''correlation_id'' (TString 100) True None],
     td_constraints =
      [Check ''ck_scans_completed_failed_mutually_exclusive'' (SqlOr (IsNull ''completed_at'') (IsNull ''failed_at'')),
       Check ''ck_scans_completed_after_started'' (SqlOr (SqlOr (IsNull ''completed_at'') (IsNull ''started_at'')) (NotBefore ''completed_at'' ''started_at'')),
       Check ''ck_scans_failed_after_started'' (SqlOr (SqlOr (IsNull ''failed_at'') (IsNull ''started_at'')) (NotBefore ''failed_at'' ''started_at'')),
       Check ''ck_scans_started_after_queued'' (SqlOr (SqlOr (IsNull ''started_at'') (IsNull ''queued_at'')) (NotBefore ''started_at'' ''queued_at'')),
       ForeignKey ''fk_scans_requested_by_user_id_users'' [''requested_by_user_id''] ''users'' [''id''] SetNull,
       ForeignKey ''fk_scans_tenant_id_asset_id_assets'' [''tenant_id'', ''asset_id''] ''assets'' [''tenant_id'', ''id''] Restrict,
       ForeignKey ''fk_scans_tenant_id_project_id_projects'' [''tenant_id'', ''project_id''] ''projects'' [''tenant_id'', ''id''] Restrict,
       ForeignKey ''fk_scans_tenant_id_tenants'' [''tenant_id''] ''tenants'' [''id''] Restrict,
       PrimaryKey ''pk_scans'' [''id''],
       Unique ''uq_scans_tenant_id_id'' [''tenant_id'', ''id''],
       Check ''ck_scans_scan_status'' (OneOf ''status'' [''PENDING'', ''QUEUED'', ''RUNNING'', ''SUCCEEDED'', ''FAILED'', ''CANCELLED'']),
       ForeignKey ''fk_scans_tenant_id_retry_of_scan_id_scans'' [''tenant_id'', ''retry_of_scan_id''] ''scans'' [''tenant_id'', ''id''] SetNull],
     td_indexes = []\<rparr>"

definition scans_rechecked :: table_def where
  "scans_rechecked = \<lparr>td_name = ''scans'',
     td_columns =
      [sa_column ''tenant_id'' TUuid False None,
       sa_column ''project_id'' TUuid False None,
       sa_column ''asset_id'' TUuid False None,
       sa_column ''scanner_type'' (TString 100) False None,
       sa_column ''status'' (TEnum ''scan_status'' [''PENDING'', ''QUEUED'', ''RUNNING'', ''SUCCEEDED'', ''FAILED'', ''CANCELLED''] 32) False (Some (Literal ''pending'')),
       sa_column ''requested_by_user_id'' TUuid True None,
       sa_column ''queued_at'' TTimestamp True None,
       sa_column ''started_at'' TTimestamp True None,
       sa_column ''completed_at'' TTimestamp True None,
       sa_column ''failed_at'' TTimestamp True None,
       sa_column ''error_code'' (TString 100) True None,
       sa_column ''error_summary'' (TString 2000) True None,
       sa_column ''id'' TUuid False None,
       sa_column ''created_at'' TTimestamp False (Some (SqlFunction ''now()'')),
       sa_column ''updated_at'' TTimestamp False (Some (SqlFunction ''now()'')),
       sa_column ''cancelled_at'' TTimestamp True None,
       sa_column ''timed_out_at'' TTimestamp True None,
       sa_column ''attempt'' TInteger False (Some (Literal ''0'')),
       sa_column ''max_attempts'' TInteger False (Some (Literal ''3'')),
       sa_column ''worker_id'' (TString 200) True None,
       sa_column ''job_id'' (TString 200) True None,
       sa_column ''timeout_seconds'' TInteger False (Some (Literal ''1800'')),
       sa_column ''retry_of_scan_id'' TUuid True None,
       sa_column ''config'' TJsonb True None,
       sa_column ''correlation_id'' (TString 100) True None],
     td_constraints =
      [Check ''ck_scans_completed_after_started'' (SqlOr (SqlOr (IsNull ''completed_at'') (IsNull ''started_at'')) (NotBefore ''completed_at'' ''started_at'')),
       Check ''ck_scans_failed_after_started'' (SqlOr (SqlOr (IsNull ''failed_at'') (IsNull ''started_at'')) (NotBefore ''failed_at'' ''started_at'')),
       Check ''ck_scans_started_after_queued'' (SqlOr (SqlOr (IsNull ''started_at'') (IsNull ''queued_at'')) (NotBefore ''started_at'' ''queued_at'')),
       ForeignKey ''fk_scans_requested_by_user_id_users'' [''requested_by_user_id''] ''users'' [''id''] SetNull,
       ForeignKey ''fk_scans_tenant_id_asset_id_assets'' [''tenant_id'', ''asset_id''] ''assets'' [''tenant_id'', ''id''] Restrict,
       ForeignKey ''fk_scans_tenant_id_project_id_projects'' [''tenant_id'', ''project_id''] ''projects'' [''tenant_id'', ''id''] Restrict,
       ForeignKey ''fk_scans_tenant_id_tenants'' [''tenant_id''] ''tenants'' [''id''] Restrict,
       PrimaryKey ''pk_scans'' [''id''],
       Unique ''uq_scans_tenant_id_id'' [''tenant_id'', ''id''],
       ForeignKey ''fk_scans_tenant_id_retry_of_scan_id_scans'' [''tenant_id'', ''retry_of_scan_id''] ''scans'' [''tenant_id'', ''id''] SetNull,
       Check ''ck_scans_scan_status'' (OneOf ''status'' [''PENDING'', ''QUEUED'', ''PREPARING'', ''RUNNING'', ''COLLECTING'', ''PROCESSING'', ''SUCCEEDED'', ''FAILED'', ''CANCELLED'', ''TIMED_OUT'']),
       Check ''ck_scans_terminal_timestamps_mutually_exclusive'' (SetAtMost [''completed_at'', ''failed_at'', ''cancelled_at'', ''timed_out_at''] 1)],
     td_indexes = []\<rparr>"

definition scans_unchecking :: table_def where
  "scans_unchecking = \<lparr>td_name = ''scans'',
     td_columns =
      [sa_column ''tenant_id'' TUuid False None,
       sa_column ''project_id'' TUuid False None,
       sa_column ''asset_id'' TUuid False None,
       sa_column ''scanner_type'' (TString 100) False None,
       sa_column ''status'' (TEnum ''scan_status'' [''PENDING'', ''QUEUED'', ''RUNNING'', ''SUCCEEDED'', ''FAILED'', ''CANCELLED''] 32) False (Some (Literal ''pending'')),
       sa_column ''requested_by_user_id'' TUuid True None,
       sa_column ''queued_at'' TTimestamp True None,
       sa_column ''started_at'' TTimestamp True None,
       sa_column ''completed_at'' TTimestamp True None,
       sa_column ''failed_at'' TTimestamp True None,
       sa_column ''error_code'' (TString 100) True None,
       sa_column ''error_summary'' (TString 2000) True None,
       sa_column ''id'' TUuid False None,
       sa_column ''created_at'' TTimestamp False (Some (SqlFunction ''now()'')),
       sa_column ''updated_at'' TTimestamp False (Some (SqlFunction ''now()'')),
       sa_column ''cancelled_at'' TTimestamp True None,
       sa_column ''timed_out_at'' TTimestamp True None,
       sa_column ''attempt'' TInteger False (Some (Literal ''0'')),
       sa_column ''max_attempts'' TInteger False (Some (Literal ''3'')),
       sa_column ''worker_id'' (TString 200) True None,
       sa_column ''job_id'' (TString 200) True None,
       sa_column ''timeout_seconds'' TInteger False (Some (Literal ''1800'')),
       sa_column ''retry_of_scan_id'' TUuid True None,
       sa_column ''config'' TJsonb True None,
       sa_column ''correlation_id'' (TString 100) True None],
     td_constraints =
      [Check ''ck_scans_completed_after_started'' (SqlOr (SqlOr (IsNull ''completed_at'') (IsNull ''started_at'')) (NotBefore ''completed_at'' ''started_at'')),
       Check ''ck_scans_failed_after_started'' (SqlOr (SqlOr (IsNull ''failed_at'') (IsNull ''started_at'')) (NotBefore ''failed_at'' ''started_at'')),
       Check ''ck_scans_started_after_queued'' (SqlOr (SqlOr (IsNull ''started_at'') (IsNull ''queued_at'')) (NotBefore ''started_at'' ''queued_at'')),
       ForeignKey ''fk_scans_requested_by_user_id_users'' [''requested_by_user_id''] ''users'' [''id''] SetNull,
       ForeignKey ''fk_scans_tenant_id_asset_id_assets'' [''tenant_id'', ''asset_id''] ''assets'' [''tenant_id'', ''id''] Restrict,
       ForeignKey ''fk_scans_tenant_id_project_id_projects'' [''tenant_id'', ''project_id''] ''projects'' [''tenant_id'', ''id''] Restrict,
       ForeignKey ''fk_scans_tenant_id_tenants'' [''tenant_id''] ''tenants'' [''id''] Restrict,
       PrimaryKey ''pk_scans'' [''id''],
       Unique ''uq_scans_tenant_id_id'' [''tenant_id'', ''id''],
       ForeignKey ''fk_scans_tenant_id_retry_of_scan_id_scans'' [''tenant_id'', ''retry_of_scan_id''] ''scans'' [''tenant_id'', ''id''] SetNull,
       Check ''ck_scans_scan_status'' (OneOf ''status'' [''PENDING'', ''QUEUED'', ''PREPARING'', ''RUNNING'', ''COLLECTING'', ''PROCESSING'', ''SUCCEEDED'', ''FAILED'', ''CANCELLED'', ''TIMED_OUT'']),
       Check ''ck_scans_terminal_timestamps_mutually_exclusive'' (SetAtMost [''completed_at'', ''failed_at'', ''cancelled_at'', ''timed_out_at''] 1)],
     td_indexes = []\<rparr>"

definition scans_unchecked :: table_def where
  "scans_unchecked = \<lparr>td_name = ''scans'',
     td_columns =
      [sa_column ''tenant_id'' TUuid False None,
       sa_column ''project_id'' TUuid False None,
       sa_column ''asset_id'' TUuid False None,
       sa_column ''scanner_type'' (TString 100) False None,
       sa_column ''status'' (TEnum ''scan_status'' [''PENDING'', ''QUEUED'', ''RUNNING'', ''SUCCEEDED'', ''FAILED'', ''CANCELLED''] 32) False (Some (Literal ''pending'')),
       sa_column ''requested_by_user_id'' TUuid True None,
       sa_column ''queued_at'' TTimestamp True None,
       sa_column ''started_at'' TTimestamp True None,
       sa_column ''completed_at'' TTimestamp True None,
       sa_column ''failed_at'' TTimestamp True None,
       sa_column ''error_code'' (TString 100) True None,
       sa_column ''error_summary'' (TString 2000) True None,
       sa_column ''id'' TUuid False None,
       sa_column ''created_at'' TTimestamp False (Some (SqlFunction ''now()'')),
       sa_column ''updated_at'' TTimestamp False (Some (SqlFunction ''now()'')),
       sa_column ''cancelled_at'' TTimestamp True None,
       sa_column ''timed_out_at'' TTimestamp True None,
       sa_column ''attempt'' TInteger False (Some (Literal ''0'')),
       sa_column ''max_attempts'' TInteger False (Some (Literal ''3'')),
       sa_column ''worker_id'' (TString 200) True None,
       sa_column ''job_id'' (TString 200) True None,
       sa_column ''timeout_seconds'' TInteger False (Some (Literal ''1800'')),
       sa_column ''retry_of_scan_id'' TUuid True None,
       sa_column ''config'' TJsonb True None,
       sa_column ''correlation_id'' (TString 100) True None],
     td_constraints =
      [Check ''ck_scans_completed_after_started'' (SqlOr (SqlOr (IsNull ''completed_at'') (IsNull ''started_at'')) (NotBefore ''completed_at'' ''started_at'')),
       Check ''ck_scans_failed_after_started'' (SqlOr (SqlOr (IsNull ''failed_at'') (IsNull ''started_at'')) (NotBefore ''failed_at'' ''started_at'')),
       Check ''ck_scans_started_after_queued'' (SqlOr (SqlOr (IsNull ''started_at'') (IsNull ''queued_at'')) (NotBefore ''started_at'' ''queued_at'')),
       ForeignKey ''fk_scans_requested_by_user_id_users'' [''requested_by_user_id''] ''users'' [''id''] SetNull,
       ForeignKey ''fk_scans_tenant_id_asset_id_assets'' [''tenant_id'', ''asset_id''] ''assets'' [''tenant_id'', ''id''] Restrict,
       ForeignKey ''fk_scans_tenant_id_project_id_projects'' [''tenant_id'', ''project_id''] ''projects'' [''tenant_id'', ''id''] Restrict,
       ForeignKey ''fk_scans_tenant_id_tenants'' [''tenant_id''] ''tenants'' [''id''] Restrict,
       PrimaryKey ''pk_scans'' [''id''],
       Unique ''uq_scans_tenant_id_id'' [''tenant_id'', ''id''],
       ForeignKey ''fk_scans_tenant_id_retry_of_scan_id_scans'' [''tenant_id'', ''retry_of_scan_id''] ''scans'' [''tenant_id'', ''id''] SetNull,
       Check ''ck_scans_completed_failed_mutually_exclusive'' (SqlOr (IsNull ''completed_at'') (IsNull ''failed_at'')),
       Check ''ck_scans_scan_status'' (OneOf ''status'' [''PENDING'', ''QUEUED'', ''RUNNING'', ''SUCCEEDED'', ''FAILED'', ''CANCELLED''])],
     td_indexes = []\<rparr>"

definition scans_narrowing :: table_def where
  "scans_narrowing = \<lparr>td_name = ''scans'',
     td_columns =
      [sa_column ''tenant_id'' TUuid False None,
       sa_column ''project_id'' TUuid False None,
       sa_column ''asset_id'' TUuid False None,
       sa_column ''scanner_type'' (TString 100) False None,
       sa_column ''status'' (TEnum ''scan_status'' [''PENDING'', ''QUEUED'', ''RUNNING'', ''SUCCEEDED'', ''FAILED'', ''CANCELLED''] 32) False (Some (Literal ''pending'')),
       sa_column ''requested_by_user_id'' TUuid True None,
       sa_column ''queued_at'' TTimestamp True None,
       sa_column ''started_at'' TTimestamp True None,
       sa_column ''completed_at'' TTimestamp True None,
       sa_column ''failed_at'' TTimestamp True None,
       sa_column ''error_code'' (TString 100) True None,
       sa_column ''error_summary'' (TString 2000) True None,
       sa_column ''id'' TUuid False None,
       sa_column ''created_at'' TTimestamp False (Some (SqlFunction ''now()'')),
       sa_column ''updated_at'' TTimestamp False (Some (SqlFunction ''now()'')),
       sa_column ''cancelled_at'' TTimestamp True None,
       sa_column ''timed_out_at'' TTimestamp True None,
       sa_column ''attempt'' TInteger False (Some (Literal ''0'')),
       sa_column ''max_attempts'' TInteger False (Some (Literal ''3'')),
       sa_column ''worker_id'' (TString 200) True None],
     td_constraints =
      [Check ''ck_scans_completed_after_started'' (SqlOr (SqlOr (IsNull ''completed_at'') (IsNull ''started_at'')) (NotBefore ''completed_at'' ''started_at'')),
       Check ''ck_scans_failed_after_started'' (SqlOr (SqlOr (IsNull ''failed_at'') (IsNull ''started_at'')) (NotBefore ''failed_at'' ''started_at'')),
       Check ''ck_scans_started_after_queued'' (SqlOr (SqlOr (IsNull ''started_at'') (IsNull ''queued_at'')) (NotBefore ''started_at'' ''queued_at'')),
       ForeignKey ''fk_scans_requested_by_user_id_users'' [''requested_by_user_id''] ''users'' [''id''] SetNull,
       ForeignKey ''fk_scans_tenant_id_asset_id_assets'' [''tenant_id'', ''asset_id''] ''assets'' [''tenant_id'', ''id''] Restrict,
       ForeignKey ''fk_scans_tenant_id_project_id_projects'' [''tenant_id'', ''project_id''] ''projects'' [''tenant_id'', ''id''] Restrict,
       ForeignKey ''fk_scans_tenant_id_tenants'' [''tenant_id''] ''tenants'' [''id''] Restrict,
       PrimaryKey ''pk_scans'' [''id''],
       Unique ''uq_scans_tenant_id_id'' [''tenant_id'', ''id''],
       Check ''ck_scans_completed_failed_mutually_exclusive'' (SqlOr (IsNull ''completed_at'') (IsNull ''failed_at'')),
       Check ''ck_scans_scan_status'' (OneOf ''status'' [''PENDING'', ''QUEUED'', ''RUNNING'', ''SUCCEEDED'', ''FAILED'', ''CANCELLED''])],
     td_indexes = []\<rparr>"


lemma tenants_table_facts [table_facts]:
  "td_name tenants_table = ''tenants''"
  "map ix_name (td_indexes tenants_table) = []"
  "table_keys tenants_table = [[''id''], [''slug'']]"
  "table_foreign_keys tenants_table =
    []"
  "column_of ''id'' tenants_table = Some (sa_column ''id'' TUuid False None)"
  by (simp_all add: tenants_table_def table_keys_def table_foreign_keys_def column_of_def map_filter_simps sa_column_def)

lemma users_table_facts [table_facts]:
  "td_name users_table = ''users''"
  "map ix_name (td_indexes users_table) = []"
  "table_keys users_table = [[''id''], [''email'']]"
  "table_foreign_keys users_table =
    []"
  "column_of ''id'' users_table = Some (sa_column ''id'' TUuid False None)"
  by (simp_all add: users_table_def table_keys_def table_foreign_keys_def column_of_def map_filter_simps sa_column_def)

lemma api_key_metadata_table_facts [table_facts]:
  "td_name api_key_metadata_table = ''api_key_metadata''"
  "map ix_name (td_indexes api_key_metadata_table) = []"
  "table_keys api_key_metadata_table = [[''id''], [''prefix'']]"
  "table_foreign_keys api_key_metadata_table =
    [([''tenant_id''], ''tenants'', [''id''], Restrict),
     ([''user_id''], ''users'', [''id''], SetNull)]"
  "column_of ''id'' api_key_metadata_table = Some (sa_column ''id'' TUuid False None)"
  "column_of ''tenant_id'' api_key_metadata_table = Some (sa_column ''tenant_id'' TUuid False None)"
  by (simp_all add: api_key_metadata_table_def table_keys_def table_foreign_keys_def column_of_def map_filter_simps sa_column_def)

lemma audit_events_table_facts [table_facts]:
  "td_name audit_events_table = ''audit_events''"
  "map ix_name (td_indexes audit_events_table) = []"
  "table_keys audit_events_table = [[''id'']]"
  "table_foreign_keys audit_events_table =
    [([''actor_user_id''], ''users'', [''id''], SetNull),
     ([''tenant_id''], ''tenants'', [''id''], SetNull)]"
  "column_of ''id'' audit_events_table = Some (sa_column ''id'' TUuid False None)"
  "column_of ''tenant_id'' audit_events_table = Some (sa_column ''tenant_id'' TUuid True None)"
  by (simp_all add: audit_events_table_def table_keys_def table_foreign_keys_def column_of_def map_filter_simps sa_column_def)

lemma projects_table_facts [table_facts]:
  "td_name projects_table = ''projects''"
  "map ix_name (td_indexes projects_table) = []"
  "table_keys projects_table = [[''id''], [''tenant_id'', ''id''], [''tenant_id'', ''slug'']]"
  "table_foreign_keys projects_table =
    [([''tenant_id''], ''tenants'', [''id''], Restrict)]"
  "column_of ''id'' projects_table = Some (sa_column ''id'' TUuid False None)"
  "column_of ''tenant_id'' projects_table = Some (sa_column ''tenant_id'' TUuid False None)"
  by (simp_all add: projects_table_def table_keys_def table_foreign_keys_def column_of_def map_filter_simps sa_column_def)

lemma tenant_memberships_table_facts [table_facts]:
  "td_name tenant_memberships_table = ''tenant_memberships''"
  "map ix_name (td_indexes tenant_memberships_table) = []"
  "table_keys tenant_memberships_table = [[''id''], [''tenant_id'', ''user_id'']]"
  "table_foreign_keys tenant_memberships_table =
    [([''tenant_id''], ''tenants'', [''id''], Restrict),
     ([''user_id''], ''users'', [''id''], Restrict)]"
  "column_of ''id'' tenant_memberships_table = Some (sa_column ''id'' TUuid False None)"
  "column_of ''tenant_id'' tenant_memberships_table = Some (sa_column ''tenant_id'' TUuid False None)"
  by (simp_all add: tenant_memberships_table_def table_keys_def table_foreign_keys_def column_of_def map_filter_simps sa_column_def)

lemma assets_table_facts [table_facts]:
  "td_name assets_table = ''assets''"
  "map ix_name (td_indexes assets_table) = []"
  "table_keys assets_table = [[''id''], [''tenant_id'', ''id'']]"
  "table_foreign_keys assets_table =
    [([''tenant_id'', ''project_id''], ''projects'', [''tenant_id'', ''id''], Restrict),
     ([''tenant_id''], ''tenants'', [''id''], Restrict)]"
  "column_of ''id'' assets_table = Some (sa_column ''id'' TUuid False None)"
  "column_of ''tenant_id'' assets_table = Some (sa_column ''tenant_id'' TUuid False None)"
  by (simp_all add: assets_table_def table_keys_def table_foreign_keys_def column_of_def map_filter_simps sa_column_def)

lemma scans_table_facts [table_facts]:
  "td_name scans_table = ''scans''"
  "map ix_name (td_indexes scans_table) = []"
  "table_keys scans_table = [[''id''], [''tenant_id'', ''id'']]"
  "table_foreign_keys scans_table =
    [([''requested_by_user_id''], ''users'', [''id''], SetNull),
     ([''tenant_id'', ''asset_id''], ''assets'', [''tenant_id'', ''id''], Restrict),
     ([''tenant_id'', ''project_id''], ''projects'', [''tenant_id'', ''id''], Restrict),
     ([''tenant_id''], ''tenants'', [''id''], Restrict)]"
  "column_of ''id'' scans_table = Some (sa_column ''id'' TUuid False None)"
  "column_of ''tenant_id'' scans_table = Some (sa_column ''tenant_id'' TUuid False None)"
  by (simp_all add: scans_table_def table_keys_def table_foreign_keys_def column_of_def map_filter_simps sa_column_def)

lemma findings_table_facts [table_facts]:
  "td_name findings_table = ''findings''"
  "map ix_name (td_indexes findings_table) = []"
  "table_keys findings_table = [[''id''], [''tenant_id'', ''asset_id'', ''fingerprint''], [''tenant_id'', ''id'']]"
  "table_foreign_keys findings_table =
    [([''tenant_id'', ''asset_id''], ''assets'', [''tenant_id'', ''id''], Restrict),
     ([''tenant_id'', ''project_id''], ''projects'', [''tenant_id'', ''id''], Restrict),
     ([''tenant_id'', ''scan_id''], ''scans'', [''tenant_id'', ''id''], Restrict),
     ([''tenant_id''], ''tenants'', [''id''], Restrict)]"
  "column_of ''id'' findings_table = Some (sa_column ''id'' TUuid False None)"
  "column_of ''tenant_id'' findings_table = Some (sa_column ''tenant_id'' TUuid False None)"
  by (simp_all add: findings_table_def table_keys_def table_foreign_keys_def column_of_def map_filter_simps sa_column_def)

lemma finding_references_table_facts [table_facts]:
  "td_name finding_references_table = ''finding_references''"
  "map ix_name (td_indexes finding_references_table) = []"
  "table_keys finding_references_table = [[''id''], [''finding_id'', ''reference_type'', ''value'']]"
  "table_foreign_keys finding_references_table =
    [([''tenant_id'', ''finding_id''], ''findings'', [''tenant_id'', ''id''], Cascade)]"
  "column_of ''id'' finding_references_table = Some (sa_column ''id'' TUuid False None)"
  "column_of ''tenant_id'' finding_references_table = Some (sa_column ''tenant_id'' TUuid False None)"
  by (simp_all add: finding_references_table_def table_keys_def table_foreign_keys_def column_of_def map_filter_simps sa_column_def)

lemma users_with_credentials_facts [table_facts]:
  "td_name users_with_credentials = ''users''"
  "map ix_name (td_indexes users_with_credentials) = []"
  "table_keys users_with_credentials = [[''id''], [''email'']]"
  "table_foreign_keys users_with_credentials =
    []"
  "column_of ''id'' users_with_credentials = Some (sa_column ''id'' TUuid False None)"
  by (simp_all add: users_with_credentials_def table_keys_def table_foreign_keys_def column_of_def map_filter_simps sa_column_def)

lemma refresh_tokens_table_facts [table_facts]:
  "td_name refresh_tokens_table = ''refresh_tokens''"
  "map ix_name (td_indexes refresh_tokens_table) = [''ix_refresh_tokens_family_id'']"
  "table_keys refresh_tokens_table = [[''id''], [''hashed_token'']]"
  "table_foreign_keys refresh_tokens_table =
    [([''replaced_by_id''], ''refresh_tokens'', [''id''], SetNull),
     ([''tenant_id''], ''tenants'', [''id''], Restrict),
     ([''user_id''], ''users'', [''id''], Restrict)]"
  "column_of ''id'' refresh_tokens_table = Some (sa_column ''id'' TUuid False None)"
  "column_of ''tenant_id'' refresh_tokens_table = Some (sa_column ''tenant_id'' TUuid False None)"
  by (simp_all add: refresh_tokens_table_def table_keys_def table_foreign_keys_def column_of_def map_filter_simps sa_column_def)

lemma user_verification_tokens_table_facts [table_facts]:
  "td_name user_verification_tokens_table = ''user_verification_tokens''"
  "map ix_name (td_indexes user_verification_tokens_table) = []"
  "table_keys user_verification_tokens_table = [[''id''], [''hashed_token'']]"
  "table_foreign_keys user_verification_tokens_table =
    [([''user_id''], ''users'', [''id''], Restrict)]"
  "column_of ''id'' user_verification_tokens_table = Some (sa_column ''id'' TUuid False None)"
  by (simp_all add: user_verification_tokens_table_def table_keys_def table_foreign_keys_def column_of_def map_filter_simps sa_column_def)

lemma scans_orchestrated_facts [table_facts]:
  "td_name scans_orchestrated = ''scans''"
  "map ix_name (td_indexes scans_orchestrated) = []"
  "table_keys scans_orchestrated = [[''id''], [''tenant_id'', ''id'']]"
  "table_foreign_keys scans_orchestrated =
    [([''requested_by_user_id''], ''users'', [''id''], SetNull),
     ([''tenant_id'', ''asset_id''], ''assets'', [''tenant_id'', ''id''], Restrict),
     ([''tenant_id'', ''project_id''], ''projects'', [''tenant_id'', ''id''], Restrict),
     ([''tenant_id''], ''tenants'', [''id''], Restrict),
     ([''tenant_id'', ''retry_of_scan_id''], ''scans'', [''tenant_id'', ''id''], SetNull)]"
  "column_of ''id'' scans_orchestrated = Some (sa_column ''id'' TUuid False None)"
  "column_of ''tenant_id'' scans_orchestrated = Some (sa_column ''tenant_id'' TUuid False None)"
  by (simp_all add: scans_orchestrated_def table_keys_def table_foreign_keys_def column_of_def map_filter_simps sa_column_def)

lemma scan_events_table_facts [table_facts]:
  "td_name scan_events_table = ''scan_events''"
  "map ix_name (td_indexes scan_events_table) = []"
  "table_keys scan_events_table = [[''id'']]"
  "table_foreign_keys scan_events_table =
    [([''tenant_id'', ''scan_id''], ''scans'', [''tenant_id'', ''id''], Cascade),
     ([''tenant_id''], ''tenants'', [''id''], Restrict)]"
  "column_of ''id'' scan_events_table = Some (sa_column ''id'' TUuid False None)"
  "column_of ''tenant_id'' scan_events_table = Some (sa_column ''tenant_id'' TUuid False None)"
  by (simp_all add: scan_events_table_def table_keys_def table_foreign_keys_def column_of_def map_filter_simps sa_column_def)

lemma scan_job_outbox_table_facts [table_facts]:
  "td_name scan_job_outbox_table = ''scan_job_outbox''"
  "map ix_name (td_indexes scan_job_outbox_table) = [''ix_scan_job_outbox_pending'']"
  "table_keys scan_job_outbox_table = [[''id''], [''tenant_id'', ''scan_id'', ''scan_attempt'']]"
  "table_foreign_keys scan_job_outbox_table =
    [([''tenant_id'', ''scan_id''], ''scans'', [''tenant_id'', ''id''], Cascade),
     ([''tenant_id''], ''tenants'', [''id''], Restrict)]"
  "column_of ''id'' scan_job_outbox_table = Some (sa_column ''id'' TUuid False None)"
  "column_of ''tenant_id'' scan_job_outbox_table = Some (sa_column ''tenant_id'' TUuid False None)"
  by (simp_all add: scan_job_outbox_table_def table_keys_def table_foreign_keys_def column_of_def map_filter_simps sa_column_def)

lemma scans_restored_facts [table_facts]:
  "td_name scans_restored = ''scans''"
  "map ix_name (td_indexes scans_restored) = []"
  "table_keys scans_restored = [[''id''], [''tenant_id'', ''id'']]"
  "table_foreign_keys scans_restored =
    [([''requested_by_user_id''], ''users'', [''id''], SetNull),
     ([''tenant_id'', ''asset_id''], ''assets'', [''tenant_id'', ''id''], Restrict),
     ([''tenant_id'', ''project_id''], ''projects'', [''tenant_id'', ''id''], Restrict),
     ([''tenant_id''], ''tenants'', [''id''], Restrict)]"
  "column_of ''id'' scans_restored = Some (sa_column ''id'' TUuid False None)"
  "column_of ''tenant_id'' scans_restored = Some (sa_column ''tenant_id'' TUuid False None)"
  by (simp_all add: scans_restored_def table_keys_def table_foreign_keys_def column_of_def map_filter_simps sa_column_def)

lemma scans_widening_facts [table_facts]:
  "td_name scans_widening = ''scans''"
  "map ix_name (td_indexes scans_widening) = []"
  "table_keys scans_widening = [[''id''], [''tenant_id'', ''id'']]"
  "table_foreign_keys scans_widening =
    [([''requested_by_user_id''], ''users'', [''id''], SetNull),
     ([''tenant_id'', ''asset_id''], ''assets'', [''tenant_id'', ''id''], Restrict),
     ([''tenant_id'', ''project_id''], ''projects'', [''tenant_id'', ''id''], Restrict),
     ([''tenant_id''], ''tenants'', [''id''], Restrict)]"
  "column_of ''id'' scans_widening = Some (sa_column ''id'' TUuid False None)"
  "column_of ''tenant_id'' scans_widening = Some (sa_column ''tenant_id'' TUuid False None)"
  by (simp_all add: scans_widening_def table_keys_def table_foreign_keys_def column_of_def map_filter_simps sa_column_def)

lemma scans_widened_facts [table_facts]:
  "td_name scans_widened = ''scans''"
  "map ix_name (td_indexes scans_widened) = []"
  "table_keys scans_widened = [[''id''], [''tenant_id'', ''id'']]"
  "table_foreign_keys scans_widened =
    [([''requested_by_user_id''], ''users'', [''id''], SetNull),
     ([''tenant_id'', ''asset_id''], ''assets'', [''tenant_id'', ''id''], Restrict),
     ([''tenant_id'', ''project_id''], ''projects'', [''tenant_id'', ''id''], Restrict),
     ([''tenant_id''], ''tenants'', [''id''], Restrict),
     ([''tenant_id'', ''retry_of_scan_id''], ''scans'', [''tenant_id'', ''id''], SetNull)]"
  "column_of ''id'' scans_widened = Some (sa_column ''id'' TUuid False None)"
  "column_of ''tenant_id'' scans_widened = Some (sa_column ''tenant_id'' TUuid False None)"
  by (simp_all add: scans_widened_def table_keys_def table_foreign_keys_def column_of_def map_filter_simps sa_column_def)

lemma scans_rechecked_facts [table_facts]:
  "td_name scans_rechecked = ''scans''"
  "map ix_name (td_indexes scans_rechecked) = []"
  "table_keys scans_rechecked = [[''id''], [''tenant_id'', ''id'']]"
  "table_foreign_keys scans_rechecked =
    [([''requested_by_user_id''], ''users'', [''id''], SetNull),
     ([''tenant_id'', ''asset_id''], ''assets'', [''tenant_id'', ''id''], Restrict),
     ([''tenant_id'', ''project_id''], ''projects'', [''tenant_id'', ''id''], Restrict),
     ([''tenant_id''], ''tenants'', [''id''], Restrict),
     ([''tenant_id'', ''retry_of_scan_id''], ''scans'', [''tenant_id'', ''id''], SetNull)]"
  "column_of ''id'' scans_rechecked = Some (sa_column ''id'' TUuid False None)"
  "column_of ''tenant_id'' scans_rechecked = Some (sa_column ''tenant_id'' TUuid False None)"
  by (simp_all add: scans_rechecked_def table_keys_def table_foreign_keys_def column_of_def map_filter_simps sa_column_def)

lemma scans_unchecking_facts [table_facts]:
  "td_name scans_unchecking = ''scans''"
  "map ix_name (td_indexes scans_unchecking) = []"
  "table_keys scans_unchecking = [[''id''], [''tenant_id'', ''id'']]"
  "table_foreign_keys scans_unchecking =
    [([''requested_by_user_id''], ''users'', [''id''], SetNull),
     ([''tenant_id'', ''asset_id''], ''assets'', [''tenant_id'', ''id''], Restrict),
     ([''tenant_id'', ''project_id''], ''projects'', [''tenant_id'', ''id''], Restrict),
     ([''tenant_id''], ''tenants'', [''id''], Restrict),
     ([''tenant_id'', ''retry_of_scan_id''], ''scans'', [''tenant_id'', ''id''], SetNull)]"
  "column_of ''id'' scans_unchecking = Some (sa_column ''id'' TUuid False None)"
  "column_of ''tenant_id'' scans_unchecking = Some (sa_column ''tenant_id'' TUuid False None)"
  by (simp_all add: scans_unchecking_def table_keys_def table_foreign_keys_def column_of_def map_filter_simps sa_column_def)

lemma scans_unchecked_facts [table_facts]:
  "td_name scans_unchecked = ''scans''"
  "map ix_name (td_indexes scans_unchecked) = []"
  "table_keys scans_unchecked = [[''id''], [''tenant_id'', ''id'']]"
  "table_foreign_keys scans_unchecked =
    [([''requested_by_user_id''], ''users'', [''id''], SetNull),
     ([''tenant_id'', ''asset_id''], ''assets'', [''tenant_id'', ''id''], Restrict),
     ([''tenant_id'', ''project_id''], ''projects'', [''tenant_id'', ''id''], Restrict),
     ([''tenant_id''], ''tenants'', [''id''], Restrict),
     ([''tenant_id'', ''retry_of_scan_id''], ''scans'', [''tenant_id'', ''id''], SetNull)]"
  "column_of ''id'' scans_unchecked = Some (sa_column ''id'' TUuid False None)"
  "column_of ''tenant_id'' scans_unchecked = Some (sa_column ''tenant_id'' TUuid False None)"
  by (simp_all add: scans_unchecked_def table_keys_def table_foreign_keys_def column_of_def map_filter_simps sa_column_def)

lemma scans_narrowing_facts [table_facts]:
  "td_name scans_narrowing = ''scans''"
  "map ix_name (td_indexes scans_narrowing) = []"
  "table_keys scans_narrowing = [[''id''], [''tenant_id'', ''id'']]"
  "table_foreign_keys scans_narrowing =
    [([''requested_by_user_id''], ''users'', [''id''], SetNull),
     ([''tenant_id'', ''asset_id''], ''assets'', [''tenant_id'', ''id''], Restrict),
     ([''tenant_id'', ''project_id''], ''projects'', [''tenant_id'', ''id''], Restrict),
     ([''tenant_id''], ''tenants'', [''id''], Restrict)]"
  "column_of ''id'' scans_narrowing = Some (sa_column ''id'' TUuid False None)"
  "column_of ''tenant_id'' scans_narrowing = Some (sa_column ''tenant_id'' TUuid False None)"
  by (simp_all add: scans_narrowing_def table_keys_def table_foreign_keys_def column_of_def map_filter_simps sa_column_def)

section \<open>The schemas\<close>

definition foundation_schema :: schema where
  "foundation_schema = [tenants_table, users_table, api_key_metadata_table, audit_events_table, projects_table, tenant_memberships_table, assets_table, scans_table, findings_table, finding_references_table]"

definition authentication_schema :: schema where
  "authentication_schema = [tenants_table, users_with_credentials, api_key_metadata_table, audit_events_table, projects_table, tenant_memberships_table, assets_table, scans_table, findings_table, finding_references_table, refresh_tokens_table, user_verification_tokens_table]"

definition orchestration_schema :: schema where
  "orchestration_schema = [tenants_table, users_with_credentials, api_key_metadata_table, audit_events_table, projects_table, tenant_memberships_table, assets_table, scans_orchestrated, findings_table, finding_references_table, refresh_tokens_table, user_verification_tokens_table, scan_events_table]"

definition head_schema :: schema where
  "head_schema = [tenants_table, users_with_credentials, api_key_metadata_table, audit_events_table, projects_table, tenant_memberships_table, assets_table, scans_orchestrated, findings_table, finding_references_table, refresh_tokens_table, user_verification_tokens_table, scan_events_table, scan_job_outbox_table]"

definition orchestration_undone :: schema where
  "orchestration_undone = [tenants_table, users_with_credentials, api_key_metadata_table, audit_events_table, projects_table, tenant_memberships_table, assets_table, scans_restored, findings_table, finding_references_table, refresh_tokens_table, user_verification_tokens_table]"

definition authentication_undone :: schema where
  "authentication_undone = [tenants_table, users_table, api_key_metadata_table, audit_events_table, projects_table, tenant_memberships_table, assets_table, scans_restored, findings_table, finding_references_table]"

section \<open>Runs\<close>

lemma sa_column_sel [simp]:
  "co_name (sa_column n t b d) = n" "co_type (sa_column n t b d) = t"
  "co_nullable (sa_column n t b d) = b" "co_default (sa_column n t b d) = d"
  by (simp_all add: sa_column_def)

lemma literal_table [simp]:
  "table_keys \<lparr>td_name = n, td_columns = cs, td_constraints = ks, td_indexes = i\<rparr> = List.map_filter key_columns ks"
  "table_foreign_keys \<lparr>td_name = n, td_columns = cs, td_constraints = ks, td_indexes = i\<rparr> = List.map_filter foreign_key ks"
  "column_of c \<lparr>td_name = n, td_columns = cs, td_constraints = ks, td_indexes = i\<rparr> = List.find (\<lambda>x. co_name x = c) cs"
  by (simp_all add: table_keys_def table_foreign_keys_def column_of_def)

lemmas ddl_simps = table_facts table_of_def with_table_def foreign_key_ok_def column_types_def has_columns_def
  map_filter_simps Let_def ck_name_def replace_table_def referenced_def key_in_use_def index_names_def

text \<open>Columns and keys are compared as they are written; rewriting need not enter them.\<close>

lemma as_written:
  "sa_column n t b d = sa_column n t b d" "PrimaryKey n cs = PrimaryKey n cs" "Unique n cs = Unique n cs"
  "ForeignKey n cs u ds a = ForeignKey n cs u ds a"
  by (rule refl)+

lemma run_ddl_split:
  "run_ddl (xs @ ys) s = (case run_ddl xs s of Inl e \<Rightarrow> Inl e | Inr s' \<Rightarrow> run_ddl ys s')"
  by (induction xs arbitrary: s) (simp_all split: sum.split)

lemma run_ddl_parts: "run_ddl (take k xs) s = Inr s' \<Longrightarrow> run_ddl xs s = run_ddl (drop k xs) s'"
  using run_ddl_split [of "take k xs" "drop k xs" s] by simp

lemma run_create_tenants:
  "apply_ddl create_tenants [] =
    Inr [tenants_table]"
  by (simp add: create_tenants_def tenants_table_def ddl_simps cong: as_written)

lemma run_create_users:
  "apply_ddl create_users [tenants_table] =
    Inr [tenants_table, users_table]"
  by (simp add: create_users_def users_table_def ddl_simps cong: as_written)

lemma run_create_api_key_metadata:
  "apply_ddl create_api_key_metadata [tenants_table, users_table] =
    Inr [tenants_table, users_table, api_key_metadata_table]"
  by (simp add: create_api_key_metadata_def api_key_metadata_table_def ddl_simps cong: as_written)

lemma run_create_audit_events:
  "apply_ddl create_audit_events [tenants_table, users_table, api_key_metadata_table] =
    Inr [tenants_table, users_table, api_key_metadata_table, audit_events_table]"
  by (simp add: create_audit_events_def audit_events_table_def ddl_simps cong: as_written)

lemma run_create_projects:
  "apply_ddl create_projects [tenants_table, users_table, api_key_metadata_table, audit_events_table] =
    Inr [tenants_table, users_table, api_key_metadata_table, audit_events_table, projects_table]"
  by (simp add: create_projects_def projects_table_def ddl_simps cong: as_written)

lemma run_create_tenant_memberships:
  "apply_ddl create_tenant_memberships [tenants_table, users_table, api_key_metadata_table, audit_events_table, projects_table] =
    Inr [tenants_table, users_table, api_key_metadata_table, audit_events_table, projects_table, tenant_memberships_table]"
  by (simp add: create_tenant_memberships_def tenant_memberships_table_def ddl_simps cong: as_written)

lemma run_create_assets:
  "apply_ddl create_assets [tenants_table, users_table, api_key_metadata_table, audit_events_table, projects_table, tenant_memberships_table] =
    Inr [tenants_table, users_table, api_key_metadata_table, audit_events_table, projects_table, tenant_memberships_table, assets_table]"
  by (simp add: create_assets_def assets_table_def ddl_simps cong: as_written)

lemma run_create_scans:
  "apply_ddl create_scans [tenants_table, users_table, api_key_metadata_table, audit_events_table, projects_table, tenant_memberships_table, assets_table] =
    Inr [tenants_table, users_table, api_key_metadata_table, audit_events_table, projects_table, tenant_memberships_table, assets_table, scans_table]"
  by (simp add: create_scans_def scans_table_def ddl_simps cong: as_written)

lemma run_create_findings:
  "apply_ddl create_findings [tenants_table, users_table, api_key_metadata_table, audit_events_table, projects_table, tenant_memberships_table, assets_table, scans_table] =
    Inr [tenants_table, users_table, api_key_metadata_table, audit_events_table, projects_table, tenant_memberships_table, assets_table, scans_table, findings_table]"
  by (simp add: create_findings_def findings_table_def ddl_simps cong: as_written)

lemma run_create_finding_references:
  "apply_ddl create_finding_references [tenants_table, users_table, api_key_metadata_table, audit_events_table, projects_table, tenant_memberships_table, assets_table, scans_table, findings_table] =
    Inr [tenants_table, users_table, api_key_metadata_table, audit_events_table, projects_table, tenant_memberships_table, assets_table, scans_table, findings_table, finding_references_table]"
  by (simp add: create_finding_references_def finding_references_table_def ddl_simps cong: as_written)

lemma run_upgrade_foundation: "run_ddl upgrade_foundation [] = Inr foundation_schema"
  by (simp only: upgrade_foundation_def foundation_schema_def run_ddl.simps sum.case
    run_create_tenants
    run_create_users
    run_create_api_key_metadata
    run_create_audit_events
    run_create_projects
    run_create_tenant_memberships
    run_create_assets
    run_create_scans
    run_create_findings
    run_create_finding_references)

lemma run_upgrade_authentication:
  "run_ddl upgrade_authentication foundation_schema =
    Inr authentication_schema"
  by (simp add: upgrade_authentication_def users_table_def users_with_credentials_def refresh_tokens_table_def user_verification_tokens_table_def create_refresh_tokens_def create_user_verification_tokens_def authentication_schema_def foundation_schema_def ddl_simps cong: as_written)

lemma run_upgrade_orchestration_1:
  "run_ddl (take 1 upgrade_orchestration) authentication_schema =
    Inr [tenants_table, users_with_credentials, api_key_metadata_table, audit_events_table, projects_table, tenant_memberships_table, assets_table, scans_table, findings_table, finding_references_table, refresh_tokens_table, user_verification_tokens_table, scan_events_table]"
  by (simp add: upgrade_orchestration_def scan_events_table_def create_scan_events_def authentication_schema_def ddl_simps cong: as_written)

lemma run_upgrade_orchestration_2:
  "run_ddl (take 5 (drop 1 upgrade_orchestration)) [tenants_table, users_with_credentials, api_key_metadata_table, audit_events_table, projects_table, tenant_memberships_table, assets_table, scans_table, findings_table, finding_references_table, refresh_tokens_table, user_verification_tokens_table, scan_events_table] =
    Inr [tenants_table, users_with_credentials, api_key_metadata_table, audit_events_table, projects_table, tenant_memberships_table, assets_table, scans_widening, findings_table, finding_references_table, refresh_tokens_table, user_verification_tokens_table, scan_events_table]"
  by (simp add: upgrade_orchestration_def scans_table_def scans_widening_def ddl_simps cong: as_written)

lemma run_upgrade_orchestration_3:
  "run_ddl (take 6 (drop 6 upgrade_orchestration)) [tenants_table, users_with_credentials, api_key_metadata_table, audit_events_table, projects_table, tenant_memberships_table, assets_table, scans_widening, findings_table, finding_references_table, refresh_tokens_table, user_verification_tokens_table, scan_events_table] =
    Inr [tenants_table, users_with_credentials, api_key_metadata_table, audit_events_table, projects_table, tenant_memberships_table, assets_table, scans_widened, findings_table, finding_references_table, refresh_tokens_table, user_verification_tokens_table, scan_events_table]"
  by (simp add: upgrade_orchestration_def scans_widening_def scans_widened_def ddl_simps cong: as_written)

lemma run_upgrade_orchestration_4:
  "run_ddl (take 4 (drop 12 upgrade_orchestration)) [tenants_table, users_with_credentials, api_key_metadata_table, audit_events_table, projects_table, tenant_memberships_table, assets_table, scans_widened, findings_table, finding_references_table, refresh_tokens_table, user_verification_tokens_table, scan_events_table] =
    Inr [tenants_table, users_with_credentials, api_key_metadata_table, audit_events_table, projects_table, tenant_memberships_table, assets_table, scans_rechecked, findings_table, finding_references_table, refresh_tokens_table, user_verification_tokens_table, scan_events_table]"
  by (simp add: upgrade_orchestration_def scans_widened_def scans_rechecked_def ddl_simps cong: as_written)

lemma run_upgrade_orchestration_5:
  "run_ddl (drop 16 upgrade_orchestration) [tenants_table, users_with_credentials, api_key_metadata_table, audit_events_table, projects_table, tenant_memberships_table, assets_table, scans_rechecked, findings_table, finding_references_table, refresh_tokens_table, user_verification_tokens_table, scan_events_table] =
    Inr orchestration_schema"
  by (simp add: upgrade_orchestration_def scans_rechecked_def scans_orchestrated_def orchestration_schema_def ddl_simps cong: as_written)

lemma run_upgrade_orchestration: "run_ddl upgrade_orchestration authentication_schema = Inr orchestration_schema"
  using run_ddl_parts [OF run_upgrade_orchestration_1]
    run_ddl_parts [OF run_upgrade_orchestration_2]
    run_ddl_parts [OF run_upgrade_orchestration_3]
    run_ddl_parts [OF run_upgrade_orchestration_4]
    run_upgrade_orchestration_5
  by simp

lemma run_upgrade_outbox:
  "run_ddl upgrade_outbox orchestration_schema =
    Inr head_schema"
  by (simp add: upgrade_outbox_def scan_job_outbox_table_def create_scan_job_outbox_def head_schema_def orchestration_schema_def ddl_simps cong: as_written)

lemma run_downgrade_outbox:
  "run_ddl downgrade_outbox head_schema =
    Inr orchestration_schema"
  by (simp add: downgrade_outbox_def scan_job_outbox_table_def head_schema_def orchestration_schema_def ddl_simps cong: as_written)

lemma run_downgrade_orchestration_1:
  "run_ddl (take 5 downgrade_orchestration) orchestration_schema =
    Inr [tenants_table, users_with_credentials, api_key_metadata_table, audit_events_table, projects_table, tenant_memberships_table, assets_table, scans_unchecking, findings_table, finding_references_table, refresh_tokens_table, user_verification_tokens_table, scan_events_table]"
  by (simp add: downgrade_orchestration_def scans_orchestrated_def scans_unchecking_def orchestration_schema_def ddl_simps cong: as_written)

lemma run_downgrade_orchestration_2:
  "run_ddl (take 4 (drop 5 downgrade_orchestration)) [tenants_table, users_with_credentials, api_key_metadata_table, audit_events_table, projects_table, tenant_memberships_table, assets_table, scans_unchecking, findings_table, finding_references_table, refresh_tokens_table, user_verification_tokens_table, scan_events_table] =
    Inr [tenants_table, users_with_credentials, api_key_metadata_table, audit_events_table, projects_table, tenant_memberships_table, assets_table, scans_unchecked, findings_table, finding_references_table, refresh_tokens_table, user_verification_tokens_table, scan_events_table]"
  by (simp add: downgrade_orchestration_def scans_unchecking_def scans_unchecked_def ddl_simps cong: as_written)

lemma run_downgrade_orchestration_3:
  "run_ddl (take 6 (drop 9 downgrade_orchestration)) [tenants_table, users_with_credentials, api_key_metadata_table, audit_events_table, projects_table, tenant_memberships_table, assets_table, scans_unchecked, findings_table, finding_references_table, refresh_tokens_table, user_verification_tokens_table, scan_events_table] =
    Inr [tenants_table, users_with_credentials, api_key_metadata_table, audit_events_table, projects_table, tenant_memberships_table, assets_table, scans_narrowing, findings_table, finding_references_table, refresh_tokens_table, user_verification_tokens_table, scan_events_table]"
  by (simp add: downgrade_orchestration_def scans_unchecked_def scans_narrowing_def ddl_simps cong: as_written)

lemma run_downgrade_orchestration_4:
  "run_ddl (drop 15 downgrade_orchestration) [tenants_table, users_with_credentials, api_key_metadata_table, audit_events_table, projects_table, tenant_memberships_table, assets_table, scans_narrowing, findings_table, finding_references_table, refresh_tokens_table, user_verification_tokens_table, scan_events_table] =
    Inr orchestration_undone"
  by (simp add: downgrade_orchestration_def scans_narrowing_def scans_restored_def orchestration_undone_def ddl_simps cong: as_written)

lemma run_downgrade_orchestration: "run_ddl downgrade_orchestration orchestration_schema = Inr orchestration_undone"
  using run_ddl_parts [OF run_downgrade_orchestration_1]
    run_ddl_parts [OF run_downgrade_orchestration_2]
    run_ddl_parts [OF run_downgrade_orchestration_3]
    run_downgrade_orchestration_4
  by simp

lemma run_downgrade_authentication:
  "run_ddl downgrade_authentication orchestration_undone =
    Inr authentication_undone"
  by (simp add: downgrade_authentication_def users_with_credentials_def refresh_tokens_table_def users_table_def authentication_undone_def orchestration_undone_def ddl_simps cong: as_written)

lemma run_downgrade_foundation:
  "run_ddl downgrade_foundation authentication_undone =
    Inr []"
  by (simp add: downgrade_foundation_def authentication_undone_def ddl_simps cong: as_written)

lemma run_downgrade_foundation_again:
  "run_ddl downgrade_foundation foundation_schema =
    Inr []"
  by (simp add: downgrade_foundation_def foundation_schema_def ddl_simps cong: as_written)

lemma run_downgrade_authentication_again:
  "run_ddl downgrade_authentication authentication_schema =
    Inr foundation_schema"
  by (simp add: downgrade_authentication_def users_with_credentials_def refresh_tokens_table_def users_table_def authentication_schema_def foundation_schema_def ddl_simps cong: as_written)

end
