(* ===== verification/Orm.thy ===== *)
theory Orm
  imports Schema "HOL-Library.Multiset"
begin

text \<open>
  The declarative layer of the models: \<open>mapped_column\<close>, \<open>__table_args__\<close>, the mixins and the
  naming convention of \<open>db/base.py\<close>, and the table that SQLAlchemy builds of them.  What
  \<open>alembic check\<close> compares is \<open>alike\<close>: columns, constraints and indexes up to order, a
  non-native enumeration being the \<open>VARCHAR\<close> it is stored as.
\<close>

section \<open>Declarations\<close>

record mapped =
  mc_column :: string
  mc_type :: col_type
  mc_references :: "(string \<times> string \<times> on_delete) option"
  mc_nullable :: bool
  mc_primary_key :: bool
  mc_unique :: bool
  mc_index :: bool
  mc_server_default :: "server_default option"

text \<open>\<open>mapped_column(type, nullable=False)\<close>, and the other keywords as updates of it.\<close>

definition mapped_column :: "string \<Rightarrow> col_type \<Rightarrow> mapped" where
  "mapped_column n t = \<lparr>mc_column = n, mc_type = t, mc_references = None, mc_nullable = False,
     mc_primary_key = False, mc_unique = False, mc_index = False, mc_server_default = None\<rparr>"

definition sa_enum :: "'a list \<Rightarrow> ('a \<Rightarrow> string) \<Rightarrow> string \<Rightarrow> nat \<Rightarrow> col_type" where
  "sa_enum members member_name n k = TEnum n (map member_name members) k"

datatype table_arg =
    UniqueConstraint "string list" string
  | ForeignKeyConstraint "string list" string "string list" string on_delete
  | CheckConstraint sql string
  | Index string "string list" "sql option"

record orm_table =
  ot_name :: string
  ot_columns :: "mapped list"
  ot_args :: "table_arg list"

text \<open>A class attribute hides the attribute of that name of a mixin.\<close>

definition declared :: "string \<Rightarrow> mapped list list \<Rightarrow> mapped list \<Rightarrow> table_arg list \<Rightarrow> orm_table" where
  "declared n mixins own args = \<lparr>ot_name = n,
     ot_columns = own @ filter (\<lambda>m. mc_column m \<notin> set (map mc_column own)) (concat mixins), ot_args = args\<rparr>"

section \<open>The naming convention\<close>

definition pk_name :: "string \<Rightarrow> string" where
  "pk_name t = ''pk_'' @ t"

definition uq_name :: "string \<Rightarrow> string \<Rightarrow> string" where
  "uq_name t c = ''uq_'' @ t @ ''_'' @ c"

definition fk_name :: "string \<Rightarrow> string \<Rightarrow> string \<Rightarrow> string" where
  "fk_name t c r = ''fk_'' @ t @ ''_'' @ c @ ''_'' @ r"

definition index_name :: "string \<Rightarrow> string \<Rightarrow> string" where
  "index_name t c = ''ix_'' @ t @ ''_'' @ c"

section \<open>The table of a model\<close>

definition physical_column :: "mapped \<Rightarrow> column" where
  "physical_column m = \<lparr>co_name = mc_column m, co_type = mc_type m, co_nullable = mc_nullable m,
     co_default = mc_server_default m\<rparr>"

definition column_constraints :: "string \<Rightarrow> mapped \<Rightarrow> constraint list" where
  "column_constraints t m =
    (case mc_references m of None \<Rightarrow> [] | Some (r, c, d) \<Rightarrow> [ForeignKey (fk_name t (mc_column m) r) [mc_column m] r [c] d]) @
    (if mc_unique m then [Unique (uq_name t (mc_column m)) [mc_column m]] else []) @
    (case enum_check t (physical_column m) of None \<Rightarrow> [] | Some k \<Rightarrow> [k])"

definition column_indexes :: "string \<Rightarrow> mapped \<Rightarrow> index list" where
  "column_indexes t m = (if mc_index m
     then [\<lparr>ix_name = index_name t (mc_column m), ix_columns = [mc_column m], ix_where = None\<rparr>] else [])"

text \<open>The convention renames a check that has a name; it leaves the names given to the other
  constraints alone.\<close>

fun arg_constraints :: "string \<Rightarrow> table_arg \<Rightarrow> constraint list" where
  "arg_constraints t (UniqueConstraint cs n) = [Unique n cs]"
| "arg_constraints t (ForeignKeyConstraint cs r ds n d) = [ForeignKey n cs r ds d]"
| "arg_constraints t (CheckConstraint p n) = [Check (ck_name t n) p]"
| "arg_constraints t (Index n cs w) = []"

fun arg_indexes :: "table_arg \<Rightarrow> index list" where
  "arg_indexes (Index n cs w) = [\<lparr>ix_name = n, ix_columns = cs, ix_where = w\<rparr>]"
| "arg_indexes _ = []"

definition model_table :: "orm_table \<Rightarrow> table_def" where
  "model_table m = \<lparr>td_name = ot_name m,
     td_columns = map physical_column (ot_columns m),
     td_constraints =
       PrimaryKey (pk_name (ot_name m)) (map mc_column (filter mc_primary_key (ot_columns m)))
       # concat (map (column_constraints (ot_name m)) (ot_columns m))
       @ concat (map (arg_constraints (ot_name m)) (ot_args m)),
     td_indexes = concat (map (column_indexes (ot_name m)) (ot_columns m)) @ concat (map arg_indexes (ot_args m))\<rparr>"

section \<open>Comparison\<close>

fun stored_type :: "col_type \<Rightarrow> col_type" where
  "stored_type (TEnum n xs k) = TString k"
| "stored_type t = t"

definition stored :: "column \<Rightarrow> column" where
  "stored c = c\<lparr>co_type := stored_type (co_type c)\<rparr>"

definition alike :: "table_def \<Rightarrow> table_def \<Rightarrow> bool" where
  "alike t u \<longleftrightarrow> td_name t = td_name u \<and>
     mset (map stored (td_columns t)) = mset (map stored (td_columns u)) \<and>
     mset (td_constraints t) = mset (td_constraints u) \<and>
     mset (td_indexes t) = mset (td_indexes u)"

definition no_drift :: "schema \<Rightarrow> schema \<Rightarrow> bool" where
  "no_drift s s' \<longleftrightarrow> (\<forall>n. rel_option alike (table_of n s) (table_of n s'))"

section \<open>What PostgreSQL adds\<close>

text \<open>Tables, indexes and the indexes behind keys share one name space; a name longer than 63
  characters is cut.\<close>

definition relation_names :: "table_def \<Rightarrow> string list" where
  "relation_names t = td_name t # map ix_name (td_indexes t) @
     map constraint_name (filter (\<lambda>k. key_columns k \<noteq> None) (td_constraints t))"

definition name_limit :: nat where
  "name_limit = 63"

definition table_names_fit :: "table_def \<Rightarrow> bool" where
  "table_names_fit t \<longleftrightarrow> list_all (\<lambda>n. length n \<le> name_limit)
     (relation_names t @ map constraint_name (td_constraints t) @ map co_name (td_columns t))"

text \<open>Tables whose rows go with the row they refer to.\<close>

definition cascades :: "table_def \<Rightarrow> string list" where
  "cascades t = map (\<lambda>(cs, u, ds, d). u) (filter (\<lambda>(cs, u, ds, d). d = Cascade) (table_foreign_keys t))"

section \<open>Lemmas\<close>

lemma fits_stored [simp]: "fits (stored_type t) v = fits t v"
  by (cases t; cases v) simp_all

lemma column_accepts_stored [simp]: "column_accepts r (stored c) = column_accepts r c"
  by (simp add: column_accepts_def stored_def split: option.split)

lemma alike_refl [simp]: "alike t t"
  by (simp add: alike_def)

text \<open>Tables that compare equal accept the same rows.\<close>

lemma alike_accepts:
  assumes "alike t u"
  shows "row_accepted sz t r \<longleftrightarrow> row_accepted sz u r"
proof -
  have "set (map stored (td_columns t)) = set (map stored (td_columns u))"
    using assms unfolding alike_def by (intro mset_eq_setD) (elim conjE)
  then have "(\<forall>c\<in>set (map stored (td_columns t)). column_accepts r c) \<longleftrightarrow>
    (\<forall>c\<in>set (map stored (td_columns u)). column_accepts r c)" by (simp only:)
  then have "list_all (column_accepts r) (td_columns t) \<longleftrightarrow> list_all (column_accepts r) (td_columns u)"
    by (simp add: list_all_iff)
  moreover have "set (td_constraints t) = set (td_constraints u)"
    using assms unfolding alike_def by (intro mset_eq_setD) (elim conjE)
  ultimately show ?thesis by (simp add: row_accepted_def list_all_iff)
qed

lemma alike_keys:
  assumes "alike t u"
  shows "set (table_keys t) = set (table_keys u)" "set (table_foreign_keys t) = set (table_foreign_keys u)"
proof -
  have "set (td_constraints t) = set (td_constraints u)"
    using assms unfolding alike_def by (intro mset_eq_setD) (elim conjE)
  then show "set (table_keys t) = set (table_keys u)" "set (table_foreign_keys t) = set (table_foreign_keys u)"
    by (simp_all add: table_keys_def table_foreign_keys_def List.map_filter_def)
qed

lemma alike_names:
  assumes "alike t u"
  shows "td_name t = td_name u" "mset (relation_names t) = mset (relation_names u)"
    "table_names_fit t = table_names_fit u" "set (cascades t) = set (cascades u)"
proof -
  have eq: "mset (td_constraints t) = mset (td_constraints u)" "mset (td_indexes t) = mset (td_indexes u)"
    "td_name t = td_name u" using assms unfolding alike_def by blast+
  show "td_name t = td_name u" by (fact eq(3))
  show names: "mset (relation_names t) = mset (relation_names u)"
    by (simp only: relation_names_def eq mset.simps mset_append mset_map mset_filter)
  have stored: "map co_name cs = map co_name (map stored cs)" for cs by (simp add: stored_def)
  have "mset (map co_name (map stored (td_columns t))) = mset (map co_name (map stored (td_columns u)))"
    using assms by (simp only: alike_def mset_map)
  then have "set (map co_name (td_columns t)) = set (map co_name (td_columns u))"
    using mset_eq_setD by (metis stored)
  moreover have "set (map constraint_name (td_constraints t)) = set (map constraint_name (td_constraints u))"
    using mset_eq_setD [OF eq(1)] by simp
  ultimately have "set (relation_names t @ map constraint_name (td_constraints t) @ map co_name (td_columns t)) =
    set (relation_names u @ map constraint_name (td_constraints u) @ map co_name (td_columns u))"
    using mset_eq_setD [OF names] by (simp only: set_append)
  then show "table_names_fit t = table_names_fit u" by (simp only: table_names_fit_def list_all_iff)
  show "set (cascades t) = set (cascades u)"
    by (simp add: cascades_def alike_keys [OF assms])
qed

text \<open>Schemas without a difference, from a partner for every table.\<close>

lemma table_of_Some: "table_of n s = Some t \<Longrightarrow> t \<in> set s \<and> td_name t = n"
  by (auto simp: table_of_def find_Some_iff)

lemma table_of_member: "distinct (map td_name s) \<Longrightarrow> t \<in> set s \<Longrightarrow> table_of (td_name t) s = Some t"
  by (induction s) (auto simp: table_of_def)

lemma table_of_None: "table_of n s = None \<longleftrightarrow> n \<notin> set (map td_name s)"
  by (auto simp: table_of_def find_None_iff)

lemma no_driftI:
  assumes d: "distinct (map td_name s')" and p: "list_all (\<lambda>t. list_ex (alike t) s') s"
    and n: "set (map td_name s') \<subseteq> set (map td_name s)"
  shows "no_drift s s'"
  unfolding no_drift_def
proof
  fix n show "rel_option alike (table_of n s) (table_of n s')"
  proof (cases "table_of n s")
    case None
    then have "table_of n s' = None" using assms(3) by (auto simp: table_of_None)
    then show ?thesis using None by simp
  next
    case (Some t)
    then obtain u where u: "u \<in> set s'" "alike t u"
      using p table_of_Some by (force simp: list_all_iff list_ex_iff)
    then have "table_of n s' = Some u"
      using table_of_member [OF d u(1)] alike_names(1) [OF u(2)] table_of_Some [OF Some] by simp
    then show ?thesis using Some u by simp
  qed
qed

lemma no_drift_rows:
  "no_drift s s' \<Longrightarrow> rel_option (\<lambda>t u. \<forall>sz r. row_accepted sz t r \<longleftrightarrow> row_accepted sz u r) (table_of n s) (table_of n s')"
  by (rule option.rel_mono_strong [of alike]) (simp_all add: no_drift_def alike_accepts)

end
