(* ===== verification/Orm_Models.thy ===== *)
theory Orm_Models
  imports Orm State_Machine
begin

text \<open>
  The classes of \<open>models/*.py\<close> as SQLAlchemy declares them: table name, mixins, columns in
  the order of the class body and \<open>__table_args__\<close>.  Relationships and Python-side defaults
  leave no trace in the table.
\<close>

section \<open>Names of the members\<close>

text \<open>SQLAlchemy stores a member of an enumeration under its name, not its value.\<close>

primrec tenant_status_name :: "tenant_status \<Rightarrow> string" where
  "tenant_status_name TenantActive = ''ACTIVE''"
| "tenant_status_name TenantSuspended = ''SUSPENDED''"
| "tenant_status_name TenantArchived = ''ARCHIVED''"

primrec user_status_name :: "user_status \<Rightarrow> string" where
  "user_status_name UserActive = ''ACTIVE''"
| "user_status_name UserSuspended = ''SUSPENDED''"
| "user_status_name UserDeactivated = ''DEACTIVATED''"

primrec membership_role_name :: "membership_role \<Rightarrow> string" where
  "membership_role_name OWNER = ''OWNER''"
| "membership_role_name ADMINISTRATOR = ''ADMINISTRATOR''"
| "membership_role_name SECURITY_ANALYST = ''SECURITY_ANALYST''"
| "membership_role_name DEVELOPER = ''DEVELOPER''"
| "membership_role_name VIEWER = ''VIEWER''"

primrec membership_status_name :: "membership_status \<Rightarrow> string" where
  "membership_status_name MemberActive = ''ACTIVE''"
| "membership_status_name MemberInvited = ''INVITED''"
| "membership_status_name MemberSuspended = ''SUSPENDED''"
| "membership_status_name MemberRemoved = ''REMOVED''"

primrec project_status_name :: "project_status \<Rightarrow> string" where
  "project_status_name ProjectActive = ''ACTIVE''"
| "project_status_name ProjectArchived = ''ARCHIVED''"

primrec asset_type_name :: "asset_type \<Rightarrow> string" where
  "asset_type_name WEBSITE = ''WEBSITE''"
| "asset_type_name API = ''API''"
| "asset_type_name REPOSITORY = ''REPOSITORY''"
| "asset_type_name CONTAINER_IMAGE = ''CONTAINER_IMAGE''"
| "asset_type_name INFRASTRUCTURE = ''INFRASTRUCTURE''"
| "asset_type_name DOMAIN = ''DOMAIN''"
| "asset_type_name IP_RANGE = ''IP_RANGE''"

primrec asset_environment_name :: "asset_environment \<Rightarrow> string" where
  "asset_environment_name EnvProduction = ''PRODUCTION''"
| "asset_environment_name EnvStaging = ''STAGING''"
| "asset_environment_name EnvDevelopment = ''DEVELOPMENT''"
| "asset_environment_name EnvTest = ''TEST''"
| "asset_environment_name EnvUnknown = ''UNKNOWN''"

primrec asset_status_name :: "asset_status \<Rightarrow> string" where
  "asset_status_name AssetActive = ''ACTIVE''"
| "asset_status_name AssetInactive = ''INACTIVE''"
| "asset_status_name AssetDecommissioned = ''DECOMMISSIONED''"

primrec authorization_status_name :: "authorization_status \<Rightarrow> string" where
  "authorization_status_name Unauthorized = ''UNAUTHORIZED''"
| "authorization_status_name AuthPending = ''PENDING''"
| "authorization_status_name Authorized = ''AUTHORIZED''"
| "authorization_status_name AuthExpired = ''EXPIRED''"
| "authorization_status_name AuthRevoked = ''REVOKED''"

primrec finding_severity_name :: "finding_severity \<Rightarrow> string" where
  "finding_severity_name SevInformational = ''INFORMATIONAL''"
| "finding_severity_name SevLow = ''LOW''"
| "finding_severity_name SevMedium = ''MEDIUM''"
| "finding_severity_name SevHigh = ''HIGH''"
| "finding_severity_name SevCritical = ''CRITICAL''"

primrec finding_status_name :: "finding_status \<Rightarrow> string" where
  "finding_status_name FindingOpen = ''OPEN''"
| "finding_status_name FindingAcknowledged = ''ACKNOWLEDGED''"
| "finding_status_name FindingInProgress = ''IN_PROGRESS''"
| "finding_status_name FindingResolved = ''RESOLVED''"
| "finding_status_name FindingAcceptedRisk = ''ACCEPTED_RISK''"
| "finding_status_name FindingFalsePositive = ''FALSE_POSITIVE''"

primrec finding_confidence_name :: "finding_confidence \<Rightarrow> string" where
  "finding_confidence_name ConfLow = ''LOW''"
| "finding_confidence_name ConfMedium = ''MEDIUM''"
| "finding_confidence_name ConfHigh = ''HIGH''"
| "finding_confidence_name ConfConfirmed = ''CONFIRMED''"

primrec finding_reference_type_name :: "finding_reference_type \<Rightarrow> string" where
  "finding_reference_type_name RefCve = ''CVE''"
| "finding_reference_type_name RefCwe = ''CWE''"
| "finding_reference_type_name RefOwasp = ''OWASP''"
| "finding_reference_type_name RefAdvisoryUrl = ''ADVISORY_URL''"
| "finding_reference_type_name RefVendorId = ''VENDOR_ID''"

primrec audit_outcome_name :: "audit_outcome \<Rightarrow> string" where
  "audit_outcome_name AuditSuccess = ''SUCCESS''"
| "audit_outcome_name AuditFailure = ''FAILURE''"
| "audit_outcome_name AuditDenied = ''DENIED''"

primrec api_key_status_name :: "api_key_status \<Rightarrow> string" where
  "api_key_status_name KeyActive = ''ACTIVE''"
| "api_key_status_name KeyRevoked = ''REVOKED''"
| "api_key_status_name KeyExpired = ''EXPIRED''"

primrec refresh_token_status_name :: "refresh_token_status \<Rightarrow> string" where
  "refresh_token_status_name TokenActive = ''ACTIVE''"
| "refresh_token_status_name TokenRotated = ''ROTATED''"
| "refresh_token_status_name TokenRevoked = ''REVOKED''"

primrec verification_token_purpose_name :: "verification_token_purpose \<Rightarrow> string" where
  "verification_token_purpose_name EmailVerification = ''EMAIL_VERIFICATION''"
| "verification_token_purpose_name PasswordReset = ''PASSWORD_RESET''"

section \<open>The mixins\<close>

definition uuid_primary_key_mixin :: "mapped list" where
  "uuid_primary_key_mixin =
    [(mapped_column ''id'' TUuid)\<lparr>mc_primary_key := True\<rparr>]"

definition timestamp_mixin :: "mapped list" where
  "timestamp_mixin =
    [(mapped_column ''created_at'' TTimestamp)\<lparr>mc_server_default := Some (SqlFunction ''now()'')\<rparr>,
     (mapped_column ''updated_at'' TTimestamp)\<lparr>mc_server_default := Some (SqlFunction ''now()'')\<rparr>]"

definition created_at_mixin :: "mapped list" where
  "created_at_mixin =
    [(mapped_column ''created_at'' TTimestamp)\<lparr>mc_server_default := Some (SqlFunction ''now()'')\<rparr>]"

section \<open>The models\<close>

definition tenant_model :: orm_table where
  "tenant_model = declared ''tenants'' [uuid_primary_key_mixin, timestamp_mixin]
    [mapped_column ''name'' (TString 200),
     (mapped_column ''slug'' (TString 100))\<lparr>mc_unique := True\<rparr>,
     (mapped_column ''status'' (sa_enum tenant_status_members tenant_status_name ''tenant_status'' 32))
       \<lparr>mc_server_default := Some (Literal (tenant_status_value TenantActive))\<rparr>,
     (mapped_column ''deleted_at'' TTimestamp)\<lparr>mc_nullable := True\<rparr>]
    []"

definition user_model :: orm_table where
  "user_model = declared ''users'' [uuid_primary_key_mixin, timestamp_mixin]
    [(mapped_column ''email'' (TString 320))\<lparr>mc_unique := True\<rparr>,
     mapped_column ''display_name'' (TString 200),
     (mapped_column ''status'' (sa_enum user_status_members user_status_name ''user_status'' 32))
       \<lparr>mc_server_default := Some (Literal (user_status_value UserActive))\<rparr>,
     (mapped_column ''hashed_password'' (TString 255))\<lparr>mc_nullable := True\<rparr>,
     (mapped_column ''token_version'' TInteger)\<lparr>mc_server_default := Some (Literal ''0'')\<rparr>,
     (mapped_column ''email_verified_at'' TTimestamp)\<lparr>mc_nullable := True\<rparr>]
    []"

definition api_key_metadata_model :: orm_table where
  "api_key_metadata_model = declared ''api_key_metadata'' [uuid_primary_key_mixin, timestamp_mixin]
    [(mapped_column ''tenant_id'' TUuid)\<lparr>mc_references := Some (''tenants'', ''id'', Restrict)\<rparr>,
     (mapped_column ''user_id'' TUuid)\<lparr>mc_references := Some (''users'', ''id'', SetNull), mc_nullable := True\<rparr>,
     mapped_column ''name'' (TString 200),
     (mapped_column ''prefix'' (TString 32))\<lparr>mc_unique := True\<rparr>,
     mapped_column ''hashed_secret'' (TString 255),
     mapped_column ''scopes'' (TStringArray 100),
     (mapped_column ''status'' (sa_enum api_key_status_members api_key_status_name ''api_key_status'' 32))
       \<lparr>mc_server_default := Some (Literal (api_key_status_value KeyActive))\<rparr>,
     (mapped_column ''expires_at'' TTimestamp)\<lparr>mc_nullable := True\<rparr>,
     (mapped_column ''last_used_at'' TTimestamp)\<lparr>mc_nullable := True\<rparr>,
     (mapped_column ''revoked_at'' TTimestamp)\<lparr>mc_nullable := True\<rparr>]
    []"

definition audit_event_model :: orm_table where
  "audit_event_model = declared ''audit_events'' [uuid_primary_key_mixin, created_at_mixin]
    [(mapped_column ''tenant_id'' TUuid)\<lparr>mc_references := Some (''tenants'', ''id'', SetNull), mc_nullable := True\<rparr>,
     (mapped_column ''actor_user_id'' TUuid)\<lparr>mc_references := Some (''users'', ''id'', SetNull), mc_nullable := True\<rparr>,
     mapped_column ''action'' (TString 150),
     mapped_column ''resource_type'' (TString 100),
     (mapped_column ''resource_id'' (TString 200))\<lparr>mc_nullable := True\<rparr>,
     mapped_column ''outcome'' (sa_enum audit_outcome_members audit_outcome_name ''audit_outcome'' 32),
     (mapped_column ''correlation_id'' (TString 100))\<lparr>mc_nullable := True\<rparr>,
     (mapped_column ''source_ip'' (TString 64))\<lparr>mc_nullable := True\<rparr>,
     (mapped_column ''user_agent'' (TString 500))\<lparr>mc_nullable := True\<rparr>,
     (mapped_column ''metadata'' TJsonb)\<lparr>mc_nullable := True\<rparr>]
    [CheckConstraint (SqlOr (IsNull ''metadata'') (SizeAtMost ''metadata'' 8192)) ''metadata_size_limit'']"

definition project_model :: orm_table where
  "project_model = declared ''projects'' [uuid_primary_key_mixin, timestamp_mixin]
    [(mapped_column ''tenant_id'' TUuid)\<lparr>mc_references := Some (''tenants'', ''id'', Restrict)\<rparr>,
     mapped_column ''name'' (TString 200),
     mapped_column ''slug'' (TString 100),
     (mapped_column ''description'' TText)\<lparr>mc_nullable := True\<rparr>,
     (mapped_column ''status'' (sa_enum project_status_members project_status_name ''project_status'' 32))
       \<lparr>mc_server_default := Some (Literal (project_status_value ProjectActive))\<rparr>,
     (mapped_column ''archived_at'' TTimestamp)\<lparr>mc_nullable := True\<rparr>]
    [UniqueConstraint [''tenant_id'', ''slug''] ''uq_projects_tenant_id_slug'',
     UniqueConstraint [''tenant_id'', ''id''] ''uq_projects_tenant_id_id'']"

definition tenant_membership_model :: orm_table where
  "tenant_membership_model = declared ''tenant_memberships'' [uuid_primary_key_mixin, timestamp_mixin]
    [(mapped_column ''tenant_id'' TUuid)\<lparr>mc_references := Some (''tenants'', ''id'', Restrict)\<rparr>,
     (mapped_column ''user_id'' TUuid)\<lparr>mc_references := Some (''users'', ''id'', Restrict)\<rparr>,
     mapped_column ''role'' (sa_enum membership_role_members membership_role_name ''membership_role'' 32),
     (mapped_column ''status'' (sa_enum membership_status_members membership_status_name ''membership_status'' 32))
       \<lparr>mc_server_default := Some (Literal (membership_status_value MemberActive))\<rparr>]
    [UniqueConstraint [''tenant_id'', ''user_id''] ''uq_tenant_memberships_tenant_id_user_id'']"

definition asset_model :: orm_table where
  "asset_model = declared ''assets'' [uuid_primary_key_mixin, timestamp_mixin]
    [(mapped_column ''tenant_id'' TUuid)\<lparr>mc_references := Some (''tenants'', ''id'', Restrict)\<rparr>,
     mapped_column ''project_id'' TUuid,
     mapped_column ''asset_type'' (sa_enum asset_type_members asset_type_name ''asset_type'' 32),
     mapped_column ''name'' (TString 200),
     mapped_column ''locator'' (TString 2048),
     (mapped_column ''environment'' (sa_enum asset_environment_members asset_environment_name ''asset_environment'' 32))
       \<lparr>mc_server_default := Some (Literal (asset_environment_value EnvUnknown))\<rparr>,
     (mapped_column ''status'' (sa_enum asset_status_members asset_status_name ''asset_status'' 32))
       \<lparr>mc_server_default := Some (Literal (asset_status_value AssetActive))\<rparr>,
     (mapped_column ''authorization_status'' (sa_enum authorization_status_members authorization_status_name ''authorization_status'' 32))
       \<lparr>mc_server_default := Some (Literal (authorization_status_value Unauthorized))\<rparr>]
    [UniqueConstraint [''tenant_id'', ''id''] ''uq_assets_tenant_id_id'',
     ForeignKeyConstraint [''tenant_id'', ''project_id''] ''projects'' [''tenant_id'', ''id''] ''fk_assets_tenant_id_project_id_projects'' Restrict]"

definition scan_model :: orm_table where
  "scan_model = declared ''scans'' [uuid_primary_key_mixin, timestamp_mixin]
    [(mapped_column ''tenant_id'' TUuid)\<lparr>mc_references := Some (''tenants'', ''id'', Restrict)\<rparr>,
     mapped_column ''project_id'' TUuid,
     mapped_column ''asset_id'' TUuid,
     mapped_column ''scanner_type'' (TString 100),
     (mapped_column ''status'' (sa_enum scan_status_members scan_status_name ''scan_status'' 32))
       \<lparr>mc_server_default := Some (Literal (scan_status_value PENDING))\<rparr>,
     (mapped_column ''requested_by_user_id'' TUuid)\<lparr>mc_references := Some (''users'', ''id'', SetNull), mc_nullable := True\<rparr>,
     (mapped_column ''queued_at'' TTimestamp)\<lparr>mc_nullable := True\<rparr>,
     (mapped_column ''started_at'' TTimestamp)\<lparr>mc_nullable := True\<rparr>,
     (mapped_column ''completed_at'' TTimestamp)\<lparr>mc_nullable := True\<rparr>,
     (mapped_column ''failed_at'' TTimestamp)\<lparr>mc_nullable := True\<rparr>,
     (mapped_column ''cancelled_at'' TTimestamp)\<lparr>mc_nullable := True\<rparr>,
     (mapped_column ''timed_out_at'' TTimestamp)\<lparr>mc_nullable := True\<rparr>,
     (mapped_column ''error_code'' (TString 100))\<lparr>mc_nullable := True\<rparr>,
     (mapped_column ''error_summary'' (TString 2000))\<lparr>mc_nullable := True\<rparr>,
     (mapped_column ''attempt'' TInteger)\<lparr>mc_server_default := Some (Literal ''0'')\<rparr>,
     (mapped_column ''max_attempts'' TInteger)\<lparr>mc_server_default := Some (Literal ''3'')\<rparr>,
     (mapped_column ''worker_id'' (TString 200))\<lparr>mc_nullable := True\<rparr>,
     (mapped_column ''job_id'' (TString 200))\<lparr>mc_nullable := True\<rparr>,
     (mapped_column ''timeout_seconds'' TInteger)\<lparr>mc_server_default := Some (Literal ''1800'')\<rparr>,
     (mapped_column ''retry_of_scan_id'' TUuid)\<lparr>mc_nullable := True\<rparr>,
     (mapped_column ''config'' TJsonb)\<lparr>mc_nullable := True\<rparr>,
     (mapped_column ''correlation_id'' (TString 100))\<lparr>mc_nullable := True\<rparr>]
    [UniqueConstraint [''tenant_id'', ''id''] ''uq_scans_tenant_id_id'',
     ForeignKeyConstraint [''tenant_id'', ''project_id''] ''projects'' [''tenant_id'', ''id''] ''fk_scans_tenant_id_project_id_projects'' Restrict,
     ForeignKeyConstraint [''tenant_id'', ''asset_id''] ''assets'' [''tenant_id'', ''id''] ''fk_scans_tenant_id_asset_id_assets'' Restrict,
     ForeignKeyConstraint [''tenant_id'', ''retry_of_scan_id''] ''scans'' [''tenant_id'', ''id''] ''fk_scans_tenant_id_retry_of_scan_id_scans'' SetNull,
     CheckConstraint (SqlOr (SqlOr (IsNull ''started_at'') (IsNull ''queued_at'')) (NotBefore ''started_at'' ''queued_at'')) ''started_after_queued'',
     CheckConstraint (SqlOr (SqlOr (IsNull ''completed_at'') (IsNull ''started_at'')) (NotBefore ''completed_at'' ''started_at'')) ''completed_after_started'',
     CheckConstraint (SqlOr (SqlOr (IsNull ''failed_at'') (IsNull ''started_at'')) (NotBefore ''failed_at'' ''started_at'')) ''failed_after_started'',
     CheckConstraint (SqlOr (SqlOr (IsNull ''timed_out_at'') (IsNull ''started_at'')) (NotBefore ''timed_out_at'' ''started_at'')) ''timed_out_after_started'',
     CheckConstraint (SetAtMost [''completed_at'', ''failed_at'', ''cancelled_at'', ''timed_out_at''] 1) ''terminal_timestamps_mutually_exclusive'',
     CheckConstraint (AtLeast ''attempt'' 0) ''attempt_non_negative'',
     CheckConstraint (AtLeast ''max_attempts'' 1) ''max_attempts_positive'',
     CheckConstraint (Above ''timeout_seconds'' 0) ''timeout_seconds_positive'',
     CheckConstraint (SqlOr (IsNull ''config'') (SizeAtMost ''config'' 16384)) ''config_size_limit'']"

definition finding_model :: orm_table where
  "finding_model = declared ''findings'' [uuid_primary_key_mixin, timestamp_mixin]
    [(mapped_column ''tenant_id'' TUuid)\<lparr>mc_references := Some (''tenants'', ''id'', Restrict)\<rparr>,
     mapped_column ''project_id'' TUuid,
     mapped_column ''asset_id'' TUuid,
     mapped_column ''scan_id'' TUuid,
     mapped_column ''title'' (TString 300),
     (mapped_column ''description'' TText)\<lparr>mc_nullable := True\<rparr>,
     mapped_column ''severity'' (sa_enum finding_severity_members finding_severity_name ''finding_severity'' 32),
     (mapped_column ''status'' (sa_enum finding_status_members finding_status_name ''finding_status'' 32))
       \<lparr>mc_server_default := Some (Literal (finding_status_value FindingOpen))\<rparr>,
     (mapped_column ''confidence'' (sa_enum finding_confidence_members finding_confidence_name ''finding_confidence'' 32))
       \<lparr>mc_server_default := Some (Literal (finding_confidence_value ConfMedium))\<rparr>,
     mapped_column ''source_tool'' (TString 100),
     (mapped_column ''external_reference'' (TString 2048))\<lparr>mc_nullable := True\<rparr>,
     mapped_column ''fingerprint'' (TString 128),
     (mapped_column ''remediation'' TText)\<lparr>mc_nullable := True\<rparr>,
     (mapped_column ''first_seen_at'' TTimestamp)\<lparr>mc_server_default := Some (SqlFunction ''now()'')\<rparr>,
     (mapped_column ''last_seen_at'' TTimestamp)\<lparr>mc_server_default := Some (SqlFunction ''now()'')\<rparr>,
     (mapped_column ''resolved_at'' TTimestamp)\<lparr>mc_nullable := True\<rparr>]
    [UniqueConstraint [''tenant_id'', ''id''] ''uq_findings_tenant_id_id'',
     UniqueConstraint [''tenant_id'', ''asset_id'', ''fingerprint''] ''uq_findings_tenant_id_asset_id_fingerprint'',
     ForeignKeyConstraint [''tenant_id'', ''project_id''] ''projects'' [''tenant_id'', ''id''] ''fk_findings_tenant_id_project_id_projects'' Restrict,
     ForeignKeyConstraint [''tenant_id'', ''asset_id''] ''assets'' [''tenant_id'', ''id''] ''fk_findings_tenant_id_asset_id_assets'' Restrict,
     ForeignKeyConstraint [''tenant_id'', ''scan_id''] ''scans'' [''tenant_id'', ''id''] ''fk_findings_tenant_id_scan_id_scans'' Restrict,
     CheckConstraint (NotBefore ''last_seen_at'' ''first_seen_at'') ''last_seen_after_first_seen'',
     CheckConstraint (SqlOr (IsNull ''resolved_at'') (NotBefore ''resolved_at'' ''first_seen_at'')) ''resolved_after_first_seen'']"

definition finding_reference_model :: orm_table where
  "finding_reference_model = declared ''finding_references'' [uuid_primary_key_mixin, timestamp_mixin]
    [mapped_column ''tenant_id'' TUuid,
     mapped_column ''finding_id'' TUuid,
     mapped_column ''reference_type'' (sa_enum finding_reference_type_members finding_reference_type_name ''finding_reference_type'' 32),
     mapped_column ''value'' (TString 500)]
    [UniqueConstraint [''finding_id'', ''reference_type'', ''value''] ''uq_finding_references_finding_id_reference_type_value'',
     ForeignKeyConstraint [''tenant_id'', ''finding_id''] ''findings'' [''tenant_id'', ''id''] ''fk_finding_references_tenant_id_finding_id_findings'' Cascade]"

definition refresh_token_model :: orm_table where
  "refresh_token_model = declared ''refresh_tokens'' [uuid_primary_key_mixin, timestamp_mixin]
    [(mapped_column ''tenant_id'' TUuid)\<lparr>mc_references := Some (''tenants'', ''id'', Restrict)\<rparr>,
     (mapped_column ''user_id'' TUuid)\<lparr>mc_references := Some (''users'', ''id'', Restrict)\<rparr>,
     (mapped_column ''family_id'' TUuid)\<lparr>mc_index := True\<rparr>,
     (mapped_column ''hashed_token'' (TString 64))\<lparr>mc_unique := True\<rparr>,
     (mapped_column ''status'' (sa_enum refresh_token_status_members refresh_token_status_name ''refresh_token_status'' 32))
       \<lparr>mc_server_default := Some (Literal (refresh_token_status_value TokenActive))\<rparr>,
     mapped_column ''expires_at'' TTimestamp,
     (mapped_column ''revoked_at'' TTimestamp)\<lparr>mc_nullable := True\<rparr>,
     (mapped_column ''replaced_by_id'' TUuid)\<lparr>mc_references := Some (''refresh_tokens'', ''id'', SetNull), mc_nullable := True\<rparr>,
     (mapped_column ''created_by_ip'' (TString 64))\<lparr>mc_nullable := True\<rparr>,
     (mapped_column ''user_agent'' (TString 500))\<lparr>mc_nullable := True\<rparr>]
    []"

definition user_verification_token_model :: orm_table where
  "user_verification_token_model = declared ''user_verification_tokens'' [uuid_primary_key_mixin, timestamp_mixin]
    [(mapped_column ''user_id'' TUuid)\<lparr>mc_references := Some (''users'', ''id'', Restrict)\<rparr>,
     mapped_column ''purpose'' (sa_enum verification_token_purpose_members verification_token_purpose_name ''verification_token_purpose'' 32),
     (mapped_column ''hashed_token'' (TString 64))\<lparr>mc_unique := True\<rparr>,
     mapped_column ''expires_at'' TTimestamp,
     (mapped_column ''consumed_at'' TTimestamp)\<lparr>mc_nullable := True\<rparr>]
    []"

definition scan_event_model :: orm_table where
  "scan_event_model = declared ''scan_events'' [uuid_primary_key_mixin, created_at_mixin]
    [(mapped_column ''created_at'' TTimestamp)\<lparr>mc_server_default := Some (SqlFunction ''clock_timestamp()'')\<rparr>,
     (mapped_column ''tenant_id'' TUuid)\<lparr>mc_references := Some (''tenants'', ''id'', Restrict)\<rparr>,
     mapped_column ''scan_id'' TUuid,
     mapped_column ''event_type'' (TString 100),
     (mapped_column ''stage'' (TString 50))\<lparr>mc_nullable := True\<rparr>,
     (mapped_column ''progress_percent'' TInteger)\<lparr>mc_nullable := True\<rparr>,
     (mapped_column ''worker_id'' (TString 200))\<lparr>mc_nullable := True\<rparr>,
     (mapped_column ''correlation_id'' (TString 100))\<lparr>mc_nullable := True\<rparr>,
     (mapped_column ''message'' (TString 2000))\<lparr>mc_nullable := True\<rparr>,
     (mapped_column ''metadata'' TJsonb)\<lparr>mc_nullable := True\<rparr>]
    [ForeignKeyConstraint [''tenant_id'', ''scan_id''] ''scans'' [''tenant_id'', ''id''] ''fk_scan_events_tenant_id_scan_id_scans'' Cascade,
     CheckConstraint (SqlOr (IsNull ''metadata'') (SizeAtMost ''metadata'' 8192)) ''metadata_size_limit'',
     CheckConstraint (SqlOr (IsNull ''progress_percent'') (SqlAnd (AtLeast ''progress_percent'' 0) (AtMost ''progress_percent'' 100))) ''progress_percent_range'']"

definition scan_job_outbox_model :: orm_table where
  "scan_job_outbox_model = declared ''scan_job_outbox'' [uuid_primary_key_mixin]
    [(mapped_column ''tenant_id'' TUuid)\<lparr>mc_references := Some (''tenants'', ''id'', Restrict)\<rparr>,
     mapped_column ''scan_id'' TUuid,
     mapped_column ''scan_attempt'' TInteger,
     mapped_column ''event_type'' (TString 50),
     mapped_column ''payload'' TJsonb,
     (mapped_column ''countdown_seconds'' TFloat)\<lparr>mc_server_default := Some (Literal ''0'')\<rparr>,
     (mapped_column ''created_at'' TTimestamp)\<lparr>mc_server_default := Some (SqlFunction ''now()'')\<rparr>,
     (mapped_column ''published_at'' TTimestamp)\<lparr>mc_nullable := True\<rparr>,
     (mapped_column ''attempt_count'' TInteger)\<lparr>mc_server_default := Some (Literal ''0'')\<rparr>,
     (mapped_column ''last_attempt_at'' TTimestamp)\<lparr>mc_nullable := True\<rparr>,
     (mapped_column ''last_error'' (TString 500))\<lparr>mc_nullable := True\<rparr>]
    [ForeignKeyConstraint [''tenant_id'', ''scan_id''] ''scans'' [''tenant_id'', ''id''] ''fk_scan_job_outbox_tenant_id_scan_id_scans'' Cascade,
     UniqueConstraint [''tenant_id'', ''scan_id'', ''scan_attempt''] ''uq_scan_job_outbox_tenant_scan_attempt'',
     CheckConstraint (AtLeast ''attempt_count'' 0) ''attempt_count_non_negative'',
     CheckConstraint (AtLeast ''scan_attempt'' 0) ''scan_attempt_non_negative'',
     CheckConstraint (AtLeast ''countdown_seconds'' 0) ''countdown_seconds_non_negative'',
     CheckConstraint (SqlOr (IsNull ''payload'') (SizeAtMost ''payload'' 4096)) ''payload_size_limit'',
     Index ''ix_scan_job_outbox_pending'' [''created_at''] (Some (IsNull ''published_at''))]"

text \<open>\<open>Base.metadata\<close>, in the order of \<open>models/__init__.py\<close>.\<close>

definition models :: "orm_table list" where
  "models = [api_key_metadata_model, asset_model, audit_event_model, finding_model, finding_reference_model, tenant_membership_model, project_model, refresh_token_model, scan_model, scan_event_model, scan_job_outbox_model, tenant_model, user_model, user_verification_token_model]"

definition metadata :: schema where
  "metadata = map model_table models"

end
