(* ===== verification/Migration_Properties.thy ===== *)
theory Migration_Properties
  imports Migration_Runs Orm_Models Identity_Repositories
begin

text \<open>
  What the migrations leave: that each can be undone, what the schema at the head
  guarantees and where it does not guarantee what it means to, and how the rows it accepts
  compare with those the model's own checks accept.
\<close>

section \<open>Upgrading and downgrading\<close>

text \<open>The same schema, but for the order of the constraints of a table.\<close>

definition same_table :: "table_def \<Rightarrow> table_def \<Rightarrow> bool" where
  "same_table t u \<longleftrightarrow> td_name t = td_name u \<and> td_columns t = td_columns u \<and>
     set (td_constraints t) = set (td_constraints u) \<and>
     length (td_constraints t) = length (td_constraints u) \<and> td_indexes t = td_indexes u"

definition same_schema :: "schema \<Rightarrow> schema \<Rightarrow> bool" where
  "same_schema s s' \<longleftrightarrow> list_all2 same_table s s'"

text \<open>Every revision of the chain applies, and its downgrade takes back what it did.\<close>

fun reversible :: "schema \<Rightarrow> revision list \<Rightarrow> bool" where
  "reversible s [] = True"
| "reversible s (r # rs) =
    (case run_ddl (rv_upgrade r) s of Inl e \<Rightarrow> False | Inr s' \<Rightarrow>
     (case run_ddl (rv_downgrade r) s' of Inl e \<Rightarrow> False | Inr u \<Rightarrow> same_schema u s) \<and> reversible s' rs)"

lemma same_table_refl [simp]: "same_table t t"
  by (simp add: same_table_def)

lemma same_schema_refl [simp]: "same_schema s s"
  by (simp add: same_schema_def list_all2_refl)

lemma same_schema_Cons [simp]:
  "same_schema [] []" "same_schema (t # s) (u # s') \<longleftrightarrow> same_table t u \<and> same_schema s s'"
  by (simp_all add: same_schema_def)

lemma restored_scans: "same_table scans_restored scans_table"
  by (auto simp: same_table_def scans_restored_def scans_table_def)

lemma revision_fields [simp]:
  "rv_id foundation = ''a174c38765f8''" "rv_down foundation = None"
  "rv_upgrade foundation = upgrade_foundation" "rv_downgrade foundation = downgrade_foundation"
  "rv_id authentication = ''af3a58d67429''" "rv_down authentication = Some ''a174c38765f8''"
  "rv_upgrade authentication = upgrade_authentication" "rv_downgrade authentication = downgrade_authentication"
  "rv_id orchestration = ''b3214246fc2f''" "rv_down orchestration = Some ''af3a58d67429''"
  "rv_upgrade orchestration = upgrade_orchestration" "rv_downgrade orchestration = downgrade_orchestration"
  "rv_id outbox = ''a1fb5cd36013''" "rv_down outbox = Some ''b3214246fc2f''"
  "rv_upgrade outbox = upgrade_outbox" "rv_downgrade outbox = downgrade_outbox"
  by (simp_all add: foundation_def authentication_def orchestration_def outbox_def)

lemmas chain_runs = run_upgrade_foundation run_upgrade_authentication run_upgrade_orchestration
  run_upgrade_outbox run_downgrade_outbox run_downgrade_orchestration run_downgrade_authentication
  run_downgrade_foundation run_downgrade_authentication_again run_downgrade_foundation_again

lemma orchestration_undone_same: "same_schema orchestration_undone authentication_schema"
  by (simp add: orchestration_undone_def authentication_schema_def restored_scans)

text \<open>C28 (migrations): the revisions form one chain, which takes the empty database to the schema at the head
  without an error; each downgrade, run where its upgrade ended, leads back to the schema
  the upgrade began from; and the downgrades one after the other lead from the head back
  to the empty database.\<close>

theorem migrations_reversible:
  "linked None revisions \<and> upgrade_all revisions [] = Inr head_schema \<and> reversible [] revisions \<and>
    run_ddl (concat (map rv_downgrade (rev revisions))) head_schema = Inr []"
proof (intro conjI)
  show "linked None revisions" by (simp add: revisions_def)
  show "upgrade_all revisions [] = Inr head_schema" by (simp add: revisions_def chain_runs)
  show "reversible [] revisions"
    by (simp add: revisions_def chain_runs orchestration_undone_same)
  show "run_ddl (concat (map rv_downgrade (rev revisions))) head_schema = Inr []"
    by (simp add: revisions_def chain_runs run_ddl_split)
qed

section \<open>The schema at the head\<close>

text \<open>
  A sound table has one primary key, and its constraints are about its columns and, if
  foreign keys, about keys that exist.
\<close>

definition sound_table :: "schema \<Rightarrow> table_def \<Rightarrow> bool" where
  "sound_table s t \<longleftrightarrow> list_all (constraint_ok s t) (td_constraints t) \<and> [''id''] \<in> set (table_keys t) \<and>
     distinct (map co_name (td_columns t)) \<and> distinct (map constraint_name (td_constraints t))"

text \<open>Foreign keys that set to \<open>NULL\<close> a column that may not be.\<close>

definition null_conflicts :: "table_def \<Rightarrow> string list list" where
  "null_conflicts t = map fst (filter (\<lambda>(cs, u, ds, d). d = SetNull \<and>
     list_ex (\<lambda>c. case column_of c t of None \<Rightarrow> False | Some x \<Rightarrow> \<not> co_nullable x) cs) (table_foreign_keys t))"

text \<open>Foreign keys between rows of tenants that do not compare the tenants.\<close>

definition has_tenant :: "table_def \<Rightarrow> bool" where
  "has_tenant t \<longleftrightarrow> column_of ''tenant_id'' t \<noteq> None"

definition unscoped_keys :: "schema \<Rightarrow> table_def \<Rightarrow> string list list" where
  "unscoped_keys s t = (if \<not> has_tenant t then [] else
     map fst (filter (\<lambda>(cs, u, ds, d). ''tenant_id'' \<notin> set cs \<and>
       (case table_of u s of None \<Rightarrow> False | Some v \<Rightarrow> has_tenant v)) (table_foreign_keys t)))"

text \<open>Enumerations with a literal default, and whether a check refuses it.\<close>

fun excludes :: "string \<Rightarrow> string \<Rightarrow> constraint \<Rightarrow> bool" where
  "excludes c d (Check n (OneOf c' xs)) = (c' = c \<and> d \<notin> set xs)"
| "excludes c d _ = False"

fun enum_default :: "column \<Rightarrow> string option" where
  "enum_default c = (case (co_type c, co_default c) of
     (TEnum n xs k, Some (Literal d)) \<Rightarrow> Some d | _ \<Rightarrow> None)"

definition refused_default :: "table_def \<Rightarrow> column \<Rightarrow> bool" where
  "refused_default t c = (case enum_default c of
     None \<Rightarrow> True | Some d \<Rightarrow> list_ex (excludes (co_name c) d) (td_constraints t))"

lemma sound_tenants_table: "sound_table head_schema tenants_table"
  unfolding sound_table_def list_all_iff
  by (simp add: tenants_table_def constraint_ok_def head_schema_def ddl_simps cong: as_written)

lemma sound_users_with_credentials: "sound_table head_schema users_with_credentials"
  unfolding sound_table_def list_all_iff
  by (simp add: users_with_credentials_def constraint_ok_def head_schema_def ddl_simps cong: as_written)

lemma sound_api_key_metadata_table: "sound_table head_schema api_key_metadata_table"
  unfolding sound_table_def list_all_iff
  by (simp add: api_key_metadata_table_def constraint_ok_def head_schema_def ddl_simps cong: as_written)

lemma sound_audit_events_table: "sound_table head_schema audit_events_table"
  unfolding sound_table_def list_all_iff
  by (simp add: audit_events_table_def constraint_ok_def head_schema_def ddl_simps cong: as_written)

lemma sound_projects_table: "sound_table head_schema projects_table"
  unfolding sound_table_def list_all_iff
  by (simp add: projects_table_def constraint_ok_def head_schema_def ddl_simps cong: as_written)

lemma sound_tenant_memberships_table: "sound_table head_schema tenant_memberships_table"
  unfolding sound_table_def list_all_iff
  by (simp add: tenant_memberships_table_def constraint_ok_def head_schema_def ddl_simps cong: as_written)

lemma sound_assets_table: "sound_table head_schema assets_table"
  unfolding sound_table_def list_all_iff
  by (simp add: assets_table_def constraint_ok_def head_schema_def ddl_simps cong: as_written)

lemma sound_scans_orchestrated: "sound_table head_schema scans_orchestrated"
  unfolding sound_table_def list_all_iff
  by (simp add: scans_orchestrated_def constraint_ok_def head_schema_def ddl_simps cong: as_written)

lemma sound_findings_table: "sound_table head_schema findings_table"
  unfolding sound_table_def list_all_iff
  by (simp add: findings_table_def constraint_ok_def head_schema_def ddl_simps cong: as_written)

lemma sound_finding_references_table: "sound_table head_schema finding_references_table"
  unfolding sound_table_def list_all_iff
  by (simp add: finding_references_table_def constraint_ok_def head_schema_def ddl_simps cong: as_written)

lemma sound_refresh_tokens_table: "sound_table head_schema refresh_tokens_table"
  unfolding sound_table_def list_all_iff
  by (simp add: refresh_tokens_table_def constraint_ok_def head_schema_def ddl_simps cong: as_written)

lemma sound_user_verification_tokens_table: "sound_table head_schema user_verification_tokens_table"
  unfolding sound_table_def list_all_iff
  by (simp add: user_verification_tokens_table_def constraint_ok_def head_schema_def ddl_simps cong: as_written)

lemma sound_scan_events_table: "sound_table head_schema scan_events_table"
  unfolding sound_table_def list_all_iff
  by (simp add: scan_events_table_def constraint_ok_def head_schema_def ddl_simps cong: as_written)

lemma sound_scan_job_outbox_table: "sound_table head_schema scan_job_outbox_table"
  unfolding sound_table_def list_all_iff
  by (simp add: scan_job_outbox_table_def constraint_ok_def head_schema_def ddl_simps cong: as_written)

lemma no_tenant [simp]:
  "column_of ''tenant_id'' tenants_table = None"
  "column_of ''tenant_id'' users_with_credentials = None"
  "column_of ''tenant_id'' user_verification_tokens_table = None"
  by (simp_all add: tenants_table_def users_with_credentials_def user_verification_tokens_table_def)

lemma keys_tenants_table: "null_conflicts tenants_table = []" "unscoped_keys head_schema tenants_table = []"
  by (simp_all add: null_conflicts_def unscoped_keys_def has_tenant_def head_schema_def table_of_def table_facts)
    (simp_all add: tenants_table_def)?

lemma defaults_tenants_table: "list_all (refused_default tenants_table) (td_columns tenants_table)"
  by (simp add: tenants_table_def refused_default_def)

lemma keys_users_with_credentials:
  "null_conflicts users_with_credentials = []"
  "unscoped_keys head_schema users_with_credentials = []"
  by (simp_all add: null_conflicts_def unscoped_keys_def has_tenant_def head_schema_def table_of_def table_facts)
    (simp_all add: users_with_credentials_def)?

lemma defaults_users_with_credentials:
  "list_all (refused_default users_with_credentials) (td_columns users_with_credentials)"
  by (simp add: users_with_credentials_def refused_default_def)

lemma keys_api_key_metadata_table:
  "null_conflicts api_key_metadata_table = []"
  "unscoped_keys head_schema api_key_metadata_table = []"
  by (simp_all add: null_conflicts_def unscoped_keys_def has_tenant_def head_schema_def table_of_def table_facts)
    (simp_all add: api_key_metadata_table_def)?

lemma defaults_api_key_metadata_table:
  "list_all (refused_default api_key_metadata_table) (td_columns api_key_metadata_table)"
  by (simp add: api_key_metadata_table_def refused_default_def)

lemma keys_audit_events_table:
  "null_conflicts audit_events_table = []"
  "unscoped_keys head_schema audit_events_table = []"
  by (simp_all add: null_conflicts_def unscoped_keys_def has_tenant_def head_schema_def table_of_def table_facts)
    (simp_all add: audit_events_table_def)?

lemma defaults_audit_events_table:
  "list_all (refused_default audit_events_table) (td_columns audit_events_table)"
  by (simp add: audit_events_table_def refused_default_def)

lemma keys_projects_table:
  "null_conflicts projects_table = []"
  "unscoped_keys head_schema projects_table = []"
  by (simp_all add: null_conflicts_def unscoped_keys_def has_tenant_def head_schema_def table_of_def table_facts)
    (simp_all add: projects_table_def)?

lemma defaults_projects_table: "list_all (refused_default projects_table) (td_columns projects_table)"
  by (simp add: projects_table_def refused_default_def)

lemma keys_tenant_memberships_table:
  "null_conflicts tenant_memberships_table = []"
  "unscoped_keys head_schema tenant_memberships_table = []"
  by (simp_all add: null_conflicts_def unscoped_keys_def has_tenant_def head_schema_def table_of_def table_facts)
    (simp_all add: tenant_memberships_table_def)?

lemma defaults_tenant_memberships_table:
  "list_all (refused_default tenant_memberships_table) (td_columns tenant_memberships_table)"
  by (simp add: tenant_memberships_table_def refused_default_def)

lemma keys_assets_table: "null_conflicts assets_table = []" "unscoped_keys head_schema assets_table = []"
  by (simp_all add: null_conflicts_def unscoped_keys_def has_tenant_def head_schema_def table_of_def table_facts)
    (simp_all add: assets_table_def)?

lemma defaults_assets_table: "list_all (refused_default assets_table) (td_columns assets_table)"
  by (simp add: assets_table_def refused_default_def)

lemma keys_scans_orchestrated:
  "null_conflicts scans_orchestrated = [[''tenant_id'', ''retry_of_scan_id'']]"
  "unscoped_keys head_schema scans_orchestrated = []"
  by (simp_all add: null_conflicts_def unscoped_keys_def has_tenant_def head_schema_def table_of_def table_facts)
    (simp_all add: scans_orchestrated_def)?

lemma defaults_scans_orchestrated:
  "list_all (refused_default scans_orchestrated) (td_columns scans_orchestrated)"
  by (simp add: scans_orchestrated_def refused_default_def)

lemma keys_findings_table:
  "null_conflicts findings_table = []"
  "unscoped_keys head_schema findings_table = []"
  by (simp_all add: null_conflicts_def unscoped_keys_def has_tenant_def head_schema_def table_of_def table_facts)
    (simp_all add: findings_table_def)?

lemma defaults_findings_table: "list_all (refused_default findings_table) (td_columns findings_table)"
  by (simp add: findings_table_def refused_default_def)

lemma keys_finding_references_table:
  "null_conflicts finding_references_table = []"
  "unscoped_keys head_schema finding_references_table = []"
  by (simp_all add: null_conflicts_def unscoped_keys_def has_tenant_def head_schema_def table_of_def table_facts)
    (simp_all add: finding_references_table_def)?

lemma defaults_finding_references_table:
  "list_all (refused_default finding_references_table) (td_columns finding_references_table)"
  by (simp add: finding_references_table_def refused_default_def)

lemma keys_refresh_tokens_table:
  "null_conflicts refresh_tokens_table = []"
  "unscoped_keys head_schema refresh_tokens_table = [[''replaced_by_id'']]"
  by (simp_all add: null_conflicts_def unscoped_keys_def has_tenant_def head_schema_def table_of_def table_facts)
    (simp_all add: refresh_tokens_table_def)?

lemma defaults_refresh_tokens_table:
  "list_all (refused_default refresh_tokens_table) (td_columns refresh_tokens_table)"
  by (simp add: refresh_tokens_table_def refused_default_def)

lemma keys_user_verification_tokens_table:
  "null_conflicts user_verification_tokens_table = []"
  "unscoped_keys head_schema user_verification_tokens_table = []"
  by (simp_all add: null_conflicts_def unscoped_keys_def has_tenant_def head_schema_def table_of_def table_facts)
    (simp_all add: user_verification_tokens_table_def)?

lemma defaults_user_verification_tokens_table:
  "list_all (refused_default user_verification_tokens_table) (td_columns user_verification_tokens_table)"
  by (simp add: user_verification_tokens_table_def refused_default_def)

lemma keys_scan_events_table:
  "null_conflicts scan_events_table = []"
  "unscoped_keys head_schema scan_events_table = []"
  by (simp_all add: null_conflicts_def unscoped_keys_def has_tenant_def head_schema_def table_of_def table_facts)
    (simp_all add: scan_events_table_def)?

lemma defaults_scan_events_table:
  "list_all (refused_default scan_events_table) (td_columns scan_events_table)"
  by (simp add: scan_events_table_def refused_default_def)

lemma keys_scan_job_outbox_table:
  "null_conflicts scan_job_outbox_table = []"
  "unscoped_keys head_schema scan_job_outbox_table = []"
  by (simp_all add: null_conflicts_def unscoped_keys_def has_tenant_def head_schema_def table_of_def table_facts)
    (simp_all add: scan_job_outbox_table_def)?

lemma defaults_scan_job_outbox_table:
  "list_all (refused_default scan_job_outbox_table) (td_columns scan_job_outbox_table)"
  by (simp add: scan_job_outbox_table_def refused_default_def)

text \<open>The facts about each table of the schema at the head.\<close>

lemmas head_tables_sound =
  sound_tenants_table keys_tenants_table sound_users_with_credentials keys_users_with_credentials
  sound_api_key_metadata_table keys_api_key_metadata_table sound_audit_events_table
  keys_audit_events_table sound_projects_table keys_projects_table sound_tenant_memberships_table
  keys_tenant_memberships_table sound_assets_table keys_assets_table sound_scans_orchestrated
  keys_scans_orchestrated sound_findings_table keys_findings_table sound_finding_references_table
  keys_finding_references_table sound_refresh_tokens_table keys_refresh_tokens_table
  sound_user_verification_tokens_table keys_user_verification_tokens_table sound_scan_events_table
  keys_scan_events_table sound_scan_job_outbox_table keys_scan_job_outbox_table

text \<open>C29 (the schema at the head): every table has a primary key on its identifier, its constraints are about
  columns it has, and its foreign keys refer to keys that exist, column by column of the
  same type.  Among the foreign keys between rows of tenants only one does not compare
  the tenants, the successor of a refresh token; and only one that sets its columns to
  \<open>NULL\<close> includes a column that must not be \<open>NULL\<close>, the scan a scan retries, so that a scan that was
  retried cannot be deleted.\<close>

theorem head_schema_sound:
  "list_all (sound_table head_schema) head_schema \<and> distinct (map td_name head_schema) \<and>
    filter (\<lambda>(t, cs). cs \<noteq> []) (map (\<lambda>t. (td_name t, unscoped_keys head_schema t)) head_schema) =
      [(''refresh_tokens'', [[''replaced_by_id'']])] \<and>
    filter (\<lambda>(t, cs). cs \<noteq> []) (map (\<lambda>t. (td_name t, null_conflicts t)) head_schema) =
      [(''scans'', [[''tenant_id'', ''retry_of_scan_id'']])]"
  by (simp only: list.map list.pred_inject distinct.simps filter.simps head_schema_def
      head_tables_sound [unfolded head_schema_def])
    (simp add: table_facts)


section \<open>Rows\<close>

text \<open>The row of a table that holds a record of the model; enumerations are stored by name.\<close>

definition scan_row :: "scan \<Rightarrow> sql_row" where
  "scan_row x =
    [(''tenant_id'', Some (VUuid (sc_tenant_id x))),
     (''project_id'', Some (VUuid (sc_project_id x))),
     (''asset_id'', Some (VUuid (sc_asset_id x))),
     (''scanner_type'', Some (VText (sc_scanner_type x))),
     (''status'', Some (VText (scan_status_name (sc_status x)))),
     (''requested_by_user_id'', map_option VUuid (sc_requested_by_user_id x)),
     (''queued_at'', map_option VTime (sc_queued_at x)),
     (''started_at'', map_option VTime (sc_started_at x)),
     (''completed_at'', map_option VTime (sc_completed_at x)),
     (''failed_at'', map_option VTime (sc_failed_at x)),
     (''error_code'', map_option VText (sc_error_code x)),
     (''error_summary'', map_option VText (sc_error_summary x)),
     (''id'', Some (VUuid (sc_id x))),
     (''created_at'', Some (VTime (sc_created_at x))),
     (''updated_at'', Some (VTime (sc_updated_at x))),
     (''cancelled_at'', map_option VTime (sc_cancelled_at x)),
     (''timed_out_at'', map_option VTime (sc_timed_out_at x)),
     (''attempt'', Some (VInt (sc_attempt x))),
     (''max_attempts'', Some (VInt (sc_max_attempts x))),
     (''worker_id'', map_option VText (sc_worker_id x)),
     (''job_id'', map_option VText (sc_job_id x)),
     (''timeout_seconds'', Some (VInt (sc_timeout_seconds x))),
     (''retry_of_scan_id'', map_option VUuid (sc_retry_of_scan_id x)),
     (''config'', map_option (\<lambda>j. VJson (JObj j)) (sc_config x)),
     (''correlation_id'', map_option VText (sc_correlation_id x))]"

lemma scan_values [simp]:
  "value_of (scan_row x) ''tenant_id'' = Some (VUuid (sc_tenant_id x))"
  "value_of (scan_row x) ''project_id'' = Some (VUuid (sc_project_id x))"
  "value_of (scan_row x) ''asset_id'' = Some (VUuid (sc_asset_id x))"
  "value_of (scan_row x) ''scanner_type'' = Some (VText (sc_scanner_type x))"
  "value_of (scan_row x) ''status'' = Some (VText (scan_status_name (sc_status x)))"
  "value_of (scan_row x) ''requested_by_user_id'' = map_option VUuid (sc_requested_by_user_id x)"
  "value_of (scan_row x) ''queued_at'' = map_option VTime (sc_queued_at x)"
  "value_of (scan_row x) ''started_at'' = map_option VTime (sc_started_at x)"
  "value_of (scan_row x) ''completed_at'' = map_option VTime (sc_completed_at x)"
  "value_of (scan_row x) ''failed_at'' = map_option VTime (sc_failed_at x)"
  "value_of (scan_row x) ''error_code'' = map_option VText (sc_error_code x)"
  "value_of (scan_row x) ''error_summary'' = map_option VText (sc_error_summary x)"
  "value_of (scan_row x) ''id'' = Some (VUuid (sc_id x))"
  "value_of (scan_row x) ''created_at'' = Some (VTime (sc_created_at x))"
  "value_of (scan_row x) ''updated_at'' = Some (VTime (sc_updated_at x))"
  "value_of (scan_row x) ''cancelled_at'' = map_option VTime (sc_cancelled_at x)"
  "value_of (scan_row x) ''timed_out_at'' = map_option VTime (sc_timed_out_at x)"
  "value_of (scan_row x) ''attempt'' = Some (VInt (sc_attempt x))"
  "value_of (scan_row x) ''max_attempts'' = Some (VInt (sc_max_attempts x))"
  "value_of (scan_row x) ''worker_id'' = map_option VText (sc_worker_id x)"
  "value_of (scan_row x) ''job_id'' = map_option VText (sc_job_id x)"
  "value_of (scan_row x) ''timeout_seconds'' = Some (VInt (sc_timeout_seconds x))"
  "value_of (scan_row x) ''retry_of_scan_id'' = map_option VUuid (sc_retry_of_scan_id x)"
  "value_of (scan_row x) ''config'' = map_option (\<lambda>j. VJson (JObj j)) (sc_config x)"
  "value_of (scan_row x) ''correlation_id'' = map_option VText (sc_correlation_id x)"
  by (simp_all add: value_of_def scan_row_def)

definition scan_event_row :: "scan_event \<Rightarrow> sql_row" where
  "scan_event_row x =
    [(''tenant_id'', Some (VUuid (ev_tenant_id x))),
     (''scan_id'', Some (VUuid (ev_scan_id x))),
     (''event_type'', Some (VText (ev_event_type x))),
     (''stage'', map_option VText (ev_stage x)),
     (''progress_percent'', map_option VInt (ev_progress_percent x)),
     (''worker_id'', map_option VText (ev_worker_id x)),
     (''correlation_id'', map_option VText (ev_correlation_id x)),
     (''message'', map_option VText (ev_message x)),
     (''metadata'', map_option (\<lambda>j. VJson (JObj j)) (ev_metadata x)),
     (''id'', Some (VUuid (ev_id x))),
     (''created_at'', Some (VTime (ev_created_at x)))]"

lemma scan_event_values [simp]:
  "value_of (scan_event_row x) ''tenant_id'' = Some (VUuid (ev_tenant_id x))"
  "value_of (scan_event_row x) ''scan_id'' = Some (VUuid (ev_scan_id x))"
  "value_of (scan_event_row x) ''event_type'' = Some (VText (ev_event_type x))"
  "value_of (scan_event_row x) ''stage'' = map_option VText (ev_stage x)"
  "value_of (scan_event_row x) ''progress_percent'' = map_option VInt (ev_progress_percent x)"
  "value_of (scan_event_row x) ''worker_id'' = map_option VText (ev_worker_id x)"
  "value_of (scan_event_row x) ''correlation_id'' = map_option VText (ev_correlation_id x)"
  "value_of (scan_event_row x) ''message'' = map_option VText (ev_message x)"
  "value_of (scan_event_row x) ''metadata'' = map_option (\<lambda>j. VJson (JObj j)) (ev_metadata x)"
  "value_of (scan_event_row x) ''id'' = Some (VUuid (ev_id x))"
  "value_of (scan_event_row x) ''created_at'' = Some (VTime (ev_created_at x))"
  by (simp_all add: value_of_def scan_event_row_def)

definition scan_job_outbox_row :: "scan_job_outbox \<Rightarrow> sql_row" where
  "scan_job_outbox_row x =
    [(''tenant_id'', Some (VUuid (ob_tenant_id x))),
     (''scan_id'', Some (VUuid (ob_scan_id x))),
     (''scan_attempt'', Some (VInt (ob_scan_attempt x))),
     (''event_type'', Some (VText (ob_event_type x))),
     (''payload'', Some (VJson (JObj (ob_payload x)))),
     (''countdown_seconds'', Some (VFloat (ob_countdown_seconds x))),
     (''created_at'', Some (VTime (ob_created_at x))),
     (''published_at'', map_option VTime (ob_published_at x)),
     (''attempt_count'', Some (VInt (ob_attempt_count x))),
     (''last_attempt_at'', map_option VTime (ob_last_attempt_at x)),
     (''last_error'', map_option VText (ob_last_error x)),
     (''id'', Some (VUuid (ob_id x)))]"

lemma scan_job_outbox_values [simp]:
  "value_of (scan_job_outbox_row x) ''tenant_id'' = Some (VUuid (ob_tenant_id x))"
  "value_of (scan_job_outbox_row x) ''scan_id'' = Some (VUuid (ob_scan_id x))"
  "value_of (scan_job_outbox_row x) ''scan_attempt'' = Some (VInt (ob_scan_attempt x))"
  "value_of (scan_job_outbox_row x) ''event_type'' = Some (VText (ob_event_type x))"
  "value_of (scan_job_outbox_row x) ''payload'' = Some (VJson (JObj (ob_payload x)))"
  "value_of (scan_job_outbox_row x) ''countdown_seconds'' = Some (VFloat (ob_countdown_seconds x))"
  "value_of (scan_job_outbox_row x) ''created_at'' = Some (VTime (ob_created_at x))"
  "value_of (scan_job_outbox_row x) ''published_at'' = map_option VTime (ob_published_at x)"
  "value_of (scan_job_outbox_row x) ''attempt_count'' = Some (VInt (ob_attempt_count x))"
  "value_of (scan_job_outbox_row x) ''last_attempt_at'' = map_option VTime (ob_last_attempt_at x)"
  "value_of (scan_job_outbox_row x) ''last_error'' = map_option VText (ob_last_error x)"
  "value_of (scan_job_outbox_row x) ''id'' = Some (VUuid (ob_id x))"
  by (simp_all add: value_of_def scan_job_outbox_row_def)

definition user_row :: "user \<Rightarrow> sql_row" where
  "user_row x =
    [(''email'', Some (VText (us_email x))),
     (''display_name'', Some (VText (us_display_name x))),
     (''status'', Some (VText (user_status_name (us_status x)))),
     (''id'', Some (VUuid (us_id x))),
     (''created_at'', Some (VTime (us_created_at x))),
     (''updated_at'', Some (VTime (us_updated_at x))),
     (''hashed_password'', map_option VText (us_hashed_password x)),
     (''token_version'', Some (VInt (us_token_version x))),
     (''email_verified_at'', map_option VTime (us_email_verified_at x))]"

lemma user_values [simp]:
  "value_of (user_row x) ''email'' = Some (VText (us_email x))"
  "value_of (user_row x) ''display_name'' = Some (VText (us_display_name x))"
  "value_of (user_row x) ''status'' = Some (VText (user_status_name (us_status x)))"
  "value_of (user_row x) ''id'' = Some (VUuid (us_id x))"
  "value_of (user_row x) ''created_at'' = Some (VTime (us_created_at x))"
  "value_of (user_row x) ''updated_at'' = Some (VTime (us_updated_at x))"
  "value_of (user_row x) ''hashed_password'' = map_option VText (us_hashed_password x)"
  "value_of (user_row x) ''token_version'' = Some (VInt (us_token_version x))"
  "value_of (user_row x) ''email_verified_at'' = map_option VTime (us_email_verified_at x)"
  by (simp_all add: value_of_def user_row_def)

fun value_ok :: "bool \<Rightarrow> col_type \<Rightarrow> sql_value option \<Rightarrow> bool" where
  "value_ok nullable t None = nullable"
| "value_ok nullable t (Some v) = fits t v"

lemma column_accepts_column [simp]: "column_accepts r (sa_column n t b d) = value_ok b t (value_of r n)"
  by (simp add: column_accepts_def split: option.split)

lemma sql_known [simp]:
  "sql_and (Some p) (Some q) = Some (p \<and> q)" "sql_or (Some p) (Some q) = Some (p \<or> q)"
  by (cases p; simp)+

text \<open>What the three-valued conditions say of a row of a record.\<close>

lemma after_check:
  "value_of r a = map_option VTime x \<Longrightarrow> value_of r b = map_option VTime y \<Longrightarrow>
    (holds sz r (SqlOr (SqlOr (IsNull a) (IsNull b)) (NotBefore a b)) \<noteq> Some False) = opt_ge x y"
  by (cases x; cases y) (simp_all add: opt_ge_def)

lemma size_check:
  "value_of r c = map_option (\<lambda>j. VJson (JObj j)) x \<Longrightarrow>
    (holds sz r (SqlOr (IsNull c) (SizeAtMost c n)) \<noteq> Some False) = (case x of None \<Rightarrow> True | Some j \<Rightarrow> sz (JObj j) \<le> n)"
  by (cases x) simp_all

lemma optional_text_ok [simp]: "value_ok True (TString n) (map_option VText x) = max_len n x"
  by (cases x) (simp_all add: max_len_def)

lemma optional_uuid_ok [simp]: "value_ok True TUuid (map_option VUuid x)"
  by (cases x) simp_all

lemma optional_time_ok [simp]: "value_ok True TTimestamp (map_option VTime x)"
  by (cases x) simp_all

lemma optional_json_ok [simp]: "value_ok True TJsonb (map_option (\<lambda>j. VJson (JObj j)) x)"
  by (cases x) simp_all

lemma optional_int_ok [simp]:
  "value_ok True TInteger (map_option VInt x) = (case x of None \<Rightarrow> True | Some i \<Rightarrow> - (2 ^ 31) \<le> i \<and> i < 2 ^ 31)"
  by (cases x) simp_all

lemma scan_status_names:
  "scan_status_name s \<in> {''PENDING'', ''QUEUED'', ''PREPARING'', ''RUNNING'', ''COLLECTING'', ''PROCESSING'',
    ''SUCCEEDED'', ''FAILED'', ''CANCELLED'', ''TIMED_OUT''}" "length (scan_status_name s) \<le> 32"
  by (cases s; simp)+

lemma user_status_names:
  "user_status_name u \<in> {''ACTIVE'', ''SUSPENDED'', ''DEACTIVATED''}" "length (user_status_name u) \<le> 32"
  by (cases u; simp)+

text \<open>What the checks of the model leave to the schemas: the sizes of JSON documents, and the
  range of the outbox's counters.\<close>

definition document_fits :: "(json \<Rightarrow> nat) \<Rightarrow> nat \<Rightarrow> json_object option \<Rightarrow> bool" where
  "document_fits sz n x = (case x of None \<Rightarrow> True | Some j \<Rightarrow> sz (JObj j) \<le> n)"

lemma scan_columns:
  "list_all (column_accepts (scan_row x)) (td_columns scans_orchestrated) \<longleftrightarrow>
    length (sc_scanner_type x) \<le> 100 \<and> max_len 100 (sc_error_code x) \<and> max_len 2000 (sc_error_summary x) \<and>
    - (2 ^ 31) \<le> sc_attempt x \<and> sc_attempt x < 2 ^ 31 \<and> - (2 ^ 31) \<le> sc_max_attempts x \<and> sc_max_attempts x < 2 ^ 31 \<and>
    max_len 200 (sc_worker_id x) \<and> max_len 200 (sc_job_id x) \<and>
    - (2 ^ 31) \<le> sc_timeout_seconds x \<and> sc_timeout_seconds x < 2 ^ 31 \<and> max_len 100 (sc_correlation_id x)"
  by (simp add: scans_orchestrated_def scan_status_names(2))

lemma scan_constraints:
  "list_all (check_passes sz (scan_row x)) (td_constraints scans_orchestrated) \<longleftrightarrow>
    opt_ge (sc_started_at x) (sc_queued_at x) \<and> opt_ge (sc_completed_at x) (sc_started_at x) \<and>
    opt_ge (sc_failed_at x) (sc_started_at x) \<and> opt_ge (sc_timed_out_at x) (sc_started_at x) \<and>
    count_set [sc_completed_at x, sc_failed_at x, sc_cancelled_at x, sc_timed_out_at x] \<le> 1 \<and>
    0 \<le> sc_attempt x \<and> 1 \<le> sc_max_attempts x \<and> 0 < sc_timeout_seconds x \<and> document_fits sz 16384 (sc_config x)"
  unfolding scans_orchestrated_def
  using scan_status_names(1) [of "sc_status x"]
  by (auto simp: after_check size_check document_fits_def count_set_def simp del: holds.simps(10))

lemma scan_row_accepted:
  "row_accepted sz scans_orchestrated (scan_row x) \<longleftrightarrow> scan_checks x \<and> document_fits sz 16384 (sc_config x)"
  unfolding row_accepted_def scan_columns scan_constraints scan_checks_def by auto

lemma scan_event_row_accepted:
  "row_accepted sz scan_events_table (scan_event_row x) \<longleftrightarrow>
    scan_event_checks x \<and> document_fits sz 8192 (ev_metadata x)"
  unfolding row_accepted_def scan_events_table_def scan_event_checks_def
  by (cases "ev_progress_percent x"; cases "ev_metadata x") (auto simp: document_fits_def)

lemma outbox_row_accepted:
  "row_accepted sz scan_job_outbox_table (scan_job_outbox_row x) \<longleftrightarrow>
    outbox_checks x \<and> document_fits sz 4096 (Some (ob_payload x)) \<and>
    ob_scan_attempt x < 2 ^ 31 \<and> ob_attempt_count x < 2 ^ 31"
  unfolding row_accepted_def scan_job_outbox_table_def outbox_checks_def
  by (auto simp: document_fits_def)

lemma user_row_accepted:
  "row_accepted sz users_with_credentials (user_row x) \<longleftrightarrow> user_checks x"
  unfolding row_accepted_def users_with_credentials_def user_checks_def
  using user_status_names [of "us_status x"] by auto

text \<open>Row checks: a row of the tables at the head of the migrations is accepted when the checks
  the model makes before a statement accept it and, which the model leaves to the database, its
  JSON document is not too large and two counters of the outbox are within 32 bits; for scans,
  their events, their outbox and users.\<close>

theorem row_checks_agree:
  "table_of ''scans'' head_schema = Some scans_orchestrated \<and>
    table_of ''scan_events'' head_schema = Some scan_events_table \<and>
    table_of ''scan_job_outbox'' head_schema = Some scan_job_outbox_table \<and>
    table_of ''users'' head_schema = Some users_with_credentials \<and>
    (row_accepted sz scans_orchestrated (scan_row s) \<longleftrightarrow> scan_checks s \<and> document_fits sz 16384 (sc_config s)) \<and>
    (row_accepted sz scan_events_table (scan_event_row e) \<longleftrightarrow>
      scan_event_checks e \<and> document_fits sz 8192 (ev_metadata e)) \<and>
    (row_accepted sz scan_job_outbox_table (scan_job_outbox_row b) \<longleftrightarrow>
      outbox_checks b \<and> document_fits sz 4096 (Some (ob_payload b)) \<and>
      ob_scan_attempt b < 2 ^ 31 \<and> ob_attempt_count b < 2 ^ 31) \<and>
    (row_accepted sz users_with_credentials (user_row u) \<longleftrightarrow> user_checks u)"
proof -
  have "table_of ''scans'' head_schema = Some scans_orchestrated"
    "table_of ''scan_events'' head_schema = Some scan_events_table"
    "table_of ''scan_job_outbox'' head_schema = Some scan_job_outbox_table"
    "table_of ''users'' head_schema = Some users_with_credentials"
    by (simp_all add: table_of_def head_schema_def table_facts)
  then show ?thesis by (simp only: scan_row_accepted scan_event_row_accepted outbox_row_accepted user_row_accepted)
qed

section \<open>Defaults\<close>

lemma head_defaults: "list_all (\<lambda>t. list_all (refused_default t) (td_columns t)) head_schema"
    by (simp only: head_schema_def list.pred_inject defaults_tenants_table
      defaults_users_with_credentials defaults_api_key_metadata_table defaults_audit_events_table
      defaults_projects_table defaults_tenant_memberships_table defaults_assets_table
      defaults_scans_orchestrated defaults_findings_table defaults_finding_references_table
      defaults_refresh_tokens_table defaults_user_verification_tokens_table defaults_scan_events_table
      defaults_scan_job_outbox_table)

text \<open>C30 (defaults of enumerations): a row that leaves an enumeration to the default the database has for it
  is refused by the check of that enumeration, in every table and for every one of the
  twelve columns that have such a default: the defaults are the values of the Python
  enumerations, the checks their names.\<close>

theorem enum_defaults_refused:
  assumes t: "t \<in> set head_schema" "c \<in> set (td_columns t)" and d: "enum_default c = Some d"
    and r: "value_of r (co_name c) = Some (VText d)"
  shows "\<not> row_accepted sz t r \<and>
    length (List.map_filter enum_default (concat (map td_columns head_schema))) = 12"
proof
  have "refused_default t c" using head_defaults t by (simp add: list_all_iff)
  then obtain k where k: "k \<in> set (td_constraints t)" "excludes (co_name c) d k"
    using d by (auto simp: refused_default_def list_ex_iff)
  have "\<not> check_passes sz r k" using k(2) r by (cases k) (auto elim: excludes.elims)
  then show "\<not> row_accepted sz t r" using k(1) by (auto simp: row_accepted_def list_all_iff)
  show "length (List.map_filter enum_default (concat (map td_columns head_schema))) = 12"
    by (simp add: head_schema_def map_filter_simps tenants_table_def users_with_credentials_def
      api_key_metadata_table_def audit_events_table_def projects_table_def tenant_memberships_table_def
      assets_table_def scans_orchestrated_def findings_table_def finding_references_table_def
      refresh_tokens_table_def user_verification_tokens_table_def scan_events_table_def
      scan_job_outbox_table_def cong: as_written)
qed

theorem enum_defaults_refused_witness:
  "\<not> row_accepted (\<lambda>_. 0) users_with_credentials [(''status'', Some (VText ''active''))]"
proof -
  let ?c = "sa_column ''status'' (TEnum ''user_status'' [''ACTIVE'', ''SUSPENDED'', ''DEACTIVATED''] 32) False
    (Some (Literal ''active''))"
  have "users_with_credentials \<in> set head_schema" by (simp add: head_schema_def)
  moreover have "?c \<in> set (td_columns users_with_credentials)" by (simp add: users_with_credentials_def)
  ultimately show ?thesis
    using enum_defaults_refused [of users_with_credentials ?c "''active''" "[(''status'', Some (VText ''active''))]" "\<lambda>_. 0"]
    by (simp add: value_of_def)
qed

end
