(* ===== verification/Orm_Properties.thy ===== *)
theory Orm_Properties
  imports Orm_Models Migration_Properties
begin

text \<open>
  The models against the migrations: table by table, what SQLAlchemy builds of a class is what
  the migrations leave, but for order.
\<close>

named_theorems model_alike  \<comment> \<open>each model and its table at the head\<close>

lemmas orm_simps = model_table_def declared_def uuid_primary_key_mixin_def timestamp_mixin_def created_at_mixin_def
  mapped_column_def physical_column_def column_constraints_def column_indexes_def stored_def sa_enum_def sa_column_def
  pk_name_def uq_name_def fk_name_def index_name_def ck_name_def

lemma tenant_model_alike [model_alike]: "alike (model_table tenant_model) tenants_table"
  unfolding alike_def
  by (intro conjI)
    (simp_all add: tenant_model_def tenants_table_def orm_simps tenant_status_members_def)

lemma user_model_alike [model_alike]: "alike (model_table user_model) users_with_credentials"
  unfolding alike_def
  by (intro conjI)
    (simp_all add: user_model_def users_with_credentials_def orm_simps user_status_members_def)

lemma api_key_metadata_model_alike [model_alike]: "alike (model_table api_key_metadata_model) api_key_metadata_table"
  unfolding alike_def
  by (intro conjI)
    (simp_all add: api_key_metadata_model_def api_key_metadata_table_def orm_simps api_key_status_members_def)

lemma audit_event_model_alike [model_alike]: "alike (model_table audit_event_model) audit_events_table"
  unfolding alike_def
  by (intro conjI)
    (simp_all add: audit_event_model_def audit_events_table_def orm_simps audit_outcome_members_def)

lemma project_model_alike [model_alike]: "alike (model_table project_model) projects_table"
  unfolding alike_def
  by (intro conjI)
    (simp_all add: project_model_def projects_table_def orm_simps project_status_members_def)

lemma tenant_membership_model_alike [model_alike]: "alike (model_table tenant_membership_model) tenant_memberships_table"
  unfolding alike_def
  by (intro conjI)
    (simp_all add: tenant_membership_model_def tenant_memberships_table_def orm_simps membership_role_members_def membership_status_members_def)

lemma asset_model_alike [model_alike]: "alike (model_table asset_model) assets_table"
  unfolding alike_def
  by (intro conjI)
    (simp_all add: asset_model_def assets_table_def orm_simps asset_type_members_def asset_environment_members_def asset_status_members_def authorization_status_members_def)

lemma scan_model_alike [model_alike]: "alike (model_table scan_model) scans_orchestrated"
  unfolding alike_def
  by (intro conjI)
    (simp_all add: scan_model_def scans_orchestrated_def orm_simps scan_status_members_def)

lemma finding_model_alike [model_alike]: "alike (model_table finding_model) findings_table"
  unfolding alike_def
  by (intro conjI)
    (simp_all add: finding_model_def findings_table_def orm_simps finding_severity_members_def finding_status_members_def finding_confidence_members_def)

lemma finding_reference_model_alike [model_alike]: "alike (model_table finding_reference_model) finding_references_table"
  unfolding alike_def
  by (intro conjI)
    (simp_all add: finding_reference_model_def finding_references_table_def orm_simps finding_reference_type_members_def)

lemma refresh_token_model_alike [model_alike]: "alike (model_table refresh_token_model) refresh_tokens_table"
  unfolding alike_def
  by (intro conjI)
    (simp_all add: refresh_token_model_def refresh_tokens_table_def orm_simps refresh_token_status_members_def)

lemma user_verification_token_model_alike [model_alike]: "alike (model_table user_verification_token_model) user_verification_tokens_table"
  unfolding alike_def
  by (intro conjI)
    (simp_all add: user_verification_token_model_def user_verification_tokens_table_def orm_simps verification_token_purpose_members_def)

lemma scan_event_model_alike [model_alike]: "alike (model_table scan_event_model) scan_events_table"
  unfolding alike_def
  by (intro conjI)
    (simp_all add: scan_event_model_def scan_events_table_def orm_simps)

lemma scan_job_outbox_model_alike [model_alike]: "alike (model_table scan_job_outbox_model) scan_job_outbox_table"
  unfolding alike_def
  by (intro conjI)
    (simp_all add: scan_job_outbox_model_def scan_job_outbox_table_def orm_simps)

lemma metadata_drift: "no_drift metadata head_schema"
proof (rule no_driftI)
  show "distinct (map td_name head_schema)" by (simp add: head_schema_def table_facts)
  show "list_all (\<lambda>t. list_ex (alike t) head_schema) metadata"
    by (simp add: metadata_def models_def head_schema_def model_alike)
  have "set (map td_name metadata) = td_name ` set head_schema"
    by (simp add: metadata_def models_def head_schema_def model_alike [THEN alike_names(1)] insert_commute)
  then show "set (map td_name head_schema) \<subseteq> set (map td_name metadata)" by simp
qed

text \<open>C27 (models and migrations): the migrations, run from the empty database, end without an error in the
  schema that SQLAlchemy derives from the classes: the same tables, and in each the same
  columns, stored types, defaults, keys, checks, foreign keys and indexes, names
  included, whether the source gives the name or the naming convention makes it.  A row
  is accepted by the one exactly when it is accepted by the other.\<close>

theorem models_match_migrations:
  "\<exists>s. upgrade_all revisions [] = Inr s \<and> no_drift metadata s \<and>
    (\<forall>n. rel_option (\<lambda>t u. \<forall>sz r. row_accepted sz t r \<longleftrightarrow> row_accepted sz u r) (table_of n metadata) (table_of n s))"
proof (intro exI conjI allI)
  show "upgrade_all revisions [] = Inr head_schema" by (simp add: revisions_def chain_runs)
  show "no_drift metadata head_schema" by (fact metadata_drift)
  fix n show "rel_option (\<lambda>t u. \<forall>sz r. row_accepted sz t r \<longleftrightarrow> row_accepted sz u r) (table_of n metadata) (table_of n head_schema)"
    by (rule no_drift_rows [OF metadata_drift])
qed

section \<open>Names and deletions\<close>

lemma head_names_fit: "list_all table_names_fit head_schema"
  by (simp add: head_schema_def table_names_fit_def relation_names_def name_limit_def table_facts tenants_table_def users_with_credentials_def api_key_metadata_table_def audit_events_table_def projects_table_def tenant_memberships_table_def assets_table_def scans_orchestrated_def findings_table_def finding_references_table_def refresh_tokens_table_def user_verification_tokens_table_def scan_events_table_def scan_job_outbox_table_def sa_column_def)

lemma head_relations: "distinct (concat (map relation_names head_schema))"
  by (simp add: head_schema_def relation_names_def tenants_table_def users_with_credentials_def api_key_metadata_table_def audit_events_table_def projects_table_def tenant_memberships_table_def assets_table_def scans_orchestrated_def findings_table_def finding_references_table_def refresh_tokens_table_def user_verification_tokens_table_def scan_events_table_def scan_job_outbox_table_def)

lemma head_cascades:
  "concat (map (\<lambda>t. map (Pair (td_name t)) (cascades t)) head_schema) =
    [(''finding_references'', ''findings''), (''scan_events'', ''scans''), (''scan_job_outbox'', ''scans'')]"
  by (simp add: head_schema_def cascades_def table_facts)

lemma metadata_relations:
  "mset (concat (map relation_names metadata)) = mset (concat (map relation_names head_schema))"
  by (simp add: metadata_def models_def head_schema_def model_alike [THEN alike_names(2)] ac_simps)

text \<open>
  No two relations of the models share a name and no name is so long that PostgreSQL would
  cut it.  A row goes with the row it refers to in three places: the references of a finding,
  the events of a scan and its outbox rows.
\<close>

theorem metadata_names:
  "list_all table_names_fit metadata \<and> distinct (concat (map relation_names metadata)) \<and>
    (\<Union>t\<in>set metadata. Pair (td_name t) ` set (cascades t)) =
      {(''finding_references'', ''findings''), (''scan_events'', ''scans''), (''scan_job_outbox'', ''scans'')}"
proof (intro conjI)
  show "list_all table_names_fit metadata"
    using head_names_fit
    by (simp only: metadata_def models_def head_schema_def list.map list.pred_inject model_alike [THEN alike_names(3)])
  show "distinct (concat (map relation_names metadata))"
    using head_relations mset_eq_imp_distinct_iff [OF metadata_relations] by simp
  show "(\<Union>t\<in>set metadata. Pair (td_name t) ` set (cascades t)) =
      {(''finding_references'', ''findings''), (''scan_events'', ''scans''), (''scan_job_outbox'', ''scans'')}"
    by (simp add: metadata_def models_def model_alike [THEN alike_names(1)] model_alike [THEN alike_names(4)])
      (simp add: cascades_def table_facts insert_commute)
qed

end
