(* ===== verification/Regex.thy ===== *)
theory Regex
  imports Security
begin

text \<open>
  The part of Python's \<open>re\<close> the program uses: patterns of character classes, greedy
  repetitions of a class, word boundaries, alternatives and groups, matched by
  backtracking, and \<open>Pattern.sub\<close>.  A position in a text is the text before it, read
  backwards, and the text after it.  \<open>spells\<close> says what a pattern matches without saying in
  which order the matcher tries; the matcher is shown to find a match exactly where there
  is one.
\<close>

section \<open>Patterns\<close>

datatype regex =
    Chr "char \<Rightarrow> bool"
  | Many nat "char \<Rightarrow> bool"  \<comment> \<open>a class, at least so often, greedily\<close>
  | Maybe "char \<Rightarrow> bool"
  | WordBoundary
  | Seq regex regex
  | Alt regex regex
  | Group nat regex

fun seq :: "regex list \<Rightarrow> regex" where
  "seq [] = Many 0 (\<lambda>c. False)"
| "seq [r] = r"
| "seq (r # q # rs) = Seq r (seq (q # rs))"

fun alt :: "regex list \<Rightarrow> regex" where
  "alt [] = Many 1 (\<lambda>c. False)"
| "alt [r] = r"
| "alt (r # q # rs) = Alt r (alt (q # rs))"

text \<open>A text literally, and under \<open>(?i)\<close>.\<close>

definition lit :: "string \<Rightarrow> regex" where
  "lit s = seq (map (\<lambda>c. Chr (\<lambda>x. x = c)) s)"

definition ilit :: "string \<Rightarrow> regex" where
  "ilit s = seq (map (\<lambda>c. Chr (\<lambda>x. lower_char x = lower_char c)) s)"

definition starts_word :: "string \<Rightarrow> bool" where
  "starts_word s = (case s of [] \<Rightarrow> False | c # t \<Rightarrow> is_word_char c)"

definition at_boundary :: "string \<Rightarrow> string \<Rightarrow> bool" where
  "at_boundary b s \<longleftrightarrow> starts_word b \<noteq> starts_word s"

section \<open>The matcher\<close>

text \<open>Where a pattern can have led, in the order in which the matcher comes there.\<close>

type_synonym groups = "(nat \<times> string) list"
type_synonym match_state = "string \<times> string \<times> groups"

fun many :: "nat \<Rightarrow> (char \<Rightarrow> bool) \<Rightarrow> string \<Rightarrow> string \<Rightarrow> (string \<times> string) list" where
  "many n P b [] = (if n = 0 then [(b, [])] else [])"
| "many n P b (c # s) =
    (if P c then many (n - 1) P (c # b) s else []) @ (if n = 0 then [(b, c # s)] else [])"

fun steps :: "regex \<Rightarrow> match_state \<Rightarrow> match_state list" where
  "steps (Chr P) (b, s, g) = (case s of [] \<Rightarrow> [] | c # t \<Rightarrow> if P c then [(c # b, t, g)] else [])"
| "steps (Many n P) (b, s, g) = map (\<lambda>(b', s'). (b', s', g)) (many n P b s)"
| "steps (Maybe P) (b, s, g) =
    (case s of [] \<Rightarrow> [] | c # t \<Rightarrow> if P c then [(c # b, t, g)] else []) @ [(b, s, g)]"
| "steps WordBoundary (b, s, g) = (if at_boundary b s then [(b, s, g)] else [])"
| "steps (Seq r q) m = concat (map (steps q) (steps r m))"
| "steps (Alt r q) m = steps r m @ steps q m"
| "steps (Group i r) (b, s, g) =
    map (\<lambda>(b', s', g'). (b', s', (i, take (length s - length s') s) # g')) (steps r (b, s, g))"

definition match_at :: "regex \<Rightarrow> string \<Rightarrow> string \<Rightarrow> match_state option" where
  "match_at r b s = (case steps r (b, s, []) of [] \<Rightarrow> None | m # ms \<Rightarrow> Some m)"

definition group :: "nat \<Rightarrow> groups \<Rightarrow> string" where
  "group i g = (case map_of g i of None \<Rightarrow> [] | Some t \<Rightarrow> t)"

text \<open>\<open>Pattern.sub\<close>: the matches from left to right, each where the last one ended.\<close>

function sub_from :: "regex \<Rightarrow> (groups \<Rightarrow> string) \<Rightarrow> string \<Rightarrow> string \<Rightarrow> string" where
  "sub_from r f b s =
    (case match_at r b s of
       None \<Rightarrow> (case s of [] \<Rightarrow> [] | c # t \<Rightarrow> c # sub_from r f (c # b) t)
     | Some (b', s', g) \<Rightarrow>
         if length s' < length s then f g @ sub_from r f b' s'
         else f g @ (case s of [] \<Rightarrow> [] | c # t \<Rightarrow> c # sub_from r f (c # b) t))"
  by pat_completeness auto
termination by (relation "measure (\<lambda>(r, f, b, s). length s)") auto

declare sub_from.simps [simp del]

definition sub :: "regex \<Rightarrow> (groups \<Rightarrow> string) \<Rightarrow> string \<Rightarrow> string" where
  "sub r f s = sub_from r f [] s"

section \<open>What a pattern matches\<close>

text \<open>The pattern spells \<open>k\<close>, between \<open>b\<close> before (backwards) and \<open>a\<close> after.\<close>

fun spells :: "regex \<Rightarrow> string \<Rightarrow> string \<Rightarrow> string \<Rightarrow> bool" where
  "spells (Chr P) b k a \<longleftrightarrow> (\<exists>c. k = [c] \<and> P c)"
| "spells (Many n P) b k a \<longleftrightarrow> n \<le> length k \<and> list_all P k"
| "spells (Maybe P) b k a \<longleftrightarrow> k = [] \<or> (\<exists>c. k = [c] \<and> P c)"
| "spells WordBoundary b k a \<longleftrightarrow> k = [] \<and> at_boundary b a"
| "spells (Seq r q) b k a \<longleftrightarrow>
    (\<exists>k1 k2. k = k1 @ k2 \<and> spells r b k1 (k2 @ a) \<and> spells q (rev k1 @ b) k2 a)"
| "spells (Alt r q) b k a \<longleftrightarrow> spells r b k a \<or> spells q b k a"
| "spells (Group i r) b k a \<longleftrightarrow> spells r b k a"

lemma many_iff:
  "(b', s') \<in> set (many n P b s) \<longleftrightarrow>
    (\<exists>k. s = k @ s' \<and> b' = rev k @ b \<and> n \<le> length k \<and> list_all P k)"
proof (induction n P b s rule: many.induct)
  case (1 n P b)
  then show ?case by auto
next
  case (2 n P b c s)
  show ?case (is "?l \<longleftrightarrow> ?r")
  proof
    assume ?l
    then consider "P c" "(b', s') \<in> set (many (n - 1) P (c # b) s)" | "n = 0" "b' = b" "s' = c # s"
      by (auto split: if_splits)
    then show ?r
    proof cases
      case 1
      then obtain k where "s = k @ s'" "b' = rev k @ c # b" "n - 1 \<le> length k" "list_all P k"
        using 2 by auto
      then show ?thesis using 1 by (intro exI [of _ "c # k"]) auto
    qed simp
  next
    assume ?r
    then obtain k where k: "c # s = k @ s'" "b' = rev k @ b" "n \<le> length k" "list_all P k" by auto
    show ?l
    proof (cases k)
      case Nil
      with k show ?thesis by auto
    next
      case (Cons d t)
      with k have P: "P c" and *: "\<exists>k. s = k @ s' \<and> b' = rev k @ c # b \<and> n - 1 \<le> length k \<and> list_all P k"
        by (auto intro!: exI [of _ t])
      have "(b', s') \<in> set (many (n - 1) P (c # b) s)" using 2 [OF P] * by blast
      with P show ?thesis by simp
    qed
  qed
qed

lemma steps_spell:
  "(b', s', g') \<in> set (steps r (b, s, g)) \<Longrightarrow> \<exists>k. s = k @ s' \<and> b' = rev k @ b \<and> spells r b k s'"
proof (induction r arbitrary: b s g b' s' g')
  case (Many n P)
  then show ?case by (auto simp: many_iff)
next
  case (Seq r q)
  from Seq.prems obtain b1 s1 g1 where 1: "(b1, s1, g1) \<in> set (steps r (b, s, g))"
    and 2: "(b', s', g') \<in> set (steps q (b1, s1, g1))" by auto
  from Seq.IH(1) [OF 1] Seq.IH(2) [OF 2] obtain k1 k2 where
    "s = k1 @ s1" "b1 = rev k1 @ b" "spells r b k1 s1" "s1 = k2 @ s'" "b' = rev k2 @ b1" "spells q b1 k2 s'"
    by auto
  then show ?case by (intro exI [of _ "k1 @ k2"]) auto
next
  case (Alt r q)
  then show ?case by fastforce
next
  case (Group i r)
  then show ?case by fastforce
qed (auto split: list.splits if_splits)

lemma spelled_steps:
  "spells r b k a \<Longrightarrow> \<exists>g'. (rev k @ b, a, g') \<in> set (steps r (b, k @ a, g))"
proof (induction r arbitrary: b k a g)
  case (Many n P)
  then have "(rev k @ b, a) \<in> set (many n P b (k @ a))" by (simp add: many_iff)
  then show ?case by force
next
  case (Seq r q)
  from Seq.prems obtain k1 k2 where k: "k = k1 @ k2" "spells r b k1 (k2 @ a)" "spells q (rev k1 @ b) k2 a" by auto
  from Seq.IH(1) [OF k(2)] obtain g1 where 1: "(rev k1 @ b, k2 @ a, g1) \<in> set (steps r (b, k1 @ k2 @ a, g))" by blast
  from Seq.IH(2) [OF k(3)] obtain g2 where "(rev k2 @ rev k1 @ b, a, g2) \<in> set (steps q (rev k1 @ b, k2 @ a, g1))" by blast
  with 1 have "(rev k2 @ rev k1 @ b, a, g2) \<in> set (steps (Seq r q) (b, k1 @ k2 @ a, g))" by force
  then show ?case using k(1) by auto
next
  case (Alt r q)
  then show ?case by fastforce
next
  case (Group i r)
  then obtain g' where "(rev k @ b, a, g') \<in> set (steps r (b, k @ a, g))" by (metis spells.simps(7))
  then show ?case by force
qed auto

text \<open>The matcher finds a match exactly where the pattern spells a prefix of the text.\<close>

lemma match_at_None: "match_at r b s = None \<longleftrightarrow> (\<nexists>k a. s = k @ a \<and> spells r b k a)"
proof
  assume "match_at r b s = None"
  then have "steps r (b, s, []) = []" by (simp add: match_at_def split: list.splits)
  then have "\<not> spells r b k a" if "s = k @ a" for k a
    using spelled_steps [of r b k a "[]"] that by auto
  then show "\<nexists>k a. s = k @ a \<and> spells r b k a" by blast
next
  assume n: "\<nexists>k a. s = k @ a \<and> spells r b k a"
  show "match_at r b s = None"
  proof (cases "steps r (b, s, [])")
    case Nil
    then show ?thesis by (simp add: match_at_def)
  next
    case (Cons m ms)
    obtain b' s' g' where "m = (b', s', g')" by (cases m) auto
    with Cons have "(b', s', g') \<in> set (steps r (b, s, []))" by simp
    from steps_spell [OF this] n show ?thesis by metis
  qed
qed

lemma match_at_SomeD:
  assumes "match_at r b s = Some (b', s', g)"
  shows "\<exists>k. s = k @ s' \<and> b' = rev k @ b \<and> spells r b k s'"
proof -
  have "(b', s', g) \<in> set (steps r (b, s, []))" using assms by (auto simp: match_at_def split: list.splits)
  then show ?thesis by (rule steps_spell)
qed

text \<open>The context matters only through whether it begins with a word character.\<close>

lemma starts_word_simps [simp]:
  "starts_word [] = False" "starts_word (c # s) = is_word_char c"
  by (simp_all add: starts_word_def)

lemma starts_word_append: "starts_word (s @ t) = (if s = [] then starts_word t else starts_word s)"
  by (cases s) simp_all

lemma spells_context:
  "spells r b k a \<Longrightarrow> starts_word b = starts_word b' \<Longrightarrow> starts_word a = starts_word a' \<Longrightarrow> spells r b' k a'"
proof (induction r arbitrary: b k a b' a')
  case WordBoundary
  then show ?case by (simp add: at_boundary_def)
next
  case (Seq r q)
  from Seq.prems(1) obtain k1 k2 where k: "k = k1 @ k2" "spells r b k1 (k2 @ a)" "spells q (rev k1 @ b) k2 a" by auto
  have "spells r b' k1 (k2 @ a')" by (rule Seq.IH(1) [OF k(2)]) (simp_all add: Seq.prems starts_word_append)
  moreover have "spells q (rev k1 @ b') k2 a'" by (rule Seq.IH(2) [OF k(3)]) (simp_all add: Seq.prems starts_word_append)
  ultimately show ?case using k(1) by auto
qed auto

end
