(* ===== verification/Log_Redaction.thy ===== *)
theory Log_Redaction
  imports Regex
begin

text \<open>
  \<open>core/log_redaction.py\<close>: the log processor that removes secrets from every line, by the
  name of a field at any depth and by the shapes of secrets in texts.  Texts are texts of
  the code points below 256.
\<close>

section \<open>Patterns\<close>

definition redacted :: string where
  "redacted = ''[REDACTED]''"

definition is_alnum :: "char \<Rightarrow> bool" where
  "is_alnum c \<longleftrightarrow> is_upper c \<or> is_lower c \<or> is_digit c"

text \<open>The classes of the patterns.\<close>

definition bearer_char :: "char \<Rightarrow> bool" where
  "bearer_char c \<longleftrightarrow> is_alnum c \<or> c \<in> set ''-_.+/=''"

definition key_char :: "char \<Rightarrow> bool" where
  "key_char c \<longleftrightarrow> is_alnum c \<or> c = CHR ''_'' \<or> c = CHR ''-''"

definition line_char :: "char \<Rightarrow> bool" where
  "line_char c \<longleftrightarrow> c \<noteq> CHR 0x0D \<and> c \<noteq> CHR 0x0A"

definition userinfo_char :: "char \<Rightarrow> bool" where
  "userinfo_char c \<longleftrightarrow> c \<noteq> CHR ''/'' \<and> \<not> is_space c \<and> c \<noteq> CHR '':'' \<and> c \<noteq> CHR ''@''"

definition value_char :: "char \<Rightarrow> bool" where
  "value_char c \<longleftrightarrow> \<not> is_space c \<and> c \<notin> set ''&,;'' \<and> c \<noteq> CHR 0x22 \<and> c \<noteq> CHR 0x27"

definition bearer_pattern :: regex where
  "bearer_pattern = seq [WordBoundary, ilit ''Bearer'', Many 1 is_space, Many 1 bearer_char]"

definition authorization_pattern :: regex where
  "authorization_pattern = seq [WordBoundary, ilit ''Authorization'', Many 0 is_space, Chr (\<lambda>c. c = CHR '':''),
     Many 0 is_space, Many 1 (\<lambda>c. \<not> is_space c)]"

definition cookie_pattern :: regex where
  "cookie_pattern = seq [WordBoundary, ilit ''Cookie'', Many 0 is_space, Chr (\<lambda>c. c = CHR '':''),
     Many 0 is_space, Many 1 line_char]"

definition api_key_pattern :: regex where
  "api_key_pattern = seq [WordBoundary, lit ''sx_'', Many 1 key_char, Chr (\<lambda>c. c = CHR ''.''),
     Many 4 key_char, WordBoundary]"

definition jwt_pattern :: regex where
  "jwt_pattern = seq [WordBoundary, lit ''ey'', Many 10 key_char, Chr (\<lambda>c. c = CHR ''.''),
     Many 10 key_char, Chr (\<lambda>c. c = CHR ''.''), Many 10 key_char, WordBoundary]"

definition url_pattern :: regex where
  "url_pattern = seq [lit ''://'', Many 1 userinfo_char, Chr (\<lambda>c. c = CHR '':''),
     Many 1 userinfo_char, Chr (\<lambda>c. c = CHR ''@'')]"

definition simple_patterns :: "(regex \<times> string) list" where
  "simple_patterns =
    [(bearer_pattern, ''Bearer '' @ redacted),
     (authorization_pattern, ''Authorization: '' @ redacted),
     (cookie_pattern, ''Cookie: '' @ redacted),
     (api_key_pattern, redacted),
     (jwt_pattern, redacted),
     (url_pattern, ''://'' @ redacted @ ''@'')]"

definition dash :: regex where
  "dash = Maybe (\<lambda>c. c = CHR ''_'' \<or> c = CHR ''-'')"

definition key_value_pattern :: regex where
  "key_value_pattern = seq [WordBoundary,
     Group 1 (alt [ilit ''password'', ilit ''passwd'', ilit ''pwd'', ilit ''token'', ilit ''secret'',
       seq [ilit ''api'', dash, ilit ''key''], seq [ilit ''access'', dash, ilit ''key''],
       seq [ilit ''refresh'', dash, ilit ''token'']]),
     Group 2 (seq [Many 0 is_space, Chr (\<lambda>c. c = CHR ''='' \<or> c = CHR '':''), Many 0 is_space]),
     Group 3 (Many 1 value_char)]"

section \<open>Texts\<close>

definition redact_key_value :: "groups \<Rightarrow> string" where
  "redact_key_value g = group 1 g @ group 2 g @ redacted"

definition redact_text :: "string \<Rightarrow> string" where
  "redact_text value0 =
    sub key_value_pattern redact_key_value
      (fold (\<lambda>(pattern, replacement) value. sub pattern (\<lambda>_. replacement) value) simple_patterns value0)"

section \<open>Fields\<close>

definition sensitive_field_names :: "string list" where
  "sensitive_field_names =
    [''password'', ''passwd'', ''pwd'', ''token'', ''secret'', ''api_key'', ''apikey'', ''access_token'',
     ''refresh_token'', ''authorization'', ''cookie'', ''hashed_secret'', ''hashed_password'',
     ''client_secret'']"

text \<open>
  What is logged.  A dictionary is the list of its entries in order; a key that is no
  string, and a value that is neither a text nor a container, is kept as what \<open>str\<close> says of it.
\<close>

datatype log_key = StrKey string | OtherKey string

fun str_key :: "log_key \<Rightarrow> string" where
  "str_key (StrKey s) = s"
| "str_key (OtherKey s) = s"

datatype log_value =
    LogStr string
  | LogDict "(log_key \<times> log_value) list"
  | LogList "log_value list"
  | LogTuple "log_value list"
  | LogOther string

definition is_sensitive_key :: "log_key \<Rightarrow> bool" where
  "is_sensitive_key k \<longleftrightarrow>
    map (\<lambda>c. if c = CHR ''-'' then CHR ''_'' else c) (lower (str_key k)) \<in> set sensitive_field_names"

lemma member_size: "v \<in> set vs \<Longrightarrow> size v < Suc (size_list size vs)"
  by (induction vs) auto

lemma entry_size: "(k, v) \<in> set m \<Longrightarrow> 2 * size v < Suc (2 * size_list (size_prod (\<lambda>_. 0) size) m)"
  by (induction m) auto

function redact_mapping :: "(log_key \<times> log_value) list \<Rightarrow> (log_key \<times> log_value) list"
  and redact_value :: "log_value \<Rightarrow> log_value" where
  "redact_mapping m =
    map (\<lambda>(key, value). (key, if is_sensitive_key key then LogStr redacted else redact_value value)) m"
| "redact_value (LogStr s) = LogStr (redact_text s)"
| "redact_value (LogDict m) = LogDict (redact_mapping m)"
| "redact_value (LogList vs) = LogList (map redact_value vs)"
| "redact_value (LogTuple vs) = LogTuple (map redact_value vs)"
| "redact_value (LogOther s) = LogOther s"
  by pat_completeness auto
termination
  by (relation "measure (case_sum (\<lambda>m. Suc (2 * size_list (size_prod (\<lambda>_. 0) size) m)) (\<lambda>v. 2 * size v))")
    (auto dest: member_size entry_size)

text \<open>The processor; the logger and the name of its method are not looked at.\<close>

definition redact_log_secrets :: "(log_key \<times> log_value) list \<Rightarrow> (log_key \<times> log_value) list" where
  "redact_log_secrets event_dict = redact_mapping event_dict"

end
