(* ===== verification/Secret_Shapes.thy ===== *)
theory Secret_Shapes
  imports Log_Redaction "HOL-Library.Sublist"
begin

text \<open>
  Which secrets \<open>Pattern.sub\<close> removes.  A secret shape is a pattern of word-like texts
  between two word boundaries; the locale shows that a substitution whose replacements
  cannot be read as a part of such a text removes the shape it is made for and creates
  none of another shape.  The API keys and the JWTs of the program are such shapes, and
  every later substitution of \<open>redact_text\<close> has such replacements.
\<close>

section \<open>Absence of a shape\<close>

definition absent :: "regex \<Rightarrow> string \<Rightarrow> string \<Rightarrow> bool" where
  "absent r b s \<longleftrightarrow> (\<forall>p k a. s = p @ k @ a \<longrightarrow> \<not> spells r (rev p @ b) k a)"

lemma absentI: "(\<And>p k a. s = p @ k @ a \<Longrightarrow> spells r (rev p @ b) k a \<Longrightarrow> False) \<Longrightarrow> absent r b s"
  by (auto simp: absent_def)

lemma absentD: "absent r b (p @ k @ a) \<Longrightarrow> \<not> spells r (rev p @ b) k a"
  by (auto simp: absent_def)

lemma absent_later: "absent r b (u @ s) \<Longrightarrow> absent r (rev u @ b) s"
  by (auto simp: absent_def) (metis append.assoc rev_append)

lemma absent_no_match: "absent r b s \<Longrightarrow> match_at r b s = None"
  by (auto simp: match_at_None dest: absentD [where p = "[]", simplified])

text \<open>Where a pattern is absent, there is nothing to substitute.\<close>

lemma sub_from_absent: "absent r b s \<Longrightarrow> sub_from r f b s = s"
proof (induction s arbitrary: b)
  case Nil
  then show ?case by (simp add: sub_from.simps [of r f b "[]"] absent_no_match)
next
  case (Cons c s)
  then show ?case
    using absent_later [of r b "[c]" s] by (simp add: sub_from.simps [of r f b "c # s"] absent_no_match)
qed

section \<open>Substitutions\<close>

text \<open>
  A replacement that no secret of characters \<open>C\<close> that begins with \<open>c0\<close> can reach into; and
  a substitution that replaces, at a word boundary or where no word is, the end \<open>v\<close> of each
  match \<open>u @ v\<close> by such a replacement.
\<close>

definition inert :: "(char \<Rightarrow> bool) \<Rightarrow> char \<Rightarrow> string \<Rightarrow> bool" where
  "inert C c0 R \<longleftrightarrow> R \<noteq> [] \<and> \<not> C (hd R) \<and> \<not> is_word_char (hd R) \<and> \<not> is_word_char (last R) \<and> c0 \<notin> set R"

definition cut :: "(char \<Rightarrow> bool) \<Rightarrow> char \<Rightarrow> string \<Rightarrow> string \<Rightarrow> string \<Rightarrow> string \<Rightarrow> string \<Rightarrow> string \<Rightarrow> string \<Rightarrow> bool" where
  "cut C c0 b s b' s' u v R \<longleftrightarrow> s = u @ v @ s' \<and> b' = rev (u @ v) @ b \<and> v \<noteq> [] \<and> inert C c0 R \<and>
     (starts_word v \<longrightarrow> \<not> starts_word (rev u @ b)) \<and> (starts_word s' \<longrightarrow> \<not> starts_word b')"

definition cuts :: "(char \<Rightarrow> bool) \<Rightarrow> char \<Rightarrow> regex \<Rightarrow> (groups \<Rightarrow> string) \<Rightarrow> bool" where
  "cuts C c0 q f \<longleftrightarrow> (\<forall>b s b' s' g. match_at q b s = Some (b', s', g) \<longrightarrow>
     (\<exists>u v R. f g = u @ R \<and> cut C c0 b s b' s' u v R))"

lemma cutsI:
  "(\<And>b s b' s' g. match_at q b s = Some (b', s', g) \<Longrightarrow> \<exists>u v R. f g = u @ R \<and> cut C c0 b s b' s' u v R) \<Longrightarrow>
    cuts C c0 q f"
  by (auto simp: cuts_def)

lemma cuts_cases [consumes 1, case_names stop copy replace]:
  assumes "cuts C c0 q f"
  obtains "match_at q b s = None" "s = []" "sub_from q f b s = []"
  | c t where "match_at q b s = None" "s = c # t" "sub_from q f b s = c # sub_from q f (c # b) t"
  | b' s' g u v R where "match_at q b s = Some (b', s', g)" "cut C c0 b s b' s' u v R"
      "sub_from q f b s = u @ R @ sub_from q f b' s'" "length s' < length s" "f g = u @ R"
proof (cases "match_at q b s")
  case None
  then show ?thesis
  proof (cases s)
    case Nil
    with None that(1) show ?thesis by (simp add: sub_from.simps [of q f b "[]"])
  next
    case (Cons c t)
    with None that(2) show ?thesis by (simp add: sub_from.simps [of q f b "c # t"])
  qed
next
  case (Some m)
  obtain b' s' g where m: "m = (b', s', g)" by (cases m) auto
  from assms [unfolded cuts_def, rule_format, OF Some [unfolded m]]
  obtain u v R where c: "f g = u @ R" "cut C c0 b s b' s' u v R" by blast
  from c have l: "length s' < length s" by (auto simp: cut_def)
  with Some m c(1) have e: "sub_from q f b s = u @ R @ sub_from q f b' s'"
    by (subst sub_from.simps [of q f b s]) simp
  show ?thesis using Some m by (intro that(3) [OF _ c(2) e l c(1)]) simp
qed

lemma front_split:
  assumes "k @ post = u @ c # R" "\<not> C c" "list_all C k"
  shows "\<exists>w. u = k @ w \<and> post = w @ c # R"
proof -
  from assms(1) [unfolded append_eq_append_conv2 [of k]]
  obtain w where "k = u @ w \<and> w @ post = c # R \<or> k @ w = u \<and> post = w @ c # R" by blast
  then show ?thesis using assms(2,3) by (cases w) auto
qed

lemma split_three:
  assumes e: "p @ c # t = u @ R @ s"
  shows "(\<exists>p'. p = u @ R @ p' \<and> s = p' @ c # t) \<or> c \<in> set R \<or> (\<exists>w. u = p @ c # w \<and> t = w @ R @ s)"
proof -
  from e [unfolded append_eq_append_conv2 [of p]]
  obtain x where "p = u @ x \<and> x @ c # t = R @ s \<or> p @ x = u \<and> c # t = x @ R @ s" by blast
  then show ?thesis
  proof
    assume a: "p = u @ x \<and> x @ c # t = R @ s"
    from a [THEN conjunct2, unfolded append_eq_append_conv2 [of x]]
    obtain y where "x = R @ y \<and> y @ c # t = s \<or> x @ y = R \<and> c # t = y @ s" by blast
    then show ?thesis using a by (cases y) auto
  next
    assume "p @ x = u \<and> c # t = x @ R @ s"
    then show ?thesis by (cases x; cases R) auto
  qed
qed

text \<open>A text of characters \<open>C\<close> at the front of the result was there before.\<close>

lemma sub_from_front:
  assumes q: "cuts C c0 q f"
  shows "sub_from q f b s = k @ post \<Longrightarrow> list_all C k \<Longrightarrow>
    \<exists>a. s = k @ a \<and> (starts_word a = starts_word post \<or>
      starts_word a \<and> \<not> starts_word (rev k @ b) \<and> \<not> starts_word post)"
proof (induction s arbitrary: b k rule: length_induct)
  case (1 s)
  show ?case
  proof (cases rule: cuts_cases [OF q, where b = b and s = s, case_names stop copy replace])
    case stop
    with 1 show ?thesis by simp
  next
    case (copy c t)
    show ?thesis
    proof (cases k)
      case Nil
      with 1 copy show ?thesis by auto
    next
      case (Cons d k')
      with 1 copy have "d = c" "sub_from q f (c # b) t = k' @ post" "list_all C k'" by auto
      with 1(1) copy(2) obtain a where "t = k' @ a" "starts_word a = starts_word post \<or>
        starts_word a \<and> \<not> starts_word (rev k' @ c # b) \<and> \<not> starts_word post" by force
      with copy(2) Cons \<open>d = c\<close> show ?thesis by auto
    qed
  next
    case (replace b' s' g u v R)
    then have s: "s = u @ v @ s'" and v: "v \<noteq> []" and R: "R \<noteq> []" "\<not> C (hd R)" "\<not> is_word_char (hd R)"
      and e: "starts_word v \<longrightarrow> \<not> starts_word (rev u @ b)" by (auto simp: cut_def inert_def)
    obtain c R' where R': "R = c # R'" using R(1) by (cases R) auto
    have "k @ post = u @ c # R' @ sub_from q f b' s'" using 1(2) replace(3) R' by simp
    then have "\<exists>w. u = k @ w \<and> post = w @ R @ sub_from q f b' s'"
      using front_split [OF _ _ 1(3)] R(2) R' by simp
    then obtain w where w: "u = k @ w" "post = w @ R @ sub_from q f b' s'" by auto
    have "starts_word (w @ v @ s') = starts_word post \<or>
      starts_word (w @ v @ s') \<and> \<not> starts_word (rev k @ b) \<and> \<not> starts_word post"
      using w e v R R' by (auto simp: starts_word_append)
    with s w(1) show ?thesis by auto
  qed
qed

lemma starts_word_rev: "s \<noteq> [] \<Longrightarrow> starts_word (rev s) = is_word_char (last s)"
  by (cases s rule: rev_cases) auto

section \<open>Secret shapes\<close>

locale secret_shape =
  fixes r :: regex and C :: "char \<Rightarrow> bool" and c0 :: char
  assumes first: "spells r b k a \<Longrightarrow> \<exists>t. k = c0 # t"
    and last_boundary: "spells r b k a \<Longrightarrow> at_boundary (rev k @ b) a"
    and chars: "spells r b k a \<Longrightarrow> list_all C k"
    and word: "is_word_char c0"
begin

text \<open>A text that is spelled in the result of a substitution was spelled before it.\<close>

lemma spelled_before:
  assumes sp: "spells r bn k post" and bn: "starts_word bn = starts_word b \<or> \<not> starts_word (k @ a)"
    and a: "starts_word a = starts_word post \<or>
      starts_word a \<and> \<not> starts_word (rev k @ b) \<and> \<not> starts_word post"
  shows "spells r b k a"
proof -
  obtain t where k: "k = c0 # t" using first [OF sp] by auto
  with bn word have b: "starts_word bn = starts_word b" by simp
  have "starts_word (rev k @ bn) = starts_word (rev k @ b)" using k by (simp add: starts_word_append)
  then have "starts_word a = starts_word post" using a last_boundary [OF sp] by (auto simp: at_boundary_def)
  with b show ?thesis using spells_context [OF sp] by simp
qed

text \<open>A text that begins before a cut was there before the cut.\<close>

lemma spelled_before_cut:
  assumes sp: "spells r (rev p @ bn) (c0 # t) post" and bn: "starts_word bn = starts_word b \<or> \<not> starts_word s"
    and u: "u = p @ c0 # w" "t @ post = w @ R @ rest" and s: "s = u @ v @ s'" "v \<noteq> []"
    and R: "R \<noteq> []" "\<not> C (hd R)" "\<not> is_word_char (hd R)"
    and e: "starts_word v \<longrightarrow> \<not> starts_word (rev u @ b)"
  shows "\<exists>a. s = p @ (c0 # t) @ a \<and> spells r (rev p @ b) (c0 # t) a"
proof -
  obtain R' d where R': "R = d # R'" using R(1) by (cases R) auto
  have w: "list_all C t" using chars [OF sp] by simp
  obtain w' where w': "w = t @ w'" "post = w' @ R @ rest"
    using front_split [of t post w d "R' @ rest" C] u(2) R' R(2) w by auto
  define a where "a = w' @ v @ s'"
  have a: "s = p @ (c0 # t) @ a" using s(1) u(1) w' by (simp add: a_def)
  have "starts_word a = starts_word post \<or>
    starts_word a \<and> \<not> starts_word (rev (c0 # t) @ rev p @ b) \<and> \<not> starts_word post"
    using e s(2) R' R(3) u(1) w' by (auto simp: a_def starts_word_append)
  moreover have "starts_word (rev p @ bn) = starts_word (rev p @ b) \<or> \<not> starts_word ((c0 # t) @ a)"
    using bn a by (auto simp: starts_word_append)
  ultimately have "spells r (rev p @ b) (c0 # t) a" using spelled_before [OF sp] by blast
  then show ?thesis using a by blast
qed

text \<open>
  After a substitution the shape is absent, if it was absent before or is what is
  substituted as a whole.
\<close>

lemma absent_after:
  assumes q: "cuts C c0 q f"
  shows "absent r b s \<or> q = r \<and> (\<forall>g. inert C c0 (f g)) \<Longrightarrow> starts_word bn = starts_word b \<or> \<not> starts_word s \<Longrightarrow>
    absent r bn (sub_from q f b s)"
proof (induction s arbitrary: b bn rule: length_induct)
  case (1 s)
  note ih = 1(1) and bn = 1(3)
  have ab: "absent r b s \<or> q = r \<and> (\<forall>g. inert C c0 (f g))" by (rule 1(2))
  show ?case
  proof (rule absentI)
    fix p k post assume out: "sub_from q f b s = p @ k @ post" and sp: "spells r (rev p @ bn) k post"
    obtain t where k: "k = c0 # t" using first [OF sp] by auto
    note C = chars [OF sp]
    show False
    proof (cases rule: cuts_cases [OF q, where b = b and s = s, case_names stop copy replace])
      case stop
      with out k show False by simp
    next
      case (copy c u)
      show False
      proof (cases p)
        case Nil
        with out obtain a where a: "s = k @ a" "starts_word a = starts_word post \<or>
          starts_word a \<and> \<not> starts_word (rev k @ b) \<and> \<not> starts_word post"
          using sub_from_front [OF q _ C] by force
        have "spells r b k a" using spelled_before [of bn k post b a] sp Nil 1(3) a by simp
        with a(1) copy(1) ab show False using absentD [of r b "[]" k a] by (auto simp: match_at_None)
      next
        case (Cons d p')
        with out copy have "d = c" "sub_from q f (c # b) u = p' @ k @ post" by auto
        moreover have "absent r (c # bn) (sub_from q f (c # b) u)"
          by (rule 1(1) [rule_format]) (use ab copy(2) absent_later [of r b "[c]" u] in auto)
        ultimately show False using sp Cons absentD [of r "c # bn" p' k post] by simp
      qed
    next
      case (replace b' s' g u v R)
      then have s: "s = u @ v @ s'" "b' = rev (u @ v) @ b" and v: "v \<noteq> []"
        and R: "R \<noteq> []" "\<not> C (hd R)" "\<not> is_word_char (hd R)" "\<not> is_word_char (last R)" "c0 \<notin> set R"
        and e: "starts_word v \<longrightarrow> \<not> starts_word (rev u @ b)" "starts_word s' \<longrightarrow> \<not> starts_word b'"
        by (auto simp: cut_def inert_def)
      have o: "p @ k @ post = u @ R @ sub_from q f b' s'" using out replace(3) by simp
      from split_three [of p c0 "t @ post" u R] o k R(5)
      consider p' where "p = u @ R @ p'" "sub_from q f b' s' = p' @ k @ post"
        | w where "u = p @ c0 # w" "t @ post = w @ R @ sub_from q f b' s'"
        by auto
      then show False
      proof cases
        case 1
        have "absent r b' s' \<or> q = r \<and> (\<forall>g. inert C c0 (f g))"
          using ab absent_later [of r b "u @ v" s'] s by auto
        then have "absent r (rev (u @ R) @ bn) (sub_from q f b' s')"
          by (rule ih [rule_format, OF replace(4)]) (use e(2) R(1,4) in \<open>auto simp: starts_word_rev starts_word_append\<close>)
        with 1 sp show False using absentD [of r "rev (u @ R) @ bn" p' k post] by simp
      next
        case 2
        obtain a where "s = p @ k @ a" "spells r (rev p @ b) k a"
          using spelled_before_cut [OF sp [unfolded k] bn 2 s(1) v R(1-3) e(1)] k by auto
        moreover have "c0 \<in> set (f g)" using replace(5) 2(1) by simp
        then have "absent r b s" using ab by (metis inert_def)
        ultimately show False using absentD by blast
      qed
    qed
  qed
qed

end

section \<open>The patterns of the program\<close>

lemma not_word [simp]:
  "\<not> is_word_char CHR '':''" "\<not> is_word_char CHR ''@''" "\<not> is_word_char CHR ''[''" "\<not> is_word_char CHR '']''"
  "\<not> is_word_char CHR ''.''" "\<not> is_word_char CHR ''=''" "is_word_char CHR ''s''" "is_word_char CHR ''e''"
  by (simp_all add: is_word_char_def is_upper_def is_lower_def is_digit_def)

lemma space_not_word: "is_space c \<Longrightarrow> \<not> is_word_char c"
  by (auto simp: is_space_def is_word_char_def is_upper_def is_lower_def is_digit_def Let_def less_eq_char_def)

lemma word_value: "is_word_char c \<Longrightarrow> value_char c"
  using space_not_word [of c]
  by (auto simp: value_char_def is_word_char_def is_upper_def is_lower_def is_digit_def)

lemma spells_seq_Cons:
  "rs \<noteq> [] \<Longrightarrow> spells (seq (r # rs)) b k a \<longleftrightarrow>
    (\<exists>k1 k2. k = k1 @ k2 \<and> spells r b k1 (k2 @ a) \<and> spells (seq rs) (rev k1 @ b) k2 a)"
  by (cases rs) simp_all

lemma spells_lit [simp]: "spells (lit s) b k a \<longleftrightarrow> k = s"
proof (induction s arbitrary: b k)
  case (Cons c s)
  then show ?case by (cases s) (auto simp: lit_def)
next
  case Nil
  then show ?case by (cases k) (simp_all add: lit_def)
qed

lemma api_key_spelled:
  "spells api_key_pattern b k a \<longleftrightarrow> (\<exists>p q. k = ''sx_'' @ p @ ''.'' @ q \<and> 1 \<le> length p \<and> list_all key_char p \<and>
    4 \<le> length q \<and> list_all key_char q \<and> at_boundary b (k @ a) \<and> at_boundary (rev k @ b) a)"
  unfolding api_key_pattern_def by (auto simp: spells_seq_Cons) blast+

lemma jwt_spelled:
  "spells jwt_pattern b k a \<longleftrightarrow> (\<exists>h p q. k = ''ey'' @ h @ ''.'' @ p @ ''.'' @ q \<and>
    10 \<le> length h \<and> list_all key_char h \<and> 10 \<le> length p \<and> list_all key_char p \<and>
    10 \<le> length q \<and> list_all key_char q \<and> at_boundary b (k @ a) \<and> at_boundary (rev k @ b) a)"
  unfolding jwt_pattern_def by (auto simp: spells_seq_Cons) blast+

lemma url_spelled:
  "spells url_pattern b k a \<Longrightarrow> \<exists>t. k = ''://'' @ t @ ''@''"
  unfolding url_pattern_def by (auto simp: spells_seq_Cons)

definition secret_char :: "char \<Rightarrow> bool" where
  "secret_char c \<longleftrightarrow> key_char c \<or> c = CHR ''.''"

lemma key_chars_secret: "list_all key_char s \<Longrightarrow> list_all secret_char s"
  by (auto simp: list_all_iff secret_char_def)

interpretation api_key: secret_shape api_key_pattern secret_char "CHR ''s''"
  by unfold_locales
    (auto simp: api_key_spelled key_chars_secret secret_char_def key_char_def is_alnum_def is_lower_def)

interpretation jwt: secret_shape jwt_pattern secret_char "CHR ''e''"
  by unfold_locales
    (auto simp: jwt_spelled key_chars_secret secret_char_def key_char_def is_alnum_def is_lower_def)

section \<open>The substitutions of the program\<close>

lemma bounded_cuts:
  assumes q: "\<And>b k a. spells q b k a \<Longrightarrow> k \<noteq> [] \<and>
      (\<not> starts_word k \<or> at_boundary b (k @ a)) \<and> (\<not> is_word_char (last k) \<or> at_boundary (rev k @ b) a)"
    and R: "inert C c0 R"
  shows "cuts C c0 q (\<lambda>_. R)"
proof (rule cutsI)
  fix b s b' s' g assume "match_at q b s = Some (b', s', g)"
  then obtain k where k: "s = k @ s'" "b' = rev k @ b" "spells q b k s'" using match_at_SomeD by blast
  have "cut C c0 b s b' s' [] k R"
    using q [OF k(3)] R k(1,2)
    by (auto simp: cut_def at_boundary_def starts_word_append starts_word_rev)
  then show "\<exists>u v R'. R = u @ R' \<and> cut C c0 b s b' s' u v R'" by (metis append_Nil)
qed

lemma inert_redacted [simp]:
  "c0 \<in> {CHR ''s'', CHR ''e''} \<Longrightarrow> inert secret_char c0 redacted"
  "c0 \<in> {CHR ''s'', CHR ''e''} \<Longrightarrow> inert secret_char c0 (''://'' @ redacted @ ''@'')"
  by (auto simp: inert_def redacted_def secret_char_def key_char_def is_alnum_def is_upper_def is_lower_def is_digit_def)

lemma simple_cuts:
  assumes "c0 \<in> {CHR ''s'', CHR ''e''}"
  shows "cuts secret_char c0 api_key_pattern (\<lambda>_. redacted)" "cuts secret_char c0 jwt_pattern (\<lambda>_. redacted)"
    "cuts secret_char c0 url_pattern (\<lambda>_. ''://'' @ redacted @ ''@'')"
proof -
  show "cuts secret_char c0 api_key_pattern (\<lambda>_. redacted)"
    using assms by (intro bounded_cuts) (auto simp: api_key_spelled)
  show "cuts secret_char c0 jwt_pattern (\<lambda>_. redacted)"
    using assms by (intro bounded_cuts) (auto simp: jwt_spelled)
  show "cuts secret_char c0 url_pattern (\<lambda>_. ''://'' @ redacted @ ''@'')"
    by (rule bounded_cuts [OF _ inert_redacted(2) [OF assms]]) (auto dest: url_spelled)
qed

text \<open>The key-value pattern keeps its first two groups and replaces the third, which is greedy.\<close>

lemma many_0 [simp]: "many 0 P b s \<noteq> []"
  by (cases s) simp_all

lemma many_longest: "many n P b s = (b', s') # ms \<Longrightarrow> s' = dropWhile P s"
  by (induction n P b s arbitrary: ms rule: many.induct)
    (auto split: if_splits simp: append_eq_Cons_conv Cons_eq_append_conv)

lemma dropWhile_stop: "(\<And>c. is_word_char c \<Longrightarrow> P c) \<Longrightarrow> \<not> starts_word (dropWhile P s)"
  by (induction s) auto

lemma first_of_concat: "concat (map f xs) = m # ms \<Longrightarrow> \<exists>x\<in>set xs. \<exists>ms'. f x = m # ms'"
  by (induction xs) (auto simp: append_eq_Cons_conv)

lemma seq_first:
  "steps (Seq r q) m = x # ms \<Longrightarrow> \<exists>b s g ms'. (b, s, g) \<in> set (steps r m) \<and> steps q (b, s, g) = x # ms'"
  using first_of_concat [of "steps q" "steps r m" x ms] by auto

fun groupless :: "regex \<Rightarrow> bool" where
  "groupless (Seq r q) \<longleftrightarrow> groupless r \<and> groupless q"
| "groupless (Alt r q) \<longleftrightarrow> groupless r \<and> groupless q"
| "groupless (Group i r) \<longleftrightarrow> False"
| "groupless r \<longleftrightarrow> True"

lemma groupless_steps: "groupless r \<Longrightarrow> (b', s', g') \<in> set (steps r (b, s, g)) \<Longrightarrow> g' = g"
  by (induction r arbitrary: b s g b' s' g') (fastforce split: list.splits if_splits)+

lemma groupless_seq [simp]: "groupless (seq rs) = list_all groupless rs"
  by (induction rs rule: seq.induct) auto

lemma groupless_alt [simp]: "groupless (alt rs) = list_all groupless rs"
  by (induction rs rule: alt.induct) auto

lemma groupless_ilit [simp]: "groupless (ilit s)"
  by (simp add: ilit_def list_all_iff)

lemma group_steps:
  assumes "(b', s', g') \<in> set (steps (Group i r) (b, s, g))" "groupless r"
  shows "\<exists>k. s = k @ s' \<and> b' = rev k @ b \<and> spells r b k s' \<and> g' = (i, k) # g"
proof -
  from assms(1) obtain g0 where g: "(b', s', g0) \<in> set (steps r (b, s, g))"
    "g' = (i, take (length s - length s') s) # g0" by auto
  from steps_spell [OF g(1)] obtain k where k: "s = k @ s'" "b' = rev k @ b" "spells r b k s'" by auto
  have "g0 = g" by (rule groupless_steps [OF assms(2) g(1)])
  with k g(2) show ?thesis by auto
qed

lemma key_value_cuts:
  assumes "c0 \<in> {CHR ''s'', CHR ''e''}"
  shows "cuts secret_char c0 key_value_pattern redact_key_value"
proof (rule cutsI)
  fix b s b' s' g assume m: "match_at key_value_pattern b s = Some (b', s', g)"
  define names where "names = alt [ilit ''password'', ilit ''passwd'', ilit ''pwd'', ilit ''token'', ilit ''secret'',
       seq [ilit ''api'', dash, ilit ''key''], seq [ilit ''access'', dash, ilit ''key''],
       seq [ilit ''refresh'', dash, ilit ''token'']]"
  define sep where "sep = seq [Many 0 is_space, Chr (\<lambda>c. c = CHR ''='' \<or> c = CHR '':''), Many 0 is_space]"
  have gl: "groupless names" "groupless sep" by (simp_all add: names_def sep_def dash_def)
  have p: "key_value_pattern = Seq WordBoundary (Seq (Group 1 names) (Seq (Group 2 sep) (Group 3 (Many 1 value_char))))"
    by (simp add: key_value_pattern_def names_def sep_def)
  from m obtain ms where "steps key_value_pattern (b, s, []) = (b', s', g) # ms"
    by (auto simp: match_at_def split: list.splits)
  then obtain ms where "steps (Seq WordBoundary (Seq (Group 1 names) (Seq (Group 2 sep) (Group 3 (Many 1 value_char)))))
      (b, s, []) = (b', s', g) # ms" by (auto simp: p)
  from seq_first [OF this] obtain ms where
    "steps (Seq (Group 1 names) (Seq (Group 2 sep) (Group 3 (Many 1 value_char)))) (b, s, []) = (b', s', g) # ms"
    by (auto split: if_splits)
  from seq_first [OF this] obtain b1 s1 g1 ms where 1: "(b1, s1, g1) \<in> set (steps (Group 1 names) (b, s, []))"
    and "steps (Seq (Group 2 sep) (Group 3 (Many 1 value_char))) (b1, s1, g1) = (b', s', g) # ms" by blast
  from seq_first [OF this(2)] obtain b2 s2 g2 ms where 2: "(b2, s2, g2) \<in> set (steps (Group 2 sep) (b1, s1, g1))"
    and 3: "steps (Group 3 (Many 1 value_char)) (b2, s2, g2) = (b', s', g) # ms" by blast
  from group_steps [OF 1 gl(1)] obtain k1 where k1: "s = k1 @ s1" "b1 = rev k1 @ b" "g1 = [(1, k1)]" by auto
  from group_steps [OF 2 gl(2)] obtain k2 where k2: "s1 = k2 @ s2" "b2 = rev k2 @ b1" "spells sep b1 k2 s2"
    "g2 = (2, k2) # g1" by auto
  have "(b', s', g) \<in> set (steps (Group 3 (Many 1 value_char)) (b2, s2, g2))" by (simp only: 3 list.set_intros)
  from group_steps [OF this] obtain k3 where k3: "s2 = k3 @ s'" "b' = rev k3 @ b2"
    "spells (Many 1 value_char) b2 k3 s'" "g = (3, k3) # g2" by (meson groupless.simps)
  have ne: "k3 \<noteq> []" using k3(3) by auto
  have "\<exists>ms. many 1 value_char b2 s2 = (b', s') # ms" using 3 by (auto simp: Cons_eq_map_conv map_eq_Cons_conv)
  then have "s' = dropWhile value_char s2" using many_longest by blast
  then have s': "\<not> starts_word s'" using dropWhile_stop word_value by simp
  have "k2 \<noteq> []" "\<forall>c\<in>set k2. \<not> is_word_char c"
    using k2(3) space_not_word by (auto simp: sep_def list_all_iff)
  then have "k2 \<noteq> [] \<and> \<not> is_word_char (last k2)" by simp
  then have "\<not> starts_word b2" using k2(2) by (simp add: starts_word_append starts_word_rev)
  then have "cut secret_char c0 b s b' s' (k1 @ k2) k3 redacted"
    using assms k1(1,2) k2(1,2) k3(1,2) ne s' by (simp add: cut_def)
  moreover have "redact_key_value g = (k1 @ k2) @ redacted"
    by (simp add: redact_key_value_def group_def k1 k2 k3)
  ultimately show "\<exists>u v R. redact_key_value g = u @ R \<and> cut secret_char c0 b s b' s' u v R" by blast
qed

text \<open>No API key and no JWT is left in a redacted text.\<close>

lemma redact_text_absent:
  "absent api_key_pattern [] (redact_text s)" "absent jwt_pattern [] (redact_text s)"
proof -
  define t where "t = fold (\<lambda>(q, R) s. sub q (\<lambda>_. R) s) (take 3 simple_patterns) s"
  have r: "redact_text s = sub key_value_pattern redact_key_value (sub url_pattern (\<lambda>_. ''://'' @ redacted @ ''@'')
      (sub jwt_pattern (\<lambda>_. redacted) (sub api_key_pattern (\<lambda>_. redacted) t)))"
    by (simp add: redact_text_def t_def simple_patterns_def)
  define u where "u = sub_from api_key_pattern (\<lambda>_. redacted) [] t"
  define v where "v = sub_from jwt_pattern (\<lambda>_. redacted) [] u"
  define w where "w = sub_from url_pattern (\<lambda>_. ''://'' @ redacted @ ''@'') [] v"
  have r': "redact_text s = sub_from key_value_pattern redact_key_value [] w"
    by (simp add: r sub_def u_def v_def w_def)
  have "absent api_key_pattern [] u"
    unfolding u_def by (rule api_key.absent_after [OF simple_cuts(1)]) simp_all
  then have "absent api_key_pattern [] v"
    unfolding v_def by (intro api_key.absent_after [OF simple_cuts(2)]) simp_all
  then have "absent api_key_pattern [] w"
    unfolding w_def by (intro api_key.absent_after [OF simple_cuts(3)]) simp_all
  then show "absent api_key_pattern [] (redact_text s)"
    unfolding r' by (intro api_key.absent_after [OF key_value_cuts]) simp_all
  have "absent jwt_pattern [] v"
    unfolding v_def by (rule jwt.absent_after [OF simple_cuts(2)]) simp_all
  then have "absent jwt_pattern [] w"
    unfolding w_def by (intro jwt.absent_after [OF simple_cuts(3)]) simp_all
  then show "absent jwt_pattern [] (redact_text s)"
    unfolding r' by (intro jwt.absent_after [OF key_value_cuts]) simp_all
qed

section \<open>Evaluating a substitution\<close>

text \<open>Where a pattern cannot begin, and which characters it cannot do without.\<close>

lemmas char_classes = is_space_def is_word_char_def is_upper_def is_lower_def is_digit_def is_alnum_def
  key_char_def value_char_def Let_def

lemma sub_from_skip: "match_at r b (c # t) = None \<Longrightarrow> sub_from r f b (c # t) = c # sub_from r f (c # b) t"
  by (simp add: sub_from.simps [of r f b "c # t"])

lemma sub_from_hit:
  "match_at r b s = Some (b', s', g) \<Longrightarrow> length s' < length s \<Longrightarrow> sub_from r f b s = f g @ sub_from r f b' s'"
  by (simp add: sub_from.simps [of r f b s])

lemma spells_Chr_Cons:
  "rs \<noteq> [] \<Longrightarrow> spells (seq (Chr P # rs)) b k a \<longleftrightarrow> (\<exists>c t. k = c # t \<and> P c \<and> spells (seq rs) (c # b) t a)"
  by (auto simp: spells_seq_Cons) (metis append_Cons append_Nil rev_singleton_conv)

lemma spells_ilit [simp]: "spells (ilit s) b k a \<longleftrightarrow> lower k = lower s"
proof (induction s arbitrary: b k)
  case (Cons c s)
  show ?case
  proof (cases s)
    case Nil
    then show ?thesis by (auto simp: ilit_def lower_def)
  next
    case (Cons d u)
    have "spells (ilit (c # s)) b k a \<longleftrightarrow> (\<exists>x t. k = x # t \<and> lower_char x = lower_char c \<and> spells (ilit s) (x # b) t a)"
      unfolding ilit_def list.map by (rule spells_Chr_Cons) (simp add: Cons)
    then show ?thesis by (auto simp: Cons.IH lower_def Cons_eq_map_conv map_eq_Cons_conv)
  qed
next
  case Nil
  then show ?case by (cases k) (simp_all add: ilit_def lower_def)
qed

definition lacks :: "(char \<Rightarrow> bool) \<Rightarrow> string \<Rightarrow> bool" where
  "lacks P s \<longleftrightarrow> list_all (\<lambda>c. \<not> P c) s"

lemma lacks_simps [simp]:
  "lacks P []" "lacks P (c # s) \<longleftrightarrow> \<not> P c \<and> lacks P s" "lacks P (s @ t) \<longleftrightarrow> lacks P s \<and> lacks P t"
  by (simp_all add: lacks_def)

lemma absent_lacks:
  assumes "\<And>b k a. spells r b k a \<Longrightarrow> \<not> lacks P k" "lacks P s"
  shows "absent r b s"
  using assms by (fastforce simp: absent_def)

abbreviation colon :: "char \<Rightarrow> bool" where
  "colon c \<equiv> c = CHR '':''"

lemma pattern_needs:
  "lacks is_space s \<Longrightarrow> absent bearer_pattern b s"
  "lacks colon s \<Longrightarrow> absent authorization_pattern b s"
  "lacks colon s \<Longrightarrow> absent cookie_pattern b s"
  "lacks (\<lambda>c. c = CHR ''_'') s \<Longrightarrow> absent api_key_pattern b s"
  "lacks (\<lambda>c. c = CHR ''.'') s \<Longrightarrow> absent jwt_pattern b s"
  "lacks (\<lambda>c. c = CHR ''/'') s \<Longrightarrow> absent url_pattern b s"
  "lacks (\<lambda>c. c = CHR ''='' \<or> c = CHR '':'') s \<Longrightarrow> absent key_value_pattern b s"
proof -
  show "lacks is_space s \<Longrightarrow> absent bearer_pattern b s"
    by (erule absent_lacks [rotated]) (auto simp: bearer_pattern_def lacks_def list_all_iff Suc_le_eq neq_Nil_conv)
  show "lacks colon s \<Longrightarrow> absent authorization_pattern b s" "lacks colon s \<Longrightarrow> absent cookie_pattern b s"
    by (erule absent_lacks [rotated]; auto simp: authorization_pattern_def cookie_pattern_def)+
  show "lacks (\<lambda>c. c = CHR ''_'') s \<Longrightarrow> absent api_key_pattern b s"
    by (erule absent_lacks [rotated]) (auto simp: api_key_spelled)
  show "lacks (\<lambda>c. c = CHR ''.'') s \<Longrightarrow> absent jwt_pattern b s"
    by (erule absent_lacks [rotated]) (auto simp: jwt_spelled)
  show "lacks (\<lambda>c. c = CHR ''/'') s \<Longrightarrow> absent url_pattern b s"
    by (erule absent_lacks [rotated]) (auto dest: url_spelled)
  show "lacks (\<lambda>c. c = CHR ''='' \<or> c = CHR '':'') s \<Longrightarrow> absent key_value_pattern b s"
    by (erule absent_lacks [rotated]) (auto simp: key_value_pattern_def)
qed

lemma lower_append [simp]: "lower (s @ t) = lower s @ lower t"
  by (simp add: lower_def)

lemma lower_names:
  "lower ''Bearer'' = ''bearer''" "lower ''Cookie'' = ''cookie''" "lower ''Authorization'' = ''authorization''"
  "lower ''password'' = ''password''" "lower ''passwd'' = ''passwd''" "lower ''pwd'' = ''pwd''" "lower ''token'' = ''token''"
  "lower ''secret'' = ''secret''" "lower ''api'' = ''api''" "lower ''access'' = ''access''" "lower ''refresh'' = ''refresh''"
  by code_simp+

lemma no_prefix:
  "\<not> prefix ''bearer'' (lower s) \<Longrightarrow> match_at bearer_pattern b s = None"
  "\<not> prefix ''cookie'' (lower s) \<Longrightarrow> match_at cookie_pattern b s = None"
  "\<not> prefix ''authorization'' (lower s) \<Longrightarrow> match_at authorization_pattern b s = None"
  by (auto simp: match_at_None bearer_pattern_def cookie_pattern_def authorization_pattern_def spells_seq_Cons lower_names)

lemma key_value_no_prefix:
  "list_all (\<lambda>w. \<not> prefix w (lower s)) [''pa'', ''pw'', ''to'', ''se'', ''ap'', ''acc'', ''ref''] \<Longrightarrow>
    match_at key_value_pattern b s = None"
  by (auto simp: match_at_None key_value_pattern_def spells_seq_Cons lower_names)

end
