(* ===== verification/Redaction_Properties.thy ===== *)
theory Redaction_Properties
  imports Secret_Shapes
begin

text \<open>
  What the log processor guarantees: fields with a sensitive name lose their value at every
  depth and nothing else changes its place, no API key and no JWT is left in any text, and
  which credentials it leaves readable.
\<close>

section \<open>Places in a log entry\<close>

text \<open>The value at a path of positions, and whether a field on the path is sensitive.\<close>

fun value_at :: "nat list \<Rightarrow> log_value \<Rightarrow> log_value option" where
  "value_at [] v = Some v"
| "value_at (n # p) (LogDict m) = (if n < length m then value_at p (snd (m ! n)) else None)"
| "value_at (n # p) (LogList vs) = (if n < length vs then value_at p (vs ! n) else None)"
| "value_at (n # p) (LogTuple vs) = (if n < length vs then value_at p (vs ! n) else None)"
| "value_at (n # p) v = None"

fun guarded :: "nat list \<Rightarrow> log_value \<Rightarrow> bool" where
  "guarded [] v = False"
| "guarded (n # p) (LogDict m) =
    (n < length m \<and> (is_sensitive_key (fst (m ! n)) \<or> guarded p (snd (m ! n))))"
| "guarded (n # p) (LogList vs) = (n < length vs \<and> guarded p (vs ! n))"
| "guarded (n # p) (LogTuple vs) = (n < length vs \<and> guarded p (vs ! n))"
| "guarded (n # p) v = False"

lemma guarded_prefix: "guarded p v \<Longrightarrow> guarded (p @ q) v"
  by (induction p v rule: guarded.induct) auto

lemma value_at_redacted:
  "\<not> guarded p v \<Longrightarrow> value_at p (redact_value v) = map_option redact_value (value_at p v)"
  by (induction p v rule: value_at.induct) (auto simp: case_prod_beta)

lemma value_at_guarded:
  "guarded p v \<Longrightarrow> \<exists>q r. p = q @ r \<and> q \<noteq> [] \<and> value_at q (redact_value v) = Some (LogStr redacted)"
proof (induction p v rule: guarded.induct)
  case (2 n p m)
  show ?case
  proof (cases "is_sensitive_key (fst (m ! n))")
    case True
    with 2 show ?thesis by (intro exI [of _ "[n]"] exI [of _ p]) (simp add: case_prod_beta)
  next
    case False
    with 2 obtain q r where "p = q @ r" "value_at q (redact_value (snd (m ! n))) = Some (LogStr redacted)" by auto
    with 2 False show ?thesis by (intro exI [of _ "n # q"] exI [of _ r]) (simp add: case_prod_beta)
  qed
next
  case (3 n p vs)
  then obtain q r where "p = q @ r" "value_at q (redact_value (vs ! n)) = Some (LogStr redacted)" by auto
  with 3 show ?case by (intro exI [of _ "n # q"] exI [of _ r]) simp
next
  case (4 n p vs)
  then obtain q r where "p = q @ r" "value_at q (redact_value (vs ! n)) = Some (LogStr redacted)" by auto
  with 4 show ?case by (intro exI [of _ "n # q"] exI [of _ r]) simp
qed auto

lemma value_at_append:
  "value_at (p @ q) v = (case value_at p v of None \<Rightarrow> None | Some w \<Rightarrow> value_at q w)"
  by (induction p v rule: value_at.induct) auto

lemma value_at_text: "value_at p (LogStr s) = (if p = [] then Some (LogStr s) else None)"
  by (cases p) auto

text \<open>The texts of a value.\<close>

fun texts :: "log_value \<Rightarrow> string set" where
  "texts (LogStr s) = {s}"
| "texts (LogDict m) = (\<Union>(k, v)\<in>set m. texts v)"
| "texts (LogList vs) = (\<Union>v\<in>set vs. texts v)"
| "texts (LogTuple vs) = (\<Union>v\<in>set vs. texts v)"
| "texts (LogOther s) = {}"

lemma texts_redacted:
  "t \<in> (\<Union>(k, v)\<in>set (redact_mapping m). texts v) \<Longrightarrow> t = redacted \<or> (\<exists>s. t = redact_text s)"
  "t \<in> texts (redact_value v) \<Longrightarrow> t = redacted \<or> (\<exists>s. t = redact_text s)"
  by (induction m and v rule: redact_mapping_redact_value.induct) (auto split: if_splits)

section \<open>Texts\<close>

lemma redacted_absent: "absent api_key_pattern b redacted" "absent jwt_pattern b redacted"
  by (simp_all add: pattern_needs redacted_def)

text \<open>What a redacted entry has in place of its texts.\<close>

lemma logged_text_absent:
  "t \<in> texts (LogDict (redact_log_secrets event)) \<Longrightarrow> absent api_key_pattern [] t \<and> absent jwt_pattern [] t"
  using texts_redacted(1) [of t event] redacted_absent redact_text_absent
  by (auto simp: redact_log_secrets_def simp del: redact_mapping.simps)

text \<open>A text that has a secret shape, spelled out.\<close>

definition stands_alone :: "string \<Rightarrow> string \<Rightarrow> string \<Rightarrow> bool" where
  "stands_alone pre k post \<longleftrightarrow> at_boundary (rev pre) (k @ post) \<and> at_boundary (rev (pre @ k)) post"

lemma no_api_key:
  assumes "absent api_key_pattern [] t" "stands_alone pre (''sx_'' @ p @ ''.'' @ q) post"
    "p \<noteq> []" "list_all key_char p" "4 \<le> length q" "list_all key_char q"
  shows "t \<noteq> pre @ ''sx_'' @ p @ ''.'' @ q @ post"
proof
  assume "t = pre @ ''sx_'' @ p @ ''.'' @ q @ post"
  then have "\<not> spells api_key_pattern (rev pre) (''sx_'' @ p @ ''.'' @ q) post"
    using absentD [of api_key_pattern "[]" pre "''sx_'' @ p @ ''.'' @ q" post] assms(1) by simp
  moreover have "spells api_key_pattern (rev pre) (''sx_'' @ p @ ''.'' @ q) post"
    unfolding api_key_spelled using assms
    by (intro exI [of _ p] exI [of _ q]) (simp add: stands_alone_def Suc_le_eq)
  ultimately show False by simp
qed

lemma no_jwt:
  assumes "absent jwt_pattern [] t" "stands_alone pre (''ey'' @ h @ ''.'' @ p @ ''.'' @ q) post"
    "10 \<le> length h" "list_all key_char h" "10 \<le> length p" "list_all key_char p" "10 \<le> length q" "list_all key_char q"
  shows "t \<noteq> pre @ ''ey'' @ h @ ''.'' @ p @ ''.'' @ q @ post"
proof
  assume "t = pre @ ''ey'' @ h @ ''.'' @ p @ ''.'' @ q @ post"
  then have "\<not> spells jwt_pattern (rev pre) (''ey'' @ h @ ''.'' @ p @ ''.'' @ q) post"
    using absentD [of jwt_pattern "[]" pre "''ey'' @ h @ ''.'' @ p @ ''.'' @ q" post] assms(1) by simp
  moreover have "spells jwt_pattern (rev pre) (''ey'' @ h @ ''.'' @ p @ ''.'' @ q) post"
    unfolding jwt_spelled using assms
    by (intro exI [of _ h] exI [of _ p] exI [of _ q]) (simp add: stands_alone_def)
  ultimately show False by simp
qed

lemma api_key_alone: "redact_text ''sx_a-b.cdefg'' = redacted"
proof -
  have m: "match_at api_key_pattern [] ''sx_a-b.cdefg'' = Some (rev ''sx_a-b.cdefg'', [], [])"
    by (simp add: match_at_def api_key_pattern_def lit_def at_boundary_def char_classes)
  have e: "redacted = ''[REDACTED]''" by (fact redacted_def)
  have "sub q (\<lambda>_. R) ''sx_a-b.cdefg'' = ''sx_a-b.cdefg''"
    if "q \<in> {bearer_pattern, authorization_pattern, cookie_pattern}" for q R
    using that by (auto simp: sub_def sub_from_absent pattern_needs is_space_def)
  moreover have "sub api_key_pattern (\<lambda>_. redacted) ''sx_a-b.cdefg'' = redacted"
    by (simp add: sub_def sub_from_hit [OF m] sub_from_absent pattern_needs)
  moreover have "sub q f redacted = redacted" if "q \<in> {jwt_pattern, url_pattern, key_value_pattern}" for q f
    using that by (auto simp: sub_def sub_from_absent pattern_needs e)
  ultimately show ?thesis by (simp add: redact_text_def simple_patterns_def)
qed

text \<open>C22 (secrets in logs): in whatever is logged, no string value, at any depth, is left that has an API key or a
  JWT standing as a word of its own, whatever surrounds it.  Keys of dictionaries and values
  that are not strings are not rewritten, and not counted here.\<close>

theorem no_secret_in_logs:
  assumes t: "t \<in> texts (LogDict (redact_log_secrets event))"
  shows "(\<nexists>pre p q post. t = pre @ ''sx_'' @ p @ ''.'' @ q @ post \<and> p \<noteq> [] \<and> list_all key_char p \<and>
      4 \<le> length q \<and> list_all key_char q \<and> stands_alone pre (''sx_'' @ p @ ''.'' @ q) post) \<and>
    (\<nexists>pre h p q post. t = pre @ ''ey'' @ h @ ''.'' @ p @ ''.'' @ q @ post \<and>
      10 \<le> length h \<and> list_all key_char h \<and> 10 \<le> length p \<and> list_all key_char p \<and>
      10 \<le> length q \<and> list_all key_char q \<and> stands_alone pre (''ey'' @ h @ ''.'' @ p @ ''.'' @ q) post)"
proof (intro conjI notI)
  note absent = logged_text_absent [OF t]
  show False if "\<exists>pre p q post. t = pre @ ''sx_'' @ p @ ''.'' @ q @ post \<and> p \<noteq> [] \<and> list_all key_char p \<and>
      4 \<le> length q \<and> list_all key_char q \<and> stands_alone pre (''sx_'' @ p @ ''.'' @ q) post"
    using that no_api_key [OF conjunct1 [OF absent]] by blast
  show False if "\<exists>pre h p q post. t = pre @ ''ey'' @ h @ ''.'' @ p @ ''.'' @ q @ post \<and>
      10 \<le> length h \<and> list_all key_char h \<and> 10 \<le> length p \<and> list_all key_char p \<and>
      10 \<le> length q \<and> list_all key_char q \<and> stands_alone pre (''ey'' @ h @ ''.'' @ p @ ''.'' @ q) post"
    using that no_jwt [OF conjunct2 [OF absent]] by blast
qed

theorem no_secret_in_logs_witness:
  "\<nexists>pre p q post. ''[REDACTED]'' = pre @ ''sx_'' @ p @ ''.'' @ q @ post \<and> p \<noteq> [] \<and> list_all key_char p \<and>
      4 \<le> length q \<and> list_all key_char q \<and> stands_alone pre (''sx_'' @ p @ ''.'' @ q) post"
proof -
  have "''[REDACTED]'' \<in> texts (LogDict (redact_log_secrets [(StrKey ''request'', LogList [LogStr ''sx_a-b.cdefg''])]))"
    by (simp add: redact_log_secrets_def api_key_alone is_sensitive_key_def sensitive_field_names_def
        lower_def lower_char_def redacted_def)
  from no_secret_in_logs [OF this] show ?thesis by blast
qed

text \<open>C23 (fields): a value is redacted where it stands: its texts if no field above it has a sensitive
  name, and otherwise it is gone with the whole field, whose value is the marker.\<close>

theorem sensitive_fields_redacted:
  assumes "value_at p (LogDict event) = Some v"
  shows "if guarded p (LogDict event)
    then \<exists>q r. p = q @ r \<and> value_at q (LogDict (redact_log_secrets event)) = Some (LogStr redacted) \<and> q \<noteq> [] \<and>
      (r = [] \<or> value_at p (LogDict (redact_log_secrets event)) = None)
    else value_at p (LogDict (redact_log_secrets event)) = Some (redact_value v)"
proof -
  have e: "LogDict (redact_log_secrets event) = redact_value (LogDict event)" by (simp add: redact_log_secrets_def)
  show ?thesis
  proof (cases "guarded p (LogDict event)")
    case True
    from value_at_guarded [OF this] obtain q r where q: "p = q @ r" "q \<noteq> []"
      "value_at q (redact_value (LogDict event)) = Some (LogStr redacted)" by blast
    then have "r = [] \<or> value_at p (redact_value (LogDict event)) = None"
      by (simp add: value_at_append value_at_text del: redact_value.simps)
    with True q show ?thesis unfolding e by auto
  next
    case False
    with value_at_redacted [OF False] assms show ?thesis by (simp add: e del: redact_value.simps)
  qed
qed

definition demo_event :: "(log_key \<times> log_value) list" where
  "demo_event = [(StrKey ''request'',
     LogDict [(StrKey ''size'', LogOther ''12''), (StrKey ''API-Key'', LogList [LogStr ''k''])])]"

lemma demo_sensitive: "is_sensitive_key (StrKey ''API-Key'')" "\<not> is_sensitive_key (StrKey ''size'')"
  "\<not> is_sensitive_key (StrKey ''request'')"
  by code_simp+

theorem sensitive_fields_redacted_witness:
  "value_at [0, 0] (LogDict (redact_log_secrets demo_event)) = Some (LogOther ''12'') \<and>
    (\<exists>q r. [0, 1, 0] = q @ r \<and> value_at q (LogDict (redact_log_secrets demo_event)) = Some (LogStr redacted) \<and> q \<noteq> [])"
  using sensitive_fields_redacted [of "[0, 0]" demo_event "LogOther ''12''"]
    sensitive_fields_redacted [of "[0, 1, 0]" demo_event "LogStr ''k''"] demo_sensitive
  by (auto simp: demo_event_def)

section \<open>Credentials that are left\<close>

lemma alnum_lacks:
  assumes "list_all is_alnum c"
  shows "lacks is_space c" "lacks colon c" "lacks (\<lambda>c. c = CHR ''_'') c" "lacks (\<lambda>c. c = CHR ''.'') c"
    "lacks (\<lambda>c. c = CHR ''/'') c" "lacks (\<lambda>c. c = CHR ''='' \<or> c = CHR '':'') c"
  using assms by (auto simp: lacks_def list_all_iff less_eq_char_def char_classes)

lemma basic_survives:
  assumes "list_all is_alnum c"
  shows "redact_text (''Authorization: Basic '' @ c) = ''Authorization: [REDACTED] '' @ c"
proof -
  note l = alnum_lacks [OF assms]
  define t where "t = ''Authorization: Basic '' @ c"
  have 1: "sub bearer_pattern (\<lambda>_. ''Bearer '' @ redacted) t = t"
    by (simp add: sub_def t_def sub_from_skip no_prefix lower_def lower_char_def sub_from_absent pattern_needs l)
  have m: "match_at authorization_pattern [] t = Some (rev ''Authorization: Basic'', '' '' @ c, [])"
    by (simp add: match_at_def authorization_pattern_def t_def ilit_def at_boundary_def char_classes)
  define u where "u = ''Authorization: [REDACTED] '' @ c"
  have 2: "sub authorization_pattern (\<lambda>_. ''Authorization: '' @ redacted) t = u"
    using sub_from_hit [OF m] by (simp add: t_def u_def sub_def sub_from_absent pattern_needs l redacted_def)
  have 3: "sub cookie_pattern (\<lambda>_. ''Cookie: '' @ redacted) u = u"
    by (simp add: sub_def u_def sub_from_skip no_prefix lower_def lower_char_def sub_from_absent pattern_needs l)
  have 4: "sub api_key_pattern f u = u" "sub jwt_pattern f u = u" "sub url_pattern f u = u" for f
    by (simp_all add: sub_def u_def sub_from_absent pattern_needs l)
  have 5: "sub key_value_pattern redact_key_value u = u"
    by (simp add: sub_def u_def sub_from_skip key_value_no_prefix lower_def lower_char_def sub_from_absent pattern_needs l)
  show ?thesis
    unfolding t_def [symmetric] u_def [symmetric]
    using 1 2 3 4 5 by (simp add: redact_text_def simple_patterns_def)
qed


lemma quoted_survives:
  assumes "list_all is_alnum c"
  shows "redact_text (''password='' @ CHR 0x22 # c @ [CHR 0x22]) = ''password='' @ CHR 0x22 # c @ [CHR 0x22]"
proof -
  note l = alnum_lacks [OF assms]
  define t where "t = ''password='' @ CHR 0x22 # c @ [CHR 0x22]"
  have 1: "sub q f t = t" if "q \<in> {bearer_pattern, authorization_pattern, cookie_pattern, api_key_pattern, jwt_pattern, url_pattern}" for q f
    using that by (auto simp: sub_def t_def sub_from_absent pattern_needs l is_space_def)
  have "match_at key_value_pattern [] t = None"
    by (simp add: match_at_def key_value_pattern_def t_def ilit_def dash_def at_boundary_def char_classes lower_char_def)
  then have "sub key_value_pattern redact_key_value t = t"
    by (simp add: sub_def t_def sub_from_skip key_value_no_prefix lower_def lower_char_def sub_from_absent pattern_needs l)
  then show ?thesis
    unfolding t_def [symmetric] by (simp add: redact_text_def simple_patterns_def 1)
qed

text \<open>Credentials in logs: the password of HTTP basic authentication is left in the text after the
  scheme, the only part of the header the pattern for \<open>Authorization\<close> reaches, and so is a password
  in quotes.\<close>

theorem credentials_left_in_logs:
  assumes "list_all is_alnum c"
  shows "redact_text (''Authorization: Basic '' @ c) = ''Authorization: [REDACTED] '' @ c \<and>
    redact_text (''password='' @ CHR 0x22 # c @ [CHR 0x22]) = ''password='' @ CHR 0x22 # c @ [CHR 0x22]"
  using basic_survives [OF assms] quoted_survives [OF assms] by blast

theorem credentials_left_in_logs_witness:
  "redact_text ''Authorization: Basic dXNlcjpwYXNz'' = ''Authorization: [REDACTED] dXNlcjpwYXNz''"
  using credentials_left_in_logs [of "''dXNlcjpwYXNz''"] by (simp add: char_classes)

end
