(* ===== verification/Identity_Relations.thy ===== *)
theory Identity_Relations
  imports Endpoints Outbox_Dispatcher
begin

text \<open>
  What the writes of the identity and credential tables have in common, in the way
  \<open>Scan_Relations\<close> says it of the scan tables.  The locale \<open>identity_db_relation\<close> lists the
  primitive writes and assumes that a relation on databases allows each; every repository,
  the services and every endpoint then keep the relation, under any interference that keeps
  it.  The relation \<open>hardens\<close>, which interprets it, says that a credential that has been
  spent or withdrawn never becomes good again, and that what identifies a row never changes.
\<close>

section \<open>What may become of a row\<close>

text \<open>A key keeps what it was issued with; its status can only become \<open>revoked\<close>.\<close>

definition key_identity :: "api_key \<Rightarrow> uuid \<times> uuid \<times> uuid option \<times> string \<times> string \<times> string \<times> string list \<times> int option" where
  "key_identity k = (ak_id k, ak_tenant_id k, ak_user_id k, ak_name k, ak_prefix k, ak_hashed_secret k,
     ak_scopes k, ak_expires_at k)"

definition key_hardens :: "api_key \<Rightarrow> api_key \<Rightarrow> bool" where
  "key_hardens k k' \<longleftrightarrow> key_identity k' = key_identity k \<and>
     (ak_status k' = ak_status k \<or> ak_status k' = KeyRevoked)"

text \<open>A refresh token that was rotated or revoked is never active again.\<close>

definition token_identity :: "refresh_token \<Rightarrow> uuid \<times> uuid \<times> uuid \<times> uuid \<times> string \<times> int" where
  "token_identity r = (rt_id r, rt_tenant_id r, rt_user_id r, rt_family_id r, rt_hashed_token r, rt_expires_at r)"

definition token_hardens :: "refresh_token \<Rightarrow> refresh_token \<Rightarrow> bool" where
  "token_hardens r r' \<longleftrightarrow> token_identity r' = token_identity r \<and>
     (rt_status r \<noteq> TokenActive \<longrightarrow> rt_status r' \<noteq> TokenActive)"

text \<open>A link that was used, or invalidated, stays used.\<close>

definition link_hardens :: "verification_token \<Rightarrow> verification_token \<Rightarrow> bool" where
  "link_hardens v v' \<longleftrightarrow> vt_id v' = vt_id v \<and> vt_user_id v' = vt_user_id v \<and> vt_purpose v' = vt_purpose v \<and>
     vt_hashed_token v' = vt_hashed_token v \<and> vt_expires_at v' = vt_expires_at v \<and>
     (vt_consumed_at v \<noteq> None \<longrightarrow> vt_consumed_at v' \<noteq> None)"

text \<open>A user keeps its address, and a verified address stays verified.\<close>

definition user_keeps :: "user \<Rightarrow> user \<Rightarrow> bool" where
  "user_keeps u u' \<longleftrightarrow> us_id u' = us_id u \<and> us_email u' = us_email u \<and>
     us_display_name u' = us_display_name u \<and> us_status u' = us_status u \<and>
     (us_email_verified_at u \<noteq> None \<longrightarrow> us_email_verified_at u' \<noteq> None)"

definition member_keeps :: "membership \<Rightarrow> membership \<Rightarrow> bool" where
  "member_keeps m m' \<longleftrightarrow> me_id m' = me_id m \<and> membership_key m' = membership_key m"

definition hardens :: "db \<Rightarrow> db \<Rightarrow> bool" where
  "hardens d d' \<longleftrightarrow> grows key_hardens (api_keys d) (api_keys d') \<and>
     grows token_hardens (refresh_tokens d) (refresh_tokens d') \<and>
     grows link_hardens (verification_tokens d) (verification_tokens d') \<and>
     grows user_keeps (users d) (users d') \<and>
     grows member_keeps (memberships d) (memberships d') \<and>
     grows (=) (audit_events d) (audit_events d')"

section \<open>The interface\<close>

locale identity_db_relation = outbox_db_relation R for R +
  assumes R_audit: "R d (insert_audit v d)"
    and R_insert_user: "R d (insert_user u d)"
    and R_update_user: "(\<And>u t. user_keeps u ((f u)\<lparr>us_updated_at := t\<rparr>)) \<Longrightarrow> R d (update_user i f t d)"
    and R_insert_member: "R d (insert_membership m d)"
    and R_update_member: "R d (update_memberships P (\<lambda>r. (set_membership l mu r)\<lparr>me_updated_at := t\<rparr>) d)"
    and R_insert_token: "R d (insert_refresh_token r d)"
    and R_rotate: "R d (update_refresh_tokens Q (rotated_row new t) d)"
    and R_revoke: "R d (update_refresh_tokens Q (revoked_row t) d)"
    and R_insert_link: "R d (insert_verification_token v' d)"
    and R_consume: "R d (update_verification_tokens L (consumed_row t) d)"
    and R_insert_key: "R d (insert_api_key k d)"
    and R_update_key: "ku_status ku \<in> {None, Some KeyRevoked} \<Longrightarrow> R d (update_api_key k ku t d)"
begin

lemmas prog_intros = keeps_retE keeps_raiseE keeps_emit keeps_now keeps_draw_uuid keeps_liftE keeps_bindE
  keeps_thenE keeps_whenE keeps_query keeps_stmt keeps_commit

subsection \<open>Repositories\<close>

lemma keeps_flush_user:
  assumes "\<And>r t. user_keeps r ((f r)\<lparr>us_updated_at := t\<rparr>)"
  shows "kept (flush_user u f)"
  unfolding flush_user_def by (auto intro!: prog_intros R_update_user assms)

lemma keeps_set_password: "kept (user_repo_set_password u h b)"
  unfolding user_repo_set_password_def
  by (rule keeps_flush_user) (simp add: user_keeps_def set_password_def)

lemma keeps_mark_verified: "kept (user_repo_mark_email_verified u)"
  unfolding user_repo_mark_email_verified_def
  by (intro keeps_bindE keeps_now keeps_flush_user) (simp add: user_keeps_def set_col_def)

lemma keeps_bump: "kept (user_repo_bump_token_version u)"
  unfolding user_repo_bump_token_version_def
  by (rule keeps_flush_user) (simp add: user_keeps_def bump_version_def)

lemma keeps_user_create: "kept (user_repo_create c)"
  unfolding user_repo_create_def Let_def by (intro prog_intros R_insert_user)

lemma keeps_member_create: "kept (membership_repo_create c)"
  unfolding membership_repo_create_def Let_def by (intro prog_intros R_insert_member)

lemma keeps_member_update: "kept (membership_repo_update l u)"
  unfolding membership_repo_update_def by (auto intro!: prog_intros R_update_member)

lemma keeps_token_create: "kept (refresh_repo_create c fam)"
  unfolding refresh_repo_create_def Let_def by (intro prog_intros R_insert_token)

lemma keeps_rotate: "kept (refresh_repo_rotate old c)"
  unfolding refresh_repo_rotate_def by (intro prog_intros keeps_token_create R_rotate)

lemma keeps_revoke_selected: "kept (revoke_selected P)"
  unfolding revoke_selected_def by (auto intro!: prog_intros R_revoke)

lemma keeps_link_create: "kept (verification_repo_create c)"
  unfolding verification_repo_create_def Let_def by (intro prog_intros R_insert_link)

lemma keeps_consume: "kept (verification_repo_consume r)"
  unfolding verification_repo_consume_def by (intro prog_intros R_consume)

lemma keeps_invalidate: "kept (verification_repo_invalidate_pending u p)"
  unfolding verification_repo_invalidate_pending_def by (auto intro!: prog_intros R_consume)

lemma keeps_key_create: "kept (api_key_repo_create c)"
  unfolding api_key_repo_create_def Let_def by (intro prog_intros R_insert_key)

lemma keeps_key_update: "ku_status u \<in> {None, Some KeyRevoked} \<Longrightarrow> kept (api_key_repo_update l u)"
  unfolding api_key_repo_update_def by (auto intro!: prog_intros R_update_key)

lemma keeps_record_audit: "kept (record_audit c)"
  unfolding record_audit_def audit_repo_create_def Let_def by (intro prog_intros R_audit)

lemmas repo_intros = prog_intros keeps_set_password keeps_mark_verified keeps_bump keeps_user_create
  keeps_member_create keeps_member_update keeps_token_create keeps_rotate keeps_revoke_selected
  keeps_link_create keeps_consume keeps_invalidate keeps_key_create keeps_key_update keeps_record_audit

lemmas query_defs = user_repo_get_by_email_def user_repo_get_by_id_def tenant_repo_get_by_id_def
  membership_repo_get_by_id_def membership_repo_get_by_tenant_and_user_def membership_repo_list_by_tenant_def
  membership_repo_list_by_user_def refresh_repo_get_by_hashed_token_def refresh_repo_get_by_id_def
  refresh_repo_list_active_sessions_def verification_repo_get_valid_def api_key_repo_get_by_id_def
  api_key_repo_get_by_prefix_def api_key_repo_list_by_tenant_def audit_repo_list_by_tenant_def
  refresh_repo_revoke_family_def refresh_repo_revoke_all_for_user_def

subsection \<open>Services\<close>

lemma keeps_policy: "kept (check_password_policy st cy pw)"
  unfolding check_password_policy_def by (auto intro!: prog_intros)

lemma keeps_hash: "kept (hash_password cy pw)" "kept (generate_secret cy n)"
  unfolding hash_password_def generate_secret_def by (intro prog_intros)+

lemma keeps_access_token: "kept (create_access_token st cy u tn role)"
  unfolding create_access_token_def create_token_def Let_def
  by (auto intro!: prog_intros split: prod.split)

lemma keeps_pair: "kept (issue_fresh_token_pair st cy u tn role cx)"
  unfolding issue_fresh_token_pair_def build_refresh_token_create_def
  by (intro repo_intros keeps_hash keeps_access_token)

lemma keeps_send: "kept (issue_verification_token_and_email st cy u p)"
  unfolding issue_verification_token_and_email_def send_verification_email_def send_password_reset_email_def
  by (auto intro!: repo_intros keeps_hash)

lemmas service_intros = repo_intros keeps_policy keeps_hash keeps_access_token keeps_pair keeps_send

lemma keeps_register: "kept (register st cy data)"
  unfolding register_def query_defs by (auto intro!: service_intros)

lemma keeps_login: "kept (login st cy data cx)"
  unfolding login_def query_defs record_failed_login_def rehash_if_needed_def
  by (auto intro!: service_intros split: option.split prod.split)

lemma keeps_refresh: "kept (refresh st cy raw cx)"
  unfolding refresh_def query_defs build_refresh_token_create_def
  by (auto intro!: service_intros split: option.split)

lemma keeps_logout: "kept (logout cy u tn raw cx)"
  unfolding logout_def query_defs by (auto intro!: service_intros split: option.split)

lemma keeps_switch: "kept (switch_tenant st cy u tn cx)"
  unfolding switch_tenant_def query_defs by (auto intro!: service_intros split: option.split)

lemma keeps_change_password: "kept (change_password st cy u old new)"
  unfolding change_password_def query_defs by (auto intro!: service_intros)

lemma keeps_request_reset: "kept (request_password_reset st cy email cx)"
  unfolding request_password_reset_def query_defs by (auto intro!: service_intros split: option.split)

lemma keeps_refuse: "kept (refuse_token a)"
  unfolding refuse_token_def by (intro service_intros)

lemma keeps_confirm_reset: "kept (confirm_password_reset st cy raw pw)"
  unfolding confirm_password_reset_def query_defs
  by (auto intro!: service_intros keeps_refuse split: option.split)

lemma keeps_request_verification: "kept (request_email_verification st cy u)"
  unfolding request_email_verification_def by (auto intro!: service_intros)

lemma keeps_confirm_verification: "kept (confirm_email_verification cy raw)"
  unfolding confirm_email_verification_def query_defs
  by (auto intro!: service_intros keeps_refuse split: option.split)

lemma keeps_sessions:
  "kept (list_sessions i)" "kept (revoke_session u i)" "kept (revoke_all_sessions u)"
  unfolding list_sessions_def revoke_session_def revoke_all_sessions_def query_defs
  by (auto intro!: service_intros split: option.split)

lemma keeps_issue: "kept (issue cy tn u data)"
  unfolding issue_def Let_def by (intro service_intros)

lemma keeps_authenticate: "kept (authenticate cy key)"
  unfolding authenticate_def query_defs by (auto intro!: service_intros split: option.split prod.split)

lemma keeps_revoke_key: "kept (revoke_key k)" "kept (rotate_key cy tn u k)"
  unfolding rotate_key_def revoke_key_def by (auto intro!: service_intros keeps_issue)

end

end
