(* ===== verification/Platform.thy ===== *)
theory Platform
  imports Identity_Relations Scan_System
begin

text \<open>
  The whole platform: every HTTP endpoint, the worker's task and the dispatcher's, each in a
  session of its own, interleaved at their await points with any number of others.  Each
  keeps what \<open>evolves\<close> says of scans and \<open>hardens\<close> of credentials.
\<close>

section \<open>Endpoints\<close>

context identity_db_relation begin

lemma keeps_redis:
  "kept (redis_do f)" "kept (redis_exists k)" "kept (redis_incr k)" "kept (redis_expire k n)"
  "kept (redis_set_ex k v n)"
proof -
  have a: "kept (\<lambda>w. (Inr (), w\<lparr>w_redis := g (w_clock w) (w_redis w)\<rparr>))" for g
    by (rule keepsI_same) simp_all
  have b: "kept (\<lambda>w. (Inr (g w), w))" for g by (rule keepsI_same) simp_all
  have c: "kept (redis_do g)" for g unfolding redis_do_def by (intro keeps_thenE keeps_pause a)
  show "kept (redis_do f)" "kept (redis_exists k)" "kept (redis_incr k)" "kept (redis_expire k n)"
    "kept (redis_set_ex k v n)"
    unfolding redis_exists_def redis_incr_def redis_expire_def redis_set_ex_def
    by (intro c keeps_thenE keeps_pause b)+
qed

lemma keeps_rate_limit: "kept (rate_limit name n s rq)"
  unfolding rate_limit_def by (auto intro!: keeps_redis prog_intros)

lemma keeps_payload: "kept (get_access_token_payload st cy b)"
  unfolding get_access_token_payload_def is_token_denied_def
  by (auto intro!: keeps_redis prog_intros split: option.split sum.split)

lemma keeps_user_of_payload: "kept (get_current_user p)"
  unfolding get_current_user_def query_defs by (auto intro!: prog_intros split: option.split)

lemma keeps_tenant_active: "kept (ensure_tenant_active tn)"
  unfolding ensure_tenant_active_def query_defs by (auto intro!: prog_intros split: option.split)

lemma keeps_principal: "kept (get_current_principal st cy cd)"
  unfolding get_current_principal_def principal_from_api_key_def principal_from_token_def query_defs
  by (auto intro!: prog_intros keeps_authenticate keeps_payload keeps_user_of_payload keeps_tenant_active
      split: option.split)

lemma keeps_dependencies:
  "kept (principal_of sv cd)" "kept (user_of sv cd)" "kept (permitted sv cd p)"
  unfolding principal_of_def user_of_def current_user_def permitted_def require_permission_def
  by (auto intro!: prog_intros keeps_principal keeps_payload keeps_user_of_payload)

lemmas endpoint_intros = keeps_dependencies keeps_rate_limit keeps_payload service_intros keeps_register
  keeps_login keeps_refresh keeps_logout keeps_switch keeps_change_password keeps_request_reset
  keeps_confirm_reset keeps_request_verification keeps_confirm_verification keeps_sessions keeps_issue
  keeps_revoke_key

lemma keeps_auth_endpoints:
  "kept (ep_register sv rg)" "kept (ep_login sv rq lg)" "kept (ep_refresh sv rq raw)"
  "kept (ep_logout sv cd rq raw)" "kept (ep_switch_tenant sv cd rq tn)" "kept (ep_me sv cd)"
  "kept (ep_change_password sv cd old new)" "kept (ep_request_password_reset sv rq email)"
  "kept (ep_confirm_password_reset sv raw new)" "kept (ep_request_email_verification sv cd)"
  "kept (ep_confirm_email_verification sv raw)"
  unfolding ep_register_def ep_login_def ep_refresh_def ep_logout_def ep_switch_tenant_def ep_me_def
    ep_change_password_def ep_request_password_reset_def ep_confirm_password_reset_def
    ep_request_email_verification_def ep_confirm_email_verification_def deny_access_token_def deny_token_def
  by (auto intro!: endpoint_intros keeps_redis split: option.split prod.split list.split json.split)

lemma keeps_session_endpoints:
  "kept (ep_list_sessions sv cd)" "kept (ep_revoke_session sv cd i)" "kept (ep_revoke_all_sessions sv cd)"
  unfolding ep_list_sessions_def ep_revoke_session_def ep_revoke_all_sessions_def
  by (auto intro!: endpoint_intros)

lemma keeps_member_endpoints:
  "kept (ep_list_memberships sv cd pg)" "kept (ep_add_member sv cd email role)"
  "kept (ep_update_membership sv cd i mu)" "kept (ep_remove_member sv cd i)"
  unfolding ep_list_memberships_def ep_add_member_def add_member_def ep_update_membership_def
    update_membership_def ep_remove_member_def remove_member_def get_membership_def query_defs
  by (auto intro!: endpoint_intros split: option.split)

lemma keeps_key_endpoints:
  "kept (ep_create_api_key sv cd rq ki)" "kept (ep_list_api_keys sv cd pg)" "kept (ep_revoke_api_key sv cd i)"
  "kept (ep_rotate_api_key sv cd i)" "kept (ep_list_audit_events sv cd pg)"
  unfolding ep_create_api_key_def create_api_key_def ep_list_api_keys_def ep_revoke_api_key_def
    revoke_api_key_def ep_rotate_api_key_def rotate_api_key_def get_owned_api_key_def ep_list_audit_events_def
    query_defs
  by (auto intro!: endpoint_intros split: option.split)

lemma keeps_scan_endpoints:
  "kept (ep_create_scan sv cd sync sr)" "kept (ep_cancel_scan sv cd sync q i)" "kept (ep_retry_scan sv cd sync i)"
  unfolding ep_create_scan_def ep_cancel_scan_def ep_retry_scan_def
  by (intro keeps_bindE keeps_dependencies keeps_create_scan keeps_cancel_scan keeps_retry_scan TrueI)+

lemma keeps_scan_reads:
  "kept (ep_list_scans sv cd pg a pr st)" "kept (ep_get_scan sv cd i)" "kept (ep_get_scan_progress sv cd i)"
  unfolding ep_list_scans_def list_scans_def ep_get_scan_def get_scan_def ep_get_scan_progress_def get_progress_def
    scan_repo_list_by_tenant_def scan_event_repo_get_latest_progress_def
  by (auto intro!: endpoint_intros keeps_get_or_404)

end

section \<open>The relation\<close>

lemma hardens_refls:
  "key_hardens k k" "token_hardens r r" "link_hardens v v" "user_keeps u u" "member_keeps m m"
  by (simp_all add: key_hardens_def token_hardens_def link_hardens_def user_keeps_def member_keeps_def)

lemma hardens_trans:
  "key_hardens k k' \<Longrightarrow> key_hardens k' k'' \<Longrightarrow> key_hardens k k''"
  "token_hardens r r' \<Longrightarrow> token_hardens r' r'' \<Longrightarrow> token_hardens r r''"
  "link_hardens v v' \<Longrightarrow> link_hardens v' v'' \<Longrightarrow> link_hardens v v''"
  "user_keeps u u' \<Longrightarrow> user_keeps u' u'' \<Longrightarrow> user_keeps u u''"
  "member_keeps m m' \<Longrightarrow> member_keeps m' m'' \<Longrightarrow> member_keeps m m''"
  by (auto simp: key_hardens_def token_hardens_def link_hardens_def user_keeps_def member_keeps_def)

text \<open>What the platform can do to its database.\<close>

definition platform_evolves :: "db \<Rightarrow> db \<Rightarrow> bool" where
  "platform_evolves d d' \<longleftrightarrow> evolves d d' \<and> hardens d d'"

lemma platform_refl: "platform_evolves d d"
  by (simp add: platform_evolves_def evolves_refl hardens_def grows_refl hardens_refls)

lemma platform_trans: "platform_evolves d d' \<Longrightarrow> platform_evolves d' d'' \<Longrightarrow> platform_evolves d d''"
  unfolding platform_evolves_def hardens_def
  by (blast intro: evolves_trans grows_trans hardens_trans trans)

text \<open>A write of one side leaves the tables of the other as they are.\<close>

definition same_identity :: "db \<Rightarrow> db \<Rightarrow> bool" where
  "same_identity d d' \<longleftrightarrow> api_keys d' = api_keys d \<and> refresh_tokens d' = refresh_tokens d \<and>
     verification_tokens d' = verification_tokens d \<and> users d' = users d \<and> memberships d' = memberships d"

lemma same_identity_hardens:
  "same_identity d d' \<Longrightarrow> evolves d d' \<Longrightarrow> platform_evolves d d'"
  by (simp add: platform_evolves_def hardens_def same_identity_def evolves_def grows_refl hardens_refls)

lemma same_identity_writes:
  "same_identity d (update_scans P u t d)" "same_identity d (insert_scan s d)" "same_identity d (insert_outbox b d)"
  "same_identity d (insert_event e d)" "same_identity d (insert_audit v d)" "same_identity d (insert_finding f d)"
  "same_identity d (update_finding f g d)" "same_identity d (update_outbox i h d)"
  by (simp_all add: same_identity_def update_scans_def insert_scan_def insert_outbox_def insert_event_def
      insert_audit_def insert_finding_def update_finding_def update_outbox_def)

definition same_history :: "db \<Rightarrow> db \<Rightarrow> bool" where
  "same_history d d' \<longleftrightarrow> scans d' = scans d \<and> scan_events d' = scan_events d \<and>
     audit_events d' = audit_events d \<and> outbox d' = outbox d \<and> findings d' = findings d"

lemma same_history_evolves: "same_history d d' \<Longrightarrow> hardens d d' \<Longrightarrow> platform_evolves d d'"
  by (simp add: platform_evolves_def same_history_def evolves_def grows_refl evolve_refls)

lemma same_history_writes:
  "same_history d (insert_user u d)" "same_history d (update_user i f t d)" "same_history d (insert_membership m d)"
  "same_history d (update_memberships Q g d)" "same_history d (insert_refresh_token r d)"
  "same_history d (update_refresh_tokens T h d)" "same_history d (insert_verification_token v d)"
  "same_history d (update_verification_tokens L l d)" "same_history d (insert_api_key k d)"
  "same_history d (update_api_key k ku t d)"
  by (simp_all add: same_history_def insert_user_def update_user_def insert_membership_def update_memberships_def
      insert_refresh_token_def update_refresh_tokens_def insert_verification_token_def
      update_verification_tokens_def insert_api_key_def update_api_key_def)

lemma hardens_inserts:
  "hardens d (insert_user u d)" "hardens d (insert_membership m d)" "hardens d (insert_refresh_token r d)"
  "hardens d (insert_verification_token v d)" "hardens d (insert_api_key k d)"
  by (simp_all add: hardens_def insert_user_def insert_membership_def insert_refresh_token_def
      insert_verification_token_def insert_api_key_def grows_append grows_refl hardens_refls)

lemma hardens_updates:
  "(\<And>u t. user_keeps u ((f u)\<lparr>us_updated_at := t\<rparr>)) \<Longrightarrow> hardens d (update_user i f t d)"
  "(\<And>m. member_keeps m (g m)) \<Longrightarrow> hardens d (update_memberships Q g d)"
  "(\<And>r. token_hardens r (h r)) \<Longrightarrow> hardens d (update_refresh_tokens T h d)"
  "(\<And>v. link_hardens v (l v)) \<Longrightarrow> hardens d (update_verification_tokens L l d)"
  "ku_status ku \<in> {None, Some KeyRevoked} \<Longrightarrow> hardens d (update_api_key k ku t d)"
proof -
  have "key_hardens x ((set_api_key k ku x)\<lparr>ak_updated_at := t\<rparr>)" if "ku_status ku \<in> {None, Some KeyRevoked}" for x
    using that by (auto simp: key_hardens_def key_identity_def set_api_key_def set_col_def)
  then show "ku_status ku \<in> {None, Some KeyRevoked} \<Longrightarrow> hardens d (update_api_key k ku t d)"
    by (simp add: hardens_def update_api_key_def grows_update grows_refl hardens_refls)
qed (simp_all add: hardens_def update_user_def update_memberships_def update_refresh_tokens_def
      update_verification_tokens_def grows_update grows_refl hardens_refls)

lemma row_hardens:
  "member_keeps m ((set_membership l mu m)\<lparr>me_updated_at := t\<rparr>)"
  "token_hardens r (rotated_row new t r)" "token_hardens r (revoked_row t r)" "link_hardens v (consumed_row t v)"
  by (simp_all add: member_keeps_def membership_key_def set_membership_def token_hardens_def token_identity_def
      rotated_row_def revoked_row_def link_hardens_def consumed_row_def)

interpretation plat: identity_db_relation platform_evolves
proof (unfold_locales, goal_cases)
  case 2
  then show ?case by (rule platform_trans)
qed (auto intro: platform_refl same_identity_hardens same_identity_writes evolves_status evolves_claim
    evolves_inserts evolves_redetect evolves_job_update evolves_update_outbox published_row_evolves
    failed_attempt_row_evolves same_history_evolves same_history_writes hardens_inserts hardens_updates
    row_hardens)

section \<open>The system\<close>

text \<open>
  A call of the API.  The parts of a request are what the endpoint reads of it; the answer
  is dropped, the transaction of the request is around it.
\<close>

datatype api_call =
    Register register_request
  | Login http_request login_request
  | Refresh http_request string
  | Logout credentials http_request string
  | SwitchTenant credentials http_request uuid
  | Me credentials
  | ChangePassword credentials string string
  | RequestPasswordReset http_request string
  | ConfirmPasswordReset string string
  | RequestEmailVerification credentials
  | ConfirmEmailVerification string
  | ListSessions credentials
  | RevokeSession credentials uuid
  | RevokeAllSessions credentials
  | ListMemberships credentials pagination
  | AddMember credentials string membership_role
  | UpdateMembership credentials uuid membership_update
  | RemoveMember credentials uuid
  | CreateApiKey credentials http_request api_key_issue_request
  | ListApiKeys credentials pagination
  | RevokeApiKey credentials uuid
  | RotateApiKey credentials uuid
  | ListAuditEvents credentials pagination
  | PostScan credentials bool scan_create_request
  | ListScans credentials pagination "uuid option" "uuid option" "scan_status option"
  | GetScan credentials uuid
  | GetScanProgress credentials uuid
  | PostCancel credentials bool job_queue uuid
  | PostRetry credentials bool uuid

definition answered :: "'a prog \<Rightarrow> unit prog" where
  "answered m = thenE (request (bindE m (\<lambda>_. retE ()))) (retE ())"

fun api_prog :: "server \<Rightarrow> api_call \<Rightarrow> unit prog" where
  "api_prog sv (Register d) = answered (ep_register sv d)"
| "api_prog sv (Login rq d) = answered (ep_login sv rq d)"
| "api_prog sv (Refresh rq raw) = answered (ep_refresh sv rq raw)"
| "api_prog sv (Logout cd rq raw) = answered (ep_logout sv cd rq raw)"
| "api_prog sv (SwitchTenant cd rq tn) = answered (ep_switch_tenant sv cd rq tn)"
| "api_prog sv (Me cd) = answered (ep_me sv cd)"
| "api_prog sv (ChangePassword cd old new) = answered (ep_change_password sv cd old new)"
| "api_prog sv (RequestPasswordReset rq email) = answered (ep_request_password_reset sv rq email)"
| "api_prog sv (ConfirmPasswordReset raw new) = answered (ep_confirm_password_reset sv raw new)"
| "api_prog sv (RequestEmailVerification cd) = answered (ep_request_email_verification sv cd)"
| "api_prog sv (ConfirmEmailVerification raw) = answered (ep_confirm_email_verification sv raw)"
| "api_prog sv (ListSessions cd) = answered (ep_list_sessions sv cd)"
| "api_prog sv (RevokeSession cd i) = answered (ep_revoke_session sv cd i)"
| "api_prog sv (RevokeAllSessions cd) = answered (ep_revoke_all_sessions sv cd)"
| "api_prog sv (ListMemberships cd p) = answered (ep_list_memberships sv cd p)"
| "api_prog sv (AddMember cd email role) = answered (ep_add_member sv cd email role)"
| "api_prog sv (UpdateMembership cd i u) = answered (ep_update_membership sv cd i u)"
| "api_prog sv (RemoveMember cd i) = answered (ep_remove_member sv cd i)"
| "api_prog sv (CreateApiKey cd rq d) = answered (ep_create_api_key sv cd rq d)"
| "api_prog sv (ListApiKeys cd p) = answered (ep_list_api_keys sv cd p)"
| "api_prog sv (RevokeApiKey cd i) = answered (ep_revoke_api_key sv cd i)"
| "api_prog sv (RotateApiKey cd i) = answered (ep_rotate_api_key sv cd i)"
| "api_prog sv (ListAuditEvents cd p) = answered (ep_list_audit_events sv cd p)"
| "api_prog sv (PostScan cd sync d) = answered (ep_create_scan sv cd sync d)"
| "api_prog sv (ListScans cd p a pr st) = answered (ep_list_scans sv cd p a pr st)"
| "api_prog sv (GetScan cd i) = answered (ep_get_scan sv cd i)"
| "api_prog sv (GetScanProgress cd i) = answered (ep_get_scan_progress sv cd i)"
| "api_prog sv (PostCancel cd sync q i) = answered (ep_cancel_scan sv cd sync q i)"
| "api_prog sv (PostRetry cd sync i) = answered (ep_retry_scan sv cd sync i)"

datatype session =
    Api server api_call
  | Worker engine uuid uuid string
  | Dispatcher job_queue "nat \<Rightarrow> uuid set" nat

fun session_prog :: "session \<Rightarrow> unit prog" where
  "session_prog (Api sv c) = api_prog sv c"
| "session_prog (Worker en tn i worker) = scan_task en i tn worker"
| "session_prog (Dispatcher q locked batch) = thenE (dispatch_pending_outbox q locked batch) (retE ())"

text \<open>
  A session starts on the committed database with nothing pending, with any clock, any
  identifiers still to be drawn and any contents of Redis.
\<close>

definition fresh :: "db \<Rightarrow> world \<Rightarrow> bool" where
  "fresh d w \<longleftrightarrow> w_db w = d \<and> w_pend w = (\<lambda>x. x) \<and> w_objs w = (\<lambda>_. None) \<and>
     (\<forall>e\<in>set (w_script w). \<forall>d. platform_evolves d (ext_db e d))"

inductive platform_step :: "db \<Rightarrow> db \<Rightarrow> bool" where
  platform_session: "fresh d w \<Longrightarrow> session_prog s w = (r, w') \<Longrightarrow> platform_step d (w_db w')"

inductive platform_reach :: "db \<Rightarrow> db \<Rightarrow> bool" where
  platform_start: "platform_reach d d"
| platform_next: "platform_reach d d' \<Longrightarrow> platform_step d' d'' \<Longrightarrow> platform_reach d d''"

inductive_cases platform_stepE: "platform_step d d'"

lemma fresh_safe: "fresh d w \<Longrightarrow> safe platform_evolves (\<lambda>_. True) w"
  by (simp add: fresh_def safe_def able_def rely_def pending_ok_def objs_ok_def platform_refl)

lemma keeps_answered: "plat.kept m \<Longrightarrow> plat.kept (answered m)"
  unfolding answered_def by (intro plat.keeps_thenE plat.keeps_request plat.keeps_bindE plat.keeps_retE)

lemma keeps_api: "plat.kept (api_prog sv c)"
  by (cases c)
    (simp_all add: keeps_answered plat.keeps_auth_endpoints plat.keeps_session_endpoints
      plat.keeps_member_endpoints plat.keeps_key_endpoints plat.keeps_scan_endpoints plat.keeps_scan_reads)

lemma keeps_session: "plat.kept (session_prog s)"
  by (cases s)
    (simp_all add: keeps_api plat.keeps_scan_task plat.keeps_thenE plat.keeps_dispatch_pending plat.keeps_retE)

lemma platform_step_evolves: "platform_step d d' \<Longrightarrow> platform_evolves d d'"
proof (erule platform_stepE)
  fix w s r w' assume f: "fresh d w" and run: "session_prog s w = (r, w')" and d': "d' = w_db w'"
  from plat.keepsD [OF keeps_session fresh_safe [OF f], of s] f run d' show "platform_evolves d d'"
    by (simp add: fresh_def)
qed

lemma platform_reach_evolves: "platform_reach d d' \<Longrightarrow> platform_evolves d d'"
  by (induction rule: platform_reach.induct) (auto intro: platform_refl platform_trans platform_step_evolves)

end
