(* ===== verification/Platform_Properties.thy ===== *)
theory Platform_Properties
  imports Platform Access_Scenarios Principal_Outcomes
begin

text \<open>
  What holds of the platform under every interleaving of its sessions: the history of its
  tables, and that spent and withdrawn credentials are never good again; and the one
  withdrawal that can be undone, a user's token version.
\<close>

section \<open>Rows over time\<close>

text \<open>The first row that a stable condition selects stays the first.\<close>

lemma grows_select:
  assumes g: "grows Q xs ys" and P: "\<And>a b. Q a b \<Longrightarrow> P b = P a" and s: "select_one P xs = Some r"
  shows "\<exists>r'. select_one P ys = Some r' \<and> Q r r'"
proof -
  have "\<exists>r'. select_one P zs = Some r' \<and> Q r r'" if "list_all2 Q xs zs" for zs
    using that s by (induction rule: list_all2_induct) (auto simp: P split: if_splits)
  then obtain r' where r': "select_one P (take (length xs) ys) = Some r'" "Q r r'"
    using g by (auto simp: grows_def)
  from select_one_snoc_old [OF r'(1), of "drop (length xs) ys"] r'(2) show ?thesis by auto
qed

lemma grows_same: "grows (=) xs ys \<longleftrightarrow> (\<exists>zs. ys = xs @ zs)"
proof
  assume "grows (=) xs ys"
  then have "xs = take (length xs) ys" by (simp add: grows_def list.rel_eq)
  then show "\<exists>zs. ys = xs @ zs" by (metis append_take_drop_id)
qed (auto simp: grows_append)

text \<open>C4 (the platform's history): whatever sessions run and however they interleave, API keys keep what they
  were issued with and a key that is not active stays so; refresh tokens keep their owner,
  family and secret and a token that was rotated or revoked is never active again; links
  once used stay used; users and memberships stay what they are for; scans evolve along the
  state machine; and the audit log only grows.\<close>

theorem platform_history:
  assumes "platform_reach d d'"
  shows "(\<forall>k\<in>set (api_keys d). \<exists>k'\<in>set (api_keys d'). key_identity k' = key_identity k \<and>
      (ak_status k \<noteq> KeyActive \<longrightarrow> ak_status k' \<noteq> KeyActive)) \<and>
    (\<forall>r\<in>set (refresh_tokens d). \<exists>r'\<in>set (refresh_tokens d'). token_identity r' = token_identity r \<and>
      (rt_status r \<noteq> TokenActive \<longrightarrow> rt_status r' \<noteq> TokenActive)) \<and>
    (\<forall>v\<in>set (verification_tokens d). \<exists>v'\<in>set (verification_tokens d'). vt_id v' = vt_id v \<and>
      vt_hashed_token v' = vt_hashed_token v \<and> (vt_consumed_at v \<noteq> None \<longrightarrow> vt_consumed_at v' \<noteq> None)) \<and>
    (\<forall>u\<in>set (users d). \<exists>u'\<in>set (users d'). us_id u' = us_id u \<and> us_email u' = us_email u) \<and>
    (\<forall>m\<in>set (memberships d). \<exists>m'\<in>set (memberships d'). me_id m' = me_id m \<and> membership_key m' = membership_key m) \<and>
    (\<forall>s\<in>set (scans d). \<exists>s'\<in>set (scans d'). scan_identity s' = scan_identity s \<and>
      status_path (sc_status s) (sc_status s')) \<and>
    (\<exists>new. audit_events d' = audit_events d @ new)"
proof -
  note e = platform_reach_evolves [OF assms]
  then have h: "grows key_hardens (api_keys d) (api_keys d')" "grows token_hardens (refresh_tokens d) (refresh_tokens d')"
    "grows link_hardens (verification_tokens d) (verification_tokens d')" "grows user_keeps (users d) (users d')"
    "grows member_keeps (memberships d) (memberships d')" "grows scan_evolves (scans d) (scans d')"
    "grows (=) (audit_events d) (audit_events d')"
    by (simp_all add: platform_evolves_def hardens_def evolves_def)
  show ?thesis
  proof (intro conjI ballI)
    show "\<exists>k'\<in>set (api_keys d'). key_identity k' = key_identity k \<and> (ak_status k \<noteq> KeyActive \<longrightarrow> ak_status k' \<noteq> KeyActive)"
      if "k \<in> set (api_keys d)" for k
      using grows_memD [OF h(1) that] by (force simp: key_hardens_def)
    show "\<exists>r'\<in>set (refresh_tokens d'). token_identity r' = token_identity r \<and>
        (rt_status r \<noteq> TokenActive \<longrightarrow> rt_status r' \<noteq> TokenActive)"
      if "r \<in> set (refresh_tokens d)" for r
      using grows_memD [OF h(2) that] by (force simp: token_hardens_def)
    show "\<exists>v'\<in>set (verification_tokens d'). vt_id v' = vt_id v \<and> vt_hashed_token v' = vt_hashed_token v \<and>
        (vt_consumed_at v \<noteq> None \<longrightarrow> vt_consumed_at v' \<noteq> None)"
      if "v \<in> set (verification_tokens d)" for v
      using grows_memD [OF h(3) that] by (force simp: link_hardens_def)
    show "\<exists>u'\<in>set (users d'). us_id u' = us_id u \<and> us_email u' = us_email u" if "u \<in> set (users d)" for u
      using grows_memD [OF h(4) that] by (force simp: user_keeps_def)
    show "\<exists>m'\<in>set (memberships d'). me_id m' = me_id m \<and> membership_key m' = membership_key m"
      if "m \<in> set (memberships d)" for m
      using grows_memD [OF h(5) that] by (force simp: member_keeps_def)
    show "\<exists>s'\<in>set (scans d'). scan_identity s' = scan_identity s \<and> status_path (sc_status s) (sc_status s')"
      if "s \<in> set (scans d)" for s
      using grows_memD [OF h(6) that] by (force simp: scan_evolves_def)
    show "\<exists>new. audit_events d' = audit_events d @ new" using h(7) by (simp add: grows_same)
  qed
qed

text \<open>A session that starts where nothing ran before.\<close>

definition web_server :: server where
  "web_server = \<lparr>sv_settings = default_settings, sv_crypto = demo_crypto\<rparr>"

definition web_request :: http_request where
  "web_request = \<lparr>hr_forwarded_for = None, hr_client_host = Some ''10.0.0.1'', hr_user_agent = None\<rparr>"

lemma fresh_start: "fresh d (start_world d t [] ids)"
  by (simp add: fresh_def start_world_def)

theorem platform_history_witness:
  "\<exists>new. audit_events (w_db (snd (session_prog (Api web_server (Refresh web_request ''raw''))
      (start_world access_db 200 [] (access_ids_from 100))))) = audit_events access_db @ new"
proof -
  let ?s = "Api web_server (Refresh web_request ''raw'')"
  have "platform_step access_db (w_db (snd (session_prog ?s (start_world access_db 200 [] (access_ids_from 100)))))"
    by (rule platform_session [OF fresh_start, where s = ?s]) (rule prod.collapse [symmetric])
  from platform_history [OF platform_next [OF platform_start this]] show ?thesis by blast
qed

section \<open>Spent credentials\<close>

lemma query_view: "query q w = (Inr r, w') \<Longrightarrow> r = q (view w')"
  by (auto simp: query_def thenE_def bindE_def split: prod.splits sum.splits if_splits)

lemma safe_view: "safe platform_evolves own w \<Longrightarrow> platform_evolves (w_db w) (view w)"
  by (simp add: safe_def able_def pending_ok_def view_def)

text \<open>What a session reads is what became of the committed database.\<close>

lemma query_evolves:
  assumes "safe platform_evolves (\<lambda>_. True) w" "query q w = (Inr r, w')"
  shows "\<exists>d. platform_evolves (w_db w) d \<and> r = q d"
proof -
  have "platform_evolves (w_db w) (w_db w')" "safe platform_evolves (\<lambda>_. True) w'"
    using plat.keeps_safe [OF plat.keeps_query assms(1), of q] assms(2) by simp_all
  then show ?thesis using safe_view query_view [OF assms(2)] platform_trans by blast
qed

lemma find_prefix_evolves:
  assumes "platform_evolves d d'" "find_prefix p d = Some k"
  shows "\<exists>k'. find_prefix p d' = Some k' \<and> key_hardens k k'"
  using assms grows_select [of key_hardens "api_keys d" "api_keys d'" "\<lambda>k. ak_prefix k = p" k]
  by (auto simp: platform_evolves_def hardens_def find_prefix_def key_hardens_def key_identity_def)

lemma find_refresh_token_evolves:
  assumes "platform_evolves d d'" "find_refresh_token h d = Some r"
  shows "\<exists>r'. find_refresh_token h d' = Some r' \<and> token_hardens r r'"
  using assms grows_select [of token_hardens "refresh_tokens d" "refresh_tokens d'" "\<lambda>r. rt_hashed_token r = h" r]
  by (auto simp: platform_evolves_def hardens_def find_refresh_token_def token_hardens_def token_identity_def)

lemma bindE_Inr:
  "bindE m f w = (Inr y, w') \<Longrightarrow> \<exists>x w1. m w = (Inr x, w1) \<and> f x w1 = (Inr y, w')"
  by (auto simp: bindE_def split: prod.splits sum.splits)

lemma thenE_Inr:
  "thenE m k w = (Inr y, w') \<Longrightarrow> \<exists>x w1. m w = (Inr x, w1) \<and> k w1 = (Inr y, w')"
  by (auto simp: thenE_def dest: bindE_Inr)

lemma dead_key:
  assumes s: "safe platform_evolves (\<lambda>_. True) w" and k: "find_prefix p (w_db w) = Some k" "ak_status k \<noteq> KeyActive"
    and p: "CHR ''.'' \<notin> set p"
  shows "authenticate cy (p @ ''.'' @ secret) w \<noteq> (Inr (Some k'), w')"
proof
  assume run: "authenticate cy (p @ ''.'' @ secret) w = (Inr (Some k'), w')"
  have "split_key (p @ ''.'' @ secret) = Some (p, secret)"
    using p by (auto simp: split_key_def takeWhile_append dropWhile_append)
  with bindE_Inr [of "api_key_repo_get_by_prefix p"] run obtain found w1
    where q: "query (find_prefix p) w = (Inr found, w1)" and
      rest: "(case found of None \<Rightarrow> retE None | Some k \<Rightarrow>
     if ak_status k \<noteq> KeyActive then retE None else
     bindE now (\<lambda>t.
     if (case ak_expires_at k of None \<Rightarrow> False | Some e \<Rightarrow> e \<le> t) then retE None else
     if ak_hashed_secret k \<noteq> hash_secret cy secret then retE None else
     bindE now (\<lambda>t'.
     bindE (api_key_repo_update k \<lparr>ku_status = None, ku_revoked_at = None, ku_last_used_at = Some t'\<rparr>)
       (\<lambda>k'. retE (Some k'))))) w1 = (Inr (Some k'), w')"
    by (fastforce simp: authenticate_def api_key_repo_get_by_prefix_def)
  from query_evolves [OF s q] find_prefix_evolves k(1)
  obtain x where "found = Some x" "key_hardens k x" by metis
  with rest k(2) show False by (auto simp: key_hardens_def retE_def split: if_splits)
qed

lemma dead_token:
  assumes s: "safe platform_evolves (\<lambda>_. True) w"
    and r: "find_refresh_token (hash_secret cy raw) (w_db w) = Some r" "rt_status r \<noteq> TokenActive"
  shows "refresh st cy raw cx w \<noteq> (Inr tp, w')"
proof
  assume run: "refresh st cy raw cx w = (Inr tp, w')"
  from bindE_Inr [OF run [unfolded refresh_def refresh_repo_get_by_hashed_token_def]]
  obtain found w1 where q: "query (find_refresh_token (hash_secret cy raw)) w = (Inr found, w1)"
    and rest: "(case found of None \<Rightarrow> raiseE refresh_token_invalid | Some r \<Rightarrow>
    if rt_status r = TokenRotated then
      bindE (refresh_repo_revoke_family (rt_family_id r)) (\<lambda>_.
      thenE (record_audit (reuse_event r cx))
      (thenE commit (raiseE (exc RefreshTokenReuseDetectedError []))))
    else bindE now (\<lambda>t.
    if rt_status r = TokenRevoked \<or> rt_expires_at r \<le> t then raiseE refresh_token_invalid else
    bindE (user_repo_get_by_id (rt_user_id r)) (\<lambda>user.
    case user of None \<Rightarrow> raiseE refresh_token_invalid | Some u \<Rightarrow>
    if us_status u \<noteq> UserActive then raiseE refresh_token_invalid else
    bindE (membership_repo_get_by_tenant_and_user (rt_tenant_id r) (us_id u)) (\<lambda>member.
    case member of None \<Rightarrow> raiseE refresh_token_invalid | Some m \<Rightarrow>
    if me_status m \<noteq> MemberActive then raiseE refresh_token_invalid else
    bindE (generate_secret cy 32) (\<lambda>raw'.
    bindE (build_refresh_token_create st cy (rt_tenant_id r) (us_id u) (rt_family_id r) raw' cx) (\<lambda>c.
    thenE (bindE (refresh_repo_rotate r c) (\<lambda>_. retE ()))
    (bindE (create_access_token st cy u (rt_tenant_id r) (me_role m)) (\<lambda>acc.
    retE (token_pair_of st acc raw'))))))))) w1 = (Inr tp, w')" by blast
  from query_evolves [OF s q] find_refresh_token_evolves r(1)
  obtain x where x: "found = Some x" "token_hardens r x" by metis
  with r(2) have "rt_status x \<noteq> TokenActive" by (simp add: token_hardens_def)
  then consider "rt_status x = TokenRotated" | "rt_status x = TokenRevoked" by (cases "rt_status x") auto
  then show False
    by cases (use rest x(1) in \<open>auto simp: raiseE_def dest!: bindE_Inr thenE_Inr\<close>)
qed

text \<open>C5 (withdrawn keys): a request with the secret of a key that is not active any more is refused, in every
  session that starts at any later time, whatever ran in between and whatever runs beside
  it.\<close>

theorem withdrawn_key_stays_dead:
  assumes k: "find_prefix p d = Some k" "ak_status k \<noteq> KeyActive" "CHR ''.'' \<notin> set p"
    and later: "platform_reach d d'" "fresh d' w" and cd: "cd_api_key cd = Some (p @ ''.'' @ secret)"
  shows "principal_of sv cd w \<noteq> (Inr pn, w')"
proof
  assume run: "principal_of sv cd w = (Inr pn, w')"
  from find_prefix_evolves [OF platform_reach_evolves [OF later(1)] k(1)]
  obtain k' where k': "find_prefix p d' = Some k'" "key_hardens k k'" by blast
  with k(2) have "ak_status k' \<noteq> KeyActive" by (auto simp: key_hardens_def)
  moreover have "find_prefix p (w_db w) = Some k'" using k'(1) later(2) by (simp add: fresh_def)
  ultimately have dead: "authenticate (sv_crypto sv) (p @ ''.'' @ secret) w \<noteq> (Inr (Some x), w1)" for x w1
    using dead_key [OF fresh_safe [OF later(2)] _ _ k(3)] by blast
  from run cd have "principal_from_api_key (sv_crypto sv) (p @ ''.'' @ secret) w = (Inr pn, w')"
    by (simp add: principal_of_def get_current_principal_def)
  from bindE_Inr [OF this [unfolded principal_from_api_key_def]] dead show False
    by (auto simp: raiseE_def split: option.splits)
qed

definition withdrawn_key :: api_key where
  "withdrawn_key = \<lparr>ak_id = 12, ak_tenant_id = 2, ak_user_id = Some 7, ak_name = ''ci'', ak_prefix = ''sx_p'',
     ak_hashed_secret = hash_secret demo_crypto ''s'', ak_scopes = [''scans:view''], ak_status = KeyRevoked,
     ak_expires_at = None, ak_last_used_at = None, ak_revoked_at = Some 100, ak_created_at = 1, ak_updated_at = 100\<rparr>"

theorem withdrawn_key_stays_dead_witness:
  "\<nexists>pn w'. principal_of web_server \<lparr>cd_api_key = Some ''sx_p.s'', cd_bearer = None\<rparr>
     (start_world (access_db\<lparr>api_keys := [withdrawn_key]\<rparr>) 200 [] (access_ids_from 100)) = (Inr pn, w')"
proof -
  have k: "find_prefix ''sx_p'' (access_db\<lparr>api_keys := [withdrawn_key]\<rparr>) = Some withdrawn_key"
    by (simp add: find_prefix_def withdrawn_key_def)
  have "ak_status withdrawn_key \<noteq> KeyActive" "CHR ''.'' \<notin> set ''sx_p''" by (simp_all add: withdrawn_key_def)
  from withdrawn_key_stays_dead [OF k this platform_start fresh_start,
      of "\<lparr>cd_api_key = Some ''sx_p.s'', cd_bearer = None\<rparr>" "''s''"]
  show ?thesis by simp
qed

text \<open>C7 (spent tokens): a refresh with a token that was rotated or revoked is refused, in every session
  that starts at any later time, whatever ran in between and whatever runs beside it.\<close>

theorem spent_token_stays_dead:
  assumes r: "find_refresh_token (hash_secret (sv_crypto sv) raw) d = Some r" "rt_status r \<noteq> TokenActive"
    and later: "platform_reach d d'" "fresh d' w"
  shows "ep_refresh sv rq raw w \<noteq> (Inr tp, w')"
proof
  assume run: "ep_refresh sv rq raw w = (Inr tp, w')"
  from thenE_Inr [OF run [unfolded ep_refresh_def]] obtain u w1
    where l: "rate_limit ''refresh'' (st_rate_limit_refresh_per_minute (sv_settings sv)) 60 rq w = (Inr u, w1)"
      and f: "refresh (sv_settings sv) (sv_crypto sv) raw (request_context_of rq) w1 = (Inr tp, w')" by blast
  have m: "platform_evolves (w_db w) (w_db w1)" "safe platform_evolves (\<lambda>_. True) w1"
    using plat.keeps_safe [OF plat.keeps_rate_limit fresh_safe [OF later(2)]] l by (metis snd_conv)+
  have "platform_evolves d (w_db w1)"
    using platform_trans [OF platform_reach_evolves [OF later(1)]] m(1) later(2) by (simp add: fresh_def)
  from find_refresh_token_evolves [OF this r(1)] obtain r'
    where "find_refresh_token (hash_secret (sv_crypto sv) raw) (w_db w1) = Some r'" "token_hardens r r'" by blast
  with r(2) dead_token [OF m(2)] f show False by (auto simp: token_hardens_def)
qed

definition used_token :: refresh_token where
  "used_token = rotated_row 11 150 demo_token"

theorem spent_token_stays_dead_witness:
  "\<nexists>tp w'. ep_refresh web_server web_request ''raw''
     (start_world (access_db\<lparr>refresh_tokens := [used_token]\<rparr>) 200 [] (access_ids_from 100)) = (Inr tp, w')"
proof -
  have r: "find_refresh_token (hash_secret (sv_crypto web_server) ''raw'') (access_db\<lparr>refresh_tokens := [used_token]\<rparr>) =
      Some used_token"
    by (simp add: find_refresh_token_def web_server_def used_token_def rotated_row_def demo_token_def)
  have "rt_status used_token \<noteq> TokenActive" by (simp add: used_token_def rotated_row_def)
  from spent_token_stays_dead [OF r this platform_start fresh_start] show ?thesis by simp
qed

section \<open>Token versions\<close>

lemma find_user_update:
  assumes "find_user i d = Some x" "\<And>u. us_id (f u) = us_id u"
  shows "find_user i (update_user i f t d) = Some ((f x)\<lparr>us_updated_at := t\<rparr>)"
proof -
  have "select_one (\<lambda>u. us_id u = i) (update_where (\<lambda>u. us_id u = i) (\<lambda>u. (f u)\<lparr>us_updated_at := t\<rparr>) xs) =
      map_option (\<lambda>u. (f u)\<lparr>us_updated_at := t\<rparr>) (select_one (\<lambda>u. us_id u = i) xs)" for xs
    by (induction xs) (auto simp: update_where_def assms(2))
  with assms(1) show ?thesis by (simp add: find_user_def update_user_def)
qed

lemma revoke_all_run:
  assumes w: "quiet w" and x: "find_user (us_id u) (view w) = Some x" and ok: "user_checks (bump_version u u)"
  shows "revoke_all_sessions u w = (Inr (), after w 0 (\<lambda>d. update_user (us_id u) (bump_version u) (w_clock w)
    (revoke_db (\<lambda>r. rt_user_id r = us_id u) (w_clock w) (view w) d)))"
proof -
  have ne: "bump_version u u \<noteq> u" by (cases u) (simp add: bump_version_def)
  have "\<exists>r\<in>set (users (view w)). us_id r = us_id u" using find_user_SomeD [OF x] by auto
  moreover have "users (revoke_db P t v d) = users d" for P t v d by (simp add: revoke_db_def)
  ultimately show ?thesis
    using w ok ne
    by (simp add: revoke_all_sessions_def refresh_repo_revoke_all_for_user_def user_repo_bump_token_version_def
        flush_user_def runs)
qed

text \<open>Token versions: the version of a user's access tokens is written as one more than what the session
  had read.  When others withdrew the user's tokens twice in the meantime, the third
  withdrawal takes the version back, and tokens that were withdrawn are accepted again.\<close>

theorem token_version_goes_back:
  assumes w: "quiet w" and x: "find_user (us_id u) (view w) = Some x" "us_status x = UserActive"
    and ok: "user_checks (bump_version u u)" and older: "us_token_version u + 1 < us_token_version x"
    and p: "claimed_user p = Some (us_id u)" "map_of p ''ver'' = Some (JInt (us_token_version u + 1))"
  shows "get_current_user p w = (Inl (unauthorized ''Token has been invalidated''), w) \<and>
    (\<exists>w' x'. request (revoke_all_sessions u) w = (Inr (), w') \<and> get_current_user p w' = (Inr x', w') \<and>
      find_user (us_id u) (w_db w') = Some x' \<and> us_token_version x' < us_token_version x)"
proof
  show "get_current_user p w = (Inl (unauthorized ''Token has been invalidated''), w)"
    using w x older p by (simp add: get_current_user_def claimed_user_def user_repo_get_by_id_def runs)
  let ?f = "\<lambda>d. update_user (us_id u) (bump_version u) (w_clock w)
    (revoke_db (\<lambda>r. rt_user_id r = us_id u) (w_clock w) (view w) d)"
  let ?w = "committed (after w 0 ?f)" and ?x = "(bump_version u x)\<lparr>us_updated_at := w_clock w\<rparr>"
  have run: "request (revoke_all_sessions u) w = (Inr (), ?w)"
    by (rule request_returns [of "revoke_all_sessions u", OF revoke_all_run [OF w x(1) ok]]) (simp add: w)
  have "find_user (us_id u) (revoke_db P t v d) = find_user (us_id u) d" for P t v d
    by (simp add: revoke_db_def find_user_def)
  then have f: "find_user (us_id u) (view ?w) = Some ?x"
    using x(1) by (simp add: find_user_update bump_version_def)
  have "session_user p (view ?w) ?x"
    using f p x(2) by (simp add: session_user_def bump_version_def)
  from current_user_run [OF _ this] w have "get_current_user p ?w = (Inr ?x, ?w)" by simp
  with run f older show "\<exists>w' x'. request (revoke_all_sessions u) w = (Inr (), w') \<and> get_current_user p w' = (Inr x', w') \<and>
      find_user (us_id u) (w_db w') = Some x' \<and> us_token_version x' < us_token_version x"
    by (intro exI [of _ ?w] exI [of _ ?x]) (simp add: bump_version_def)
qed

definition later_user :: user where
  "later_user = demo_user\<lparr>us_token_version := 2\<rparr>"

definition later_world :: world where
  "later_world = start_world (access_db\<lparr>users := [later_user]\<rparr>) 200 [] (access_ids_from 100)"

theorem token_version_goes_back_witness:
  "\<exists>w' x'. request (revoke_all_sessions demo_user) later_world = (Inr (), w') \<and>
    get_current_user [(''sub'', JStr (uuid_str 7)), (''ver'', JInt 1)] w' = (Inr x', w') \<and>
    us_token_version x' < us_token_version later_user"
proof -
  have w: "quiet later_world" by (simp add: later_world_def)
  have x: "find_user (us_id demo_user) (view later_world) = Some later_user" "us_status later_user = UserActive"
    by (simp_all add: later_world_def later_user_def find_user_def demo_user_def)
  have ok: "user_checks (bump_version demo_user demo_user)"
    by (simp add: user_checks_def bump_version_def demo_user_def max_len_def)
  have older: "us_token_version demo_user + 1 < us_token_version later_user"
    by (simp add: later_user_def demo_user_def)
  let ?p = "[(''sub'', JStr (uuid_str 7)), (''ver'', JInt 1)]"
  have p: "claimed_user ?p = Some (us_id demo_user)" "map_of ?p ''ver'' = Some (JInt (us_token_version demo_user + 1))"
    by (simp_all add: claimed_user_def str_claim_def demo_user_def)
  from token_version_goes_back [OF w x ok older p] show ?thesis by blast
qed

end
