(* ===== verification/Application.thy ===== *)
theory Application
  imports Endpoints Project_Repositories
begin

text \<open>
  The rest of the application shell that decides something: the security headers
  (\<open>core/security_headers.py\<close>), the health endpoints (\<open>api/v1/endpoints/health.py\<close>) and the
  development seed (\<open>db/seed.py\<close>).
\<close>

section \<open>Security headers\<close>

type_synonym headers = "(string \<times> string) list"

definition set_header :: "string \<Rightarrow> string \<Rightarrow> headers \<Rightarrow> headers" where
  "set_header k v hs = AList.update k v hs"

definition add_security_headers :: "settings \<Rightarrow> string \<Rightarrow> headers \<Rightarrow> headers" where
  "add_security_headers st scheme hs =
    (if \<not> st_security_headers_enabled st then hs
     else let hs1 = set_header ''Content-Security-Policy'' (st_security_csp_policy st)
                (set_header ''Referrer-Policy'' ''strict-origin-when-cross-origin''
                (set_header ''X-Frame-Options'' ''DENY''
                (set_header ''X-Content-Type-Options'' ''nosniff'' hs)))
          in if scheme = ''https''
             then set_header ''Strict-Transport-Security''
               (''max-age='' @ int_str (st_security_hsts_max_age_seconds st) @ ''; includeSubDomains'') hs1
             else hs1)"

section \<open>Health\<close>

record health_response =
  he_status :: string
  he_service :: string
  he_environment :: string
  he_timestamp :: int

record readiness_response =
  re_status :: string
  re_database :: string
  re_redis :: string
  re_timestamp :: int

definition health :: "settings \<Rightarrow> health_response prog" where
  "health st = bindE now (\<lambda>t. retE \<lparr>he_status = ''ok'', he_service = st_project_name st,
     he_environment = st_environment st, he_timestamp = t\<rparr>)"

definition probe :: "string \<Rightarrow> unit prog \<Rightarrow> string prog" where
  "probe warning m = tryE (thenE m (retE ''ok''))
     (\<lambda>e. if is_exception e then thenE (emit (Log warning)) (retE ''unavailable'') else raiseE e)"

text \<open>Whether Redis answers the ping is the environment's choice, the parameter \<open>ping\<close>.\<close>

definition readiness :: "unit outcome \<Rightarrow> readiness_response prog" where
  "readiness ping =
    bindE (probe ''readiness_check.database_unavailable'' (query (\<lambda>_. ()))) (\<lambda>db_status.
    bindE (probe ''readiness_check.redis_unavailable'' (of_outcome ping)) (\<lambda>redis_status.
    bindE now (\<lambda>t.
    retE \<lparr>re_status = (if db_status = ''ok'' \<and> redis_status = ''ok'' then ''ok'' else ''degraded''),
      re_database = db_status, re_redis = redis_status, re_timestamp = t\<rparr>)))"

section \<open>Development seed\<close>

definition system_exit :: "string \<Rightarrow> pyexc" where
  "system_exit msg = \<lparr>ex_class = BaseOnly, ex_name = ''SystemExit'', ex_message = msg\<rparr>"

text \<open>Reuse the row a lookup finds, or create it.\<close>

definition ensure_row :: "string \<Rightarrow> 'a option prog \<Rightarrow> 'a prog \<Rightarrow> 'a prog" where
  "ensure_row label lookup create =
    bindE lookup (\<lambda>found.
    case found of
      None \<Rightarrow> bindE create (\<lambda>r. thenE (emit (Log (''seed.'' @ label @ ''_created''))) (retE r))
    | Some r \<Rightarrow> thenE (emit (Log (''seed.'' @ label @ ''_exists''))) (retE r))"

definition seed_tenant :: tenant_create where
  "seed_tenant = \<lparr>tc_name = ''SentinelX Dev Tenant (seed data)'', tc_slug = ''sentinelx-dev''\<rparr>"

definition seed_user :: user_create where
  "seed_user = \<lparr>uc_email = ''dev-seed@sentinelx.local'', uc_display_name = ''SentinelX Dev Seed User''\<rparr>"

definition seed_project :: "uuid \<Rightarrow> project_create" where
  "seed_project tn = \<lparr>pc_tenant_id = tn, pc_name = ''Sample Project (seed data)'',
     pc_slug = ''sample-project'', pc_description = None\<rparr>"

definition seed :: "settings \<Rightarrow> unit prog" where
  "seed st =
    (if st_environment st = ''production''
     then raiseE (system_exit ''Refusing to seed: ENVIRONMENT=production'') else
     bindE (ensure_row ''tenant'' (tenant_repo_get_by_slug (tc_slug seed_tenant))
       (bindE (liftE (check_tenant_create seed_tenant)) tenant_repo_create)) (\<lambda>t.
     bindE (ensure_row ''user'' (user_repo_get_by_email (uc_email seed_user))
       (user_repo_create (check_user_create seed_user))) (\<lambda>u.
     bindE (ensure_row ''membership'' (membership_repo_get_by_tenant_and_user (te_id t) (us_id u))
       (membership_repo_create \<lparr>mc_tenant_id = te_id t, mc_user_id = us_id u, mc_role = OWNER\<rparr>)) (\<lambda>m.
     bindE (ensure_row ''project'' (project_repo_get_by_slug (te_id t) (pc_slug (seed_project (te_id t))))
       (bindE (liftE (check_project_create (seed_project (te_id t)))) project_repo_create)) (\<lambda>p.
     thenE commit (emit (Log ''seed.completed'')))))))"

end
