(* ===== verification/Task_Queues.thy ===== *)
theory Task_Queues
  imports Configuration Scan_System "HOL-Library.Multiset"
begin

text \<open>
  The Celery application of \<open>workers/celery_app.py\<close>, the processes that
  \<open>docker-compose.yml\<close> and \<open>infrastructure/kubernetes\<close> start, and the broker between them.
  Of Celery the model has what it documents: a task is published to the queue the caller
  names and otherwise to the default queue \<open>celery\<close>; a worker consumes the queues of its
  \<open>-Q\<close> option, without one those of \<open>task_queues\<close>, and without either the default queue; beat
  publishes the task of each entry of its schedule.
\<close>

section \<open>The application\<close>

record celery_config =
  cc_main :: string
  cc_broker :: string
  cc_backend :: string
  cc_include :: "string list"
  cc_task_always_eager :: bool
  cc_task_serializer :: string
  cc_result_serializer :: string
  cc_accept_content :: "string list"
  cc_timezone :: string
  cc_enable_utc :: bool
  cc_task_track_started :: bool
  cc_worker_max_tasks_per_child :: int
  cc_task_queues :: "string list option"
  cc_beat_schedule :: "(string \<times> string \<times> rat) list"  \<comment> \<open>entry, task, seconds\<close>

definition dispatch_task_name :: string where
  "dispatch_task_name = ''app.workers.tasks.outbox_dispatcher.dispatch_pending_outbox''"

definition celery_app :: "app_settings \<Rightarrow> celery_config" where
  "celery_app st = \<lparr>cc_main = ''sentinelx'', cc_broker = st_celery_broker_url st,
     cc_backend = st_celery_result_backend st,
     cc_include = [''app.workers.tasks.scan_tasks'', ''app.workers.tasks.outbox_dispatcher''],
     cc_task_always_eager = st_celery_task_always_eager st, cc_task_serializer = ''json'',
     cc_result_serializer = ''json'', cc_accept_content = [''json''], cc_timezone = ''UTC'',
     cc_enable_utc = True, cc_task_track_started = True, cc_worker_max_tasks_per_child = 200,
     cc_task_queues = None,
     cc_beat_schedule = [(''dispatch-pending-scan-outbox'', dispatch_task_name,
       st_scan_outbox_dispatch_interval_seconds st)]\<rparr>"

text \<open>Every task the configuration names belongs to a module that the worker includes.\<close>

definition module_of_task :: "string \<Rightarrow> string \<Rightarrow> bool" where
  "module_of_task m task \<longleftrightarrow> take (length m + 1) task = m @ ''.''"

lemma tasks_included:
  "list_all (\<lambda>(e, task, s). list_ex (\<lambda>m. module_of_task m task) (cc_include (celery_app st)))
     (cc_beat_schedule (celery_app st))"
  "list_ex (\<lambda>m. module_of_task m execute_scan_task_name) (cc_include (celery_app st))"
  by (simp_all add: celery_app_def module_of_task_def dispatch_task_name_def execute_scan_task_name_def)

section \<open>The processes\<close>

definition default_queue :: string where
  "default_queue = ''celery''"

definition split_commas :: "string \<Rightarrow> string list" where
  "split_commas s = rev (map rev (foldl (\<lambda>acc c. if c = CHR '','' then [] # acc
     else (c # hd acc) # tl acc) [[]] s))"

fun queue_option :: "string list \<Rightarrow> string list option" where
  "queue_option (a # b # rest) =
    (if a = ''-Q'' \<or> a = ''--queues'' then Some (split_commas b)
     else if take 9 a = ''--queues='' then Some (split_commas (drop 9 a))
     else queue_option (b # rest))"
| "queue_option [a] = (if take 9 a = ''--queues='' then Some (split_commas (drop 9 a)) else None)"
| "queue_option [] = None"

definition consumed_queues :: "celery_config \<Rightarrow> string list \<Rightarrow> string list" where
  "consumed_queues cf args = (case queue_option args of
     Some qs \<Rightarrow> qs
   | None \<Rightarrow> (case cc_task_queues cf of Some qs \<Rightarrow> qs | None \<Rightarrow> [default_queue]))"

definition worker_command :: "string list" where
  "worker_command = [''celery'', ''-A'', ''app.workers.celery_app'', ''worker'', ''--loglevel=INFO'']"

section \<open>The broker\<close>

record message =
  ms_queue :: string
  ms_task :: string
  ms_kwargs :: "(string \<times> string) list"

text \<open>
  The messages that wait, oldest first, and a record of all that was published and of all
  that a worker was given.
\<close>

record broker =
  bk_waiting :: "message list"
  bk_published :: "message list"
  bk_started :: "message list"

definition empty_broker :: broker where
  "empty_broker = \<lparr>bk_waiting = [], bk_published = [], bk_started = []\<rparr>"

definition publish_messages :: "message list \<Rightarrow> broker \<Rightarrow> broker" where
  "publish_messages ms b = b\<lparr>bk_waiting := bk_waiting b @ ms, bk_published := bk_published b @ ms\<rparr>"

definition next_message :: "string list \<Rightarrow> broker \<Rightarrow> message option" where
  "next_message qs b = List.find (\<lambda>m. ms_queue m \<in> set qs) (bk_waiting b)"

definition take_message :: "message \<Rightarrow> broker \<Rightarrow> broker" where
  "take_message m b = b\<lparr>bk_waiting := remove1 m (bk_waiting b), bk_started := bk_started b @ [m]\<rparr>"

definition beat_messages :: "celery_config \<Rightarrow> message list" where
  "beat_messages cf = map (\<lambda>(e, task, s). \<lparr>ms_queue = default_queue, ms_task = task, ms_kwargs = []\<rparr>)
     (cc_beat_schedule cf)"

text \<open>What a session has published, read off its effects.\<close>

fun message_of :: "queue_names \<Rightarrow> effect \<Rightarrow> message option" where
  "message_of n (SentJob p countdown) = Some \<lparr>ms_queue = qn_scan_queue_name n,
     ms_task = execute_scan_task_name, ms_kwargs = task_kwargs p\<rparr>"
| "message_of n (DeadLettered p reason) = Some \<lparr>ms_queue = qn_scan_dead_letter_queue_name n,
     ms_task = execute_scan_task_name, ms_kwargs = task_kwargs p\<rparr>"
| "message_of n _ = None"

definition messages_of :: "queue_names \<Rightarrow> effect list \<Rightarrow> message list" where
  "messages_of n tr = List.map_filter (message_of n) tr"

text \<open>
  No message is lost or made up between publishing and starting, and none is started from a
  queue that is not consumed.
\<close>

definition broker_ok :: "string list \<Rightarrow> broker \<Rightarrow> bool" where
  "broker_ok qs b \<longleftrightarrow> mset (bk_published b) = mset (bk_waiting b) + mset (bk_started b) \<and>
     (\<forall>m\<in>set (bk_started b). ms_queue m \<in> set qs)"

lemma next_messageD: "next_message qs b = Some m \<Longrightarrow> m \<in> set (bk_waiting b) \<and> ms_queue m \<in> set qs"
  by (auto simp: next_message_def find_Some_iff)

text \<open>A worker is idle exactly when nothing waits in the queues it consumes.\<close>

lemma next_message_None:
  "next_message qs b = None \<longleftrightarrow> (\<forall>m\<in>set (bk_waiting b). ms_queue m \<notin> set qs)"
  by (auto simp: next_message_def find_None_iff)

lemma broker_ok_kept:
  "broker_ok qs empty_broker"
  "broker_ok qs b \<Longrightarrow> broker_ok qs (publish_messages ms b)"
  "broker_ok qs b \<Longrightarrow> next_message qs b = Some m \<Longrightarrow> broker_ok qs (take_message m b)"
  by (auto simp: broker_ok_def empty_broker_def publish_messages_def take_message_def dest: next_messageD)

lemma broker_keeps_waiting:
  assumes b: "broker_ok qs b" and m: "m \<in> set (bk_published b)" "ms_queue m \<notin> set qs"
  shows "m \<in> set (bk_waiting b)"
proof -
  have "m \<in># mset (bk_waiting b) + mset (bk_started b)" using b m(1) by (metis broker_ok_def set_mset_mset)
  then show ?thesis using b m(2) by (auto simp: broker_ok_def)
qed

section \<open>Sessions that do not run scans\<close>

text \<open>No scan has ever been taken up by a worker.\<close>

definition never_run :: "db \<Rightarrow> bool" where
  "never_run d \<longleftrightarrow> (\<forall>s\<in>set (scans d). sc_status s \<in> {PENDING, QUEUED, CANCELLED} \<and> sc_attempt s = 0)"

definition unstarted :: "db \<Rightarrow> db \<Rightarrow> bool" where
  "unstarted d d' \<longleftrightarrow> evolves d d' \<and> findings d' = findings d \<and> (never_run d \<longrightarrow> never_run d')"

lemma never_run_update:
  "never_run d \<Longrightarrow> up_attempt u = None \<Longrightarrow> up_status u = None \<or> up_status u \<in> {Some QUEUED, Some CANCELLED} \<Longrightarrow>
    never_run (update_scans P u t d)"
  by (auto simp: never_run_def update_scans_def update_where_def apply_scan_update_def)

lemma never_run_other [simp]:
  "never_run (insert_outbox b d) = never_run d" "never_run (insert_event e d) = never_run d"
  "never_run (update_outbox i f d) = never_run d"
  "never_run (insert_scan s d) \<longleftrightarrow> never_run d \<and> sc_status s \<in> {PENDING, QUEUED, CANCELLED} \<and> sc_attempt s = 0"
  by (auto simp: never_run_def insert_outbox_def insert_event_def update_outbox_def insert_scan_def)

lemma findings_untouched [simp]:
  "findings (insert_outbox b d) = findings d" "findings (insert_event e d) = findings d"
  "findings (update_outbox i f d) = findings d" "findings (insert_scan s d) = findings d"
  "findings (update_scans P u t d) = findings d"
  by (simp_all add: insert_outbox_def insert_event_def update_outbox_def insert_scan_def update_scans_def)

lemma job_update_sel [simp]: "up_attempt (job_update j) = None" "up_status (job_update j) = None"
  by (simp_all add: job_update_def no_update_def)

interpretation idle: dispatch_db_relation unstarted "\<lambda>t. t \<in> {QUEUED, CANCELLED}"
proof (unfold_locales, goal_cases)
  case 2
  then show ?case unfolding unstarted_def using evolves_trans by metis
qed (auto simp: unstarted_def evolves_refl evolves_inserts evolves_job_update evolves_update_outbox
    published_row_evolves failed_attempt_row_evolves
    intro: evolves_status never_run_update)

fun is_request :: "action \<Rightarrow> bool" where
  "is_request (ExecuteScan en tn i worker) = False"
| "is_request (DispatchOutbox q locked batch) = False"
| "is_request _ = True"

lemma keeps_request_action: "is_request a \<Longrightarrow> keeps unstarted (\<lambda>_. True) (action_prog a)"
  by (cases a)
    (auto intro!: idle.keeps_thenE idle.keeps_request idle.keeps_create_scan idle.keeps_cancel_scan
        idle.keeps_retry_scan idle.keeps_retE)

end
