(* ===== verification/Deployment.thy ===== *)
theory Deployment
  imports Task_Queues
begin

text \<open>
  The scan subsystem as it is deployed: API processes that answer requests, beat, and
  workers, around one database and one broker.  A worker runs a task when, and only when,
  the broker gives it the message.
\<close>

record site =
  si_host :: host
  si_celery :: celery
  si_settings :: app_settings
  si_worker_args :: "string list"
  si_hostname :: "string option"

record site_state =
  sx_db :: db
  sx_broker :: broker

definition site_queues :: "site \<Rightarrow> string list" where
  "site_queues x = consumed_queues (celery_app (si_settings x)) (si_worker_args x)"

text \<open>A task that no module registers is discarded.\<close>

definition task_prog :: "site \<Rightarrow> (nat \<Rightarrow> uuid set) \<Rightarrow> string option \<Rightarrow> message \<Rightarrow> unit prog" where
  "task_prog x locked request_id m =
    (if ms_task m = execute_scan_task_name
     then run_execute_scan (si_host x) (si_celery x) (si_settings x) (si_hostname x) request_id (ms_kwargs m)
     else if ms_task m = dispatch_task_name
     then thenE (run_dispatch_pending_outbox (si_celery x) (si_settings x) locked) (retE ())
     else retE ())"

text \<open>
  What the sessions that overlap with one may commit meanwhile: all that scan data may
  undergo once a worker has been given a scan, and before that what requests and dispatcher
  ticks do.
\<close>

definition scan_started :: "broker \<Rightarrow> bool" where
  "scan_started b \<longleftrightarrow> (\<exists>m\<in>set (bk_started b). ms_task m = execute_scan_task_name)"

definition overlaps :: "broker \<Rightarrow> ext list \<Rightarrow> bool" where
  "overlaps b script \<longleftrightarrow>
    (\<forall>e\<in>set script. \<forall>d. if scan_started b then evolves d (ext_db e d) else unstarted d (ext_db e d))"

definition published_by :: "site \<Rightarrow> world \<Rightarrow> broker \<Rightarrow> broker" where
  "published_by x w b = publish_messages (messages_of (queue_names_of (si_settings x)) (w_trace w)) b"

inductive site_step :: "site \<Rightarrow> site_state \<Rightarrow> site_state \<Rightarrow> bool" for x where
  site_request: "is_request a \<Longrightarrow> overlaps b script \<Longrightarrow>
    action_prog a (start_world d t script ids) = (r, w) \<Longrightarrow>
    site_step x \<lparr>sx_db = d, sx_broker = b\<rparr> \<lparr>sx_db = w_db w, sx_broker = published_by x w b\<rparr>"
| site_beat: "site_step x \<lparr>sx_db = d, sx_broker = b\<rparr>
    \<lparr>sx_db = d, sx_broker = publish_messages (beat_messages (celery_app (si_settings x))) b\<rparr>"
| site_work: "next_message (site_queues x) b = Some m \<Longrightarrow> overlaps (take_message m b) script \<Longrightarrow>
    task_prog x locked request_id m (start_world d t script ids) = (r, w) \<Longrightarrow>
    site_step x \<lparr>sx_db = d, sx_broker = b\<rparr>
      \<lparr>sx_db = w_db w, sx_broker = published_by x w (take_message m b)\<rparr>"

inductive site_reach :: "site \<Rightarrow> site_state \<Rightarrow> site_state \<Rightarrow> bool" for x where
  site_start: "site_reach x s s"
| site_next: "site_reach x s s' \<Longrightarrow> site_step x s' s'' \<Longrightarrow> site_reach x s s''"

inductive_cases site_stepE: "site_step x s s'"

text \<open>
  The deployed workers: the command line of the compose file and the Kubernetes manifests,
  and queue names that no environment file changes from their defaults.
\<close>

definition deployed :: "site \<Rightarrow> bool" where
  "deployed x \<longleftrightarrow> si_worker_args x = worker_command \<and>
     st_scan_queue_name (si_settings x) = st_scan_queue_name default_app_settings \<and>
     st_scan_dead_letter_queue_name (si_settings x) = st_scan_dead_letter_queue_name default_app_settings"

lemma deployed_queues: "deployed x \<Longrightarrow> site_queues x = [default_queue]"
  by (simp add: deployed_def site_queues_def consumed_queues_def worker_command_def celery_app_def)

text \<open>A worker that is told the queue of the scans consumes it, and only then.\<close>

lemma listed_queues:
  "si_worker_args x = worker_command @ [''-Q'', ''celery,scans''] \<Longrightarrow> site_queues x = [''celery'', ''scans'']"
  by (simp add: site_queues_def consumed_queues_def worker_command_def split_commas_def numeral_eq_Suc)

lemma listed_worker_not_deaf:
  assumes "si_worker_args x = worker_command @ [''-Q'', ''celery,scans'']"
    and "m \<in> set (bk_waiting b)" "ms_queue m = st_scan_queue_name default_app_settings"
  shows "next_message (site_queues x) b \<noteq> None"
  using assms by (auto simp: listed_queues next_message_None default_app_settings_def)

section \<open>Where the messages go\<close>

lemma messages_of_task: "m \<in> set (messages_of n tr) \<Longrightarrow>
    ms_task m = execute_scan_task_name \<and> ms_queue m \<in> {qn_scan_queue_name n, qn_scan_dead_letter_queue_name n}"
  by (auto simp: messages_of_def List.map_filter_def elim!: message_of.elims split: effect.splits)

lemma beat_messages_app:
  "beat_messages (celery_app st) = [\<lparr>ms_queue = default_queue, ms_task = dispatch_task_name, ms_kwargs = []\<rparr>]"
  by (simp add: beat_messages_def celery_app_def)

text \<open>Scans are published to queues of their own, dispatcher ticks to the default queue.\<close>

definition sorted_messages :: "app_settings \<Rightarrow> message list \<Rightarrow> bool" where
  "sorted_messages st ms \<longleftrightarrow> (\<forall>m\<in>set ms.
     ms_queue m = default_queue \<and> ms_task m = dispatch_task_name \<or>
     ms_queue m \<in> {st_scan_queue_name st, st_scan_dead_letter_queue_name st} \<and> ms_task m = execute_scan_task_name)"

lemma sorted_messages_of: "sorted_messages st (messages_of (queue_names_of st) tr)"
  using messages_of_task by (fastforce simp: sorted_messages_def queue_names_of_def)

definition site_ok :: "site \<Rightarrow> site_state \<Rightarrow> bool" where
  "site_ok x s \<longleftrightarrow> broker_ok (site_queues x) (sx_broker s) \<and>
     sorted_messages (si_settings x) (bk_published (sx_broker s))"

lemma published_by_ok:
  assumes "broker_ok (site_queues x) b" "sorted_messages (si_settings x) (bk_published b)"
  shows "site_ok x \<lparr>sx_db = d, sx_broker = published_by x w b\<rparr>"
  using assms sorted_messages_of [of "si_settings x" "w_trace w"] broker_ok_kept(2) [OF assms(1)]
  by (auto simp: site_ok_def published_by_def publish_messages_def sorted_messages_def)

lemma site_step_ok:
  assumes "site_step x s s'" "site_ok x s"
  shows "site_ok x s'"
  using assms(1)
proof (cases rule: site_step.cases)
  case (site_request a b script d t ids r w)
  then show ?thesis using assms(2) published_by_ok by (simp add: site_ok_def)
next
  case (site_beat d b)
  then show ?thesis
    using assms(2) broker_ok_kept(2)
    by (auto simp: site_ok_def beat_messages_app sorted_messages_def publish_messages_def)
next
  case (site_work b m script locked request_id d t ids r w)
  have "broker_ok (site_queues x) (take_message m b)"
    using site_work assms(2) by (intro broker_ok_kept(3)) (simp_all add: site_ok_def)
  moreover have "sorted_messages (si_settings x) (bk_published (take_message m b))"
    using site_work assms(2) by (simp add: site_ok_def take_message_def)
  ultimately show ?thesis using site_work published_by_ok by simp
qed

lemma site_reach_ok: "site_reach x s s' \<Longrightarrow> site_ok x s \<Longrightarrow> site_ok x s'"
  by (induction rule: site_reach.induct) (auto intro: site_step_ok)

section \<open>What the sessions do to the scans\<close>

lemma keeps_tick: "ms_task m \<noteq> execute_scan_task_name \<Longrightarrow> keeps unstarted (\<lambda>_. True) (task_prog x locked r m)"
  unfolding task_prog_def run_dispatch_pending_outbox_def
  by (auto intro: idle.keeps_thenE idle.keeps_dispatch_pending idle.keeps_retE)

lemma session_unstarted:
  assumes k: "keeps unstarted (\<lambda>_. True) m" and o: "overlaps b script" "\<not> scan_started b"
    and run: "m (start_world d t script ids) = (r, w)"
  shows "unstarted d (w_db w)"
proof -
  have "safe unstarted (\<lambda>_. True) (start_world d t script ids)"
    using o by (intro safe_start idle.R_refl) (simp add: overlaps_def)
  from idle.keepsD [OF k this] run show ?thesis by (simp add: start_world_def)
qed

lemma not_started_take: "\<not> scan_started b \<Longrightarrow> ms_task m \<noteq> execute_scan_task_name \<Longrightarrow> \<not> scan_started (take_message m b)"
  by (simp add: scan_started_def take_message_def)

lemma started_published [simp]:
  "scan_started (published_by x w b) = scan_started b" "scan_started (publish_messages ms b) = scan_started b"
  by (simp_all add: scan_started_def published_by_def publish_messages_def)

text \<open>A site whose workers do not consume the queues of the scans.\<close>

definition deaf :: "site \<Rightarrow> bool" where
  "deaf x \<longleftrightarrow> st_scan_queue_name (si_settings x) \<notin> set (site_queues x) \<and>
     st_scan_dead_letter_queue_name (si_settings x) \<notin> set (site_queues x)"

lemma deployed_deaf: "deployed x \<Longrightarrow> deaf x"
  by (simp add: deaf_def deployed_queues) (simp add: deployed_def default_app_settings_def default_queue_def)

lemma deaf_next:
  assumes "deaf x" "site_ok x \<lparr>sx_db = d, sx_broker = b\<rparr>" "next_message (site_queues x) b = Some m"
  shows "ms_task m = dispatch_task_name"
proof -
  have "m \<in> set (bk_published b)"
    using assms(2) next_messageD [OF assms(3)]
    by (metis Un_iff broker_ok_def mset_eq_setD set_append mset_append site_ok_def site_state.select_convs(2))
  then show ?thesis
    using assms next_messageD [OF assms(3)] by (auto simp: site_ok_def sorted_messages_def deaf_def)
qed

lemma task_names_differ: "dispatch_task_name \<noteq> execute_scan_task_name"
  by (simp add: dispatch_task_name_def execute_scan_task_name_def)

lemma deaf_step:
  assumes x: "deaf x" and "site_step x s s'" and ok: "site_ok x s" and n: "\<not> scan_started (sx_broker s)"
  shows "unstarted (sx_db s) (sx_db s') \<and> \<not> scan_started (sx_broker s')"
  using assms(2)
proof (cases rule: site_step.cases)
  case (site_request a b script d t ids r w)
  then show ?thesis using n session_unstarted [OF keeps_request_action site_request(4) _ site_request(5)] by simp
next
  case (site_beat d b)
  then show ?thesis using n by (simp add: idle.R_refl)
next
  case (site_work b m script locked request_id d t ids r w)
  have "ms_task m \<noteq> execute_scan_task_name"
    using deaf_next [OF x _ site_work(3)] ok site_work(1) task_names_differ by auto
  moreover from this have "\<not> scan_started (take_message m b)"
    using n site_work(1) by (intro not_started_take) simp_all
  ultimately show ?thesis
    using session_unstarted [OF keeps_tick site_work(4) _ site_work(5)] site_work(1,2) by simp
qed

lemma deaf_reach:
  assumes "site_reach x s s'" "deaf x" "site_ok x s" "\<not> scan_started (sx_broker s)"
  shows "unstarted (sx_db s) (sx_db s') \<and> \<not> scan_started (sx_broker s')"
  using assms
proof (induction rule: site_reach.induct)
  case (site_start s)
  then show ?case by (simp add: idle.R_refl)
next
  case (site_next s s' s'')
  then show ?case using deaf_step site_reach_ok idle.R_trans by metis
qed

end
