(* ===== verification/Deployment_Properties.thy ===== *)
theory Deployment_Properties
  imports Deployment Scenarios
begin

text \<open>
  What the deployed processes do with the scans that are requested: which messages reach a
  worker, and what a worker makes of a scan it is given.
\<close>

section \<open>Lengths\<close>

lemma repr_char_length: "length (repr_char q c) \<le> 4"
  by (simp add: repr_char_def Let_def)

lemma py_repr_length: "length (py_repr s) \<le> 4 * length s + 2"
proof -
  have "length (concat (map (repr_char q) s)) \<le> 4 * length s" for q
    using repr_char_length [of q] by (induction s) (auto simp: add_le_mono)
  then show ?thesis by (simp add: py_repr_def Let_def)
qed

section \<open>A site\<close>

definition demo_celery :: celery where
  "demo_celery = \<lparr>ce_send_task = (\<lambda>_ _ _ _. Returns ''task-1''), ce_revoke = (\<lambda>_ _. Returns ())\<rparr>"

definition demo_host :: host where
  "demo_host = \<lparr>ho_files = \<lparr>fs_files = [], fs_dirs = [], fs_links = []\<rparr>, ho_cwd = [''app''],
     ho_sha256 = (\<lambda>s. take 64 s), ho_random = 1 / 2, ho_sync = True\<rparr>"

definition demo_site :: site where
  "demo_site = \<lparr>si_host = demo_host, si_celery = demo_celery, si_settings = default_app_settings,
     si_worker_args = worker_command, si_hostname = Some ''worker-1''\<rparr>"

section \<open>A scan in the hands of a worker\<close>

lemma celery_raises_exceptions:
  "(\<And>t k q c e. ce_send_task app t k q c = Raises e \<Longrightarrow> is_exception e) \<Longrightarrow>
    queue_raises_exceptions (celery_job_queue n app)"
  by (auto simp: queue_raises_exceptions_def celery_job_queue_def celery_dead_letter_scan_def
      split: outcome.splits)

lemma run_unregistered:
  assumes q: "queued_scan tn i s w" and f: "fresh (Suc k) w"
    and reg: "en_registry en = empty_registry" and e: "queue_raises_exceptions (en_queue en)"
  defines "m \<equiv> ''No scanner plugin registered for '' @ py_repr (sc_scanner_type s)"
  shows "\<exists>w'. run en tn i worker w = (Inr (), w') \<and>
    settled k i (advance s FAILED (failure_fields ''scanner_not_registered'' m) (w_clock w)) w' \<and>
    w_db w' = view w' \<and> event_types i (view w') = event_types i (view w) @ [''scan.failed''] \<and>
    outbox (view w') = outbox (view w)"
proof -
  have w: "quiet w" "find_scan tn i (view w) = Some s" "unique_scans (view w)" "live_row s (w_clock w)"
      "sc_status s = QUEUED" "truthy (sc_correlation_id s)"
    using q by (simp_all add: queued_scan_def)
  have id: "sc_id s = i" "sc_tenant_id s = tn" using find_scan_SomeD [OF w(2)] by simp_all
  define w0 where "w0 = w\<lparr>w_objs := (w_objs w)(i := Some s)\<rparr>"
  have get: "scan_repo_get_by_id tn i w = (Inr (Some s), w0)"
    using w(1,2) id by (simp add: scan_repo_get_by_id_def prog_simps w0_def)
  have v: "view w0 = view w" "w_clock w0 = w_clock w" "quiet w0" using w(1) by (simp_all add: w0_def)
  have "fresh (Suc k) w0" using f by - (rule fresh_same [of "Suc k" w], simp_all add: w0_def)
  then have w0: "settled (Suc k) i s w0"
    using w(2,3) id v by (simp add: settled_def loaded_def) (simp add: w0_def)
  have chk: "scan_checks s" using w(4) by (simp add: live_row_def)
  have m: "failure_summary ''scanner_not_registered'' None (Some m) = m" by (simp add: failure_summary_def)
  have "length (sc_scanner_type s) \<le> 100" using chk by (simp add: scan_checks_def)
  then have len: "length m \<le> 2000" using py_repr_length [of "sc_scanner_type s"] by (simp add: m_def)
  have run: "run en tn i worker w =
      finalize_failed en i ''scanner_not_registered'' None (Some m) (corr_of s) w0"
    using w(5,6) reg
    by (simp add: run_def run_simps(1,3,4) get corr_of_def m_def registry_is_registered_def empty_registry_def)
  have "length ''scanner_not_registered'' \<le> 100" "FAILED \<in> set (valid_transitions (sc_status s))"
    using w(5) by simp_all
  from finalize_failed_quiet [OF w0 _ this(2,1) _ corr_of_length [OF chk] e, of None "Some m", unfolded m]
  show ?thesis using w(4) len v run by simp
qed

text \<open>C17 (What a shipped worker makes of a scan): no plugin is registered in the engine that a
  worker builds, so a queued scan that reaches a worker ends FAILED with the code
  \<open>scanner_not_registered\<close>, whatever its scanner type: its attempt is not counted, no retry
  is written to the outbox, and \<open>scan.failed\<close> is the one event.\<close>

theorem shipped_worker_fails_scans:
  assumes b: "st_artifact_storage_backend st = ''local''" and h: "truthy hostname"
    and q: "queued_scan (jp_tenant_id p) (jp_scan_id p) s w" and f: "fresh 1 w"
    and e: "\<And>t k q c e. ce_send_task app t k q c = Raises e \<Longrightarrow> is_exception e"
  shows "\<exists>s' w'. run_execute_scan h app st hostname request_id (task_kwargs p) w = (Inr (), w') \<and>
    find_scan (jp_tenant_id p) (jp_scan_id p) (w_db w') = Some s' \<and> sc_status s' = FAILED \<and>
    sc_error_code s' = Some ''scanner_not_registered'' \<and> sc_attempt s' = sc_attempt s \<and>
    outbox (w_db w') = outbox (view w) \<and>
    event_types (jp_scan_id p) (w_db w') = event_types (jp_scan_id p) (view w) @ [''scan.failed'']"
proof -
  let ?i = "jp_scan_id p" and ?tn = "jp_tenant_id p"
  obtain en where en: "worker_engine h app st = Inr en" "en_registry en = empty_registry"
      "en_queue en = celery_job_queue (queue_names_of st) app"
    using worker_engine_local [OF b] by blast
  let ?w = "w\<lparr>w_trace := w_trace w @ [Log ''scan_engine.task_received'']\<rparr>"
  let ?a = "advance s FAILED (failure_fields ''scanner_not_registered''
    (''No scanner plugin registered for '' @ py_repr (sc_scanner_type s))) (w_clock w)"
  have v: "view ?w = view w" by (simp add: view_def)
  have "fresh (Suc 0) ?w" using f by - (rule fresh_same [of "Suc 0" w], simp_all add: v)
  moreover have "queued_scan ?tn ?i s ?w" using q v by (simp add: queued_scan_def)
  moreover have "queue_raises_exceptions (en_queue en)"
    unfolding en(3) using e by (rule celery_raises_exceptions)
  ultimately obtain w' where r: "run en ?tn ?i (or_default hostname []) ?w = (Inr (), w')"
    and w': "settled 0 ?i ?a w'" "w_db w' = view w'" "outbox (view w') = outbox (view w)"
      "event_types ?i (view w') = event_types ?i (view w) @ [''scan.failed'']"
    using run_unregistered [of ?tn ?i s ?w 0 en, OF _ _ en(2)] by (force simp: v simp del: append_Cons)
  have "run_execute_scan h app st hostname request_id (task_kwargs p) w =
      (Inr (), w'\<lparr>w_db := view w', w_pend := (\<lambda>x. x)\<rparr>)"
    using r w'(1) by (simp add: run_execute_scan_def en(1) execute_scan_kwargs [OF h] scan_task_def run_simps(3,4,5,7)
        quiet_commit settled_quiet)
  moreover have "sc_tenant_id s = ?tn" using q find_scan_SomeD by (auto simp: queued_scan_def)
  then have "find_scan ?tn ?i (view w') = Some ?a" using w'(1) by (simp add: settled_def loaded_def)
  moreover have "sc_error_code ?a = Some ''scanner_not_registered''" "sc_attempt ?a = sc_attempt s"
    by (simp_all add: advance_def transition_fields_def failure_fields_def no_update_def apply_scan_update_def)
  ultimately show ?thesis using w'(3,4) by simp
qed

theorem shipped_worker_fails_scans_witness:
  "\<exists>s' w'. run_execute_scan demo_host demo_celery default_app_settings (Some ''worker-1'') None
      (task_kwargs \<lparr>jp_scan_id = 1, jp_tenant_id = 2, jp_correlation_id = ''corr''\<rparr>) (demo_world [demo_scan]) = (Inr (), w') \<and>
    find_scan 2 1 (w_db w') = Some s' \<and> sc_status s' = FAILED \<and>
    sc_error_code s' = Some ''scanner_not_registered'' \<and> sc_attempt s' = 0"
proof -
  have "queued_scan 2 1 demo_scan (demo_world [demo_scan])"
    by (simp add: queued_scan_def find_scan_def scan_at_def unique_scans_def demo_scan_def live_row_def scan_checks_def
        count_set_def max_len_def truthy_def)
  moreover have "fresh 1 (demo_world [demo_scan])"
    by (rule fresh_le [OF fresh_demo]) (simp_all add: demo_scan_def)
  moreover have "sc_attempt demo_scan = 0" by (simp add: demo_scan_def)
  moreover have "ce_send_task demo_celery t k q c = Raises e \<Longrightarrow> is_exception e" for t k q c e
    by (simp add: demo_celery_def)
  moreover have "st_artifact_storage_backend default_app_settings = ''local''" "truthy (Some ''worker-1'')"
    by (simp_all add: default_app_settings_def truthy_def)
  ultimately show ?thesis
    using shipped_worker_fails_scans [of default_app_settings "Some ''worker-1''"
        "\<lparr>jp_scan_id = 1, jp_tenant_id = 2, jp_correlation_id = ''corr''\<rparr>" demo_scan "demo_world [demo_scan]"
        demo_celery demo_host None, unfolded scan_job_payload.simps]
    by metis
qed

section \<open>Which messages reach a worker\<close>

lemma started_ticks:
  assumes "site_ok x s" "site_queues x = [default_queue]" "deaf x" "m \<in> set (bk_started (sx_broker s))"
  shows "ms_task m = dispatch_task_name"
proof -
  have "m \<in># mset (bk_waiting (sx_broker s)) + mset (bk_started (sx_broker s))" using assms(4) by simp
  then have "m \<in># mset (bk_published (sx_broker s))" using assms(1) by (metis site_ok_def broker_ok_def)
  then show ?thesis
    using assms by (auto simp: site_ok_def sorted_messages_def broker_ok_def deaf_def)
qed

lemma scans_wait:
  assumes "site_ok x s" "deaf x" "m \<in> set (bk_published (sx_broker s))" "ms_task m = execute_scan_task_name"
  shows "m \<in> set (bk_waiting (sx_broker s))"
proof (rule broker_keeps_waiting)
  show "broker_ok (site_queues x) (sx_broker s)" using assms(1) by (simp add: site_ok_def)
  show "ms_queue m \<notin> set (site_queues x)"
    using assms task_names_differ by (auto simp: site_ok_def sorted_messages_def deaf_def)
qed (rule assms(3))

lemma site_start_ok: "site_ok x \<lparr>sx_db = d, sx_broker = empty_broker\<rparr>"
  by (simp add: site_ok_def broker_ok_def empty_broker_def sorted_messages_def)

text \<open>C6 (The deployed workers run no scan): on a site started with the shipped worker command
  and queue names, in every reachable state, whatever is requested and however often beat
  ticks: a worker is only ever given dispatcher ticks; each message that asks for a scan to
  be executed is still waiting in its queue; no scan has left \<open>pending\<close>, \<open>queued\<close> and
  \<open>cancelled\<close> or begun an attempt; and no finding is recorded.\<close>

theorem deployed_workers_run_no_scan:
  assumes x: "deployed x" and r: "site_reach x \<lparr>sx_db = d, sx_broker = empty_broker\<rparr> s" and d: "never_run d"
  shows "(\<forall>m\<in>set (bk_started (sx_broker s)). ms_task m = dispatch_task_name) \<and>
    (\<forall>m\<in>set (bk_published (sx_broker s)). ms_task m = execute_scan_task_name \<longrightarrow>
      m \<in> set (bk_waiting (sx_broker s))) \<and>
    never_run (sx_db s) \<and> findings (sx_db s) = findings d"
proof -
  have ok: "site_ok x s" using site_reach_ok [OF r] site_start_ok by blast
  have "\<not> scan_started empty_broker" by (simp add: scan_started_def empty_broker_def)
  then have "unstarted d (sx_db s)" using deaf_reach [OF r deployed_deaf [OF x] site_start_ok] by simp
  then show ?thesis
    using started_ticks [OF ok deployed_queues [OF x] deployed_deaf [OF x]] scans_wait [OF ok deployed_deaf [OF x]] d
    by (simp add: unstarted_def)
qed

text \<open>A row of the outbox becomes a message in the queue of the scans, and there it stays.\<close>

lemma demo_site_facts:
  "deployed demo_site" "site_queues demo_site = [default_queue]"
  by (simp_all add: deployed_queues deployed_def demo_site_def default_app_settings_def)

lemma demo_site_beat:
  "site_step demo_site \<lparr>sx_db = d, sx_broker = empty_broker\<rparr>
    \<lparr>sx_db = d, sx_broker = publish_messages [\<lparr>ms_queue = default_queue, ms_task = dispatch_task_name, ms_kwargs = []\<rparr>] empty_broker\<rparr>"
  using site_beat [of demo_site d empty_broker] by (simp add: beat_messages_app)

lemma demo_tick:
  "\<exists>w. task_prog demo_site (\<lambda>_. {}) None \<lparr>ms_queue = default_queue, ms_task = dispatch_task_name, ms_kwargs = []\<rparr>
      dispatcher_world = (Inr (), w) \<and>
    w_trace w = [SentJob \<lparr>jp_scan_id = 1, jp_tenant_id = 2, jp_correlation_id = ''corr''\<rparr> 0,
      Log ''outbox_dispatcher.published'']"
proof -
  let ?q = "celery_job_queue (queue_names_of default_app_settings) demo_celery"
  have q: "jq_enqueue_scan ?q p c = Returns ''task-1''" for p c
    by (simp add: celery_job_queue_def celery_enqueue_scan_def demo_celery_def)
  have c: "ob_countdown_seconds demo_outbox = 0" "ob_id demo_outbox = 5" by (simp_all add: demo_outbox_def)
  obtain w1 where w1: "dispatch_one ?q {} dispatcher_world = (Inr True, w1)" "quiet w1" "w_pend w1 = (\<lambda>d. d)"
      "outbox (w_db w1) = update_where (\<lambda>r. ob_id r = 5) (published_row 200 1) [demo_outbox]"
      "w_trace w1 = [SentJob \<lparr>jp_scan_id = 1, jp_tenant_id = 2, jp_correlation_id = ''corr''\<rparr> 0,
        Log ''outbox_dispatcher.published'']"
    using dispatch_one_published [OF demo_dispatch(1,4,6) q _ demo_dispatch(7,11,8,5)]
    by (auto simp: demo_dispatch c) (auto simp: demo_outbox_def dispatcher_world_def start_world_def)
  have e: "next_pending {} (w_db w1) = None"
    by (simp add: next_pending_def w1(4) published_row_def update_where_def select_all_def order_by_def c)
  have "nat (st_scan_outbox_dispatch_batch_size default_app_settings) = Suc (Suc 48)"
    by (simp add: default_app_settings_def)
  with dispatch_single [of ?q "\<lambda>_. {}", OF w1(1,2,3) e, of 48] w1(5) show ?thesis
    by (auto simp: task_prog_def run_dispatch_pending_outbox_def demo_site_def run_simps(1,3,4)
        task_names_differ)
qed

theorem deployed_workers_run_no_scan_witness:
  "\<exists>s m. site_reach demo_site \<lparr>sx_db = w_db dispatcher_world, sx_broker = empty_broker\<rparr> s \<and>
    ms_task m = execute_scan_task_name \<and> m \<in> set (bk_waiting (sx_broker s)) \<and>
    bk_started (sx_broker s) \<noteq> [] \<and> never_run (sx_db s)"
proof -
  let ?d = "w_db dispatcher_world"
  let ?t = "\<lparr>ms_queue = default_queue, ms_task = dispatch_task_name, ms_kwargs = []\<rparr>"
  let ?b = "publish_messages [?t] empty_broker"
  obtain w where w: "task_prog demo_site (\<lambda>_. {}) None ?t dispatcher_world = (Inr (), w)"
      "w_trace w = [SentJob \<lparr>jp_scan_id = 1, jp_tenant_id = 2, jp_correlation_id = ''corr''\<rparr> 0,
        Log ''outbox_dispatcher.published'']"
    using demo_tick by blast
  have n: "next_message (site_queues demo_site) ?b = Some ?t"
    by (simp add: next_message_def demo_site_facts publish_messages_def empty_broker_def)
  have "site_step demo_site \<lparr>sx_db = ?d, sx_broker = ?b\<rparr>
      \<lparr>sx_db = w_db w, sx_broker = published_by demo_site w (take_message ?t ?b)\<rparr>"
    by (rule site_work [OF n, of "[]"]) (use w in \<open>simp_all add: overlaps_def dispatcher_world_def start_world_def\<close>)
  with demo_site_beat have r: "site_reach demo_site \<lparr>sx_db = ?d, sx_broker = empty_broker\<rparr>
      \<lparr>sx_db = w_db w, sx_broker = published_by demo_site w (take_message ?t ?b)\<rparr>"
    by (blast intro: site_start site_next)
  have d: "never_run ?d" by (simp add: never_run_def dispatcher_world_def start_world_def db_with_def demo_scan_def)
  let ?m = "\<lparr>ms_queue = ''scans'', ms_task = execute_scan_task_name,
    ms_kwargs = task_kwargs \<lparr>jp_scan_id = 1, jp_tenant_id = 2, jp_correlation_id = ''corr''\<rparr>\<rparr>"
  have "?m \<in> set (bk_published (published_by demo_site w (take_message ?t ?b)))"
    by (simp add: published_by_def publish_messages_def w(2) messages_of_def List.map_filter_simps queue_names_of_def
        demo_site_def default_app_settings_def)
  with deployed_workers_run_no_scan [OF demo_site_facts(1) r d]
  have "?m \<in> set (bk_waiting (published_by demo_site w (take_message ?t ?b)))" "never_run (w_db w)" by simp_all
  moreover have "bk_started (published_by demo_site w (take_message ?t ?b)) \<noteq> []"
    by (simp add: published_by_def publish_messages_def take_message_def)
  ultimately show ?thesis using r by (intro exI [of _ "\<lparr>sx_db = w_db w, sx_broker = published_by demo_site w (take_message ?t ?b)\<rparr>"] exI [of _ ?m]) simp
qed

end
