(* ===== verification/Logging_Setup.thy ===== *)
theory Logging_Setup
  imports Configuration Redaction_Properties
begin

text \<open>
  The logging of a process (\<open>core/logging.py\<close>) and the stub that stands for a mail provider
  (\<open>services/email_service.py\<close>).  The redaction of \<open>Log_Redaction\<close> is one step of a chain of
  structlog processors; the others and the renderers are the library's, parameters here.
  Of the standard library's logging the model has the hierarchy of loggers with their
  levels and handlers, those included that libraries install for themselves.
\<close>

section \<open>Configuration\<close>

datatype processor = MergeContextvars | AddLogLevel | AddLoggerName | TimeStamper string
  | StackInfoRenderer | FormatExcInfo | RedactLogSecrets | WrapForFormatter | SetExcInfo

datatype renderer = JSONRenderer | ConsoleRenderer

record structlog_config =
  sg_processors :: "processor list"
  sg_cache_logger_on_first_use :: bool

record formatter =
  fm_processor :: renderer
  fm_foreign_pre_chain :: "processor list"

type_synonym log_entry = "(log_key \<times> log_value) list"

text \<open>
  A record of the standard library.  \<open>lo_event\<close> is the entry that structlog has processed,
  or nothing when the logger is a plain one; \<open>lo_extra\<close> are the attributes a caller adds.
\<close>

record log_record =
  lo_name :: string
  lo_level :: int
  lo_message :: string
  lo_extra :: "(string \<times> string) list"
  lo_exc_info :: "log_value option"
  lo_event :: "log_entry option"

text \<open>
  A handler is one with the formatter of \<open>configure_logging\<close>, or one a library brings along,
  which is the lines it writes for a record.  The level 0 of a logger is \<open>NOTSET\<close>: the level
  is that of the next logger up.
\<close>

datatype handler = Structured formatter | OfLibrary "log_record \<Rightarrow> string list"

record logger_tree =
  lt_root_level :: int
  lt_root_handlers :: "handler list"
  lt_levels :: "string \<Rightarrow> int"
  lt_handlers :: "string \<Rightarrow> handler list"
  lt_propagate :: "string \<Rightarrow> bool"

record log_system =
  ly_tree :: logger_tree
  ly_structlog :: "structlog_config option"
  ly_configured :: bool

text \<open>The loggers of a process in which no library has touched them: the root is at \<open>WARNING\<close>.\<close>

definition untouched_tree :: logger_tree where
  "untouched_tree = \<lparr>lt_root_level = 30, lt_root_handlers = [], lt_levels = (\<lambda>_. 0), lt_handlers = (\<lambda>_. []),
     lt_propagate = (\<lambda>_. True)\<rparr>"

definition upper_char :: "char \<Rightarrow> char" where
  "upper_char c = (if is_lower c then char_of (of_char c - 32 :: nat) else c)"

text \<open>The constants of the module \<open>logging\<close> that are levels.\<close>

definition log_levels :: "(string \<times> int) list" where
  "log_levels = [(''CRITICAL'', 50), (''FATAL'', 50), (''ERROR'', 40), (''WARNING'', 30), (''WARN'', 30),
     (''INFO'', 20), (''DEBUG'', 10), (''NOTSET'', 0)]"

definition log_level_of :: "string \<Rightarrow> int" where
  "log_level_of s = (case map_of log_levels (map upper_char s) of Some n \<Rightarrow> n | None \<Rightarrow> 20)"

definition shared_processors :: "processor list" where
  "shared_processors = [MergeContextvars, AddLogLevel, AddLoggerName, TimeStamper ''iso'',
     StackInfoRenderer, FormatExcInfo, RedactLogSecrets]"

definition renderer_of :: "app_settings \<Rightarrow> renderer" where
  "renderer_of st = (if st_log_format st = ''json'' then JSONRenderer else ConsoleRenderer)"

definition noisy_loggers :: "string list" where
  "noisy_loggers = [''uvicorn.access'', ''uvicorn.error'']"

definition configure_logging :: "app_settings \<Rightarrow> log_system \<Rightarrow> log_system" where
  "configure_logging st s =
    (if ly_configured s then s
     else let handler = Structured \<lparr>fm_processor = renderer_of st, fm_foreign_pre_chain = shared_processors\<rparr>;
              tree = ly_tree s in
       s\<lparr>ly_structlog := Some \<lparr>sg_processors = shared_processors @ [WrapForFormatter],
            sg_cache_logger_on_first_use = True\<rparr>,
         ly_tree := tree\<lparr>lt_root_handlers := [handler],
            lt_root_level := log_level_of (st_log_level st),
            lt_handlers := (\<lambda>n. if n \<in> set noisy_loggers then [handler] else lt_handlers tree n),
            lt_propagate := (\<lambda>n. n \<notin> set noisy_loggers \<and> lt_propagate tree n)\<rparr>,
         ly_configured := True\<rparr>)"

lemma configure_logging_once: "configure_logging st' (configure_logging st s) = configure_logging st s"
  by (simp add: configure_logging_def Let_def)

text \<open>
  Importing \<open>main.py\<close>, the one module that calls it: the import of \<open>db/session.py\<close> builds the
  engine first, which may install handlers (\<open>create_engine\<close>, SQLAlchemy's), among loggers
  the server has set up before (\<open>tree\<close>).
\<close>

definition import_main ::
    "(engine_options \<Rightarrow> logger_tree \<Rightarrow> logger_tree) \<Rightarrow> app_settings \<Rightarrow> logger_tree \<Rightarrow> log_system" where
  "import_main create_engine st tree = configure_logging st
     \<lparr>ly_tree = create_engine (build_engine st) tree, ly_structlog = None, ly_configured = False\<rparr>"

section \<open>A line of the log\<close>

record log_library =
  ll_process :: "processor \<Rightarrow> string \<Rightarrow> int \<Rightarrow> log_entry \<Rightarrow> log_entry"
  ll_render :: "renderer \<Rightarrow> log_entry \<Rightarrow> string"

definition apply_processor :: "log_library \<Rightarrow> string \<Rightarrow> int \<Rightarrow> processor \<Rightarrow> log_entry \<Rightarrow> log_entry" where
  "apply_processor lib name level p ed =
    (if p = RedactLogSecrets then redact_log_secrets ed
     else if p = WrapForFormatter then ed
     else ll_process lib p name level ed)"

definition structlog_record :: "log_library \<Rightarrow> structlog_config \<Rightarrow> string \<Rightarrow> int \<Rightarrow> log_entry \<Rightarrow> log_record" where
  "structlog_record lib cf name level ed = \<lparr>lo_name = name, lo_level = level, lo_message = [], lo_extra = [],
     lo_exc_info = None, lo_event = Some (fold (apply_processor lib name level) (sg_processors cf) ed)\<rparr>"

text \<open>The entry of a plain record has its message and its exception; the attributes of
  \<open>extra\<close> are taken in by a processor, \<open>ExtraAdder\<close>, that the chain does not have.\<close>

definition foreign_entry :: "log_record \<Rightarrow> log_entry" where
  "foreign_entry r = (StrKey ''event'', LogStr (lo_message r)) #
     (case lo_exc_info r of None \<Rightarrow> [] | Some v \<Rightarrow> [(StrKey ''exc_info'', v)])"

definition format_record :: "log_library \<Rightarrow> formatter \<Rightarrow> log_record \<Rightarrow> string" where
  "format_record lib fm r = ll_render lib (fm_processor fm)
    (case lo_event r of
       Some ed \<Rightarrow> ed
     | None \<Rightarrow> fold (apply_processor lib (lo_name r) (lo_level r)) (fm_foreign_pre_chain fm) (foreign_entry r))"

text \<open>A logger and those above it, the root left out: \<open>a.b.c\<close>, \<open>a.b\<close>, \<open>a\<close>.\<close>

definition lineage :: "string \<Rightarrow> string list" where
  "lineage name = name # map (\<lambda>i. take i name) (filter (\<lambda>i. name ! i = CHR ''.'') (rev [0..<length name]))"

fun effective_level :: "logger_tree \<Rightarrow> string list \<Rightarrow> int" where
  "effective_level t [] = lt_root_level t"
| "effective_level t (n # ns) = (if lt_levels t n \<noteq> 0 then lt_levels t n else effective_level t ns)"

fun handlers_up :: "logger_tree \<Rightarrow> string list \<Rightarrow> handler list" where
  "handlers_up t [] = lt_root_handlers t"
| "handlers_up t (n # ns) = lt_handlers t n @ (if lt_propagate t n then handlers_up t ns else [])"

fun handle :: "log_library \<Rightarrow> log_record \<Rightarrow> handler \<Rightarrow> string list" where
  "handle lib r (Structured fm) = [format_record lib fm r]"
| "handle lib r (OfLibrary h) = h r"

text \<open>A record that a logger hands on, and the one it is asked to log, if its level is enabled.\<close>

definition handled :: "log_library \<Rightarrow> logger_tree \<Rightarrow> log_record \<Rightarrow> string list" where
  "handled lib t r = concat (map (handle lib r) (handlers_up t (lineage (lo_name r))))"

definition written :: "log_library \<Rightarrow> logger_tree \<Rightarrow> log_record \<Rightarrow> string list" where
  "written lib t r = (if lo_level r < effective_level t (lineage (lo_name r)) then [] else handled lib t r)"

text \<open>
  What a structlog logger writes.  One that nobody configured has structlog's own default
  chain and prints the line itself.
\<close>

definition default_processors :: "processor list" where
  "default_processors = [MergeContextvars, AddLogLevel, StackInfoRenderer, SetExcInfo,
     TimeStamper ''%Y-%m-%d %H:%M:%S'']"

definition structlog_lines :: "log_library \<Rightarrow> log_system \<Rightarrow> string \<Rightarrow> int \<Rightarrow> log_entry \<Rightarrow> string list" where
  "structlog_lines lib s name level ed = (case ly_structlog s of
     Some cf \<Rightarrow> written lib (ly_tree s) (structlog_record lib cf name level ed)
   | None \<Rightarrow> [ll_render lib ConsoleRenderer (fold (apply_processor lib name level) default_processors ed)])"

section \<open>What passes the redaction\<close>

text \<open>
  The handlers that libraries have put on a logger or above it, as far up as records get, and
  whether they get to the handler of \<open>configure_logging\<close>.
\<close>

fun library_handlers :: "logger_tree \<Rightarrow> string list \<Rightarrow> handler list" where
  "library_handlers t [] = []"
| "library_handlers t (n # ns) = (if n \<in> set noisy_loggers then []
     else lt_handlers t n @ (if lt_propagate t n then library_handlers t ns else []))"

fun reaches_own :: "logger_tree \<Rightarrow> string list \<Rightarrow> bool" where
  "reaches_own t [] \<longleftrightarrow> True"
| "reaches_own t (n # ns) \<longleftrightarrow> n \<in> set noisy_loggers \<or> lt_propagate t n \<and> reaches_own t ns"

lemma import_main_structlog:
  "ly_structlog (import_main ce st tree) = Some \<lparr>sg_processors = shared_processors @ [WrapForFormatter],
     sg_cache_logger_on_first_use = True\<rparr>"
  by (simp add: import_main_def configure_logging_def Let_def)

lemma handlers_up_main:
  "handlers_up (ly_tree (import_main ce st tree)) ns = library_handlers (ce (build_engine st) tree) ns @
    (if reaches_own (ce (build_engine st) tree) ns
     then [Structured \<lparr>fm_processor = renderer_of st, fm_foreign_pre_chain = shared_processors\<rparr>] else [])"
  by (induction ns) (auto simp: import_main_def configure_logging_def Let_def)

lemma effective_level_main:
  "(\<And>n. n \<in> set ns \<Longrightarrow> lt_levels (ce (build_engine st) tree) n = 0) \<Longrightarrow>
    effective_level (ly_tree (import_main ce st tree)) ns = log_level_of (st_log_level st)"
  by (induction ns) (simp_all add: import_main_def configure_logging_def Let_def)

lemma chain_redacts:
  "\<exists>ed'. fold (apply_processor lib name level) shared_processors ed = redact_log_secrets ed'"
  by (simp add: shared_processors_def apply_processor_def) blast

lemma structlog_redacts:
  "\<exists>ed'. fold (apply_processor lib name level) (shared_processors @ [WrapForFormatter]) ed = redact_log_secrets ed'"
  using chain_redacts [of lib name level ed] by (auto simp: apply_processor_def)

text \<open>A record of the application: from a plain logger, or from structlog as configured.\<close>

definition app_record :: "log_library \<Rightarrow> log_system \<Rightarrow> log_record \<Rightarrow> bool" where
  "app_record lib s r \<longleftrightarrow> lo_event r = None \<or>
     (\<exists>cf name level ed. ly_structlog s = Some cf \<and> r = structlog_record lib cf name level ed)"

lemma formatted_redacted:
  assumes "app_record lib (import_main ce st tree) r"
  shows "\<exists>ed. format_record lib \<lparr>fm_processor = renderer_of st, fm_foreign_pre_chain = shared_processors\<rparr> r =
    ll_render lib (renderer_of st) (redact_log_secrets ed)"
  using assms chain_redacts [of lib "lo_name r" "lo_level r" "foreign_entry r"] structlog_redacts
  by (auto simp: app_record_def format_record_def import_main_structlog structlog_record_def) metis

section \<open>Mail\<close>

text \<open>\<open>LoggingEmailSender.send\<close>: what it hands to the logger for a mail.\<close>

definition email_records :: "effect \<Rightarrow> log_record list" where
  "email_records e = (case e of
     SentEmail to subject body \<Rightarrow>
       [\<lparr>lo_name = ''sentinelx.email'', lo_level = 20, lo_message = ''email.stub_send'',
          lo_extra = [(''to'', to), (''subject'', subject)], lo_exc_info = None, lo_event = None\<rparr>,
        \<lparr>lo_name = ''sentinelx.email'', lo_level = 10, lo_message = ''email.stub_body'',
          lo_extra = [(''to'', to), (''body'', body)], lo_exc_info = None, lo_event = None\<rparr>]
   | _ \<Rightarrow> [])"

definition email_lines :: "log_library \<Rightarrow> logger_tree \<Rightarrow> effect list \<Rightarrow> string list" where
  "email_lines lib t tr = concat (map (written lib t) (concat (map email_records tr)))"

text \<open>
  Neither recipient nor subject nor link is in what the handler of \<open>configure_logging\<close>
  writes, at any level: two mails leave the same lines.
\<close>

lemma format_foreign:
  "lo_name r = lo_name r' \<Longrightarrow> lo_level r = lo_level r' \<Longrightarrow> lo_message r = lo_message r' \<Longrightarrow>
    lo_exc_info r = lo_exc_info r' \<Longrightarrow> lo_event r = None \<Longrightarrow> lo_event r' = None \<Longrightarrow>
    format_record lib fm r = format_record lib fm r'"
  by (simp add: format_record_def foreign_entry_def)

lemma written_foreign:
  assumes "library_handlers (ce (build_engine st) tree) (lineage (lo_name r)) = []"
    and "lo_name r = lo_name r'" "lo_level r = lo_level r'" "lo_message r = lo_message r'"
      "lo_exc_info r = lo_exc_info r'" "lo_event r = None" "lo_event r' = None"
  shows "written lib (ly_tree (import_main ce st tree)) r = written lib (ly_tree (import_main ce st tree)) r'"
  using assms format_foreign [OF assms(2-7)] by (simp add: written_def handled_def handlers_up_main)

lemma email_lines_same:
  assumes "library_handlers (ce (build_engine st) tree) (lineage ''sentinelx.email'') = []"
  shows "email_lines lib (ly_tree (import_main ce st tree)) [SentEmail to subject body] =
    email_lines lib (ly_tree (import_main ce st tree)) [SentEmail to' subject' body']"
  using assms by (simp add: email_lines_def email_records_def)
    (intro arg_cong2 [where f = append] written_foreign, simp_all)

text \<open>C15 (Each record of the API one redacted line): whatever handlers and levels the libraries
  have set up, an enabled record of any logger of the API process is written by the handler
  of \<open>configure_logging\<close> as one line at most, the rendering of a redacted entry, in whose
  string values nothing spells an API key or a JWT; it is written whenever propagation is
  left on up to the root or to a logger that \<open>configure_logging\<close> takes over.  The only other lines are those of
  handlers that a library has put on a logger it passes, so that a logger without them
  writes the one redacted line.  A record below the effective level is not written.\<close>

theorem one_redacted_line:
  assumes r: "app_record lib (import_main create_engine st tree) r"
  shows "\<exists>ed. (\<forall>t\<in>texts (LogDict (redact_log_secrets ed)).
      \<not> (\<exists>pre k post. t = pre @ k @ post \<and>
        (spells api_key_pattern (rev pre) k post \<or> spells jwt_pattern (rev pre) k post))) \<and>
    written lib (ly_tree (import_main create_engine st tree)) r =
    (if lo_level r < effective_level (ly_tree (import_main create_engine st tree)) (lineage (lo_name r)) then []
     else concat (map (handle lib r) (library_handlers (create_engine (build_engine st) tree) (lineage (lo_name r)))) @
       (if reaches_own (create_engine (build_engine st) tree) (lineage (lo_name r))
        then [ll_render lib (renderer_of st) (redact_log_secrets ed)] else []))"
proof -
  obtain ed where ed: "format_record lib \<lparr>fm_processor = renderer_of st, fm_foreign_pre_chain = shared_processors\<rparr> r =
      ll_render lib (renderer_of st) (redact_log_secrets ed)"
    using formatted_redacted [OF r] by blast
  have "\<not> spells p (rev pre) k post" if "t \<in> texts (LogDict (redact_log_secrets ed))" "t = pre @ k @ post"
    "p \<in> {api_key_pattern, jwt_pattern}" for t pre k post p
    using logged_text_absent [OF that(1)] absentD [of p "[]" pre k post] that(2,3) by auto
  then have "\<forall>t\<in>texts (LogDict (redact_log_secrets ed)). \<not> (\<exists>pre k post. t = pre @ k @ post \<and>
      (spells api_key_pattern (rev pre) k post \<or> spells jwt_pattern (rev pre) k post))" by blast
  then show ?thesis by (intro exI [of _ ed] conjI) (simp_all add: written_def handled_def handlers_up_main ed)
qed

text \<open>A library whose processors change nothing and whose renderer shows the event.\<close>

definition demo_library :: log_library where
  "demo_library = \<lparr>ll_process = (\<lambda>_ _ _ ed. ed),
     ll_render = (\<lambda>_ ed. case ed of [(_, LogStr t)] \<Rightarrow> t | _ \<Rightarrow> ''?'')\<rparr>"

text \<open>
  SQLAlchemy: an engine with \<open>echo\<close> gives its logger a stream handler if it has none, and
  hands its statements to it whatever the levels.
\<close>

abbreviation engine_logger :: string where "engine_logger \<equiv> ''sqlalchemy.engine.Engine''"

definition echo_handler :: "(log_record \<Rightarrow> string list) \<Rightarrow> (engine_options \<Rightarrow> logger_tree \<Rightarrow> logger_tree) \<Rightarrow> bool" where
  "echo_handler stream create_engine \<longleftrightarrow> (\<forall>opts tree.
     (eo_echo opts \<and> lt_handlers tree engine_logger = [] \<longrightarrow>
       create_engine opts tree = tree\<lparr>lt_handlers := (lt_handlers tree)(engine_logger := [OfLibrary stream])\<rparr>))"

definition echoing_engine :: "engine_options \<Rightarrow> logger_tree \<Rightarrow> logger_tree" where
  "echoing_engine opts tree = (if eo_echo opts \<and> lt_handlers tree engine_logger = []
     then tree\<lparr>lt_handlers := (lt_handlers tree)(engine_logger := [OfLibrary (\<lambda>r. [lo_message r])])\<rparr> else tree)"

lemma engine_lineage: "lineage engine_logger = [engine_logger, ''sqlalchemy.engine'', ''sqlalchemy'']"
  by (simp add: lineage_def upt_rec)

text \<open>
  Under the default settings the engine has \<open>echo\<close>: every statement is written twice, first
  by SQLAlchemy's own handler, without redaction.
\<close>

lemma default_engine_echoes: "eo_echo (build_engine default_app_settings)"
  by (simp add: build_engine_def default_app_settings_def default_settings_def)

lemma echoed_statement_twice:
  assumes e: "echo_handler stream create_engine" "eo_echo (build_engine st)"
    and tree: "\<And>n. n \<in> set (lineage engine_logger) \<Longrightarrow> lt_handlers tree n = [] \<and> lt_propagate tree n"
    and r: "lo_name r = engine_logger" "lo_event r = None"
  shows "\<exists>ed. handled lib (ly_tree (import_main create_engine st tree)) r =
    stream r @ [ll_render lib (renderer_of st) (redact_log_secrets ed)]"
proof -
  have "app_record lib (import_main create_engine st tree) r" using r by (simp add: app_record_def)
  from formatted_redacted [OF this] obtain ed where
    "format_record lib \<lparr>fm_processor = renderer_of st, fm_foreign_pre_chain = shared_processors\<rparr> r =
      ll_render lib (renderer_of st) (redact_log_secrets ed)" by blast
  note ed = this
  have t: "create_engine (build_engine st) tree =
      tree\<lparr>lt_handlers := (lt_handlers tree)(engine_logger := [OfLibrary stream])\<rparr>"
    using e tree [of engine_logger] by (simp add: echo_handler_def engine_lineage)
  have p: "lt_propagate tree n" "n \<noteq> engine_logger \<Longrightarrow> lt_handlers tree n = []" if "n \<in> set (lineage engine_logger)" for n
    using tree [OF that] by simp_all
  have "library_handlers (create_engine (build_engine st) tree) (lineage engine_logger) = [OfLibrary stream]"
    "reaches_own (create_engine (build_engine st) tree) (lineage engine_logger)"
    unfolding t by (simp_all add: engine_lineage noisy_loggers_def p)
  then show ?thesis using ed by (intro exI [of _ ed]) (simp add: handled_def r(1) handlers_up_main)
qed

text \<open>
  The witness: the default settings with their echoing engine; a record of the application
  is one line, with its key redacted.
\<close>

lemma demo_lineage: "lineage ''app.main'' = [''app.main'', ''app'']"
  by (simp add: lineage_def upt_rec)

theorem one_redacted_line_witness:
  "length (written demo_library (ly_tree (import_main echoing_engine default_app_settings untouched_tree))
    \<lparr>lo_name = ''app.main'', lo_level = 20, lo_message = ''sx_a-b.cdefg'', lo_extra = [], lo_exc_info = None, lo_event = None\<rparr>) = 1"
proof -
  let ?r = "\<lparr>lo_name = ''app.main'', lo_level = 20, lo_message = ''sx_a-b.cdefg'', lo_extra = [], lo_exc_info = None, lo_event = None\<rparr>"
  let ?t = "echoing_engine (build_engine default_app_settings) untouched_tree"
  have "log_level_of (st_log_level default_app_settings) = 20"
    by (simp add: default_app_settings_def log_level_of_def log_levels_def upper_char_def is_lower_def)
  then have "effective_level (ly_tree (import_main echoing_engine default_app_settings untouched_tree)) (lineage ''app.main'') = 20"
    by (subst effective_level_main) (simp_all add: echoing_engine_def untouched_tree_def)
  moreover have "library_handlers ?t (lineage ''app.main'') = []" "reaches_own ?t (lineage ''app.main'')"
    by (simp_all add: demo_lineage echoing_engine_def untouched_tree_def)
  moreover have "app_record demo_library (import_main echoing_engine default_app_settings untouched_tree) ?r"
    by (simp add: app_record_def)
  ultimately show ?thesis using one_redacted_line [of demo_library echoing_engine default_app_settings untouched_tree ?r]
    by (auto simp del: effective_level.simps)
qed

text \<open>
  A process that never imports \<open>main.py\<close> has structlog's own chain, without the redaction:
  the line such a process prints, and the one the API process writes.
\<close>

lemma unconfigured_line_shown:
  "ly_structlog s = None \<Longrightarrow>
    structlog_lines demo_library s n l [(StrKey ''event'', LogStr ''sx_a-b.cdefg'')] = [''sx_a-b.cdefg'']"
  by (simp add: structlog_lines_def default_processors_def apply_processor_def demo_library_def)

lemma configured_line_redacted:
  "library_handlers (ce (build_engine st) tree) (lineage n) = [] \<Longrightarrow> reaches_own (ce (build_engine st) tree) (lineage n) \<Longrightarrow>
    effective_level (ly_tree (import_main ce st tree)) (lineage n) \<le> l \<Longrightarrow>
    structlog_lines demo_library (import_main ce st tree) n l [(StrKey ''event'', LogStr ''sx_a-b.cdefg'')] = [redacted]"
  by (simp add: structlog_lines_def import_main_structlog written_def structlog_record_def handled_def handlers_up_main
      format_record_def shared_processors_def apply_processor_def)
    (simp add: demo_library_def redact_log_secrets_def is_sensitive_key_def sensitive_field_names_def lower_def
      lower_char_def api_key_alone redacted_def)

end
