(* ===== verification/Http_Application.thy ===== *)
theory Http_Application
  imports Application Logging_Setup
begin

text \<open>
  The application object of \<open>main.py\<close>: its options, the middleware around the routes, and the
  route table of \<open>api/v1/router.py\<close>.  What answers a request inside the middleware, routes
  and exception handlers, is the argument \<open>routed\<close>; the cross-origin middleware is a
  library's, an argument too.  Starlette puts the middleware added last outermost, and
  its own handler of errors around all of them.
\<close>

section \<open>Options\<close>

record application_options =
  ao_title :: string
  ao_description :: string
  ao_version :: string
  ao_openapi_url :: string
  ao_docs_url :: string
  ao_redoc_url :: string

definition application_options_of :: "app_settings \<Rightarrow> application_options" where
  "application_options_of st = \<lparr>ao_title = st_project_name st,
     ao_description = ''Continuous security validation platform API.'', ao_version = ''0.1.0'',
     ao_openapi_url = st_api_v1_prefix st @ ''/openapi.json'', ao_docs_url = st_api_v1_prefix st @ ''/docs'',
     ao_redoc_url = st_api_v1_prefix st @ ''/redoc''\<rparr>"

record cors_options =
  co_allow_origins :: "string list"
  co_allow_credentials :: bool
  co_allow_methods :: "string list"
  co_allow_headers :: "string list"

definition cors_options_of :: "app_settings \<Rightarrow> cors_options" where
  "cors_options_of st = \<lparr>co_allow_origins = st_backend_cors_origins st, co_allow_credentials = True,
     co_allow_methods = [''*''], co_allow_headers = [''*'']\<rparr>"

section \<open>Middleware\<close>

text \<open>A request and a reply; the names of headers are in lower case in a request.\<close>

record web_request =
  wr_method :: string
  wr_path :: string
  wr_scheme :: string
  wr_headers :: headers

record reply =
  ry_status :: nat
  ry_headers :: headers
  ry_body :: string

text \<open>An application answers or lets an exception out, and has written to the log meanwhile.\<close>

type_synonym asgi = "web_request \<Rightarrow> reply outcome \<times> log_entry list"
type_synonym middleware = "asgi \<Rightarrow> asgi"

definition security_headers_middleware :: "settings \<Rightarrow> middleware" where
  "security_headers_middleware st call_next rq = (case call_next rq of
     (Raises e, lg) \<Rightarrow> (Raises e, lg)
   | (Returns r, lg) \<Rightarrow> (Returns (r\<lparr>ry_headers := add_security_headers st (wr_scheme rq) (ry_headers r)\<rparr>), lg))"

definition request_id_of :: "uuid \<Rightarrow> web_request \<Rightarrow> string" where
  "request_id_of u rq = (case map_of (wr_headers rq) ''x-request-id'' of Some v \<Rightarrow> v | None \<Rightarrow> uuid_str u)"

definition request_entry :: "string \<Rightarrow> string \<Rightarrow> web_request \<Rightarrow> reply \<Rightarrow> log_entry" where
  "request_entry rid ms rq r =
    [(StrKey ''event'', LogStr ''http.request''), (StrKey ''request_id'', LogStr rid),
     (StrKey ''method'', LogStr (wr_method rq)), (StrKey ''path'', LogStr (wr_path rq)),
     (StrKey ''status_code'', LogOther (dec_digits (ry_status r))), (StrKey ''duration_ms'', LogOther ms)]"

text \<open>The identifier drawn for the request and the text of the time it took are arguments.\<close>

definition request_logging_middleware :: "uuid \<Rightarrow> string \<Rightarrow> middleware" where
  "request_logging_middleware u ms call_next rq = (let rid = request_id_of u rq in
     case call_next rq of
       (Raises e, lg) \<Rightarrow> (Raises e, lg)
     | (Returns r, lg) \<Rightarrow>
         let r = r\<lparr>ry_headers := set_header ''x-request-id'' rid (ry_headers r)\<rparr>
         in (Returns r, lg @ [request_entry rid ms rq r]))"

definition add_middleware :: "middleware \<Rightarrow> middleware list \<Rightarrow> middleware list" where
  "add_middleware m ms = m # ms"

definition user_middleware ::
    "(cors_options \<Rightarrow> middleware) \<Rightarrow> app_settings \<Rightarrow> uuid \<Rightarrow> string \<Rightarrow> middleware list" where
  "user_middleware cors st u ms =
    add_middleware (request_logging_middleware u ms)
    (add_middleware (security_headers_middleware (settings.truncate st))
    (add_middleware (cors (cors_options_of st)) []))"

definition server_error :: reply where
  "server_error = \<lparr>ry_status = 500, ry_headers = [(''content-type'', ''text/plain; charset=utf-8'')],
     ry_body = ''Internal Server Error''\<rparr>"

definition application ::
    "(cors_options \<Rightarrow> middleware) \<Rightarrow> app_settings \<Rightarrow> uuid \<Rightarrow> string \<Rightarrow> asgi \<Rightarrow> web_request \<Rightarrow> reply \<times> log_entry list" where
  "application cors st u ms routed rq =
    (case foldr (\<lambda>m app. m app) (user_middleware cors st u ms) routed rq of
       (Returns r, lg) \<Rightarrow> (r, lg)
     | (Raises e, lg) \<Rightarrow> (server_error, lg))"

section \<open>Which replies carry the headers\<close>

lemma set_header_get: "map_of (set_header k v hs) k' = (if k' = k then Some v else map_of hs k')"
  by (simp add: set_header_def update_conv')

definition hardened :: "settings \<Rightarrow> string \<Rightarrow> headers \<Rightarrow> bool" where
  "hardened st scheme hs \<longleftrightarrow> map_of hs ''X-Content-Type-Options'' = Some ''nosniff'' \<and>
     map_of hs ''X-Frame-Options'' = Some ''DENY'' \<and>
     map_of hs ''Referrer-Policy'' = Some ''strict-origin-when-cross-origin'' \<and>
     map_of hs ''Content-Security-Policy'' = Some (st_security_csp_policy st) \<and>
     (scheme = ''https'' \<longrightarrow> map_of hs ''Strict-Transport-Security'' =
       Some (''max-age='' @ int_str (st_security_hsts_max_age_seconds st) @ ''; includeSubDomains''))"

lemma added_headers: "st_security_headers_enabled st \<Longrightarrow> hardened st scheme (add_security_headers st scheme hs)"
  by (simp add: hardened_def add_security_headers_def set_header_get Let_def)

lemma hardened_set: "hardened st scheme hs \<Longrightarrow> hardened st scheme (set_header ''x-request-id'' v hs)"
  by (simp add: hardened_def set_header_get)

text \<open>
  A reply that the routes make, whatever its status, goes out hardened, with the request's
  identifier, and is logged; an exception that no handler takes passes all of that by.
\<close>

lemma application_answers:
  assumes e: "st_security_headers_enabled st" and r: "cors (cors_options_of st) routed rq = (Returns r, lg)"
  shows "\<exists>r'. application cors st u ms routed rq = (r', lg @ [request_entry (request_id_of u rq) ms rq r']) \<and>
    ry_status r' = ry_status r \<and> ry_body r' = ry_body r \<and> hardened (settings.truncate st) (wr_scheme rq) (ry_headers r') \<and>
    map_of (ry_headers r') ''x-request-id'' = Some (request_id_of u rq)"
proof -
  have "st_security_headers_enabled (settings.truncate st)" using e by (simp add: settings.truncate_def)
  from added_headers [OF this] show ?thesis
    by (simp add: application_def user_middleware_def add_middleware_def request_logging_middleware_def
        security_headers_middleware_def r Let_def hardened_set set_header_get)
qed

lemma application_fails:
  assumes "cors (cors_options_of st) routed rq = (Raises e, lg)"
  shows "application cors st u ms routed rq = (server_error, lg)" "\<not> hardened st' scheme (ry_headers server_error)"
    "map_of (ry_headers server_error) ''x-request-id'' = None"
  using assms
  by (simp_all add: application_def user_middleware_def add_middleware_def request_logging_middleware_def
      security_headers_middleware_def server_error_def hardened_def)

section \<open>Liveness\<close>

definition liveness :: "settings \<Rightarrow> health_response prog" where
  "liveness st = bindE now (\<lambda>t. retE \<lparr>he_status = ''ok'', he_service = st_project_name st,
     he_environment = st_environment st, he_timestamp = t\<rparr>)"

section \<open>Routes\<close>

datatype segment = Lit string | Param

record route =
  rt_method :: string
  rt_template :: "segment list"
  rt_endpoint :: string

definition lits :: "string list \<Rightarrow> segment list" where
  "lits = map Lit"

definition health_router :: "route list" where
  "health_router = [\<lparr>rt_method = ''GET'', rt_template = lits [''health''], rt_endpoint = ''health''\<rparr>,
     \<lparr>rt_method = ''GET'', rt_template = lits [''health'', ''live''], rt_endpoint = ''liveness''\<rparr>,
     \<lparr>rt_method = ''GET'', rt_template = lits [''health'', ''ready''], rt_endpoint = ''readiness''\<rparr>]"

definition auth_router :: "route list" where
  "auth_router = map (\<lambda>(m, p, e). \<lparr>rt_method = m, rt_template = Lit ''auth'' # p, rt_endpoint = e\<rparr>)
    [(''POST'', lits [''register''], ''register''), (''POST'', lits [''login''], ''login''),
     (''POST'', lits [''refresh''], ''refresh''), (''POST'', lits [''logout''], ''logout''),
     (''POST'', lits [''switch-tenant''], ''switch_tenant''), (''GET'', lits [''me''], ''me''),
     (''POST'', lits [''password'', ''change''], ''change_password''),
     (''POST'', lits [''password'', ''reset'', ''request''], ''request_password_reset''),
     (''POST'', lits [''password'', ''reset'', ''confirm''], ''confirm_password_reset''),
     (''POST'', lits [''email'', ''verify'', ''request''], ''request_email_verification''),
     (''POST'', lits [''email'', ''verify'', ''confirm''], ''confirm_email_verification''),
     (''GET'', lits [''sessions''], ''list_sessions''),
     (''DELETE'', [Lit ''sessions'', Param], ''revoke_session''),
     (''DELETE'', lits [''sessions''], ''revoke_all_sessions'')]"

definition api_keys_router :: "route list" where
  "api_keys_router = map (\<lambda>(m, p, e). \<lparr>rt_method = m, rt_template = Lit ''api-keys'' # p, rt_endpoint = e\<rparr>)
    [(''POST'', [], ''create_api_key''), (''GET'', [], ''list_api_keys''),
     (''POST'', [Param, Lit ''revoke''], ''revoke_api_key''),
     (''POST'', [Param, Lit ''rotate''], ''rotate_api_key'')]"

definition memberships_router :: "route list" where
  "memberships_router = map (\<lambda>(m, p, e). \<lparr>rt_method = m, rt_template = Lit ''memberships'' # p, rt_endpoint = e\<rparr>)
    [(''GET'', [], ''list_memberships''), (''POST'', [], ''add_member''),
     (''PATCH'', [Param], ''update_membership''), (''DELETE'', [Param], ''remove_member'')]"

definition audit_events_router :: "route list" where
  "audit_events_router = [\<lparr>rt_method = ''GET'', rt_template = [Lit ''audit-events''], rt_endpoint = ''list_audit_events''\<rparr>]"

definition scans_router :: "route list" where
  "scans_router = map (\<lambda>(m, p, e). \<lparr>rt_method = m, rt_template = Lit ''scans'' # p, rt_endpoint = e\<rparr>)
    [(''POST'', [], ''create_scan''), (''GET'', [], ''list_scans''), (''GET'', [Param], ''get_scan''),
     (''GET'', [Param, Lit ''progress''], ''get_scan_progress''),
     (''POST'', [Param, Lit ''cancel''], ''cancel_scan''), (''POST'', [Param, Lit ''retry''], ''retry_scan'')]"

definition api_router :: "route list" where
  "api_router = health_router @ auth_router @ api_keys_router @ memberships_router @
     audit_events_router @ scans_router"

definition segment_matches :: "segment \<Rightarrow> string \<Rightarrow> bool" where
  "segment_matches g s = (case g of Lit l \<Rightarrow> s = l | Param \<Rightarrow> s \<noteq> [])"

definition route_matches :: "string \<Rightarrow> string list \<Rightarrow> route \<Rightarrow> bool" where
  "route_matches m path r \<longleftrightarrow> rt_method r = m \<and> list_all2 segment_matches (rt_template r) path"

text \<open>The first route that matches answers.\<close>

definition dispatch_route :: "string \<Rightarrow> string list \<Rightarrow> string option" where
  "dispatch_route m path = map_option rt_endpoint (List.find (route_matches m path) api_router)"

fun templates_meet :: "segment list \<Rightarrow> segment list \<Rightarrow> bool" where
  "templates_meet [] [] = True"
| "templates_meet (Lit a # s) (Lit b # t) = (a = b \<and> templates_meet s t)"
| "templates_meet (_ # s) (_ # t) = templates_meet s t"
| "templates_meet _ _ = False"

lemma templates_meetI:
  "list_all2 segment_matches s path \<Longrightarrow> list_all2 segment_matches t path \<Longrightarrow> templates_meet s t"
  by (induction s t arbitrary: path rule: templates_meet.induct)
    (auto simp: list_all2_Cons1 segment_matches_def)

fun unambiguous :: "route list \<Rightarrow> bool" where
  "unambiguous [] = True"
| "unambiguous (r # rs) = (list_all (\<lambda>q. rt_method r = rt_method q \<longrightarrow> \<not> templates_meet (rt_template r) (rt_template q)) rs \<and>
     unambiguous rs)"

lemma api_router_unambiguous: "unambiguous api_router"
  by (simp add: api_router_def health_router_def auth_router_def api_keys_router_def memberships_router_def
      audit_events_router_def scans_router_def lits_def)

lemma unambiguous_match:
  "unambiguous rs \<Longrightarrow> r \<in> set rs \<Longrightarrow> q \<in> set rs \<Longrightarrow> route_matches m p r \<Longrightarrow> route_matches m p q \<Longrightarrow> r = q"
  by (induction rs) (auto simp: list_all_iff route_matches_def dest: templates_meetI)

text \<open>The order in which the routers are included does not matter: at most one route matches.\<close>

lemma dispatch_route_exact:
  "r \<in> set api_router \<Longrightarrow> route_matches m p r \<Longrightarrow> dispatch_route m p = Some (rt_endpoint r)"
  by (cases "List.find (route_matches m p) api_router")
    (auto simp: dispatch_route_def find_None_iff find_Some_iff
      dest: unambiguous_match [OF api_router_unambiguous, OF nth_mem])

end
