(* ===== verification/Read_Schemas.thy ===== *)
theory Read_Schemas
  imports Orm_Models
begin

text \<open>
  The schemas a row is returned through, the classes of \<open>schemas/*.py\<close> that are built from the
  attributes of a model (\<open>from_attributes\<close>), and what Pydantic does with one: each declared
  field is read and validated, the others are dropped.
\<close>

section \<open>Fields\<close>

text \<open>The Python type of a field; a member of an enumeration goes by its name.\<close>

datatype py_type = PyUuid | PyStr | PyInt | PyDatetime | PyStrList | PyDict | PyEnum "string list"

record field_decl =
  fd_name :: string
  fd_type :: py_type
  fd_optional :: bool

definition field :: "string \<Rightarrow> py_type \<Rightarrow> field_decl" where
  "field n t = \<lparr>fd_name = n, fd_type = t, fd_optional = False\<rparr>"

definition optional :: "string \<Rightarrow> py_type \<Rightarrow> field_decl" where
  "optional n t = \<lparr>fd_name = n, fd_type = t, fd_optional = True\<rparr>"

definition py_enum :: "'a list \<Rightarrow> ('a \<Rightarrow> string) \<Rightarrow> py_type" where
  "py_enum members member_name = PyEnum (map member_name members)"

text \<open>\<open>metadata\<close> is taken in a declarative class, so its attribute has another name.\<close>

definition attribute_column :: "string \<Rightarrow> string" where
  "attribute_column a = (if a = ''event_metadata'' then ''metadata'' else a)"

section \<open>Validation\<close>

text \<open>The value an attribute has; the \<open>null\<close> of JSON is read as \<open>None\<close>.\<close>

definition attribute_value :: "sql_value option \<Rightarrow> sql_value option" where
  "attribute_value v = (if v = Some (VJson JNull) then None else v)"

fun of_type :: "py_type \<Rightarrow> sql_value \<Rightarrow> bool" where
  "of_type PyUuid (VUuid u) = True"
| "of_type PyStr (VText s) = True"
| "of_type PyInt (VInt i) = True"
| "of_type PyDatetime (VTime t) = True"
| "of_type PyStrList (VTexts xs) = True"
| "of_type PyDict (VJson (JObj m)) = True"
| "of_type (PyEnum names) (VText s) = (s \<in> set names)"
| "of_type _ _ = False"

definition validate_field :: "sql_row \<Rightarrow> field_decl \<Rightarrow> (string \<times> sql_value option) option" where
  "validate_field r f = (case attribute_value (value_of r (attribute_column (fd_name f))) of
     None \<Rightarrow> if fd_optional f then Some (fd_name f, None) else None
   | Some v \<Rightarrow> if of_type (fd_type f) v then Some (fd_name f, Some v) else None)"

text \<open>\<open>model_validate\<close>: the fields, or a validation error.\<close>

definition model_validate :: "field_decl list \<Rightarrow> sql_row \<Rightarrow> (string \<times> sql_value option) list option" where
  "model_validate fs r = those (map (validate_field r) fs)"

section \<open>The schemas\<close>

definition tenant_read_fields :: "field_decl list" where
  "tenant_read_fields =
    [field ''id'' PyUuid, field ''name'' PyStr, field ''slug'' PyStr,
     field ''status'' (py_enum tenant_status_members tenant_status_name),
     field ''created_at'' PyDatetime, field ''updated_at'' PyDatetime,
     optional ''deleted_at'' PyDatetime]"

definition user_read_fields :: "field_decl list" where
  "user_read_fields =
    [field ''id'' PyUuid, field ''email'' PyStr, field ''display_name'' PyStr,
     field ''status'' (py_enum user_status_members user_status_name),
     field ''created_at'' PyDatetime, field ''updated_at'' PyDatetime]"

definition tenant_membership_read_fields :: "field_decl list" where
  "tenant_membership_read_fields =
    [field ''id'' PyUuid, field ''tenant_id'' PyUuid, field ''user_id'' PyUuid,
     field ''role'' (py_enum membership_role_members membership_role_name),
     field ''status'' (py_enum membership_status_members membership_status_name),
     field ''created_at'' PyDatetime, field ''updated_at'' PyDatetime]"

definition api_key_metadata_read_fields :: "field_decl list" where
  "api_key_metadata_read_fields =
    [field ''id'' PyUuid, field ''tenant_id'' PyUuid, optional ''user_id'' PyUuid,
     field ''name'' PyStr, field ''prefix'' PyStr, field ''scopes'' PyStrList,
     field ''status'' (py_enum api_key_status_members api_key_status_name),
     optional ''expires_at'' PyDatetime, optional ''last_used_at'' PyDatetime,
     optional ''revoked_at'' PyDatetime, field ''created_at'' PyDatetime,
     field ''updated_at'' PyDatetime]"

definition session_read_fields :: "field_decl list" where
  "session_read_fields =
    [field ''id'' PyUuid, field ''created_at'' PyDatetime, field ''expires_at'' PyDatetime,
     optional ''user_agent'' PyStr, optional ''created_by_ip'' PyStr]"

definition audit_event_read_fields :: "field_decl list" where
  "audit_event_read_fields =
    [field ''id'' PyUuid, optional ''tenant_id'' PyUuid, optional ''actor_user_id'' PyUuid,
     field ''action'' PyStr, field ''resource_type'' PyStr, optional ''resource_id'' PyStr,
     field ''outcome'' (py_enum audit_outcome_members audit_outcome_name),
     optional ''correlation_id'' PyStr, optional ''source_ip'' PyStr,
     optional ''user_agent'' PyStr, optional ''event_metadata'' PyDict,
     field ''created_at'' PyDatetime]"

definition project_read_fields :: "field_decl list" where
  "project_read_fields =
    [field ''id'' PyUuid, field ''tenant_id'' PyUuid, field ''name'' PyStr, field ''slug'' PyStr,
     optional ''description'' PyStr,
     field ''status'' (py_enum project_status_members project_status_name),
     optional ''archived_at'' PyDatetime, field ''created_at'' PyDatetime,
     field ''updated_at'' PyDatetime]"

definition asset_read_fields :: "field_decl list" where
  "asset_read_fields =
    [field ''id'' PyUuid, field ''tenant_id'' PyUuid, field ''project_id'' PyUuid,
     field ''asset_type'' (py_enum asset_type_members asset_type_name), field ''name'' PyStr,
     field ''locator'' PyStr,
     field ''environment'' (py_enum asset_environment_members asset_environment_name),
     field ''status'' (py_enum asset_status_members asset_status_name),
     field ''authorization_status'' (py_enum authorization_status_members authorization_status_name),
     field ''created_at'' PyDatetime, field ''updated_at'' PyDatetime]"

definition scan_read_fields :: "field_decl list" where
  "scan_read_fields =
    [field ''id'' PyUuid, field ''tenant_id'' PyUuid, field ''project_id'' PyUuid,
     field ''asset_id'' PyUuid, field ''scanner_type'' PyStr,
     field ''status'' (py_enum scan_status_members scan_status_name),
     optional ''requested_by_user_id'' PyUuid, optional ''queued_at'' PyDatetime,
     optional ''started_at'' PyDatetime, optional ''completed_at'' PyDatetime,
     optional ''failed_at'' PyDatetime, optional ''cancelled_at'' PyDatetime,
     optional ''timed_out_at'' PyDatetime, optional ''error_code'' PyStr,
     optional ''error_summary'' PyStr, field ''attempt'' PyInt, field ''max_attempts'' PyInt,
     optional ''worker_id'' PyStr, field ''timeout_seconds'' PyInt,
     optional ''retry_of_scan_id'' PyUuid, optional ''config'' PyDict,
     optional ''correlation_id'' PyStr, field ''created_at'' PyDatetime,
     field ''updated_at'' PyDatetime]"

definition scan_event_read_fields :: "field_decl list" where
  "scan_event_read_fields =
    [field ''id'' PyUuid, field ''tenant_id'' PyUuid, field ''scan_id'' PyUuid,
     field ''event_type'' PyStr, optional ''stage'' PyStr, optional ''progress_percent'' PyInt,
     optional ''worker_id'' PyStr, optional ''correlation_id'' PyStr, optional ''message'' PyStr,
     optional ''event_metadata'' PyDict, field ''created_at'' PyDatetime]"

definition finding_read_fields :: "field_decl list" where
  "finding_read_fields =
    [field ''id'' PyUuid, field ''tenant_id'' PyUuid, field ''project_id'' PyUuid,
     field ''asset_id'' PyUuid, field ''scan_id'' PyUuid, field ''title'' PyStr,
     optional ''description'' PyStr,
     field ''severity'' (py_enum finding_severity_members finding_severity_name),
     field ''status'' (py_enum finding_status_members finding_status_name),
     field ''confidence'' (py_enum finding_confidence_members finding_confidence_name),
     field ''source_tool'' PyStr, optional ''external_reference'' PyStr,
     field ''fingerprint'' PyStr, optional ''remediation'' PyStr,
     field ''first_seen_at'' PyDatetime, field ''last_seen_at'' PyDatetime,
     optional ''resolved_at'' PyDatetime, field ''created_at'' PyDatetime,
     field ''updated_at'' PyDatetime]"

definition finding_reference_read_fields :: "field_decl list" where
  "finding_reference_read_fields =
    [field ''id'' PyUuid, field ''finding_id'' PyUuid,
     field ''reference_type'' (py_enum finding_reference_type_members finding_reference_type_name),
     field ''value'' PyStr, field ''created_at'' PyDatetime, field ''updated_at'' PyDatetime]"

definition read_schemas :: "(field_decl list \<times> orm_table) list" where
  "read_schemas =
    [(tenant_read_fields, tenant_model),
     (user_read_fields, user_model),
     (tenant_membership_read_fields, tenant_membership_model),
     (api_key_metadata_read_fields, api_key_metadata_model),
     (session_read_fields, refresh_token_model),
     (audit_event_read_fields, audit_event_model),
     (project_read_fields, project_model),
     (asset_read_fields, asset_model),
     (scan_read_fields, scan_model),
     (scan_event_read_fields, scan_event_model),
     (finding_read_fields, finding_model),
     (finding_reference_read_fields, finding_reference_model)]"

section \<open>Every stored row can be returned\<close>

text \<open>What a type of a column holds, as a field sees it.\<close>

fun type_fits :: "py_type \<Rightarrow> col_type \<Rightarrow> bool" where
  "type_fits PyUuid TUuid = True"
| "type_fits PyStr (TString n) = True"
| "type_fits PyStr TText = True"
| "type_fits PyInt TInteger = True"
| "type_fits PyDatetime TTimestamp = True"
| "type_fits PyStrList (TStringArray n) = True"
| "type_fits PyDict TJsonb = True"
| "type_fits (PyEnum names) (TEnum n xs k) = (xs = names)"
| "type_fits _ _ = False"

definition field_fits :: "mapped list \<Rightarrow> field_decl \<Rightarrow> bool" where
  "field_fits ms f = (case List.find (\<lambda>m. mc_column m = attribute_column (fd_name f)) ms of
     None \<Rightarrow> False
   | Some m \<Rightarrow> type_fits (fd_type f) (mc_type m) \<and> (mc_nullable m \<longrightarrow> fd_optional f) \<and>
       (mc_type m = TJsonb \<longrightarrow> fd_optional f))"

text \<open>What must not leave the server.\<close>

definition secret_columns :: "string list" where
  "secret_columns = [''hashed_password'', ''hashed_secret'', ''hashed_token'', ''token_version'', ''job_id'']"

definition schema_fits :: "field_decl list \<Rightarrow> orm_table \<Rightarrow> bool" where
  "schema_fits fs t \<longleftrightarrow> list_all (field_fits (ot_columns t)) fs \<and>
     list_all (\<lambda>f. attribute_column (fd_name f) \<notin> set secret_columns) fs"

named_theorems schema_fit  \<comment> \<open>each schema and its model\<close>

lemmas schema_simps = schema_fits_def field_fits_def field_def optional_def py_enum_def attribute_column_def
  secret_columns_def declared_def uuid_primary_key_mixin_def timestamp_mixin_def created_at_mixin_def
  mapped_column_def sa_enum_def

lemma tenant_read_fit [schema_fit]: "schema_fits tenant_read_fields tenant_model"
  by (simp add: tenant_read_fields_def tenant_model_def schema_simps)

lemma user_read_fit [schema_fit]: "schema_fits user_read_fields user_model"
  by (simp add: user_read_fields_def user_model_def schema_simps)

lemma tenant_membership_read_fit [schema_fit]: "schema_fits tenant_membership_read_fields tenant_membership_model"
  by (simp add: tenant_membership_read_fields_def tenant_membership_model_def schema_simps)

lemma api_key_metadata_read_fit [schema_fit]: "schema_fits api_key_metadata_read_fields api_key_metadata_model"
  by (simp add: api_key_metadata_read_fields_def api_key_metadata_model_def schema_simps)

lemma session_read_fit [schema_fit]: "schema_fits session_read_fields refresh_token_model"
  by (simp add: session_read_fields_def refresh_token_model_def schema_simps)

lemma audit_event_read_fit [schema_fit]: "schema_fits audit_event_read_fields audit_event_model"
  by (simp add: audit_event_read_fields_def audit_event_model_def schema_simps)

lemma project_read_fit [schema_fit]: "schema_fits project_read_fields project_model"
  by (simp add: project_read_fields_def project_model_def schema_simps)

lemma asset_read_fit [schema_fit]: "schema_fits asset_read_fields asset_model"
  by (simp add: asset_read_fields_def asset_model_def schema_simps)

lemma scan_read_fit [schema_fit]: "schema_fits scan_read_fields scan_model"
  by (simp add: scan_read_fields_def scan_model_def schema_simps)

lemma scan_event_read_fit [schema_fit]: "schema_fits scan_event_read_fields scan_event_model"
  by (simp add: scan_event_read_fields_def scan_event_model_def schema_simps)

lemma finding_read_fit [schema_fit]: "schema_fits finding_read_fields finding_model"
  by (simp add: finding_read_fields_def finding_model_def schema_simps)

lemma finding_reference_read_fit [schema_fit]: "schema_fits finding_reference_read_fields finding_reference_model"
  by (simp add: finding_reference_read_fields_def finding_reference_model_def schema_simps)

lemma read_schemas_fit: "(fs, t) \<in> set read_schemas \<Longrightarrow> schema_fits fs t"
  by (auto simp: read_schemas_def schema_fit)

text \<open>What a row of a table holds in a column: no \<open>NULL\<close> unless allowed, a value of the type,
  and a member's name in an enumeration.\<close>

lemma row_enum:
  assumes r: "row_accepted sz (model_table t) r" and m: "m \<in> set (ot_columns t)" "mc_type m = TEnum n xs k"
    and v: "value_of r (mc_column m) = Some (VText s)"
  shows "s \<in> set xs"
proof -
  have "Check (ck_name (ot_name t) n) (OneOf (mc_column m) xs) \<in> set (column_constraints (ot_name t) m)"
    using m(2) by (simp add: column_constraints_def physical_column_def)
  then have "Check (ck_name (ot_name t) n) (OneOf (mc_column m) xs) \<in> set (td_constraints (model_table t))"
    using m(1) by (auto simp: model_table_def)
  moreover have "\<forall>k\<in>set (td_constraints (model_table t)). check_passes sz r k"
    using r by (simp add: row_accepted_def list_all_iff)
  ultimately have "check_passes sz r (Check (ck_name (ot_name t) n) (OneOf (mc_column m) xs))" by blast
  then show ?thesis using v by simp
qed

lemma row_column:
  assumes "row_accepted sz (model_table t) r" "m \<in> set (ot_columns t)"
  shows "case value_of r (mc_column m) of None \<Rightarrow> mc_nullable m | Some v \<Rightarrow> fits (mc_type m) v"
proof -
  have "column_accepts r (physical_column m)"
    using assms by (simp add: row_accepted_def model_table_def list_all_iff)
  then show ?thesis by (simp add: column_accepts_def physical_column_def split: option.splits)
qed

definition json_objects :: "sql_row \<Rightarrow> bool" where
  "json_objects r \<longleftrightarrow> (\<forall>c j. value_of r c = Some (VJson j) \<longrightarrow> j = JNull \<or> (\<exists>m. j = JObj m))"

lemma validate_fitting:
  assumes f: "field_fits (ot_columns t) f" and r: "row_accepted sz (model_table t) r" "json_objects r"
  shows "\<exists>v. validate_field r f = Some (fd_name f, v)"
proof -
  obtain m where m: "m \<in> set (ot_columns t)" "mc_column m = attribute_column (fd_name f)"
      "type_fits (fd_type f) (mc_type m)" "mc_nullable m \<longrightarrow> fd_optional f" "mc_type m = TJsonb \<longrightarrow> fd_optional f"
    using f by (force simp: field_fits_def find_Some_iff split: option.splits)
  show ?thesis
  proof (cases "value_of r (mc_column m)")
    case None
    then show ?thesis using row_column [OF r(1) m(1)] m(2,4) by (simp add: validate_field_def attribute_value_def)
  next
    case (Some v)
    then have fits: "fits (mc_type m) v" using row_column [OF r(1) m(1)] by simp
    have j: "v = VJson j \<Longrightarrow> j = JNull \<or> (\<exists>m. j = JObj m)" for j
      using Some r(2) by (simp add: json_objects_def)
    have "v = VJson JNull \<and> fd_optional f \<or> v \<noteq> VJson JNull \<and> of_type (fd_type f) v"
      using m(3,5) fits Some row_enum [OF r(1) m(1)]
      by (cases "fd_type f"; cases "mc_type m"; cases v) (auto dest: j)
    then show ?thesis using Some m(2) by (auto simp: validate_field_def attribute_value_def)
  qed
qed

lemma those_map_Some:
  assumes "\<And>x. x \<in> set xs \<Longrightarrow> \<exists>y. f x = Some (g x, y)"
  shows "\<exists>ys. those (map f xs) = Some ys \<and> map fst ys = map g xs"
  using assms
proof (induction xs)
  case (Cons x xs)
  obtain y where "f x = Some (g x, y)" using Cons.prems by force
  moreover obtain ys where "those (map f xs) = Some ys" "map fst ys = map g xs" using Cons by auto
  ultimately show ?case by simp
qed simp

text \<open>C24 (Every stored row can be returned): building a read schema from a row cannot fail: every
  row the table of its model accepts, with objects in its JSON columns, validates, and gives
  exactly the declared fields, none of which is a password, key or token hash, a token
  version or the task id of a scan.\<close>

theorem stored_rows_validate:
  assumes s: "(fs, t) \<in> set read_schemas" and r: "row_accepted sz (model_table t) r" "json_objects r"
  shows "\<exists>out. model_validate fs r = Some out \<and> map fst out = map fd_name fs \<and>
    set (map attribute_column (map fst out)) \<inter> set secret_columns = {}"
proof -
  have f: "field_fits (ot_columns t) f" "attribute_column (fd_name f) \<notin> set secret_columns" if "f \<in> set fs" for f
    using read_schemas_fit [OF s] that by (auto simp: schema_fits_def list_all_iff)
  have "\<exists>out. those (map (validate_field r) fs) = Some out \<and> map fst out = map fd_name fs"
    using validate_fitting [OF f(1) r] by (intro those_map_Some) auto
  then obtain out where "model_validate fs r = Some out" "map fst out = map fd_name fs"
    by (auto simp: model_validate_def)
  moreover have "set (map attribute_column (map fd_name fs)) \<inter> set secret_columns = {}" using f(2) by auto
  ultimately show ?thesis by metis
qed

definition demo_reference_row :: sql_row where
  "demo_reference_row = [(''id'', Some (VUuid 1)), (''tenant_id'', Some (VUuid 2)), (''finding_id'', Some (VUuid 3)),
     (''reference_type'', Some (VText ''CVE'')), (''value'', Some (VText ''CVE-2024-1'')),
     (''created_at'', Some (VTime 1)), (''updated_at'', Some (VTime 1))]"

theorem stored_rows_validate_witness:
  "\<exists>out. model_validate finding_reference_read_fields demo_reference_row = Some out \<and>
    map fst out = [''id'', ''finding_id'', ''reference_type'', ''value'', ''created_at'', ''updated_at'']"
proof -
  have "(finding_reference_read_fields, finding_reference_model) \<in> set read_schemas" by (simp add: read_schemas_def)
  moreover have "row_accepted sz (model_table finding_reference_model) demo_reference_row" for sz
    by (simp add: row_accepted_def finding_reference_model_def demo_reference_row_def model_table_def declared_def
        uuid_primary_key_mixin_def timestamp_mixin_def mapped_column_def sa_enum_def physical_column_def
        column_constraints_def column_accepts_def value_of_def finding_reference_type_members_def)
  moreover have "json_objects demo_reference_row"
    by (auto simp: json_objects_def demo_reference_row_def value_of_def split: if_splits)
  moreover have "map fd_name finding_reference_read_fields =
      [''id'', ''finding_id'', ''reference_type'', ''value'', ''created_at'', ''updated_at'']"
    by (simp add: finding_reference_read_fields_def field_def)
  ultimately show ?thesis
    using stored_rows_validate [of finding_reference_read_fields finding_reference_model _ demo_reference_row] by metis
qed

end
