(* ===== verification/Resource_Updates.thy ===== *)
theory Resource_Updates
  imports Project_Repositories Identity_Repositories Quiet_Runs
begin

text \<open>
  The \<open>update\<close> methods of the project and asset repositories, with the schemas that feed
  them.  As in \<open>Identity_Repositories\<close>: the fields that were sent are set on the loaded
  object, and a flush writes the columns that differ.  A \<open>null\<close> for a column that is not
  nullable makes the statement fail.
\<close>

section \<open>Projects\<close>

record project_update =
  pu_name :: "string patch_field"
  pu_description :: "string option option"
  pu_status :: "project_status patch_field"

definition set_project :: "project \<Rightarrow> project_update \<Rightarrow> project \<Rightarrow> project" where
  "set_project l u r = r\<lparr>
     pr_name := set_col (patched (pu_name u) (pr_name l)) (pr_name l) (pr_name r),
     pr_description := set_col (case pu_description u of None \<Rightarrow> pr_description l | Some x \<Rightarrow> x)
       (pr_description l) (pr_description r),
     pr_status := set_col (patched (pu_status u) (pr_status l)) (pr_status l) (pr_status r)\<rparr>"

definition project_nulls :: "project_update \<Rightarrow> bool" where
  "project_nulls u \<longleftrightarrow> pu_name u = Some None \<or> pu_status u = Some None"

definition same_project :: "project \<Rightarrow> project \<Rightarrow> bool" where
  "same_project l r \<longleftrightarrow> pr_id r = pr_id l \<and> pr_tenant_id r = pr_tenant_id l"

definition update_projects :: "(project \<Rightarrow> bool) \<Rightarrow> (project \<Rightarrow> project) \<Rightarrow> db \<Rightarrow> db" where
  "update_projects P f d = d\<lparr>projects := update_where P f (projects d)\<rparr>"

definition project_repo_update :: "project \<Rightarrow> project_update \<Rightarrow> project prog" where
  "project_repo_update l u =
    (if set_project l u l = l \<and> \<not> project_nulls u then retE l
     else bindE now (\<lambda>t.
       thenE (stmt (\<lambda>d. \<not> project_nulls u \<and> length (pr_name (set_project l u l)) \<le> 200 \<and>
                (\<exists>r\<in>set (projects d). same_project l r))
          (update_projects (same_project l) (\<lambda>r. (set_project l u r)\<lparr>pr_updated_at := t\<rparr>)))
        (retE ((set_project l u l)\<lparr>pr_updated_at := t\<rparr>))))"

section \<open>Assets\<close>

record asset_update =
  asu_name :: "string patch_field"
  asu_locator :: "string patch_field"
  asu_environment :: "asset_environment patch_field"
  asu_status :: "asset_status patch_field"
  asu_authorization_status :: "authorization_status patch_field"

definition set_asset :: "asset \<Rightarrow> asset_update \<Rightarrow> asset \<Rightarrow> asset" where
  "set_asset l u r = r\<lparr>
     as_name := set_col (patched (asu_name u) (as_name l)) (as_name l) (as_name r),
     as_locator := set_col (patched (asu_locator u) (as_locator l)) (as_locator l) (as_locator r),
     as_environment := set_col (patched (asu_environment u) (as_environment l)) (as_environment l) (as_environment r),
     as_status := set_col (patched (asu_status u) (as_status l)) (as_status l) (as_status r),
     as_authorization_status := set_col (patched (asu_authorization_status u) (as_authorization_status l))
       (as_authorization_status l) (as_authorization_status r)\<rparr>"

definition asset_nulls :: "asset_update \<Rightarrow> bool" where
  "asset_nulls u \<longleftrightarrow> asu_name u = Some None \<or> asu_locator u = Some None \<or> asu_environment u = Some None \<or>
     asu_status u = Some None \<or> asu_authorization_status u = Some None"

definition same_asset :: "asset \<Rightarrow> asset \<Rightarrow> bool" where
  "same_asset l r \<longleftrightarrow> as_id r = as_id l \<and> as_tenant_id r = as_tenant_id l"

definition update_assets :: "(asset \<Rightarrow> bool) \<Rightarrow> (asset \<Rightarrow> asset) \<Rightarrow> db \<Rightarrow> db" where
  "update_assets P f d = d\<lparr>assets := update_where P f (assets d)\<rparr>"

definition asset_repo_update :: "asset \<Rightarrow> asset_update \<Rightarrow> asset prog" where
  "asset_repo_update l u =
    (if set_asset l u l = l \<and> \<not> asset_nulls u then retE l
     else bindE now (\<lambda>t.
       thenE (stmt (\<lambda>d. \<not> asset_nulls u \<and> length (as_name (set_asset l u l)) \<le> 200 \<and>
                length (as_locator (set_asset l u l)) \<le> 2048 \<and> (\<exists>r\<in>set (assets d). same_asset l r))
          (update_assets (same_asset l) (\<lambda>r. (set_asset l u r)\<lparr>as_updated_at := t\<rparr>)))
        (retE ((set_asset l u l)\<lparr>as_updated_at := t\<rparr>))))"

section \<open>What an update leaves alone\<close>

text \<open>The identity of a row, and the time of archiving, which no operation of the program sets.\<close>

definition project_identity :: "project \<Rightarrow> uuid \<times> uuid \<times> string \<times> int option \<times> int" where
  "project_identity p = (pr_id p, pr_tenant_id p, pr_slug p, pr_archived_at p, pr_created_at p)"

definition asset_identity :: "asset \<Rightarrow> uuid \<times> uuid \<times> uuid \<times> asset_type \<times> int" where
  "asset_identity a = (as_id a, as_tenant_id a, as_project_id a, as_asset_type a, as_created_at a)"

interpretation project_set: keyed_update project_identity "\<lambda>r. (set_project l u r)\<lparr>pr_updated_at := t\<rparr>"
  by unfold_locales (simp add: project_identity_def set_project_def)

interpretation asset_set: keyed_update asset_identity "\<lambda>r. (set_asset l u r)\<lparr>as_updated_at := t\<rparr>"
  by unfold_locales (simp add: asset_identity_def set_asset_def)

definition resources :: "db \<Rightarrow> (uuid \<times> uuid \<times> string \<times> int option \<times> int) list \<times>
    (uuid \<times> uuid \<times> uuid \<times> asset_type \<times> int) list" where
  "resources d = (map project_identity (projects d), map asset_identity (assets d))"

definition same_resources :: "db \<Rightarrow> db \<Rightarrow> bool" where
  "same_resources d d' \<longleftrightarrow> resources d' = resources d"

interpretation res: db_relation same_resources "\<lambda>_. True"
  by unfold_locales (simp_all add: same_resources_def)

lemma same_resources_updates:
  "same_resources d (update_projects P (\<lambda>r. (set_project l u r)\<lparr>pr_updated_at := t\<rparr>) d)"
  "same_resources d (update_assets Q (\<lambda>r. (set_asset l' u' r)\<lparr>as_updated_at := t\<rparr>) d)"
  by (simp_all add: same_resources_def resources_def update_projects_def update_assets_def
      map_update_where_same project_set.key_update asset_set.key_update)

lemma keeps_resource_updates:
  "keeps same_resources (\<lambda>_. True) (project_repo_update l u)"
  "keeps same_resources (\<lambda>_. True) (asset_repo_update l' u')"
  unfolding project_repo_update_def asset_repo_update_def
  by (auto intro!: res.keeps_retE res.keeps_bindE res.keeps_now res.keeps_thenE res.keeps_stmt same_resources_updates)

text \<open>Sending what is already there writes nothing.\<close>

lemma project_update_idle:
  "pu_name u \<in> {None, Some (Some (pr_name l))} \<Longrightarrow> pu_description u \<in> {None, Some (pr_description l)} \<Longrightarrow>
    pu_status u \<in> {None, Some (Some (pr_status l))} \<Longrightarrow> project_repo_update l u w = (Inr l, w)"
  by (auto simp: project_repo_update_def set_project_def project_nulls_def retE_def)

text \<open>A \<open>null\<close> where none is allowed is an error of the database, not of validation.\<close>

lemma project_update_null:
  "quiet w \<Longrightarrow> project_nulls u \<Longrightarrow> fst (project_repo_update l u w) = Inl db_error"
  by (simp add: project_repo_update_def run_simps stmt_def prog_simps quiet_def)

end
