(* ===== verification/End_To_End.thy ===== *)
theory End_To_End
  imports Task_Queues Service_Properties
begin

text \<open>
  The three sessions a scan lives through, one after the other: the request that creates it
  (\<open>services/scan_service.py\<close>), the dispatcher tick that sends its job
  (\<open>workers/tasks/outbox_dispatcher.py\<close>) and the worker task that executes it
  (\<open>workers/tasks/scan_tasks.py\<close>).  Each starts with the database the one before it
  committed, and nothing else runs meanwhile.
\<close>

section \<open>The next session\<close>

text \<open>It finds what was committed; the \<open>uuid4\<close> values go on where they stopped.\<close>

definition next_session :: "int \<Rightarrow> world \<Rightarrow> world" where
  "next_session t w = start_world (w_db w) t [] (\<lambda>n. w_uuids w (w_drawn w + n))"

lemma next_session_sel [simp]:
  "w_db (next_session t w) = w_db w" "view (next_session t w) = w_db w" "quiet (next_session t w)"
  "w_clock (next_session t w) = t" "w_pend (next_session t w) = (\<lambda>d. d)" "w_trace (next_session t w) = []"
  "w_drawn (next_session t w) = 0"
  by (simp_all add: next_session_def start_world_def view_def quiet_def)

lemma fresh_ids_shift: "fresh_ids k (\<lambda>n. ids (m + n)) j used = fresh_ids k ids (m + j) used"
  by (induction k arbitrary: j used) simp_all

lemma fresh_next_session:
  "fresh_ids k (w_uuids w) (w_drawn w) (ids_in_use (w_db w)) \<Longrightarrow> fresh k (next_session t w)"
  by (simp add: fresh_def) (simp add: next_session_def start_world_def fresh_ids_shift)

section \<open>The request\<close>

lemma create_keeps_findings:
  assumes "request (create_scan sync tn u data) (start_world d t [] ids) = (r, w)"
  shows "findings (w_db w) = findings d"
proof -
  have k: "keeps unstarted (\<lambda>_. True) (request (create_scan sync tn u data))"
    by (intro idle.keeps_request idle.keeps_create_scan) simp_all
  have "safe unstarted (\<lambda>_. True) (start_world d t [] ids)"
    by (intro safe_start idle.R_refl) simp
  from idle.keepsD [OF k this] assms show ?thesis by (simp add: unstarted_def start_world_def)
qed

lemma live_row_later: "live_row s t \<Longrightarrow> t \<le> t' \<Longrightarrow> live_row s t'"
  by (auto simp: live_row_def opt_ge_def split: option.splits)

lemma queued_row_live:
  assumes "storable_create c" "w_clock w \<le> t"
  shows "live_row (queued_row c w) t"
proof -
  have "live_row (queued_row c w) (w_clock w)"
    unfolding queued_row_def by (rule live_advance(2) [OF created_row_live [OF assms(1)]]) (simp_all add: terminal_def)
  then show ?thesis using live_row_later assms(2) by blast
qed

lemma job_row_live:
  "live_row s t \<Longrightarrow> length j \<le> 200 \<Longrightarrow> live_row (apply_scan_update (job_update j) t' s) t"
  using job_update_checks [of s j t'] by (simp add: live_row_def apply_scan_update_def job_update_def no_update_def)

section \<open>The tick\<close>

definition all_published :: "db \<Rightarrow> bool" where
  "all_published d \<longleftrightarrow> (\<forall>b\<in>set (outbox d). ob_published_at b \<noteq> None)"

lemma all_published_pending: "all_published d \<Longrightarrow> next_pending locked d = None"
  by (simp add: all_published_def next_pending_def order_by_def select_all_def filter_empty_conv)

lemma only_pending:
  assumes "\<And>r. r \<in> set bs \<Longrightarrow> ob_published_at r \<noteq> None" "outbox d = bs @ [b]" "ob_published_at b = None"
  shows "next_pending {} d = Some b"
proof -
  have "filter (\<lambda>r. ob_published_at r = None) bs = []" using assms(1) by (simp add: filter_empty_conv)
  then show ?thesis using assms(2,3) by (simp add: next_pending_def order_by_def select_all_def)
qed

lemma only_pending_published:
  assumes "\<And>r. r \<in> set bs \<Longrightarrow> ob_published_at r \<noteq> None" "outbox d = bs @ [b]"
  shows "all_published (update_outbox (ob_id b) (published_row t n) d)"
  using assms by (auto simp: all_published_def update_outbox_def update_where_def published_row_def)


lemma ids_in_use_update_outbox:
  assumes "\<And>b. ob_id (f b) = ob_id b"
  shows "ids_in_use (update_outbox i f d) = ids_in_use d"
proof -
  have "map ob_id (update_where (\<lambda>b. ob_id b = i) f (outbox d)) = map ob_id (outbox d)"
    by (rule map_update_where_same) (rule assms)
  then have "ob_id ` set (update_where (\<lambda>b. ob_id b = i) f (outbox d)) = ob_id ` set (outbox d)"
    by (metis list.set_map)
  then show ?thesis by (simp add: ids_in_use_def update_outbox_def)
qed

lemma update_outbox_keeps [simp]:
  "unique_scans (update_outbox i f d) = unique_scans d" "findings (update_outbox i f d) = findings d"
  by (simp_all add: unique_scans_def update_outbox_def)

text \<open>A tick over an outbox in which one row is pending sends it and finds nothing more.\<close>

lemma tick_sends_only_pending:
  fixes d :: db
  assumes w: "w_db w = d" and bs: "\<And>r. r \<in> set bs \<Longrightarrow> ob_published_at r \<noteq> None"
    and b: "outbox d = bs @ [b]" "ob_published_at b = None" "outbox_checks b"
    and p: "scan_job_payload_from_dict (ob_payload b) = Inr p"
    and j: "jq_enqueue_scan q p (ob_countdown_seconds b) = Returns j" "length j \<le> 200"
    and s: "find_scan (ob_tenant_id b) (ob_scan_id b) d = Some s" "scan_checks s" "unique_scans d"
    and f: "fresh_ids k (w_uuids w) (w_drawn w) (ids_in_use d)"
  shows "\<exists>w'. dispatch_pending_outbox q (\<lambda>_. {}) (Suc (Suc n)) (next_session t w) = (Inr 1, w') \<and>
    all_published (w_db w') \<and> findings (w_db w') = findings d \<and> unique_scans (w_db w') \<and>
    find_scan (ob_tenant_id b) (ob_scan_id b) (w_db w') = Some (apply_scan_update (job_update j) t s) \<and>
    w_trace w' = [SentJob p (ob_countdown_seconds b), Log ''outbox_dispatcher.published''] \<and>
    fresh_ids k (w_uuids w') (w_drawn w') (ids_in_use (w_db w'))"
proof -
  let ?w = "next_session t w"
  let ?d = "update_outbox (ob_id b) (published_row t (ob_attempt_count b + 1))
    (update_scans (\<lambda>r. sc_id r = ob_scan_id b) (job_update j) t d)"
  have v: "view ?w = d" "w_clock ?w = t" "quiet ?w" "w_trace ?w = []" using w by simp_all
  have n: "next_pending {} (view ?w) = Some b" unfolding v(1) by (rule only_pending [OF bs b(1,2)])
  obtain w1 where d: "dispatch_one q {} ?w = (Inr True, w1)"
    and w1: "find_scan (ob_tenant_id b) (ob_scan_id b) (w_db w1) = Some (apply_scan_update (job_update j) t s)"
      "w_trace w1 = [SentJob p (ob_countdown_seconds b), Log ''outbox_dispatcher.published'']"
      "quiet w1" "w_pend w1 = (\<lambda>d. d)" "w_uuids w1 = w_uuids ?w" "w_drawn w1 = w_drawn ?w" "w_db w1 = ?d"
    using dispatch_one_published [OF v(3) n p j, of s] s b(3) unfolding v(1,2,4) by auto
  have o: "outbox (update_scans (\<lambda>r. sc_id r = ob_scan_id b) (job_update j) t d) = bs @ [b]"
    using b(1) by (simp add: update_scans_def)
  have pub: "all_published (w_db w1)" unfolding w1(7) by (rule only_pending_published [OF bs o])
  then have e: "next_pending {} (w_db w1) = None" by (rule all_published_pending)
  obtain w' where w': "dispatch_pending_outbox q (\<lambda>_. {}) (Suc (Suc n)) ?w = (Inr 1, w')"
      "w_db w' = w_db w1" "w_trace w' = w_trace w1" "w_uuids w' = w_uuids w1" "w_drawn w' = w_drawn w1"
    using dispatch_single [of q "\<lambda>_. {}", OF d w1(3,4) e] by blast
  have "findings ?d = findings d" "unique_scans ?d" using s(3) by simp_all
  moreover have "ids_in_use ?d = ids_in_use d"
    by (simp add: ids_in_use_update_outbox published_row_def)
  ultimately show ?thesis
    using w' w1 pub f by (intro exI [of _ w']) (simp add: next_session_def start_world_def fresh_ids_shift)
qed

section \<open>The execution\<close>

text \<open>A plugin that accepts this context at time \<open>t\<close> and finds \<open>ns\<close>.\<close>

definition plugin_ready ::
    "(string \<Rightarrow> string) \<Rightarrow> scanner_plugin \<Rightarrow> int \<Rightarrow> normalized_finding list \<Rightarrow> scan_context \<Rightarrow> bool" where
  "plugin_ready sha pl t ns cx \<longleftrightarrow> pl_validate_config pl cx t = Returns () \<and> plugin_succeeds pl cx t ns \<and>
     list_all (detection_fits sha cx) ns"

lemma completed_row_result:
  "sc_status (completed_row s worker t) = SUCCEEDED" "sc_attempt (completed_row s worker t) = sc_attempt s"
  "sc_completed_at (completed_row s worker t) = Some t"
  by (simp_all add: completed_row_def)
    (simp_all add: advance_def transition_fields_def apply_scan_update_def no_update_def
      processing_row_def stage_row_def or_now_def)

lemma worker_executes:
  assumes s: "queued_scan tn i s (next_session t w)" and f: "fresh (3 * length ns + 5) (next_session t w)"
    and reg: "registry_get (en_registry en) (sc_scanner_type s) = Inr pl"
    and ready: "\<And>cx. cx_tenant_id cx = tn \<Longrightarrow> cx_scan_id cx = i \<Longrightarrow> cx_asset_id cx = sc_asset_id s \<Longrightarrow>
      length (cx_correlation_id cx) \<le> 100 \<Longrightarrow> plugin_ready (en_sha256 en) pl t ns cx"
    and cl: "cleanup_raises_exceptions pl" and h: "h \<noteq> []" "length h \<le> 200"
    and past: "findings_past (next_session t w)" and uniq: "findings_unique (w_db w)"
    and p: "jp_scan_id p = i" "jp_tenant_id p = tn"
  shows "\<exists>w' s' cx. execute_scan en (Some h) rid (task_kwargs p) (next_session t w) = (Inr (), w') \<and>
    find_scan tn i (w_db w') = Some s' \<and> sc_status s' = SUCCEEDED \<and> sc_attempt s' = sc_attempt s + 1 \<and>
    sc_completed_at s' = Some t \<and> outbox (w_db w') = outbox (w_db w) \<and> findings_unique (w_db w') \<and>
    cx_scan_id cx = i \<and> cx_tenant_id cx = tn \<and> cx_asset_id cx = sc_asset_id s \<and>
    keys_of (w_db w') = keys_of (w_db w) \<union> detected_key (en_sha256 en) cx ` set ns"
proof -
  let ?w = "(next_session t w)\<lparr>w_trace := [Log ''scan_engine.task_received'']\<rparr>"
  let ?cx = "context_of (claimed_row s h t) tn (corr_of s)"
  have q: "queued_scan tn i s ?w" "w_clock ?w = t" "view ?w = w_db w" using s by (simp_all add: queued_scan_def)
  have id: "sc_id s = i" using s by (auto simp: queued_scan_def dest!: find_scan_SomeD)
  have "length (corr_of s) \<le> 100" using s corr_of_length by (simp add: queued_scan_def live_row_def)
  then have r: "plugin_ready (en_sha256 en) pl t ns ?cx" "cx_scan_id ?cx = i" "cx_tenant_id ?cx = tn"
      "cx_asset_id ?cx = sc_asset_id s"
    using ready [of ?cx] id
    by (simp_all add: context_of_def claimed_row_def apply_scan_update_def)
  have f': "fresh (3 * length ns + 5) ?w" by (rule fresh_same [OF f]) simp_all
  have past': "findings_past ?w" using past by (simp add: findings_past_def)
  obtain w1 where w1: "run en tn i h ?w = (Inr (), w1)" "quiet w1" "view w1 = w_db w1"
      "find_scan tn i (w_db w1) = Some (completed_row (claimed_row s h t) h t)"
      "outbox (w_db w1) = outbox (w_db w)" "findings_unique (w_db w1)"
      "keys_of (w_db w1) = keys_of (w_db w) \<union> detected_key (en_sha256 en) ?cx ` set ns"
    using run_quiet_success [OF q(1) f' h(2) reg _ _ cl _ past', unfolded q(2,3)] r(1) uniq
    by (auto simp: plugin_ready_def list_all_iff)
  have "execute_scan en (Some h) rid (task_kwargs p) (next_session t w) = scan_task en i tn h ?w"
    using execute_scan_kwargs [of "Some h" en rid p "next_session t w"] h(1) p by (simp add: truthy_def or_default_def)
  also have "\<dots> = (Inr (), w1\<lparr>w_pend := (\<lambda>d. d)\<rparr>)"
    using w1(1-3) by (simp add: scan_task_def run_simps(4,5) quiet_commit)
  finally show ?thesis
    using w1(4-7) r(2-4)
    by (intro exI [of _ "w1\<lparr>w_pend := (\<lambda>d. d)\<rparr>"]
        exI [of _ "completed_row (claimed_row s h t) h t"] exI [of _ ?cx]) (simp add: completed_row_result)
qed

section \<open>From the request to the findings\<close>

lemma queued_job_row:
  fixes t' :: int
  assumes c: "storable_create (request_create tn u data)" and t: "w_clock w \<le> t" and j: "length j \<le> 200"
  defines "s \<equiv> apply_scan_update (job_update j) t' (queued_row (request_create tn u data) w)"
  shows "live_row s t" "sc_status s = QUEUED" "sc_attempt s = 0" "sc_attempt s < sc_max_attempts s"
    "truthy (sc_correlation_id s)" "sc_scanner_type s = rq_scanner_type data" "sc_asset_id s = rq_asset_id data"
proof -
  show "live_row s t" unfolding s_def by (rule job_row_live [OF queued_row_live [OF c t] j])
  have "0 < sc_max_attempts (created_row (request_create tn u data) w)"
    using c by (simp add: created_row_def new_scan_def storable_create_def)
  then show "sc_attempt s < sc_max_attempts s" "sc_status s = QUEUED" "sc_attempt s = 0"
    "truthy (sc_correlation_id s)" "sc_scanner_type s = rq_scanner_type data" "sc_asset_id s = rq_asset_id data"
    by (simp_all add: s_def queued_row_def request_create_def truthy_def)
qed

text \<open>The request and the tick: the job of the new scan is sent, and nothing is left to send.\<close>

lemma created_and_sent:
  assumes w: "fresh (k + 4) (start_world d t0 [] ids)" "unique_scans d" "outbox_refs d" "event_refs d"
    and known: "all_published d"
    and p: "find_project tn (rq_project_id data) d = Some pr"
    and a: "find_asset tn (rq_asset_id data) d = Some as" "as_project_id as = rq_project_id data"
    and c: "\<not> config_too_big (rq_config data)" "storable_create (request_create tn u data)"
    and job: "\<And>p. jq_enqueue_scan q p 0 = Returns j" "length j \<le> 200"
  defines "s0 \<equiv> queued_row (request_create tn u data) (start_world d t0 [] ids)"
  shows "\<exists>job w1 w2.
    request (create_scan sync tn u data) (start_world d t0 [] ids) = (Inr (scan_read_of s0), w1) \<and>
    dispatch_pending_outbox q (\<lambda>_. {}) (Suc (Suc n)) (next_session t1 w1) = (Inr 1, w2) \<and>
    w_trace w2 = [SentJob job 0, Log ''outbox_dispatcher.published''] \<and>
    jp_scan_id job = sc_id s0 \<and> jp_tenant_id job = tn \<and> all_published (w_db w2) \<and>
    findings (w_db w2) = findings d \<and> unique_scans (w_db w2) \<and>
    find_scan tn (sc_id s0) (w_db w2) = Some (apply_scan_update (job_update j) t1 s0) \<and>
    fresh k (next_session t2 w2)"
proof -
  let ?w0 = "start_world d t0 [] ids"
  have v: "quiet ?w0" "view ?w0 = d" "w_clock ?w0 = t0" by (simp_all add: start_world_def quiet_def view_def)
  have f: "fresh (Suc (Suc (Suc (Suc k)))) ?w0"
    using w(1) by (simp add: numeral_eq_Suc)
  obtain b w1 where r1: "request (create_scan sync tn u data) ?w0 = (Inr (scan_read_of s0), w1)"
    and w1: "find_scan tn (sc_id s0) (w_db w1) = Some s0" "unique_scans (w_db w1)"
      "outbox (w_db w1) = outbox d @ [b]" "ob_published_at b = None" "ob_countdown_seconds b = 0"
      "outbox_checks b" "outbox_key b = (tn, sc_id s0, 0)"
      "fresh k w1" "view w1 = w_db w1"
    and pay: "scan_job_payload_from_dict (ob_payload b) = Inr \<lparr>jp_scan_id = sc_id s0, jp_tenant_id = tn,
      jp_correlation_id = uuid_str (w_uuids ?w0 (w_drawn ?w0))\<rparr>"
    using create_scan_quiet [OF v(1) f, unfolded v(2), OF w(2-4) p a c, of sync, folded s0_def] by blast
  let ?job = "\<lparr>jp_scan_id = sc_id s0, jp_tenant_id = tn, jp_correlation_id = uuid_str (w_uuids ?w0 (w_drawn ?w0))\<rparr>"
  have id: "ob_tenant_id b = tn" "ob_scan_id b = sc_id s0" using w1(7) by (simp_all add: outbox_key_def)
  have live0: "scan_checks s0" using queued_row_live [OF c(2), of ?w0 t0] v(3) by (simp add: live_row_def s0_def)
  have old: "ob_published_at r \<noteq> None" if "r \<in> set (outbox d)" for r
    using known(1) that by (simp add: all_published_def)
  have j: "jq_enqueue_scan q ?job (ob_countdown_seconds b) = Returns j" using job(1) w1(5) by simp
  have f1: "fresh_ids k (w_uuids w1) (w_drawn w1) (ids_in_use (w_db w1))"
    using w1(8,9) by (simp add: fresh_def)
  obtain w2 where r2: "dispatch_pending_outbox q (\<lambda>_. {}) (Suc (Suc n)) (next_session t1 w1) = (Inr 1, w2)"
    and w2: "all_published (w_db w2)" "findings (w_db w2) = findings (w_db w1)" "unique_scans (w_db w2)"
      "find_scan tn (sc_id s0) (w_db w2) = Some (apply_scan_update (job_update j) t1 s0)"
      "w_trace w2 = [SentJob ?job 0, Log ''outbox_dispatcher.published'']"
      "fresh_ids k (w_uuids w2) (w_drawn w2) (ids_in_use (w_db w2))"
    using tick_sends_only_pending [OF refl old w1(3,4,6) pay j job(2) _ live0 w1(2) f1] w1(1,5) unfolding id
    by auto
  have "findings (w_db w2) = findings d" using create_keeps_findings [OF r1] w2(2) by simp
  then show ?thesis using r1 r2 w2(1,3-5) fresh_next_session [OF w2(6), of t2]
    by (intro exI [of _ ?job] exI [of _ w1] exI [of _ w2]) simp
qed

text \<open>C3 (from the request to the findings): a request that creates a scan, the next dispatcher
  tick and the delivery of the message it sends, each a session of its own, together execute
  the scan: the tick sends exactly this scan's job and leaves no row unpublished, and a worker
  that is given the message, and whose registry has the scanner, ends with the scan
  \<open>SUCCEEDED\<close> after one attempt and with every fingerprint the plugin detected stored once for
  the requested asset.\<close>

theorem requested_scan_is_executed:
  assumes w: "fresh (3 * length ns + 9) (start_world d t0 [] ids)" "unique_scans d" "outbox_refs d" "event_refs d"
    and known: "all_published d" "findings_past (start_world d t0 [] ids)" "findings_unique d"
    and p: "find_project tn (rq_project_id data) d = Some pr"
    and a: "find_asset tn (rq_asset_id data) d = Some as" "as_project_id as = rq_project_id data"
    and c: "\<not> config_too_big (rq_config data)" "storable_create (request_create tn u data)"
    and job: "\<And>p. jq_enqueue_scan q p 0 = Returns j" "length j \<le> 200"
    and reg: "registry_get (en_registry en) (rq_scanner_type data) = Inr pl"
    and ready: "\<And>cx. cx_tenant_id cx = tn \<Longrightarrow> cx_asset_id cx = rq_asset_id data \<Longrightarrow>
      length (cx_correlation_id cx) \<le> 100 \<Longrightarrow> plugin_ready (en_sha256 en) pl t2 ns cx"
    and cl: "cleanup_raises_exceptions pl" and h: "h \<noteq> []" "length h \<le> 200" and t: "t0 \<le> t2"
  shows "\<exists>r job w1 w2 w3 s cx.
    request (create_scan sync tn u data) (start_world d t0 [] ids) = (Inr r, w1) \<and> sr_status r = QUEUED \<and>
    dispatch_pending_outbox q (\<lambda>_. {}) (Suc (Suc n)) (next_session t1 w1) = (Inr 1, w2) \<and>
    w_trace w2 = [SentJob job 0, Log ''outbox_dispatcher.published''] \<and> jp_scan_id job = sr_id r \<and>
    execute_scan en (Some h) rid (task_kwargs job) (next_session t2 w2) = (Inr (), w3) \<and>
    find_scan tn (sr_id r) (w_db w3) = Some s \<and> sc_status s = SUCCEEDED \<and> sc_attempt s = 1 \<and>
    sc_completed_at s = Some t2 \<and> all_published (w_db w3) \<and> findings_unique (w_db w3) \<and>
    cx_scan_id cx = sr_id r \<and> cx_tenant_id cx = tn \<and> cx_asset_id cx = rq_asset_id data \<and>
    keys_of (w_db w3) = keys_of d \<union> detected_key (en_sha256 en) cx ` set ns"
proof -
  let ?s0 = "queued_row (request_create tn u data) (start_world d t0 [] ids)"
  let ?s1 = "apply_scan_update (job_update j) t1 ?s0"
  have v: "view (start_world d t0 [] ids) = d" "w_clock (start_world d t0 [] ids) = t0"
    by (simp_all add: start_world_def view_def)
  have f: "fresh (3 * length ns + 5 + 4) (start_world d t0 [] ids)" using w(1) by (simp add: numeral_eq_Suc)
  obtain job w1 w2 where r: "request (create_scan sync tn u data) (start_world d t0 [] ids) = (Inr (scan_read_of ?s0), w1)"
      "dispatch_pending_outbox q (\<lambda>_. {}) (Suc (Suc n)) (next_session t1 w1) = (Inr 1, w2)"
      "w_trace w2 = [SentJob job 0, Log ''outbox_dispatcher.published'']"
    and job_id: "jp_scan_id job = sc_id ?s0" "jp_tenant_id job = tn"
    and w2: "all_published (w_db w2)" "findings (w_db w2) = findings d" "unique_scans (w_db w2)"
      "find_scan tn (sc_id ?s0) (w_db w2) = Some ?s1" "fresh (3 * length ns + 5) (next_session t2 w2)"
    using created_and_sent [OF f w(2-4) known(1) p a c job, of sync n t1 t2] by blast
  note row = queued_job_row [OF c(2), of "start_world d t0 [] ids" t2 j t1, unfolded v(2), OF t job(2)]
  have q: "queued_scan tn (sc_id ?s0) ?s1 (next_session t2 w2)"
    using w2(3,4) row(1,2,4,5) by (simp add: queued_scan_def)
  have past: "findings_past (next_session t2 w2)"
    using known(2) t by (auto simp: findings_past_def w2(2) v)
  have known2: "findings_unique (w_db w2)" "keys_of (w_db w2) = keys_of d"
    using known(3) by (simp_all add: findings_unique_def keys_of_def w2(2))
  have reg2: "registry_get (en_registry en) (sc_scanner_type ?s1) = Inr pl" using reg row(6) by simp
  have ready2: "plugin_ready (en_sha256 en) pl t2 ns cx"
    if "cx_tenant_id cx = tn" "cx_scan_id cx = sc_id ?s0" "cx_asset_id cx = sc_asset_id ?s1"
      "length (cx_correlation_id cx) \<le> 100" for cx
    using ready that row(7) by simp
  obtain w3 s cx where "execute_scan en (Some h) rid (task_kwargs job) (next_session t2 w2) = (Inr (), w3)"
    "find_scan tn (sc_id ?s0) (w_db w3) = Some s" "sc_status s = SUCCEEDED" "sc_attempt s = 1"
    "sc_completed_at s = Some t2" "outbox (w_db w3) = outbox (w_db w2)" "findings_unique (w_db w3)"
    "cx_scan_id cx = sc_id ?s0" "cx_tenant_id cx = tn" "cx_asset_id cx = rq_asset_id data"
    "keys_of (w_db w3) = keys_of d \<union> detected_key (en_sha256 en) cx ` set ns"
    using worker_executes [OF q w2(5) reg2 ready2 cl h past known2(1) job_id, of rid] row(3,7) known2(2)
    by (simp del: fun_upd_apply) blast
  moreover from this have "all_published (w_db w3)" using w2(1) by (simp add: all_published_def)
  moreover have "sr_id (scan_read_of ?s0) = sc_id ?s0" "sr_status (scan_read_of ?s0) = QUEUED"
    by (simp_all add: scan_read_of_def queued_row_def)
  ultimately show ?thesis using r job_id
    by (intro exI [of _ "scan_read_of ?s0"] exI [of _ job] exI [of _ w1] exI [of _ w2] exI [of _ w3]
        exI [of _ s] exI [of _ cx]) simp
qed

lemma demo_plugin_ready:
  assumes "length (cx_correlation_id cx) \<le> 100"
  shows "plugin_ready (en_sha256 (demo_engine pl)) (demo_plugin (Returns ()) (Returns [demo_finding])) t [demo_finding] cx"
  using assms
  by (simp add: plugin_ready_def plugin_succeeds_def detection_fits_def finding_fits_def demo_finding_def
      demo_engine_def demo_plugin_def finding_of_def compute_fingerprint_def)

theorem requested_scan_is_executed_witness:
  "\<exists>r job w1 w2 w3 s.
     request (create_scan True 2 None demo_request) (start_world (db_with []) 200 [] demo_ids) = (Inr r, w1) \<and>
     dispatch_pending_outbox (demo_queue (Returns ''job-1'')) (\<lambda>_. {}) 2 (next_session 210 w1) = (Inr 1, w2) \<and>
     execute_scan (demo_engine (demo_plugin (Returns ()) (Returns [demo_finding]))) (Some ''w'') None
       (task_kwargs job) (next_session 220 w2) = (Inr (), w3) \<and>
     find_scan 2 (sr_id r) (w_db w3) = Some s \<and> sc_status s = SUCCEEDED \<and> card (keys_of (w_db w3)) = 1"
proof -
  let ?w = "start_world (db_with []) 200 [] demo_ids"
  let ?pl = "demo_plugin (Returns ()) (Returns [demo_finding])"
  have w: "view ?w = db_with []" by (simp add: start_world_def view_def)
  have "fresh_ids 12 demo_ids 0 {}" by (simp add: demo_ids_inject numeral_eq_Suc)
  then have f: "fresh (3 * length [demo_finding] + 9) ?w"
    by (simp add: fresh_def w ids_in_use_def) (simp add: start_world_def)
  have k: "all_published (db_with [])" "findings_past ?w" "findings_unique (db_with [])" "unique_scans (db_with [])"
    "outbox_refs (db_with [])" "event_refs (db_with [])"
    by (simp_all add: all_published_def findings_past_def findings_unique_def w unique_scans_def
        outbox_refs_def event_refs_def)
  have a: "find_project 2 (rq_project_id demo_request) (db_with []) = Some demo_project"
    "find_asset 2 (rq_asset_id demo_request) (db_with []) = Some demo_asset"
    "as_project_id demo_asset = rq_project_id demo_request"
    by (simp_all add: find_asset_def find_project_def db_with_def demo_asset_def demo_project_def demo_request_def)
  have c: "\<not> config_too_big (rq_config demo_request)" "storable_create (request_create 2 None demo_request)"
    by (simp_all add: storable_create_def request_create_def demo_request_def truthy_def val_or_def config_too_big_def)
  have q: "jq_enqueue_scan (demo_queue (Returns ''job-1'')) p 0 = Returns ''job-1''" for p
    by (simp add: demo_queue_def)
  have r: "registry_get (en_registry (demo_engine ?pl)) (rq_scanner_type demo_request) = Inr ?pl"
    by (simp add: demo_engine_def registry_get_def demo_request_def)
  have cl: "cleanup_raises_exceptions ?pl" by (simp add: cleanup_raises_exceptions_def demo_plugin_def)
  from requested_scan_is_executed [OF f k(4-6,1-3) a c q _ r demo_plugin_ready cl, of "''w''" 220 True 0 210 None]
  show ?thesis
    by (simp add: keys_of_def numeral_2_eq_2) (metis Un_empty_left card_1_singleton_iff One_nat_def)
qed

end
