(* ===== verification/Spec2Isabelle.thy ===== *)
theory Spec2Isabelle
  imports Execution_Properties Attempt_Properties Service_Properties Access_Properties Session_Properties
    Key_Properties Guard_Properties Data_Properties Migration_Properties Orm_Properties
    Redaction_Properties Platform_Properties Application Deployment_Properties Logging_Setup Http_Application
    Read_Schemas Resource_Updates End_To_End
begin

text \<open>
  A model of the SentinelX platform backend (\<open>src/backend/app\<close>) and of what makes it correct.

  The program.  SentinelX is a multi-tenant API that schedules security scans.  A request
  creates a scan together with a row of a transactional outbox; a periodic dispatcher
  sends outbox rows to a task queue; a worker executes one attempt of a scan through a
  scanner plugin, stores the findings, and moves the scan along a state machine; other
  requests watch, cancel and retry it.  Requests come from users with access tokens or from
  API keys; users register, log in, rotate refresh tokens, and manage members and keys.

  How it is modelled.  Each class of the source that holds data is a record, each enum a
  datatype, each method a definition in the program monad of \<open>Session\<close>: a function of a
  world (committed database, this session's pending writes, loaded objects, clock, Redis,
  effects) to a result or a Python exception and the world after it.  Between two
  statements a script lets the environment commit anything, let time pass, or cancel the
  task, so that one program covers every interleaving with the sessions of others.

  The theories and the code they model (file names under \<open>backend/app\<close>):
  \<^item> \<open>Prelude\<close>, \<open>Uuid\<close>, \<open>Enums\<close>, \<open>Models\<close>, \<open>Exceptions\<close>: tables and statements on them,
    identifiers, \<open>models/enums.py\<close>, the rows of \<open>models/*.py\<close> with their constraints, the
    exception classes.
  \<^item> \<open>Session\<close>: \<open>db/session.py\<close> and the program monad, with the calculus in which the invariants
    are proved (\<open>keeps\<close>, locale \<open>db_relation\<close>): whatever the environment does, what a program does
    to the database is the moves of its environment with steps of its own between them
    (\<open>interleaved\<close>); when the environment is bound to the same relation, so is the whole.
  \<^item> \<open>Job_Queue\<close>, \<open>Scan_Repositories\<close>, \<open>Finding_Repositories\<close>, \<open>Project_Repositories\<close>,
    \<open>Resource_Updates\<close>: \<open>scan_engine/job_queue.py\<close> and the repositories with the schemas that
    feed them.
  \<^item> \<open>State_Machine\<close>, \<open>Retry_Policy\<close>, \<open>Scan_Progress\<close>, \<open>Scanner_Plugins\<close>, \<open>Event_Bus\<close>,
    \<open>Finding_Pipeline\<close>, \<open>Error_Sanitization\<close>, \<open>Artifact_Storage\<close>: the modules of
    \<open>scan_engine\<close> of these names, and \<open>core/error_sanitization.py\<close>.
  \<^item> \<open>Orchestrator\<close>, \<open>Scan_Service\<close>, \<open>Outbox_Dispatcher\<close>: \<open>scan_engine/orchestrator.py\<close>,
    \<open>services/scan_service.py\<close>, \<open>workers/tasks\<close>.
  \<^item> \<open>Configuration\<close>: \<open>core/config.py\<close> in full and what a process builds from it, the engine
    and sessions of \<open>db/session.py\<close>, the client of \<open>core/redis_client.py\<close>, the scan engine of
    \<open>scan_engine/bootstrap.py\<close>, and the two Celery tasks with all that.
  \<^item> \<open>Task_Queues\<close>, \<open>Deployment\<close>: \<open>workers/celery_app.py\<close>, the command lines of
    \<open>docker-compose.yml\<close>, the broker, and the site as a step relation: requests, beat, and
    workers that run what the broker gives them.
  \<^item> \<open>Security\<close>, \<open>Redis_State\<close>, \<open>Identity_Repositories\<close>, \<open>Token_Repositories\<close>,
    \<open>Auth_Service\<close>, \<open>API_Key_Service\<close>, \<open>Access_Control\<close>: \<open>core/security.py\<close>,
    \<open>core/token_denylist.py\<close>, \<open>core/rate_limit.py\<close>, the identity and credential repositories,
    \<open>services/auth_service.py\<close>, \<open>services/api_key_service.py\<close>, \<open>core/permissions.py\<close> and
    \<open>api/deps.py\<close>.
  \<^item> \<open>Common_Schemas\<close>, \<open>Endpoints\<close>, \<open>Application\<close>: \<open>schemas/common.py\<close>, the endpoint
    modules with \<open>core/error_handlers.py\<close>, security headers, health and the seed.
  \<^item> \<open>Http_Application\<close>: \<open>main.py\<close>, its middleware in their order, and the routes of
    \<open>api/v1/router.py\<close>.
  \<^item> \<open>Logging_Setup\<close>: \<open>core/logging.py\<close> as \<open>main.py\<close> runs it, on top of the handlers and levels that
    libraries have installed, and the mail stub of \<open>services/email_service.py\<close>.
  \<^item> \<open>Regex\<close>, \<open>Log_Redaction\<close>: the part of Python's \<open>re\<close> that \<open>core/log_redaction.py\<close> uses, as a
    backtracking matcher, and that module.
  \<^item> \<open>Schema\<close>, \<open>Migrations\<close>: \<open>alembic.op\<close> as statements on a schema, with the errors of
    PostgreSQL's DDL and rows checked under SQL's three-valued logic, and the four revisions
    of \<open>alembic/versions\<close>, column by column.
  \<^item> \<open>Orm\<close>, \<open>Orm_Models\<close>: the declarations of \<open>models/*.py\<close> with the mixins and the naming
    convention of \<open>db/base.py\<close>, and the tables SQLAlchemy builds from them.
  \<^item> \<open>Read_Schemas\<close>: the schemas of \<open>schemas/*.py\<close> that rows are returned through.

  What the lemmas show.  \<open>Scan_Relations\<close> and \<open>Scan_System\<close> prove, for sessions that
  interleave without restriction, that the committed database only evolves along the state
  machine and that a session stays in its tenant.  What a session may do is a locale, split by
  how much it writes: requests, scan sessions that claim and record findings, dispatcher ticks,
  and their union; each invariant interprets the weakest that it needs.  \<open>Identity_Relations\<close> and \<open>Platform\<close> do so for
  the credentials and for every endpoint.  \<open>Secret_Shapes\<close> shows which secrets a substitution
  by patterns removes.  \<open>Quiet_Runs\<close>, \<open>Quiet_Steps\<close>,
  \<open>Run_Outcomes\<close>, \<open>Run_Failures\<close>, \<open>Service_Outcomes\<close> and \<open>Dispatch_Outcomes\<close> compute the
  exact result of each operation of the scan side when nothing interferes, and
  \<open>Access_Runs\<close>, \<open>Access_Outcomes\<close> and \<open>Principal_Outcomes\<close> those of the access side (what is
  written, as a function \<open>after\<close> of the database, and what is committed).
  \<open>Token_Families\<close> shows that the refresh-token table refines an abstract protocol of
  single-use tokens, and \<open>Overlaps\<close> runs two requests that overlap.  \<open>Scenarios\<close> and
  \<open>Access_Scenarios\<close> hold the concrete worlds on which the witnesses evaluate.

  The properties are in the theories whose names end in \<open>_Properties\<close>: \<open>Execution\<close> (all
  interleavings), \<open>Attempt\<close> (one attempt of a scan, success and every failure), \<open>Service\<close>
  (scan requests and the dispatcher), \<open>Access\<close> (login, rotation, races), \<open>Session\<close>
  (password reset, bearer tokens), \<open>Key\<close> (API keys), \<open>Guard\<close> (rate limits, denylist),
  \<open>Data\<close> (artifacts, fingerprints, retry delays), \<open>Redaction\<close> (log entries), \<open>Platform\<close> (all
  sessions together), \<open>Migration\<close> (the revisions and their downgrades, the schema at the head,
  and how far its tables and the model's checks accept the same rows), which rests on the schemas
  that \<open>Migration_Runs\<close> computes, and \<open>Orm\<close> (that the schema at the head is the one the classes
  declare).  The other properties stand with what they are about: which messages reach a
  deployed worker and what it makes of them (\<open>Deployment_Properties\<close>), that the lines the
  API process writes itself are redacted, and which are not (\<open>Logging_Setup\<close>), that every
  stored row can be returned (\<open>Read_Schemas\<close>), and that a request, a dispatcher tick and a
  delivery one after the other take a scan from its creation to its findings (\<open>End_To_End\<close>).

  Bounds and fuel.  No definition runs on fuel: loops are structural recursions, or
  \<open>function\<close>s with a measure (\<open>Artifact_Storage.realpath_loop\<close>).  Timestamps are integers
  (microseconds), identifiers 128-bit words, Python integers are \<open>int\<close> with the 32-bit
  range of the \<open>Integer\<close> columns in the row checks.

  Parameters.  Scanner plugins, the task queue, SHA-256, Argon2, the JWT library and the
  random generator are arguments; what is assumed of them is stated as a named predicate
  where it is needed.

  Of the libraries the model has what they document: Starlette's order of middleware, Celery's
  choice of queues, structlog's chain of processors, the hierarchy of Python's loggers.

  Not modelled: the parsing of request bodies, the cross-origin middleware, the rendering of
  log lines, the S3, Sentry and telemetry settings, which nothing reads, and \<open>alembic/env.py\<close>;
  a migration is its effect on the schema, not on rows already stored.  SQL
  is modelled as the effect of each statement on the tables at READ COMMITTED; row locks
  appear as the parameter \<open>locked\<close> of the dispatcher's \<open>SKIP LOCKED\<close> query.
\<close>

end
